(* ===== verification/Prelude.thy ===== *)
theory Prelude
  imports Complex_Main "HOL-Library.Word" "HOL-Library.Sublist" "HOL-Library.Char_ord"
begin

section \<open>Shared types, string operations and interfaces\<close>

text \<open>
  What every component theory uses: the machine integer types of the Rust source as words of
  their width, the operations of \<open>str\<close>, \<open>Option\<close> and \<open>Result\<close> that the source calls, written
  as executable functions with their characteristic lemmas, and the interfaces (locales) that
  several components implement.

  A Rust \<open>String\<close> is modelled as a HOL \<open>string\<close>, a list of 8-bit characters (its UTF-8 bytes).
  Case conversion is the ASCII part of \<open>to_lowercase\<close>/\<open>to_uppercase\<close>: bytes outside ASCII are
  left unchanged. \<open>f64\<close> prices are exact rationals; an \<open>Instant\<close> is a number of nanoseconds.
\<close>

type_synonym u8 = "8 word"
type_synonym u16 = "16 word"
type_synonym u32 = "32 word"
type_synonym u64 = "64 word"
type_synonym f64 = rat
type_synonym instant = nat

named_theorems str_simps \<open>characteristic equations of the string operations\<close>
named_theorems store_laws \<open>lookup laws of the stores\<close>

abbreviation u64_max :: nat where "u64_max \<equiv> 2 ^ 64 - 1"

definition from_secs :: "nat \<Rightarrow> nat" where
  "from_secs s = s * 1000000000"

definition from_millis :: "nat \<Rightarrow> nat" where
  "from_millis ms = ms * 1000000"

definition as_millis :: "nat \<Rightarrow> nat" where
  "as_millis ns = ns div 1000000"

subsection \<open>Option and Result\<close>

definition unwrap_or :: "'a \<Rightarrow> 'a option \<Rightarrow> 'a" where
  "unwrap_or d x = (case x of None \<Rightarrow> d | Some v \<Rightarrow> v)"

lemma unwrap_or_simps [simp]: "unwrap_or d None = d" "unwrap_or d (Some v) = v"
  by (simp_all add: unwrap_or_def)

text \<open>\<open>Option::or\<close>: the first operand wins when it is present.\<close>

definition opt_or :: "'a option \<Rightarrow> 'a option \<Rightarrow> 'a option" where
  "opt_or x y = (case x of None \<Rightarrow> y | Some v \<Rightarrow> Some v)"

lemma opt_or_simps [simp]: "opt_or None y = y" "opt_or (Some v) y = Some v" "opt_or x None = x"
  by (simp_all add: opt_or_def split: option.splits)

definition ok_or :: "'e \<Rightarrow> 'a option \<Rightarrow> 'e + 'a" where
  "ok_or e x = (case x of None \<Rightarrow> Inl e | Some v \<Rightarrow> Inr v)"

lemma ok_or_simps [simp]: "ok_or e None = Inl e" "ok_or e (Some v) = Inr v"
  by (simp_all add: ok_or_def)

text \<open>The \<open>?\<close> operator: stop at the first error.\<close>

definition and_then :: "'e + 'a \<Rightarrow> ('a \<Rightarrow> 'e + 'b) \<Rightarrow> 'e + 'b" where
  "and_then r f = (case r of Inl e \<Rightarrow> Inl e | Inr v \<Rightarrow> f v)"

lemma and_then_simps [simp]: "and_then (Inl e) f = Inl e" "and_then (Inr v) f = f v"
  by (simp_all add: and_then_def)

lemma and_then_Inr_iff: "and_then r f = Inr b \<longleftrightarrow> (\<exists>a. r = Inr a \<and> f a = Inr b)"
  by (cases r) auto

subsection \<open>Characters and case\<close>

definition lower_char :: "char \<Rightarrow> char" where
  "lower_char c = (let n = (of_char c :: nat) in
     if 65 \<le> n \<and> n \<le> 90 then char_of (n + 32) else c)"

definition upper_char :: "char \<Rightarrow> char" where
  "upper_char c = (let n = (of_char c :: nat) in
     if 97 \<le> n \<and> n \<le> 122 then char_of (n - 32) else c)"

definition to_lowercase :: "string \<Rightarrow> string" where
  "to_lowercase s = map lower_char s"

definition to_uppercase :: "string \<Rightarrow> string" where
  "to_uppercase s = map upper_char s"

lemma of_char_lower_char:
  "(of_char (lower_char c) :: nat) =
     (if 65 \<le> (of_char c :: nat) \<and> (of_char c :: nat) \<le> 90 then of_char c + 32 else of_char c)"
  by (simp add: lower_char_def Let_def)

lemma lower_char_idem [simp]: "lower_char (lower_char c) = lower_char c"
proof -
  have "(of_char (lower_char (lower_char c)) :: nat) = of_char (lower_char c)"
    by (simp add: of_char_lower_char)
  then show ?thesis by (metis char_of_char)
qed

lemma to_lowercase_idem [simp]: "to_lowercase (to_lowercase s) = to_lowercase s"
  by (simp add: to_lowercase_def)

lemma to_lowercase_append [simp]: "to_lowercase (s @ t) = to_lowercase s @ to_lowercase t"
  by (simp add: to_lowercase_def)

definition replace_chars :: "char list \<Rightarrow> char \<Rightarrow> string \<Rightarrow> string" where
  "replace_chars froms to s = map (\<lambda>c. if c \<in> set froms then to else c) s"

definition is_whitespace :: "char \<Rightarrow> bool" where
  "is_whitespace c \<longleftrightarrow> (let n = (of_char c :: nat) in n = 32 \<or> (9 \<le> n \<and> n \<le> 13))"

definition trim :: "string \<Rightarrow> string" where
  "trim s = rev (dropWhile is_whitespace (rev (dropWhile is_whitespace s)))"

definition trim_end_matches :: "char \<Rightarrow> string \<Rightarrow> string" where
  "trim_end_matches c s = rev (dropWhile (\<lambda>x. x = c) (rev s))"

subsection \<open>Substrings, prefixes, splitting, joining\<close>

fun contains :: "string \<Rightarrow> string \<Rightarrow> bool" where
  "contains [] n = (n = [])"
| "contains (c # cs) n = (prefix n (c # cs) \<or> contains cs n)"

lemma contains_iff: "contains s n \<longleftrightarrow> (\<exists>a b. s = a @ n @ b)"
proof (induction s)
  case Nil
  then show ?case by auto
next
  case (Cons c cs)
  have "(\<exists>a b. c # cs = a @ n @ b) \<longleftrightarrow> prefix n (c # cs) \<or> (\<exists>a b. cs = a @ n @ b)"
    by (metis append_Cons append_Nil list.exhaust list.inject prefix_def)
  with Cons show ?case by simp
qed

lemma contains_refl [simp]: "contains s s"
  by (metis append_Nil append_Nil2 contains_iff)

lemma contains_append_mono:
  assumes "contains s n" shows "contains (s @ t) n" and "contains (t @ s) n"
proof -
  from assms obtain a b where s: "s = a @ n @ b" by (auto simp: contains_iff)
  have "s @ t = a @ n @ (b @ t)" and "t @ s = (t @ a) @ n @ b" using s by simp_all
  then show "contains (s @ t) n" and "contains (t @ s) n" unfolding contains_iff by blast+
qed

abbreviation starts_with :: "string \<Rightarrow> string \<Rightarrow> bool" where
  "starts_with s p \<equiv> prefix p s"

abbreviation ends_with :: "string \<Rightarrow> string \<Rightarrow> bool" where
  "ends_with s p \<equiv> suffix p s"

definition strip_prefix :: "string \<Rightarrow> string \<Rightarrow> string option" where
  "strip_prefix p s = (if prefix p s then Some (drop (length p) s) else None)"

lemma strip_prefix_Some [str_simps]: "strip_prefix p s = Some r \<longleftrightarrow> s = p @ r"
  by (auto simp: strip_prefix_def prefix_def)

lemma strip_prefix_append [simp]: "strip_prefix p (p @ r) = Some r"
  by (simp add: strip_prefix_Some)

definition strip_suffix :: "string \<Rightarrow> string \<Rightarrow> string option" where
  "strip_suffix p s = (if suffix p s then Some (take (length s - length p) s) else None)"

lemma strip_suffix_Some [str_simps]: "strip_suffix p s = Some r \<longleftrightarrow> s = r @ p"
  by (auto simp: strip_suffix_def suffix_def)

text \<open>\<open>split_once\<close>: cut at the first delimiter.\<close>

fun split_once :: "char \<Rightarrow> string \<Rightarrow> (string \<times> string) option" where
  "split_once d [] = None"
| "split_once d (c # cs) =
     (if c = d then Some ([], cs)
      else map_option (\<lambda>(a, b). (c # a, b)) (split_once d cs))"

lemma split_once_Some [str_simps]:
  "split_once d s = Some (a, b) \<longleftrightarrow> s = a @ d # b \<and> d \<notin> set a"
proof (induction s arbitrary: a)
  case Nil
  then show ?case by simp
next
  case (Cons c cs)
  show ?case
  proof (cases a)
    case Nil
    then show ?thesis by (auto split: option.splits)
  next
    case (Cons x xs)
    then show ?thesis using Cons.IH[of xs] by (cases "split_once d cs") auto
  qed
qed

lemma split_once_None [str_simps]: "split_once d s = None \<longleftrightarrow> d \<notin> set s"
  by (induction d s rule: split_once.induct) auto

lemma split_once_append: "d \<notin> set a \<Longrightarrow> split_once d (a @ d # b) = Some (a, b)"
  by (simp add: split_once_Some)

text \<open>\<open>splitn(n, d)\<close>: at most \<open>n\<close> pieces, the last one uncut.\<close>

fun splitn :: "nat \<Rightarrow> char \<Rightarrow> string \<Rightarrow> string list" where
  "splitn 0 d s = []"
| "splitn (Suc 0) d s = [s]"
| "splitn (Suc (Suc n)) d s =
     (case split_once d s of None \<Rightarrow> [s] | Some (a, b) \<Rightarrow> a # splitn (Suc n) d b)"

fun join :: "string \<Rightarrow> string list \<Rightarrow> string" where
  "join sep [] = []"
| "join sep [x] = x"
| "join sep (x # y # xs) = x @ sep @ join sep (y # xs)"

lemma splitn_nonempty: "n > 0 \<Longrightarrow> splitn n d s \<noteq> []"
  by (induction n d s rule: splitn.induct) (auto split: option.splits)

lemma join_splitn: "n > 0 \<Longrightarrow> join [d] (splitn n d s) = s"
proof (induction n d s rule: splitn.induct)
  case (3 n d s)
  show ?case
  proof (cases "split_once d s")
    case None
    then show ?thesis by simp
  next
    case (Some ab)
    obtain a b where ab: "ab = (a, b)" by (cases ab)
    with Some have s: "s = a @ d # b" by (simp add: split_once_Some)
    have IH: "join [d] (splitn (Suc n) d b) = b" by (rule "3.IH"[OF Some]) (simp_all add: ab)
    obtain y ys where y: "splitn (Suc n) d b = y # ys"
      using splitn_nonempty[of "Suc n" d b] by (cases "splitn (Suc n) d b") auto
    have "splitn (Suc (Suc n)) d s = a # y # ys" using Some ab y by simp
    then have "join [d] (splitn (Suc (Suc n)) d s) = a @ [d] @ join [d] (y # ys)" by simp
    also have "join [d] (y # ys) = b" using IH y by (simp only:)
    finally show ?thesis by (simp only: s append_Cons append_Nil)
  qed
qed auto

lemma length_splitn: "length (splitn n d s) \<le> n"
  by (induction n d s rule: splitn.induct) (auto split: option.splits)

text \<open>The first piece of \<open>split('/')\<close>.\<close>

definition split_head :: "char \<Rightarrow> string \<Rightarrow> string" where
  "split_head d s = takeWhile (\<lambda>c. c \<noteq> d) s"

lemma split_head_append [simp]: "d \<notin> set a \<Longrightarrow> split_head d (a @ d # b) = a"
  unfolding split_head_def by (subst takeWhile_append2) auto

fun split_on :: "char \<Rightarrow> string \<Rightarrow> string list" where
  "split_on d [] = [[]]"
| "split_on d (c # cs) =
     (if c = d then [] # split_on d cs
      else (case split_on d cs of [] \<Rightarrow> [[c]] | x # xs \<Rightarrow> (c # x) # xs))"

subsection \<open>Printing numbers\<close>

definition digit_char :: "nat \<Rightarrow> char" where
  "digit_char n = char_of (48 + n mod 10)"

fun show_nat :: "nat \<Rightarrow> string" where
  "show_nat n = (if n < 10 then [digit_char n] else show_nat (n div 10) @ [digit_char (n mod 10)])"

declare show_nat.simps [simp del]

text \<open>\<open>{:.4}\<close> of an \<open>f64\<close>: four decimals, ties to even on the exact value.\<close>

definition round_half_even :: "rat \<Rightarrow> int" where
  "round_half_even x = (let f = \<lfloor>x\<rfloor>; r = x - of_int f in
     if r < 1/2 then f else if r > 1/2 then f + 1 else if even f then f else f + 1)"

definition show_fixed4 :: "rat \<Rightarrow> string" where
  "show_fixed4 x = (let n = nat (round_half_even (abs x * 10000));
       frac = show_nat (n mod 10000) in
     (if x < 0 then ''-'' else '''') @ show_nat (n div 10000) @ ''.''
       @ replicate (4 - length frac) (CHR ''0'') @ frac)"

subsection \<open>Interfaces\<close>

text \<open>
  A key-value store: what a lookup returns after an insert or a removal. The provider
  registry, the metadata store, the credential store and the spend table are stores of this
  kind behind their \<open>RwLock\<close> or SQLite table.
\<close>

locale kv_store =
  fixes lookup :: "'s \<Rightarrow> 'k \<Rightarrow> 'v option"
    and put :: "'k \<Rightarrow> 'v \<Rightarrow> 's \<Rightarrow> 's"
    and del :: "'k \<Rightarrow> 's \<Rightarrow> 's"
    and ok :: "'s \<Rightarrow> bool"
  assumes lookup_put: "ok s \<Longrightarrow> lookup (put k v s) k' = (if k' = k then Some v else lookup s k')"
    and lookup_del: "ok s \<Longrightarrow> lookup (del k s) k' = (if k' = k then None else lookup s k')"
    and ok_put: "ok s \<Longrightarrow> ok (put k v s)"
    and ok_del: "ok s \<Longrightarrow> ok (del k s)"
begin

lemma put_put_other:
  "ok s \<Longrightarrow> k \<noteq> k' \<Longrightarrow> lookup (put k v (put k' v' s)) j = lookup (put k' v' (put k v s)) j"
  by (simp add: lookup_put ok_put)

lemma put_overwrites: "ok s \<Longrightarrow> lookup (put k v (put k v' s)) j = lookup (put k v s) j"
  by (simp add: lookup_put ok_put)

lemma del_put: "ok s \<Longrightarrow> lookup (del k (put k v s)) j = lookup (del k s) j"
  by (simp add: lookup_put lookup_del ok_put)

text \<open>Inserting a list of entries: the last entry of a key is the one that is found.\<close>

lemma ok_fold_put: "ok s \<Longrightarrow> ok (fold (\<lambda>(k, v). put k v) kvs s)"
  by (induction kvs arbitrary: s) (auto simp: ok_put)

lemma lookup_fold_put:
  "ok s \<Longrightarrow> lookup (fold (\<lambda>(k, v). put k v) kvs s) j =
     (case map_of (rev kvs) j of None \<Rightarrow> lookup s j | Some v \<Rightarrow> Some v)"
proof (induction kvs arbitrary: s)
  case Nil
  then show ?case by simp
next
  case (Cons kv kvs)
  obtain k v where kv: "kv = (k, v)" by (cases kv)
  have "lookup (fold (\<lambda>(k, v). put k v) kvs (put k v s)) j =
      (case map_of (rev kvs) j of None \<Rightarrow> lookup (put k v s) j | Some v \<Rightarrow> Some v)"
    using Cons by (simp add: ok_put)
  with Cons.prems kv show ?case
    by (auto simp: lookup_put map_add_def split: option.splits)
qed

end

text \<open>
  A text encoding that works byte by byte: each byte becomes a word of harmless bytes, which the
  reader turns back into the byte. The percent encoders of the URLs and the escapers of the pages
  are of this kind.
\<close>

locale text_codec =
  fixes enc :: "char \<Rightarrow> string"
    and dec :: "string \<Rightarrow> string"
    and harmless :: "char \<Rightarrow> bool"
  assumes dec_Nil: "dec [] = []"
    and dec_enc: "dec (enc c @ s) = c # dec s"
    and enc_harmless: "c' \<in> set (enc c) \<Longrightarrow> harmless c'"
begin

lemma dec_before: "dec (concat (map enc s) @ t) = s @ dec t"
  by (induction s) (simp_all add: dec_enc)

lemma decodes: "dec (concat (map enc s)) = s"
  using dec_before [of s "[]"] by (simp add: dec_Nil)

lemma encoded_harmless: "c' \<in> set (concat (map enc s)) \<Longrightarrow> harmless c'"
  using enc_harmless by auto

lemma absent: "\<not> harmless c' \<Longrightarrow> c' \<notin> set (concat (map enc s))"
  using encoded_harmless by blast

lemma enc_inj: "concat (map enc s) = concat (map enc t) \<longleftrightarrow> s = t"
  by (metis decodes)

end

end
