(* ===== verification/Health.thy ===== *)
theory Health
  imports Prelude
begin

section \<open>Provider health: the circuit breaker\<close>

text \<open>
  \<open>src/providers/health.rs\<close>. The registry is the map behind the \<open>RwLock\<close>; a missing entry reads
  as the default. \<open>record_failure\<close> reads the clock twice, once for \<open>last_failure\<close> and once for
  the cooldown, so it takes two instants. The failure counter is a \<open>u32\<close> and wraps.

  The locale \<open>breaker\<close> is the contract the fallback executor relies on: what availability is
  after a success and after a failure. It is interpreted on this registry below.
\<close>

datatype ProviderHealthState = Healthy | Degraded | Down

record ProviderHealth =
  ph_status :: ProviderHealthState
  consecutive_failures :: u32
  cooldown_until :: "instant option"
  last_failure :: "instant option"

definition health_default :: ProviderHealth where
  "health_default = \<lparr>ph_status = Healthy, consecutive_failures = 0, cooldown_until = None,
     last_failure = None\<rparr>"

type_synonym HealthRegistry = "string \<rightharpoonup> ProviderHealth"

definition health_get :: "string \<Rightarrow> HealthRegistry \<Rightarrow> ProviderHealth" where
  "health_get p g = unwrap_or health_default (g p)"

definition record_success :: "string \<Rightarrow> HealthRegistry \<Rightarrow> HealthRegistry" where
  "record_success p g = g(p \<mapsto> (health_get p g)
     \<lparr>ph_status := Healthy, consecutive_failures := 0, cooldown_until := None\<rparr>)"

definition record_failure ::
  "string \<Rightarrow> u32 \<Rightarrow> u64 \<Rightarrow> instant \<Rightarrow> instant \<Rightarrow> HealthRegistry \<Rightarrow> HealthRegistry" where
  "record_failure p threshold cooldown_secs t1 t2 g = (let h = health_get p g;
       h1 = h\<lparr>consecutive_failures := consecutive_failures h + 1, last_failure := Some t1\<rparr> in
     g(p \<mapsto> (if threshold \<le> consecutive_failures h1
             then h1\<lparr>ph_status := Down,
                     cooldown_until := Some (t2 + from_secs (unat cooldown_secs))\<rparr>
             else h1)))"

definition is_available :: "string \<Rightarrow> instant \<Rightarrow> HealthRegistry \<Rightarrow> bool" where
  "is_available p now g = (case g p of None \<Rightarrow> True
     | Some h \<Rightarrow> (case cooldown_until h of None \<Rightarrow> True | Some until \<Rightarrow> \<not> now < until))"

subsection \<open>Effect of each operation\<close>

lemmas health_defs = health_get_def record_success_def record_failure_def is_available_def
  health_default_def

lemma health_get_success:
  "health_get q (record_success p g) = (if q = p
     then (health_get p g)\<lparr>ph_status := Healthy, consecutive_failures := 0, cooldown_until := None\<rparr>
     else health_get q g)"
  by (simp add: health_defs)

lemma health_get_failure_other [simp]:
  "q \<noteq> p \<Longrightarrow> health_get q (record_failure p th cd t1 t2 g) = health_get q g"
  by (simp add: health_defs Let_def)

lemma is_available_iff:
  "is_available p now g \<longleftrightarrow> (case cooldown_until (health_get p g) of None \<Rightarrow> True
     | Some until \<Rightarrow> until \<le> now)"
  by (auto simp: health_defs split: option.splits)

lemma failures_failure:
  "consecutive_failures (health_get p (record_failure p th cd t1 t2 g)) =
     consecutive_failures (health_get p g) + 1"
  by (simp add: health_defs Let_def)

lemma cooldown_failure:
  "cooldown_until (health_get p (record_failure p th cd t1 t2 g)) =
     (if th \<le> consecutive_failures (health_get p g) + 1 then Some (t2 + from_secs (unat cd))
      else cooldown_until (health_get p g))"
  by (simp add: health_defs Let_def)

subsection \<open>The contract of a circuit breaker\<close>

locale breaker =
  fixes available :: "'k \<Rightarrow> instant \<Rightarrow> 's \<Rightarrow> bool"
    and success :: "'k \<Rightarrow> 's \<Rightarrow> 's"
    and failure :: "'k \<Rightarrow> instant \<Rightarrow> instant \<Rightarrow> 's \<Rightarrow> 's"
    and failures :: "'k \<Rightarrow> 's \<Rightarrow> nat"
    and threshold :: nat
    and cooldown :: nat
    and max_count :: nat
  assumes success_available: "available p t (success p s)"
    and success_failures: "failures p (success p s) = 0"
    and success_other: "q \<noteq> p \<Longrightarrow> available q t (success p s) = available q t s"
    and success_other_failures: "q \<noteq> p \<Longrightarrow> failures q (success p s) = failures q s"
    and failure_other: "q \<noteq> p \<Longrightarrow> available q t (failure p t1 t2 s) = available q t s"
    and failure_other_failures: "q \<noteq> p \<Longrightarrow> failures q (failure p t1 t2 s) = failures q s"
    and failure_counts:
      "failures p s < max_count \<Longrightarrow> failures p (failure p t1 t2 s) = Suc (failures p s)"
    and failure_trips: "threshold \<le> failures p (failure p t1 t2 s) \<Longrightarrow>
      available p t (failure p t1 t2 s) \<longleftrightarrow> t2 + cooldown \<le> t"
    and failure_below: "failures p (failure p t1 t2 s) < threshold \<Longrightarrow>
      available p t (failure p t1 t2 s) = available p t s"
begin

text \<open>A run of failures of one provider, each with the two clock readings it makes.\<close>

definition fail_run :: "'k \<Rightarrow> (instant \<times> instant) list \<Rightarrow> 's \<Rightarrow> 's" where
  "fail_run p ts s = fold (\<lambda>(t1, t2). failure p t1 t2) ts s"

lemma fail_run_snoc: "fail_run p (ts @ [(t1, t2)]) s = failure p t1 t2 (fail_run p ts s)"
  by (simp add: fail_run_def)

lemma fail_run_counts:
  "failures p s + length ts \<le> max_count \<Longrightarrow> failures p (fail_run p ts s) = failures p s + length ts"
proof (induction ts rule: rev_induct)
  case Nil
  then show ?case by (simp add: fail_run_def)
next
  case (snoc t ts)
  then show ?case by (cases t) (simp add: fail_run_snoc failure_counts)
qed

lemma fail_run_other:
  "q \<noteq> p \<Longrightarrow> available q t (fail_run p ts s) = available q t s"
proof (induction ts rule: rev_induct)
  case Nil
  then show ?case by (simp add: fail_run_def)
next
  case (snoc x ts)
  then show ?case by (cases x) (simp add: fail_run_snoc failure_other)
qed

text \<open>After a success, fewer failures than the threshold leave the provider available.\<close>

lemma fail_run_below:
  "length ts < threshold \<Longrightarrow> length ts \<le> max_count \<Longrightarrow> available p t (fail_run p ts (success p s))"
proof (induction ts rule: rev_induct)
  case Nil
  then show ?case by (simp add: fail_run_def success_available)
next
  case (snoc x ts)
  obtain t1 t2 where x: "x = (t1, t2)" by (cases x)
  have "failures p (fail_run p (ts @ [x]) (success p s)) = length (ts @ [x])"
    using fail_run_counts[of p "success p s" "ts @ [x]"] snoc.prems by (simp add: success_failures)
  then have "failures p (failure p t1 t2 (fail_run p ts (success p s))) < threshold"
    using snoc.prems by (simp add: x fail_run_snoc)
  from failure_below[OF this] show ?case using snoc by (simp add: x fail_run_snoc)
qed

text \<open>At the threshold the provider is off exactly until the cooldown of the last failure ends.\<close>

lemma fail_run_trips:
  assumes "threshold \<le> Suc (length ts)" and "Suc (length ts) \<le> max_count"
  shows "available p t (fail_run p (ts @ [(t1, t2)]) (success p s)) \<longleftrightarrow> t2 + cooldown \<le> t"
proof -
  have "failures p (fail_run p (ts @ [(t1, t2)]) (success p s)) = Suc (length ts)"
    using fail_run_counts[of p "success p s" "ts @ [(t1, t2)]"] assms
    by (simp add: success_failures)
  with assms show ?thesis by (simp add: fail_run_snoc failure_trips)
qed

end

interpretation hb: breaker is_available record_success "\<lambda>p. record_failure p th cd"
    "\<lambda>p g. unat (consecutive_failures (health_get p g))" "unat th" "from_secs (unat cd)"
    "2 ^ 32 - 1"
  for th cd
proof unfold_locales
  fix p t1 t2 g
  assume "unat (consecutive_failures (health_get p g)) < 2 ^ 32 - 1"
  then show "unat (consecutive_failures (health_get p (record_failure p th cd t1 t2 g))) =
      Suc (unat (consecutive_failures (health_get p g)))"
    by (simp add: failures_failure unat_word_ariths)
qed (simp_all add: is_available_iff health_get_success cooldown_failure failures_failure
      word_le_nat_alt)

subsection \<open>Reachable registries\<close>

text \<open>One step: any provider succeeds or fails. The registry starts empty.\<close>

inductive health_step :: "u32 \<Rightarrow> u64 \<Rightarrow> HealthRegistry \<Rightarrow> HealthRegistry \<Rightarrow> bool"
  for th cd where
  success: "health_step th cd g (record_success p g)"
| failure: "health_step th cd g (record_failure p th cd t1 t2 g)"

inductive_cases health_stepE: "health_step th cd g g'"

definition reachable_health :: "u32 \<Rightarrow> u64 \<Rightarrow> HealthRegistry \<Rightarrow> bool" where
  "reachable_health th cd g \<longleftrightarrow> (health_step th cd)\<^sup>*\<^sup>* Map.empty g"

definition health_wf :: "u32 \<Rightarrow> ProviderHealth \<Rightarrow> bool" where
  "health_wf th h \<longleftrightarrow> ph_status h \<noteq> Degraded
     \<and> (ph_status h = Down \<longleftrightarrow> cooldown_until h \<noteq> None)
     \<and> (ph_status h = Healthy \<longrightarrow> consecutive_failures h < th)"

lemma health_wf_default: "0 < th \<Longrightarrow> health_wf th health_default"
  by (simp add: health_wf_def health_default_def)

lemma health_wf_success: "0 < th \<Longrightarrow> health_wf th (health_get q g) \<Longrightarrow>
    health_wf th (health_get q (record_success p g))"
  by (simp add: health_wf_def health_get_success)

lemma health_wf_failure:
  assumes "health_wf th (health_get q g)"
  shows "health_wf th (health_get q (record_failure p th cd t1 t2 g))"
proof (cases "q = p")
  case True
  with assms show ?thesis
    by (simp add: health_wf_def record_failure_def health_get_def Let_def not_le)
next
  case False
  with assms show ?thesis by simp
qed

lemma reachable_health_wf:
  assumes "reachable_health th cd g" and "0 < th"
  shows "health_wf th (health_get p g)"
  using assms(1) unfolding reachable_health_def
proof (induction rule: rtranclp_induct)
  case base
  then show ?case by (simp add: health_get_def health_wf_default assms(2))
next
  case (step g g')
  from step.hyps(2) step.IH show ?case
    by (auto elim!: health_stepE intro: health_wf_success health_wf_failure assms(2))
qed

subsection \<open>Properties\<close>

text \<open>
  The breaker opens at the threshold and closes by time: after a success, \<open>n\<close> failures in a
  row leave the provider available while \<open>n\<close> is below the threshold; from the threshold on it is
  off exactly until the cooldown counted from the last failure has passed.
\<close>

theorem breaker_opens_and_closes:
  assumes "length ts < 2 ^ 32 - 1"
  shows "let g = fold (\<lambda>(t1, t2). record_failure p th cd t1 t2) (ts @ [(t1, t2)]) (record_success p g0) in
     (Suc (length ts) < unat th \<longrightarrow> is_available p t g)
     \<and> (unat th \<le> Suc (length ts) \<longrightarrow>
          is_available p t g = (t2 + from_secs (unat cd) \<le> t))"
  using hb.fail_run_below[where th = th and cd = cd, of "ts @ [(t1, t2)]" p t g0]
    hb.fail_run_trips[where th = th and cd = cd, of ts p t t1 t2 g0] assms
  by (simp add: hb.fail_run_def Let_def)

theorem breaker_opens_and_closes_witness:
  "\<not> is_available ''a'' 5 (record_failure ''a'' 1 60 1 2 (record_success ''a'' Map.empty))"
  using breaker_opens_and_closes[of "[]" "''a''" 1 60 1 2 Map.empty 5] by (simp add: from_secs_def)

text \<open>
  In every registry the operations can reach, no provider is ever \<open>Degraded\<close>, a provider is
  \<open>Down\<close> exactly when it has a cooldown, and a \<open>Healthy\<close> one has fewer failures than the threshold.
\<close>

theorem reachable_health_invariant:
  assumes "(health_step th cd)\<^sup>*\<^sup>* Map.empty g" and "0 < th"
  shows "ph_status (health_get p g) \<noteq> Degraded
     \<and> (ph_status (health_get p g) = Down \<longleftrightarrow> cooldown_until (health_get p g) \<noteq> None)
     \<and> (ph_status (health_get p g) = Healthy \<longrightarrow> consecutive_failures (health_get p g) < th)"
  using reachable_health_wf[of th cd g p] assms by (simp add: reachable_health_def health_wf_def)

theorem reachable_health_invariant_witness:
  "ph_status (health_get ''a'' (record_failure ''a'' 1 60 1 2 Map.empty)) \<noteq> Degraded"
proof -
  have "(health_step 1 60)\<^sup>*\<^sup>* Map.empty (record_failure ''a'' 1 60 1 2 Map.empty)"
    by (rule r_into_rtranclp) (rule health_step.failure)
  from reachable_health_invariant[OF this, of "''a''"] show ?thesis by simp
qed

end
