(* ===== verification/Json.thy ===== *)
theory Json
  imports Prelude
begin

section \<open>JSON values\<close>

text \<open>
  The \<open>serde_json::Value\<close> enum the source matches on, with the accessors it calls. A number is
  one of serde's three representations (unsigned, negative, float); an object is an association
  list (the order of the keys is not observable by any accessor below). The text codec
  (\<open>to_string\<close>, \<open>from_str\<close>) is library code and stays a parameter of the definitions that use it.
\<close>

datatype number = PosInt u64 | NegInt int | Float f64

datatype json =
    Null
  | Bool bool
  | Number number
  | String string
  | Array "json list"
  | Object "(string \<times> json) list"

type_synonym object = "(string \<times> json) list"

fun as_str :: "json \<Rightarrow> string option" where
  "as_str (String s) = Some s"
| "as_str _ = None"

fun as_bool :: "json \<Rightarrow> bool option" where
  "as_bool (Bool b) = Some b"
| "as_bool _ = None"

fun as_u64 :: "json \<Rightarrow> u64 option" where
  "as_u64 (Number (PosInt n)) = Some n"
| "as_u64 _ = None"

fun as_f64 :: "json \<Rightarrow> f64 option" where
  "as_f64 (Number (PosInt n)) = Some (of_nat (unat n))"
| "as_f64 (Number (NegInt i)) = Some (of_int i)"
| "as_f64 (Number (Float x)) = Some x"
| "as_f64 _ = None"

fun as_array :: "json \<Rightarrow> json list option" where
  "as_array (Array xs) = Some xs"
| "as_array _ = None"

fun as_object :: "json \<Rightarrow> object option" where
  "as_object (Object o1) = Some o1"
| "as_object _ = None"

text \<open>\<open>v.get(key)\<close>: \<open>None\<close> unless \<open>v\<close> is an object with that key.\<close>

fun jget :: "string \<Rightarrow> json \<Rightarrow> json option" where
  "jget k (Object o1) = map_of o1 k"
| "jget k _ = None"

definition get_str :: "string \<Rightarrow> json \<Rightarrow> string option" where
  "get_str k v = Option.bind (jget k v) as_str"

definition get_u64 :: "string \<Rightarrow> json \<Rightarrow> u64 option" where
  "get_u64 k v = Option.bind (jget k v) as_u64"

definition get_array :: "string \<Rightarrow> json \<Rightarrow> json list option" where
  "get_array k v = Option.bind (jget k v) as_array"

fun obj_insert :: "string \<Rightarrow> json \<Rightarrow> object \<Rightarrow> object" where
  "obj_insert k v [] = [(k, v)]"
| "obj_insert k v ((k', v') # o1) =
     (if k = k' then (k, v) # o1 else (k', v') # obj_insert k v o1)"

lemma map_of_obj_insert [simp]: "map_of (obj_insert k v o1) = (map_of o1)(k \<mapsto> v)"
  by (induction k v o1 rule: obj_insert.induct) auto

text \<open>\<open>body[key] = v\<close> on an object.\<close>

fun jset :: "string \<Rightarrow> json \<Rightarrow> json \<Rightarrow> json" where
  "jset k v (Object o1) = Object (obj_insert k v o1)"
| "jset k v j = j"

definition jset_opt :: "string \<Rightarrow> json option \<Rightarrow> json \<Rightarrow> json" where
  "jset_opt k x j = (case x of None \<Rightarrow> j | Some v \<Rightarrow> jset k v j)"

lemma jget_jset [simp]:
  "jget k (jset k' v (Object o1)) = (if k = k' then Some v else map_of o1 k)"
  by simp

lemma is_Object_jset_opt [simp]:
  "\<exists>o2. jset_opt k x (Object o1) = Object o2"
  by (cases x) (auto simp: jset_opt_def)

lemma jget_jset_opt:
  "jget k (jset_opt k' x (Object o1)) =
     (if k = k' \<and> x \<noteq> None then x else map_of o1 k)"
  by (cases x) (auto simp: jset_opt_def)

definition jstr_opt :: "string option \<Rightarrow> json" where
  "jstr_opt x = (case x of None \<Rightarrow> Null | Some s \<Rightarrow> String s)"

definition ju32 :: "u32 \<Rightarrow> json" where
  "ju32 n = Number (PosInt (ucast n))"

definition ju32_opt :: "u32 option \<Rightarrow> json" where
  "ju32_opt x = (case x of None \<Rightarrow> Null | Some n \<Rightarrow> ju32 n)"

text \<open>\<open>x as u32\<close> of a \<open>u64\<close> truncates; a \<open>u32\<close> written as JSON reads back unchanged.\<close>

lemma as_u64_ju32 [simp]: "as_u64 (ju32 n) = Some (ucast n)"
  by (simp add: ju32_def)

lemma ucast_ju32 [simp]: "(ucast (ucast (n :: u32) :: u64) :: u32) = n"
  by transfer simp

lemma jstr_opt_inj [simp]: "as_str (jstr_opt x) = x"
  by (cases x) (simp_all add: jstr_opt_def)

lemma map_filter_cong [fundef_cong]:
  "xs = ys \<Longrightarrow> (\<And>x. x \<in> set ys \<Longrightarrow> f x = g x) \<Longrightarrow> List.map_filter f xs = List.map_filter g ys"
  by (simp add: List.map_filter_def cong: filter_cong map_cong)

lemma set_map_filter: "set (List.map_filter f xs) = {y. \<exists>x \<in> set xs. f x = Some y}"
  by (induction xs) (auto split: option.split)

lemma map_filter_append [simp]:
  "List.map_filter f (xs @ ys) = List.map_filter f xs @ List.map_filter f ys"
  by (induction xs) (auto split: option.split)

text \<open>The \<open>.get(\"text\").as_str()\<close> of every element of a content array.\<close>

definition text_parts :: "json list \<Rightarrow> string list" where
  "text_parts arr = List.map_filter (get_str ''text'') arr"

end
