(* ===== verification/Canonical.thy ===== *)
theory Canonical
  imports Json
begin

section \<open>Canonical schema\<close>

text \<open>
  \<open>src/schema/canonical.rs\<close>: the internal request and response format that everything outside
  the adapters speaks. Record fields carry a prefix of their struct, because HOL field names
  are global.
\<close>

datatype Role = System | User | Assistant | Tool

datatype ImageData = ImageUrl string | ImageBase64 string
datatype AudioData = AudioBase64 string
datatype VideoData = VideoUrl string | VideoBase64 string

datatype ContentBlock =
    Text string
  | Image string ImageData
  | Audio string AudioData
  | Video string VideoData
  | ToolUse string string json
  | ToolResult string "ContentBlock list"

record CanonicalToolCall =
  tc_id :: string
  tc_name :: string
  tc_arguments :: json

record CanonicalMessage =
  cm_role :: Role
  cm_content :: "ContentBlock list"
  cm_name :: "string option"
  cm_tool_call_id :: "string option"
  cm_tool_calls :: "CanonicalToolCall list option"

record CanonicalTool =
  ct_name :: string
  ct_description :: "string option"
  ct_parameters :: json

datatype ToolChoice = Auto | NoTool | Required | Specific string

datatype Tier = Simple | Standard | Complex | Reasoning | HighContext | Multimodal

fun tier_as_str :: "Tier \<Rightarrow> string" where
  "tier_as_str Simple = ''simple''"
| "tier_as_str Standard = ''standard''"
| "tier_as_str Complex = ''complex''"
| "tier_as_str Reasoning = ''reasoning''"
| "tier_as_str HighContext = ''high_context''"
| "tier_as_str Multimodal = ''multimodal''"

definition tier_parse :: "string \<Rightarrow> Tier option" where
  "tier_parse s =
     (if s = ''simple'' then Some Simple
      else if s = ''standard'' then Some Standard
      else if s = ''complex'' then Some Complex
      else if s = ''reasoning'' then Some Reasoning
      else if s = ''high_context'' \<or> s = ''high-context'' then Some HighContext
      else if s = ''multimodal'' \<or> s = ''mm'' then Some Multimodal
      else None)"

lemma tier_parse_as_str [simp]: "tier_parse (tier_as_str t) = Some t"
  by (cases t) (simp_all add: tier_parse_def)

lemma tier_parse_no_slash: "tier_parse s = Some t \<Longrightarrow> CHR ''/'' \<notin> set s"
  unfolding tier_parse_def by (simp split: if_split_asm; elim disjE; simp)

record CanonicalMetadata =
  md_agent_type :: "string option"
  md_client_request_id :: "string option"
  md_specificity_category :: "string option"
  md_specificity_score :: "u32 option"
  md_specificity_threshold :: "u32 option"

definition metadata_default :: CanonicalMetadata where
  "metadata_default = \<lparr>md_agent_type = None, md_client_request_id = None,
     md_specificity_category = None, md_specificity_score = None,
     md_specificity_threshold = None\<rparr>"

record CanonicalRequest =
  cr_messages :: "CanonicalMessage list"
  cr_system :: "string option"
  cr_max_tokens :: "u32 option"
  cr_temperature :: "f64 option"
  cr_top_p :: "f64 option"
  cr_stop :: "string list option"
  cr_stream :: bool
  cr_tools :: "CanonicalTool list option"
  cr_tool_choice :: "ToolChoice option"
  cr_tier :: Tier
  cr_selected_model :: string
  cr_selected_provider :: string
  cr_request_id :: string
  cr_extensions :: object
  cr_metadata :: CanonicalMetadata

record Usage =
  input_tokens :: u32
  output_tokens :: u32
  cache_read_tokens :: "u32 option"
  cache_write_tokens :: "u32 option"

definition usage_default :: Usage where
  "usage_default = \<lparr>input_tokens = 0, output_tokens = 0,
     cache_read_tokens = None, cache_write_tokens = None\<rparr>"

record CanonicalResponse =
  rs_id :: string
  rs_model :: string
  rs_provider :: string
  rs_content :: "ContentBlock list"
  rs_finish_reason :: "string option"
  rs_usage :: Usage

record ContentDelta =
  cd_text :: "string option"
  cd_tool_use :: "CanonicalToolCall option"

definition delta_default :: ContentDelta where
  "delta_default = \<lparr>cd_text = None, cd_tool_use = None\<rparr>"

record CanonicalChunk =
  ch_id :: string
  ch_model :: string
  ch_delta :: ContentDelta
  ch_finish_reason :: "string option"
  ch_usage :: "Usage option"

text \<open>The text of a block list: the \<open>Text\<close> blocks, in order.\<close>

fun text_of_block :: "ContentBlock \<Rightarrow> string option" where
  "text_of_block (Text s) = Some s"
| "text_of_block _ = None"

fun is_text :: "ContentBlock \<Rightarrow> bool" where
  "is_text (Text _) = True"
| "is_text _ = False"

end
