(* ===== verification/Config.thy ===== *)
theory Config
  imports Canonical
begin

section \<open>Configuration\<close>

text \<open>
  \<open>src/config/types.rs\<close>: the typed configuration tables with their defaults. A \<open>HashMap\<close> is an
  association list in its (unspecified) iteration order, with distinct keys. \<open>TierTimeouts\<close>
  derives \<open>Default\<close>, so its default is three zeros: the \<open>serde\<close> defaults 5000, 30000 and 45000
  apply only to a table that is deserialised, which no code does.
\<close>

record ServerConfig =
  sv_bind :: string
  sv_log_level :: string
  sv_oauth_redirect_uri :: string

definition server_default :: ServerConfig where
  "server_default = \<lparr>sv_bind = ''0.0.0.0:8080'', sv_log_level = ''info'',
     sv_oauth_redirect_uri = ''''\<rparr>"

record AuthKey =
  ak_key :: string
  ak_name :: string

record AuthConfig =
  au_enabled :: bool
  au_admin_key :: "string option"
  au_keys :: "AuthKey list"

definition auth_default :: AuthConfig where
  "auth_default = \<lparr>au_enabled = True, au_admin_key = None, au_keys = []\<rparr>"

datatype ProviderType =
    Anthropic | Google | Kiro | Responses | Generic
  | Openai | Openrouter | Tokenrouter | Groq | Deepseek | Fireworks | Mistral | Xai | Qwen
  | Moonshot | Zai | Xiaomi | Minimax | Byteplus | Nvidia | OpencodeGo | OpencodeZen | Kilo
  | Commandcode | GithubCopilot | Gitlawb | Ollama | OllamaCloud | LlamaCpp | LmStudio

record ProviderConfig =
  pc_id :: string
  pc_type :: ProviderType
  pc_key :: "string option"
  pc_base_url :: "string option"
  pc_default_model :: "string option"
  pc_path :: "string option"

subsection \<open>Tiers\<close>

record TierTimeouts =
  connect_ms :: u64
  read_ms :: u64
  per_attempt_ms :: u64

definition tier_timeouts_default :: TierTimeouts where
  "tier_timeouts_default = \<lparr>connect_ms = 0, read_ms = 0, per_attempt_ms = 0\<rparr>"

record TierTimeoutsSet =
  ts_connect_ms :: "u64 option"
  ts_read_ms :: "u64 option"
  ts_per_attempt_ms :: "u64 option"

definition timeouts_set_default :: TierTimeoutsSet where
  "timeouts_set_default = \<lparr>ts_connect_ms = None, ts_read_ms = None, ts_per_attempt_ms = None\<rparr>"

definition merge_into :: "TierTimeoutsSet \<Rightarrow> TierTimeouts \<Rightarrow> TierTimeouts" where
  "merge_into s base = base
     \<lparr>connect_ms := unwrap_or (connect_ms base) (ts_connect_ms s),
      read_ms := unwrap_or (read_ms base) (ts_read_ms s),
      per_attempt_ms := unwrap_or (per_attempt_ms base) (ts_per_attempt_ms s)\<rparr>"

record TierConfig =
  ti_primary :: string
  ti_fallbacks :: "string list"
  ti_allow_tier_downgrade :: bool
  ti_downgrade_to :: "string option"
  ti_min_context_window :: "u32 option"
  ti_timeouts :: TierTimeoutsSet

definition tier_timeouts :: "TierConfig \<Rightarrow> TierTimeouts" where
  "tier_timeouts t = merge_into (ti_timeouts t) tier_timeouts_default"

text \<open>A tier table without a \<open>timeouts\<close> entry has zero timeouts, not the documented defaults.\<close>

lemma tier_timeouts_unset:
  "ti_timeouts t = timeouts_set_default \<Longrightarrow> tier_timeouts t = tier_timeouts_default"
  by (simp add: tier_timeouts_def merge_into_def timeouts_set_default_def)

subsection \<open>Detection, retry, specificity\<close>

record DetectionCondition =
  dc_has_tools :: "bool option"
  dc_input_tokens_gt :: "u32 option"
  dc_prompt_contains :: "string list option"

record DetectionRule =
  dr_condition :: DetectionCondition
  dr_tier :: string

record DetectionConfig =
  de_default_tier :: "string option"
  de_session_window_minutes :: "u32 option"
  de_session_lookback :: "u32 option"
  de_rules :: "DetectionRule list"

definition detection_default :: DetectionConfig where
  "detection_default = \<lparr>de_default_tier = None, de_session_window_minutes = None,
     de_session_lookback = None, de_rules = []\<rparr>"

record RetryConfig =
  max_same_provider_retries :: u32
  fixed_retry_wait_ms :: u64
  max_retry_after_ms :: u64
  request_budget_ms :: u64

definition retry_default :: RetryConfig where
  "retry_default = \<lparr>max_same_provider_retries = 1, fixed_retry_wait_ms = 1500,
     max_retry_after_ms = 10000, request_budget_ms = 120000\<rparr>"

datatype SpecificityCategory =
    Coding | WebBrowsing | DataAnalysis | ImageGeneration | VideoGeneration
  | SocialMedia | EmailManagement | CalendarManagement | Trading

fun category_as_str :: "SpecificityCategory \<Rightarrow> string" where
  "category_as_str Coding = ''coding''"
| "category_as_str WebBrowsing = ''web_browsing''"
| "category_as_str DataAnalysis = ''data_analysis''"
| "category_as_str ImageGeneration = ''image_generation''"
| "category_as_str VideoGeneration = ''video_generation''"
| "category_as_str SocialMedia = ''social_media''"
| "category_as_str EmailManagement = ''email_management''"
| "category_as_str CalendarManagement = ''calendar_management''"
| "category_as_str Trading = ''trading''"

definition category_parse :: "string \<Rightarrow> SpecificityCategory option" where
  "category_parse s =
     (if s = ''coding'' then Some Coding
      else if s \<in> {''web_browsing'', ''web-browsing'', ''browsing''} then Some WebBrowsing
      else if s \<in> {''data_analysis'', ''data-analysis'', ''analysis''} then Some DataAnalysis
      else if s \<in> {''image_generation'', ''image-generation'', ''image''} then Some ImageGeneration
      else if s \<in> {''video_generation'', ''video-generation'', ''video''} then Some VideoGeneration
      else if s \<in> {''social_media'', ''social-media'', ''social''} then Some SocialMedia
      else if s \<in> {''email_management'', ''email-management'', ''email''} then Some EmailManagement
      else if s \<in> {''calendar_management'', ''calendar-management'', ''calendar''}
        then Some CalendarManagement
      else if s = ''trading'' then Some Trading
      else None)"

definition all_categories :: "SpecificityCategory list" where
  "all_categories = [Coding, WebBrowsing, DataAnalysis, ImageGeneration, VideoGeneration,
     SocialMedia, EmailManagement, CalendarManagement, Trading]"

lemma category_parse_as_str [simp]: "category_parse (category_as_str c) = Some c"
  by (cases c) (simp_all add: category_parse_def)

lemma category_as_str_inj [simp]: "category_as_str c = category_as_str d \<longleftrightarrow> c = d"
  by (metis category_parse_as_str option.inject)

lemma set_all_categories [simp]: "set all_categories = UNIV"
proof -
  have "c \<in> set all_categories" for c by (cases c) (simp_all add: all_categories_def)
  then show ?thesis by blast
qed

lemma distinct_all_categories [simp]: "distinct all_categories"
  by (simp add: all_categories_def)

record SpecificityRule =
  sr_category :: SpecificityCategory
  sr_primary :: string
  sr_threshold :: "u32 option"

record SpecificityConfig =
  sp_enabled :: bool
  sp_rules :: "SpecificityRule list"

definition specificity_default :: SpecificityConfig where
  "specificity_default = \<lparr>sp_enabled = False, sp_rules = []\<rparr>"

subsection \<open>Budgets, pricing, discovery, streaming, rate limits\<close>

record BudgetConfig =
  daily_cost_usd :: f64
  per_request_cost_usd :: f64
  warn_fraction :: f64

definition budget_default :: BudgetConfig where
  "budget_default = \<lparr>daily_cost_usd = 0, per_request_cost_usd = 0, warn_fraction = 8 / 10\<rparr>"

record PricingSyncConfig =
  ps_enabled :: bool
  ps_interval_hours :: u64
  ps_openrouter_url :: string

definition pricing_sync_default :: PricingSyncConfig where
  "pricing_sync_default = \<lparr>ps_enabled = True, ps_interval_hours = 24,
     ps_openrouter_url = ''https://openrouter.ai/api/v1/models''\<rparr>"

record DiscoveryConfig =
  dv_enabled :: bool
  dv_auto_assign_tiers :: bool
  dv_min_input_price_per_1m :: f64

definition discovery_default :: DiscoveryConfig where
  "discovery_default = \<lparr>dv_enabled = True, dv_auto_assign_tiers = False,
     dv_min_input_price_per_1m = 1 / 10\<rparr>"

record StreamingConfig =
  buffer_threshold_tokens :: u32

definition streaming_default :: StreamingConfig where
  "streaming_default = \<lparr>buffer_threshold_tokens = 2048\<rparr>"

record RateLimitBucket =
  refill_per_minute :: u32
  burst :: u32

definition bucket_default :: RateLimitBucket where
  "bucket_default = \<lparr>refill_per_minute = 60, burst = 120\<rparr>"

text \<open>A table that is present is deserialised with the field defaults, whichever table it is.\<close>

definition bucket_from_table :: "u32 option \<Rightarrow> u32 option \<Rightarrow> RateLimitBucket" where
  "bucket_from_table rpm b = \<lparr>refill_per_minute = unwrap_or 600 rpm, burst = unwrap_or 1200 b\<rparr>"

record RateLimitConfig =
  rl_enabled :: bool
  rl_global :: RateLimitBucket
  rl_per_key :: RateLimitBucket

definition ratelimit_default :: RateLimitConfig where
  "ratelimit_default = \<lparr>rl_enabled = True,
     rl_global = \<lparr>refill_per_minute = 600, burst = 1200\<rparr>,
     rl_per_key = \<lparr>refill_per_minute = 60, burst = 120\<rparr>\<rparr>"

text \<open>The \<open>[ratelimit]\<close> table: a missing bucket is \<open>RateLimitBucket::default()\<close>.\<close>

definition ratelimit_from_table ::
  "bool option \<Rightarrow> (u32 option \<times> u32 option) option \<Rightarrow> (u32 option \<times> u32 option) option
     \<Rightarrow> RateLimitConfig" where
  "ratelimit_from_table en g k = (let bucket = (\<lambda>t. case t of None \<Rightarrow> bucket_default
        | Some (rpm, b) \<Rightarrow> bucket_from_table rpm b) in
     \<lparr>rl_enabled = unwrap_or True en, rl_global = bucket g, rl_per_key = bucket k\<rparr>)"

record RouterConfig =
  server :: ServerConfig
  oauth_redirect_uri :: "string option"
  auth :: AuthConfig
  database_path :: string
  providers :: "ProviderConfig list"
  tiers :: "(string \<times> TierConfig) list"
  tier_keys :: "(string \<times> string) list"
  detection :: DetectionConfig
  retry :: RetryConfig
  streaming :: StreamingConfig
  specificity :: SpecificityConfig
  budgets :: BudgetConfig
  pricing_sync :: PricingSyncConfig
  discovery :: DiscoveryConfig
  log_retention_days :: u32
  ratelimit :: RateLimitConfig

definition config_default :: RouterConfig where
  "config_default = \<lparr>server = server_default, oauth_redirect_uri = None, auth = auth_default,
     database_path = '''', providers = [], tiers = [], tier_keys = [],
     detection = detection_default, retry = retry_default, streaming = streaming_default,
     specificity = specificity_default, budgets = budget_default,
     pricing_sync = pricing_sync_default, discovery = discovery_default,
     log_retention_days = 0, ratelimit = ratelimit_default\<rparr>"

definition primary_for_tier :: "RouterConfig \<Rightarrow> Tier \<Rightarrow> string option" where
  "primary_for_tier cfg t = map_option ti_primary (map_of (tiers cfg) (tier_as_str t))"

definition tier_key_override :: "RouterConfig \<Rightarrow> Tier \<Rightarrow> string option" where
  "tier_key_override cfg t = map_of (tier_keys cfg) (tier_as_str t)"

end
