(* ===== verification/Manifest.thy ===== *)
theory Manifest
  imports Config
begin

section \<open>Provider manifest\<close>

text \<open>
  \<open>src/providers/manifest.rs\<close>: the built-in metadata of every provider type (one definition per
  arm of \<open>lookup\<close>) and the resolution of provider ids and their aliases. The match of
  \<open>resolve_alias\<close> is a table: its patterns are disjoint, so the first hit is the only one.
\<close>

record ManifestOAuth =
  authorize_url :: string
  device_code_url :: string
  token_url :: string
  paste_code_redirect_url :: string
  client_id :: string
  client_secret :: string
  scope :: string
  redirect_uri :: string
  extra_authorize_params :: "(string \<times> string) list"
  requires_pkce :: bool
  is_anthropic_paste_code :: bool
  device_response_camelcase :: bool

record Subscription =
  sub_label :: string
  token_prefix :: string

record ManifestProvider =
  base_url :: string
  default_model :: string
  api_path :: string
  requires_key :: bool
  local_only :: bool
  oauth :: "ManifestOAuth option"
  subscription :: "Subscription option"

definition ALL_TYPES :: "ProviderType list" where
  "ALL_TYPES =
    [Anthropic, Google, Kiro, Responses, Generic, Openai, Openrouter, Tokenrouter, Groq, Deepseek,
     Fireworks, Mistral, Xai, Qwen, Moonshot, Zai, Xiaomi, Minimax, Byteplus, Nvidia, OpencodeGo,
     OpencodeZen, Kilo, Commandcode, GithubCopilot, Gitlawb, Ollama, OllamaCloud, LlamaCpp,
     LmStudio]"

definition manifest_anthropic :: ManifestProvider where
  "manifest_anthropic = \<lparr>
     base_url = ''https://api.anthropic.com'',
     default_model = ''claude-sonnet-4-5'',
     api_path = ''/v1/messages'',
     requires_key = True, local_only = False,
     oauth = Some
       \<lparr>authorize_url = ''https://claude.ai/oauth/authorize'',
        device_code_url = '''',
        token_url = ''https://api.anthropic.com/v1/oauth/token'',
        paste_code_redirect_url = ''https://console.anthropic.com/oauth/code/callback'',
        client_id = ''9d1c250a-e61b-44d9-88ed-5944d1962f5e'',
        client_secret = '''',
        scope = ''org:create_api_key user:profile user:inference'',
        redirect_uri = '''',
        extra_authorize_params = [],
        requires_pkce = True, is_anthropic_paste_code = True, device_response_camelcase = False\<rparr>,
     subscription = Some \<lparr>sub_label = ''Claude Max / Pro subscription'', token_prefix = ''sk-ant-oat''\<rparr>\<rparr>"

definition manifest_google :: ManifestProvider where
  "manifest_google = \<lparr>
     base_url = ''https://generativelanguage.googleapis.com'',
     default_model = ''gemini-2.0-flash'',
     api_path = '''',
     requires_key = True, local_only = False,
     oauth = Some
       \<lparr>authorize_url = ''https://accounts.google.com/o/oauth2/v2/auth'',
        device_code_url = '''',
        token_url = ''https://oauth2.googleapis.com/token'',
        paste_code_redirect_url = '''',
        client_id = ''681255809395-oo8ft2oprdrnp9e3aqf6av3hmi99ikee6.apps.googleusercontent.com'',
        client_secret = '''',
        scope = ''https://www.googleapis.com/auth/cloud-platform https://www.googleapis.com/auth/userinfo.email https://www.googleapis.com/auth/userinfo.profile openid'',
        redirect_uri = '''',
        extra_authorize_params = [(''access_type'', ''offline''), (''prompt'', ''consent''), (''include_granted_scopes'', ''true'')],
        requires_pkce = True, is_anthropic_paste_code = False, device_response_camelcase = False\<rparr>,
     subscription = Some \<lparr>sub_label = ''Sign in with Google (CodeAssist)'', token_prefix = ''''\<rparr>\<rparr>"

definition manifest_kiro :: ManifestProvider where
  "manifest_kiro = \<lparr>
     base_url = ''https://q.us-east-1.amazonaws.com'',
     default_model = ''kiro/claude-sonnet-4-5'',
     api_path = ''/'',
     requires_key = True, local_only = False,
     oauth = Some
       \<lparr>authorize_url = '''',
        device_code_url = ''https://oidc.us-east-1.amazonaws.com/device_authorization'',
        token_url = ''https://oidc.us-east-1.amazonaws.com/token'',
        paste_code_redirect_url = '''',
        client_id = ''Manifest'',
        client_secret = '''',
        scope = ''codewhisperer:completions codewhisperer:conversations'',
        redirect_uri = '''',
        extra_authorize_params = [],
        requires_pkce = False, is_anthropic_paste_code = False, device_response_camelcase = False\<rparr>,
     subscription = Some \<lparr>sub_label = ''Kiro subscription'', token_prefix = ''''\<rparr>\<rparr>"

definition manifest_responses :: ManifestProvider where
  "manifest_responses = \<lparr>
     base_url = ''https://api.openai.com'',
     default_model = ''o3'',
     api_path = ''/v1/responses'',
     requires_key = True, local_only = False,
     oauth = Some
       \<lparr>authorize_url = ''https://auth.openai.com/oauth/authorize'',
        device_code_url = '''',
        token_url = ''https://auth.openai.com/oauth/token'',
        paste_code_redirect_url = '''',
        client_id = ''app_EMoamEEZ73f0CkXaXp7hrann'',
        client_secret = '''',
        scope = ''openid profile email offline_access'',
        redirect_uri = '''',
        extra_authorize_params = [],
        requires_pkce = True, is_anthropic_paste_code = False, device_response_camelcase = False\<rparr>,
     subscription = Some \<lparr>sub_label = ''ChatGPT Plus/Pro/Team'', token_prefix = ''''\<rparr>\<rparr>"

definition manifest_openai :: ManifestProvider where
  "manifest_openai = \<lparr>
     base_url = ''https://api.openai.com'',
     default_model = ''gpt-4o'',
     api_path = ''/v1/chat/completions'',
     requires_key = True, local_only = False,
     oauth = Some
       \<lparr>authorize_url = ''https://auth.openai.com/oauth/authorize'',
        device_code_url = '''',
        token_url = ''https://auth.openai.com/oauth/token'',
        paste_code_redirect_url = '''',
        client_id = ''app_EMoamEEZ73f0CkXaXp7hrann'',
        client_secret = '''',
        scope = ''openid profile email offline_access'',
        redirect_uri = '''',
        extra_authorize_params = [],
        requires_pkce = True, is_anthropic_paste_code = False, device_response_camelcase = False\<rparr>,
     subscription = Some \<lparr>sub_label = ''ChatGPT Plus/Pro/Team'', token_prefix = ''''\<rparr>\<rparr>"

definition manifest_openrouter :: ManifestProvider where
  "manifest_openrouter = \<lparr>
     base_url = ''https://openrouter.ai'',
     default_model = ''anthropic/claude-sonnet-4-5'',
     api_path = ''/api/v1/chat/completions'',
     requires_key = True, local_only = False,
     oauth = None,
     subscription = None\<rparr>"

definition manifest_tokenrouter :: ManifestProvider where
  "manifest_tokenrouter = \<lparr>
     base_url = ''https://api.tokenrouter.com'',
     default_model = ''anthropic/claude-sonnet-4-5'',
     api_path = ''/v1/chat/completions'',
     requires_key = True, local_only = False,
     oauth = None,
     subscription = None\<rparr>"

definition manifest_groq :: ManifestProvider where
  "manifest_groq = \<lparr>
     base_url = ''https://api.groq.com/openai'',
     default_model = ''llama-3.3-70b-versatile'',
     api_path = ''/v1/chat/completions'',
     requires_key = True, local_only = False,
     oauth = None,
     subscription = None\<rparr>"

definition manifest_deepseek :: ManifestProvider where
  "manifest_deepseek = \<lparr>
     base_url = ''https://api.deepseek.com'',
     default_model = ''deepseek-chat'',
     api_path = ''/v1/chat/completions'',
     requires_key = True, local_only = False,
     oauth = None,
     subscription = None\<rparr>"

definition manifest_fireworks :: ManifestProvider where
  "manifest_fireworks = \<lparr>
     base_url = ''https://api.fireworks.ai/inference'',
     default_model = ''accounts/fireworks/models/llama-v3p3-70b-instruct'',
     api_path = ''/v1/chat/completions'',
     requires_key = True, local_only = False,
     oauth = None,
     subscription = None\<rparr>"

definition manifest_mistral :: ManifestProvider where
  "manifest_mistral = \<lparr>
     base_url = ''https://api.mistral.ai'',
     default_model = ''mistral-large-latest'',
     api_path = ''/v1/chat/completions'',
     requires_key = True, local_only = False,
     oauth = None,
     subscription = None\<rparr>"

definition manifest_xai :: ManifestProvider where
  "manifest_xai = \<lparr>
     base_url = ''https://api.x.ai'',
     default_model = ''grok-2-latest'',
     api_path = ''/v1/chat/completions'',
     requires_key = True, local_only = False,
     oauth = Some
       \<lparr>authorize_url = ''https://auth.x.ai/oauth2/authorize'',
        device_code_url = '''',
        token_url = ''https://auth.x.ai/oauth2/token'',
        paste_code_redirect_url = '''',
        client_id = ''b1a00492-073a-47ea-816f-4c329264a828'',
        client_secret = '''',
        scope = ''openid profile email offline_access grok-cli:access api:access'',
        redirect_uri = ''http://127.0.0.1:1455/callback'',
        extra_authorize_params = [],
        requires_pkce = True, is_anthropic_paste_code = False, device_response_camelcase = False\<rparr>,
     subscription = Some \<lparr>sub_label = ''Grok subscription'', token_prefix = ''''\<rparr>\<rparr>"

definition manifest_qwen :: ManifestProvider where
  "manifest_qwen = \<lparr>
     base_url = ''https://dashscope.aliyuncs.com/compatible-mode'',
     default_model = ''qwen-plus'',
     api_path = ''/v1/chat/completions'',
     requires_key = True, local_only = False,
     oauth = None,
     subscription = Some \<lparr>sub_label = ''Qwen Token Plan'', token_prefix = ''sk-sp-''\<rparr>\<rparr>"

definition manifest_moonshot :: ManifestProvider where
  "manifest_moonshot = \<lparr>
     base_url = ''https://api.moonshot.ai'',
     default_model = ''kimi-k2-0711-preview'',
     api_path = ''/v1/chat/completions'',
     requires_key = True, local_only = False,
     oauth = None,
     subscription = Some \<lparr>sub_label = ''Kimi Coding Plan'', token_prefix = ''''\<rparr>\<rparr>"

definition manifest_zai :: ManifestProvider where
  "manifest_zai = \<lparr>
     base_url = ''https://api.z.ai'',
     default_model = ''glm-4.5'',
     api_path = ''/api/paas/v4/chat/completions'',
     requires_key = True, local_only = False,
     oauth = None,
     subscription = Some \<lparr>sub_label = ''GLM Coding Plan'', token_prefix = ''''\<rparr>\<rparr>"

definition manifest_xiaomi :: ManifestProvider where
  "manifest_xiaomi = \<lparr>
     base_url = ''https://api.xiaomimimo.com'',
     default_model = ''mimo-v2-flash'',
     api_path = ''/v1/chat/completions'',
     requires_key = True, local_only = False,
     oauth = None,
     subscription = Some \<lparr>sub_label = ''Xiaomi MiMo Token Plan'', token_prefix = ''tp-''\<rparr>\<rparr>"

definition manifest_minimax :: ManifestProvider where
  "manifest_minimax = \<lparr>
     base_url = ''https://api.minimax.io'',
     default_model = ''MiniMax-Text-01'',
     api_path = ''/v1/chat/completions'',
     requires_key = True, local_only = False,
     oauth = Some
       \<lparr>authorize_url = '''',
        device_code_url = ''https://account.minimax.io/oauth2/device/code'',
        token_url = ''https://account.minimax.io/oauth2/token'',
        paste_code_redirect_url = '''',
        client_id = ''78257093-7e40-4613-99e0-527b14b39113'',
        client_secret = '''',
        scope = ''group_id profile model.completion'',
        redirect_uri = '''',
        extra_authorize_params = [],
        requires_pkce = False, is_anthropic_paste_code = False, device_response_camelcase = True\<rparr>,
     subscription = Some \<lparr>sub_label = ''MiniMax Coding Plan'', token_prefix = ''''\<rparr>\<rparr>"

definition manifest_byteplus :: ManifestProvider where
  "manifest_byteplus = \<lparr>
     base_url = ''https://ark.ap-southeast.bytepluses.com/api/v3'',
     default_model = ''ep-20240520-vision'',
     api_path = ''/chat/completions'',
     requires_key = True, local_only = False,
     oauth = None,
     subscription = Some \<lparr>sub_label = ''ModelArk Coding Plan'', token_prefix = ''''\<rparr>\<rparr>"

definition manifest_nvidia :: ManifestProvider where
  "manifest_nvidia = \<lparr>
     base_url = ''https://integrate.api.nvidia.com'',
     default_model = ''meta/llama-3.1-70b-instruct'',
     api_path = ''/v1/chat/completions'',
     requires_key = True, local_only = False,
     oauth = None,
     subscription = None\<rparr>"

definition manifest_opencodego :: ManifestProvider where
  "manifest_opencodego = \<lparr>
     base_url = ''https://opencode.ai/zen/go'',
     default_model = ''gpt-4o'',
     api_path = ''/v1/chat/completions'',
     requires_key = True, local_only = False,
     oauth = None,
     subscription = Some \<lparr>sub_label = ''OpenCode Go (beta)'', token_prefix = ''''\<rparr>\<rparr>"

definition manifest_opencodezen :: ManifestProvider where
  "manifest_opencodezen = \<lparr>
     base_url = ''https://opencode.ai/zen'',
     default_model = ''gpt-4o'',
     api_path = ''/v1/chat/completions'',
     requires_key = True, local_only = False,
     oauth = None,
     subscription = None\<rparr>"

definition manifest_kilo :: ManifestProvider where
  "manifest_kilo = \<lparr>
     base_url = ''https://api.kilo.ai/api/gateway'',
     default_model = ''anthropic/claude-sonnet-4-5'',
     api_path = ''/chat/completions'',
     requires_key = True, local_only = False,
     oauth = None,
     subscription = None\<rparr>"

definition manifest_commandcode :: ManifestProvider where
  "manifest_commandcode = \<lparr>
     base_url = ''https://api.commandcode.ai/provider'',
     default_model = ''gpt-4o'',
     api_path = ''/v1/chat/completions'',
     requires_key = True, local_only = False,
     oauth = None,
     subscription = Some \<lparr>sub_label = ''Command Code subscription'', token_prefix = ''''\<rparr>\<rparr>"

definition manifest_githubcopilot :: ManifestProvider where
  "manifest_githubcopilot = \<lparr>
     base_url = ''https://api.githubcopilot.com'',
     default_model = ''gpt-4o'',
     api_path = ''/v1/chat/completions'',
     requires_key = True, local_only = False,
     oauth = Some
       \<lparr>authorize_url = ''https://github.com/login/oauth/authorize'',
        device_code_url = ''https://github.com/login/device/code'',
        token_url = ''https://github.com/login/oauth/access_token'',
        paste_code_redirect_url = '''',
        client_id = ''Iv1.b507a08c87ecfe98'',
        client_secret = '''',
        scope = ''read:user'',
        redirect_uri = '''',
        extra_authorize_params = [],
        requires_pkce = False, is_anthropic_paste_code = False, device_response_camelcase = False\<rparr>,
     subscription = Some \<lparr>sub_label = ''GitHub Copilot subscription'', token_prefix = ''''\<rparr>\<rparr>"

definition manifest_gitlawb :: ManifestProvider where
  "manifest_gitlawb = \<lparr>
     base_url = ''https://opengateway.gitlawb.com'',
     default_model = ''gpt-4o'',
     api_path = ''/v1/chat/completions'',
     requires_key = True, local_only = False,
     oauth = None,
     subscription = None\<rparr>"

definition manifest_ollama :: ManifestProvider where
  "manifest_ollama = \<lparr>
     base_url = ''http://localhost:11434'',
     default_model = ''llama3.1'',
     api_path = ''/v1/chat/completions'',
     requires_key = False, local_only = True,
     oauth = None,
     subscription = None\<rparr>"

definition manifest_ollamacloud :: ManifestProvider where
  "manifest_ollamacloud = \<lparr>
     base_url = ''https://ollama.com'',
     default_model = ''llama3.1'',
     api_path = ''/v1/chat/completions'',
     requires_key = True, local_only = False,
     oauth = None,
     subscription = Some \<lparr>sub_label = ''Ollama Cloud subscription'', token_prefix = ''''\<rparr>\<rparr>"

definition manifest_llamacpp :: ManifestProvider where
  "manifest_llamacpp = \<lparr>
     base_url = ''http://localhost:8080'',
     default_model = ''default'',
     api_path = ''/v1/chat/completions'',
     requires_key = False, local_only = True,
     oauth = None,
     subscription = None\<rparr>"

definition manifest_lmstudio :: ManifestProvider where
  "manifest_lmstudio = \<lparr>
     base_url = ''http://localhost:1234'',
     default_model = ''default'',
     api_path = ''/v1/chat/completions'',
     requires_key = False, local_only = True,
     oauth = None,
     subscription = None\<rparr>"

fun lookup :: "ProviderType \<Rightarrow> ManifestProvider option" where
  "lookup Generic = None"
| "lookup Anthropic = Some manifest_anthropic"
| "lookup Google = Some manifest_google"
| "lookup Kiro = Some manifest_kiro"
| "lookup Responses = Some manifest_responses"
| "lookup Openai = Some manifest_openai"
| "lookup Openrouter = Some manifest_openrouter"
| "lookup Tokenrouter = Some manifest_tokenrouter"
| "lookup Groq = Some manifest_groq"
| "lookup Deepseek = Some manifest_deepseek"
| "lookup Fireworks = Some manifest_fireworks"
| "lookup Mistral = Some manifest_mistral"
| "lookup Xai = Some manifest_xai"
| "lookup Qwen = Some manifest_qwen"
| "lookup Moonshot = Some manifest_moonshot"
| "lookup Zai = Some manifest_zai"
| "lookup Xiaomi = Some manifest_xiaomi"
| "lookup Minimax = Some manifest_minimax"
| "lookup Byteplus = Some manifest_byteplus"
| "lookup Nvidia = Some manifest_nvidia"
| "lookup OpencodeGo = Some manifest_opencodego"
| "lookup OpencodeZen = Some manifest_opencodezen"
| "lookup Kilo = Some manifest_kilo"
| "lookup Commandcode = Some manifest_commandcode"
| "lookup GithubCopilot = Some manifest_githubcopilot"
| "lookup Gitlawb = Some manifest_gitlawb"
| "lookup Ollama = Some manifest_ollama"
| "lookup OllamaCloud = Some manifest_ollamacloud"
| "lookup LlamaCpp = Some manifest_llamacpp"
| "lookup LmStudio = Some manifest_lmstudio"

lemmas manifest_defs =
  manifest_anthropic_def manifest_google_def manifest_kiro_def manifest_responses_def
  manifest_openai_def manifest_openrouter_def manifest_tokenrouter_def manifest_groq_def
  manifest_deepseek_def manifest_fireworks_def manifest_mistral_def manifest_xai_def
  manifest_qwen_def manifest_moonshot_def manifest_zai_def manifest_xiaomi_def
  manifest_minimax_def manifest_byteplus_def manifest_nvidia_def manifest_opencodego_def
  manifest_opencodezen_def manifest_kilo_def manifest_commandcode_def manifest_githubcopilot_def
  manifest_gitlawb_def manifest_ollama_def manifest_ollamacloud_def manifest_llamacpp_def
  manifest_lmstudio_def

subsection \<open>Aliases\<close>

definition alias_table :: "(string \<times> ProviderType) list" where
  "alias_table =
    [(''anthropic'', Anthropic), (''openai'', Openai), (''openai-completions'', Openai),
     (''google'', Google), (''gemini'', Google), (''kiro'', Kiro), (''openrouter'', Openrouter),
     (''tokenrouter'', Tokenrouter), (''groq'', Groq), (''deepseek'', Deepseek),
     (''fireworks'', Fireworks), (''fireworks-ai'', Fireworks), (''fireworksai'', Fireworks),
     (''mistral'', Mistral), (''mistralai'', Mistral), (''xai'', Xai), (''x-ai'', Xai),
     (''grok'', Xai), (''qwen'', Qwen), (''alibaba'', Qwen), (''dashscope'', Qwen),
     (''moonshot'', Moonshot), (''kimi'', Moonshot), (''moonshotai'', Moonshot), (''zai'', Zai),
     (''z-ai'', Zai), (''z.ai'', Zai), (''zhipuai'', Zai), (''xiaomi'', Xiaomi),
     (''mimo'', Xiaomi), (''xiaomi-mimo'', Xiaomi), (''minimax'', Minimax),
     (''byteplus'', Byteplus), (''byteplus-plan'', Byteplus), (''modelark'', Byteplus),
     (''modelark-coding-plan'', Byteplus), (''nvidia'', Nvidia), (''nvidia-nim'', Nvidia),
     (''nim'', Nvidia), (''opencode-go'', OpencodeGo), (''opencodego'', OpencodeGo),
     (''opencode-zen'', OpencodeZen), (''opencodezen'', OpencodeZen), (''kilo'', Kilo),
     (''kilocode'', Kilo), (''kilo-code'', Kilo), (''commandcode'', Commandcode),
     (''command-code'', Commandcode), (''cmd'', Commandcode), (''copilot'', GithubCopilot),
     (''github-copilot'', GithubCopilot), (''githubcopilot'', GithubCopilot),
     (''gitlawb'', Gitlawb), (''opengateway'', Gitlawb), (''open-gateway'', Gitlawb),
     (''gl'', Gitlawb), (''ollama'', Ollama), (''ollama-cloud'', OllamaCloud),
     (''llamacpp'', LlamaCpp), (''llama-cpp'', LlamaCpp), (''llama.cpp'', LlamaCpp),
     (''lmstudio'', LmStudio), (''lm-studio'', LmStudio), (''responses'', Responses),
     (''openai-responses'', Responses), (''codex'', Responses)]"

text \<open>An id is matched in lower case, with dots, underscores and blanks read as dashes.\<close>

definition normalise_id :: "string \<Rightarrow> string" where
  "normalise_id s = replace_chars [CHR ''.'', CHR ''_'', CHR '' ''] (CHR ''-'') (to_lowercase s)"

definition resolve_alias :: "string \<Rightarrow> ProviderType option" where
  "resolve_alias s = map_of alias_table (normalise_id s)"

definition ALIASES :: "(string \<times> string) list" where
  "ALIASES =
    [(''opengateway'', ''gitlawb''), (''open-gateway'', ''gitlawb''), (''gl'', ''gitlawb''),
     (''kimi'', ''moonshot''), (''moonshotai'', ''moonshot''), (''mimo'', ''xiaomi''),
     (''xiaomi-mimo'', ''xiaomi''), (''alibaba'', ''qwen''), (''dashscope'', ''qwen''),
     (''nim'', ''nvidia''), (''nvidia-nim'', ''nvidia''),
     (''github-copilot'', ''github-copilot''), (''copilot'', ''github-copilot''),
     (''cmd'', ''commandcode''), (''command-code'', ''commandcode''), (''kilocode'', ''kilo''),
     (''kilo-code'', ''kilo''), (''grok'', ''xai''), (''x-ai'', ''xai''),
     (''mistralai'', ''mistral''), (''codex'', ''responses''),
     (''openai-responses'', ''responses''), (''llama-cpp'', ''llamacpp''),
     (''llama.cpp'', ''llamacpp''), (''lm-studio'', ''lmstudio'')]"

subsection \<open>Consistency of the tables\<close>

lemma set_ALL_TYPES [simp]: "set ALL_TYPES = UNIV"
proof -
  have "t \<in> set ALL_TYPES" for t by (cases t) (simp_all add: ALL_TYPES_def)
  then show ?thesis by blast
qed

lemma lookup_None_iff [simp]: "lookup t = None \<longleftrightarrow> t = Generic"
  by (cases t) simp_all

lemma normalise_id_idem [simp]: "normalise_id (normalise_id s) = normalise_id s"
proof -
  have "lower_char (CHR ''-'') = CHR ''-''" by (simp add: lower_char_def Let_def)
  then show ?thesis by (simp add: normalise_id_def replace_chars_def to_lowercase_def)
qed

lemma resolve_alias_normalise [simp]: "resolve_alias (normalise_id s) = resolve_alias s"
  by (simp add: resolve_alias_def)

text \<open>What every built-in entry satisfies, as one executable check.\<close>

definition entry_ok :: "ManifestProvider \<Rightarrow> bool" where
  "entry_ok m \<longleftrightarrow> default_model m \<noteq> '''' \<and> (local_only m \<longleftrightarrow> \<not> requires_key m)
     \<and> starts_with (base_url m) (if local_only m then ''http://localhost:'' else ''https://'')
     \<and> \<not> ends_with (base_url m) ''/''"

definition oauth_ok :: "ManifestOAuth \<Rightarrow> bool" where
  "oauth_ok a \<longleftrightarrow> client_id a \<noteq> '''' \<and> starts_with (token_url a) ''https://''
     \<and> (authorize_url a \<noteq> '''' \<or> device_code_url a \<noteq> '''')
     \<and> (requires_pkce a \<longleftrightarrow> device_code_url a = '''')"

lemma all_entries_ok: "pred_option entry_ok (lookup t)"
  by (cases t) (simp_all add: entry_ok_def manifest_defs suffix_to_prefix)

lemma all_oauth_ok:
  "pred_option (\<lambda>m. pred_option (\<lambda>a. oauth_ok a \<and> requires_key m) (oauth m)) (lookup t)"
  by (cases t) (simp_all add: oauth_ok_def manifest_defs)

lemma aliases_resolve:
  "list_all (\<lambda>(a, b). resolve_alias a = resolve_alias b \<and> resolve_alias a \<noteq> None) ALIASES"
  by code_simp

lemma lookup_entry_ok: "lookup t = Some m \<Longrightarrow> entry_ok m"
  using all_entries_ok[of t] by simp

end
