(* ===== verification/Registry.thy ===== *)
theory Registry
  imports Manifest
begin

section \<open>Provider registry and model selection\<close>

text \<open>
  \<open>src/providers/registry.rs\<close> and \<open>src/routing/selector.rs\<close>. An adapter is the value its
  constructor builds; what it does is in the adapter theories. Environment variables are the
  argument \<open>env\<close>. Log calls are left out: they read only the length of the resolved key.
\<close>

datatype Adapter =
    AnthropicAdapter (ad_provider_id: string) (ad_base_url: string) (ad_default_model: string)
  | GoogleAdapter (ad_provider_id: string) (ad_base_url: string) (ad_default_model: string)
  | is_KiroAdapter: KiroAdapter (ad_provider_id: string) (ad_base_url: string) (ad_default_model: string)
  | ResponsesAdapter (ad_provider_id: string) (ad_base_url: string) (ad_default_model: string)
  | GenericAdapter (ad_provider_id: string) (ad_base_url: string) (ad_default_model: string)
  | OpenAiAdapter (ad_provider_id: string) (ad_base_url: string) (ad_path: string)
      (ad_default_model: string)

definition build_adapter :: "ProviderConfig \<Rightarrow> string + Adapter" where
  "build_adapter cfg = (let meta = lookup (pc_type cfg) in
     and_then (ok_or (''provider '' @ pc_id cfg @ '' has no base_url (use a non-Generic type)'')
         (opt_or (pc_base_url cfg) (map_option base_url meta))) (\<lambda>url.
     let model = unwrap_or ''default'' (opt_or (pc_default_model cfg) (map_option default_model meta));
         path = unwrap_or ''/v1/chat/completions'' (opt_or (pc_path cfg) (map_option api_path meta))
     in Inr (case pc_type cfg of
         Anthropic \<Rightarrow> AnthropicAdapter (pc_id cfg) url model
       | Google \<Rightarrow> GoogleAdapter (pc_id cfg) url model
       | Kiro \<Rightarrow> KiroAdapter (pc_id cfg) url model
       | Responses \<Rightarrow> ResponsesAdapter (pc_id cfg) url model
       | Generic \<Rightarrow> GenericAdapter (pc_id cfg) url model
       | _ \<Rightarrow> OpenAiAdapter (pc_id cfg) url path model)))"

text \<open>The map behind the lock, as an association list in iteration order.\<close>

type_synonym ProviderRegistry = "(string \<times> Adapter) list"

fun reg_insert :: "string \<Rightarrow> Adapter \<Rightarrow> ProviderRegistry \<Rightarrow> ProviderRegistry" where
  "reg_insert k a [] = [(k, a)]"
| "reg_insert k a ((k', a') # r) = (if k = k' then (k, a) # r else (k', a') # reg_insert k a r)"

fun from_configs_loop ::
  "ProviderConfig list \<Rightarrow> ProviderRegistry \<Rightarrow> string + ProviderRegistry" where
  "from_configs_loop [] r = Inr r"
| "from_configs_loop (cfg # cfgs) r =
     and_then (build_adapter cfg) (\<lambda>a. from_configs_loop cfgs (reg_insert (pc_id cfg) a r))"

definition from_configs :: "ProviderConfig list \<Rightarrow> string + ProviderRegistry" where
  "from_configs cfgs = from_configs_loop cfgs []"

definition reg_ids :: "ProviderRegistry \<Rightarrow> string list" where
  "reg_ids r = map fst r"

definition reg_get :: "ProviderRegistry \<Rightarrow> string \<Rightarrow> Adapter option" where
  "reg_get r i = map_of r i"

definition reg_list :: "ProviderRegistry \<Rightarrow> (string \<times> string) list" where
  "reg_list r = map (\<lambda>(i, a). (i, ad_default_model a)) r"

definition build_transient :: "ProviderConfig \<Rightarrow> string + Adapter" where
  "build_transient cfg = build_adapter cfg"

definition reg_add :: "ProviderConfig \<Rightarrow> ProviderRegistry \<Rightarrow> (string + unit) \<times> ProviderRegistry" where
  "reg_add cfg r = (case build_adapter cfg of
      Inl e \<Rightarrow> (Inl e, r)
    | Inr a \<Rightarrow> (Inr (), reg_insert (pc_id cfg) a r))"

definition reg_delete :: "string \<Rightarrow> ProviderRegistry \<Rightarrow> ProviderRegistry" where
  "reg_delete i r = filter (\<lambda>(k, _). k \<noteq> i) r"

definition reg_remove :: "string \<Rightarrow> ProviderRegistry \<Rightarrow> bool \<times> ProviderRegistry" where
  "reg_remove i r = (reg_get r i \<noteq> None, reg_delete i r)"

definition split_model_ref :: "string \<Rightarrow> (string \<times> string) option" where
  "split_model_ref s = (case split_once (CHR ''/'') s of
      None \<Rightarrow> None
    | Some (p, m) \<Rightarrow> if p = [] \<or> m = [] then None else Some (p, m))"

text \<open>\<open>${NAME}\<close>: the name between the delimiters.\<close>

definition env_reference :: "string \<Rightarrow> string option" where
  "env_reference lit = Option.bind (strip_prefix ''${'' lit) (strip_suffix ''}'')"

definition env_var_of :: "string \<Rightarrow> string" where
  "env_var_of provider_id =
     replace_chars [CHR ''-''] (CHR ''_'') (to_uppercase provider_id) @ ''_API_KEY''"

definition resolve_key :: "(string \<Rightarrow> string option) \<Rightarrow> string \<Rightarrow> string option \<Rightarrow> string" where
  "resolve_key env provider_id literal =
     (let fallback = unwrap_or '''' (env (env_var_of provider_id)) in
      case literal of
        None \<Rightarrow> fallback
      | Some lit \<Rightarrow> (case env_reference lit of
            Some inner \<Rightarrow> (case env inner of Some v \<Rightarrow> v | None \<Rightarrow> fallback)
          | None \<Rightarrow> if lit \<noteq> [] then lit else fallback))"

record SelectedRoute =
  sel_provider_id :: string
  sel_model_id :: string

definition route_explicit :: "ProviderRegistry \<Rightarrow> string \<Rightarrow> SelectedRoute option" where
  "route_explicit r model_ref = (case split_model_ref model_ref of
      None \<Rightarrow> None
    | Some (p, m) \<Rightarrow> (case reg_get r p of
          None \<Rightarrow> None
        | Some _ \<Rightarrow> Some \<lparr>sel_provider_id = p, sel_model_id = m\<rparr>))"

definition route_tier :: "ProviderRegistry \<Rightarrow> RouterConfig \<Rightarrow> Tier \<Rightarrow> SelectedRoute option" where
  "route_tier r cfg tier = Option.bind (primary_for_tier cfg tier) (route_explicit r)"

subsection \<open>The registry is a store\<close>

lemma map_of_reg_insert [simp, store_laws]:
  "map_of (reg_insert k a r) = (map_of r)(k \<mapsto> a)"
  by (induction k a r rule: reg_insert.induct) auto

lemma map_of_reg_delete [simp, store_laws]: "map_of (reg_delete i r) k = (if k = i then None else map_of r k)"
  by (induction r) (auto simp: reg_delete_def)

lemma keys_reg_insert: "set (map fst (reg_insert k a r)) = insert k (set (map fst r))"
  by (induction k a r rule: reg_insert.induct) auto

lemma distinct_reg_insert [simp]:
  "distinct (map fst r) \<Longrightarrow> distinct (map fst (reg_insert k a r))"
proof (induction k a r rule: reg_insert.induct)
  case (2 k a k' a' r)
  then show ?case using keys_reg_insert[of k a r] by auto
qed simp

lemma distinct_reg_delete [simp]: "distinct (map fst r) \<Longrightarrow> distinct (map fst (reg_delete i r))"
  by (auto simp: reg_delete_def distinct_map intro: inj_on_subset)

interpretation reg: kv_store reg_get reg_insert reg_delete "\<lambda>r. distinct (map fst r)"
  by unfold_locales (simp_all add: reg_get_def)

lemma from_configs_loop_distinct:
  "distinct (map fst r) \<Longrightarrow> from_configs_loop cfgs r = Inr r' \<Longrightarrow> distinct (map fst r')"
proof (induction cfgs arbitrary: r)
  case Nil
  then show ?case by simp
next
  case (Cons c cfgs)
  from Cons.prems(2) obtain a where "from_configs_loop cfgs (reg_insert (pc_id c) a r) = Inr r'"
    by (auto simp: and_then_Inr_iff)
  from Cons.IH[OF distinct_reg_insert[OF Cons.prems(1)] this] show ?case .
qed

text \<open>
  Building the registry: every config must have an adapter, and the last config of an id wins.
\<close>

lemma from_configs_loop_fold:
  "from_configs_loop cfgs r = Inr r' \<longleftrightarrow>
     (\<exists>as. list_all2 (\<lambda>cfg a. build_adapter cfg = Inr a) cfgs as \<and>
        r' = fold (\<lambda>(k, a). reg_insert k a) (zip (map pc_id cfgs) as) r)"
proof (induction cfgs arbitrary: r)
  case Nil
  then show ?case by auto
next
  case (Cons c cs)
  have "from_configs_loop (c # cs) r = Inr r' \<longleftrightarrow>
      (\<exists>a as. build_adapter c = Inr a \<and> list_all2 (\<lambda>cfg a. build_adapter cfg = Inr a) cs as \<and>
        r' = fold (\<lambda>(k, a). reg_insert k a) (zip (map pc_id cs) as) (reg_insert (pc_id c) a r))"
    by (simp add: and_then_Inr_iff Cons.IH)
  also have "\<dots> \<longleftrightarrow> (\<exists>a as. list_all2 (\<lambda>cfg a. build_adapter cfg = Inr a) (c # cs) (a # as) \<and>
        r' = fold (\<lambda>(k, a). reg_insert k a) (zip (map pc_id (c # cs)) (a # as)) r)"
    by simp
  finally show ?case by (metis list_all2_Cons1)
qed

lemma from_configs_get:
  assumes "from_configs cfgs = Inr r"
  shows "\<exists>as. list_all2 (\<lambda>cfg a. build_adapter cfg = Inr a) cfgs as \<and>
     reg_get r i = map_of (rev (zip (map pc_id cfgs) as)) i"
proof -
  from assms obtain as where as: "list_all2 (\<lambda>cfg a. build_adapter cfg = Inr a) cfgs as"
    and r: "r = fold (\<lambda>(k, a). reg_insert k a) (zip (map pc_id cfgs) as) []"
    by (auto simp: from_configs_def from_configs_loop_fold)
  have "reg_get r i = map_of (rev (zip (map pc_id cfgs) as)) i"
    using reg.lookup_fold_put[of "[]" "zip (map pc_id cfgs) as" i]
    by (simp add: r reg_get_def split: option.splits)
  with as show ?thesis by blast
qed

subsection \<open>Adapters and routes\<close>

lemma build_adapter_error_iff:
  "(\<exists>e. build_adapter cfg = Inl e) \<longleftrightarrow> pc_type cfg = Generic \<and> pc_base_url cfg = None"
proof -
  have "(\<exists>e. build_adapter cfg = Inl e) \<longleftrightarrow>
      opt_or (pc_base_url cfg) (map_option base_url (lookup (pc_type cfg))) = None"
    by (simp add: build_adapter_def Let_def and_then_def ok_or_def split: option.split)
  also have "\<dots> \<longleftrightarrow> pc_type cfg = Generic \<and> pc_base_url cfg = None"
    by (simp add: opt_or_def split: option.split)
  finally show ?thesis .
qed

lemma build_adapter_id: "build_adapter cfg = Inr a \<Longrightarrow> ad_provider_id a = pc_id cfg"
  by (cases "pc_type cfg") (auto simp: build_adapter_def Let_def and_then_Inr_iff)

lemma split_model_ref_Some:
  "split_model_ref s = Some (p, m) \<longleftrightarrow>
     s = p @ ''/'' @ m \<and> CHR ''/'' \<notin> set p \<and> p \<noteq> [] \<and> m \<noteq> []"
proof (cases "split_once (CHR ''/'') s")
  case None
  then have "CHR ''/'' \<notin> set s" by (simp add: split_once_None)
  then have "s \<noteq> p @ ''/'' @ m" by (metis in_set_conv_decomp append_Cons append_Nil)
  with None show ?thesis by (simp add: split_model_ref_def)
next
  case (Some ab)
  obtain a b where ab: "ab = (a, b)" by (cases ab)
  have "split_once (CHR ''/'') s = Some (p, m) \<longleftrightarrow> s = p @ ''/'' @ m \<and> CHR ''/'' \<notin> set p"
    by (simp only: split_once_Some append_Cons append_Nil)
  then show ?thesis by (simp only: split_model_ref_def Some ab) auto
qed

lemma route_explicit_Some:
  "route_explicit r s = Some rt \<longleftrightarrow>
     split_model_ref s = Some (sel_provider_id rt, sel_model_id rt)
     \<and> reg_get r (sel_provider_id rt) \<noteq> None"
  by (auto simp: route_explicit_def split: option.splits prod.splits)

end
