(* ===== verification/Errors.thy ===== *)
theory Errors
  imports Json
begin

section \<open>Router errors\<close>

text \<open>
  \<open>src/error.rs\<close>: the \<open>AppError\<close> enum, the status each variant maps to and the OpenAI error
  envelope a handler answers with.
\<close>

datatype AppError =
    BadRequest string
  | Unauthorized string
  | NotFound string
  | ProviderError (pe_provider: string) (pe_status: u16) (pe_message: string)
  | ContextTooLong (ctx_model: string) (ctx_limit: u32)
  | AllProvidersFailed string
  | UpstreamTimeout u64
  | Internal string

text \<open>\<open>StatusCode::from_u16\<close> accepts the three-digit codes.\<close>

definition status_from_u16 :: "u16 \<Rightarrow> u16 option" where
  "status_from_u16 s = (if 100 \<le> s \<and> s < 1000 then Some s else None)"

fun status :: "AppError \<Rightarrow> u16" where
  "status (BadRequest _) = 400"
| "status (Unauthorized _) = 401"
| "status (NotFound _) = 404"
| "status (ProviderError _ s _) = unwrap_or 502 (status_from_u16 s)"
| "status (ContextTooLong _ _) = 413"
| "status (AllProvidersFailed _) = 502"
| "status (UpstreamTimeout _) = 504"
| "status (Internal _) = 500"

fun error_to_string :: "AppError \<Rightarrow> string" where
  "error_to_string (BadRequest m) = ''bad request: '' @ m"
| "error_to_string (Unauthorized m) = ''unauthorized: '' @ m"
| "error_to_string (NotFound m) = ''not found: '' @ m"
| "error_to_string (ProviderError p s m) =
     ''provider '' @ p @ '' returned '' @ show_nat (unat s) @ '': '' @ m"
| "error_to_string (ContextTooLong m l) =
     ''upstream context too long for '' @ m @ '' (limit '' @ show_nat (unat l) @ '')''"
| "error_to_string (AllProvidersFailed t) = ''all providers failed for tier '' @ t"
| "error_to_string (UpstreamTimeout ms) =
     ''upstream timeout after '' @ show_nat (unat ms) @ ''ms''"
| "error_to_string (Internal m) = ''internal: '' @ m"

definition error_type :: "u16 \<Rightarrow> string" where
  "error_type s =
     (if s = 400 then ''invalid_request_error''
      else if s = 401 then ''invalid_api_key''
      else if s = 413 then ''context_length_exceeded''
      else if s = 504 then ''timeout''
      else ''server_error'')"

definition into_response :: "AppError \<Rightarrow> u16 \<times> json" where
  "into_response e = (let s = status e in
     (s, Object [(''error'', Object
           [(''message'', String (error_to_string e)),
            (''type'', String (error_type s)),
            (''code'', Number (PosInt (ucast s)))])]))"

text \<open>\<open>From<reqwest::Error>\<close>: a timeout, or an internal error with the text of the library.\<close>

definition from_reqwest :: "bool \<Rightarrow> string \<Rightarrow> AppError" where
  "from_reqwest is_timeout text =
     (if is_timeout then UpstreamTimeout 0 else Internal (''reqwest: '' @ text))"

lemma status_is_http_code: "100 \<le> status e \<and> status e < 1000"
  by (cases e) (auto simp: status_from_u16_def unwrap_or_def)

lemma into_response_status [simp]: "fst (into_response e) = status e"
  by (simp add: into_response_def Let_def)

end
