(* ===== verification/Fallback.thy ===== *)
theory Fallback
  imports Health Registry Errors
begin

section \<open>The fallback executor\<close>

text \<open>
  \<open>src/proxy/fallback.rs\<close>: classification of upstream errors and the walk over the chain of
  providers. Everything outside (the clock, an adapter call, the sleep between attempts, the
  resolver of provider handles) is a field of the record \<open>ExecEnv\<close> over an abstract world \<open>'w\<close>
  that is threaded in the order of the source; adapters are an abstract type \<open>'a\<close>. The health
  registry is threaded beside it. \<open>exec_entry\<close> is the body of the loop, \<open>exec_loop\<close> the loop.
\<close>

datatype AttemptOutcome =
    Success
  | Retry (wait_ms: u64) (reason: string)
  | Skip (reason: string)
  | Fatal (reason: string)
  | ContextLimit u32

fun is_retry :: "AttemptOutcome \<Rightarrow> bool" where
  "is_retry (Retry _ _) = True"
| "is_retry _ = False"

fun is_skip :: "AttemptOutcome \<Rightarrow> bool" where
  "is_skip (Skip _) = True"
| "is_skip _ = False"

fun is_fatal :: "AttemptOutcome \<Rightarrow> bool" where
  "is_fatal (Fatal _) = True"
| "is_fatal _ = False"

fun is_context :: "AttemptOutcome \<Rightarrow> bool" where
  "is_context (ContextLimit _) = True"
| "is_context _ = False"

definition classify_status :: "u16 \<Rightarrow> string \<Rightarrow> AttemptOutcome" where
  "classify_status s message = (let lower = to_lowercase message in
     if s = 401 \<or> s = 403 then Fatal ''auth error''
     else if s = 408 then Retry 0 ''request timeout''
     else if s = 429 then Retry 1500 ''rate limited''
     else if s = 400 \<and> (contains lower ''context'' \<or> contains lower ''too long''
         \<or> contains lower ''maximum context'') then ContextLimit 8192
     else Skip ''upstream error'')"

fun classify :: "AppError \<Rightarrow> AttemptOutcome" where
  "classify (ProviderError _ s message) = classify_status s message"
| "classify (UpstreamTimeout _) = Skip ''upstream timeout''"
| "classify (ContextTooLong _ limit) = ContextLimit limit"
| "classify (Internal _) = Skip ''internal error''"
| "classify _ = Skip ''unknown error''"

record RoutingPlan =
  rp_request :: CanonicalRequest
  rp_primary :: string
  rp_fallbacks :: "string list"
  rp_downgrade_to :: "string option"
  rp_request_budget :: nat
  rp_max_retries_per_provider :: u32
  rp_max_retry_after_ms :: u64
  rp_fixed_retry_wait_ms :: u64

record AttemptRecord =
  at_provider :: string
  at_model :: string
  at_outcome :: AttemptOutcome
  at_latency_ms :: nat

record ExecutionResult =
  ex_response :: CanonicalResponse
  ex_attempts :: "AttemptRecord list"
  ex_providers_tried :: "string list"
  ex_fallback_count :: u32

record 'a ProviderHandle =
  h_provider_id :: string
  h_model_id :: string
  h_adapter :: 'a
  h_key :: string

record HealthHook =
  failure_threshold :: u32
  cooldown_secs :: u64

record ('a, 'w) ExecEnv =
  en_now :: "'w \<Rightarrow> instant \<times> 'w"
  en_complete :: "'a \<Rightarrow> CanonicalRequest \<Rightarrow> string \<Rightarrow> 'w \<Rightarrow> (AppError + CanonicalResponse) \<times> 'w"
  en_sleep :: "nat \<Rightarrow> 'w \<Rightarrow> 'w"
  en_resolve :: "string \<Rightarrow> 'w \<Rightarrow> 'a ProviderHandle option \<times> 'w"

text \<open>The three mutable variables of \<open>execute\<close>, and what one round of the loop does.\<close>

record ExecAcc =
  attempts :: "AttemptRecord list"
  providers_tried :: "string list"
  fallback_count :: u32

datatype Flow = Return "AppError + ExecutionResult" | Continue ExecAcc

definition split_provider_model :: "string \<Rightarrow> string \<times> string" where
  "split_provider_model s = (case split_once (CHR ''/'') s of
      Some (p, m) \<Rightarrow> (p, m) | None \<Rightarrow> (''unknown'', s))"

definition plan_chain :: "RoutingPlan \<Rightarrow> (string \<times> string) list" where
  "plan_chain plan = split_provider_model (rp_primary plan) #
     map split_provider_model (rp_fallbacks plan)"

text \<open>\<open>is_available\<close> reads the clock only when a cooldown is set.\<close>

definition check_available ::
  "('a, 'w) ExecEnv \<Rightarrow> string \<Rightarrow> HealthRegistry \<Rightarrow> 'w \<Rightarrow> bool \<times> 'w" where
  "check_available env p h w = (case cooldown_until (health_get p h) of
      None \<Rightarrow> (True, w)
    | Some _ \<Rightarrow> (let (t, w') = en_now env w in (is_available p t h, w')))"

definition outcome_of :: "AppError + 'r \<Rightarrow> AttemptOutcome" where
  "outcome_of res = (case res of Inl e \<Rightarrow> classify e | Inr _ \<Rightarrow> Success)"

definition record_outcome ::
  "('a, 'w) ExecEnv \<Rightarrow> HealthHook \<Rightarrow> string \<Rightarrow> AttemptOutcome \<Rightarrow> HealthRegistry \<Rightarrow> 'w
     \<Rightarrow> HealthRegistry \<times> 'w" where
  "record_outcome env hook p oc h w =
     (if is_retry oc \<or> oc = Success then (record_success p h, w)
      else (let (t1, w1) = en_now env w; (t2, w2) = en_now env w1 in
            (record_failure p (failure_threshold hook) (cooldown_secs hook) t1 t2 h, w2)))"

text \<open>One call of the adapter, timed, classified and recorded.\<close>

definition do_attempt ::
  "('a, 'w) ExecEnv \<Rightarrow> HealthHook \<Rightarrow> CanonicalRequest \<Rightarrow> 'a ProviderHandle \<Rightarrow> HealthRegistry \<Rightarrow> 'w
     \<Rightarrow> (AppError + CanonicalResponse) \<times> AttemptRecord \<times> HealthRegistry \<times> 'w" where
  "do_attempt env hook req hl h w =
     (let (t0, w1) = en_now env w;
          (res, w2) = en_complete env (h_adapter hl) req (h_key hl) w1;
          (t1, w3) = en_now env w2;
          (h', w4) = record_outcome env hook (h_provider_id hl) (outcome_of res) h w3 in
      (res, \<lparr>at_provider = h_provider_id hl, at_model = h_model_id hl,
             at_outcome = outcome_of res, at_latency_ms = as_millis (t1 - t0)\<rparr>, h', w4))"

definition skip_entry :: "string \<Rightarrow> string \<Rightarrow> string \<Rightarrow> ExecAcc \<Rightarrow> ExecAcc" where
  "skip_entry p m why acc = \<lparr>attempts = attempts acc @
       [\<lparr>at_provider = p, at_model = m, at_outcome = Skip why, at_latency_ms = 0\<rparr>],
     providers_tried = providers_tried acc @ [p], fallback_count = fallback_count acc + 1\<rparr>"

definition add_attempt :: "AttemptRecord \<Rightarrow> ExecAcc \<Rightarrow> ExecAcc" where
  "add_attempt a acc = acc\<lparr>attempts := attempts acc @ [a]\<rparr>"

definition finish :: "CanonicalResponse \<Rightarrow> ExecAcc \<Rightarrow> ExecutionResult" where
  "finish r acc = \<lparr>ex_response = r, ex_attempts = attempts acc,
     ex_providers_tried = providers_tried acc, ex_fallback_count = fallback_count acc\<rparr>"

text \<open>
  What follows the attempts: the decision uses the outcome of the first attempt, the error is
  that of the last.
\<close>

definition after_failure :: "string \<Rightarrow> AttemptOutcome \<Rightarrow> AppError \<Rightarrow> ExecAcc \<Rightarrow> Flow" where
  "after_failure model first_outcome final acc =
     (case first_outcome of
        Fatal _ \<Rightarrow> Return (Inl final)
      | ContextLimit limit \<Rightarrow> Return (Inl (ContextTooLong model limit))
      | _ \<Rightarrow> Continue (acc\<lparr>fallback_count := fallback_count acc + 1\<rparr>))"

definition retry_wait :: "RoutingPlan \<Rightarrow> AttemptOutcome \<Rightarrow> u64" where
  "retry_wait plan oc = (case oc of Retry w _ \<Rightarrow> min w (rp_max_retry_after_ms plan) | _ \<Rightarrow> 0)"

definition run_attempts ::
  "('a, 'w) ExecEnv \<Rightarrow> RoutingPlan \<Rightarrow> HealthHook \<Rightarrow> string \<Rightarrow> 'a ProviderHandle \<Rightarrow> ExecAcc
     \<Rightarrow> HealthRegistry \<Rightarrow> 'w \<Rightarrow> Flow \<times> HealthRegistry \<times> 'w" where
  "run_attempts env plan hook model hl acc h w =
     (let req = (rp_request plan)\<lparr>cr_selected_provider := h_provider_id hl,
                                   cr_selected_model := h_model_id hl\<rparr>;
          (first, a1, h1, w1) = do_attempt env hook req hl h w;
          acc1 = add_attempt a1 acc in
      case first of
        Inr resp \<Rightarrow> (Return (Inr (finish resp acc1)), h1, w1)
      | Inl e1 \<Rightarrow>
          if is_retry (classify e1) then
            (let ms = retry_wait plan (classify e1);
                 w2 = (if 0 < ms then en_sleep env (from_millis (unat ms)) w1 else w1);
                 (second, a2, h2, w3) = do_attempt env hook req hl h1 w2;
                 acc2 = add_attempt a2 acc1 in
             case second of
               Inr resp \<Rightarrow> (Return (Inr (finish resp acc2)), h2, w3)
             | Inl e2 \<Rightarrow> (after_failure model (classify e1) e2 acc2, h2, w3))
          else (after_failure model (classify e1) e1 acc1, h1, w1))"

definition exec_entry ::
  "('a, 'w) ExecEnv \<Rightarrow> RoutingPlan \<Rightarrow> HealthHook \<Rightarrow> instant \<Rightarrow> string \<times> string \<Rightarrow> ExecAcc
     \<Rightarrow> HealthRegistry \<Rightarrow> 'w \<Rightarrow> Flow \<times> HealthRegistry \<times> 'w" where
  "exec_entry env plan hook started entry acc h w =
     (let (p, m) = entry; (t, w1) = en_now env w in
      if rp_request_budget plan \<le> t - started then
        (let (t', w2) = en_now env w1 in
         (Return (Inl (Internal (''request budget exhausted after ''
            @ show_nat (as_millis (t' - started)) @ ''ms''))), h, w2))
      else
        (let (up, w2) = check_available env p h w1 in
         if \<not> up then (Continue (skip_entry p m ''in cooldown'' acc), h, w2)
         else (case en_resolve env p w2 of
             (None, w3) \<Rightarrow> (Continue (skip_entry p m ''no adapter'' acc), h, w3)
           | (Some hl, w3) \<Rightarrow> run_attempts env plan hook m hl
               (acc\<lparr>providers_tried := providers_tried acc @ [h_provider_id hl]\<rparr>) h w3)))"

fun exec_loop ::
  "('a, 'w) ExecEnv \<Rightarrow> RoutingPlan \<Rightarrow> HealthHook \<Rightarrow> instant \<Rightarrow> (string \<times> string) list \<Rightarrow> ExecAcc
     \<Rightarrow> HealthRegistry \<Rightarrow> 'w \<Rightarrow> (AppError + ExecutionResult) \<times> HealthRegistry \<times> 'w" where
  "exec_loop env plan hook started [] acc h w =
     (Inl (Internal (''all fallbacks exhausted (''
        @ show_nat (length (providers_tried acc)) @ '' tried)'')), h, w)"
| "exec_loop env plan hook started (entry # chain) acc h w =
     (case exec_entry env plan hook started entry acc h w of
        (Return r, h', w') \<Rightarrow> (r, h', w')
      | (Continue acc', h', w') \<Rightarrow> exec_loop env plan hook started chain acc' h' w')"

definition acc_init :: ExecAcc where
  "acc_init = \<lparr>attempts = [], providers_tried = [], fallback_count = 0\<rparr>"

definition execute ::
  "('a, 'w) ExecEnv \<Rightarrow> RoutingPlan \<Rightarrow> HealthHook \<Rightarrow> HealthRegistry \<Rightarrow> 'w
     \<Rightarrow> (AppError + ExecutionResult) \<times> HealthRegistry \<times> 'w" where
  "execute env plan hook h w = (let (started, w1) = en_now env w in
     exec_loop env plan hook started (plan_chain plan) acc_init h w1)"

subsection \<open>Classification\<close>

lemma classify_status_not_Success [simp]: "classify_status s m \<noteq> Success"
  by (simp add: classify_status_def Let_def)

lemma classify_not_Success [simp]: "classify e \<noteq> Success"
  by (cases e) simp_all

lemma classify_retry_iff:
  "is_retry (classify e) \<longleftrightarrow> (\<exists>p m. e = ProviderError p 408 m \<or> e = ProviderError p 429 m)"
  by (cases e) (auto simp: classify_status_def Let_def)

lemma classify_fatal_iff:
  "is_fatal (classify e) \<longleftrightarrow> (\<exists>p m. e = ProviderError p 401 m \<or> e = ProviderError p 403 m)"
  by (cases e) (auto simp: classify_status_def Let_def)

text \<open>The four classes of failures exclude each other and cover every error.\<close>

lemma classify_classes:
  "(is_retry (classify e) \<or> is_skip (classify e) \<or> is_fatal (classify e) \<or> is_context (classify e))
   \<and> \<not> (is_retry (classify e) \<and> is_fatal (classify e))"
  by (cases "classify e") (use classify_not_Success[of e] in auto)

lemma classify_wait_bounded: "classify e = Retry w why \<Longrightarrow> w \<le> 1500"
  by (cases e) (auto simp: classify_status_def Let_def split: if_split_asm)

lemma outcome_of_Success [simp]: "outcome_of res = Success \<longleftrightarrow> (\<exists>v. res = Inr v)"
  by (cases res) (simp_all add: outcome_of_def)

subsection \<open>One attempt, one entry\<close>

lemma do_attempt_record:
  "do_attempt env hook req hl h w = (res, a, h', w') \<Longrightarrow>
   at_outcome a = outcome_of res \<and> at_provider a = h_provider_id hl \<and> at_model a = h_model_id hl"
  by (auto simp: do_attempt_def Let_def split: prod.splits)

lemma do_attempt_calls:
  "do_attempt env hook req hl h w = (res, a, h', w') \<Longrightarrow>
   \<exists>w1 w2. en_complete env (h_adapter hl) req (h_key hl) w1 = (res, w2)"
  by (auto simp: do_attempt_def Let_def split: prod.splits)

lemma do_attempt_health:
  "do_attempt env hook req hl h w = (res, a, h', w') \<Longrightarrow>
   (h' = record_success (h_provider_id hl) h \<and> (is_retry (outcome_of res) \<or> outcome_of res = Success))
   \<or> (\<exists>t1 t2. h' = record_failure (h_provider_id hl) (failure_threshold hook) (cooldown_secs hook) t1 t2 h
        \<and> \<not> is_retry (outcome_of res) \<and> outcome_of res \<noteq> Success)"
  by (auto simp: do_attempt_def record_outcome_def Let_def simp del: outcome_of_Success
      split: prod.splits if_split_asm)

abbreviation entry_request :: "RoutingPlan \<Rightarrow> 'a ProviderHandle \<Rightarrow> CanonicalRequest" where
  "entry_request plan hl \<equiv> (rp_request plan)\<lparr>cr_selected_provider := h_provider_id hl,
     cr_selected_model := h_model_id hl\<rparr>"

lemma run_attempts_cases [consumes 1, case_names ok fail retry_ok retry_fail]:
  assumes "run_attempts env plan hook m hl acc h w = (f, h', w')"
  obtains
    resp a where "do_attempt env hook (entry_request plan hl) hl h w = (Inr resp, a, h', w')"
      "f = Return (Inr (finish resp (add_attempt a acc)))"
  | e a where "do_attempt env hook (entry_request plan hl) hl h w = (Inl e, a, h', w')"
      "\<not> is_retry (classify e)" "f = after_failure m (classify e) e (add_attempt a acc)"
  | e a1 h1 w1 w2 resp a2 where
      "do_attempt env hook (entry_request plan hl) hl h w = (Inl e, a1, h1, w1)"
      "is_retry (classify e)"
      "w2 = (if 0 < retry_wait plan (classify e)
             then en_sleep env (from_millis (unat (retry_wait plan (classify e)))) w1 else w1)"
      "do_attempt env hook (entry_request plan hl) hl h1 w2 = (Inr resp, a2, h', w')"
      "f = Return (Inr (finish resp (add_attempt a2 (add_attempt a1 acc))))"
  | e a1 h1 w1 w2 e2 a2 where
      "do_attempt env hook (entry_request plan hl) hl h w = (Inl e, a1, h1, w1)"
      "is_retry (classify e)"
      "w2 = (if 0 < retry_wait plan (classify e)
             then en_sleep env (from_millis (unat (retry_wait plan (classify e)))) w1 else w1)"
      "do_attempt env hook (entry_request plan hl) hl h1 w2 = (Inl e2, a2, h', w')"
      "f = after_failure m (classify e) e2 (add_attempt a2 (add_attempt a1 acc))"
proof -
  obtain r1 a1 h1 w1 where d1: "do_attempt env hook (entry_request plan hl) hl h w = (r1, a1, h1, w1)"
    by (metis prod_cases4)
  show thesis
  proof (cases r1)
    case (Inr resp)
    with d1 assms that(1) show thesis by (simp add: run_attempts_def)
  next
    case (Inl e)
    show thesis
    proof (cases "is_retry (classify e)")
      case False
      with Inl d1 assms that(2) show thesis by (simp add: run_attempts_def)
    next
      case True
      define w2 where "w2 = (if 0 < retry_wait plan (classify e)
        then en_sleep env (from_millis (unat (retry_wait plan (classify e)))) w1 else w1)"
      obtain r2 a2 h2 w3 where d2:
        "do_attempt env hook (entry_request plan hl) hl h1 w2 = (r2, a2, h2, w3)"
        by (metis prod_cases4)
      note run = assms[unfolded run_attempts_def Let_def d1 Inl prod.case sum.case if_P[OF True],
          folded w2_def, unfolded d2 prod.case]
      show thesis
      proof (cases r2)
        case (Inr resp)
        with run d2 that(3)[OF d1[unfolded Inl] True w2_def] show thesis by simp
      next
        case (Inl e2)
        with run d2 that(4)[OF d1[unfolded \<open>r1 = Inl e\<close>] True w2_def] show thesis by simp
      qed
    qed
  qed
qed

lemma exec_entry_cases [consumes 1, case_names budget cooldown unresolved run]:
  assumes "exec_entry env plan hook started (p, m) acc h w = (f, h', w')"
  obtains
    t t' w1 where "en_now env w = (t, w1)" "rp_request_budget plan \<le> t - started"
      "en_now env w1 = (t', w')" "h' = h"
      "f = Return (Inl (Internal (''request budget exhausted after ''
        @ show_nat (as_millis (t' - started)) @ ''ms'')))"
  | t w1 where "en_now env w = (t, w1)" "t - started < rp_request_budget plan"
      "check_available env p h w1 = (False, w')" "h' = h"
      "f = Continue (skip_entry p m ''in cooldown'' acc)"
  | t w1 w2 where "en_now env w = (t, w1)" "t - started < rp_request_budget plan"
      "check_available env p h w1 = (True, w2)" "en_resolve env p w2 = (None, w')" "h' = h"
      "f = Continue (skip_entry p m ''no adapter'' acc)"
  | t w1 w2 hl w3 where "en_now env w = (t, w1)" "t - started < rp_request_budget plan"
      "check_available env p h w1 = (True, w2)" "en_resolve env p w2 = (Some hl, w3)"
      "run_attempts env plan hook m hl
         (acc\<lparr>providers_tried := providers_tried acc @ [h_provider_id hl]\<rparr>) h w3 = (f, h', w')"
proof -
  obtain t w1 where now: "en_now env w = (t, w1)" by (cases "en_now env w")
  obtain up w2 where av: "check_available env p h w1 = (up, w2)"
    by (cases "check_available env p h w1")
  obtain ho w3 where res: "en_resolve env p w2 = (ho, w3)" by (cases "en_resolve env p w2")
  obtain t' w4 where now': "en_now env w1 = (t', w4)" by (cases "en_now env w1")
  note run = assms[unfolded exec_entry_def Let_def now prod.case av res now']
  show thesis
  proof (cases "rp_request_budget plan \<le> t - started")
    case True
    with run now now' that(1) show thesis by simp
  next
    case False
    then have lt: "t - started < rp_request_budget plan" by simp
    show thesis
    proof (cases up)
      case up: True
      show thesis
      proof (cases ho)
        case None
        from that(3)[OF now lt] run False up None av res show thesis by simp
      next
        case (Some hl)
        from that(4)[OF now lt] run False up Some av res show thesis by simp
      qed
    next
      case down: False
      from that(2)[OF now lt] run False down av show thesis by simp
    qed
  qed
qed

subsection \<open>Effect of an entry on the accumulator\<close>

text \<open>\<open>extends acc as ps acc'\<close>: the attempts \<open>as\<close> and tried providers \<open>ps\<close> were appended.\<close>

definition extends ::
  "ExecAcc \<Rightarrow> AttemptRecord list \<Rightarrow> string list \<Rightarrow> ExecAcc \<Rightarrow> bool" where
  "extends acc as ps acc' \<longleftrightarrow> attempts acc' = attempts acc @ as
     \<and> providers_tried acc' = providers_tried acc @ ps
     \<and> fallback_count acc' = fallback_count acc + of_nat (length ps)"

definition no_success :: "AttemptRecord list \<Rightarrow> bool" where
  "no_success as \<longleftrightarrow> (\<forall>a \<in> set as. at_outcome a \<noteq> Success)"

lemma no_success_simps [simp]:
  "no_success []" "no_success (a # as) \<longleftrightarrow> at_outcome a \<noteq> Success \<and> no_success as"
  "no_success (as @ bs) \<longleftrightarrow> no_success as \<and> no_success bs"
  by (auto simp: no_success_def)

lemma extends_refl [simp]: "extends acc [] [] acc"
  by (simp add: extends_def)

lemma extends_trans:
  "extends acc as ps acc1 \<Longrightarrow> extends acc1 bs qs acc2 \<Longrightarrow> extends acc (as @ bs) (ps @ qs) acc2"
  by (simp add: extends_def add.assoc)

lemma after_failure_Continue:
  "after_failure m oc e acc = Continue acc' \<Longrightarrow> acc' = acc\<lparr>fallback_count := fallback_count acc + 1\<rparr>"
  by (cases oc) (auto simp: after_failure_def)

lemma after_failure_Return:
  "after_failure m oc e acc = Return r \<Longrightarrow> (\<exists>x. r = Inl x) \<and> (is_fatal oc \<or> is_context oc)"
  by (cases oc) (auto simp: after_failure_def)

lemma run_attempts_Continue:
  assumes "run_attempts env plan hook m hl acc h w = (Continue acc', h', w')"
  shows "\<exists>as. 1 \<le> length as \<and> length as \<le> 2 \<and> no_success as \<and> attempts acc' = attempts acc @ as
     \<and> (\<forall>a \<in> set as. at_provider a = h_provider_id hl)
     \<and> providers_tried acc' = providers_tried acc \<and> fallback_count acc' = fallback_count acc + 1"
  using assms
proof (cases rule: run_attempts_cases)
  case (ok resp a)
  then show ?thesis by simp
next
  case (fail e a)
  then have "acc' = (add_attempt a acc)\<lparr>fallback_count := fallback_count (add_attempt a acc) + 1\<rparr>"
    by (auto dest: after_failure_Continue[OF sym])
  then show ?thesis using do_attempt_record[OF fail(1)]
    by (intro exI[of _ "[a]"]) (simp add: add_attempt_def outcome_of_def)
next
  case (retry_ok e a1 h1 w1 w2 resp a2)
  then show ?thesis by simp
next
  case (retry_fail e a1 h1 w1 w2 e2 a2)
  let ?acc = "add_attempt a2 (add_attempt a1 acc)"
  from retry_fail(5) have "acc' = ?acc\<lparr>fallback_count := fallback_count ?acc + 1\<rparr>"
    by (auto dest: after_failure_Continue[OF sym])
  then show ?thesis using do_attempt_record[OF retry_fail(1)] do_attempt_record[OF retry_fail(4)]
    by (intro exI[of _ "[a1, a2]"]) (simp add: add_attempt_def outcome_of_def)
qed

lemma exec_entry_Continue:
  assumes "exec_entry env plan hook started (p, m) acc h w = (Continue acc', h', w')"
  shows "\<exists>as q. extends acc as [q] acc' \<and> 1 \<le> length as \<and> length as \<le> 2 \<and> no_success as"
  using assms
proof (cases rule: exec_entry_cases)
  case (cooldown t w1)
  then show ?thesis by (intro exI) (auto simp: extends_def skip_entry_def)
next
  case (unresolved t w1 w2)
  then show ?thesis by (intro exI) (auto simp: extends_def skip_entry_def)
next
  case (run t w1 w2 hl w3)
  from run_attempts_Continue[OF run(5)] obtain as where as: "1 \<le> length as" "length as \<le> 2"
    "no_success as" "attempts acc' = attempts acc @ as"
    "providers_tried acc' = providers_tried acc @ [h_provider_id hl]"
    "fallback_count acc' = fallback_count acc + 1" by auto
  then have "extends acc as [h_provider_id hl] acc'" by (simp add: extends_def)
  with as show ?thesis by blast
qed simp

text \<open>A successful entry: its last attempt is the only success, and the response is the adapter's.\<close>

definition succeeded_with ::
  "('a, 'w) ExecEnv \<Rightarrow> RoutingPlan \<Rightarrow> ExecutionResult \<Rightarrow> bool" where
  "succeeded_with env plan r \<longleftrightarrow> (\<exists>hl w1 w2.
     en_complete env (h_adapter hl) (entry_request plan hl) (h_key hl) w1
       = (Inr (ex_response r), w2)
     \<and> ex_attempts r \<noteq> [] \<and> at_provider (last (ex_attempts r)) = h_provider_id hl
     \<and> ex_providers_tried r \<noteq> [] \<and> last (ex_providers_tried r) = h_provider_id hl)"

lemma run_attempts_Return_ok:
  assumes "run_attempts env plan hook m hl acc h w = (Return (Inr r), h', w')"
    and "providers_tried acc = ps @ [h_provider_id hl]"
  shows "\<exists>as a. ex_attempts r = attempts acc @ as @ [a] \<and> no_success as \<and> length as \<le> 1
     \<and> at_outcome a = Success \<and> ex_providers_tried r = providers_tried acc
     \<and> ex_fallback_count r = fallback_count acc \<and> succeeded_with env plan r"
  using assms(1)
proof (cases rule: run_attempts_cases)
  case (ok resp a)
  from do_attempt_calls[OF ok(1)] have "succeeded_with env plan r"
    using ok(2) do_attempt_record[OF ok(1)] assms(2)
    by (auto simp: succeeded_with_def finish_def add_attempt_def)
  then show ?thesis using ok do_attempt_record[OF ok(1)]
    by (intro exI[of _ "[]"] exI[of _ a]) (simp add: finish_def add_attempt_def)
next
  case (fail e a)
  then show ?thesis by (auto dest: after_failure_Return[OF sym])
next
  case (retry_ok e a1 h1 w1 w2 resp a2)
  from do_attempt_calls[OF retry_ok(4)] have "succeeded_with env plan r"
    using retry_ok(5) do_attempt_record[OF retry_ok(4)] assms(2)
    by (auto simp: succeeded_with_def finish_def add_attempt_def)
  then show ?thesis
    using retry_ok(5) do_attempt_record[OF retry_ok(1)] do_attempt_record[OF retry_ok(4)]
    by (intro exI[of _ "[a1]"] exI[of _ a2]) (simp add: finish_def add_attempt_def outcome_of_def)
next
  case (retry_fail e a1 h1 w1 w2 e2 a2)
  then show ?thesis by (auto dest: after_failure_Return[OF sym])
qed

lemma exec_entry_Return_ok:
  assumes "exec_entry env plan hook started (p, m) acc h w = (Return (Inr r), h', w')"
  shows "\<exists>as a q. ex_attempts r = attempts acc @ as @ [a] \<and> no_success as \<and> length as \<le> 1
     \<and> at_outcome a = Success \<and> ex_providers_tried r = providers_tried acc @ [q]
     \<and> ex_fallback_count r = fallback_count acc \<and> succeeded_with env plan r"
  using assms
proof (cases rule: exec_entry_cases)
  case (run t w1 w2 hl w3)
  from run_attempts_Return_ok[OF run(5), of "providers_tried acc"] show ?thesis by auto
qed simp_all

text \<open>The invariant rule of the loop.\<close>

lemma exec_loop_rule:
  assumes "exec_loop env plan hook started chain acc h w = (r, h', w')"
    and "I chain acc h w"
    and "\<And>e es acc h w acc' h' w'. I (e # es) acc h w \<Longrightarrow>
      exec_entry env plan hook started e acc h w = (Continue acc', h', w') \<Longrightarrow> I es acc' h' w'"
    and "\<And>e es acc h w r h' w'. I (e # es) acc h w \<Longrightarrow>
      exec_entry env plan hook started e acc h w = (Return r, h', w') \<Longrightarrow> Q r h' w'"
    and "\<And>acc h w. I [] acc h w \<Longrightarrow> Q (Inl (Internal (''all fallbacks exhausted (''
        @ show_nat (length (providers_tried acc)) @ '' tried)''))) h w"
  shows "Q r h' w'"
  using assms(1,2)
proof (induction chain arbitrary: acc h w)
  case Nil
  then show ?case using assms(5) by auto
next
  case (Cons e es)
  obtain f h1 w1 where f: "exec_entry env plan hook started e acc h w = (f, h1, w1)"
    by (metis prod_cases3)
  show ?case
  proof (cases f)
    case (Return r1)
    with Cons.prems f assms(4) show ?thesis by auto
  next
    case (Continue acc1)
    from assms(3)[OF Cons.prems(2) f[unfolded Continue]] Cons.prems(1)
    show ?thesis by (intro Cons.IH) (simp_all add: f Continue)
  qed
qed

definition exec_inv :: "nat \<Rightarrow> (string \<times> string) list \<Rightarrow> ExecAcc \<Rightarrow> bool" where
  "exec_inv n chain acc \<longleftrightarrow> (\<exists>as ps. extends acc_init as ps acc \<and> no_success as
     \<and> length as \<le> 2 * length ps \<and> length ps + length chain = n)"

definition result_ok :: "('a, 'w) ExecEnv \<Rightarrow> RoutingPlan \<Rightarrow> nat \<Rightarrow> ExecutionResult \<Rightarrow> bool" where
  "result_ok env plan n r \<longleftrightarrow>
     (\<exists>as a. ex_attempts r = as @ [a] \<and> no_success as \<and> at_outcome a = Success)
     \<and> length (ex_providers_tried r) \<le> n
     \<and> length (ex_attempts r) \<le> 2 * length (ex_providers_tried r)
     \<and> ex_fallback_count r + 1 = of_nat (length (ex_providers_tried r))
     \<and> succeeded_with env plan r"

lemma exec_inv_init: "exec_inv (length chain) chain acc_init"
  unfolding exec_inv_def by (rule exI[of _ "[]"], rule exI[of _ "[]"]) simp

lemma exec_inv_Continue:
  assumes "exec_inv n (e # es) acc"
    and "exec_entry env plan hook started e acc h w = (Continue acc', h', w')"
  shows "exec_inv n es acc'"
proof -
  from assms(1) obtain as ps where I: "extends acc_init as ps acc" "no_success as"
    "length as \<le> 2 * length ps" "length ps + length (e # es) = n" by (auto simp: exec_inv_def)
  from exec_entry_Continue[of env plan hook started "fst e" "snd e", simplified, OF assms(2)]
  obtain bs q where bs: "extends acc bs [q] acc'" "length bs \<le> 2" "no_success bs" by auto
  show ?thesis unfolding exec_inv_def
    by (rule exI[of _ "as @ bs"], rule exI[of _ "ps @ [q]"])
      (use I bs extends_trans[OF I(1) bs(1)] in simp)
qed

lemma exec_inv_Return:
  assumes "exec_inv n (e # es) acc"
    and "exec_entry env plan hook started e acc h w = (Return (Inr r), h', w')"
  shows "result_ok env plan n r"
proof -
  from assms(1) obtain as ps where I: "extends acc_init as ps acc" "no_success as"
    "length as \<le> 2 * length ps" "length ps + length (e # es) = n" by (auto simp: exec_inv_def)
  from exec_entry_Return_ok[of env plan hook started "fst e" "snd e", simplified, OF assms(2)]
  obtain bs a q where r: "ex_attempts r = attempts acc @ bs @ [a]" "no_success bs"
    "length bs \<le> 1" "at_outcome a = Success" "ex_providers_tried r = providers_tried acc @ [q]"
    "ex_fallback_count r = fallback_count acc" "succeeded_with env plan r" by auto
  have at: "attempts acc = as" "providers_tried acc = ps" "fallback_count acc = of_nat (length ps)"
    using I(1) by (simp_all add: extends_def acc_init_def)
  have "\<exists>xs x. ex_attempts r = xs @ [x] \<and> no_success xs \<and> at_outcome x = Success"
    by (rule exI[of _ "as @ bs"], rule exI[of _ a]) (use I r at in simp)
  with I r at show ?thesis by (simp add: result_ok_def)
qed

lemma exec_loop_success:
  assumes "exec_loop env plan hook started chain acc_init h w = (Inr r, h', w')"
  shows "result_ok env plan (length chain) r"
proof -
  have "\<forall>s. Inr r = (Inr s :: AppError + ExecutionResult) \<longrightarrow> result_ok env plan (length chain) s"
    by (rule exec_loop_rule[OF assms, where I = "\<lambda>es acc _ _. exec_inv (length chain) es acc"
          and Q = "\<lambda>res _ _. \<forall>s. res = Inr s \<longrightarrow> result_ok env plan (length chain) s"])
      (use exec_inv_init exec_inv_Continue exec_inv_Return in \<open>auto 0 3\<close>)
  then show ?thesis by simp
qed

subsection \<open>Frame conditions and the number of calls\<close>

text \<open>The resolver hands out a handle of the provider it was asked for.\<close>

definition faithful_resolver :: "('a, 'w) ExecEnv \<Rightarrow> bool" where
  "faithful_resolver env \<longleftrightarrow>
     (\<forall>p w hl. fst (en_resolve env p w) = Some hl \<longrightarrow> h_provider_id hl = p)"

text \<open>A quantity of the world that only the calls accepted by \<open>C\<close> can change, by at most one.\<close>

definition counts_calls ::
  "('a, 'w) ExecEnv \<Rightarrow> ('a \<Rightarrow> CanonicalRequest \<Rightarrow> bool) \<Rightarrow> ('w \<Rightarrow> nat) \<Rightarrow> bool" where
  "counts_calls env C calls \<longleftrightarrow>
     (\<forall>w. calls (snd (en_now env w)) = calls w)
     \<and> (\<forall>n w. calls (en_sleep env n w) = calls w)
     \<and> (\<forall>p w. calls (snd (en_resolve env p w)) = calls w)
     \<and> (\<forall>a req k w. calls (snd (en_complete env a req k w)) \<le> calls w + (if C a req then 1 else 0))
     \<and> (\<forall>a req k w. calls w \<le> calls (snd (en_complete env a req k w)))"

lemma counts_callsD:
  assumes "counts_calls env C calls"
  shows "en_now env w = (t, w') \<Longrightarrow> calls w' = calls w"
    and "calls (en_sleep env n w) = calls w"
    and "en_resolve env p w = (ho, w') \<Longrightarrow> calls w' = calls w"
    and "en_complete env a req k w = (res, w') \<Longrightarrow>
      calls w \<le> calls w' \<and> calls w' \<le> calls w + (if C a req then 1 else 0)"
  using assms unfolding counts_calls_def by (metis snd_conv)+

lemma check_available_calls:
  "counts_calls env C calls \<Longrightarrow> check_available env p h w = (b, w') \<Longrightarrow> calls w' = calls w"
  by (auto simp: check_available_def split: option.splits prod.splits dest: counts_callsD(1))

lemma record_outcome_calls:
  "counts_calls env C calls \<Longrightarrow> record_outcome env hook p oc h w = (h', w') \<Longrightarrow> calls w' = calls w"
proof -
  assume c: "counts_calls env C calls" and r: "record_outcome env hook p oc h w = (h', w')"
  obtain t1 w1 where 1: "en_now env w = (t1, w1)" by (cases "en_now env w")
  obtain t2 w2 where 2: "en_now env w1 = (t2, w2)" by (cases "en_now env w1")
  have "w' = w \<or> w' = w2" using r by (auto simp: record_outcome_def 1 2 split: if_split_asm)
  with counts_callsD(1)[OF c 1] counts_callsD(1)[OF c 2] show ?thesis by auto
qed

lemma do_attempt_count:
  assumes "counts_calls env C calls" and "do_attempt env hook req hl h w = (res, a, h', w')"
  shows "calls w \<le> calls w' \<and> calls w' \<le> calls w + (if C (h_adapter hl) req then 1 else 0)"
proof -
  obtain t0 w1 where 1: "en_now env w = (t0, w1)" by (cases "en_now env w")
  obtain r w2 where 2: "en_complete env (h_adapter hl) req (h_key hl) w1 = (r, w2)"
    by (cases "en_complete env (h_adapter hl) req (h_key hl) w1")
  obtain t1 w3 where 3: "en_now env w2 = (t1, w3)" by (cases "en_now env w2")
  obtain h4 w4 where 4: "record_outcome env hook (h_provider_id hl) (outcome_of r) h w3 = (h4, w4)"
    by (cases "record_outcome env hook (h_provider_id hl) (outcome_of r) h w3")
  have "w' = w4" using assms(2) by (simp add: do_attempt_def 1 2 3 4)
  with counts_callsD(1)[OF assms(1) 1] counts_callsD(4)[OF assms(1) 2]
    counts_callsD(1)[OF assms(1) 3] record_outcome_calls[OF assms(1) 4]
  show ?thesis by simp
qed

lemma run_attempts_count:
  assumes c: "counts_calls env C calls"
    and "run_attempts env plan hook m hl acc h w = (f, h', w')"
  shows "calls w \<le> calls w' \<and>
    calls w' \<le> calls w + (if C (h_adapter hl) (entry_request plan hl) then 2 else 0)"
  using assms(2)
proof (cases rule: run_attempts_cases)
  case (ok resp a)
  with do_attempt_count[OF c ok(1)] show ?thesis by (auto split: if_splits)
next
  case (fail e a)
  with do_attempt_count[OF c fail(1)] show ?thesis by (auto split: if_splits)
next
  case (retry_ok e a1 h1 w1 w2 resp a2)
  have "calls w2 = calls w1" using retry_ok(3) counts_callsD(2)[OF c] by simp
  with do_attempt_count[OF c retry_ok(1)] do_attempt_count[OF c retry_ok(4)]
  show ?thesis by (auto split: if_splits)
next
  case (retry_fail e a1 h1 w1 w2 e2 a2)
  have "calls w2 = calls w1" using retry_fail(3) counts_callsD(2)[OF c] by simp
  with do_attempt_count[OF c retry_fail(1)] do_attempt_count[OF c retry_fail(4)]
  show ?thesis by (auto split: if_splits)
qed

lemma exec_entry_count:
  assumes c: "counts_calls env C calls"
    and "exec_entry env plan hook started (p, m) acc h w = (f, h', w')"
  shows "calls w \<le> calls w' \<and> calls w' \<le> calls w + 2"
  using assms(2)
proof (cases rule: exec_entry_cases)
  case (budget t t' w1)
  then show ?thesis using counts_callsD(1)[OF c] by auto
next
  case (cooldown t w1)
  then show ?thesis using counts_callsD(1)[OF c cooldown(1)] check_available_calls[OF c cooldown(3)]
    by simp
next
  case (unresolved t w1 w2)
  then show ?thesis using counts_callsD(1)[OF c unresolved(1)]
      check_available_calls[OF c unresolved(3)] counts_callsD(3)[OF c unresolved(4)] by simp
next
  case (run t w1 w2 hl w3)
  have "calls w3 = calls w" using counts_callsD(1)[OF c run(1)]
      check_available_calls[OF c run(3)] counts_callsD(3)[OF c run(4)] by simp
  with run_attempts_count[OF c run(5)] show ?thesis by (auto split: if_splits)
qed

lemma exec_loop_count:
  assumes c: "counts_calls env C calls"
    and "exec_loop env plan hook started chain acc h w = (r, h', w')"
  shows "calls w' \<le> calls w + 2 * length chain"
proof (rule exec_loop_rule[OF assms(2),
      where I = "\<lambda>es _ _ v. calls v + 2 * length es \<le> calls w + 2 * length chain"
        and Q = "\<lambda>_ _ v. calls v \<le> calls w + 2 * length chain"])
  fix e es acc h v acc' h' v'
  assume "calls v + 2 * length (e # es) \<le> calls w + 2 * length chain"
    and "exec_entry env plan hook started e acc h v = (Continue acc', h', v')"
  then show "calls v' + 2 * length es \<le> calls w + 2 * length chain"
    using exec_entry_count[OF c, of plan hook started "fst e" "snd e"] by fastforce
next
  fix e es acc h v res h' v'
  assume "calls v + 2 * length (e # es) \<le> calls w + 2 * length chain"
    and "exec_entry env plan hook started e acc h v = (Return res, h', v')"
  then show "calls v' \<le> calls w + 2 * length chain"
    using exec_entry_count[OF c, of plan hook started "fst e" "snd e"] by fastforce
qed simp_all

subsection \<open>Health of the other providers\<close>

lemma do_attempt_health_other:
  assumes "do_attempt env hook req hl h w = (res, a, h', w')" and "q \<noteq> h_provider_id hl"
  shows "health_get q h' = health_get q h"
  using do_attempt_health[OF assms(1)] assms(2) by (auto simp: health_get_success)

lemma run_attempts_health_other:
  assumes "run_attempts env plan hook m hl acc h w = (f, h', w')" and "q \<noteq> h_provider_id hl"
  shows "health_get q h' = health_get q h"
  using assms(1) by (cases rule: run_attempts_cases) (auto dest!: do_attempt_health_other[OF _ assms(2)])

lemma exec_entry_health_other:
  assumes "faithful_resolver env" "q \<noteq> p"
    and "exec_entry env plan hook started (p, m) acc h w = (f, h', w')"
  shows "health_get q h' = health_get q h"
  using assms(3)
proof (cases rule: exec_entry_cases)
  case (run t w1 w2 hl w3)
  have "h_provider_id hl = p" using assms(1) run(4) unfolding faithful_resolver_def by (metis fst_conv)
  with run_attempts_health_other[OF run(5)] assms(2) show ?thesis by simp
qed simp_all

text \<open>A provider in cooldown is not called and its health is left alone.\<close>

lemma exec_entry_cooldown:
  assumes f: "faithful_resolver env" and c: "counts_calls env C calls"
    and C: "\<forall>hl. h_provider_id hl \<noteq> q \<longrightarrow> \<not> C (h_adapter hl) (entry_request plan hl)"
    and cd: "cooldown_until (health_get q h) = Some until" "\<forall>w. fst (en_now env w) < until"
    and e: "exec_entry env plan hook started (p, m) acc h w = (fl, h', w')"
  shows "calls w' = calls w \<and> health_get q h' = health_get q h"
  using e
proof (cases rule: exec_entry_cases)
  case (budget t t' w1)
  then show ?thesis using counts_callsD(1)[OF c budget(1)] counts_callsD(1)[OF c budget(3)] by simp
next
  case (cooldown t w1)
  then show ?thesis using counts_callsD(1)[OF c cooldown(1)] check_available_calls[OF c cooldown(3)]
    by simp
next
  case (unresolved t w1 w2)
  then show ?thesis using counts_callsD(1)[OF c unresolved(1)]
      check_available_calls[OF c unresolved(3)] counts_callsD(3)[OF c unresolved(4)] by simp
next
  case (run t w1 w2 hl w3)
  have pid: "h_provider_id hl = p" using f run(4) unfolding faithful_resolver_def by (metis fst_conv)
  have "q \<noteq> p"
  proof
    assume "q = p"
    with run(3) cd show False
      by (auto simp: check_available_def is_available_iff Let_def split: prod.splits)
        (metis fst_conv leD)
  qed
  with pid have "\<not> C (h_adapter hl) (entry_request plan hl)" by (intro C[rule_format]) simp
  with run_attempts_count[OF c run(5)] have "calls w' = calls w3" by simp
  also have "\<dots> = calls w" using counts_callsD(1)[OF c run(1)]
      check_available_calls[OF c run(3)] counts_callsD(3)[OF c run(4)] by simp
  finally show ?thesis using run_attempts_health_other[OF run(5)] pid \<open>q \<noteq> p\<close> by simp
qed

lemma exec_loop_cooldown:
  assumes "faithful_resolver env" and "counts_calls env C calls"
    and "\<forall>hl. h_provider_id hl \<noteq> q \<longrightarrow> \<not> C (h_adapter hl) (entry_request plan hl)"
    and "cooldown_until (health_get q h) = Some until" and "\<forall>w. fst (en_now env w) < until"
    and "exec_loop env plan hook started chain acc h w = (r, h', w')"
  shows "calls w' = calls w \<and> health_get q h' = health_get q h"
proof (rule exec_loop_rule[OF assms(6),
      where I = "\<lambda>_ _ g v. calls v = calls w \<and> health_get q g = health_get q h"
        and Q = "\<lambda>_ g v. calls v = calls w \<and> health_get q g = health_get q h"])
  note entry = exec_entry_cooldown[OF assms(1,2,3) _ assms(5)]
  show "calls v' = calls w \<and> health_get q g' = health_get q h"
    if "calls v = calls w \<and> health_get q g = health_get q h"
      "exec_entry env plan hook started e acc g v = (Continue acc', g', v')"
    for e :: "string \<times> string" and es :: "(string \<times> string) list" and acc g v acc' g' v'
    using entry[of g hook started "fst e" "snd e" acc v] that assms(4) by simp
  show "calls v' = calls w \<and> health_get q g' = health_get q h"
    if "calls v = calls w \<and> health_get q g = health_get q h"
      "exec_entry env plan hook started e acc g v = (Return res, g', v')"
    for e :: "string \<times> string" and es :: "(string \<times> string) list" and acc g v res g' v'
    using entry[of g hook started "fst e" "snd e" acc v] that assms(4) by simp
qed simp_all

subsection \<open>The specification of the walk\<close>

text \<open>
  What the chain promises, free of clocks, retries and health: ask the providers in order, take
  the first answer, stop at an authentication error or at a context overflow. \<open>ans p\<close> is what
  provider \<open>p\<close> answers.
\<close>

fun walk_spec ::
  "(string \<Rightarrow> AppError + CanonicalResponse) \<Rightarrow> (string \<times> string) list \<Rightarrow> nat
     \<Rightarrow> AppError + CanonicalResponse" where
  "walk_spec ans [] n = Inl (Internal (''all fallbacks exhausted ('' @ show_nat n @ '' tried)''))"
| "walk_spec ans ((p, m) # chain) n =
     (case ans p of
        Inr r \<Rightarrow> Inr r
      | Inl e \<Rightarrow> (case classify e of
            Fatal _ \<Rightarrow> Inl e
          | ContextLimit limit \<Rightarrow> Inl (ContextTooLong m limit)
          | _ \<Rightarrow> walk_spec ans chain (Suc n)))"

text \<open>An environment in which each provider has an adapter and a fixed answer, and time is left.\<close>

definition answering ::
  "('a, 'w) ExecEnv \<Rightarrow> nat \<Rightarrow> (string \<Rightarrow> AppError + CanonicalResponse) \<Rightarrow> bool" where
  "answering env budget ans \<longleftrightarrow> (\<forall>w. fst (en_now env w) < budget)
     \<and> (\<forall>p w. \<exists>hl. fst (en_resolve env p w) = Some hl \<and> h_provider_id hl = p
          \<and> (\<forall>req k v. fst (en_complete env (h_adapter hl) req k v) = ans p))"

definition drop_trace :: "AppError + ExecutionResult \<Rightarrow> AppError + CanonicalResponse" where
  "drop_trace r = (case r of Inl e \<Rightarrow> Inl e | Inr x \<Rightarrow> Inr (ex_response x))"

definition flow_answer ::
  "(string \<Rightarrow> AppError + CanonicalResponse) \<Rightarrow> string \<times> string \<Rightarrow> nat \<Rightarrow> Flow \<Rightarrow> bool" where
  "flow_answer ans entry n fl \<longleftrightarrow> (let (p, m) = entry in case fl of
     Return r \<Rightarrow> (\<forall>chain. drop_trace r = walk_spec ans ((p, m) # chain) n)
   | Continue acc \<Rightarrow> length (providers_tried acc) = Suc n
       \<and> (\<forall>chain. walk_spec ans ((p, m) # chain) n = walk_spec ans chain (Suc n)))"

lemma do_attempt_answer:
  "do_attempt env hook req hl h w = (res, a, h', w') \<Longrightarrow>
   \<forall>r k v. fst (en_complete env (h_adapter hl) r k v) = x \<Longrightarrow> res = x"
  using do_attempt_calls[of env hook req hl h w res a h' w'] by (metis fst_conv)

lemma after_failure_answer:
  assumes "ans p = Inl e" "length (providers_tried acc) = Suc n"
  shows "flow_answer ans (p, m) n (after_failure m (classify e) e acc)"
  using assms classify_not_Success[of e]
  by (cases "classify e") (simp_all add: flow_answer_def after_failure_def drop_trace_def)

lemma run_attempts_answer:
  assumes x: "\<forall>r k v. fst (en_complete env (h_adapter hl) r k v) = ans p"
    and n: "length (providers_tried acc) = Suc n"
    and run: "run_attempts env plan hook m hl acc h w = (fl, h', w')"
  shows "flow_answer ans (p, m) n fl"
  using run
proof (cases rule: run_attempts_cases)
  case (ok resp a)
  with do_attempt_answer[OF ok(1) x, symmetric] show ?thesis
    by (simp add: flow_answer_def drop_trace_def finish_def)
next
  case (fail e a)
  from do_attempt_answer[OF fail(1) x] fail(3) n show ?thesis
    by (simp add: after_failure_answer add_attempt_def)
next
  case (retry_ok e a1 h1 w1 w2 resp a2)
  from do_attempt_answer[OF retry_ok(1) x] do_attempt_answer[OF retry_ok(4) x] show ?thesis
    by (metis sum.distinct(1))
next
  case (retry_fail e a1 h1 w1 w2 e2 a2)
  note eq = do_attempt_answer[OF retry_fail(1) x] do_attempt_answer[OF retry_fail(4) x]
  then have "e2 = e" by (metis sum.inject(1))
  with eq retry_fail(5) n show ?thesis by (simp add: after_failure_answer add_attempt_def)
qed

lemma exec_entry_answer:
  assumes env: "answering env (rp_request_budget plan) ans"
    and up: "cooldown_until (health_get p h) = None"
    and n: "length (providers_tried acc) = n"
    and e: "exec_entry env plan hook started (p, m) acc h w = (fl, h', w')"
  shows "flow_answer ans (p, m) n fl"
  using e
proof (cases rule: exec_entry_cases)
  case (budget t t' w1)
  have "fst (en_now env w) < rp_request_budget plan" using env unfolding answering_def by blast
  with budget(1,2) show ?thesis by simp
next
  case (cooldown t w1)
  with up show ?thesis by (simp add: check_available_def)
next
  case (unresolved t w1 w2)
  have "fst (en_resolve env p w2) \<noteq> None" using env unfolding answering_def by fastforce
  with unresolved(4) show ?thesis by simp
next
  case (run t w1 w2 hl w3)
  have "\<forall>r k v. fst (en_complete env (h_adapter hl) r k v) = ans p"
    using env run(4) unfolding answering_def by (metis fst_conv option.inject)
  from run_attempts_answer[where ans = ans, OF this _ run(5)] n show ?thesis by simp
qed

lemma exec_loop_refines:
  assumes env: "answering env (rp_request_budget plan) ans" and f: "faithful_resolver env"
    and "distinct (map fst chain)" and "\<forall>p \<in> set (map fst chain). cooldown_until (health_get p h) = None"
    and "length (providers_tried acc) = n"
    and "exec_loop env plan hook started chain acc h w = (r, h', w')"
  shows "drop_trace r = walk_spec ans chain n"
  using assms(3-)
proof (induction chain arbitrary: acc h w n)
  case Nil
  then show ?case by (auto simp: drop_trace_def)
next
  case (Cons e chain)
  obtain p m where e: "e = (p, m)" by (cases e)
  obtain fl h1 w1 where step: "exec_entry env plan hook started (p, m) acc h w = (fl, h1, w1)"
    by (metis prod_cases3)
  have fa: "flow_answer ans (p, m) n fl"
    using Cons.prems by (intro exec_entry_answer[OF env _ _ step]) (simp_all add: e)
  show ?case
  proof (cases fl)
    case (Return r1)
    with fa Cons.prems(4) step show ?thesis by (simp add: e flow_answer_def)
  next
    case (Continue acc1)
    have "health_get q h1 = health_get q h" if "q \<in> set (map fst chain)" for q
    proof (rule exec_entry_health_other[OF f _ step])
      show "q \<noteq> p" using that Cons.prems(1) by (auto simp: e)
    qed
    then have "\<forall>q \<in> set (map fst chain). cooldown_until (health_get q h1) = None"
      using Cons.prems(2) by (simp del: map_map)
    moreover have "length (providers_tried acc1) = Suc n"
      using fa by (simp add: flow_answer_def Continue)
    moreover have "exec_loop env plan hook started chain acc1 h1 w1 = (r, h', w')"
      using Cons.prems(4) step by (simp add: e Continue)
    ultimately have "drop_trace r = walk_spec ans chain (Suc n)"
      using Cons.prems(1) by (intro Cons.IH) simp_all
    then show ?thesis using fa by (simp add: e flow_answer_def Continue)
  qed
qed

lemma exec_loop_health_other:
  assumes f: "faithful_resolver env" and q: "q \<notin> set (map fst chain)"
    and "exec_loop env plan hook started chain acc h w = (r, h', w')"
  shows "health_get q h' = health_get q h"
  using q assms(3)
proof (induction chain arbitrary: acc h w)
  case (Cons e chain)
  obtain p m where e: "e = (p, m)" by (cases e)
  obtain fl h1 w1 where step: "exec_entry env plan hook started (p, m) acc h w = (fl, h1, w1)"
    by (metis prod_cases3)
  have "health_get q h1 = health_get q h"
    using Cons.prems(1) by (intro exec_entry_health_other[OF f _ step]) (auto simp: e)
  with Cons step show ?case by (cases fl) (auto simp: e)
qed simp

text \<open>An error that stops the chain is the error of a first attempt.\<close>

lemma run_attempts_stop:
  assumes "run_attempts env plan hook m hl acc h w = (Return (Inl x), h', w')"
  shows "\<exists>e a. do_attempt env hook (entry_request plan hl) hl h w = (Inl e, a, h', w')
     \<and> (is_fatal (classify e) \<and> x = e \<or> (\<exists>l. classify e = ContextLimit l \<and> x = ContextTooLong m l))"
  using assms
proof (cases rule: run_attempts_cases)
  case (fail e a)
  then show ?thesis by (cases "classify e") (auto simp: after_failure_def)
next
  case (retry_fail e a1 h1 w1 w2 e2 a2)
  then show ?thesis by (cases "classify e") (auto simp: after_failure_def)
qed simp_all

definition stop_error :: "RoutingPlan \<Rightarrow> AppError \<Rightarrow> bool" where
  "stop_error plan x \<longleftrightarrow>
     (\<exists>n. x = Internal (''all fallbacks exhausted ('' @ show_nat n @ '' tried)''))
     \<or> (\<exists>n. x = Internal (''request budget exhausted after '' @ show_nat n @ ''ms''))
     \<or> is_fatal (classify x)
     \<or> (\<exists>p m l. (p, m) \<in> set (plan_chain plan) \<and> x = ContextTooLong m l)"

lemma exec_entry_stop:
  assumes "exec_entry env plan hook started (p, m) acc h w = (Return (Inl x), h', w')"
    and "(p, m) \<in> set (plan_chain plan)"
  shows "stop_error plan x"
  using assms(1)
proof (cases rule: exec_entry_cases)
  case (run t w1 w2 hl w3)
  from run_attempts_stop[OF run(5)] assms(2) show ?thesis unfolding stop_error_def by blast
next
  case (budget t t' w1)
  then show ?thesis unfolding stop_error_def by blast
qed simp_all

lemma exec_loop_stop:
  assumes "exec_loop env plan hook started chain acc h w = (Inl x, h', w')"
    and "set chain \<subseteq> set (plan_chain plan)"
  shows "stop_error plan x"
  using assms
proof (induction chain arbitrary: acc h w)
  case Nil
  then show ?case by (auto simp: stop_error_def)
next
  case (Cons e chain)
  obtain p m where e: "e = (p, m)" by (cases e)
  obtain fl h1 w1 where step: "exec_entry env plan hook started (p, m) acc h w = (fl, h1, w1)"
    by (metis prod_cases3)
  show ?case
  proof (cases fl)
    case (Return r)
    with Cons.prems step exec_entry_stop[of env plan hook started p m acc h w x h1 w1] e
    show ?thesis by simp
  next
    case (Continue acc1)
    with Cons.prems step e show ?thesis by (intro Cons.IH) simp_all
  qed
qed

subsection \<open>A scripted world\<close>

text \<open>
  A world to evaluate the executor in: a clock that advances by a millisecond at every reading
  and the list of the providers called. An adapter is the provider's name, each provider gives a
  fixed answer, and every name resolves.
\<close>

definition scripted ::
  "(string \<Rightarrow> AppError + CanonicalResponse) \<Rightarrow> (string, nat \<times> string list) ExecEnv" where
  "scripted ans = \<lparr>en_now = (\<lambda>(t, lg). (min t 1000000000, (t + 1000000, lg))),
     en_complete = (\<lambda>a req k (t, lg). (ans a, (t, lg @ [cr_selected_provider req]))),
     en_sleep = (\<lambda>ns w. w),
     en_resolve = (\<lambda>p w. (Some \<lparr>h_provider_id = p, h_model_id = ''m'', h_adapter = p,
                                h_key = ''k''\<rparr>, w))\<rparr>"

definition sample_request :: CanonicalRequest where
  "sample_request = \<lparr>cr_messages = [], cr_system = None, cr_max_tokens = None,
     cr_temperature = None, cr_top_p = None, cr_stop = None, cr_stream = False, cr_tools = None,
     cr_tool_choice = None, cr_tier = Standard, cr_selected_model = ''m'',
     cr_selected_provider = ''a'', cr_request_id = ''r'', cr_extensions = [],
     cr_metadata = metadata_default\<rparr>"

definition sample_response :: "string \<Rightarrow> CanonicalResponse" where
  "sample_response p = \<lparr>rs_id = ''1'', rs_model = ''m'', rs_provider = p, rs_content = [Text ''ok''],
     rs_finish_reason = None, rs_usage = usage_default\<rparr>"

definition sample_plan :: RoutingPlan where
  "sample_plan = \<lparr>rp_request = sample_request, rp_primary = ''a/x'', rp_fallbacks = [''b/y'', ''c/z''],
     rp_downgrade_to = None, rp_request_budget = from_millis 120000,
     rp_max_retries_per_provider = 1, rp_max_retry_after_ms = 10000, rp_fixed_retry_wait_ms = 1500\<rparr>"

definition sample_hook :: HealthHook where
  "sample_hook = \<lparr>failure_threshold = 1, cooldown_secs = 60\<rparr>"

text \<open>Provider a is rate limited, b answers.\<close>

definition sample_answer :: "string \<Rightarrow> AppError + CanonicalResponse" where
  "sample_answer p = (if p = ''a'' then Inl (ProviderError ''a'' 429 ''slow down'')
     else if p = ''b'' then Inr (sample_response ''b'')
     else Inl (ProviderError p 401 ''bad key''))"

lemmas sample_defs = scripted_def sample_request_def sample_response_def sample_plan_def
  sample_hook_def sample_answer_def

lemma scripted_faithful: "faithful_resolver (scripted ans)"
  by (simp add: faithful_resolver_def scripted_def)

lemma scripted_counts: "counts_calls (scripted ans) (\<lambda>_ _. True) (\<lambda>(t, lg). length lg)"
  by (simp add: counts_calls_def scripted_def split_def)

lemma scripted_counts_of:
  "counts_calls (scripted ans) (\<lambda>_ req. cr_selected_provider req = p)
     (\<lambda>(t, lg). length (filter (\<lambda>a. a = p) lg))"
  by (simp add: counts_calls_def scripted_def split_def)

subsection \<open>Properties\<close>

lemmas exec_eval = execute_def plan_chain_def split_provider_model_def exec_entry_def
  run_attempts_def do_attempt_def record_outcome_def check_available_def health_get_def
  record_failure_def record_success_def after_failure_def retry_wait_def outcome_of_def
  classify_status_def skip_entry_def add_attempt_def finish_def acc_init_def health_default_def
  to_lowercase_def lower_char_def from_millis_def from_secs_def as_millis_def
  is_available_def sample_defs Let_def

lemma plan_chain_length [simp]: "length (plan_chain plan) = Suc (length (rp_fallbacks plan))"
  by (simp add: plan_chain_def)

lemma execute_loop:
  "execute env plan hook h w = res \<Longrightarrow> en_now env w = (t, w1) \<Longrightarrow>
   exec_loop env plan hook t (plan_chain plan) acc_init h w1 = res"
  by (simp add: execute_def)

text \<open>
  C1. When the executor returns a response, the last attempt is the one that succeeded and every
  attempt before it failed; the response is what that provider's adapter answered to the plan's
  request; at most two attempts were made per provider tried, no more providers were tried than
  the chain has, and the fallback count is the number of providers tried minus one.
\<close>

theorem execute_success:
  assumes "execute env plan hook h w = (Inr r, h', w')"
  shows "(\<exists>as a. ex_attempts r = as @ [a] \<and> at_outcome a = Success
            \<and> (\<forall>b \<in> set as. at_outcome b \<noteq> Success))
     \<and> (\<exists>hl w1 w2. en_complete env (h_adapter hl) (entry_request plan hl) (h_key hl) w1
              = (Inr (ex_response r), w2)
          \<and> last (ex_providers_tried r) = h_provider_id hl
          \<and> at_provider (last (ex_attempts r)) = h_provider_id hl)
     \<and> length (ex_attempts r) \<le> 2 * length (ex_providers_tried r)
     \<and> length (ex_providers_tried r) \<le> Suc (length (rp_fallbacks plan))
     \<and> ex_fallback_count r + 1 = of_nat (length (ex_providers_tried r))"
proof -
  obtain t w1 where "en_now env w = (t, w1)" by (cases "en_now env w")
  from exec_loop_success[OF execute_loop[OF assms this]]
  show ?thesis unfolding result_ok_def succeeded_with_def no_success_def by auto
qed

theorem execute_success_witness:
  "\<exists>r h' w'. execute (scripted sample_answer) sample_plan sample_hook Map.empty (0, []) = (Inr r, h', w')
     \<and> length (ex_attempts r) \<le> 2 * length (ex_providers_tried r)
     \<and> ex_fallback_count r + 1 = of_nat (length (ex_providers_tried r))"
proof -
  obtain r h' w' where r: "execute (scripted sample_answer) sample_plan sample_hook Map.empty (0, [])
      = (Inr r, h', w')"
    by (simp add: exec_eval)
  with execute_success[OF r] show ?thesis by blast
qed


lemma scripted_answering: "answering (scripted ans) (from_millis 120000) ans"
  by (auto simp: answering_def scripted_def from_millis_def)


text \<open>
  C18. The executor makes at most two adapter calls per entry of the chain: with a quantity of the
  world that only adapter calls can raise, by one each, it grows by at most twice the length of
  the chain.
\<close>

theorem execute_call_bound:
  assumes "counts_calls env (\<lambda>_ _. True) calls"
    and "execute env plan hook h w = (r, h', w')"
  shows "calls w' \<le> calls w + 2 * Suc (length (rp_fallbacks plan))"
proof -
  obtain t w1 where t: "en_now env w = (t, w1)" by (cases "en_now env w")
  from exec_loop_count[OF assms(1) execute_loop[OF assms(2) t]] counts_callsD(1)[OF assms(1) t]
  show ?thesis by simp
qed

lemma sample_fallbacks: "length (rp_fallbacks sample_plan) = 2"
  by (simp add: sample_plan_def)

theorem execute_call_bound_witness:
  "length (snd (snd (snd (execute (scripted sample_answer) sample_plan sample_hook Map.empty (0, [])))))
     \<le> 6"
proof -
  obtain r h' w' where r: "execute (scripted sample_answer) sample_plan sample_hook Map.empty (0, [])
      = (r, h', w')" by (metis prod_cases3)
  from execute_call_bound[OF scripted_counts r] show ?thesis
    by (simp add: r split_def sample_fallbacks)
qed

text \<open>
  C31. A provider whose cooldown has not ended is never called during the execution, and the
  execution leaves its health as it was. A call of provider q is one whose request names q.
\<close>

theorem execute_respects_cooldown:
  assumes "faithful_resolver env"
    and "counts_calls env (\<lambda>_ req. cr_selected_provider req = q) calls"
    and "cooldown_until (health_get q h) = Some until" and "\<forall>w. fst (en_now env w) < until"
    and "execute env plan hook h w = (r, h', w')"
  shows "calls w' = calls w \<and> health_get q h' = health_get q h"
proof -
  obtain t w1 where t: "en_now env w = (t, w1)" by (cases "en_now env w")
  from exec_loop_cooldown[OF assms(1,2) _ assms(3,4) execute_loop[OF assms(5) t]] counts_callsD(1)[OF assms(2) t]
  show ?thesis by simp
qed

text \<open>
  An error that \<open>execute\<close> returns is one of four: the chain is exhausted, the time budget is
  exhausted, an authentication error (401 or 403) of a provider, or a context overflow naming a
  model of the chain.
\<close>

theorem execute_errors:
  assumes "execute env plan hook h w = (Inl e, h', w')"
  shows "(\<exists>n. e = Internal (''all fallbacks exhausted ('' @ show_nat n @ '' tried)''))
     \<or> (\<exists>n. e = Internal (''request budget exhausted after '' @ show_nat n @ ''ms''))
     \<or> (\<exists>p s m. e = ProviderError p s m \<and> (s = 401 \<or> s = 403))
     \<or> (\<exists>m l. m \<in> snd ` set (plan_chain plan) \<and> e = ContextTooLong m l)"
proof -
  obtain t w1 where t: "en_now env w = (t, w1)" by (cases "en_now env w")
  from exec_loop_stop[OF execute_loop[OF assms t]]
  show ?thesis unfolding stop_error_def classify_fatal_iff by fastforce
qed

text \<open>
  The decision after a retry looks at the first attempt only: when an adapter answers 429 or
  408 and then fails again, the walk goes on to the next provider, whatever the second error is,
  an authentication error included.
\<close>

theorem retry_error_never_stops:
  assumes "do_attempt env hook (entry_request plan hl) hl h w = (Inl (ProviderError p s msg), a, h1, w1)"
    and "s = 408 \<or> s = 429"
    and "run_attempts env plan hook m hl acc h w = (fl, h', w')"
  shows "fl \<noteq> Return (Inl e)"
proof
  assume "fl = Return (Inl e)"
  from run_attempts_stop[OF assms(3)[unfolded this]] assms(1,2) show False
    by (auto simp: classify_status_def Let_def)
qed

text \<open>
  The execution changes the health of no provider outside its chain.
\<close>

theorem execute_health_frame:
  assumes "faithful_resolver env" and "q \<notin> fst ` set (plan_chain plan)"
  shows "health_get q (fst (snd (execute env plan hook h w))) = health_get q h"
proof -
  obtain t w1 where t: "en_now env w = (t, w1)" by (cases "en_now env w")
  obtain r h' w' where r: "execute env plan hook h w = (r, h', w')" by (metis prod_cases3)
  from exec_loop_health_other[OF assms(1) _ execute_loop[OF r t]] assms(2)
  show ?thesis by (simp add: r)
qed

text \<open>Provider b is in cooldown for a long time.\<close>

definition sample_health :: HealthRegistry where
  "sample_health = [''b'' \<mapsto> health_default\<lparr>ph_status := Down, consecutive_failures := 1,
     cooldown_until := Some 5000000000\<rparr>]"

theorem execute_respects_cooldown_witness:
  "health_get ''b'' (fst (snd (execute (scripted sample_answer) sample_plan sample_hook sample_health (0, []))))
     = health_get ''b'' sample_health"
proof -
  obtain r h' w' where r: "execute (scripted sample_answer) sample_plan sample_hook sample_health (0, [])
      = (r, h', w')" by (metis prod_cases3)
  have "(case w' of (t, lg) \<Rightarrow> length (filter (\<lambda>a. a = ''b'') lg))
        = (case (0 :: nat, []) of (t, lg) \<Rightarrow> length (filter (\<lambda>a. a = ''b'') lg))
      \<and> health_get ''b'' h' = health_get ''b'' sample_health"
  proof (rule execute_respects_cooldown[OF scripted_faithful scripted_counts_of _ _ r])
    show "cooldown_until (health_get ''b'' sample_health) = Some 5000000000"
      by (simp add: sample_health_def health_get_def)
  qed (simp_all add: scripted_def split_def min_less_iff_disj)
  then show ?thesis by (simp add: r)
qed

text \<open>Every provider refuses the key.\<close>

definition refusing :: "string \<Rightarrow> AppError + CanonicalResponse" where
  "refusing p = Inl (ProviderError p 401 ''bad key'')"

theorem execute_errors_witness:
  "\<exists>e h' w'. execute (scripted refusing) sample_plan sample_hook Map.empty (0, []) = (Inl e, h', w')
     \<and> (\<exists>p s m. e = ProviderError p s m \<and> (s = 401 \<or> s = 403))"
proof -
  obtain h' w' where r: "execute (scripted refusing) sample_plan sample_hook Map.empty (0, [])
      = (Inl (ProviderError ''a'' 401 ''bad key''), h', w')"
    by (simp add: exec_eval refusing_def)
  with execute_errors[OF r] show ?thesis by blast
qed

definition limited_handle :: "string ProviderHandle" where
  "limited_handle = \<lparr>h_provider_id = ''a'', h_model_id = ''m'', h_adapter = ''a'', h_key = ''k''\<rparr>"

theorem retry_error_never_stops_witness:
  "\<exists>acc h' w'. run_attempts (scripted sample_answer) sample_plan sample_hook ''x'' limited_handle
     acc_init Map.empty (0, []) = (Continue acc, h', w')"
proof -
  let ?env = "scripted sample_answer"
  obtain a h1 w1 where d: "do_attempt ?env sample_hook (entry_request sample_plan limited_handle)
      limited_handle Map.empty (0, []) = (Inl (ProviderError ''a'' 429 ''slow down''), a, h1, w1)"
    by (simp add: exec_eval limited_handle_def)
  obtain fl h' w' where run: "run_attempts ?env sample_plan sample_hook ''x'' limited_handle
      acc_init Map.empty (0, []) = (fl, h', w')" by (metis prod_cases3)
  have "fl \<noteq> Return (Inl e)" for e
    using retry_error_never_stops[OF d _ run] by auto
  moreover have "fl \<noteq> Return (Inr r)" for r
    using run by (auto simp: exec_eval limited_handle_def)
  ultimately have "\<exists>acc. fl = Continue acc" by (metis Flow.exhaust sum.exhaust)
  with run show ?thesis by blast
qed

theorem execute_health_frame_witness:
  "health_get ''z'' (fst (snd (execute (scripted refusing) sample_plan sample_hook Map.empty (0, []))))
     = health_get ''z'' Map.empty"
  by (rule execute_health_frame[OF scripted_faithful])
    (simp add: sample_plan_def plan_chain_def split_provider_model_def)

end
