(* ===== verification/RateLimit.thy ===== *)
theory RateLimit
  imports Config Json
begin

section \<open>Rate limiting\<close>

text \<open>
  \<open>src/ratelimit.rs\<close>: the lazily refilled token bucket, the limiter with its global bucket and
  one bucket per key, and the middleware. \<open>Instant::now()\<close> readings are arguments, in the order
  the code makes them; \<open>duration_since\<close> saturates at zero as truncated subtraction does. Tokens
  are exact rationals. Division of a positive need by a zero rate is infinity in \<open>f64\<close>, which
  \<open>as u64\<close> turns into \<open>u64::MAX\<close>.
\<close>

record Bucket =
  tokens :: rat
  last_refill :: instant

definition bucket_new :: "rat \<Rightarrow> instant \<Rightarrow> Bucket" where
  "bucket_new cap now = \<lparr>tokens = cap, last_refill = now\<rparr>"

definition elapsed_secs :: "instant \<Rightarrow> instant \<Rightarrow> rat" where
  "elapsed_secs now since = of_nat (now - since) / 1000000000"

definition ceil_as_u64 :: "rat \<Rightarrow> rat \<Rightarrow> nat" where
  "ceil_as_u64 need rate = (if rate = 0 then u64_max else min u64_max (nat \<lceil>need / rate\<rceil>))"

definition try_consume :: "rat \<Rightarrow> rat \<Rightarrow> instant \<Rightarrow> Bucket \<Rightarrow> (nat + unit) \<times> Bucket" where
  "try_consume refill_per_sec cap now b =
     (let tk = min (tokens b + elapsed_secs now (last_refill b) * refill_per_sec) cap in
      if 1 \<le> tk then (Inr (), \<lparr>tokens = tk - 1, last_refill = now\<rparr>)
      else (Inl (max 1 (ceil_as_u64 (1 - tk) refill_per_sec)),
            \<lparr>tokens = tk, last_refill = now\<rparr>))"

record RateLimiter =
  per_key :: "string \<rightharpoonup> Bucket"
  global :: Bucket
  per_key_rps :: rat
  per_key_burst :: rat
  global_rps :: rat
  global_burst :: rat

definition rps :: "u32 \<Rightarrow> rat" where
  "rps rpm = of_nat (unat rpm) / 60"

definition limiter_new :: "u32 \<Rightarrow> u32 \<Rightarrow> u32 \<Rightarrow> u32 \<Rightarrow> instant \<Rightarrow> RateLimiter" where
  "limiter_new k_rpm k_burst g_rpm g_burst now =
     \<lparr>per_key = Map.empty, global = bucket_new (of_nat (unat g_burst)) now,
      per_key_rps = rps k_rpm, per_key_burst = of_nat (unat k_burst),
      global_rps = rps g_rpm, global_burst = of_nat (unat g_burst)\<rparr>"

definition limiter_disabled :: "instant \<Rightarrow> RateLimiter" where
  "limiter_disabled = limiter_new 1000000 1000000 1000000 1000000"

text \<open>
  One acquisition: the key and the three clock readings, of the global bucket, of a bucket made
  on demand and of the key's bucket.
\<close>

record Acquire =
  aq_key :: string
  aq_global :: instant
  aq_insert :: instant
  aq_key_time :: instant

definition key_bucket :: "RateLimiter \<Rightarrow> Acquire \<Rightarrow> Bucket" where
  "key_bucket l e = (case per_key l (aq_key e) of
      None \<Rightarrow> bucket_new (per_key_burst l) (aq_insert e) | Some b \<Rightarrow> b)"

definition try_acquire :: "Acquire \<Rightarrow> RateLimiter \<Rightarrow> (nat + unit) \<times> RateLimiter" where
  "try_acquire e l =
     (case try_consume (global_rps l) (global_burst l) (aq_global e) (global l) of
        (Inl r, g) \<Rightarrow> (Inl r, l\<lparr>global := g\<rparr>)
      | (Inr _, g) \<Rightarrow>
          (case try_consume (per_key_rps l) (per_key_burst l) (aq_key_time e) (key_bucket l e) of
             (res, b) \<Rightarrow> (res, l\<lparr>global := g, per_key := (per_key l)(aq_key e \<mapsto> b)\<rparr>)))"

definition is_rate_limited_path :: "string \<Rightarrow> bool" where
  "is_rate_limited_path path \<longleftrightarrow>
     path \<in> {''/v1/chat/completions'', ''/v1/messages'', ''/v1/responses''}"

text \<open>The key of a request: key prefix, else session id, else \<open>anonymous\<close>.\<close>

definition rate_key :: "(string option \<times> string option) option \<Rightarrow> string" where
  "rate_key ctx = (case ctx of None \<Rightarrow> ''anonymous''
     | Some (key_prefix, session_id) \<Rightarrow> unwrap_or ''anonymous'' (opt_or key_prefix session_id))"

datatype RateDecision = Forward | TooMany nat json

definition too_many_body :: "nat \<Rightarrow> json" where
  "too_many_body r = Object [(''error'', Object
     [(''message'', String (''rate limit exceeded; retry in '' @ show_nat r @ ''s'')),
      (''type'', String ''rate_limit_error''), (''code'', String ''rate_limit_exceeded'')])]"

definition ratelimit_middleware ::
  "bool \<Rightarrow> string \<Rightarrow> (string option \<times> string option) option \<Rightarrow> instant \<Rightarrow> instant \<Rightarrow> instant
     \<Rightarrow> RateLimiter \<Rightarrow> RateDecision \<times> RateLimiter" where
  "ratelimit_middleware enabled path ctx t1 t2 t3 l =
     (if \<not> is_rate_limited_path path \<or> \<not> enabled then (Forward, l)
      else (case try_acquire \<lparr>aq_key = rate_key ctx, aq_global = t1, aq_insert = t2,
                             aq_key_time = t3\<rparr> l of
          (Inl r, l') \<Rightarrow> (TooMany r (too_many_body r), l')
        | (Inr _, l') \<Rightarrow> (Forward, l')))"

subsection \<open>The contract of a meter\<close>

text \<open>
  What a client of a rate limiter needs: \<open>avail t s\<close> bounds the admissions still possible at
  time \<open>t\<close>, it is at most the capacity, and one attempt pays for an admission out of it.
\<close>

locale meter =
  fixes attempt :: "'e \<Rightarrow> 's \<Rightarrow> bool \<times> 's"
    and stamp :: "'e \<Rightarrow> instant"
    and avail :: "instant \<Rightarrow> 's \<Rightarrow> rat"
    and rate :: rat
    and cap :: rat
    and inv :: "'s \<Rightarrow> bool"
  assumes avail_cap: "inv s \<Longrightarrow> avail t s \<le> cap"
    and avail_nonneg: "inv s \<Longrightarrow> 0 \<le> avail t s"
    and inv_attempt: "inv s \<Longrightarrow> inv (snd (attempt e s))"
    and attempt_pays: "inv s \<Longrightarrow> t \<le> stamp e \<Longrightarrow>
      avail (stamp e) (snd (attempt e s)) + (if fst (attempt e s) then 1 else 0)
        \<le> avail t s + rate * elapsed_secs (stamp e) t"
begin

fun admitted :: "'e list \<Rightarrow> 's \<Rightarrow> nat" where
  "admitted [] s = 0"
| "admitted (e # es) s =
     (if fst (attempt e s) then 1 else 0) + admitted es (snd (attempt e s))"

lemma elapsed_add:
  "t \<le> u \<Longrightarrow> u \<le> v \<Longrightarrow> elapsed_secs u t + elapsed_secs v u = elapsed_secs v t"
  by (simp add: elapsed_secs_def add_divide_distrib[symmetric] of_nat_add[symmetric] del: of_nat_add)

lemma admitted_avail:
  "inv s \<Longrightarrow> sorted (t # map stamp es) \<Longrightarrow> (\<forall>e \<in> set es. stamp e \<le> u) \<Longrightarrow> t \<le> u \<Longrightarrow> 0 \<le> rate \<Longrightarrow>
   of_nat (admitted es s) \<le> avail t s + rate * elapsed_secs u t"
proof (induction es arbitrary: s t)
  case Nil
  then show ?case by (simp add: avail_nonneg elapsed_secs_def)
next
  case (Cons e es)
  let ?s = "snd (attempt e s)"
  have le: "t \<le> stamp e" "stamp e \<le> u" using Cons.prems by simp_all
  have "of_nat (admitted es ?s) \<le> avail (stamp e) ?s + rate * elapsed_secs u (stamp e)"
    using Cons.prems by (intro Cons.IH) (simp_all add: inv_attempt)
  moreover have "avail (stamp e) ?s + (if fst (attempt e s) then 1 else 0)
      \<le> avail t s + rate * elapsed_secs (stamp e) t"
    using Cons.prems le by (intro attempt_pays) simp_all
  moreover have "rate * elapsed_secs (stamp e) t + rate * elapsed_secs u (stamp e)
      = rate * elapsed_secs u t"
    using elapsed_add[OF le] by (simp add: distrib_left[symmetric])
  ultimately have "(if fst (attempt e s) then 1 else 0) + of_nat (admitted es ?s)
      \<le> avail t s + rate * elapsed_secs u t" by linarith
  then show ?case by (simp split: if_split_asm)
qed

text \<open>In any window the admissions are at most the capacity plus the refill of the window.\<close>

lemma admitted_bound:
  "inv s \<Longrightarrow> sorted (t # map stamp es) \<Longrightarrow> (\<forall>e \<in> set es. stamp e \<le> u) \<Longrightarrow> t \<le> u \<Longrightarrow> 0 \<le> rate \<Longrightarrow>
   of_nat (admitted es s) \<le> cap + rate * elapsed_secs u t"
  using admitted_avail[of s t es u] avail_cap[of s t] by simp

end

subsection \<open>The bucket and the limiter are meters\<close>

definition bucket_avail :: "rat \<Rightarrow> rat \<Rightarrow> instant \<Rightarrow> Bucket \<Rightarrow> rat" where
  "bucket_avail rate cap t b = min (tokens b + elapsed_secs t (last_refill b) * rate) cap"

definition bucket_wf :: "rat \<Rightarrow> Bucket \<Rightarrow> bool" where
  "bucket_wf cap b \<longleftrightarrow> 0 \<le> tokens b \<and> tokens b \<le> cap"

lemma elapsed_nonneg [simp]: "0 \<le> elapsed_secs t u"
  by (simp add: elapsed_secs_def)

lemma elapsed_self [simp]: "elapsed_secs t t = 0"
  by (simp add: elapsed_secs_def)

lemma elapsed_triangle: "t \<le> u \<Longrightarrow> elapsed_secs u s \<le> elapsed_secs t s + elapsed_secs u t"
  by (simp add: elapsed_secs_def add_divide_distrib[symmetric] divide_right_mono
      of_nat_add[symmetric] del: of_nat_add)

lemma try_consume_bucket:
  "try_consume rate cap now b = (if 1 \<le> bucket_avail rate cap now b
     then (Inr (), \<lparr>tokens = bucket_avail rate cap now b - 1, last_refill = now\<rparr>)
     else (Inl (max 1 (ceil_as_u64 (1 - bucket_avail rate cap now b) rate)),
           \<lparr>tokens = bucket_avail rate cap now b, last_refill = now\<rparr>))"
  by (simp add: try_consume_def bucket_avail_def Let_def)

lemma bucket_avail_bounds:
  "bucket_wf cap b \<Longrightarrow> 0 \<le> rate \<Longrightarrow> 0 \<le> bucket_avail rate cap t b \<and> bucket_avail rate cap t b \<le> cap"
  by (simp add: bucket_avail_def bucket_wf_def)

lemma bucket_avail_now [simp]:
  "tokens b \<le> cap \<Longrightarrow> last_refill b = now \<Longrightarrow> bucket_avail rate cap now b = tokens b"
  by (simp add: bucket_avail_def)

lemma bucket_avail_mono:
  assumes "0 \<le> rate" "t \<le> u"
  shows "bucket_avail rate cap u b \<le> bucket_avail rate cap t b + rate * elapsed_secs u t"
proof -
  have "elapsed_secs u (last_refill b) * rate
      \<le> (elapsed_secs t (last_refill b) + elapsed_secs u t) * rate"
    using elapsed_triangle[OF assms(2), of "last_refill b"] assms(1)
    by (rule mult_right_mono)
  moreover have "0 \<le> rate * elapsed_secs u t" using assms(1) by simp
  ultimately show ?thesis
    by (simp add: bucket_avail_def min_def distrib_left mult.commute del: elapsed_nonneg)
qed

lemma try_consume_wf:
  "bucket_wf cap b \<Longrightarrow> 0 \<le> rate \<Longrightarrow> bucket_wf cap (snd (try_consume rate cap now b))"
  using bucket_avail_bounds[of cap b rate now] by (simp add: try_consume_bucket bucket_wf_def)

definition is_ok :: "'e + 'a \<Rightarrow> bool" where
  "is_ok r = (case r of Inl _ \<Rightarrow> False | Inr _ \<Rightarrow> True)"

lemma is_ok_simps [simp]: "is_ok (Inl e) = False" "is_ok (Inr v) = True"
  by (simp_all add: is_ok_def)

definition bucket_attempt :: "rat \<Rightarrow> rat \<Rightarrow> instant \<Rightarrow> Bucket \<Rightarrow> bool \<times> Bucket" where
  "bucket_attempt rate cap now b = (let (r, b') = try_consume rate cap now b in (is_ok r, b'))"

lemma bucket_attempt_pays:
  assumes "bucket_wf cap b" "0 \<le> rate" "t \<le> now"
  shows "bucket_avail rate cap now (snd (try_consume rate cap now b))
      + (if is_ok (fst (try_consume rate cap now b)) then 1 else 0)
      \<le> bucket_avail rate cap t b + rate * elapsed_secs now t"
proof -
  have "bucket_avail rate cap now (snd (try_consume rate cap now b))
      + (if is_ok (fst (try_consume rate cap now b)) then 1 else 0) = bucket_avail rate cap now b"
    using bucket_avail_bounds[OF assms(1,2), of now] by (simp add: try_consume_bucket)
  with bucket_avail_mono[OF assms(2,3)] show ?thesis by simp
qed

definition limiter_wf :: "RateLimiter \<Rightarrow> bool" where
  "limiter_wf l \<longleftrightarrow> 0 \<le> global_rps l \<and> 0 \<le> per_key_rps l \<and> 0 \<le> per_key_burst l
     \<and> bucket_wf (global_burst l) (global l)
     \<and> (\<forall>k b. per_key l k = Some b \<longrightarrow> bucket_wf (per_key_burst l) b)"

lemma bucket_wf_new [simp]: "0 \<le> cap \<Longrightarrow> bucket_wf cap (bucket_new cap t)"
  by (simp add: bucket_wf_def bucket_new_def)

lemma limiter_wf_new: "limiter_wf (limiter_new kr kb gr gb now)"
  by (simp add: limiter_wf_def limiter_new_def rps_def del: of_nat_unat)

lemma key_bucket_wf: "limiter_wf l \<Longrightarrow> bucket_wf (per_key_burst l) (key_bucket l e)"
  by (auto simp: limiter_wf_def key_bucket_def split: option.split)

lemma try_acquire_params [simp]:
  "global_rps (snd (try_acquire e l)) = global_rps l"
  "global_burst (snd (try_acquire e l)) = global_burst l"
  "per_key_rps (snd (try_acquire e l)) = per_key_rps l"
  "per_key_burst (snd (try_acquire e l)) = per_key_burst l"
  by (simp_all add: try_acquire_def split: sum.split prod.split)

lemma try_acquire_global [simp]:
  "global (snd (try_acquire e l)) =
     snd (try_consume (global_rps l) (global_burst l) (aq_global e) (global l))"
  by (simp add: try_acquire_def split: sum.split prod.split)

lemma try_acquire_per_key:
  "per_key (snd (try_acquire e l)) k =
     (if k = aq_key e
        \<and> is_ok (fst (try_consume (global_rps l) (global_burst l) (aq_global e) (global l)))
      then Some (snd (try_consume (per_key_rps l) (per_key_burst l) (aq_key_time e) (key_bucket l e)))
      else per_key l k)"
  by (simp add: try_acquire_def is_ok_def split: sum.split prod.split)

lemma try_acquire_ok:
  "is_ok (fst (try_acquire e l)) \<longleftrightarrow>
     is_ok (fst (try_consume (global_rps l) (global_burst l) (aq_global e) (global l)))
     \<and> is_ok (fst (try_consume (per_key_rps l) (per_key_burst l) (aq_key_time e) (key_bucket l e)))"
  by (auto simp: try_acquire_def is_ok_def split: sum.splits prod.splits)

lemma limiter_wf_try_acquire:
  assumes "limiter_wf l" shows "limiter_wf (snd (try_acquire e l))"
  using assms try_consume_wf[OF key_bucket_wf[OF assms]]
  by (auto simp: limiter_wf_def try_acquire_per_key try_consume_wf split: if_split_asm)

lemma rps_nonneg [simp]: "0 \<le> rps rpm"
  by (simp add: rps_def del: of_nat_unat)

interpretation bucket_meter: meter "bucket_attempt (rps rpm) cap" "\<lambda>now. now"
    "bucket_avail (rps rpm) cap" "rps rpm" cap "bucket_wf cap"
  for rpm cap
proof unfold_locales
  fix b and t now :: instant
  assume "bucket_wf cap b"
  note wf = this and bounds = bucket_avail_bounds[OF this rps_nonneg]
  show "bucket_avail (rps rpm) cap t b \<le> cap" and "0 \<le> bucket_avail (rps rpm) cap t b"
    using bounds by simp_all
  show "bucket_wf cap (snd (bucket_attempt (rps rpm) cap now b))"
    using try_consume_wf[OF wf rps_nonneg] by (simp add: bucket_attempt_def split_def Let_def)
  assume "t \<le> now"
  with bucket_attempt_pays[OF wf rps_nonneg this]
  show "bucket_avail (rps rpm) cap now (snd (bucket_attempt (rps rpm) cap now b))
      + (if fst (bucket_attempt (rps rpm) cap now b) then 1 else 0)
      \<le> bucket_avail (rps rpm) cap t b + rps rpm * elapsed_secs now t"
    by (simp add: bucket_attempt_def split_def Let_def)
qed

text \<open>The limiter seen from outside: all admissions, or those of one key.\<close>

definition limiter_attempt :: "(string \<Rightarrow> bool) \<Rightarrow> Acquire \<Rightarrow> RateLimiter \<Rightarrow> bool \<times> RateLimiter" where
  "limiter_attempt P e l = (let (r, l') = try_acquire e l in (is_ok r \<and> P (aq_key e), l'))"

lemma limiter_attempt_sel [simp]:
  "fst (limiter_attempt P e l) \<longleftrightarrow> is_ok (fst (try_acquire e l)) \<and> P (aq_key e)"
  "snd (limiter_attempt P e l) = snd (try_acquire e l)"
  by (simp_all add: limiter_attempt_def split_def Let_def)

definition limiter_inv :: "u32 \<Rightarrow> u32 \<Rightarrow> u32 \<Rightarrow> u32 \<Rightarrow> RateLimiter \<Rightarrow> bool" where
  "limiter_inv kr kb gr gb l \<longleftrightarrow> limiter_wf l \<and> per_key_rps l = rps kr
     \<and> per_key_burst l = of_nat (unat kb) \<and> global_rps l = rps gr
     \<and> global_burst l = of_nat (unat gb)"

lemma limiter_inv_new: "limiter_inv kr kb gr gb (limiter_new kr kb gr gb now)"
  by (simp add: limiter_inv_def limiter_wf_new) (simp add: limiter_new_def)

lemma limiter_inv_try_acquire:
  "limiter_inv kr kb gr gb l \<Longrightarrow> limiter_inv kr kb gr gb (snd (try_acquire e l))"
  by (simp add: limiter_inv_def limiter_wf_try_acquire)

interpretation global_meter: meter "limiter_attempt (\<lambda>_. True)" aq_global
    "\<lambda>t l. bucket_avail (rps gr) (of_nat (unat gb)) t (global l)" "rps gr" "of_nat (unat gb)"
    "limiter_inv kr kb gr gb"
  for kr kb gr gb
proof unfold_locales
  fix l and t :: instant and e
  assume inv: "limiter_inv kr kb gr gb l"
  then have wf: "bucket_wf (of_nat (unat gb)) (global l)" by (auto simp: limiter_inv_def limiter_wf_def)
  note bounds = bucket_avail_bounds[OF wf rps_nonneg]
  show "bucket_avail (rps gr) (of_nat (unat gb)) t (global l) \<le> of_nat (unat gb)"
    and "0 \<le> bucket_avail (rps gr) (of_nat (unat gb)) t (global l)"
    using bounds by blast+
  show "limiter_inv kr kb gr gb (snd (limiter_attempt (\<lambda>_. True) e l))"
    using limiter_inv_try_acquire[OF inv] by simp
  assume "t \<le> aq_global e"
  from bucket_attempt_pays[OF wf rps_nonneg[of gr] this] inv
  show "bucket_avail (rps gr) (of_nat (unat gb)) (aq_global e)
        (global (snd (limiter_attempt (\<lambda>_. True) e l)))
      + (if fst (limiter_attempt (\<lambda>_. True) e l) then 1 else 0)
      \<le> bucket_avail (rps gr) (of_nat (unat gb)) t (global l) + rps gr * elapsed_secs (aq_global e) t"
    by (auto simp: limiter_inv_def try_acquire_ok split: if_split_asm)
qed

definition key_avail :: "rat \<Rightarrow> rat \<Rightarrow> string \<Rightarrow> instant \<Rightarrow> RateLimiter \<Rightarrow> rat" where
  "key_avail rate cap k t l = (case per_key l k of None \<Rightarrow> cap | Some b \<Rightarrow> bucket_avail rate cap t b)"

lemma key_avail_bounds:
  assumes "limiter_inv kr kb gr gb l"
  shows "0 \<le> key_avail (rps kr) (of_nat (unat kb)) k t l"
    and "key_avail (rps kr) (of_nat (unat kb)) k t l \<le> of_nat (unat kb)"
  using assms bucket_avail_bounds[OF _ rps_nonneg, of "of_nat (unat kb)"]
  by (auto simp: limiter_inv_def limiter_wf_def key_avail_def simp del: of_nat_unat split: option.split)

lemma key_avail_mono:
  "t \<le> u \<Longrightarrow> key_avail (rps kr) cap k u l \<le> key_avail (rps kr) cap k t l + rps kr * elapsed_secs u t"
  using bucket_avail_mono[OF rps_nonneg] by (auto simp: key_avail_def split: option.split)

lemma key_bucket_avail:
  "limiter_inv kr kb gr gb l \<Longrightarrow>
   bucket_avail (rps kr) (of_nat (unat kb)) t (key_bucket l e)
     = key_avail (rps kr) (of_nat (unat kb)) (aq_key e) t l"
  by (simp add: key_avail_def key_bucket_def limiter_inv_def bucket_new_def bucket_avail_def
      split: option.split del: of_nat_unat)

lemma key_attempt_pays:
  assumes inv: "limiter_inv kr kb gr gb l" and "t \<le> aq_key_time e"
  shows "key_avail (rps kr) (of_nat (unat kb)) k (aq_key_time e) (snd (try_acquire e l))
      + (if is_ok (fst (try_acquire e l)) \<and> aq_key e = k then 1 else 0)
      \<le> key_avail (rps kr) (of_nat (unat kb)) k t l + rps kr * elapsed_secs (aq_key_time e) t"
proof (cases "per_key (snd (try_acquire e l)) k = per_key l k
    \<and> \<not> (is_ok (fst (try_acquire e l)) \<and> aq_key e = k)")
  case True
  then have "key_avail (rps kr) (of_nat (unat kb)) k (aq_key_time e) (snd (try_acquire e l))
      = key_avail (rps kr) (of_nat (unat kb)) k (aq_key_time e) l"
    by (simp add: key_avail_def)
  with True key_avail_mono[OF assms(2), of kr "of_nat (unat kb)" k l] show ?thesis by (auto split: if_split)
next
  case False
  let ?b = "key_bucket l e"
  have k: "aq_key e = k" and g: "is_ok (fst (try_consume (global_rps l) (global_burst l)
      (aq_global e) (global l)))"
    using False by (auto simp: try_acquire_per_key try_acquire_ok split: if_split_asm)
  have params: "per_key_rps l = rps kr" "per_key_burst l = of_nat (unat kb)"
    and wf: "bucket_wf (of_nat (unat kb)) ?b"
    using inv key_bucket_wf[of l e] by (simp_all add: limiter_inv_def)
  show ?thesis
    using bucket_attempt_pays[OF wf rps_nonneg[of kr] assms(2)] k g
    by (auto simp: key_avail_def[of _ _ _ _ "snd _"] try_acquire_per_key try_acquire_ok params
        key_bucket_avail[OF inv] simp del: of_nat_unat split: if_split_asm)
qed

interpretation key_meter: meter "limiter_attempt (\<lambda>j. j = k)" aq_key_time
    "key_avail (rps kr) (of_nat (unat kb)) k" "rps kr" "of_nat (unat kb)"
    "limiter_inv kr kb gr gb"
  for k kr kb gr gb
proof unfold_locales
  fix l and t :: instant and e
  assume inv: "limiter_inv kr kb gr gb l"
  show "key_avail (rps kr) (of_nat (unat kb)) k t l \<le> of_nat (unat kb)"
    and "0 \<le> key_avail (rps kr) (of_nat (unat kb)) k t l"
    using key_avail_bounds[OF inv] by blast+
  show "limiter_inv kr kb gr gb (snd (limiter_attempt (\<lambda>j. j = k) e l))"
    using limiter_inv_try_acquire[OF inv] by simp
  assume "t \<le> aq_key_time e"
  from key_attempt_pays[OF inv this]
  show "key_avail (rps kr) (of_nat (unat kb)) k (aq_key_time e)
        (snd (limiter_attempt (\<lambda>j. j = k) e l))
      + (if fst (limiter_attempt (\<lambda>j. j = k) e l) then 1 else 0)
      \<le> key_avail (rps kr) (of_nat (unat kb)) k t l + rps kr * elapsed_secs (aq_key_time e) t"
    by simp
qed

subsection \<open>Runs of the limiter\<close>

fun acquire_all :: "Acquire list \<Rightarrow> RateLimiter \<Rightarrow> RateLimiter" where
  "acquire_all [] l = l"
| "acquire_all (e # es) l = acquire_all es (snd (try_acquire e l))"

fun count_admitted :: "(string \<Rightarrow> bool) \<Rightarrow> Acquire list \<Rightarrow> RateLimiter \<Rightarrow> nat" where
  "count_admitted P [] l = 0"
| "count_admitted P (e # es) l =
     (if is_ok (fst (try_acquire e l)) \<and> P (aq_key e) then 1 else 0)
     + count_admitted P es (snd (try_acquire e l))"

lemma count_admitted_global: "global_meter.admitted es l = count_admitted (\<lambda>_. True) es l"
  by (induction es arbitrary: l) simp_all

lemma count_admitted_key: "key_meter.admitted k es l = count_admitted (\<lambda>j. j = k) es l"
  by (induction es arbitrary: l) simp_all

lemma limiter_inv_acquire_all:
  "limiter_inv kr kb gr gb l \<Longrightarrow> limiter_inv kr kb gr gb (acquire_all es l)"
  by (induction es arbitrary: l) (simp_all add: limiter_inv_try_acquire)

text \<open>
  A rejected bucket says after how many seconds a token is there: between one and sixty, when
  the rate is at least one per minute.
\<close>

lemma ceil_as_u64_bounds:
  assumes "0 < rpm" "0 < need" "need \<le> 1"
  shows "need \<le> of_nat (max 1 (ceil_as_u64 need (rps rpm))) * rps rpm"
    and "max 1 (ceil_as_u64 need (rps rpm)) \<le> 60"
proof -
  have r: "1 / 60 \<le> rps rpm" 
    using assms(1) by (simp add: rps_def word_less_nat_alt del: of_nat_unat)
  then have r0: "0 < rps rpm" by simp
  have q: "need / rps rpm \<le> 60"
  proof -
    have "need \<le> 60 * rps rpm" using r assms(3) by simp
    with r0 show ?thesis by (simp add: divide_le_eq)
  qed
  then have c: "nat \<lceil>need / rps rpm\<rceil> \<le> 60" by (simp add: nat_le_iff ceiling_le_iff)
  then have e: "ceil_as_u64 need (rps rpm) = nat \<lceil>need / rps rpm\<rceil>"
    using r0 by (simp add: ceil_as_u64_def)
  with c show "max 1 (ceil_as_u64 need (rps rpm)) \<le> 60" by simp
  have "need / rps rpm \<le> of_nat (nat \<lceil>need / rps rpm\<rceil>)"
    by (rule of_nat_ceiling)
  also have "\<dots> \<le> of_nat (max 1 (ceil_as_u64 need (rps rpm)))" by (simp add: e)
  finally show "need \<le> of_nat (max 1 (ceil_as_u64 need (rps rpm))) * rps rpm"
    using r0 by (simp add: divide_le_eq)
qed

lemma retry_after_correct:
  assumes "0 < rpm" "1 \<le> cap" "bucket_wf cap b"
    and "try_consume (rps rpm) cap now b = (Inl r, b')"
  shows "1 \<le> r \<and> r \<le> 60 \<and> is_ok (fst (try_consume (rps rpm) cap (now + from_secs r) b'))"
proof -
  let ?tk = "bucket_avail (rps rpm) cap now b"
  have tk: "0 \<le> ?tk" using bucket_avail_bounds[OF assms(3) rps_nonneg] by blast
  have lt: "?tk < 1" and r: "r = max 1 (ceil_as_u64 (1 - ?tk) (rps rpm))"
    and b': "b' = \<lparr>tokens = ?tk, last_refill = now\<rparr>"
    using assms(4) by (simp_all add: try_consume_bucket split: if_split_asm)
  note bnd = ceil_as_u64_bounds[OF assms(1), of "1 - ?tk", folded r]
  have need: "1 - ?tk \<le> of_nat r * rps rpm" and r60: "r \<le> 60" using bnd tk lt by simp_all
  have "elapsed_secs (now + from_secs r) now = of_nat r" by (simp add: elapsed_secs_def from_secs_def)
  then have "1 \<le> bucket_avail (rps rpm) cap (now + from_secs r) b'"
    using need assms(2) by (simp add: bucket_avail_def b')
  then have "is_ok (fst (try_consume (rps rpm) cap (now + from_secs r) b'))"
    by (simp add: try_consume_bucket)
  moreover have "1 \<le> r" by (simp add: r)
  ultimately show ?thesis using r60 by simp
qed

lemma try_acquire_other_key:
  "k \<noteq> aq_key e \<Longrightarrow> per_key (snd (try_acquire e l)) k = per_key l k"
  by (simp add: try_acquire_per_key)

subsection \<open>Properties\<close>

text \<open>
  C32. The global limit: from any state the limiter can be in, the admissions in a time window
  are at most the burst plus the refill of the window, over all keys together.
\<close>

theorem global_rate_bound:
  assumes "sorted (t # map aq_global es)" and "\<forall>e \<in> set es. aq_global e \<le> u" and "t \<le> u"
  shows "of_nat (count_admitted (\<lambda>_. True) es (acquire_all pre (limiter_new kr kb gr gb now)))
     \<le> of_nat (unat gb) + rps gr * elapsed_secs u t"
  using global_meter.admitted_bound[OF limiter_inv_acquire_all[OF limiter_inv_new] assms rps_nonneg]
  by (simp add: count_admitted_global)

definition sample_acquire :: "string \<Rightarrow> instant \<Rightarrow> Acquire" where
  "sample_acquire k t = \<lparr>aq_key = k, aq_global = t, aq_insert = t, aq_key_time = t\<rparr>"

theorem global_rate_bound_witness:
  "of_nat (count_admitted (\<lambda>_. True) [sample_acquire ''a'' 0, sample_acquire ''b'' 0]
      (acquire_all [] (limiter_new 60 120 1 1 0))) \<le> (1 :: rat)"
  using global_rate_bound[of 0 "[sample_acquire ''a'' 0, sample_acquire ''b'' 0]" 0 "[]" 60 120 1 1 0]
  by (simp add: sample_acquire_def)

text \<open>
  The limit of a key: whatever the other keys do, the admissions of one key in a time window
  are at most its burst plus its refill in the window.
\<close>

theorem key_rate_bound:
  assumes "sorted (t # map aq_key_time es)" and "\<forall>e \<in> set es. aq_key_time e \<le> u" and "t \<le> u"
  shows "of_nat (count_admitted (\<lambda>j. j = k) es (acquire_all pre (limiter_new kr kb gr gb now)))
     \<le> of_nat (unat kb) + rps kr * elapsed_secs u t"
  using key_meter.admitted_bound[OF limiter_inv_acquire_all[OF limiter_inv_new] assms rps_nonneg]
  by (simp add: count_admitted_key)

theorem key_rate_bound_witness:
  "of_nat (count_admitted (\<lambda>j. j = ''a'') [sample_acquire ''a'' 0, sample_acquire ''a'' 1]
      (acquire_all [] (limiter_new 60 1 600 1200 0))) \<le> (1 :: rat) + 1"
  using key_rate_bound[of 0 "[sample_acquire ''a'' 0, sample_acquire ''a'' 1]" 1000000000 "''a''"
      "[]" 60 1 600 1200 0]
  by (simp add: sample_acquire_def elapsed_secs_def rps_def)

text \<open>
  Retry-After is right: when a bucket of a positive rate and a capacity of at least one
  rejects, the answer is between 1 and 60 seconds, and a request that many seconds later is
  admitted.
\<close>

theorem retry_after_admits:
  assumes "0 < rpm" "1 \<le> cap" "0 \<le> tokens b" "tokens b \<le> cap"
    and "try_consume (rps rpm) cap now b = (Inl r, b')"
  shows "1 \<le> r \<and> r \<le> 60 \<and> fst (try_consume (rps rpm) cap (now + from_secs r) b') = Inr ()"
proof -
  have "1 \<le> r \<and> r \<le> 60 \<and> is_ok (fst (try_consume (rps rpm) cap (now + from_secs r) b'))"
    using retry_after_correct[OF assms(1,2) _ assms(5)] assms(3,4) by (simp add: bucket_wf_def)
  then show ?thesis by (auto simp: is_ok_def split: sum.splits)
qed

theorem retry_after_admits_witness:
  "fst (try_consume (rps 60) 1 (5 + from_secs 1) \<lparr>tokens = 0, last_refill = 5\<rparr>) = Inr ()"
proof -
  have r: "try_consume (rps 60) 1 5 \<lparr>tokens = 0, last_refill = 5\<rparr>
      = (Inl 1, \<lparr>tokens = 0, last_refill = 5\<rparr>)"
    by (simp add: try_consume_def elapsed_secs_def rps_def ceil_as_u64_def)
  from retry_after_admits[OF _ _ _ _ r] show ?thesis by simp
qed

text \<open>
  A request that its own key's bucket rejects has still taken a token of the global bucket:
  a client over its limit consumes the shared budget of everybody.
\<close>

theorem rejected_key_spends_global:
  assumes "fst (try_consume (global_rps l) (global_burst l) (aq_global e) (global l)) = Inr ()"
    and "fst (try_acquire e l) = Inl r"
  shows "tokens (global (snd (try_acquire e l))) =
     min (tokens (global l) + elapsed_secs (aq_global e) (last_refill (global l)) * global_rps l)
       (global_burst l) - 1"
  using assms(1) by (auto simp: try_consume_def Let_def split: if_split_asm)

theorem rejected_key_spends_global_witness:
  "tokens (global (snd (try_acquire (sample_acquire ''a'' 0) (limiter_new 60 0 600 1200 0)))) = 1199"
proof -
  let ?l = "limiter_new 60 0 600 1200 0"
  have "fst (try_consume (global_rps ?l) (global_burst ?l) (aq_global (sample_acquire ''a'' 0))
      (global ?l)) = Inr ()"
    by (simp add: limiter_new_def try_consume_def bucket_new_def elapsed_secs_def sample_acquire_def)
  moreover have "fst (try_acquire (sample_acquire ''a'' 0) ?l) = Inl 1"
    by (simp add: limiter_new_def try_acquire_def try_consume_def bucket_new_def elapsed_secs_def
        sample_acquire_def key_bucket_def ceil_as_u64_def rps_def)
  ultimately show ?thesis
    using rejected_key_spends_global[of ?l "sample_acquire ''a'' 0" 1]
    by (simp add: limiter_new_def bucket_new_def elapsed_secs_def sample_acquire_def)
qed

end
