(* ===== verification/Inbound.thy ===== *)
theory Inbound
  imports Canonical Errors
begin

section \<open>OpenAI inbound format\<close>

text \<open>
  \<open>src/schema/inbound.rs\<close>: the OpenAI request body and its translation to the canonical
  request. \<open>serde_json::from_str\<close> of a tool call's argument text is the parameter \<open>parse\<close>
  (\<open>None\<close> is a syntax error), \<open>Value::to_string\<close> is the parameter \<open>text_of\<close>. Log calls are left
  out. Serde's reading of the body into \<open>InboundRequest\<close> is derived code: the model starts from
  the typed request.
\<close>

record InboundFunction =
  if_name :: string
  if_arguments :: string

record InboundToolCall =
  itc_id :: string
  itc_kind :: string
  itc_function :: InboundFunction

record InboundMessage =
  im_role :: string
  im_content :: json
  im_name :: "string option"
  im_tool_call_id :: "string option"
  im_tool_calls :: "InboundToolCall list option"

record InboundToolDef =
  itd_name :: string
  itd_description :: "string option"
  itd_parameters :: json

record InboundTool =
  it_kind :: string
  it_function :: InboundToolDef

record InboundRequest =
  ir_model :: string
  ir_messages :: "InboundMessage list"
  ir_max_tokens :: "u32 option"
  ir_temperature :: "f64 option"
  ir_top_p :: "f64 option"
  ir_stop :: "string list option"
  ir_stream :: bool
  ir_tools :: "InboundTool list option"
  ir_tool_choice :: "json option"

record PreRouting =
  pr_model_string :: string
  pr_request :: InboundRequest

text \<open>\<open>decode\<close> is serde's derived reader of the struct, with its error text.\<close>

definition parse_inbound :: "(json \<Rightarrow> string + InboundRequest) \<Rightarrow> json \<Rightarrow> AppError + PreRouting" where
  "parse_inbound decode body = (case decode body of
      Inl e \<Rightarrow> Inl (BadRequest (''invalid request body: '' @ e))
    | Inr req \<Rightarrow> Inr \<lparr>pr_model_string = ir_model req, pr_request = req\<rparr>)"

definition parse_tool_choice :: "json \<Rightarrow> ToolChoice option" where
  "parse_tool_choice v = (case v of
      String s \<Rightarrow> (if s = ''auto'' then Some Auto
                   else if s = ''none'' then Some NoTool
                   else if s = ''required'' then Some Required
                   else None)
    | Object o1 \<Rightarrow> map_option Specific
        (Option.bind (Option.bind (map_of o1 ''function'') (jget ''name'')) as_str)
    | _ \<Rightarrow> None)"

definition content_to_text :: "json \<Rightarrow> string" where
  "content_to_text v = (case v of
      String s \<Rightarrow> s
    | Array parts \<Rightarrow> concat (text_parts parts)
    | _ \<Rightarrow> '''')"

text \<open>\<open>obj.get(\"source\")?.as_object()?.get(key)?.as_str()?\<close>\<close>

definition source_field :: "string \<Rightarrow> object \<Rightarrow> string option" where
  "source_field key obj = Option.bind (map_of obj ''source'') (get_str key)"

definition image_url_block :: "object \<Rightarrow> ContentBlock option" where
  "image_url_block obj = map_option
     (\<lambda>url. Image (if starts_with url ''data:'' then split_head (CHR '';'') url else ''image/*'')
              (ImageUrl url))
     (Option.bind (map_of obj ''image_url'') (get_str ''url''))"

lemma size_map_of_le:
  "map_of o1 k = Some v \<Longrightarrow> size (v :: json) \<le> size_list (size_prod (\<lambda>x. 0) size) o1"
  by (induction o1) (auto split: if_split_asm)

function content_to_blocks :: "(json \<Rightarrow> string) \<Rightarrow> json \<Rightarrow> ContentBlock list"
  and block_from_value :: "(json \<Rightarrow> string) \<Rightarrow> json \<Rightarrow> ContentBlock option" where
  "content_to_blocks text_of v = (case v of
      String s \<Rightarrow> [Text s]
    | Array arr \<Rightarrow> List.map_filter (block_from_value text_of) arr
    | _ \<Rightarrow> [Text (text_of v)])"
| "block_from_value text_of v = (case v of
      Object obj \<Rightarrow> (case get_str ''type'' v of
          None \<Rightarrow> None
        | Some kind \<Rightarrow>
            if kind = ''text'' then map_option Text (get_str ''text'' v)
            else if kind = ''image_url'' then image_url_block obj
            else if kind = ''image'' then
              Option.bind (source_field ''media_type'' obj)
                (\<lambda>mt. map_option (\<lambda>d. Image mt (ImageBase64 d)) (source_field ''data'' obj))
            else if kind = ''audio'' then
              Option.bind (source_field ''media_type'' obj)
                (\<lambda>mt. map_option (\<lambda>d. Audio mt (AudioBase64 d)) (source_field ''data'' obj))
            else if kind = ''tool_use'' then
              Option.bind (get_str ''id'' v) (\<lambda>i. map_option
                (\<lambda>nm. ToolUse i nm (unwrap_or Null (map_of obj ''input''))) (get_str ''name'' v))
            else if kind = ''tool_result'' then
              map_option (\<lambda>i. ToolResult i (case map_of obj ''content'' of
                  None \<Rightarrow> [] | Some c \<Rightarrow> content_to_blocks text_of c)) (get_str ''tool_use_id'' v)
            else None)
    | _ \<Rightarrow> None)"
  by pat_completeness auto
termination
  by (relation "measure (\<lambda>x. case x of Inl (_, v) \<Rightarrow> size v | Inr (_, v) \<Rightarrow> size v)")
     (auto simp: less_Suc_eq_le size_map_of_le intro: size_list_estimation')

lemmas block_simps = content_to_blocks.simps block_from_value.simps
declare block_simps [simp del]

definition tool_call_to_canonical ::
  "(string \<Rightarrow> json option) \<Rightarrow> InboundToolCall \<Rightarrow> CanonicalToolCall" where
  "tool_call_to_canonical parse c = \<lparr>tc_id = itc_id c, tc_name = if_name (itc_function c),
     tc_arguments = unwrap_or Null (parse (if_arguments (itc_function c)))\<rparr>"

definition role_from_str :: "string \<Rightarrow> Role" where
  "role_from_str s =
     (if s = ''user'' then User
      else if s = ''assistant'' then Assistant
      else if s = ''tool'' then Tool
      else if s = ''system'' then System
      else User)"

definition message_to_canonical ::
  "(string \<Rightarrow> json option) \<Rightarrow> (json \<Rightarrow> string) \<Rightarrow> InboundMessage \<Rightarrow> CanonicalMessage" where
  "message_to_canonical parse text_of msg = \<lparr>cm_role = role_from_str (im_role msg),
     cm_content = content_to_blocks text_of (im_content msg),
     cm_name = im_name msg, cm_tool_call_id = im_tool_call_id msg,
     cm_tool_calls = map_option (map (tool_call_to_canonical parse)) (im_tool_calls msg)\<rparr>"

text \<open>The loop of \<open>extract_system\<close>, its two mutable variables as accumulators.\<close>

definition add_system :: "string option \<Rightarrow> string \<Rightarrow> string option" where
  "add_system system text = Some (case system of None \<Rightarrow> text | Some prev \<Rightarrow> prev @ ''\<newline>'' @ text)"

fun extract_system_loop ::
  "(string \<Rightarrow> json option) \<Rightarrow> (json \<Rightarrow> string) \<Rightarrow> InboundMessage list
     \<Rightarrow> string option \<Rightarrow> CanonicalMessage list \<Rightarrow> string option \<times> CanonicalMessage list" where
  "extract_system_loop parse text_of [] system out = (system, out)"
| "extract_system_loop parse text_of (msg # msgs) system out =
     (if im_role msg = ''system''
      then extract_system_loop parse text_of msgs
             (add_system system (content_to_text (im_content msg))) out
      else extract_system_loop parse text_of msgs system
             (out @ [message_to_canonical parse text_of msg]))"

definition extract_system ::
  "(string \<Rightarrow> json option) \<Rightarrow> (json \<Rightarrow> string) \<Rightarrow> InboundMessage list
     \<Rightarrow> string option \<times> CanonicalMessage list" where
  "extract_system parse text_of msgs = extract_system_loop parse text_of msgs None []"

definition tool_to_canonical :: "InboundTool \<Rightarrow> CanonicalTool" where
  "tool_to_canonical t = \<lparr>ct_name = itd_name (it_function t),
     ct_description = itd_description (it_function t),
     ct_parameters = itd_parameters (it_function t)\<rparr>"

definition into_canonical ::
  "(string \<Rightarrow> json option) \<Rightarrow> (json \<Rightarrow> string) \<Rightarrow> InboundRequest
     \<Rightarrow> Tier \<Rightarrow> string \<Rightarrow> string \<Rightarrow> string \<Rightarrow> CanonicalRequest" where
  "into_canonical parse text_of req tier model provider rid =
     (let (system, messages) = extract_system parse text_of (ir_messages req) in
     \<lparr>cr_messages = messages, cr_system = system, cr_max_tokens = ir_max_tokens req,
      cr_temperature = ir_temperature req, cr_top_p = ir_top_p req, cr_stop = ir_stop req,
      cr_stream = ir_stream req, cr_tools = map_option (map tool_to_canonical) (ir_tools req),
      cr_tool_choice = Option.bind (ir_tool_choice req) parse_tool_choice,
      cr_tier = tier, cr_selected_model = model, cr_selected_provider = provider,
      cr_request_id = rid, cr_extensions = [], cr_metadata = metadata_default\<rparr>)"

subsection \<open>The loop against its specification\<close>

abbreviation system_texts :: "InboundMessage list \<Rightarrow> string list" where
  "system_texts msgs \<equiv>
     map (\<lambda>m. content_to_text (im_content m)) (filter (\<lambda>m. im_role m = ''system'') msgs)"

abbreviation chat_messages :: "InboundMessage list \<Rightarrow> InboundMessage list" where
  "chat_messages msgs \<equiv> filter (\<lambda>m. im_role m \<noteq> ''system'') msgs"

definition joined :: "string list \<Rightarrow> string option" where
  "joined ts = (if ts = [] then None else Some (join ''\<newline>'' ts))"

lemma join_snoc: "xs \<noteq> [] \<Longrightarrow> join sep (xs @ [y]) = join sep xs @ sep @ y"
  by (induction sep xs rule: join.induct) auto

lemma add_system_joined: "add_system (joined ts) t = joined (ts @ [t])"
  by (simp add: add_system_def joined_def join_snoc split: option.split)

lemma extract_system_loop_spec:
  "extract_system_loop parse text_of msgs (joined ts) out =
     (joined (ts @ system_texts msgs),
      out @ map (message_to_canonical parse text_of) (chat_messages msgs))"
  by (induction msgs arbitrary: ts out) (simp_all add: add_system_joined)

lemma extract_system_spec:
  "extract_system parse text_of msgs =
     (joined (system_texts msgs), map (message_to_canonical parse text_of) (chat_messages msgs))"
  using extract_system_loop_spec[of parse text_of msgs "[]" "[]"]
  by (simp add: extract_system_def joined_def)

lemma role_from_str_not_system: "s \<noteq> ''system'' \<Longrightarrow> role_from_str s \<noteq> System"
  by (simp add: role_from_str_def)

text \<open>No canonical message carries the system role: system text travels in its own field.\<close>

lemma into_canonical_no_system:
  "\<forall>m \<in> set (cr_messages (into_canonical parse text_of req tier model provider rid)).
     cm_role m \<noteq> System"
  by (auto simp: into_canonical_def extract_system_spec message_to_canonical_def
      role_from_str_not_system)

lemma into_canonical_sel [simp]:
  "cr_tier (into_canonical parse text_of req t m p r) = t"
  "cr_selected_model (into_canonical parse text_of req t m p r) = m"
  "cr_selected_provider (into_canonical parse text_of req t m p r) = p"
  "cr_request_id (into_canonical parse text_of req t m p r) = r"
  "cr_stream (into_canonical parse text_of req t m p r) = ir_stream req"
  by (simp_all add: into_canonical_def split_def Let_def)

end
