(* ===== verification/Outbound.thy ===== *)
theory Outbound
  imports Canonical
begin

section \<open>OpenAI outbound format\<close>

text \<open>
  \<open>src/schema/outbound.rs\<close>: the canonical response and chunk as OpenAI JSON. The clock reading
  is the argument \<open>created\<close>, \<open>serde_json::to_string\<close> the argument \<open>to_string\<close>. The total of the
  two \<open>u32\<close> counters wraps, as the release build does.
\<close>

definition text_from_blocks :: "ContentBlock list \<Rightarrow> string" where
  "text_from_blocks blocks = concat (List.map_filter text_of_block blocks)"

definition tool_call_json :: "(json \<Rightarrow> string) \<Rightarrow> string \<Rightarrow> string \<Rightarrow> json \<Rightarrow> object" where
  "tool_call_json to_string i nm input =
     [(''id'', String i), (''type'', String ''function''),
      (''function'', Object [(''name'', String nm), (''arguments'', String (to_string input))])]"

fun tool_call_of_block :: "(json \<Rightarrow> string) \<Rightarrow> ContentBlock \<Rightarrow> json option" where
  "tool_call_of_block to_string (ToolUse i nm input) =
     Some (Object (tool_call_json to_string i nm input))"
| "tool_call_of_block to_string _ = None"

definition tool_calls_from_blocks :: "(json \<Rightarrow> string) \<Rightarrow> ContentBlock list \<Rightarrow> json option" where
  "tool_calls_from_blocks to_string blocks =
     (let calls = List.map_filter (tool_call_of_block to_string) blocks in
      if calls = [] then None else Some (Array calls))"

definition jopt :: "json option \<Rightarrow> json" where
  "jopt x = unwrap_or Null x"

definition usage_fields :: "Usage \<Rightarrow> object" where
  "usage_fields u =
     [(''prompt_tokens'', ju32 (input_tokens u)),
      (''completion_tokens'', ju32 (output_tokens u)),
      (''total_tokens'', ju32 (input_tokens u + output_tokens u))]"

definition response_to_openai :: "(json \<Rightarrow> string) \<Rightarrow> int \<Rightarrow> CanonicalResponse \<Rightarrow> json" where
  "response_to_openai to_string created r = Object
     [(''id'', String (rs_id r)), (''object'', String ''chat.completion''),
      (''created'', Number (NegInt created)), (''model'', String (rs_model r)),
      (''choices'', Array [Object
        [(''index'', ju32 0),
         (''message'', Object
           [(''role'', String ''assistant''),
            (''content'', String (text_from_blocks (rs_content r))),
            (''tool_calls'', jopt (tool_calls_from_blocks to_string (rs_content r)))]),
         (''finish_reason'', jstr_opt (rs_finish_reason r))]]),
      (''usage'', Object (usage_fields (rs_usage r) @
        [(''cache_read_input_tokens'', ju32_opt (cache_read_tokens (rs_usage r))),
         (''cache_creation_input_tokens'', ju32_opt (cache_write_tokens (rs_usage r)))]))]"

definition chunk_to_openai :: "(json \<Rightarrow> string) \<Rightarrow> int \<Rightarrow> CanonicalChunk \<Rightarrow> json option" where
  "chunk_to_openai to_string created c = Some (Object
     [(''id'', String (ch_id c)), (''object'', String ''chat.completion.chunk''),
      (''created'', Number (NegInt created)), (''model'', String (ch_model c)),
      (''choices'', Array [Object
        [(''index'', ju32 0),
         (''delta'', Object
           [(''role'', String ''assistant''),
            (''content'', jstr_opt (cd_text (ch_delta c))),
            (''tool_calls'', jopt (map_option
               (\<lambda>tc. Array [Object ((''index'', ju32 0) #
                  tool_call_json to_string (tc_id tc) (tc_name tc) (tc_arguments tc))])
               (cd_tool_use (ch_delta c))))]),
         (''finish_reason'', jstr_opt (ch_finish_reason c))]]),
      (''usage'', jopt (map_option (\<lambda>u. Object (usage_fields u)) (ch_usage c)))])"

definition done_sentinel :: json where
  "done_sentinel = String ''[DONE]''"

text \<open>Concatenating block lists concatenates their text.\<close>

lemma text_from_blocks_append [simp]:
  "text_from_blocks (xs @ ys) = text_from_blocks xs @ text_from_blocks ys"
  by (simp add: text_from_blocks_def)

lemma text_from_blocks_Text [simp]: "text_from_blocks [Text s] = s"
  by (simp add: text_from_blocks_def)

lemma tool_calls_absent_iff:
  "tool_calls_from_blocks ts blocks = None \<longleftrightarrow> (\<forall>b \<in> set blocks. \<nexists>i n j. b = ToolUse i n j)"
proof -
  have "tool_call_of_block ts b = None \<longleftrightarrow> (\<nexists>i n j. b = ToolUse i n j)" for b
    by (cases b) simp_all
  then show ?thesis
    by (simp add: tool_calls_from_blocks_def Let_def List.map_filter_def filter_empty_conv)
qed

lemma ucast_u32_add:
  assumes "unat (a :: u32) + unat b < 2 ^ 32"
  shows "(ucast (a + b) :: u64) = ucast a + ucast b"
proof -
  have "unat (a + b) = unat a + unat b" using assms by (simp add: unat_add_lem[symmetric])
  then have "(of_nat (unat (a + b)) :: u64) = of_nat (unat a) + of_nat (unat b)" by simp
  then show ?thesis by simp
qed

lemma usage_total:
  "unat (input_tokens u) + unat (output_tokens u) < 2 ^ 32 \<Longrightarrow>
   Option.bind (map_of (usage_fields u) ''total_tokens'') as_u64 =
     Some (ucast (input_tokens u) + ucast (output_tokens u))"
  by (simp add: usage_fields_def ucast_u32_add)

end
