(* ===== verification/Tokens.thy ===== *)
theory Tokens
  imports Canonical
begin

section \<open>Token counting and agent detection\<close>

text \<open>
  \<open>src/tokens/mod.rs\<close> and \<open>src/agents.rs\<close>. The byte-pair encoder of tiktoken is the argument
  \<open>encode\<close> (the number of tokens of a text under an encoding); \<open>len() as u32\<close> truncates and the
  \<open>u32\<close> sums wrap.
\<close>

datatype Encoding = Cl100k | O200k

definition encoding_from_model :: "string \<Rightarrow> Encoding" where
  "encoding_from_model model = (let m = to_lowercase model in
     if starts_with m ''gpt-4o'' \<or> starts_with m ''o1'' \<or> starts_with m ''o3''
        \<or> starts_with m ''o4'' \<or> starts_with m ''chatgpt-4o''
     then O200k else Cl100k)"

definition count_with :: "(string \<Rightarrow> nat) \<Rightarrow> string \<Rightarrow> u32" where
  "count_with bpe s = of_nat (bpe s)"

definition count_tokens :: "(Encoding \<Rightarrow> string \<Rightarrow> nat) \<Rightarrow> string \<Rightarrow> string \<Rightarrow> u32" where
  "count_tokens encode model text = of_nat (encode (encoding_from_model model) text)"

definition count_messages ::
  "(Encoding \<Rightarrow> string \<Rightarrow> nat) \<Rightarrow> string \<Rightarrow> (string \<times> string) list \<Rightarrow> u32" where
  "count_messages encode model messages = (let bpe = encode (encoding_from_model model) in
     fold (\<lambda>(role, content) total. total + 4 + count_with bpe role + count_with bpe content)
       messages 3)"

text \<open>The counter is three for the call and, per message, four and its two texts (modulo \<open>2^32\<close>).\<close>

lemma count_messages_sum:
  "count_messages encode model ms = of_nat (3 + (\<Sum>(r, c) \<leftarrow> ms.
     4 + encode (encoding_from_model model) r + encode (encoding_from_model model) c))"
proof -
  let ?b = "encode (encoding_from_model model)"
  have "fold (\<lambda>(role, content) total. total + 4 + count_with ?b role + count_with ?b content) ms a
      = a + of_nat (\<Sum>(r, c) \<leftarrow> ms. 4 + ?b r + ?b c)" for a
    by (induction ms arbitrary: a) (auto simp: count_with_def)
  then show ?thesis by (simp add: count_messages_def Let_def)
qed

datatype AgentType =
    ClaudeCode | Cursor | Aider | Cody | Continue | Windsurf | Codex | Cline | Roo | Unknown

fun agent_as_str :: "AgentType \<Rightarrow> string" where
  "agent_as_str ClaudeCode = ''claude_code''"
| "agent_as_str Cursor = ''cursor''"
| "agent_as_str Aider = ''aider''"
| "agent_as_str Cody = ''cody''"
| "agent_as_str Continue = ''continue''"
| "agent_as_str Windsurf = ''windsurf''"
| "agent_as_str Codex = ''codex''"
| "agent_as_str Cline = ''cline''"
| "agent_as_str Roo = ''roo''"
| "agent_as_str Unknown = ''unknown''"

definition detect_agent :: "string option \<Rightarrow> AgentType" where
  "detect_agent user_agent = (case user_agent of None \<Rightarrow> Unknown | Some s \<Rightarrow>
     (let ua = to_lowercase s in
      if contains ua ''claude-code'' \<or> contains ua ''claude_code'' then ClaudeCode
      else if contains ua ''cursor'' then Cursor
      else if contains ua ''aider'' then Aider
      else if contains ua ''cody'' then Cody
      else if contains ua ''continue'' then Continue
      else if contains ua ''windsurf'' then Windsurf
      else if contains ua ''codex'' then Codex
      else if contains ua ''cline'' then Cline
      else if contains ua ''roo'' then Roo
      else Unknown))"

text \<open>Every known agent is detected from its own name.\<close>

lemma detect_agent_name: "detect_agent (Some (agent_as_str a)) = a"
  by (cases a) (simp_all add: detect_agent_def to_lowercase_def lower_char_def Let_def)

lemma detect_agent_case: "detect_agent (Some (to_lowercase s)) = detect_agent (Some s)"
  by (simp add: detect_agent_def Let_def)

end
