(* ===== verification/Scorer.thy ===== *)
theory Scorer
  imports Registry Inbound Tokens
begin

section \<open>Tier assignment\<close>

text \<open>
  \<open>src/routing/scorer.rs\<close>: header override, model syntax, feature heuristics, user rules and the
  default tier. \<open>count\<close> is the token count of \<open>tokens::count("gpt-4o", _)\<close>; the header argument is
  the value of \<open>x-router-tier\<close> when it is present and readable as text.
\<close>

definition HIGH_CONTEXT_TOKENS :: u32 where
  "HIGH_CONTEXT_TOKENS = 50000"

definition REASONING_KEYWORDS :: "string list" where
  "REASONING_KEYWORDS = [''prove'', ''proof'', ''formally'', ''theorem'', ''lemma'', ''axiom'',
     ''derive'', ''deduce'', ''step by step'', ''chain of thought'', ''mathematically'',
     ''logically valid'', ''sound and complete'']"

definition CODE_FENCE :: string where
  "CODE_FENCE = ''```''"

record ScoreResult =
  sc_tier :: Tier
  sc_model_override :: "string option"

fun tier_rank :: "Tier \<Rightarrow> nat" where
  "tier_rank Simple = 1"
| "tier_rank Standard = 2"
| "tier_rank Complex = 3"
| "tier_rank Reasoning = 4"
| "tier_rank Multimodal = 5"
| "tier_rank HighContext = 6"

definition is_image_part :: "json \<Rightarrow> bool" where
  "is_image_part p \<longleftrightarrow> get_str ''type'' p \<in> {Some ''image_url'', Some ''image''}"

definition has_image_in_messages :: "InboundMessage list \<Rightarrow> bool" where
  "has_image_in_messages messages \<longleftrightarrow> list_ex (\<lambda>m. case im_content m of
      Array arr \<Rightarrow> list_ex is_image_part arr | _ \<Rightarrow> False) messages"

text \<open>The text of a message: a string, or its text parts on lines of their own.\<close>

definition message_text :: "InboundMessage \<Rightarrow> string" where
  "message_text m = (case im_content m of
      String s \<Rightarrow> s | Array arr \<Rightarrow> join ''\<newline>'' (text_parts arr) | _ \<Rightarrow> '''')"

definition has_code_fence :: "InboundMessage list \<Rightarrow> bool" where
  "has_code_fence messages \<longleftrightarrow> list_ex (\<lambda>m. contains (message_text m) CODE_FENCE) messages"

definition lower_text :: "InboundMessage \<Rightarrow> string option" where
  "lower_text m = (case im_content m of
      String s \<Rightarrow> Some (to_lowercase s)
    | Array arr \<Rightarrow> Some (join '' '' (map to_lowercase (text_parts arr)))
    | _ \<Rightarrow> None)"

definition has_reasoning_keywords :: "InboundMessage list \<Rightarrow> bool" where
  "has_reasoning_keywords messages =
     (let combined = join '' ''
        (List.map_filter lower_text (filter (\<lambda>m. im_role m = ''user'') messages)) in
      list_ex (contains combined) REASONING_KEYWORDS)"

definition saturating_add :: "u32 \<Rightarrow> u32 \<Rightarrow> u32" where
  "saturating_add a b = (if unat a + unat b < 2 ^ 32 then a + b else - 1)"

definition approx_token_count :: "(string \<Rightarrow> u32) \<Rightarrow> InboundMessage list \<Rightarrow> u32" where
  "approx_token_count count messages =
     foldl (\<lambda>acc m. saturating_add acc (count (message_text m))) 0 messages"

text \<open>The final test of \<open>rule_matches\<close> on \<open>has_image\<close> has an empty body in the source.\<close>

definition rule_matches :: "DetectionCondition \<Rightarrow> InboundRequest \<Rightarrow> u32 \<Rightarrow> bool \<Rightarrow> bool" where
  "rule_matches cond inbound approx tools_present \<longleftrightarrow>
     (case dc_has_tools cond of None \<Rightarrow> True | Some want \<Rightarrow> want = tools_present)
     \<and> (case dc_input_tokens_gt cond of None \<Rightarrow> True | Some threshold \<Rightarrow> \<not> approx \<le> threshold)
     \<and> (case dc_prompt_contains cond of None \<Rightarrow> True | Some keywords \<Rightarrow>
          (let combined = join '' '' (List.map_filter (\<lambda>m. case im_content m of
               String s \<Rightarrow> Some (to_lowercase s) | _ \<Rightarrow> None) (ir_messages inbound)) in
           list_all (\<lambda>kw. contains combined (to_lowercase kw)) keywords))"

definition tools_present :: "InboundRequest \<Rightarrow> bool" where
  "tools_present inbound = (case ir_tools inbound of None \<Rightarrow> False | Some t \<Rightarrow> t \<noteq> [])"

text \<open>Layer 3: features, the tool floor and the context floor.\<close>

definition feature_tier :: "InboundRequest \<Rightarrow> u32 \<Rightarrow> Tier" where
  "feature_tier inbound approx =
     (let t0 = (if has_image_in_messages (ir_messages inbound) then Multimodal
                else if has_reasoning_keywords (ir_messages inbound) then Reasoning
                else if has_code_fence (ir_messages inbound) then Complex
                else Standard);
          t1 = (if tools_present inbound \<and> t0 = Simple then Standard else t0) in
      if HIGH_CONTEXT_TOKENS < approx
      then (case t1 of Simple \<Rightarrow> HighContext | Standard \<Rightarrow> HighContext
              | HighContext \<Rightarrow> HighContext | t \<Rightarrow> t)
      else t1)"

text \<open>Layer 4: every matching rule whose tier ranks higher raises the tier.\<close>

fun apply_rules :: "InboundRequest \<Rightarrow> u32 \<Rightarrow> DetectionRule list \<Rightarrow> Tier \<Rightarrow> Tier" where
  "apply_rules inbound approx [] tier = tier"
| "apply_rules inbound approx (rule # rules) tier = apply_rules inbound approx rules
     (if rule_matches (dr_condition rule) inbound approx (tools_present inbound)
      then (case tier_parse (dr_tier rule) of
              Some t \<Rightarrow> if tier_rank tier < tier_rank t then t else tier
            | None \<Rightarrow> tier)
      else tier)"

text \<open>Layer 5: the default replaces \<open>Standard\<close>.\<close>

definition apply_default :: "DetectionConfig \<Rightarrow> Tier \<Rightarrow> Tier" where
  "apply_default det tier = (if tier = Standard
     then unwrap_or tier (Option.bind (de_default_tier det) tier_parse) else tier)"

definition heuristic_tier :: "(string \<Rightarrow> u32) \<Rightarrow> DetectionConfig \<Rightarrow> InboundRequest \<Rightarrow> Tier" where
  "heuristic_tier count det inbound =
     (let approx = approx_token_count count (ir_messages inbound) in
      apply_default det (apply_rules inbound approx (de_rules det) (feature_tier inbound approx)))"

definition resolve_alias_lite :: "string \<Rightarrow> unit option" where
  "resolve_alias_lite s = (if resolve_alias s \<noteq> None then Some () else None)"

definition score ::
  "(string \<Rightarrow> u32) \<Rightarrow> RouterConfig \<Rightarrow> string option \<Rightarrow> InboundRequest \<Rightarrow> ScoreResult" where
  "score count cfg header inbound =
     (case Option.bind header tier_parse of
        Some t \<Rightarrow> \<lparr>sc_tier = t, sc_model_override = None\<rparr>
      | None \<Rightarrow>
         (let parts = splitn 3 (CHR ''/'') (ir_model inbound);
              by_tier = (if length parts = 3 then tier_parse (parts ! 0) else None) in
          case by_tier of
            Some t \<Rightarrow> \<lparr>sc_tier = t, sc_model_override = Some (ir_model inbound)\<rparr>
          | None \<Rightarrow>
             if length parts = 2 \<and> resolve_alias_lite (parts ! 0) \<noteq> None
             then \<lparr>sc_tier = Standard, sc_model_override = Some (ir_model inbound)\<rparr>
             else \<lparr>sc_tier = heuristic_tier count (detection cfg) inbound,
                   sc_model_override = None\<rparr>))"

subsection \<open>Tiers ordered by rank\<close>

instantiation Tier :: linorder
begin

definition less_eq_Tier :: "Tier \<Rightarrow> Tier \<Rightarrow> bool" where
  "less_eq_Tier a b \<longleftrightarrow> tier_rank a \<le> tier_rank b"

definition less_Tier :: "Tier \<Rightarrow> Tier \<Rightarrow> bool" where
  "less_Tier a b \<longleftrightarrow> tier_rank a < tier_rank b"

instance
proof
  fix a b c :: Tier
  show "a < b \<longleftrightarrow> a \<le> b \<and> \<not> b \<le> a" and "a \<le> a" and "a \<le> b \<or> b \<le> a"
    by (auto simp: less_eq_Tier_def less_Tier_def)
  show "a \<le> b \<Longrightarrow> b \<le> c \<Longrightarrow> a \<le> c" by (simp add: less_eq_Tier_def)
  show "a \<le> b \<Longrightarrow> b \<le> a \<Longrightarrow> a = b" by (cases a; cases b) (simp_all add: less_eq_Tier_def)
qed

end

lemmas tier_order = less_eq_Tier_def less_Tier_def

text \<open>The tiers that the matching rules name.\<close>

definition rule_tiers :: "InboundRequest \<Rightarrow> u32 \<Rightarrow> DetectionRule list \<Rightarrow> Tier set" where
  "rule_tiers inbound approx rules = {t. \<exists>r \<in> set rules.
     rule_matches (dr_condition r) inbound approx (tools_present inbound) \<and> tier_parse (dr_tier r) = Some t}"

lemma finite_rule_tiers [simp]: "finite (rule_tiers inbound approx rules)"
proof -
  have "rule_tiers inbound approx rules \<subseteq> (\<lambda>r. the (tier_parse (dr_tier r))) ` set rules"
    by (force simp: rule_tiers_def)
  then show ?thesis by (rule finite_subset) simp
qed

lemma rule_tiers_Cons:
  "rule_tiers inbound approx (r # rules) =
     (if rule_matches (dr_condition r) inbound approx (tools_present inbound)
      then set_option (tier_parse (dr_tier r)) else {}) \<union> rule_tiers inbound approx rules"
  by (auto simp: rule_tiers_def)

lemma rank_step: "(if tier_rank tier < tier_rank t then t else tier) = max tier t"
  unfolding less_Tier_def[symmetric] by (auto simp: max_def)

lemma Max_insert_max:
  "finite A \<Longrightarrow> Max (insert (max a b) A) = Max (insert a (insert b (A :: 'b :: linorder set)))"
  by (cases "A = {}") (simp_all add: max.assoc)

lemma apply_rules_Max:
  "apply_rules inbound approx rules tier = Max (insert tier (rule_tiers inbound approx rules))"
proof (induction rules arbitrary: tier)
  case Nil
  then show ?case by (simp add: rule_tiers_def)
next
  case (Cons r rules)
  show ?case
    by (cases "tier_parse (dr_tier r)")
      (simp_all add: rule_tiers_Cons rank_step Cons.IH Max_insert_max del: Max_insert)
qed

lemma split_once_absent: "d \<notin> set s \<Longrightarrow> split_once d s = None"
  by (simp add: split_once_None)

lemma splitn_3:
  "CHR ''/'' \<notin> set a \<Longrightarrow> CHR ''/'' \<notin> set b \<Longrightarrow>
   splitn 3 (CHR ''/'') (a @ ''/'' @ b @ ''/'' @ c) = [a, b, c]"
  by (simp add: numeral_3_eq_3 split_once_append)

lemma splitn_2:
  "CHR ''/'' \<notin> set a \<Longrightarrow> CHR ''/'' \<notin> set b \<Longrightarrow> splitn 3 (CHR ''/'') (a @ ''/'' @ b) = [a, b]"
  by (simp add: numeral_3_eq_3 split_once_append split_once_absent)

lemma splitn_1: "CHR ''/'' \<notin> set a \<Longrightarrow> splitn 3 (CHR ''/'') a = [a]"
  by (simp add: numeral_3_eq_3 split_once_absent)

lemma score_override_is_model:
  "sc_model_override (score count cfg header inbound) \<in> {None, Some (ir_model inbound)}"
  by (simp add: score_def Let_def split: option.split)

lemma feature_tier_ge_Standard: "Standard \<le> feature_tier inbound approx"
  by (simp add: feature_tier_def Let_def tier_order split: Tier.split)

subsection \<open>Properties\<close>

text \<open>
  The tier of a request without header and model override: the features give a tier of at
  least Standard, the tiers of all matching detection rules are joined by the maximum of their
  ranks, and only a Standard result is replaced by the configured default.
\<close>

theorem heuristic_tier_is_maximum:
  "heuristic_tier count det inbound =
     (let approx = approx_token_count count (ir_messages inbound);
          t = Max (insert (feature_tier inbound approx)
                {t. \<exists>r \<in> set (de_rules det).
                   rule_matches (dr_condition r) inbound approx (tools_present inbound)
                   \<and> tier_parse (dr_tier r) = Some t})
      in if t = Standard then unwrap_or Standard (Option.bind (de_default_tier det) tier_parse) else t)
   \<and> Standard \<le> feature_tier inbound (approx_token_count count (ir_messages inbound))"
  by (simp add: heuristic_tier_def apply_rules_Max rule_tiers_def[symmetric] apply_default_def Let_def
      feature_tier_ge_Standard)

text \<open>
  The order of the detection rules does not matter (the first match does not win): two
  configurations with the same set of rules and the same default give every request the same tier.
\<close>

theorem rule_order_irrelevant:
  assumes "set (de_rules (detection cfg)) = set (de_rules (detection cfg'))"
    and "de_default_tier (detection cfg) = de_default_tier (detection cfg')"
  shows "score count cfg header inbound = score count cfg' header inbound"
proof -
  have "rule_tiers inbound approx (de_rules (detection cfg)) =
      rule_tiers inbound approx (de_rules (detection cfg'))" for approx
    using assms(1) by (simp add: rule_tiers_def)
  then have "heuristic_tier count (detection cfg) inbound = heuristic_tier count (detection cfg') inbound"
    using assms(2) by (simp add: heuristic_tier_def apply_rules_Max apply_default_def Let_def)
  then show ?thesis by (simp only: score_def)
qed

definition sample_rule :: "string \<Rightarrow> DetectionRule" where
  "sample_rule t = \<lparr>dr_condition = \<lparr>dc_has_tools = None, dc_input_tokens_gt = None,
     dc_prompt_contains = None\<rparr>, dr_tier = t\<rparr>"

definition rules_config :: "DetectionRule list \<Rightarrow> RouterConfig" where
  "rules_config rules = config_default\<lparr>detection := detection_default\<lparr>de_rules := rules\<rparr>\<rparr>"

definition sample_inbound :: InboundRequest where
  "sample_inbound = \<lparr>ir_model = ''auto'', ir_messages = [], ir_max_tokens = None,
     ir_temperature = None, ir_top_p = None, ir_stop = None, ir_stream = False, ir_tools = None,
     ir_tool_choice = None\<rparr>"

theorem rule_order_irrelevant_witness:
  "score (\<lambda>_. 0) (rules_config [sample_rule ''complex'', sample_rule ''reasoning'']) None sample_inbound =
   score (\<lambda>_. 0) (rules_config [sample_rule ''reasoning'', sample_rule ''complex'']) None sample_inbound"
  by (rule rule_order_irrelevant) (auto simp: rules_config_def detection_default_def)

end
