(* ===== verification/Specificity.thy ===== *)
theory Specificity
  imports Scorer "HOL-Library.Product_Lexorder"
begin

section \<open>Specificity routing\<close>

text \<open>
  \<open>src/routing/specificity.rs\<close>: detection of the task category of a request by keywords, tool
  names and session history. The scores live in a \<open>HashMap\<close> whose iteration order is not
  specified: \<open>order\<close> is that order, a permutation of all categories. A panic (an index out of
  bounds on an empty message list) is the left value of the sum.
\<close>

fun default_threshold :: "SpecificityCategory \<Rightarrow> u32" where
  "default_threshold Coding = 2"
| "default_threshold WebBrowsing = 3"
| "default_threshold DataAnalysis = 3"
| "default_threshold ImageGeneration = 4"
| "default_threshold VideoGeneration = 4"
| "default_threshold SocialMedia = 3"
| "default_threshold EmailManagement = 3"
| "default_threshold CalendarManagement = 3"
| "default_threshold Trading = 3"

definition keywords_coding :: "(string \<times> u32) list" where
  "keywords_coding =
    [(''code'', 1), (''function'', 1), (''bug'', 1), (''compile'', 2), (''debug'', 2),
     (''refactor'', 2), (''syntax'', 1), (''import'', 1), (''class'', 1), (''method'', 1),
     (''variable'', 1), (''library'', 1), (''api'', 1), (''endpoint'', 1), (''compiler'', 2),
     (''runtime'', 1), (''thread'', 1), (''async'', 1), (''promise'', 1), (''kernel'', 1),
     (''typescript'', 2), (''python'', 1), (''javascript'', 1), (''rust'', 2), (''golang'', 2),
     (''java'', 1), (''kotlin'', 1), (''swift'', 1), (''html'', 1), (''css'', 1), (''react'', 1),
     (''vue'', 1), (''angular'', 1), (''git'', 1), (''commit'', 1), (''merge'', 1),
     (''rebase'', 1), (''stack trace'', 2), (''stacktrace'', 2), (''exception'', 1),
     (''stack overflow'', 2), (''lint'', 1), (''eslint'', 2), (''prettier'', 2)]"

definition keywords_web_browsing :: "(string \<times> u32) list" where
  "keywords_web_browsing =
    [(''http'', 1), (''https'', 1), (''url'', 1), (''website'', 1), (''webpage'', 1),
     (''browse'', 2), (''navigate'', 1), (''click'', 1), (''crawl'', 2), (''scrape'', 2),
     (''fetch'', 1), (''download'', 1), (''bookmark'', 2), (''browser'', 2), (''chrome'', 1),
     (''firefox'', 1), (''safari'', 1), (''page'', 1), (''link'', 1), (''anchor'', 1),
     (''form'', 1), (''input field'', 1), (''cookie'', 1), (''session'', 1)]"

definition keywords_data_analysis :: "(string \<times> u32) list" where
  "keywords_data_analysis =
    [(''dataset'', 2), (''dataframe'', 2), (''sql'', 1), (''query'', 1), (''select'', 1),
     (''where'', 1), (''join'', 1), (''group by'', 2), (''aggregate'', 2), (''sum'', 1),
     (''average'', 1), (''mean'', 1), (''median'', 1), (''histogram'', 2), (''scatter'', 2),
     (''regression'', 2), (''correlation'', 2), (''p-value'', 2), (''statistics'', 1),
     (''pandas'', 2), (''numpy'', 2), (''matplotlib'', 2), (''csv'', 1), (''excel'', 1),
     (''table'', 1), (''pivot'', 1), (''chart'', 1), (''graph'', 1), (''plot'', 1),
     (''visualize'', 2), (''dashboard'', 1), (''kpi'', 2), (''metric'', 1), (''benchmark'', 1)]"

definition keywords_image_generation :: "(string \<times> u32) list" where
  "keywords_image_generation =
    [(''image'', 1), (''picture'', 1), (''photo'', 1), (''illustration'', 2), (''draw'', 2),
     (''paint'', 2), (''render'', 1), (''sketch'', 2), (''midjourney'', 3), (''dall-e'', 3),
     (''stable diffusion'', 3), (''sdxl'', 3), (''firefly'', 3), (''leonardo'', 3),
     (''imagen'', 3), (''flux'', 2), (''comfyui'', 3), (''automatic1111'', 3), (''a1111'', 2),
     (''prompt'', 1), (''negative prompt'', 3), (''seed'', 1), (''guidance'', 1),
     (''denoise'', 2), (''upscale'', 2), (''inpaint'', 2), (''outpaint'', 2), (''diffusion'', 2),
     (''checkpoint'', 1), (''lora'', 2)]"

definition keywords_video_generation :: "(string \<times> u32) list" where
  "keywords_video_generation =
    [(''video'', 1), (''clip'', 1), (''movie'', 1), (''animation'', 2), (''animate'', 2),
     (''sora'', 3), (''runway'', 3), (''kling'', 3), (''pika'', 3), (''veo'', 3), (''luma'', 3),
     (''hailuo'', 3), (''frame'', 1), (''fps'', 1), (''scene'', 1), (''shot'', 1),
     (''storyboard'', 2), (''film'', 1), (''render'', 1), (''motion'', 2), (''temporal'', 1),
     (''keyframe'', 2), (''interpolation'', 2), (''diffusion'', 1), (''video diffusion'', 3)]"

definition keywords_social_media :: "(string \<times> u32) list" where
  "keywords_social_media =
    [(''tweet'', 2), (''post'', 1), (''thread'', 1), (''retweet'', 2), (''like'', 1),
     (''share'', 1), (''follower'', 1), (''engagement'', 2), (''hashtag'', 2), (''mention'', 1),
     (''dm'', 2), (''instagram'', 2), (''facebook'', 2), (''twitter'', 2), (''x.com'', 2),
     (''linkedin'', 2), (''tiktok'', 2), (''youtube'', 1), (''reddit'', 2), (''mastodon'', 2),
     (''bluesky'', 2), (''hootsuite'', 3), (''buffer'', 2), (''impressions'', 2), (''reach'', 1),
     (''virality'', 2), (''influencer'', 2), (''trending'', 2)]"

definition keywords_email_management :: "(string \<times> u32) list" where
  "keywords_email_management =
    [(''email'', 1), (''inbox'', 2), (''outbox'', 2), (''draft'', 1), (''reply'', 1),
     (''forward'', 2), (''cc'', 1), (''bcc'', 1), (''subject'', 1), (''attachment'', 2),
     (''signature'', 1), (''gmail'', 3), (''outlook'', 3), (''superhuman'', 3), (''smtp'', 2),
     (''imap'', 2), (''pop3'', 2), (''mailgun'', 3), (''sendgrid'', 3), (''newsletter'', 2),
     (''unsubscribe'', 2), (''spam'', 1), (''phishing'', 2), (''mail merge'', 3)]"

definition keywords_calendar_management :: "(string \<times> u32) list" where
  "keywords_calendar_management =
    [(''calendar'', 2), (''meeting'', 1), (''appointment'', 2), (''schedule'', 1),
     (''reschedule'', 2), (''invite'', 1), (''attendee'', 2), (''agenda'', 2), (''reminder'', 1),
     (''google calendar'', 3), (''gcal'', 3), (''calendly'', 3), (''reclaim'', 3),
     (''cal.com'', 3), (''ics'', 2), (''ical'', 2), (''timezone'', 1), (''recurring'', 2),
     (''slot'', 1), (''availability'', 2), (''booking'', 2), (''rsvp'', 2), (''event'', 1),
     (''venue'', 1)]"

definition keywords_trading :: "(string \<times> u32) list" where
  "keywords_trading =
    [(''trade'', 2), (''stock'', 1), (''equity'', 1), (''option'', 1), (''future'', 1),
     (''bond'', 1), (''etf'', 2), (''crypto'', 2), (''bitcoin'', 2), (''ethereum'', 2),
     (''btc'', 2), (''eth'', 2), (''buy'', 1), (''sell'', 2), (''short'', 1), (''long'', 1),
     (''limit order'', 3), (''market order'', 3), (''stop loss'', 3), (''take profit'', 3),
     (''portfolio'', 2), (''position'', 1), (''hedge'', 2), (''leverage'', 2), (''margin'', 1),
     (''dividend'', 2), (''earnings'', 2), (''p/e'', 2), (''rsi'', 2), (''macd'', 2),
     (''moving average'', 3), (''bollinger'', 3), (''candlestick'', 3), (''robinhood'', 3),
     (''coinbase'', 3), (''binance'', 3), (''kalshi'', 3), (''polymarket'', 3), (''alpaca'', 3)]"

fun default_keywords :: "SpecificityCategory \<Rightarrow> (string \<times> u32) list" where
  "default_keywords Coding = keywords_coding"
| "default_keywords WebBrowsing = keywords_web_browsing"
| "default_keywords DataAnalysis = keywords_data_analysis"
| "default_keywords ImageGeneration = keywords_image_generation"
| "default_keywords VideoGeneration = keywords_video_generation"
| "default_keywords SocialMedia = keywords_social_media"
| "default_keywords EmailManagement = keywords_email_management"
| "default_keywords CalendarManagement = keywords_calendar_management"
| "default_keywords Trading = keywords_trading"

definition tool_prefix_to_category :: "(string \<times> SpecificityCategory) list" where
  "tool_prefix_to_category =
    [(''browser_'', WebBrowsing), (''playwright_'', WebBrowsing), (''web_'', WebBrowsing),
     (''scrape_'', WebBrowsing), (''fetch_'', WebBrowsing), (''code_'', Coding),
     (''editor_'', Coding), (''lint_'', Coding), (''git_'', Coding),
     (''image_'', ImageGeneration), (''midjourney_'', ImageGeneration),
     (''firefly_'', ImageGeneration), (''leonardo_'', ImageGeneration),
     (''dalle_'', ImageGeneration), (''imagen_'', ImageGeneration), (''sora_'', VideoGeneration),
     (''runway_'', VideoGeneration), (''kling_'', VideoGeneration), (''pika_'', VideoGeneration),
     (''veo_'', VideoGeneration), (''video_'', VideoGeneration), (''social_'', SocialMedia),
     (''hootsuite_'', SocialMedia), (''buffer_'', SocialMedia), (''twitter_'', SocialMedia),
     (''email_'', EmailManagement), (''gmail_'', EmailManagement),
     (''outlook_'', EmailManagement), (''smtp_'', EmailManagement), (''imap_'', EmailManagement),
     (''superhuman_'', EmailManagement), (''calendar_'', CalendarManagement),
     (''gcal_'', CalendarManagement), (''calendly_'', CalendarManagement),
     (''reclaim_'', CalendarManagement), (''ics_'', CalendarManagement), (''trade_'', Trading),
     (''exchange_'', Trading), (''robinhood_'', Trading), (''kalshi_'', Trading),
     (''coinbase_'', Trading), (''binance_'', Trading), (''alpaca_'', Trading)]"

definition TOOL_MATCH_WEIGHT :: u32 where "TOOL_MATCH_WEIGHT = 3"
definition STICKY_HISTORY_WINDOW :: nat where "STICKY_HISTORY_WINDOW = 3"
definition STICKY_AGREEMENT_MIN :: nat where "STICKY_AGREEMENT_MIN = 3"
definition STICKY_BIAS :: u32 where "STICKY_BIAS = 2"

record SpecificityDecision =
  sd_category :: SpecificityCategory
  sd_score :: u32
  sd_threshold :: u32
  sd_primary :: "string option"
  sd_reason :: string

definition rule_for :: "SpecificityConfig \<Rightarrow> SpecificityCategory \<Rightarrow> SpecificityRule option" where
  "rule_for cfg c = find (\<lambda>r. sr_category r = c) (sp_rules cfg)"

definition threshold_for :: "SpecificityConfig \<Rightarrow> SpecificityCategory \<Rightarrow> u32 option" where
  "threshold_for cfg c = Option.bind (rule_for cfg c) sr_threshold"

definition primary_for :: "SpecificityConfig \<Rightarrow> SpecificityCategory \<Rightarrow> string option" where
  "primary_for cfg c = map_option sr_primary (rule_for cfg c)"

definition extract_text :: "json \<Rightarrow> string" where
  "extract_text content = (case content of
      String s \<Rightarrow> s | Array arr \<Rightarrow> join ''\<newline>'' (text_parts arr) | _ \<Rightarrow> '''')"

text \<open>\<open>unwrap_or(&req.messages[0])\<close> evaluates its argument first: no message is a panic.\<close>

definition last_user_text :: "InboundRequest \<Rightarrow> string + string" where
  "last_user_text req = (case ir_messages req of
      [] \<Rightarrow> Inl ''index out of bounds''
    | m0 # _ \<Rightarrow> Inr (extract_text (im_content
        (unwrap_or m0 (find (\<lambda>m. im_role m = ''user'') (rev (ir_messages req)))))))"

type_synonym scores = "SpecificityCategory \<Rightarrow> u32"

definition add_score :: "SpecificityCategory \<Rightarrow> u32 \<Rightarrow> scores \<Rightarrow> scores" where
  "add_score c w s = s(c := s c + w)"

definition score_tools :: "InboundRequest \<Rightarrow> scores \<Rightarrow> scores" where
  "score_tools inbound s = (case ir_tools inbound of None \<Rightarrow> s | Some tools \<Rightarrow>
     fold (\<lambda>tool. fold (\<lambda>(prefix, cat) s.
         if starts_with (to_lowercase (itd_name (it_function tool))) prefix
         then add_score cat TOOL_MATCH_WEIGHT s else s) tool_prefix_to_category) tools s)"

definition score_keywords :: "string \<Rightarrow> scores \<Rightarrow> scores" where
  "score_keywords text s = fold (\<lambda>cat. fold (\<lambda>(kw, weight) s.
       if contains text kw then add_score cat weight s else s) (default_keywords cat))
     all_categories s"

definition score_history :: "SpecificityCategory list \<Rightarrow> scores \<Rightarrow> scores" where
  "score_history recent s =
     (if STICKY_AGREEMENT_MIN \<le> length recent then
        (case remdups (drop (length recent - STICKY_HISTORY_WINDOW) recent) of
           [cat] \<Rightarrow> add_score cat STICKY_BIAS s | _ \<Rightarrow> s)
      else s)"

definition threshold_of :: "SpecificityConfig \<Rightarrow> SpecificityCategory \<Rightarrow> u32" where
  "threshold_of cfg c = unwrap_or (default_threshold c) (threshold_for cfg c)"

definition eligible :: "SpecificityConfig \<Rightarrow> scores \<Rightarrow> SpecificityCategory \<Rightarrow> bool" where
  "eligible cfg s c \<longleftrightarrow> \<not> s c < threshold_of cfg c \<and> primary_for cfg c \<noteq> None"

text \<open>One round of the selection loop over \<open>(category, score, threshold)\<close>.\<close>

definition pick_step ::
  "SpecificityConfig \<Rightarrow> scores \<Rightarrow> SpecificityCategory
     \<Rightarrow> (SpecificityCategory \<times> u32 \<times> u32) option \<Rightarrow> (SpecificityCategory \<times> u32 \<times> u32) option" where
  "pick_step cfg s c best =
     (if \<not> eligible cfg s c then best
      else (case best of
          Some (b, bs, bt) \<Rightarrow>
            if s c < bs then best
            else if s c = bs \<and> threshold_of cfg c \<le> bt then best
            else Some (c, s c, threshold_of cfg c)
        | None \<Rightarrow> Some (c, s c, threshold_of cfg c)))"

definition pick_best ::
  "SpecificityConfig \<Rightarrow> scores \<Rightarrow> SpecificityCategory list
     \<Rightarrow> (SpecificityCategory \<times> u32 \<times> u32) option" where
  "pick_best cfg s order = fold (pick_step cfg s) order None"

definition header_decision :: "SpecificityConfig \<Rightarrow> string \<Rightarrow> SpecificityDecision option" where
  "header_decision cfg h = (case category_parse h of
      None \<Rightarrow> None
    | Some cat \<Rightarrow> map_option (\<lambda>primary. \<lparr>sd_category = cat, sd_score = - 1, sd_threshold = 0,
         sd_primary = Some primary,
         sd_reason = ''header override (x-router-specificity='' @ h @ '')''\<rparr>) (primary_for cfg cat))"

definition total_scores ::
  "InboundRequest \<Rightarrow> string \<Rightarrow> SpecificityCategory list \<Rightarrow> scores" where
  "total_scores inbound text recent =
     score_history recent (score_keywords (to_lowercase text) (score_tools inbound (\<lambda>_. 0)))"

definition decide ::
  "SpecificityConfig \<Rightarrow> scores \<Rightarrow> SpecificityCategory list \<Rightarrow> SpecificityDecision option" where
  "decide cfg s order = (case pick_best cfg s order of
      None \<Rightarrow> None
    | Some (cat, sc, th) \<Rightarrow> map_option (\<lambda>primary. \<lparr>sd_category = cat, sd_score = sc,
         sd_threshold = th, sd_primary = Some primary,
         sd_reason = ''detected '' @ category_as_str cat @ '' (score='' @ show_nat (unat sc)
           @ '', threshold='' @ show_nat (unat th) @ '')''\<rparr>) (primary_for cfg cat))"

definition detect ::
  "SpecificityCategory list \<Rightarrow> SpecificityConfig \<Rightarrow> InboundRequest \<Rightarrow> string option
     \<Rightarrow> SpecificityCategory list \<Rightarrow> string + SpecificityDecision option" where
  "detect order cfg inbound header recent =
     (if \<not> sp_enabled cfg then Inr None
      else (case Option.bind header (header_decision cfg) of
          Some d \<Rightarrow> Inr (Some d)
        | None \<Rightarrow> and_then (last_user_text inbound) (\<lambda>text.
            Inr (decide cfg (total_scores inbound text recent) order))))"

definition keyword_count :: nat where
  "keyword_count = sum_list (map (\<lambda>c. length (default_keywords c)) all_categories)"

definition detector_from_config :: "RouterConfig \<Rightarrow> SpecificityConfig" where
  "detector_from_config cfg = specificity cfg"

subsection \<open>The selection loop finds a maximum\<close>

text \<open>Categories are compared by score, then by threshold.\<close>

definition category_key :: "SpecificityConfig \<Rightarrow> scores \<Rightarrow> SpecificityCategory \<Rightarrow> u32 \<times> u32" where
  "category_key cfg s c = (s c, threshold_of cfg c)"

lemma pick_step_key:
  "pick_step cfg s c best =
     (if \<not> eligible cfg s c then best
      else case best of None \<Rightarrow> Some (c, category_key cfg s c)
        | Some (b, k) \<Rightarrow> if category_key cfg s c \<le> k then best else Some (c, category_key cfg s c))"
  by (auto simp: pick_step_def category_key_def less_eq_prod_def split: option.split)

definition is_best :: "SpecificityConfig \<Rightarrow> scores \<Rightarrow> SpecificityCategory set \<Rightarrow> SpecificityCategory \<Rightarrow> bool" where
  "is_best cfg s A c \<longleftrightarrow> c \<in> A \<and> eligible cfg s c
     \<and> (\<forall>d \<in> A. eligible cfg s d \<longrightarrow> category_key cfg s d \<le> category_key cfg s c)"

lemma pick_best_snoc: "pick_best cfg s (cs @ [c]) = pick_step cfg s c (pick_best cfg s cs)"
  by (simp add: pick_best_def)

lemma pick_best_spec:
  "case pick_best cfg s cs of
     None \<Rightarrow> \<forall>c \<in> set cs. \<not> eligible cfg s c
   | Some (c, k) \<Rightarrow> is_best cfg s (set cs) c \<and> k = category_key cfg s c"
proof (induction cs rule: rev_induct)
  case Nil
  then show ?case by (simp add: pick_best_def)
next
  case (snoc c cs)
  show ?case
  proof (cases "pick_best cfg s cs")
    case None
    with snoc show ?thesis by (auto simp: pick_best_snoc pick_step_key is_best_def)
  next
    case (Some bk)
    obtain b k where bk: "bk = (b, k)" by (cases bk)
    from snoc Some bk have b: "is_best cfg s (set cs) b" and k: "k = category_key cfg s b"
      by simp_all
    show ?thesis
    proof (cases "eligible cfg s c \<and> \<not> category_key cfg s c \<le> k")
      case True
      then have "is_best cfg s (set (cs @ [c])) c"
        using b k unfolding is_best_def by (auto intro: order_trans[OF _ less_imp_le])
      with True Some bk show ?thesis by (simp add: pick_best_snoc pick_step_key)
    next
      case False
      then have "is_best cfg s (set (cs @ [c])) b" using b k unfolding is_best_def by auto
      moreover have "pick_best cfg s (cs @ [c]) = Some (b, k)"
        using False Some bk by (auto simp: pick_best_snoc pick_step_key)
      ultimately show ?thesis using k by simp
    qed
  qed
qed

lemma is_best_unique:
  "inj_on (category_key cfg s) {c. eligible cfg s c} \<Longrightarrow> is_best cfg s A b \<Longrightarrow> is_best cfg s A c \<Longrightarrow> b = c"
proof -
  assume inj: "inj_on (category_key cfg s) {c. eligible cfg s c}"
    and b: "is_best cfg s A b" and c: "is_best cfg s A c"
  have "category_key cfg s b = category_key cfg s c"
    using b c unfolding is_best_def by (intro antisym) auto
  with inj show ?thesis using b c by (auto simp: is_best_def dest: inj_onD)
qed

lemma pick_best_order:
  assumes "inj_on (category_key cfg s) {c. eligible cfg s c}" and "set cs = set ds"
  shows "pick_best cfg s cs = pick_best cfg s ds"
proof -
  note cs = pick_best_spec[where cfg = cfg and s = s and cs = cs]
    and ds = pick_best_spec[where cfg = cfg and s = s and cs = ds]
  show ?thesis
  proof (cases "pick_best cfg s cs")
    case None
    with cs ds assms(2) show ?thesis by (auto simp: is_best_def split: option.splits)
  next
    case (Some ck)
    obtain c k where ck: "ck = (c, k)" by (cases ck)
    from cs Some ck have c: "is_best cfg s (set cs) c" and k: "k = category_key cfg s c" by simp_all
    then obtain d l where d: "pick_best cfg s ds = Some (d, l)"
      using ds assms(2) by (auto simp: is_best_def split: option.splits)
    with ds assms(2) have "is_best cfg s (set cs) d" and l: "l = category_key cfg s d" by simp_all
    from is_best_unique[OF assms(1) c this(1)] show ?thesis using Some ck d k l by simp
  qed
qed

lemma rule_for_primary: "primary_for cfg c = Some p \<Longrightarrow>
    \<exists>r \<in> set (sp_rules cfg). sr_category r = c \<and> sr_primary r = p"
  by (auto simp: primary_for_def rule_for_def find_Some_iff)

lemma decide_None: "set order = UNIV \<Longrightarrow> decide cfg s order = None \<longleftrightarrow> (\<forall>c. \<not> eligible cfg s c)"
  using pick_best_spec[where cfg = cfg and s = s and cs = order]
  by (auto simp: decide_def is_best_def eligible_def split: option.splits)

lemma decide_Some:
  assumes "decide cfg s order = Some d" and "set order = UNIV"
  shows "is_best cfg s UNIV (sd_category d) \<and> sd_primary d = primary_for cfg (sd_category d)
    \<and> sd_score d = s (sd_category d) \<and> sd_threshold d = threshold_of cfg (sd_category d)"
  using assms pick_best_spec[where cfg = cfg and s = s and cs = order]
  by (auto simp: decide_def category_key_def split: option.splits)

subsection \<open>Properties\<close>

text \<open>
  Detection without a header override returns a category whose score reaches its threshold
  and for which a rule gives the primary, and no such category has a higher score, or the same
  score and a higher threshold; it returns nothing exactly when no category qualifies.
\<close>

theorem detect_maximal:
  assumes "sp_enabled cfg" and "set order = UNIV" and "Option.bind header (header_decision cfg) = None"
    and "last_user_text inbound = Inr text"
  shows "case detect order cfg inbound header recent of
     Inl _ \<Rightarrow> False
   | Inr None \<Rightarrow> (\<forall>c. \<not> eligible cfg (total_scores inbound text recent) c)
   | Inr (Some d) \<Rightarrow> sd_threshold d \<le> sd_score d
       \<and> (\<exists>r \<in> set (sp_rules cfg). sr_category r = sd_category d \<and> sd_primary d = Some (sr_primary r))
       \<and> (\<forall>c. eligible cfg (total_scores inbound text recent) c \<longrightarrow>
            (total_scores inbound text recent c, threshold_of cfg c) \<le> (sd_score d, sd_threshold d))"
proof -
  let ?s = "total_scores inbound text recent"
  have d: "detect order cfg inbound header recent = Inr (decide cfg ?s order)"
    using assms by (simp add: detect_def)
  show ?thesis
  proof (cases "decide cfg ?s order")
    case None
    with decide_None[OF assms(2)] d show ?thesis by simp
  next
    case (Some x)
    note b = decide_Some[OF Some assms(2)]
    then have "eligible cfg ?s (sd_category x)" by (simp add: is_best_def)
    then obtain p where p: "primary_for cfg (sd_category x) = Some p" and "sd_threshold x \<le> sd_score x"
      using b by (auto simp: eligible_def)
    with rule_for_primary[OF p] b Some d show ?thesis
      by (auto simp: is_best_def category_key_def)
  qed
qed

text \<open>
  When the categories that qualify differ in score or threshold, the iteration order of the
  score map does not influence the decision.
\<close>

theorem detect_order_independent:
  assumes "set order = UNIV" and "set order' = UNIV"
    and "\<forall>text. inj_on (\<lambda>c. (total_scores inbound text recent c, threshold_of cfg c))
           {c. eligible cfg (total_scores inbound text recent) c}"
  shows "detect order cfg inbound header recent = detect order' cfg inbound header recent"
proof -
  have "decide cfg (total_scores inbound tx recent) order
      = decide cfg (total_scores inbound tx recent) order'" for tx
  proof -
    have "inj_on (category_key cfg (total_scores inbound tx recent))
        {c. eligible cfg (total_scores inbound tx recent) c}"
      using assms(3) by (simp add: category_key_def[abs_def])
    then show ?thesis
      unfolding decide_def by (subst pick_best_order[of cfg _ order order']) (use assms in simp_all)
  qed
  then show ?thesis by (simp add: detect_def and_then_def split: option.split sum.split)
qed

definition sample_text_request :: "string \<Rightarrow> InboundRequest" where
  "sample_text_request t = \<lparr>ir_model = ''auto'',
     ir_messages = [\<lparr>im_role = ''user'', im_content = String t, im_name = None,
                     im_tool_call_id = None, im_tool_calls = None\<rparr>],
     ir_max_tokens = None, ir_temperature = None, ir_top_p = None, ir_stop = None,
     ir_stream = False, ir_tools = None, ir_tool_choice = None\<rparr>"

definition trading_config :: SpecificityConfig where
  "trading_config = \<lparr>sp_enabled = True,
     sp_rules = [\<lparr>sr_category = Trading, sr_primary = ''t/m'', sr_threshold = None\<rparr>]\<rparr>"

lemma trading_primary: "primary_for trading_config c = (if c = Trading then Some ''t/m'' else None)"
  by (simp add: primary_for_def rule_for_def trading_config_def)

theorem detect_maximal_witness:
  "case detect all_categories trading_config (sample_text_request ''buy'') None [] of
     Inl _ \<Rightarrow> False | Inr None \<Rightarrow> True | Inr (Some d) \<Rightarrow> sd_threshold d \<le> sd_score d"
proof -
  have "last_user_text (sample_text_request ''buy'') = Inr ''buy''"
    by (simp add: last_user_text_def sample_text_request_def extract_text_def)
  from detect_maximal[OF _ set_all_categories _ this, of trading_config None "[]"]
  show ?thesis by (auto simp: trading_config_def split: sum.splits option.splits)
qed

theorem detect_order_independent_witness:
  "detect all_categories trading_config (sample_text_request ''buy'') None [] =
   detect (rev all_categories) trading_config (sample_text_request ''buy'') None []"
  by (rule detect_order_independent) (auto simp: inj_on_def eligible_def trading_primary)

end
