(* ===== verification/Cost.thy ===== *)
theory Cost
  imports Manifest Tokens "HOL-Library.List_Lexorder" "HOL-Library.Multiset"
begin

section \<open>Prices, costs and budgets\<close>

text \<open>
  \<open>src/cost/mod.rs\<close>, \<open>src/cost/openrouter_sync.rs\<close> and \<open>src/cost/limits.rs\<close>. The SQLite table
  \<open>model_prices\<close> is an association list with one row per model id (the primary key); a statement
  that the engine rejects is not modelled. \<open>token_usage\<close> has one row per user and UTC day. Prices
  are exact rationals. A parsed decimal of the price feed is the argument \<open>parse\<close> (Rust's
  \<open>str::parse::<f64>\<close>).
\<close>

record PriceRow =
  input_per_1k :: f64
  output_per_1k :: f64
  row_context :: int
  row_modality :: int

type_synonym PricingStore = "(string \<times> PriceRow) list"

record ModelPrice =
  mp_model_id :: string
  mp_input_per_1m :: f64
  mp_output_per_1m :: f64
  mp_context_window :: u32
  mp_modality :: u32

text \<open>\<open>INSERT ... ON CONFLICT DO UPDATE\<close> on the primary key.\<close>

fun row_put :: "'k \<Rightarrow> 'v \<Rightarrow> ('k \<times> 'v) list \<Rightarrow> ('k \<times> 'v) list" where
  "row_put k v [] = [(k, v)]"
| "row_put k v ((k', v') # t) = (if k = k' then (k, v) # t else (k', v') # row_put k v t)"

definition row_del :: "'k \<Rightarrow> ('k \<times> 'v) list \<Rightarrow> ('k \<times> 'v) list" where
  "row_del k t = filter (\<lambda>(k', _). k' \<noteq> k) t"

definition upsert :: "string \<Rightarrow> f64 \<Rightarrow> f64 \<Rightarrow> u32 \<Rightarrow> u32 \<Rightarrow> PricingStore \<Rightarrow> PricingStore" where
  "upsert model_id input_per_1m output_per_1m context_window modality =
     row_put model_id \<lparr>input_per_1k = input_per_1m / 1000, output_per_1k = output_per_1m / 1000,
       row_context = uint context_window, row_modality = uint modality\<rparr>"

definition price_of_row :: "string \<Rightarrow> PriceRow \<Rightarrow> ModelPrice" where
  "price_of_row model_id r = \<lparr>mp_model_id = model_id, mp_input_per_1m = input_per_1k r * 1000,
     mp_output_per_1m = output_per_1k r * 1000, mp_context_window = of_int (row_context r),
     mp_modality = of_int (row_modality r)\<rparr>"

definition price_get :: "PricingStore \<Rightarrow> string \<Rightarrow> ModelPrice option" where
  "price_get s model_id = map_option (price_of_row model_id) (map_of s model_id)"

definition price_list :: "PricingStore \<Rightarrow> ModelPrice list" where
  "price_list s = map (\<lambda>(i, r). price_of_row i r) (sort_key fst s)"

definition default_price_seeds :: "(string \<times> (f64 \<times> f64) \<times> u32) list" where
  "default_price_seeds =
    [(''anthropic/claude-sonnet-4-5'', (3, 15), 1), (''anthropic/claude-opus-4-5'', (15, 75), 1),
     (''anthropic/claude-haiku-4-5'', (1, 5), 1), (''openai/gpt-4o'', (5 / 2, 10), 3),
     (''openai/gpt-4o-mini'', (3 / 20, 3 / 5), 3), (''openai/o3'', (10, 40), 1),
     (''openai/o3-mini'', (11 / 10, 22 / 5), 1), (''openai/o1'', (15, 60), 1),
     (''openai/o1-mini'', (3, 12), 1), (''openai/gpt-4.1'', (2, 8), 1),
     (''openai/gpt-4.1-mini'', (2 / 5, 8 / 5), 1), (''openai/gpt-4.1-nano'', (1 / 10, 2 / 5), 1),
     (''google/gemini-2.0-flash'', (1 / 10, 2 / 5), 3),
     (''google/gemini-2.5-pro'', (5 / 4, 10), 3),
     (''google/gemini-2.5-flash'', (3 / 40, 3 / 10), 3),
     (''google/gemini-1.5-pro'', (5 / 4, 5), 3),
     (''google/gemini-1.5-flash'', (3 / 40, 3 / 10), 3),
     (''deepseek/deepseek-chat'', (27 / 100, 11 / 10), 1),
     (''deepseek/deepseek-coder'', (27 / 100, 11 / 10), 1),
     (''groq/llama-3.3-70b-versatile'', (59 / 100, 79 / 100), 1),
     (''groq/llama-3.1-8b-instant'', (1 / 20, 2 / 25), 1), (''xai/grok-2'', (2, 10), 1),
     (''xai/grok-2-mini'', (1 / 5, 1), 1), (''mistral/mistral-large-latest'', (2, 6), 1),
     (''mistral/mistral-small-latest'', (1 / 5, 3 / 5), 1),
     (''openrouter/anthropic/claude-sonnet-4-5'', (3, 15), 1),
     (''fireworks/accounts/fireworks/models/llama-v3p3-70b-instruct'', (9 / 10, 9 / 10), 1),
     (''qwen/qwen-plus'', (2 / 5, 6 / 5), 1), (''qwen/qwen-max'', (12 / 5, 48 / 5), 1),
     (''moonshot/kimi-k2-0711-preview'', (1, 3), 1), (''zai/glm-4.5'', (1 / 2, 3 / 2), 1),
     (''zai/glm-4.5-air'', (1 / 5, 3 / 5), 1), (''github-copilot/gpt-4o'', (0, 0), 1),
     (''kiro/kiro/claude-sonnet-4-5'', (0, 0), 1), (''ollama/llama3.1'', (0, 0), 1),
     (''ollama-cloud/llama3.1'', (0, 0), 1), (''llamacpp/default'', (0, 0), 1),
     (''lmstudio/default'', (0, 0), 1)]"

definition seed_step ::
  "string \<times> (f64 \<times> f64) \<times> u32 \<Rightarrow> nat \<times> PricingStore \<Rightarrow> nat \<times> PricingStore" where
  "seed_step seed st = (case seed of (model_id, (in_p, out_p), modality) \<Rightarrow>
     (case st of (n, s) \<Rightarrow>
       if price_get s model_id = None then (n + 1, upsert model_id in_p out_p 128000 modality s)
       else (n, s)))"

definition seed_defaults :: "PricingStore \<Rightarrow> nat \<times> PricingStore" where
  "seed_defaults s = fold seed_step default_price_seeds (0, s)"

definition default_price_in_table :: "(string \<times> f64) list" where
  "default_price_in_table =
    [(''anthropic'', 3), (''openai'', 5 / 2), (''google'', 1 / 10), (''gemini'', 1 / 10),
     (''deepseek'', 27 / 100), (''groq'', 59 / 100), (''xai'', 2), (''grok'', 2),
     (''mistral'', 2), (''openrouter'', 3), (''tokenrouter'', 2), (''fireworks'', 9 / 10),
     (''qwen'', 2 / 5), (''alibaba'', 2 / 5), (''dashscope'', 2 / 5), (''moonshot'', 1),
     (''kimi'', 1), (''zai'', 1 / 2), (''z.ai'', 1 / 2), (''ollama'', 0), (''ollama-cloud'', 0),
     (''llamacpp'', 0), (''lmstudio'', 0)]"

definition default_price_in :: "string \<Rightarrow> f64" where
  "default_price_in provider_id = unwrap_or 2 (map_of default_price_in_table provider_id)"

definition default_price_out_table :: "(string \<times> f64) list" where
  "default_price_out_table =
    [(''anthropic'', 15), (''openai'', 10), (''google'', 2 / 5), (''gemini'', 2 / 5),
     (''deepseek'', 11 / 10), (''groq'', 79 / 100), (''xai'', 10), (''grok'', 10),
     (''mistral'', 6), (''openrouter'', 15), (''tokenrouter'', 10), (''fireworks'', 9 / 10),
     (''qwen'', 6 / 5), (''alibaba'', 6 / 5), (''dashscope'', 6 / 5), (''moonshot'', 3),
     (''kimi'', 3), (''zai'', 3 / 2), (''z.ai'', 3 / 2), (''ollama'', 0), (''ollama-cloud'', 0),
     (''llamacpp'', 0), (''lmstudio'', 0)]"

definition default_price_out :: "string \<Rightarrow> f64" where
  "default_price_out provider_id = unwrap_or 10 (map_of default_price_out_table provider_id)"

definition manifest_lookup_by_id :: "string \<Rightarrow> ManifestProvider option" where
  "manifest_lookup_by_id provider_id = Option.bind (resolve_alias provider_id) lookup"

definition token_cost :: "u32 \<Rightarrow> u32 \<Rightarrow> f64 \<Rightarrow> f64 \<Rightarrow> f64" where
  "token_cost in_tok out_tok in_price out_price =
     of_nat (unat in_tok) / 1000000 * in_price
     + of_nat (unat out_tok) / 1000000 * out_price"

definition calculate_with_db ::
  "string \<Rightarrow> string \<Rightarrow> u32 \<Rightarrow> u32 \<Rightarrow> PricingStore option \<Rightarrow> f64 option" where
  "calculate_with_db provider_id model_id in_tok out_tok pricing =
     (case Option.bind pricing (\<lambda>s. price_get s model_id) of
        Some p \<Rightarrow> Some (token_cost in_tok out_tok (mp_input_per_1m p) (mp_output_per_1m p))
      | None \<Rightarrow> (case manifest_lookup_by_id provider_id of
            None \<Rightarrow> None
          | Some meta \<Rightarrow>
              (let factor = (if default_model meta = model_id then 1 else 3 / 2) in
               Some (token_cost in_tok out_tok
                 (default_price_in provider_id * factor) (default_price_out provider_id * factor)))))"

definition calculate :: "string \<Rightarrow> string \<Rightarrow> u32 \<Rightarrow> u32 \<Rightarrow> f64 option" where
  "calculate provider_id model_id in_tok out_tok =
     calculate_with_db provider_id model_id in_tok out_tok None"

definition estimate_tokens :: "(Encoding \<Rightarrow> string \<Rightarrow> nat) \<Rightarrow> string \<Rightarrow> string \<Rightarrow> u32" where
  "estimate_tokens encode model s = count_tokens encode model s"

subsection \<open>OpenRouter price sync\<close>

unbundle bit_operations_syntax

record OpenRouterPricing =
  op_prompt :: "string option"
  op_completion :: "string option"

record OpenRouterModel =
  om_id :: string
  om_pricing :: "OpenRouterPricing option"
  om_context_length :: "u32 option"
  om_modality :: "string option option"

definition modality_flags :: "string \<Rightarrow> u32" where
  "modality_flags s = (let m = 1;
      m = (if contains s ''image'' then m OR 2 else m) in
      if contains s ''audio'' then m OR 24 else m)"

definition sync_model ::
  "(string \<Rightarrow> f64 option) \<Rightarrow> OpenRouterModel \<Rightarrow> nat \<times> PricingStore \<Rightarrow> nat \<times> PricingStore" where
  "sync_model parse m st = (case om_pricing m of
      None \<Rightarrow> st
    | Some p \<Rightarrow> (case (Option.bind (op_prompt p) parse, Option.bind (op_completion p) parse) of
          (Some pin, Some pout) \<Rightarrow>
            (let modality = (case om_modality m of Some (Some s) \<Rightarrow> modality_flags s | _ \<Rightarrow> 1) in
             (fst st + 1, upsert (om_id m) (pin * 1000000) (pout * 1000000)
                (unwrap_or 8192 (om_context_length m)) modality (snd st)))
        | _ \<Rightarrow> st))"

text \<open>The answer of the catalogue: a status that is not a success stops the sync with an error.\<close>

definition sync_once ::
  "(string \<Rightarrow> f64 option) \<Rightarrow> (string + OpenRouterModel list) \<Rightarrow> PricingStore
     \<Rightarrow> (string + nat) \<times> PricingStore" where
  "sync_once parse answer s = (case answer of
      Inl e \<Rightarrow> (Inl e, s)
    | Inr models \<Rightarrow> (let (n, s') = fold (sync_model parse) models (0, s) in (Inr n, s')))"

subsection \<open>Budgets\<close>

record UsageRow =
  us_input :: int
  us_output :: int
  us_cost :: f64
  us_requests :: int

type_synonym TokenUsage = "((string \<times> string) \<times> UsageRow) list"

definition usage_add :: "string \<times> string \<Rightarrow> u32 \<Rightarrow> u32 \<Rightarrow> f64 \<Rightarrow> TokenUsage \<Rightarrow> TokenUsage" where
  "usage_add k i out c t = row_put k (case map_of t k of
      None \<Rightarrow> \<lparr>us_input = uint i, us_output = uint out, us_cost = c, us_requests = 1\<rparr>
    | Some r \<Rightarrow> \<lparr>us_input = us_input r + uint i, us_output = us_output r + uint out,
                us_cost = us_cost r + c, us_requests = us_requests r + 1\<rparr>) t"

datatype BudgetDecision =
    Allow
  | SoftWarning (fraction: f64) (kind: string)
  | Deny (deny_reason: string)

definition daily_spend :: "TokenUsage \<Rightarrow> string \<Rightarrow> string option \<Rightarrow> f64" where
  "daily_spend t day user_id =
     unwrap_or 0 (map_option us_cost (map_of t (unwrap_or '''' user_id, day)))"

definition record_spend ::
  "string \<Rightarrow> string option \<Rightarrow> f64 \<Rightarrow> u32 \<Rightarrow> u32 \<Rightarrow> TokenUsage \<Rightarrow> TokenUsage" where
  "record_spend day user_id cost_usd in_tok out_tok t =
     (if cost_usd \<le> 0 \<and> in_tok = 0 \<and> out_tok = 0 then t
      else usage_add (unwrap_or '''' user_id, day) in_tok out_tok cost_usd t)"

text \<open>\<open>UserStore::record_usage\<close> (\<open>src/auth/users.rs\<close>): the same upsert, without the early return.\<close>

definition record_usage :: "string \<Rightarrow> string \<Rightarrow> u32 \<Rightarrow> u32 \<Rightarrow> f64 \<Rightarrow> TokenUsage \<Rightarrow> TokenUsage" where
  "record_usage day user_id in_tok out_tok cost_usd =
     usage_add (user_id, day) in_tok out_tok cost_usd"

definition budget_check ::
  "BudgetConfig \<Rightarrow> TokenUsage \<Rightarrow> string \<Rightarrow> string option \<Rightarrow> f64 \<Rightarrow> BudgetDecision" where
  "budget_check cfg t day user_id request_cost_usd =
     (if 0 < per_request_cost_usd cfg \<and> per_request_cost_usd cfg < request_cost_usd then
        Deny (''request cost $'' @ show_fixed4 request_cost_usd @ '' exceeds per-request cap $''
          @ show_fixed4 (per_request_cost_usd cfg))
      else if 0 < daily_cost_usd cfg then
        (let today = daily_spend t day user_id; projected = today + request_cost_usd in
         if daily_cost_usd cfg < projected then
           Deny (''daily spend $'' @ show_fixed4 today @ '' + request $'' @ show_fixed4 request_cost_usd
             @ '' exceeds cap $'' @ show_fixed4 (daily_cost_usd cfg))
         else (let fr = projected / daily_cost_usd cfg in
           if warn_fraction cfg \<le> fr then SoftWarning fr ''daily_cost'' else Allow))
      else Allow)"

subsection \<open>Tables keyed by a primary key\<close>

lemma map_of_row_put [simp, store_laws]: "map_of (row_put k v t) = (map_of t)(k \<mapsto> v)"
  by (induction k v t rule: row_put.induct) auto

lemma map_of_row_del [simp, store_laws]: "map_of (row_del k t) j = (if j = k then None else map_of t j)"
  by (induction t) (auto simp: row_del_def)

interpretation rows: kv_store map_of row_put row_del "\<lambda>_. True"
  by unfold_locales simp_all

lemma price_get_upsert:
  "price_get (upsert m i out c md s) m' =
     (if m' = m then Some \<lparr>mp_model_id = m, mp_input_per_1m = i, mp_output_per_1m = out,
                          mp_context_window = c, mp_modality = md\<rparr>
      else price_get s m')"
  by (simp add: price_get_def upsert_def price_of_row_def)

lemma price_get_None: "price_get s m = None \<longleftrightarrow> map_of s m = None"
  by (simp add: price_get_def)

lemma seed_fold:
  "price_get (snd (fold seed_step seeds (n, s))) m =
     (case price_get s m of Some p \<Rightarrow> Some p
      | None \<Rightarrow> map_option (\<lambda>((i, out), md). \<lparr>mp_model_id = m, mp_input_per_1m = i,
            mp_output_per_1m = out, mp_context_window = 128000, mp_modality = md\<rparr>) (map_of seeds m))"
proof (induction seeds arbitrary: n s)
  case Nil
  then show ?case by (simp split: option.split)
next
  case (Cons seed seeds)
  obtain m' i out md where seed: "seed = (m', (i, out), md)" by (metis prod.collapse)
  show ?case
  proof (cases "price_get s m'")
    case None
    then have "fold seed_step (seed # seeds) (n, s) =
        fold seed_step seeds (n + 1, upsert m' i out 128000 md s)"
      by (simp add: seed seed_step_def)
    then show ?thesis using None by (simp add: Cons.IH seed price_get_upsert split: option.split)
  next
    case (Some p)
    then have "fold seed_step (seed # seeds) (n, s) = fold seed_step seeds (n, s)"
      by (simp add: seed seed_step_def)
    then show ?thesis using Some by (auto simp: Cons.IH seed split: option.split)
  qed
qed

lemma seed_fold_noop:
  "\<forall>m \<in> fst ` set seeds. price_get s m \<noteq> None \<Longrightarrow> fold seed_step seeds (n, s) = (n, s)"
proof (induction seeds)
  case (Cons seed seeds)
  obtain m' i out md where "seed = (m', (i, out), md)" by (metis prod.collapse)
  with Cons show ?case by (auto simp: seed_step_def)
qed simp

lemma seeds_have_slash: "list_all (\<lambda>(m, _). CHR ''/'' \<in> set m) default_price_seeds"
  by (simp add: default_price_seeds_def)

subsection \<open>The ledger contract\<close>

text \<open>
  What a client of the usage table relies on: booking an event adds its amount to the total of
  its key and to no other.
\<close>

locale ledger =
  fixes book :: "'k \<Rightarrow> 'e \<Rightarrow> 's \<Rightarrow> 's"
    and total :: "'k \<Rightarrow> 's \<Rightarrow> 'v :: comm_monoid_add"
    and amount :: "'e \<Rightarrow> 'v"
  assumes total_book: "total j (book k e s) = (if j = k then total k s + amount e else total j s)"
begin

lemma total_books:
  "total j (fold (\<lambda>(k, e). book k e) es s) =
     total j s + sum_mset (image_mset (amount \<circ> snd) (filter_mset (\<lambda>(k, _). k = j) (mset es)))"
proof (induction es arbitrary: s)
  case Nil
  then show ?case by simp
next
  case (Cons x es)
  obtain k e where x: "x = (k, e)" by (cases x)
  show ?case by (auto simp: x Cons.IH total_book ac_simps)
qed

text \<open>The order in which concurrent bookings reach the table does not matter.\<close>

lemma total_books_order:
  "mset es = mset es' \<Longrightarrow>
   total j (fold (\<lambda>(k, e). book k e) es s) = total j (fold (\<lambda>(k, e). book k e) es' s)"
  by (simp add: total_books)

end

definition usage_cost :: "string \<times> string \<Rightarrow> TokenUsage \<Rightarrow> f64" where
  "usage_cost k t = unwrap_or 0 (map_option us_cost (map_of t k))"

definition usage_requests :: "string \<times> string \<Rightarrow> TokenUsage \<Rightarrow> int" where
  "usage_requests k t = unwrap_or 0 (map_option us_requests (map_of t k))"

definition usage_input :: "string \<times> string \<Rightarrow> TokenUsage \<Rightarrow> int" where
  "usage_input k t = unwrap_or 0 (map_option us_input (map_of t k))"

lemma usage_cost_add:
  "usage_cost j (usage_add k i out c t) = (if j = k then usage_cost k t + c else usage_cost j t)"
  by (simp add: usage_cost_def usage_add_def split: option.split)

lemma usage_requests_add:
  "usage_requests j (usage_add k i out c t) =
     (if j = k then usage_requests k t + 1 else usage_requests j t)"
  by (simp add: usage_requests_def usage_add_def split: option.split)

lemma usage_input_add:
  "usage_input j (usage_add k i out c t) =
     (if j = k then usage_input k t + uint i else usage_input j t)"
  by (simp add: usage_input_def usage_add_def split: option.split)

interpretation usage_ledger: ledger "\<lambda>(uid, day) (i, out, c). record_usage day uid i out c"
    usage_cost "\<lambda>(i, out, c). c"
  by unfold_locales (simp add: split_def record_usage_def usage_cost_add)

interpretation request_ledger: ledger "\<lambda>(uid, day) (i, out, c). record_usage day uid i out c"
    usage_requests "\<lambda>_. 1"
  by unfold_locales (simp add: split_def record_usage_def usage_requests_add)

interpretation input_ledger: ledger "\<lambda>(uid, day) (i, out, c). record_usage day uid i out c"
    usage_input "\<lambda>(i, out, c). uint i"
  by unfold_locales (simp add: split_def record_usage_def usage_input_add)

interpretation spend_ledger: ledger "\<lambda>(uid, day) (i, out, c). record_spend day (Some uid) c i out"
    usage_cost "\<lambda>(i, out, c). if c \<le> 0 \<and> i = 0 \<and> out = 0 then 0 else c"
  by unfold_locales (simp add: split_def record_spend_def usage_cost_add)

lemma daily_spend_usage: "daily_spend t day uid = usage_cost (unwrap_or '''' uid, day) t"
  by (simp add: daily_spend_def usage_cost_def)

subsection \<open>Requests against a budget\<close>

text \<open>
  One user's requests of one day: the handler checks the budget with a projected cost of zero
  (it projects zero tokens), and an admitted request books its real cost afterwards.
\<close>

fun is_deny :: "BudgetDecision \<Rightarrow> bool" where
  "is_deny (Deny _) = True"
| "is_deny _ = False"

definition budget_step ::
  "BudgetConfig \<Rightarrow> string \<Rightarrow> string \<Rightarrow> u32 \<times> u32 \<times> f64 \<Rightarrow> TokenUsage \<Rightarrow> TokenUsage" where
  "budget_step cfg day uid req t = (case req of (i, out, c) \<Rightarrow>
     if is_deny (budget_check cfg t day (Some uid) 0) then t else record_usage day uid i out c t)"

lemma is_deny_iff:
  "is_deny (budget_check cfg t day uid c) \<longleftrightarrow>
     (0 < per_request_cost_usd cfg \<and> per_request_cost_usd cfg < c)
     \<or> (0 < daily_cost_usd cfg \<and> daily_cost_usd cfg < daily_spend t day uid + c)"
  by (simp add: budget_check_def Let_def)

lemma budget_step_bound:
  assumes "0 < daily_cost_usd cfg" "c \<le> M"
    and "daily_spend t day (Some uid) \<le> max x (daily_cost_usd cfg + M)" "0 \<le> M"
  shows "daily_spend (budget_step cfg day uid (i, out, c) t) day (Some uid)
    \<le> max x (daily_cost_usd cfg + M)"
proof (cases "is_deny (budget_check cfg t day (Some uid) 0)")
  case True
  then show ?thesis using assms(3) by (simp add: budget_step_def)
next
  case False
  then have "daily_spend t day (Some uid) \<le> daily_cost_usd cfg" using assms(1) by (simp add: is_deny_iff)
  moreover have "daily_spend (budget_step cfg day uid (i, out, c) t) day (Some uid)
      = daily_spend t day (Some uid) + c"
    using False by (simp add: budget_step_def record_usage_def daily_spend_usage usage_cost_add)
  ultimately show ?thesis using assms(2) by linarith
qed

lemma budget_run_bound:
  assumes "0 < daily_cost_usd cfg" "0 \<le> M" "\<forall>(i, out, c) \<in> set reqs. c \<le> M"
  shows "daily_spend (fold (budget_step cfg day uid) reqs t) day (Some uid)
    \<le> max (daily_spend t day (Some uid)) (daily_cost_usd cfg + M)"
  using assms(3)
proof (induction reqs rule: rev_induct)
  case (snoc r reqs)
  obtain i out c where r: "r = (i, out, c)" by (cases r)
  with snoc budget_step_bound[OF assms(1) _ _ assms(2)] show ?case by simp
qed simp

lemma token_cost_mono:
  assumes "i \<le> i'" "out \<le> out'" "0 \<le> pin" "0 \<le> pout"
  shows "token_cost i out pin pout \<le> token_cost i' out' pin pout"
proof -
  have "(of_nat (unat i) :: rat) \<le> of_nat (unat i')" "(of_nat (unat out) :: rat) \<le> of_nat (unat out')"
    using assms(1,2) by (simp_all only: of_nat_le_iff word_le_nat_alt)
  then show ?thesis unfolding token_cost_def
    by (intro add_mono mult_right_mono divide_right_mono) (use assms in simp_all)
qed

lemma default_prices_nonneg: "0 \<le> default_price_in p" "0 \<le> default_price_out p"
proof -
  have "\<forall>(k, v) \<in> set default_price_in_table. 0 \<le> v" "\<forall>(k, v) \<in> set default_price_out_table. 0 \<le> v"
    by (simp_all add: default_price_in_table_def default_price_out_table_def)
  then show "0 \<le> default_price_in p" "0 \<le> default_price_out p"
    by (auto simp: default_price_in_def default_price_out_def unwrap_or_def dest: map_of_SomeD
        split: option.split)
qed

subsection \<open>Properties\<close>



text \<open>
  A request that the budget check does not deny keeps the projected spend of the day and its
  own cost within the configured caps, and only a request over one of them is denied; a cap of
  zero never denies.
\<close>

theorem budget_check_exact:
  "(\<exists>reason. budget_check cfg t day uid c = Deny reason) \<longleftrightarrow>
     (0 < per_request_cost_usd cfg \<and> per_request_cost_usd cfg < c)
     \<or> (0 < daily_cost_usd cfg \<and> daily_cost_usd cfg < daily_spend t day uid + c)"
proof -
  have "(\<exists>reason. budget_check cfg t day uid c = Deny reason) \<longleftrightarrow> is_deny (budget_check cfg t day uid c)"
    by (cases "budget_check cfg t day uid c") simp_all
  then show ?thesis by (simp add: is_deny_iff)
qed

text \<open>
  Bookings commute: whatever order the usage records of concurrent requests reach the table
  in, every user's cost, request count and input tokens of a day are the same.
\<close>

theorem usage_order_irrelevant:
  fixes es es' :: "((string \<times> string) \<times> (u32 \<times> u32 \<times> f64)) list"
  assumes "mset es = mset es'"
  shows "let run = fold (\<lambda>(k, e). (case k of (uid, day) \<Rightarrow> \<lambda>(i, out, c). record_usage day uid i out c) e) in
    usage_cost k (run es t) = usage_cost k (run es' t)
    \<and> usage_requests k (run es t) = usage_requests k (run es' t)
    \<and> usage_input k (run es t) = usage_input k (run es' t)"
  using usage_ledger.total_books_order[OF assms, of k t]
    request_ledger.total_books_order[OF assms, of k t] input_ledger.total_books_order[OF assms, of k t]
  by (simp add: Let_def split_def)

theorem usage_order_irrelevant_witness:
  "usage_cost (''u'', ''d'') (record_usage ''d'' ''u'' 1 2 3 (record_usage ''d'' ''u'' 4 5 6 []))
   = usage_cost (''u'', ''d'') (record_usage ''d'' ''u'' 4 5 6 (record_usage ''d'' ''u'' 1 2 3 []))"
  using usage_order_irrelevant[of "[((''u'', ''d''), (4, 5, 6)), ((''u'', ''d''), (1, 2, 3))]"
      "[((''u'', ''d''), (1, 2, 3)), ((''u'', ''d''), (4, 5, 6))]" "(''u'', ''d'')" "[]"]
  by (simp add: Let_def)

text \<open>
  Seeding keeps every price that is already there, adds the built-in price of every other
  seeded model, and a second seeding changes nothing and counts nothing.
\<close>

theorem seed_defaults_preserves:
  "price_get (snd (seed_defaults s)) m =
     (case price_get s m of Some p \<Rightarrow> Some p
      | None \<Rightarrow> map_option (\<lambda>((i, out), md). \<lparr>mp_model_id = m, mp_input_per_1m = i,
            mp_output_per_1m = out, mp_context_window = 128000, mp_modality = md\<rparr>)
          (map_of default_price_seeds m))
   \<and> seed_defaults (snd (seed_defaults s)) = (0, snd (seed_defaults s))"
proof
  show get: "price_get (snd (seed_defaults s)) m =
     (case price_get s m of Some p \<Rightarrow> Some p
      | None \<Rightarrow> map_option (\<lambda>((i, out), md). \<lparr>mp_model_id = m, mp_input_per_1m = i,
            mp_output_per_1m = out, mp_context_window = 128000, mp_modality = md\<rparr>)
          (map_of default_price_seeds m))" for m
    unfolding seed_defaults_def by (rule seed_fold)
  have "price_get (snd (seed_defaults s)) m' \<noteq> None" if "m' \<in> fst ` set default_price_seeds" for m'
  proof -
    have "map_of default_price_seeds m' \<noteq> None" using that by (simp add: map_of_eq_None_iff)
    then show ?thesis by (auto simp: get split: option.split)
  qed
  then show "seed_defaults (snd (seed_defaults s)) = (0, snd (seed_defaults s))"
    unfolding seed_defaults_def[of "snd (seed_defaults s)"] by (intro seed_fold_noop) blast
qed

text \<open>
  The built-in prices are keyed \<open>provider/model\<close>: a model name without a slash, which is what
  an upstream response carries and what the pipeline looks up, finds none of them.
\<close>

theorem seeded_price_needs_slash:
  assumes "CHR ''/'' \<notin> set m"
  shows "price_get (snd (seed_defaults [])) m = None"
proof -
  have "map_of default_price_seeds m = None"
    using seeds_have_slash assms by (auto simp: map_of_eq_None_iff list_all_iff)
  then show ?thesis unfolding seed_defaults_def by (simp add: seed_fold) (simp add: price_get_def)
qed

theorem seeded_price_needs_slash_witness: "price_get (snd (seed_defaults [])) ''gpt-4o'' = None"
  by (rule seeded_price_needs_slash) simp

text \<open>
  More tokens never cost less: with prices that are not negative in the table, the computed
  cost is monotone in both token counts, and it is missing only for a provider id that no
  manifest entry resolves.
\<close>

theorem cost_monotone:
  assumes "i \<le> i'" and "out \<le> out'"
    and "\<forall>p. Option.bind pricing (\<lambda>s. price_get s m) = Some p \<longrightarrow>
      0 \<le> mp_input_per_1m p \<and> 0 \<le> mp_output_per_1m p"
    and "calculate_with_db pid m i out pricing = Some c"
  shows "\<exists>c'. calculate_with_db pid m i' out' pricing = Some c' \<and> c \<le> c'"
  using assms(3,4) token_cost_mono[OF assms(1,2)]
  by (auto simp: calculate_with_db_def Let_def default_prices_nonneg split: option.splits)

theorem cost_monotone_witness:
  "\<exists>c'. calculate_with_db ''openai'' ''gpt-4o'' 20 20 None = Some c'"
proof -
  obtain c where c: "calculate_with_db ''openai'' ''gpt-4o'' 10 10 None = Some c"
    by (simp add: calculate_with_db_def manifest_lookup_by_id_def resolve_alias_def alias_table_def
        normalise_id_def replace_chars_def to_lowercase_def lower_char_def Let_def)
  have "(10 :: u32) \<le> 20" by simp
  from cost_monotone[OF this this _ c] show ?thesis by auto
qed

end
