(* ===== verification/Users.thy ===== *)
theory Users
  imports Cost
begin

section \<open>Users, API keys and sessions\<close>

text \<open>
  \<open>src/auth/users.rs\<close> over its SQLite tables (\<open>src/db/mod.rs\<close>): lists of rows, with the UNIQUE and
  FOREIGN KEY constraints of the schema as the errors of an insert (the bundled SQLite enforces
  foreign keys). Times are kept as the texts the tables hold; \<open>ts\<close> is the value of
  \<open>CURRENT_TIMESTAMP\<close>, \<open>dt\<close> the reader of a stored time. SHA-256 is the argument \<open>sha\<close>, a password
  hash, a random token and a fresh UUID are arguments as well.
\<close>

datatype AuthRole = AdminRole | UserRole

fun role_as_str :: "AuthRole \<Rightarrow> string" where
  "role_as_str AdminRole = ''admin''"
| "role_as_str UserRole = ''user''"

definition role_parse :: "string \<Rightarrow> AuthRole" where
  "role_parse s = (if s = ''admin'' then AdminRole else UserRole)"

lemma role_parse_as_str [simp]: "role_parse (role_as_str r) = r"
  by (cases r) (simp_all add: role_parse_def)

record UserRow =
  ur_id :: string
  ur_email :: string
  ur_name :: string
  ur_password_hash :: "string option"
  ur_role :: string
  ur_metadata :: string
  ur_created_at :: string
  ur_last_login_at :: "string option"

record ApiKeyRow =
  kr_id :: string
  kr_user_id :: string
  kr_key_hash :: string
  kr_key_prefix :: string
  kr_name :: string
  kr_last_used_at :: "string option"
  kr_expires_at :: "string option"
  kr_created_at :: string
  kr_revoked :: bool

record SessionRow =
  ss_id :: string
  ss_user_id :: string
  ss_session_hash :: string
  ss_user_agent :: "string option"
  ss_ip :: "string option"
  ss_created_at :: string
  ss_expires_at :: string
  ss_last_seen_at :: string

record UserDb =
  db_users :: "UserRow list"
  db_api_keys :: "ApiKeyRow list"
  db_sessions :: "SessionRow list"
  db_usage :: TokenUsage

definition db_empty :: UserDb where
  "db_empty = \<lparr>db_users = [], db_api_keys = [], db_sessions = [], db_usage = []\<rparr>"

text \<open>The structs of the source, their times read by \<open>parse_dt\<close>.\<close>

type_synonym DateTime = nat

definition parse_dt :: "(string \<Rightarrow> DateTime option) \<Rightarrow> DateTime \<Rightarrow> string \<Rightarrow> DateTime" where
  "parse_dt rfc3339 now s = unwrap_or now (rfc3339 s)"

record User =
  u_id :: string
  u_email :: string
  u_name :: string
  u_password_hash :: "string option"
  u_role :: AuthRole
  u_metadata :: json
  u_created_at :: DateTime
  u_last_login_at :: "DateTime option"

record ApiKey =
  k_id :: string
  k_user_id :: string
  k_key_hash :: string
  k_key_prefix :: string
  k_name :: string
  k_last_used_at :: "DateTime option"
  k_expires_at :: "DateTime option"
  k_created_at :: DateTime
  k_revoked :: bool

record Session =
  s_id :: string
  s_user_id :: string
  s_session_hash :: string
  s_user_agent :: "string option"
  s_ip :: "string option"
  s_created_at :: DateTime
  s_expires_at :: DateTime
  s_last_seen_at :: DateTime

text \<open>How a row is read: \<open>dt\<close> stands for \<open>parse_dt\<close>, \<open>js\<close> for the metadata parser.\<close>

record Reader =
  rd_dt :: "string \<Rightarrow> DateTime"
  rd_json :: "string \<Rightarrow> json option"

definition row_to_user :: "Reader \<Rightarrow> UserRow \<Rightarrow> User" where
  "row_to_user rd r = \<lparr>u_id = ur_id r, u_email = ur_email r, u_name = ur_name r,
     u_password_hash = ur_password_hash r, u_role = role_parse (ur_role r),
     u_metadata = unwrap_or (Object []) (rd_json rd (ur_metadata r)),
     u_created_at = rd_dt rd (ur_created_at r),
     u_last_login_at = map_option (rd_dt rd) (ur_last_login_at r)\<rparr>"

definition row_to_api_key :: "Reader \<Rightarrow> ApiKeyRow \<Rightarrow> ApiKey" where
  "row_to_api_key rd r = \<lparr>k_id = kr_id r, k_user_id = kr_user_id r, k_key_hash = kr_key_hash r,
     k_key_prefix = kr_key_prefix r, k_name = kr_name r,
     k_last_used_at = map_option (rd_dt rd) (kr_last_used_at r),
     k_expires_at = map_option (rd_dt rd) (kr_expires_at r),
     k_created_at = rd_dt rd (kr_created_at r), k_revoked = kr_revoked r\<rparr>"

definition row_to_session :: "Reader \<Rightarrow> SessionRow \<Rightarrow> Session" where
  "row_to_session rd r = \<lparr>s_id = ss_id r, s_user_id = ss_user_id r,
     s_session_hash = ss_session_hash r, s_user_agent = ss_user_agent r, s_ip = ss_ip r,
     s_created_at = rd_dt rd (ss_created_at r), s_expires_at = rd_dt rd (ss_expires_at r),
     s_last_seen_at = rd_dt rd (ss_last_seen_at r)\<rparr>"

subsection \<open>Users\<close>

definition user_row :: "UserDb \<Rightarrow> string \<Rightarrow> UserRow option" where
  "user_row db i = find (\<lambda>r. ur_id r = i) (db_users db)"

definition create_user ::
  "string \<Rightarrow> string \<Rightarrow> DateTime \<Rightarrow> string \<Rightarrow> string \<Rightarrow> string option \<Rightarrow> AuthRole \<Rightarrow> UserDb
     \<Rightarrow> (string + User) \<times> UserDb" where
  "create_user uuid ts now email name password_hash role db =
     (let email = to_lowercase (trim email) in
      if email = [] \<or> CHR ''@'' \<notin> set email then (Inl ''invalid email'', db)
      else if \<exists>r \<in> set (db_users db). ur_id r = uuid \<or> ur_email r = email
      then (Inl ''UNIQUE constraint failed'', db)
      else (Inr \<lparr>u_id = uuid, u_email = email, u_name = name, u_password_hash = password_hash,
                 u_role = role, u_metadata = Object [], u_created_at = now, u_last_login_at = None\<rparr>,
            db\<lparr>db_users := db_users db @ [\<lparr>ur_id = uuid, ur_email = email, ur_name = name,
                 ur_password_hash = password_hash, ur_role = role_as_str role,
                 ur_metadata = ''{}'', ur_created_at = ts, ur_last_login_at = None\<rparr>]\<rparr>))"

definition get_user :: "Reader \<Rightarrow> string \<Rightarrow> UserDb \<Rightarrow> User option" where
  "get_user rd i db = map_option (row_to_user rd) (user_row db i)"

definition update_password :: "string \<Rightarrow> string \<Rightarrow> string \<Rightarrow> UserDb \<Rightarrow> (string + unit) \<times> UserDb" where
  "update_password user_id new_password new_hash db =
     (if new_password = [] then (Inl ''password must not be empty'', db)
      else if \<not> (\<exists>r \<in> set (db_users db). ur_id r = user_id)
      then (Inl (''user not found: '' @ user_id), db)
      else (Inr (), db\<lparr>db_users := map (\<lambda>r. if ur_id r = user_id
              then r\<lparr>ur_password_hash := Some new_hash\<rparr> else r) (db_users db)\<rparr>))"

definition get_user_by_email :: "Reader \<Rightarrow> string \<Rightarrow> UserDb \<Rightarrow> User option" where
  "get_user_by_email rd email db =
     map_option (row_to_user rd) (find (\<lambda>r. ur_email r = to_lowercase email) (db_users db))"

definition list_users :: "Reader \<Rightarrow> UserDb \<Rightarrow> User list" where
  "list_users rd db = map (row_to_user rd) (sort_key ur_created_at (db_users db))"

definition delete_user :: "string \<Rightarrow> UserDb \<Rightarrow> UserDb" where
  "delete_user i db = db
     \<lparr>db_api_keys := filter (\<lambda>r. kr_user_id r \<noteq> i) (db_api_keys db),
      db_sessions := filter (\<lambda>r. ss_user_id r \<noteq> i) (db_sessions db),
      db_usage := filter (\<lambda>((uid, _), _). uid \<noteq> i) (db_usage db),
      db_users := filter (\<lambda>r. ur_id r \<noteq> i) (db_users db)\<rparr>"

definition touch_last_login :: "string \<Rightarrow> string \<Rightarrow> UserDb \<Rightarrow> UserDb" where
  "touch_last_login ts i db = db\<lparr>db_users := map (\<lambda>r. if ur_id r = i
     then r\<lparr>ur_last_login_at := Some ts\<rparr> else r) (db_users db)\<rparr>"

subsection \<open>API keys\<close>

text \<open>\<open>tk-\<close> and the hexadecimal text of 32 random bytes; the first twelve characters are shown.\<close>

definition api_key_text :: "string \<Rightarrow> string" where
  "api_key_text hex_token = ''tk-'' @ hex_token"

definition create_api_key ::
  "(string \<Rightarrow> string) \<Rightarrow> string \<Rightarrow> string \<Rightarrow> DateTime \<Rightarrow> string \<Rightarrow> string \<Rightarrow> string \<Rightarrow> UserDb
     \<Rightarrow> (string + ApiKey \<times> string) \<times> UserDb" where
  "create_api_key sha uuid ts now hex_token user_id name db =
     (let plaintext = api_key_text hex_token; h = sha plaintext; pre = take 12 plaintext in
      if \<exists>r \<in> set (db_api_keys db). kr_id r = uuid \<or> kr_key_hash r = h
      then (Inl ''UNIQUE constraint failed'', db)
      else if user_row db user_id = None then (Inl ''FOREIGN KEY constraint failed'', db)
      else (Inr (\<lparr>k_id = uuid, k_user_id = user_id, k_key_hash = h, k_key_prefix = pre,
                  k_name = name, k_last_used_at = None, k_expires_at = None, k_created_at = now,
                  k_revoked = False\<rparr>, plaintext),
            db\<lparr>db_api_keys := db_api_keys db @ [\<lparr>kr_id = uuid, kr_user_id = user_id,
                 kr_key_hash = h, kr_key_prefix = pre, kr_name = name, kr_last_used_at = None,
                 kr_expires_at = None, kr_created_at = ts, kr_revoked = False\<rparr>]\<rparr>))"

text \<open>The join of the query: the first live key row with the hash whose user exists.\<close>

definition key_match :: "(string \<Rightarrow> string) \<Rightarrow> string \<Rightarrow> UserDb \<Rightarrow> ApiKeyRow \<Rightarrow> bool" where
  "key_match sha plaintext db r \<longleftrightarrow>
     kr_key_hash r = sha plaintext \<and> \<not> kr_revoked r \<and> user_row db (kr_user_id r) \<noteq> None"

definition get_user_by_api_key ::
  "(string \<Rightarrow> string) \<Rightarrow> Reader \<Rightarrow> string \<Rightarrow> string \<Rightarrow> UserDb \<Rightarrow> (User \<times> ApiKey) option \<times> UserDb" where
  "get_user_by_api_key sha rd ts plaintext db =
     (case find (key_match sha plaintext db) (db_api_keys db) of
        None \<Rightarrow> (None, db)
      | Some r \<Rightarrow> (map_option (\<lambda>u. (row_to_user rd u, row_to_api_key rd r)) (user_row db (kr_user_id r)),
          db\<lparr>db_api_keys := map (\<lambda>k. if kr_id k = kr_id r
               then k\<lparr>kr_last_used_at := Some ts\<rparr> else k) (db_api_keys db)\<rparr>))"

definition list_api_keys :: "Reader \<Rightarrow> string \<Rightarrow> UserDb \<Rightarrow> ApiKey list" where
  "list_api_keys rd user_id db = map (row_to_api_key rd)
     (rev (sort_key kr_created_at (rev (filter (\<lambda>r. kr_user_id r = user_id) (db_api_keys db)))))"

definition revoke_api_key :: "string \<Rightarrow> UserDb \<Rightarrow> UserDb" where
  "revoke_api_key key_id db = db\<lparr>db_api_keys := map (\<lambda>r. if kr_id r = key_id
     then r\<lparr>kr_revoked := True\<rparr> else r) (db_api_keys db)\<rparr>"

definition delete_api_key :: "string \<Rightarrow> UserDb \<Rightarrow> UserDb" where
  "delete_api_key key_id db =
     db\<lparr>db_api_keys := filter (\<lambda>r. kr_id r \<noteq> key_id) (db_api_keys db)\<rparr>"

subsection \<open>Sessions\<close>

text \<open>\<open>rfc\<close> is the RFC 3339 text of an instant, \<open>expires\<close> the instant \<open>ttl_hours\<close> after \<open>now\<close>.\<close>

definition create_session ::
  "(string \<Rightarrow> string) \<Rightarrow> (DateTime \<Rightarrow> string) \<Rightarrow> string \<Rightarrow> string \<Rightarrow> DateTime \<Rightarrow> string \<Rightarrow> string
     \<Rightarrow> string option \<Rightarrow> string option \<Rightarrow> nat \<Rightarrow> UserDb \<Rightarrow> (string + Session \<times> string) \<times> UserDb" where
  "create_session sha rfc uuid ts now token user_id user_agent ip ttl_hours db =
     (let h = sha token; expires = now + ttl_hours * 3600 in
      if \<exists>r \<in> set (db_sessions db). ss_id r = uuid \<or> ss_session_hash r = h
      then (Inl ''UNIQUE constraint failed'', db)
      else if user_row db user_id = None then (Inl ''FOREIGN KEY constraint failed'', db)
      else (Inr (\<lparr>s_id = uuid, s_user_id = user_id, s_session_hash = h, s_user_agent = user_agent,
                  s_ip = ip, s_created_at = now, s_expires_at = expires, s_last_seen_at = now\<rparr>, token),
            db\<lparr>db_sessions := db_sessions db @ [\<lparr>ss_id = uuid, ss_user_id = user_id,
                 ss_session_hash = h, ss_user_agent = user_agent, ss_ip = ip, ss_created_at = ts,
                 ss_expires_at = rfc expires, ss_last_seen_at = ts\<rparr>]\<rparr>))"

text \<open>\<open>expires_at > CURRENT_TIMESTAMP\<close> compares texts, byte by byte.\<close>

definition session_match :: "(string \<Rightarrow> string) \<Rightarrow> string \<Rightarrow> string \<Rightarrow> UserDb \<Rightarrow> SessionRow \<Rightarrow> bool" where
  "session_match sha ts plaintext db r \<longleftrightarrow> ss_session_hash r = sha plaintext
     \<and> ts < ss_expires_at r \<and> user_row db (ss_user_id r) \<noteq> None"

definition get_session ::
  "(string \<Rightarrow> string) \<Rightarrow> Reader \<Rightarrow> string \<Rightarrow> string \<Rightarrow> UserDb \<Rightarrow> (Session \<times> User) option \<times> UserDb" where
  "get_session sha rd ts plaintext db =
     (case find (session_match sha ts plaintext db) (db_sessions db) of
        None \<Rightarrow> (None, db)
      | Some r \<Rightarrow> (map_option (\<lambda>u. (row_to_session rd r, row_to_user rd u)) (user_row db (ss_user_id r)),
          db\<lparr>db_sessions := map (\<lambda>k. if ss_id k = ss_id r
               then k\<lparr>ss_last_seen_at := ts\<rparr> else k) (db_sessions db)\<rparr>))"

definition delete_session :: "string \<Rightarrow> UserDb \<Rightarrow> UserDb" where
  "delete_session i db = db\<lparr>db_sessions := filter (\<lambda>r. ss_id r \<noteq> i) (db_sessions db)\<rparr>"

definition delete_user_sessions :: "string \<Rightarrow> UserDb \<Rightarrow> UserDb" where
  "delete_user_sessions user_id db =
     db\<lparr>db_sessions := filter (\<lambda>r. ss_user_id r \<noteq> user_id) (db_sessions db)\<rparr>"

definition prune_expired_sessions :: "string \<Rightarrow> UserDb \<Rightarrow> nat \<times> UserDb" where
  "prune_expired_sessions ts db =
     (length (filter (\<lambda>r. ss_expires_at r < ts) (db_sessions db)),
      db\<lparr>db_sessions := filter (\<lambda>r. \<not> ss_expires_at r < ts) (db_sessions db)\<rparr>)"

subsection \<open>Usage\<close>

definition user_record_usage ::
  "string \<Rightarrow> string \<Rightarrow> u32 \<Rightarrow> u32 \<Rightarrow> f64 \<Rightarrow> UserDb \<Rightarrow> (string + unit) \<times> UserDb" where
  "user_record_usage day user_id in_tok out_tok cost db =
     (if user_row db user_id = None then (Inl ''FOREIGN KEY constraint failed'', db)
      else (Inr (), db\<lparr>db_usage := record_usage day user_id in_tok out_tok cost (db_usage db)\<rparr>))"

definition get_usage_today :: "string \<Rightarrow> string \<Rightarrow> UserDb \<Rightarrow> u32 \<times> u32 \<times> f64 \<times> u32" where
  "get_usage_today day user_id db = (case map_of (db_usage db) (user_id, day) of
      Some r \<Rightarrow> (of_int (us_input r), of_int (us_output r), us_cost r, of_int (us_requests r))
    | None \<Rightarrow> (0, 0, 0, 0))"

text \<open>\<open>since\<close> is SQLite's \<open>date('now', '-N days')\<close>.\<close>

definition get_usage_summary :: "string \<Rightarrow> string \<Rightarrow> UserDb \<Rightarrow> (string \<times> u32 \<times> u32 \<times> f64) list" where
  "get_usage_summary since user_id db =
     map (\<lambda>((_, day), r). (day, of_int (us_input r), of_int (us_output r), us_cost r))
       (sort_key (snd \<circ> fst) (filter (\<lambda>((uid, day), _). uid = user_id \<and> since \<le> day) (db_usage db)))"

definition get_global_usage_today :: "string \<Rightarrow> UserDb \<Rightarrow> u32 \<times> u32 \<times> f64 \<times> u32" where
  "get_global_usage_today day db =
     (let rows = map snd (filter (\<lambda>((_, d), _). d = day) (db_usage db)) in
      (of_int (sum_list (map us_input rows)), of_int (sum_list (map us_output rows)),
       sum_list (map us_cost rows), of_int (sum_list (map us_requests rows))))"

subsection \<open>Credentials as an interface\<close>

text \<open>
  API keys and sessions are looked up the same way: the first live row with the hash of the
  presented text, joined with its user.
\<close>

lemma find_append_None: "find P xs = None \<Longrightarrow> find P (xs @ ys) = find P ys"
  by (induction xs) (auto split: if_splits)

locale credential_table =
  fixes rows :: "UserDb \<Rightarrow> 'r list"
    and owner :: "'r \<Rightarrow> string"
    and hash :: "'r \<Rightarrow> string"
    and live :: "string \<Rightarrow> 'r \<Rightarrow> bool"
    and sha :: "string \<Rightarrow> string"
    and auth :: "string \<Rightarrow> string \<Rightarrow> UserDb \<Rightarrow> string option"
  assumes auth_find: "auth ts p db = map_option owner
     (find (\<lambda>r. hash r = sha p \<and> live ts r \<and> user_row db (owner r) \<noteq> None) (rows db))"
begin

lemma auth_None_iff:
  "auth ts p db = None \<longleftrightarrow>
     (\<forall>r \<in> set (rows db). hash r = sha p \<longrightarrow> live ts r \<longrightarrow> user_row db (owner r) = None)"
  by (auto simp: auth_find find_None_iff)

lemma auth_SomeD:
  assumes "auth ts p db = Some u"
  shows "user_row db u \<noteq> None"
    and "\<exists>r \<in> set (rows db). hash r = sha p \<and> live ts r \<and> owner r = u"
  using assms by (auto simp: auth_find find_Some_iff)

lemma auth_issued:
  assumes "rows db' = rows db @ [r]" and "sha p \<notin> hash ` set (rows db)"
    and "hash r = sha p" and "live ts r" and "user_row db' (owner r) \<noteq> None"
  shows "auth ts p db' = Some (owner r)"
proof -
  have "find (\<lambda>r. hash r = sha p \<and> live ts r \<and> user_row db' (owner r) \<noteq> None) (rows db) = None"
    using assms(2) by (fastforce simp: find_None_iff image_iff)
  then show ?thesis using assms by (simp add: auth_find find_append_None)
qed

lemma auth_unique:
  assumes "distinct (map hash (rows db))" and "r \<in> set (rows db)" and "hash r = sha p"
    and "live ts r" and "user_row db (owner r) \<noteq> None"
  shows "auth ts p db = Some (owner r)"
proof (cases "auth ts p db")
  case None
  then show ?thesis using assms by (auto simp: auth_None_iff)
next
  case (Some u)
  then obtain r' where "r' \<in> set (rows db)" "hash r' = sha p" "owner r' = u"
    using auth_SomeD(2) by blast
  with assms have "r' = r" by (auto simp: distinct_map inj_on_def)
  with Some \<open>owner r' = u\<close> show ?thesis by simp
qed

end

text \<open>The user that a presented API key or session token authenticates.\<close>

definition key_user :: "(string \<Rightarrow> string) \<Rightarrow> Reader \<Rightarrow> string \<Rightarrow> string \<Rightarrow> UserDb \<Rightarrow> string option" where
  "key_user sha rd ts p db = map_option (\<lambda>(u, _). u_id u) (fst (get_user_by_api_key sha rd ts p db))"

definition session_user :: "(string \<Rightarrow> string) \<Rightarrow> Reader \<Rightarrow> string \<Rightarrow> string \<Rightarrow> UserDb \<Rightarrow> string option" where
  "session_user sha rd ts p db = map_option (\<lambda>(_, u). u_id u) (fst (get_session sha rd ts p db))"

lemma user_row_SomeD: "user_row db i = Some r \<Longrightarrow> r \<in> set (db_users db) \<and> ur_id r = i"
  by (auto simp: user_row_def find_Some_iff)

lemma user_row_None_iff: "user_row db i = None \<longleftrightarrow> i \<notin> ur_id ` set (db_users db)"
  by (auto simp: user_row_def find_None_iff)

lemma key_user_find:
  "key_user sha rd ts p db = map_option kr_user_id
     (find (\<lambda>r. kr_key_hash r = sha p \<and> \<not> kr_revoked r \<and> user_row db (kr_user_id r) \<noteq> None)
        (db_api_keys db))"
proof -
  have q: "find (key_match sha p db) (db_api_keys db) =
     find (\<lambda>r. kr_key_hash r = sha p \<and> \<not> kr_revoked r \<and> user_row db (kr_user_id r) \<noteq> None)
       (db_api_keys db)"
    by (rule find_cong) (simp_all add: key_match_def)
  show ?thesis
  proof (cases "find (key_match sha p db) (db_api_keys db)")
    case None
    then show ?thesis using q by (simp add: key_user_def get_user_by_api_key_def)
  next
    case (Some r)
    then obtain u where u: "user_row db (kr_user_id r) = Some u"
      by (auto simp: find_Some_iff key_match_def)
    with Some show ?thesis unfolding q [symmetric]
      by (simp add: key_user_def get_user_by_api_key_def row_to_user_def user_row_SomeD)
  qed
qed

lemma session_user_find:
  "session_user sha rd ts p db = map_option ss_user_id
     (find (\<lambda>r. ss_session_hash r = sha p \<and> ts < ss_expires_at r \<and> user_row db (ss_user_id r) \<noteq> None)
        (db_sessions db))"
proof -
  have q: "find (session_match sha ts p db) (db_sessions db) =
     find (\<lambda>r. ss_session_hash r = sha p \<and> ts < ss_expires_at r \<and> user_row db (ss_user_id r) \<noteq> None)
       (db_sessions db)"
    by (rule find_cong) (simp_all add: session_match_def)
  show ?thesis
  proof (cases "find (session_match sha ts p db) (db_sessions db)")
    case None
    then show ?thesis using q by (simp add: session_user_def get_session_def)
  next
    case (Some r)
    then obtain u where u: "user_row db (ss_user_id r) = Some u"
      by (auto simp: find_Some_iff session_match_def)
    with Some show ?thesis unfolding q [symmetric]
      by (simp add: session_user_def get_session_def row_to_user_def user_row_SomeD)
  qed
qed

interpretation keys: credential_table db_api_keys kr_user_id kr_key_hash
    "\<lambda>_ r. \<not> kr_revoked r" sha "key_user sha rd"
  by unfold_locales (rule key_user_find)

interpretation sessions: credential_table db_sessions ss_user_id ss_session_hash
    "\<lambda>ts r. ts < ss_expires_at r" sha "session_user sha rd"
  by unfold_locales (rule session_user_find)

subsection \<open>The reachable databases\<close>

text \<open>Every state-changing operation of the store, with the values the environment supplies.\<close>

record UserEnv =
  ue_sha :: "string \<Rightarrow> string"
  ue_rfc :: "DateTime \<Rightarrow> string"
  ue_rd :: Reader

datatype db_op =
    OpCreateUser string string DateTime string string "string option" AuthRole
  | OpUpdatePassword string string string
  | OpDeleteUser string
  | OpTouchLastLogin string string
  | OpCreateApiKey string string DateTime string string string
  | OpUserByApiKey string string
  | OpRevokeApiKey string
  | OpDeleteApiKey string
  | OpCreateSession string string DateTime string string "string option" "string option" nat
  | OpGetSession string string
  | OpDeleteSession string
  | OpDeleteUserSessions string
  | OpPruneExpired string
  | OpRecordUsage string string u32 u32 f64

fun db_apply :: "UserEnv \<Rightarrow> db_op \<Rightarrow> UserDb \<Rightarrow> UserDb" where
  "db_apply e (OpCreateUser uuid ts now email name ph role) db =
     snd (create_user uuid ts now email name ph role db)"
| "db_apply e (OpUpdatePassword i p h) db = snd (update_password i p h db)"
| "db_apply e (OpDeleteUser i) db = delete_user i db"
| "db_apply e (OpTouchLastLogin ts i) db = touch_last_login ts i db"
| "db_apply e (OpCreateApiKey uuid ts now tok i name) db =
     snd (create_api_key (ue_sha e) uuid ts now tok i name db)"
| "db_apply e (OpUserByApiKey ts p) db = snd (get_user_by_api_key (ue_sha e) (ue_rd e) ts p db)"
| "db_apply e (OpRevokeApiKey k) db = revoke_api_key k db"
| "db_apply e (OpDeleteApiKey k) db = delete_api_key k db"
| "db_apply e (OpCreateSession uuid ts now tok i ua ip ttl) db =
     snd (create_session (ue_sha e) (ue_rfc e) uuid ts now tok i ua ip ttl db)"
| "db_apply e (OpGetSession ts p) db = snd (get_session (ue_sha e) (ue_rd e) ts p db)"
| "db_apply e (OpDeleteSession i) db = delete_session i db"
| "db_apply e (OpDeleteUserSessions i) db = delete_user_sessions i db"
| "db_apply e (OpPruneExpired ts) db = snd (prune_expired_sessions ts db)"
| "db_apply e (OpRecordUsage day i a b c) db = snd (user_record_usage day i a b c db)"

inductive db_reachable :: "UserEnv \<Rightarrow> UserDb \<Rightarrow> bool" for e where
  db_init: "db_reachable e db_empty"
| db_step: "db_reachable e db \<Longrightarrow> db_reachable e (db_apply e op db)"

text \<open>The schema's constraints: unique ids, emails and hashes, and no dangling owner.\<close>

definition db_wf :: "UserDb \<Rightarrow> bool" where
  "db_wf db \<longleftrightarrow> distinct (map ur_id (db_users db)) \<and> distinct (map ur_email (db_users db))
     \<and> distinct (map kr_id (db_api_keys db)) \<and> distinct (map kr_key_hash (db_api_keys db))
     \<and> distinct (map ss_id (db_sessions db)) \<and> distinct (map ss_session_hash (db_sessions db))
     \<and> kr_user_id ` set (db_api_keys db) \<subseteq> ur_id ` set (db_users db)
     \<and> ss_user_id ` set (db_sessions db) \<subseteq> ur_id ` set (db_users db)
     \<and> (fst \<circ> fst) ` set (db_usage db) \<subseteq> ur_id ` set (db_users db)"

lemmas user_op_defs = create_user_def update_password_def delete_user_def touch_last_login_def
  create_api_key_def get_user_by_api_key_def revoke_api_key_def delete_api_key_def
  create_session_def get_session_def delete_session_def delete_user_sessions_def
  prune_expired_sessions_def user_record_usage_def

lemma map_if_same [simp]:
  "(\<And>r. f (g r) = f r) \<Longrightarrow> map (f \<circ> (\<lambda>r. if P r then g r else r)) xs = map f xs"
  by (induction xs) auto

lemma distinct_map_filter_mono: "distinct (map f xs) \<Longrightarrow> distinct (map f (filter P xs))"
  by (induction xs) auto

lemma set_row_put: "set (row_put k v t) \<subseteq> insert (k, v) (set t)"
  by (induction t) (auto split: if_splits)

lemma record_usage_owners:
  "x \<in> set (record_usage day i a b c t) \<Longrightarrow> fst (fst x) = i \<or> x \<in> set t"
  using set_row_put by (fastforce simp: record_usage_def usage_add_def Let_def)

text \<open>An operation that keeps every key column keeps the constraints.\<close>

definition key_columns ::
  "UserDb \<Rightarrow> (string list \<times> string list) \<times> (string list \<times> string list \<times> string list)
     \<times> (string list \<times> string list \<times> string list)" where
  "key_columns db = ((map ur_id (db_users db), map ur_email (db_users db)),
     (map kr_id (db_api_keys db), map kr_key_hash (db_api_keys db), map kr_user_id (db_api_keys db)),
     (map ss_id (db_sessions db), map ss_session_hash (db_sessions db), map ss_user_id (db_sessions db)))"

lemma db_wf_columns:
  assumes "key_columns db' = key_columns db" and "db_usage db' = db_usage db"
  shows "db_wf db' = db_wf db"
  using assms by (simp add: db_wf_def key_columns_def flip: set_map)

lemma db_wf_apply: assumes "db_wf db" shows "db_wf (db_apply e op db)"
proof (cases op)
  case (OpUpdatePassword i p h)
  then show ?thesis using assms
    by (subst db_wf_columns [of _ db]) (auto simp: key_columns_def update_password_def)
next
  case (OpTouchLastLogin ts i)
  then show ?thesis using assms
    by (subst db_wf_columns [of _ db]) (auto simp: key_columns_def touch_last_login_def)
next
  case (OpUserByApiKey ts p)
  then show ?thesis using assms
    by (subst db_wf_columns [of _ db])
      (auto simp: key_columns_def get_user_by_api_key_def split: option.splits)
next
  case (OpGetSession ts p)
  then show ?thesis using assms
    by (subst db_wf_columns [of _ db])
      (auto simp: key_columns_def get_session_def split: option.splits)
next
  case (OpRevokeApiKey k)
  then show ?thesis using assms
    by (subst db_wf_columns [of _ db]) (auto simp: key_columns_def revoke_api_key_def)
next
  case (OpRecordUsage day i a b c)
  then show ?thesis using assms
    by (auto simp: db_wf_def user_record_usage_def user_row_None_iff dest!: record_usage_owners
        intro: user_row_SomeD)
qed (use assms in \<open>auto simp: db_wf_def user_op_defs Let_def distinct_map_filter_mono
    user_row_None_iff dest!: user_row_SomeD\<close>)

lemma db_reachable_wf: "db_reachable e db \<Longrightarrow> db_wf db"
proof (induction rule: db_reachable.induct)
  case db_init
  then show ?case by (simp add: db_wf_def db_empty_def)
qed (rule db_wf_apply)

subsection \<open>What later operations keep of a credential\<close>

definition db_run :: "UserEnv \<Rightarrow> db_op list \<Rightarrow> UserDb \<Rightarrow> UserDb" where
  "db_run e ops db = fold (db_apply e) ops db"

lemma db_run_wf: "db_wf db \<Longrightarrow> db_wf (db_run e ops db)"
  by (induction ops arbitrary: db) (simp_all add: db_run_def db_wf_apply)

lemma db_run_keeps:
  assumes "\<And>op db. op \<in> set ops \<Longrightarrow> P db \<Longrightarrow> P (db_apply e op db)" and "P db"
  shows "P (db_run e ops db)"
  using assms by (induction ops arbitrary: db) (simp_all add: db_run_def)

text \<open>A key row that is live, and the operations that end it.\<close>

definition key_alive :: "string \<Rightarrow> string \<Rightarrow> string \<Rightarrow> UserDb \<Rightarrow> bool" where
  "key_alive kid h u db \<longleftrightarrow> u \<in> ur_id ` set (db_users db)
     \<and> (\<exists>r \<in> set (db_api_keys db). kr_id r = kid \<and> kr_key_hash r = h \<and> kr_user_id r = u \<and> \<not> kr_revoked r)"

fun ends_key :: "string \<Rightarrow> string \<Rightarrow> db_op \<Rightarrow> bool" where
  "ends_key kid u (OpRevokeApiKey k) = (k = kid)"
| "ends_key kid u (OpDeleteApiKey k) = (k = kid)"
| "ends_key kid u (OpDeleteUser i) = (i = u)"
| "ends_key kid u _ = False"

definition key_dead :: "string \<Rightarrow> UserDb \<Rightarrow> bool" where
  "key_dead h db \<longleftrightarrow> (\<forall>r \<in> set (db_api_keys db). kr_key_hash r = h \<longrightarrow> kr_revoked r)"

fun issues_hash :: "(string \<Rightarrow> string) \<Rightarrow> string \<Rightarrow> db_op \<Rightarrow> bool" where
  "issues_hash sha h (OpCreateApiKey uuid ts now tok i name) = (sha (api_key_text tok) = h)"
| "issues_hash sha h _ = False"

fun creates_user :: "string \<Rightarrow> db_op \<Rightarrow> bool" where
  "creates_user i (OpCreateUser uuid ts now email name ph role) = (uuid = i)"
| "creates_user i _ = False"

lemma key_alive_columns:
  assumes "map (\<lambda>r. (kr_id r, kr_key_hash r, kr_user_id r, kr_revoked r)) (db_api_keys db')
     = map (\<lambda>r. (kr_id r, kr_key_hash r, kr_user_id r, kr_revoked r)) (db_api_keys db)"
    and "map ur_id (db_users db') = map ur_id (db_users db)"
  shows "key_alive kid h u db' = key_alive kid h u db"
proof -
  have "key_alive kid h u d \<longleftrightarrow> u \<in> set (map ur_id (db_users d)) \<and> (kid, h, u, False) \<in>
      set (map (\<lambda>r. (kr_id r, kr_key_hash r, kr_user_id r, kr_revoked r)) (db_api_keys d))" for d
    by (auto simp: key_alive_def image_iff)
  then show ?thesis using assms by (simp del: set_map)
qed

lemma key_alive_apply:
  assumes "\<not> ends_key kid u op" and "key_alive kid h u db"
  shows "key_alive kid h u (db_apply e op db)"
proof (cases op)
  case (OpUpdatePassword i p h')
  then show ?thesis using assms
    by (subst key_alive_columns [of _ db]) (auto simp: update_password_def)
next
  case (OpTouchLastLogin ts i)
  then show ?thesis using assms
    by (subst key_alive_columns [of _ db]) (auto simp: touch_last_login_def)
next
  case (OpUserByApiKey ts p)
  then show ?thesis using assms
    by (subst key_alive_columns [of _ db]) (auto simp: get_user_by_api_key_def split: option.splits)
next
  case (OpRevokeApiKey k)
  then show ?thesis using assms by (fastforce simp: key_alive_def revoke_api_key_def image_iff)
qed (use assms in \<open>auto simp: key_alive_def user_op_defs Let_def split: option.splits\<close>)

lemma key_dead_apply:
  assumes "\<not> issues_hash (ue_sha e) h op" and "key_dead h db"
  shows "key_dead h (db_apply e op db)"
  by (cases op) (use assms in \<open>auto simp: key_dead_def user_op_defs Let_def split: option.splits\<close>)

lemma user_absent_apply:
  assumes "\<not> creates_user i op" and "i \<notin> set (map ur_id (db_users db))"
  shows "i \<notin> set (map ur_id (db_users (db_apply e op db)))"
  by (cases op) (use assms in \<open>auto simp: user_op_defs Let_def image_iff split: option.splits\<close>)

lemma key_dead_no_user: "key_dead (sha p) db \<Longrightarrow> key_user sha rd ts p db = None"
  by (auto simp: keys.auth_None_iff key_dead_def)

lemma key_dead_revoke:
  assumes "db_wf db" and "r \<in> set (db_api_keys db)" and "kr_id r = kid" and "kr_key_hash r = h"
  shows "key_dead h (revoke_api_key kid db)"
  using assms by (auto simp: key_dead_def revoke_api_key_def db_wf_def distinct_map inj_on_def)

lemma key_alive_created:
  assumes "create_api_key sha uuid ts now tok u name db = (Inr (k, p), db')"
  shows "key_alive (k_id k) (sha p) u db'"
  using assms by (auto simp: create_api_key_def Let_def key_alive_def user_row_None_iff
      dest!: user_row_SomeD split: if_splits)

subsection \<open>Dates as texts\<close>

text \<open>Texts of one length compare first by the first difference: a longer common prefix decides nothing.\<close>

lemma list_less_append_same: "length d = length d' \<Longrightarrow>
    (d @ a < d' @ (b :: string)) \<longleftrightarrow> d < d' \<or> (d = d' \<and> a < b)"
proof (induction d d' rule: list_induct2)
  case Nil
  then show ?case by simp
next
  case (Cons x xs y ys)
  then show ?case by auto
qed

subsection \<open>Properties\<close>

text \<open>A concrete environment and a database with one user and one key.\<close>

definition demo_env :: UserEnv where
  "demo_env = \<lparr>ue_sha = rev, ue_rfc = (\<lambda>_. ''2026-01-02T09:00:00+00:00''),
     ue_rd = \<lparr>rd_dt = (\<lambda>_. 0), rd_json = (\<lambda>_. None)\<rparr>\<rparr>"

definition demo_user_op :: db_op where
  "demo_user_op = OpCreateUser ''u1'' ''2026-01-01 08:00:00'' 0 ''Ann@x.io'' ''Ann'' None UserRole"

definition demo_db :: UserDb where
  "demo_db = db_run demo_env [demo_user_op,
     OpCreateApiKey ''k1'' ''2026-01-01 08:00:00'' 0 ''ab12'' ''u1'' ''laptop''] db_empty"

lemma db_run_reachable: "db_reachable e db \<Longrightarrow> db_reachable e (db_run e ops db)"
  by (induction ops arbitrary: db) (simp_all add: db_run_def db_step)

lemma demo_reachable: "db_reachable demo_env demo_db"
  unfolding demo_db_def by (rule db_run_reachable [OF db_init])

lemmas demo_defs = demo_db_def demo_user_op_def demo_env_def db_run_def db_empty_def create_user_def
  create_api_key_def user_row_def api_key_text_def Let_def to_lowercase_def lower_char_def trim_def
  is_whitespace_def

text \<open>Every database the user store can reach satisfies the constraints of its schema: user ids
  and emails, key ids and hashes and session ids and hashes are unique, and every key, session
  and usage row belongs to an existing user.\<close>

theorem reachable_user_db:
  assumes "db_reachable e db"
  shows "db_wf db"
proof -
  show ?thesis using assms by (rule db_reachable_wf)
qed

theorem reachable_user_db_witness: "db_wf demo_db"
  by (rule reachable_user_db [OF demo_reachable])

text \<open>An issued API key authenticates its owner: whatever operations follow the creation, unless
  one of them revokes or deletes this key or deletes its owner, presenting the returned text is
  answered with the owner.\<close>

theorem issued_key_authenticates:
  assumes "db_reachable e db"
    and "create_api_key (ue_sha e) uuid ts now tok u name db = (Inr (k, p), db')"
    and "\<forall>op \<in> set ops. \<not> ends_key (k_id k) u op"
  shows "key_user (ue_sha e) rd ts' p (db_run e ops db') = Some u"
proof -
  let ?db = "db_run e ops db'"
  have "db' = db_apply e (OpCreateApiKey uuid ts now tok u name) db" using assms(2) by simp
  then have wf: "db_wf ?db"
    using db_wf_apply [OF db_reachable_wf [OF assms(1)]] by (simp only: db_run_wf)
  have "key_alive (k_id k) (ue_sha e p) u ?db"
    using key_alive_created [OF assms(2)] assms(3) key_alive_apply
    by (intro db_run_keeps [where P = "key_alive (k_id k) (ue_sha e p) u"]) blast+
  then obtain r where r: "r \<in> set (db_api_keys ?db)" "kr_key_hash r = ue_sha e p"
      "kr_user_id r = u" "\<not> kr_revoked r" and "user_row ?db (kr_user_id r) \<noteq> None"
    unfolding key_alive_def user_row_None_iff by blast
  moreover have "distinct (map kr_key_hash (db_api_keys ?db))" using wf by (simp add: db_wf_def)
  ultimately show ?thesis using keys.auth_unique r(3) by blast
qed

theorem issued_key_authenticates_witness:
  "key_user rev (ue_rd demo_env) ''2026-01-01 08:00:00'' ''tk-ab12''
     (db_run demo_env [OpTouchLastLogin ''t'' ''u1'', OpRevokeApiKey ''k2''] demo_db) = Some ''u1''"
proof -
  let ?db = "db_apply demo_env demo_user_op db_empty"
  have r: "db_reachable demo_env ?db" by (intro db_step db_init)
  have c: "create_api_key (ue_sha demo_env) ''k1'' ''2026-01-01 08:00:00'' 0 ''ab12'' ''u1'' ''laptop'' ?db =
      (Inr (\<lparr>k_id = ''k1'', k_user_id = ''u1'', k_key_hash = rev ''tk-ab12'', k_key_prefix = ''tk-ab12'',
         k_name = ''laptop'', k_last_used_at = None, k_expires_at = None, k_created_at = 0,
         k_revoked = False\<rparr>, ''tk-ab12''), demo_db)"
    by (simp add: demo_defs)
  show ?thesis using issued_key_authenticates [OF r c, where ops = "[OpTouchLastLogin ''t'' ''u1'', OpRevokeApiKey ''k2'']"]
    by (simp add: demo_env_def)
qed

lemma revoked_key_dead:
  assumes "db_reachable e db" and "r \<in> set (db_api_keys db)" and "kr_key_hash r = ue_sha e p"
    and "\<forall>op \<in> set ops. \<not> issues_hash (ue_sha e) (ue_sha e p) op"
  shows "key_user (ue_sha e) rd ts p (db_run e ops (revoke_api_key (kr_id r) db)) = None"
proof -
  have "key_dead (ue_sha e p) (revoke_api_key (kr_id r) db)"
    using key_dead_revoke [OF db_reachable_wf [OF assms(1)] assms(2)] assms(3) by simp
  then have "key_dead (ue_sha e p) (db_run e ops (revoke_api_key (kr_id r) db))"
    using assms(4) key_dead_apply
    by (intro db_run_keeps [where P = "key_dead (ue_sha e p)"]) blast+
  then show ?thesis by (rule key_dead_no_user)
qed

text \<open>A revoked key is dead for good: after its revocation no sequence of operations makes its
  text authenticate anybody again, unless a fresh key is issued with the very same hash.\<close>

theorem revoked_key_stays_dead:
  assumes "db_reachable e db" and "r \<in> set (db_api_keys db)" and "kr_key_hash r = ue_sha e p"
    and "\<forall>op \<in> set ops. \<not> issues_hash (ue_sha e) (ue_sha e p) op"
  shows "key_user (ue_sha e) rd ts p (db_run e ops (revoke_api_key (kr_id r) db)) = None"
  using assms by (rule revoked_key_dead)

theorem revoked_key_stays_dead_witness:
  "key_user rev (ue_rd demo_env) ''t'' ''tk-ab12'' (db_run demo_env
     [OpCreateApiKey ''k2'' ''t'' 0 ''ab13'' ''u1'' ''new''] (revoke_api_key ''k1'' demo_db)) = None"
proof -
  let ?r = "\<lparr>kr_id = ''k1'', kr_user_id = ''u1'', kr_key_hash = rev ''tk-ab12'',
     kr_key_prefix = ''tk-ab12'', kr_name = ''laptop'', kr_last_used_at = None,
     kr_expires_at = None, kr_created_at = ''2026-01-01 08:00:00'', kr_revoked = False\<rparr>"
  have m: "?r \<in> set (db_api_keys demo_db)" by (simp add: demo_defs)
  have "key_user (ue_sha demo_env) (ue_rd demo_env) ''t'' ''tk-ab12'' (db_run demo_env
     [OpCreateApiKey ''k2'' ''t'' 0 ''ab13'' ''u1'' ''new''] (revoke_api_key (kr_id ?r) demo_db)) = None"
    by (rule revoked_key_stays_dead [OF demo_reachable m]) (simp_all add: demo_env_def api_key_text_def)
  then show ?thesis by (simp add: demo_env_def)
qed

text \<open>Deleting a user ends every credential: afterwards no API key and no session authenticates as
  that user, whatever operations follow, unless a user is created with the same id.\<close>

theorem deleted_user_locked_out:
  assumes "\<forall>op \<in> set ops. \<not> creates_user u op"
  shows "key_user (ue_sha e) rd ts p (db_run e ops (delete_user u db)) \<noteq> Some u
     \<and> session_user (ue_sha e) rd ts p (db_run e ops (delete_user u db)) \<noteq> Some u"
proof -
  let ?db = "db_run e ops (delete_user u db)"
  have "u \<notin> set (map ur_id (db_users (delete_user u db)))" by (auto simp: delete_user_def)
  then have "u \<notin> set (map ur_id (db_users ?db))"
    using assms user_absent_apply
    by (intro db_run_keeps [where P = "\<lambda>d. u \<notin> set (map ur_id (db_users d))"]) blast+
  then have "user_row ?db u = None" by (simp add: user_row_None_iff)
  then show ?thesis using keys.auth_SomeD(1) sessions.auth_SomeD(1) by blast
qed

theorem deleted_user_locked_out_witness:
  "key_user (ue_sha demo_env) (ue_rd demo_env) ''t'' ''tk-ab12''
       (db_run demo_env [OpDeleteApiKey ''k1''] (delete_user ''u1'' demo_db)) \<noteq> Some ''u1''
     \<and> session_user (ue_sha demo_env) (ue_rd demo_env) ''t'' ''tk-ab12''
       (db_run demo_env [OpDeleteApiKey ''k1''] (delete_user ''u1'' demo_db)) \<noteq> Some ''u1''"
  by (rule deleted_user_locked_out) simp

text \<open>Sessions end at the end of a day: \<open>CURRENT_TIMESTAMP\<close> writes a space and RFC 3339 a \<open>T\<close>
  between date and time, so the comparison of texts accepts a session on the whole of the day of
  its expiry, whatever the times, accepts it on every earlier day and refuses it on later days.\<close>

theorem session_ends_with_its_day:
  assumes "length day = length today" and "ss_expires_at r = day @ ''T'' @ time"
    and "db_sessions db = [r]" and "ss_session_hash r = sha p" and "user_row db (ss_user_id r) \<noteq> None"
  shows "session_user sha rd (today @ '' '' @ clock) p db =
     (if today \<le> day then Some (ss_user_id r) else None)"
proof -
  have "(today @ '' '' @ clock) < (day @ ''T'' @ time) \<longleftrightarrow> today \<le> day"
    using assms(1) by (subst list_less_append_same) (auto simp: less_le less_char_def)
  then show ?thesis using assms by (simp add: session_user_find)
qed

theorem session_ends_with_its_day_witness:
  "session_user rev (ue_rd demo_env) (''2026-01-02'' @ '' '' @ ''23:59:59'') ''tok''
     (db_apply demo_env (OpCreateSession ''s1'' ''t'' 0 ''tok'' ''u1'' None None 720) demo_db) = Some ''u1''"
proof -
  let ?r = "\<lparr>ss_id = ''s1'', ss_user_id = ''u1'', ss_session_hash = ''kot'',
        ss_user_agent = None, ss_ip = None, ss_created_at = ''t'',
        ss_expires_at = ''2026-01-02'' @ ''T'' @ ''09:00:00+00:00'', ss_last_seen_at = ''t''\<rparr>"
  let ?db = "db_apply demo_env (OpCreateSession ''s1'' ''t'' 0 ''tok'' ''u1'' None None 720) demo_db"
  have "session_user rev (ue_rd demo_env) (''2026-01-02'' @ '' '' @ ''23:59:59'') ''tok'' ?db =
     (if ''2026-01-02'' \<le> ''2026-01-02'' then Some (ss_user_id ?r) else None)"
    by (rule session_ends_with_its_day) (simp_all add: create_session_def demo_defs)
  then show ?thesis by simp
qed

end
