(* ===== verification/AuthMw.thy ===== *)
theory AuthMw
  imports Users Errors
begin

section \<open>The authentication middleware\<close>

text \<open>
  \<open>src/server/auth.rs\<close>: who a request is from, and whether it reaches its handler. The SQL side is
  the user store of theory Users. The header reader of the HTTP library (\<open>to_str\<close>), the base64
  decoder with the UTF-8 check, the process environment and the clock text are fields of \<open>AuthEnv\<close>.
\<close>

record UserContext =
  uc_user_id :: string
  uc_email :: string
  uc_name :: string
  uc_role :: AuthRole
  uc_via :: string
  uc_key_prefix :: "string option"
  uc_session_id :: "string option"

definition is_admin :: "UserContext \<Rightarrow> bool" where
  "is_admin c \<longleftrightarrow> uc_role c = AdminRole"

record HttpRequest =
  rq_method :: string
  rq_path :: string
  rq_authorization :: "string option"
  rq_cookie :: "string option"
  rq_accept :: "string option"

record HttpResponse =
  hr_status :: u16
  hr_headers :: "(string \<times> string) list"
  hr_body :: "json option"

record AuthEnv =
  ae_to_str :: "string \<Rightarrow> string option"
  ae_base64 :: "string \<Rightarrow> string option"
  ae_var :: "string \<Rightarrow> string option"
  ae_sha :: "string \<Rightarrow> string"
  ae_rd :: Reader
  ae_ts :: string

text \<open>What \<open>next.run(req)\<close> gets, or the response that is returned instead.\<close>

datatype MwOutcome = Run UserContext | Respond HttpResponse

definition SESSION_COOKIE :: string where
  "SESSION_COOKIE = ''td_session''"

definition SESSION_TTL_HOURS :: nat where
  "SESSION_TTL_HOURS = 24 * 30"

definition create_session_cookie ::
  "(string \<Rightarrow> string) \<Rightarrow> (DateTime \<Rightarrow> string) \<Rightarrow> string \<Rightarrow> string \<Rightarrow> DateTime \<Rightarrow> string \<Rightarrow> string
     \<Rightarrow> string option \<Rightarrow> string option \<Rightarrow> UserDb \<Rightarrow> (string + string) \<times> UserDb" where
  "create_session_cookie sha rfc uuid ts now token user_id user_agent ip db =
     (case create_session sha rfc uuid ts now token user_id user_agent ip SESSION_TTL_HOURS db of
        (Inl e, db') \<Rightarrow> (Inl e, db')
      | (Inr (_, plaintext), db') \<Rightarrow> (Inr plaintext, db'))"

subsection \<open>Comparing and collecting keys\<close>

fun or_diffs :: "u8 \<Rightarrow> (u8 \<times> u8) list \<Rightarrow> u8" where
  "or_diffs diff [] = diff"
| "or_diffs diff ((x, y) # ps) = or_diffs (or diff (xor x y)) ps"

definition utf8_bytes :: "string \<Rightarrow> u8 list" where
  "utf8_bytes s = map (\<lambda>c. of_nat (of_char c)) s"

definition constant_time_eq :: "u8 list \<Rightarrow> u8 list \<Rightarrow> bool" where
  "constant_time_eq a b \<longleftrightarrow> length a = length b \<and> or_diffs 0 (zip a b) = 0"

definition keys_from_config :: "(string \<Rightarrow> string option) \<Rightarrow> AuthConfig \<Rightarrow> string list" where
  "keys_from_config env cfg =
     (case au_admin_key cfg of Some k \<Rightarrow> if k \<noteq> [] then [k] else [] | None \<Rightarrow> [])
     @ map ak_key (filter (\<lambda>k. ak_key k \<noteq> []) (au_keys cfg))
     @ (case env ''ROUTER_MASTER_KEY'' of Some e \<Rightarrow> if e \<noteq> [] then [e] else [] | None \<Rightarrow> [])"

definition check_keys :: "string list \<Rightarrow> string \<Rightarrow> bool" where
  "check_keys ks presented \<longleftrightarrow> presented \<noteq> []
     \<and> (\<exists>k \<in> set ks. constant_time_eq (utf8_bytes k) (utf8_bytes presented))"

subsection \<open>Reading the request\<close>

definition is_public_path :: "string \<Rightarrow> bool" where
  "is_public_path path \<longleftrightarrow> path \<in> {''/health'', ''/v1/health'', ''/ui/style.css'', ''/v1/stats'',
     ''/ui/login'', ''/ui/login.html'', ''/ui/setup'', ''/v1/provider-types'',
     ''/admin/oauth/callback'', ''/admin/healthz''}"

definition basic_password :: "AuthEnv \<Rightarrow> string \<Rightarrow> string option" where
  "basic_password e s = (case strip_prefix ''Basic '' s of
      None \<Rightarrow> None
    | Some rest \<Rightarrow> (case ae_base64 e (trim rest) of
        None \<Rightarrow> None
      | Some decoded \<Rightarrow> map_option snd (split_once (CHR '':'') decoded)))"

definition extract_token :: "AuthEnv \<Rightarrow> HttpRequest \<Rightarrow> string" where
  "extract_token e rq = (case rq_authorization rq of
      None \<Rightarrow> []
    | Some h \<Rightarrow> (case ae_to_str e h of
        None \<Rightarrow> []
      | Some s \<Rightarrow> (case strip_prefix ''Bearer '' s of
          Some rest \<Rightarrow> trim rest
        | None \<Rightarrow> (case basic_password e s of Some p \<Rightarrow> p | None \<Rightarrow> s))))"

definition parse_cookies :: "string \<Rightarrow> (string \<times> string) list" where
  "parse_cookies h = List.map_filter (\<lambda>s. let s = trim s in
      if s = [] then None else split_once (CHR ''='') s) (split_on (CHR '';'') h)"

subsection \<open>Refusals\<close>

definition unauthorized :: "string \<Rightarrow> HttpResponse" where
  "unauthorized msg = \<lparr>hr_status = 401,
     hr_headers = [(''www-authenticate'', ''Basic realm=\"token-dealer\", charset=\"UTF-8\"'')],
     hr_body = Some (Object [(''error'', Object [(''message'', String msg),
       (''type'', String ''invalid_request_error''), (''code'', Number (PosInt 401))])])\<rparr>"

definition hex_upper :: "nat \<Rightarrow> char" where
  "hex_upper n = (if n < 10 then char_of (48 + n) else char_of (55 + n))"

definition is_alnum :: "char \<Rightarrow> bool" where
  "is_alnum c \<longleftrightarrow> (let n = (of_char c :: nat) in
     (65 \<le> n \<and> n \<le> 90) \<or> (97 \<le> n \<and> n \<le> 122) \<or> (48 \<le> n \<and> n \<le> 57))"

definition url_safe :: "char \<Rightarrow> bool" where
  "url_safe c \<longleftrightarrow> is_alnum c \<or> c \<in> set ''-_.~/?=&''"

definition url_byte :: "char \<Rightarrow> string" where
  "url_byte c = (if url_safe c then [c]
     else [CHR ''%'', hex_upper (of_char c div 16), hex_upper (of_char c mod 16)])"

definition urlencoding_minimal :: "string \<Rightarrow> string" where
  "urlencoding_minimal s = concat (map url_byte s)"

definition ui_or_admin_unauthorized :: "AuthEnv \<Rightarrow> HttpRequest \<Rightarrow> string \<Rightarrow> HttpResponse" where
  "ui_or_admin_unauthorized e rq path =
     (let wants_json = (case rq_accept rq of None \<Rightarrow> False
        | Some h \<Rightarrow> (case ae_to_str e h of None \<Rightarrow> False | Some s \<Rightarrow> contains s ''application/json'')) in
      if wants_json then unauthorized ''invalid or missing credentials''
      else \<lparr>hr_status = 303,
             hr_headers = [(''location'', ''/ui/login?next='' @ urlencoding_minimal path)],
             hr_body = None\<rparr>)"

subsection \<open>The middleware\<close>

definition legacy_ctx :: UserContext where
  "legacy_ctx = \<lparr>uc_user_id = ''legacy'', uc_email = ''legacy@admin'', uc_name = ''Legacy admin'',
     uc_role = AdminRole, uc_via = ''legacy_key'', uc_key_prefix = None, uc_session_id = None\<rparr>"

definition env_admin_ctx :: UserContext where
  "env_admin_ctx = \<lparr>uc_user_id = ''env-admin'', uc_email = ''admin@env'', uc_name = ''Env admin'',
     uc_role = AdminRole, uc_via = ''env_password'', uc_key_prefix = None, uc_session_id = None\<rparr>"

definition anonymous_ctx :: "string \<Rightarrow> UserContext" where
  "anonymous_ctx via = \<lparr>uc_user_id = ''anonymous'', uc_email = ''anonymous@local'',
     uc_name = ''Anonymous'', uc_role = UserRole, uc_via = via, uc_key_prefix = None,
     uc_session_id = None\<rparr>"

text \<open>A \<open>tk-\<close> key of the user store.\<close>

definition try_api_key :: "AuthEnv \<Rightarrow> string \<Rightarrow> UserDb \<Rightarrow> UserContext option \<times> UserDb" where
  "try_api_key e presented db =
     (if presented = [] \<or> \<not> starts_with presented ''tk-'' then (None, db)
      else (case get_user_by_api_key (ae_sha e) (ae_rd e) (ae_ts e) presented db of
          (None, db') \<Rightarrow> (None, db')
        | (Some (user, key), db') \<Rightarrow> (Some \<lparr>uc_user_id = u_id user, uc_email = u_email user,
            uc_name = u_name user, uc_role = u_role user, uc_via = ''api_key'',
            uc_key_prefix = Some (k_key_prefix key), uc_session_id = None\<rparr>, db')))"

text \<open>The keys of the configuration file and the password of the environment.\<close>

definition try_legacy :: "AuthEnv \<Rightarrow> AuthConfig \<Rightarrow> string \<Rightarrow> UserContext option" where
  "try_legacy e cfg presented =
     (if presented = [] then None
      else if au_enabled cfg \<and> keys_from_config (ae_var e) cfg \<noteq> []
              \<and> check_keys (keys_from_config (ae_var e) cfg) presented then Some legacy_ctx
      else (case ae_var e ''TOKEN_DEALER_ADMIN_PASSWORD'' of
          None \<Rightarrow> None
        | Some pw \<Rightarrow> if pw \<noteq> [] \<and> constant_time_eq (utf8_bytes presented) (utf8_bytes pw)
                     then Some env_admin_ctx else None))"

text \<open>The first session cookie that names a live session.\<close>

fun try_cookies :: "AuthEnv \<Rightarrow> (string \<times> string) list \<Rightarrow> UserDb \<Rightarrow> UserContext option \<times> UserDb" where
  "try_cookies e [] db = (None, db)"
| "try_cookies e ((k, v) # cs) db =
     (if k = SESSION_COOKIE
      then (case get_session (ae_sha e) (ae_rd e) (ae_ts e) v db of
          (Some (session, user), db') \<Rightarrow> (Some \<lparr>uc_user_id = u_id user, uc_email = u_email user,
            uc_name = u_name user, uc_role = u_role user, uc_via = ''session'',
            uc_key_prefix = None, uc_session_id = Some (s_id session)\<rparr>, db')
        | (None, db') \<Rightarrow> try_cookies e cs db')
      else try_cookies e cs db)"

definition request_cookies :: "AuthEnv \<Rightarrow> HttpRequest \<Rightarrow> (string \<times> string) list" where
  "request_cookies e rq = (case rq_cookie rq of
      None \<Rightarrow> []
    | Some h \<Rightarrow> (case ae_to_str e h of None \<Rightarrow> [] | Some s \<Rightarrow> parse_cookies s))"

text \<open>What happens without a credential.\<close>

definition anonymous_outcome :: "AuthEnv \<Rightarrow> AuthConfig \<Rightarrow> HttpRequest \<Rightarrow> MwOutcome" where
  "anonymous_outcome e cfg rq = (let path = rq_path rq in
     if \<not> au_enabled cfg then Run (anonymous_ctx ''auth_disabled'')
     else if is_public_path path then Run (anonymous_ctx ''public'')
     else if starts_with path ''/v1/'' \<and> rq_method rq \<noteq> ''OPTIONS''
     then Respond (unauthorized ''invalid or missing API key'')
     else if starts_with path ''/ui/'' \<or> starts_with path ''/admin/''
     then Respond (ui_or_admin_unauthorized e rq path)
     else Run (anonymous_ctx ''anonymous''))"

definition auth_middleware ::
  "AuthEnv \<Rightarrow> AuthConfig \<Rightarrow> HttpRequest \<Rightarrow> UserDb \<Rightarrow> MwOutcome \<times> UserDb" where
  "auth_middleware e cfg rq db =
     (let presented = extract_token e rq in
      case try_api_key e presented db of
        (Some ctx, db1) \<Rightarrow> (Run ctx, db1)
      | (None, db1) \<Rightarrow>
          (case try_legacy e cfg presented of
             Some ctx \<Rightarrow> (Run ctx, db1)
           | None \<Rightarrow>
               (case try_cookies e (request_cookies e rq) db1 of
                  (Some ctx, db2) \<Rightarrow> (Run ctx, db2)
                | (None, db2) \<Rightarrow> (anonymous_outcome e cfg rq, db2))))"

subsection \<open>Comparison of keys\<close>

lemma xor_zero_iff: "xor x y = 0 \<longleftrightarrow> x = (y :: u8)"
proof
  assume "xor x y = 0"
  moreover have "xor (xor x y) y = x" by (simp add: xor.assoc)
  ultimately show "x = y" by simp
qed simp

lemma or_diffs_zero_iff: "or_diffs d ps = 0 \<longleftrightarrow> d = 0 \<and> (\<forall>(x, y) \<in> set ps. x = y)"
proof (induction d ps rule: or_diffs.induct)
  case (2 d x y ps)
  have "or d (xor x y) = 0 \<longleftrightarrow> d = 0 \<and> x = y"
    by (simp add: or_eq_0_iff xor_zero_iff)
  with 2 show ?case by auto
qed simp

lemma constant_time_eq_iff [simp]: "constant_time_eq a b \<longleftrightarrow> a = b"
proof -
  have "(\<forall>(x, y) \<in> set (zip a b). x = y) \<longleftrightarrow> a = b" if "length a = length b"
    using that by (induction a b rule: list_induct2) auto
  then show ?thesis by (auto simp: constant_time_eq_def or_diffs_zero_iff)
qed

lemma byte_inj: "(of_nat (of_char c) :: u8) = of_nat (of_char d) \<Longrightarrow> c = d"
proof -
  assume "(of_nat (of_char c) :: u8) = of_nat (of_char d)"
  then have "(of_char c :: nat) mod 256 = of_char d mod 256"
    by (simp add: word_of_nat_eq_iff take_bit_eq_mod)
  then show "c = d" by simp
qed

lemma utf8_bytes_inj [simp]: "utf8_bytes s = utf8_bytes t \<longleftrightarrow> s = t"
  unfolding utf8_bytes_def by (rule inj_map_eq_map) (auto intro: injI dest: byte_inj)

lemma check_keys_iff: "check_keys ks p \<longleftrightarrow> p \<noteq> [] \<and> p \<in> set ks"
  by (auto simp: check_keys_def)

subsection \<open>What each stage accepts\<close>

lemma find_SomeD: "find P xs = Some x \<Longrightarrow> P x"
  by (auto simp: find_Some_iff)

lemma get_user_by_api_key_None:
  "fst (get_user_by_api_key sha rd ts p db) = None \<Longrightarrow> snd (get_user_by_api_key sha rd ts p db) = db"
  by (cases "find (key_match sha p db) (db_api_keys db)")
    (auto simp: get_user_by_api_key_def key_match_def dest: find_SomeD)

lemma get_session_None:
  "fst (get_session sha rd ts p db) = None \<Longrightarrow> snd (get_session sha rd ts p db) = db"
  by (cases "find (session_match sha ts p db) (db_sessions db)")
    (auto simp: get_session_def session_match_def dest: find_SomeD)

lemma try_api_key_cases:
  "(\<exists>ctx db'. try_api_key e p db = (Some ctx, db') \<and> uc_via ctx = ''api_key'' \<and> starts_with p ''tk-''
      \<and> key_user (ae_sha e) (ae_rd e) (ae_ts e) p db = Some (uc_user_id ctx))
   \<or> (try_api_key e p db = (None, db)
      \<and> (starts_with p ''tk-'' \<longrightarrow> key_user (ae_sha e) (ae_rd e) (ae_ts e) p db = None))"
proof (cases "p = [] \<or> \<not> starts_with p ''tk-''")
  case True
  then show ?thesis by (auto simp: try_api_key_def)
next
  case False
  show ?thesis
  proof (cases "get_user_by_api_key (ae_sha e) (ae_rd e) (ae_ts e) p db")
    case (Pair r db')
    then show ?thesis using False get_user_by_api_key_None [of "ae_sha e" "ae_rd e" "ae_ts e" p db]
      by (cases r) (auto simp: try_api_key_def key_user_def)
  qed
qed

lemma try_legacy_Some_iff:
  "try_legacy e cfg p = Some ctx \<longleftrightarrow> p \<noteq> [] \<and>
     (if au_enabled cfg \<and> p \<in> set (keys_from_config (ae_var e) cfg) then ctx = legacy_ctx
      else ctx = env_admin_ctx \<and> ae_var e ''TOKEN_DEALER_ADMIN_PASSWORD'' = Some p)"
  by (auto simp: try_legacy_def check_keys_iff split: option.splits)

lemma try_legacy_None_iff:
  "try_legacy e cfg p = None \<longleftrightarrow> p = [] \<or>
     (\<not> (au_enabled cfg \<and> p \<in> set (keys_from_config (ae_var e) cfg))
      \<and> ae_var e ''TOKEN_DEALER_ADMIN_PASSWORD'' \<noteq> Some p)"
  by (auto simp: try_legacy_def check_keys_iff split: option.splits)

lemma try_cookies_cases:
  "(\<exists>ctx db'. try_cookies e cs db = (Some ctx, db') \<and> uc_via ctx = ''session''
      \<and> (\<exists>v. (SESSION_COOKIE, v) \<in> set cs
           \<and> session_user (ae_sha e) (ae_rd e) (ae_ts e) v db = Some (uc_user_id ctx)))
   \<or> (try_cookies e cs db = (None, db)
      \<and> (\<forall>v. (SESSION_COOKIE, v) \<in> set cs \<longrightarrow> session_user (ae_sha e) (ae_rd e) (ae_ts e) v db = None))"
proof (induction cs)
  case Nil
  then show ?case by simp
next
  case (Cons kv cs)
  obtain k v where kv: "kv = (k, v)" by (cases kv)
  obtain r db' where g: "get_session (ae_sha e) (ae_rd e) (ae_ts e) v db = (r, db')"
    by (cases "get_session (ae_sha e) (ae_rd e) (ae_ts e) v db")
  show ?case
  proof (cases r)
    case None
    with g have "db' = db" "session_user (ae_sha e) (ae_rd e) (ae_ts e) v db = None"
      using get_session_None [of "ae_sha e" "ae_rd e" "ae_ts e" v db] by (auto simp: session_user_def)
    then show ?thesis using Cons None g by (auto simp: kv)
  next
    case (Some su)
    obtain s u where "su = (s, u)" by (cases su)
    then have "session_user (ae_sha e) (ae_rd e) (ae_ts e) v db = Some (u_id u)"
      using g Some by (simp add: session_user_def)
    then show ?thesis using Cons Some g \<open>su = (s, u)\<close> by (auto simp: kv)
  qed
qed

text \<open>The credentials that the middleware accepts.\<close>

definition valid_credential :: "AuthEnv \<Rightarrow> AuthConfig \<Rightarrow> HttpRequest \<Rightarrow> UserDb \<Rightarrow> UserContext \<Rightarrow> bool" where
  "valid_credential e cfg rq db ctx \<longleftrightarrow> (let p = extract_token e rq in
     (uc_via ctx = ''api_key'' \<and> starts_with p ''tk-''
        \<and> key_user (ae_sha e) (ae_rd e) (ae_ts e) p db = Some (uc_user_id ctx))
     \<or> (ctx = legacy_ctx \<and> au_enabled cfg \<and> p \<noteq> [] \<and> p \<in> set (keys_from_config (ae_var e) cfg))
     \<or> (ctx = env_admin_ctx \<and> p \<noteq> [] \<and> ae_var e ''TOKEN_DEALER_ADMIN_PASSWORD'' = Some p)
     \<or> (uc_via ctx = ''session'' \<and> (\<exists>v. (SESSION_COOKIE, v) \<in> set (request_cookies e rq)
          \<and> session_user (ae_sha e) (ae_rd e) (ae_ts e) v db = Some (uc_user_id ctx))))"

lemma auth_middleware_cases:
  "(\<exists>ctx. fst (auth_middleware e cfg rq db) = Run ctx \<and> valid_credential e cfg rq db ctx)
   \<or> (fst (auth_middleware e cfg rq db) = anonymous_outcome e cfg rq
      \<and> \<not> (\<exists>ctx. valid_credential e cfg rq db ctx))"
proof -
  let ?p = "extract_token e rq"
  show ?thesis
  proof (cases "fst (try_api_key e ?p db)")
    case (Some ctx)
    then show ?thesis using try_api_key_cases [of e ?p db]
      by (auto simp: auth_middleware_def valid_credential_def Let_def split: prod.split)
  next
    case None
    then have a: "try_api_key e ?p db = (None, db)"
        "starts_with ?p ''tk-'' \<longrightarrow> key_user (ae_sha e) (ae_rd e) (ae_ts e) ?p db = None"
      using try_api_key_cases [of e ?p db] by auto
    show ?thesis
    proof (cases "try_legacy e cfg ?p")
      case (Some ctx)
      then have "fst (auth_middleware e cfg rq db) = Run ctx" using a by (simp add: auth_middleware_def)
      moreover have "valid_credential e cfg rq db ctx"
        using Some unfolding try_legacy_Some_iff valid_credential_def Let_def
        by (cases "au_enabled cfg \<and> ?p \<in> set (keys_from_config (ae_var e) cfg)") simp_all
      ultimately show ?thesis by blast
    next
      case None
      then have l: "?p = [] \<or> (\<not> (au_enabled cfg \<and> ?p \<in> set (keys_from_config (ae_var e) cfg))
          \<and> ae_var e ''TOKEN_DEALER_ADMIN_PASSWORD'' \<noteq> Some ?p)"
        by (simp only: try_legacy_None_iff)
      have m: "auth_middleware e cfg rq db = (case try_cookies e (request_cookies e rq) db of
          (Some ctx, db2) \<Rightarrow> (Run ctx, db2) | (None, db2) \<Rightarrow> (anonymous_outcome e cfg rq, db2))"
        using a(1) None by (simp add: auth_middleware_def Let_def)
      from try_cookies_cases [of e "request_cookies e rq" db] show ?thesis
      proof (elim disjE exE conjE)
        fix ctx db' v
        assume "try_cookies e (request_cookies e rq) db = (Some ctx, db')" "uc_via ctx = ''session''"
          "(SESSION_COOKIE, v) \<in> set (request_cookies e rq)"
          "session_user (ae_sha e) (ae_rd e) (ae_ts e) v db = Some (uc_user_id ctx)"
        then have "fst (auth_middleware e cfg rq db) = Run ctx" "valid_credential e cfg rq db ctx"
          unfolding m valid_credential_def Let_def by (simp, blast)
        then show ?thesis by blast
      next
        assume c: "try_cookies e (request_cookies e rq) db = (None, db)"
          "\<forall>v. (SESSION_COOKIE, v) \<in> set (request_cookies e rq) \<longrightarrow>
             session_user (ae_sha e) (ae_rd e) (ae_ts e) v db = None"
        then have "fst (auth_middleware e cfg rq db) = anonymous_outcome e cfg rq"
          unfolding m by simp
        moreover have "\<not> valid_credential e cfg rq db ctx" for ctx
          unfolding valid_credential_def Let_def using a(2) l c(2) by force
        ultimately show ?thesis by blast
      qed
    qed
  qed
qed

subsection \<open>The redirect target\<close>

definition hex_val :: "char \<Rightarrow> nat" where
  "hex_val c = (let n = (of_char c :: nat) in if n < 65 then n - 48 else n - 55)"

text \<open>A percent decoder, the reader of the login page's \<open>next\<close> parameter.\<close>

fun pct_decode :: "string \<Rightarrow> string" where
  "pct_decode [] = []"
| "pct_decode [c] = [c]"
| "pct_decode [c, d] = [c, d]"
| "pct_decode (c # h # l # cs) =
     (if c = CHR ''%'' then char_of (16 * hex_val h + hex_val l) # pct_decode cs
      else c # pct_decode (h # l # cs))"

lemma hex_val_upper [simp]: "n < 16 \<Longrightarrow> hex_val (hex_upper n) = n"
  by (simp add: hex_val_def hex_upper_def Let_def)

lemma is_alnum_hex_upper: "n < 16 \<Longrightarrow> is_alnum (hex_upper n)"
  by (simp add: is_alnum_def hex_upper_def Let_def)

lemma pct_decode_safe: "c \<noteq> CHR ''%'' \<Longrightarrow> pct_decode (c # cs) = c # pct_decode cs"
  by (cases cs; cases "tl cs") auto

lemma pct_not_safe: "\<not> url_safe (CHR ''%'')"
  by (simp add: url_safe_def is_alnum_def)

lemma pct_decode_url_byte: "pct_decode (url_byte c @ s) = c # pct_decode s"
proof (cases "url_safe c")
  case True
  then have "c \<noteq> CHR ''%''" using pct_not_safe by blast
  with True show ?thesis by (simp add: url_byte_def pct_decode_safe)
next
  case False
  have "(of_char c :: nat) div 16 < 16" by (intro less_mult_imp_div_less) simp
  then have "char_of (16 * hex_val (hex_upper (of_char c div 16)) + hex_val (hex_upper (of_char c mod 16))) = c"
    by simp
  with False show ?thesis by (simp add: url_byte_def)
qed

lemma url_byte_chars: "set (url_byte c) \<subseteq> insert (CHR ''%'') {d. url_safe d}"
proof -
  have "(of_char c :: nat) div 16 < 16" by (intro less_mult_imp_div_less) simp
  then show ?thesis by (auto simp: url_byte_def url_safe_def is_alnum_hex_upper)
qed

interpretation percent: text_codec url_byte pct_decode "\<lambda>c. c = CHR ''%'' \<or> url_safe c"
  by unfold_locales (use url_byte_chars in \<open>auto simp: pct_decode_url_byte\<close>)

subsection \<open>Properties\<close>

text \<open>The paths that need a credential when authentication is on.\<close>

definition guarded :: "HttpRequest \<Rightarrow> bool" where
  "guarded rq \<longleftrightarrow> (let p = rq_path rq in \<not> is_public_path p
     \<and> (starts_with p ''/v1/'' \<and> rq_method rq \<noteq> ''OPTIONS''
        \<or> starts_with p ''/ui/'' \<or> starts_with p ''/admin/''))"

lemma anonymous_guarded:
  "au_enabled cfg \<Longrightarrow> guarded rq \<Longrightarrow> \<exists>resp. anonymous_outcome e cfg rq = Respond resp"
  by (auto simp: guarded_def anonymous_outcome_def Let_def)

definition demo_auth :: AuthEnv where
  "demo_auth = \<lparr>ae_to_str = Some, ae_base64 = (\<lambda>_. None), ae_var = (\<lambda>_. None), ae_sha = rev,
     ae_rd = ue_rd demo_env, ae_ts = ''2026-01-01 10:00:00''\<rparr>"

definition demo_chat :: "string \<Rightarrow> HttpRequest" where
  "demo_chat authz = \<lparr>rq_method = ''POST'', rq_path = ''/v1/chat/completions'',
     rq_authorization = Some authz, rq_cookie = None, rq_accept = None\<rparr>"

lemma demo_chat_guarded: "guarded (demo_chat h)"
  by (simp add: guarded_def demo_chat_def is_public_path_def Let_def)

lemmas demo_auth_defs = auth_middleware_def try_api_key_def try_legacy_def extract_token_def
  demo_chat_def demo_auth_def strip_prefix_def request_cookies_def keys_from_config_def auth_default_def
  get_user_by_api_key_def key_match_def row_to_user_def row_to_api_key_def role_parse_def
  basic_password_def

lemma try_api_key_None: "fst (try_api_key e p db) = None \<Longrightarrow> snd (try_api_key e p db) = db"
  using try_api_key_cases [of e p db] by auto

lemma try_api_key_row:
  "fst (try_api_key e p db) = Some ctx \<Longrightarrow>
     \<exists>r \<in> set (db_users db). ur_id r = uc_user_id ctx \<and> uc_role ctx = role_parse (ur_role r)"
  by (auto simp: try_api_key_def get_user_by_api_key_def row_to_user_def split: if_splits option.splits
      dest!: user_row_SomeD)

lemma try_cookies_row:
  "fst (try_cookies e cs db) = Some ctx \<Longrightarrow>
     \<exists>r \<in> set (db_users db). ur_id r = uc_user_id ctx \<and> uc_role ctx = role_parse (ur_role r)"
proof (induction e cs db rule: try_cookies.induct)
  case (2 e k v cs db)
  then show ?case
    by (auto simp: get_session_def row_to_user_def split: if_splits option.splits prod.splits
        dest!: user_row_SomeD dest: find_SomeD)
qed simp

text \<open>C3. With authentication on, a request to a guarded path reaches its handler exactly when it
  carries a valid credential: a live API key of an existing user, a key of the configuration, the
  password of the environment, or a cookie of a live session. The context the handler sees names
  the user of that credential.\<close>

theorem guarded_needs_credential:
  assumes "au_enabled cfg" and "guarded rq"
  shows "((\<exists>ctx. fst (auth_middleware e cfg rq db) = Run ctx) \<longleftrightarrow> (\<exists>ctx. valid_credential e cfg rq db ctx))
     \<and> (\<forall>ctx. fst (auth_middleware e cfg rq db) = Run ctx \<longrightarrow> valid_credential e cfg rq db ctx)"
  using auth_middleware_cases [of e cfg rq db] anonymous_guarded [OF assms, of e] by auto

theorem guarded_needs_credential_witness:
  "valid_credential demo_auth auth_default (demo_chat ''Bearer tk-ab12'') demo_db
     \<lparr>uc_user_id = ''u1'', uc_email = ''ann@x.io'', uc_name = ''Ann'', uc_role = UserRole,
      uc_via = ''api_key'', uc_key_prefix = Some ''tk-ab12'', uc_session_id = None\<rparr>"
proof -
  have e: "au_enabled auth_default" by (simp add: auth_default_def)
  have c: "char_of (97 :: nat) = CHR ''a''" by code_simp
  show ?thesis using guarded_needs_credential [OF e demo_chat_guarded, of demo_auth "''Bearer tk-ab12''" demo_db]
    by (auto simp: demo_auth_defs demo_defs c)
qed

text \<open>A refusal tells what to do: on \<open>/v1/\<close> it is a 401 with the authentication challenge; on
  \<open>/ui/\<close> and \<open>/admin/\<close> it is that 401 for a client that accepts JSON and otherwise a redirect to the
  login page whose \<open>next\<close> parameter decodes to the requested path and has no unsafe character.\<close>

theorem refusal_shape:
  assumes "au_enabled cfg" and "guarded rq" and "fst (auth_middleware e cfg rq db) = Respond resp"
  shows "resp = unauthorized ''invalid or missing API key'' \<and> starts_with (rq_path rq) ''/v1/''
     \<or> resp = unauthorized ''invalid or missing credentials''
     \<or> (hr_status resp = 303 \<and> (\<exists>enc. hr_headers resp = [(''location'', ''/ui/login?next='' @ enc)]
          \<and> pct_decode enc = rq_path rq \<and> set enc \<subseteq> insert (CHR ''%'') {c. url_safe c}))"
proof -
  have dec: "pct_decode (urlencoding_minimal s) = s" for s
    unfolding urlencoding_minimal_def by (rule percent.decodes)
  have chars: "set (urlencoding_minimal s) \<subseteq> insert (CHR ''%'') {c. url_safe c}" for s
    unfolding urlencoding_minimal_def using percent.encoded_harmless by blast
  have "anonymous_outcome e cfg rq = Respond resp"
    using auth_middleware_cases [of e cfg rq db] assms(3) by auto
  with assms(1,2) have "starts_with (rq_path rq) ''/v1/'' \<and> resp = unauthorized ''invalid or missing API key''
      \<or> resp = ui_or_admin_unauthorized e rq (rq_path rq)"
    by (auto simp: anonymous_outcome_def guarded_def Let_def split: if_splits)
  then show ?thesis using dec chars
    by (auto simp: ui_or_admin_unauthorized_def Let_def simp del: insert_iff split: if_splits)
qed

theorem refusal_shape_witness:
  "hr_status (case fst (auth_middleware demo_auth auth_default
     \<lparr>rq_method = ''GET'', rq_path = ''/ui/x y'', rq_authorization = None, rq_cookie = None,
      rq_accept = None\<rparr> demo_db) of Respond r \<Rightarrow> r) = 303"
proof -
  let ?rq = "\<lparr>rq_method = ''GET'', rq_path = ''/ui/x y'', rq_authorization = None, rq_cookie = None,
      rq_accept = None\<rparr>"
  let ?r = "ui_or_admin_unauthorized demo_auth ?rq ''/ui/x y''"
  have g: "guarded ?rq" by (simp add: guarded_def is_public_path_def Let_def)
  have m: "fst (auth_middleware demo_auth auth_default ?rq demo_db) = Respond ?r"
    by (simp add: demo_auth_defs anonymous_outcome_def is_public_path_def Let_def)
  have e: "au_enabled auth_default" by (simp add: auth_default_def)
  from refusal_shape [OF e g m] show ?thesis unfolding m
    by (auto simp: ui_or_admin_unauthorized_def unauthorized_def Let_def)
qed



text \<open>A revoked API key is refused by the API: after its revocation, and whatever operations follow
  that issue no key with the same hash, a request to \<open>/v1/\<close> that carries only this key is answered
  with 401.\<close>

theorem revoked_key_is_refused:
  assumes "db_reachable u db" and "r \<in> set (db_api_keys db)"
    and "kr_key_hash r = ae_sha e (extract_token e rq)" and "ue_sha u = ae_sha e"
    and "\<forall>op \<in> set ops. \<not> issues_hash (ae_sha e) (kr_key_hash r) op"
    and "au_enabled cfg" and "guarded rq" and "starts_with (rq_path rq) ''/v1/''"
    and "try_legacy e cfg (extract_token e rq) = None" and "rq_cookie rq = None"
  shows "fst (auth_middleware e cfg rq (db_run u ops (revoke_api_key (kr_id r) db))) =
     Respond (unauthorized ''invalid or missing API key'')"
proof -
  let ?db = "db_run u ops (revoke_api_key (kr_id r) db)" and ?p = "extract_token e rq"
  have "key_user (ae_sha e) (ae_rd e) (ae_ts e) ?p ?db = None"
    using revoked_key_dead [of u db r ?p ops "ae_rd e" "ae_ts e"] assms(1-5) by simp
  moreover have "request_cookies e rq = []" using assms(10) by (simp add: request_cookies_def)
  ultimately have "\<not> valid_credential e cfg rq ?db ctx" for ctx
    using assms(9) by (auto simp: valid_credential_def Let_def try_legacy_None_iff)
  then have "fst (auth_middleware e cfg rq ?db) = anonymous_outcome e cfg rq"
    using auth_middleware_cases [of e cfg rq ?db] by blast
  also have "\<dots> = Respond (unauthorized ''invalid or missing API key'')"
    using assms(6,7,8) by (auto simp: anonymous_outcome_def guarded_def Let_def prefix_def)
  finally show ?thesis .
qed

theorem revoked_key_is_refused_witness:
  "fst (auth_middleware demo_auth auth_default (demo_chat ''Bearer tk-ab12'')
     (db_run demo_env [] (revoke_api_key ''k1'' demo_db))) =
   Respond (unauthorized ''invalid or missing API key'')"
proof -
  let ?r = "\<lparr>kr_id = ''k1'', kr_user_id = ''u1'', kr_key_hash = rev ''tk-ab12'',
     kr_key_prefix = ''tk-ab12'', kr_name = ''laptop'', kr_last_used_at = None,
     kr_expires_at = None, kr_created_at = ''2026-01-01 08:00:00'', kr_revoked = False\<rparr>"
  have m: "?r \<in> set (db_api_keys demo_db)" by (simp add: demo_defs)
  have t: "extract_token demo_auth (demo_chat ''Bearer tk-ab12'') = ''tk-ab12''"
    by (simp add: demo_auth_defs trim_def is_whitespace_def)
  have "fst (auth_middleware demo_auth auth_default (demo_chat ''Bearer tk-ab12'')
     (db_run demo_env [] (revoke_api_key (kr_id ?r) demo_db))) =
     Respond (unauthorized ''invalid or missing API key'')"
    by (rule revoked_key_is_refused [OF demo_reachable m])
      (simp_all only: t demo_chat_guarded, simp_all add: demo_auth_def demo_env_def auth_default_def
        try_legacy_def keys_from_config_def demo_chat_def)
  then show ?thesis by simp
qed

text \<open>The guard covers the prefixes \<open>/v1/\<close>, \<open>/ui/\<close> and \<open>/admin/\<close> only: with authentication on, a
  request without any credential reaches every other route, the event stream \<open>/api/v1/events\<close>
  with its per-request costs and the dashboard entry \<open>/ui\<close> among them, as the anonymous user.\<close>

theorem unguarded_paths_are_open:
  assumes "au_enabled cfg" and "rq_path rq \<in> {''/'', ''/ui'', ''/healthz'', ''/api/v1/events'', ''/auth/me''}"
    and "rq_authorization rq = None" and "rq_cookie rq = None"
  shows "auth_middleware e cfg rq db = (Run (anonymous_ctx ''anonymous''), db)"
proof -
  have t: "extract_token e rq = []" and c: "request_cookies e rq = []"
    using assms(3,4) by (simp_all add: extract_token_def request_cookies_def)
  have "anonymous_outcome e cfg rq = Run (anonymous_ctx ''anonymous'')"
    using assms(1,2) by (auto simp: anonymous_outcome_def is_public_path_def Let_def)
  then show ?thesis using t c by (simp add: auth_middleware_def try_api_key_def try_legacy_def)
qed

theorem unguarded_paths_are_open_witness:
  "auth_middleware demo_auth auth_default \<lparr>rq_method = ''GET'', rq_path = ''/api/v1/events'',
     rq_authorization = None, rq_cookie = None, rq_accept = None\<rparr> demo_db =
   (Run (anonymous_ctx ''anonymous''), demo_db)"
  by (rule unguarded_paths_are_open) (simp_all add: auth_default_def)

end
