(* ===== verification/QueryLog.thy ===== *)
theory QueryLog
  imports Fallback Cost
begin

section \<open>The request and attempt logs\<close>

text \<open>
  \<open>src/db/queries.rs\<close> over the tables of \<open>src/db/mod.rs\<close>, and the detached writers of
  \<open>src/log/mod.rs\<close>. A request row is the logged record with its creation time; attempt rows are
  kept in insertion order (their autoincremented id). \<open>attempt_log.request_id\<close> references
  \<open>request_log\<close>, which the bundled SQLite enforces. A detached write is a value of \<open>LogWrite\<close>;
  its error is dropped, as in the source.
\<close>

record RequestLog =
  lq_id :: string
  lq_tier :: string
  lq_requested_model :: "string option"
  lq_routed_model :: string
  lq_routed_provider :: string
  lq_total_latency_ms :: int
  lq_input_tokens :: "u32 option"
  lq_output_tokens :: "u32 option"
  lq_cache_read_tokens :: "u32 option"
  lq_cost_usd :: "f64 option"
  lq_truncated :: bool
  lq_fallback_count :: u32
  lq_finished :: bool
  lq_finish_reason :: "string option"
  lq_client_ip :: "string option"
  lq_user_id :: "string option"
  lq_user_agent :: "string option"

record AttemptLog =
  la_request_id :: string
  la_attempt_number :: u32
  la_provider :: string
  la_model :: string
  la_outcome :: string
  la_error_code :: "string option"
  la_error_message :: "string option"
  la_latency_ms :: int
  la_retry_wait_ms :: "u64 option"

record RequestRow =
  rr_id :: string
  rr_created_at :: string
  rr_tier :: string
  rr_routed_model :: string
  rr_routed_provider :: string
  rr_total_latency_ms :: int
  rr_input_tokens :: "u32 option"
  rr_output_tokens :: "u32 option"
  rr_cost_usd :: "f64 option"
  rr_fallback_count :: u32
  rr_finished :: bool
  rr_finish_reason :: "string option"
  rr_client_ip :: "string option"

record LogFilter =
  lf_limit :: u32
  lf_tier :: "string option"
  lf_provider :: "string option"
  lf_finished :: "bool option"

record LogDb =
  ld_requests :: "(string \<times> RequestLog) list"
  ld_attempts :: "AttemptLog list"
  ld_health :: "(string \<times> string \<times> u32) list"

definition insert_request :: "string \<Rightarrow> RequestLog \<Rightarrow> LogDb \<Rightarrow> (string + unit) \<times> LogDb" where
  "insert_request ts l db =
     (if \<exists>(_, r) \<in> set (ld_requests db). lq_id r = lq_id l
      then (Inl ''UNIQUE constraint failed: request_log.id'', db)
      else (Inr (), db\<lparr>ld_requests := ld_requests db @ [(ts, l)]\<rparr>))"

definition update_request_final ::
  "string \<Rightarrow> int \<Rightarrow> u32 option \<Rightarrow> u32 option \<Rightarrow> f64 option \<Rightarrow> bool \<Rightarrow> string option \<Rightarrow> LogDb
     \<Rightarrow> LogDb" where
  "update_request_final i latency in_tok out_tok cost fin why db = db
     \<lparr>ld_requests := map (\<lambda>(ts, r). (ts, if lq_id r = i
        then r\<lparr>lq_total_latency_ms := latency, lq_input_tokens := in_tok, lq_output_tokens := out_tok,
               lq_cost_usd := cost, lq_finished := fin, lq_finish_reason := why\<rparr>
        else r)) (ld_requests db)\<rparr>"

definition insert_attempt :: "AttemptLog \<Rightarrow> LogDb \<Rightarrow> (string + unit) \<times> LogDb" where
  "insert_attempt a db =
     (if \<exists>(_, r) \<in> set (ld_requests db). lq_id r = la_request_id a
      then (Inr (), db\<lparr>ld_attempts := ld_attempts db @ [a]\<rparr>)
      else (Inl ''FOREIGN KEY constraint failed'', db))"

definition row_to_request_row :: "string \<times> RequestLog \<Rightarrow> RequestRow" where
  "row_to_request_row row = (case row of (ts, r) \<Rightarrow> \<lparr>rr_id = lq_id r, rr_created_at = ts,
     rr_tier = lq_tier r, rr_routed_model = lq_routed_model r,
     rr_routed_provider = lq_routed_provider r, rr_total_latency_ms = lq_total_latency_ms r,
     rr_input_tokens = lq_input_tokens r, rr_output_tokens = lq_output_tokens r,
     rr_cost_usd = lq_cost_usd r, rr_fallback_count = lq_fallback_count r,
     rr_finished = lq_finished r, rr_finish_reason = lq_finish_reason r,
     rr_client_ip = lq_client_ip r\<rparr>)"

definition clamp :: "u32 \<Rightarrow> u32 \<Rightarrow> u32 \<Rightarrow> u32" where
  "clamp lo hi x = (if x < lo then lo else if hi < x then hi else x)"

definition log_selected :: "LogFilter \<Rightarrow> string \<times> RequestLog \<Rightarrow> bool" where
  "log_selected f row \<longleftrightarrow> (case row of (_, r) \<Rightarrow>
     (case lf_tier f of None \<Rightarrow> True | Some t \<Rightarrow> lq_tier r = t)
     \<and> (case lf_provider f of None \<Rightarrow> True | Some p \<Rightarrow> lq_routed_provider r = p)
     \<and> (case lf_finished f of None \<Rightarrow> True | Some b \<Rightarrow> lq_finished r = b))"

text \<open>\<open>ORDER BY created_at DESC LIMIT n\<close>; rows of one second in the order of their insertion.\<close>

definition list_requests :: "LogFilter \<Rightarrow> LogDb \<Rightarrow> RequestRow list" where
  "list_requests f db = map row_to_request_row (take (unat (clamp 1 500 (lf_limit f)))
     (rev (sort_key fst (rev (filter (log_selected f) (ld_requests db))))))"

definition count_requests :: "LogDb \<Rightarrow> nat" where
  "count_requests db = length (ld_requests db)"

definition attempts_for_request :: "string \<Rightarrow> LogDb \<Rightarrow> AttemptLog list" where
  "attempts_for_request i db =
     sort_key la_attempt_number (filter (\<lambda>a. la_request_id a = i) (ld_attempts db))"

record DailyTotal =
  dt_day :: string
  dt_count :: nat
  dt_cost :: f64
  dt_tokens_in :: int
  dt_tokens_out :: int

text \<open>\<open>day_of\<close> is SQLite's \<open>date()\<close>, \<open>since\<close> the text of \<open>datetime('now', '-N days')\<close>.\<close>

definition day_total :: "(string \<times> RequestLog) list \<Rightarrow> string \<Rightarrow> DailyTotal" where
  "day_total rows day = (let rs = map snd rows in
     \<lparr>dt_day = day, dt_count = length rs,
      dt_cost = sum_list (map (\<lambda>r. unwrap_or 0 (lq_cost_usd r)) rs),
      dt_tokens_in = sum_list (map (\<lambda>r. case lq_input_tokens r of None \<Rightarrow> 0 | Some n \<Rightarrow> uint n) rs),
      dt_tokens_out = sum_list (map (\<lambda>r. case lq_output_tokens r of None \<Rightarrow> 0 | Some n \<Rightarrow> uint n) rs)\<rparr>)"

definition daily_totals :: "(string \<Rightarrow> string) \<Rightarrow> string \<Rightarrow> LogDb \<Rightarrow> DailyTotal list" where
  "daily_totals day_of since db =
     (let rows = filter (\<lambda>(ts, _). since \<le> ts) (ld_requests db);
          days = rev (sort (remdups (map (day_of \<circ> fst) rows))) in
      map (\<lambda>d. day_total (filter (\<lambda>row. day_of (fst row) = d) rows) d) days)"

text \<open>Attempts first: they reference the requests.\<close>

definition clear_all :: "LogDb \<Rightarrow> LogDb" where
  "clear_all db = db\<lparr>ld_attempts := [], ld_requests := []\<rparr>"

definition upsert_provider_health :: "string \<Rightarrow> string \<Rightarrow> u32 \<Rightarrow> LogDb \<Rightarrow> LogDb" where
  "upsert_provider_health pid st n db = db\<lparr>ld_health := row_put pid (st, n) (ld_health db)\<rparr>"

definition read_provider_health :: "string \<Rightarrow> LogDb \<Rightarrow> (string \<times> u32) option" where
  "read_provider_health pid db = map_of (ld_health db) pid"

subsection \<open>Detached writes\<close>

datatype LogWrite =
    LogRequest string RequestLog
  | UpdateRequestFinal string int "u32 option" "u32 option" "f64 option" bool "string option"
  | LogAttempt AttemptLog

fun run_write :: "LogWrite \<Rightarrow> LogDb \<Rightarrow> LogDb" where
  "run_write (LogRequest ts l) db = snd (insert_request ts l db)"
| "run_write (UpdateRequestFinal i lat a b c fin r) db = update_request_final i lat a b c fin r db"
| "run_write (LogAttempt a) db = snd (insert_attempt a db)"

definition run_writes :: "LogWrite list \<Rightarrow> LogDb \<Rightarrow> LogDb" where
  "run_writes ws db = fold run_write ws db"

subsection \<open>Provider health rows\<close>

interpretation health_rows: kv_store "\<lambda>db pid. read_provider_health pid db"
    "\<lambda>pid (st, n). upsert_provider_health pid st n"
    "\<lambda>pid db. db\<lparr>ld_health := row_del pid (ld_health db)\<rparr>" "\<lambda>_. True"
  by unfold_locales (simp_all add: split_def read_provider_health_def upsert_provider_health_def)

subsection \<open>Constraints\<close>

definition has_request :: "string \<Rightarrow> LogDb \<Rightarrow> bool" where
  "has_request i db \<longleftrightarrow> i \<in> set (map (lq_id \<circ> snd) (ld_requests db))"

lemma has_request_iff: "(\<exists>(_, r) \<in> set (ld_requests db). lq_id r = i) \<longleftrightarrow> has_request i db"
  by (force simp: has_request_def)

definition log_wf :: "LogDb \<Rightarrow> bool" where
  "log_wf db \<longleftrightarrow> distinct (map (lq_id \<circ> snd) (ld_requests db))
     \<and> (\<forall>a \<in> set (ld_attempts db). has_request (la_request_id a) db)"

lemma update_request_final_ids [simp]:
  "map (lq_id \<circ> snd) (ld_requests (update_request_final i lat a b c fin r db))
     = map (lq_id \<circ> snd) (ld_requests db)"
  by (simp add: update_request_final_def split_def)

lemma has_request_writes: "has_request i db \<Longrightarrow> has_request i (run_write w db)"
  by (cases w) (auto simp: has_request_def insert_request_def insert_attempt_def
      simp flip: list.set_map split: if_splits simp del: set_map)

lemma log_wf_write: assumes "log_wf db" shows "log_wf (run_write w db)"
proof (cases w)
  case (LogRequest ts l)
  then show ?thesis using assms
    by (auto simp: log_wf_def insert_request_def has_request_iff has_request_def)
next
  case (UpdateRequestFinal i lat a b c fin r)
  then show ?thesis using assms
    by (simp add: log_wf_def has_request_def del: set_map) (simp add: update_request_final_def)
next
  case (LogAttempt a)
  then show ?thesis using assms
    by (auto simp: log_wf_def insert_attempt_def has_request_iff has_request_def)
qed

lemma run_writes_append: "run_writes (ws @ vs) db = run_writes vs (run_writes ws db)"
  by (simp add: run_writes_def)

lemma run_writes_simps [simp]:
  "run_writes [] db = db" "run_writes (w # ws) db = run_writes ws (run_write w db)"
  by (simp_all add: run_writes_def)

lemma log_wf_writes: "log_wf db \<Longrightarrow> log_wf (run_writes ws db)"
  by (induction ws arbitrary: db) (auto dest: log_wf_write)

lemma attempts_dropped:
  "\<not> has_request i db \<Longrightarrow> \<forall>a \<in> set as. la_request_id a = i \<Longrightarrow> run_writes (map LogAttempt as) db = db"
  by (induction as) (simp_all add: insert_attempt_def has_request_iff)

lemma attempts_kept:
  "has_request i db \<Longrightarrow> \<forall>a \<in> set as. la_request_id a = i \<Longrightarrow>
   run_writes (map LogAttempt as) db = db\<lparr>ld_attempts := ld_attempts db @ as\<rparr>"
proof (induction as arbitrary: db)
  case (Cons a as)
  then have "run_write (LogAttempt a) db = db\<lparr>ld_attempts := ld_attempts db @ [a]\<rparr>"
    by (simp add: insert_attempt_def has_request_iff)
  moreover have "has_request i (run_write (LogAttempt a) db)"
    using Cons.prems(1) by (rule has_request_writes)
  ultimately show ?case using Cons by simp
qed simp

lemma no_attempts_without_request:
  "log_wf db \<Longrightarrow> \<not> has_request i db \<Longrightarrow> filter (\<lambda>a. la_request_id a = i) (ld_attempts db) = []"
  by (auto simp: log_wf_def filter_empty_conv)

subsection \<open>Properties\<close>

text \<open>The attempts of a request are kept exactly when they are written after the request's own row:
  of the detached writes of one request, in whatever order the runtime runs them, the attempts
  written before the request row are lost and those written after it are read back, by number.\<close>

theorem attempts_before_request_are_lost:
  assumes "log_wf db" and "\<not> has_request (lq_id l) db"
    and "\<forall>a \<in> set (early @ late). la_request_id a = lq_id l"
  shows "attempts_for_request (lq_id l)
       (run_writes (map LogAttempt early @ LogRequest ts l # map LogAttempt late) db)
     = sort_key la_attempt_number late"
proof -
  let ?db = "db\<lparr>ld_requests := ld_requests db @ [(ts, l)]\<rparr>"
  have "run_writes (map LogAttempt early) db = db"
    by (rule attempts_dropped) (use assms in auto)
  moreover have "run_write (LogRequest ts l) db = ?db"
    using assms(2) by (simp add: insert_request_def has_request_iff)
  moreover have "run_writes (map LogAttempt late) ?db
      = ?db\<lparr>ld_attempts := ld_attempts ?db @ late\<rparr>"
    by (rule attempts_kept) (use assms in \<open>auto simp: has_request_def\<close>)
  ultimately have "run_writes (map LogAttempt early @ LogRequest ts l # map LogAttempt late) db
      = ?db\<lparr>ld_attempts := ld_attempts db @ late\<rparr>"
    by (simp add: run_writes_append)
  moreover have "filter (\<lambda>a. la_request_id a = lq_id l) late = late"
    using assms(3) by (simp add: filter_id_conv)
  ultimately show ?thesis using no_attempts_without_request [OF assms(1,2)]
    by (simp add: attempts_for_request_def)
qed

definition demo_log :: "string \<Rightarrow> RequestLog" where
  "demo_log i = \<lparr>lq_id = i, lq_tier = ''standard'', lq_requested_model = None,
     lq_routed_model = ''gpt-4o'', lq_routed_provider = ''openai'', lq_total_latency_ms = 12,
     lq_input_tokens = Some 3, lq_output_tokens = Some 4, lq_cache_read_tokens = None,
     lq_cost_usd = None, lq_truncated = False, lq_fallback_count = 0, lq_finished = True,
     lq_finish_reason = None, lq_client_ip = None, lq_user_id = None, lq_user_agent = None\<rparr>"

definition demo_attempt :: "string \<Rightarrow> u32 \<Rightarrow> AttemptLog" where
  "demo_attempt i n = \<lparr>la_request_id = i, la_attempt_number = n, la_provider = ''openai'',
     la_model = ''gpt-4o'', la_outcome = ''Success'', la_error_code = None, la_error_message = None,
     la_latency_ms = 12, la_retry_wait_ms = None\<rparr>"

definition empty_log :: LogDb where
  "empty_log = \<lparr>ld_requests = [], ld_attempts = [], ld_health = []\<rparr>"

theorem attempts_before_request_are_lost_witness:
  "attempts_for_request ''r1'' (run_writes [LogAttempt (demo_attempt ''r1'' 1),
     LogRequest ''2026-01-01 10:00:00'' (demo_log ''r1''), LogAttempt (demo_attempt ''r1'' 2)] empty_log)
   = [demo_attempt ''r1'' 2]"
proof -
  have w: "log_wf empty_log" "\<not> has_request (lq_id (demo_log ''r1'')) empty_log"
    by (simp_all add: log_wf_def has_request_def empty_log_def)
  show ?thesis
    using attempts_before_request_are_lost [OF w, of "[demo_attempt ''r1'' 1]" "[demo_attempt ''r1'' 2]"]
    by (simp add: demo_log_def demo_attempt_def)
qed

text \<open>The log page shows the newest matching requests: at most 500 rows, never a row the filter
  excludes, newest first, and no matching row that is left out is newer than one that is shown.\<close>

theorem list_requests_newest:
  "length (list_requests f db) \<le> 500
     \<and> sorted_wrt (\<lambda>x y. rr_created_at y \<le> rr_created_at x) (list_requests f db)
     \<and> (\<exists>rest. mset (list_requests f db) + mset rest
            = mset (map row_to_request_row (filter (log_selected f) (ld_requests db)))
          \<and> (rest \<noteq> [] \<longrightarrow> length (list_requests f db) = unat (clamp 1 500 (lf_limit f)))
          \<and> (\<forall>x \<in> set (list_requests f db). \<forall>y \<in> set rest. rr_created_at y \<le> rr_created_at x))"
proof -
  define rows where "rows = rev (sort_key fst (rev (filter (log_selected f) (ld_requests db))))"
  define n where "n = unat (clamp 1 500 (lf_limit f))"
  have created: "rr_created_at (row_to_request_row r) = fst r" for r
    by (simp add: row_to_request_row_def split_def)
  have "sorted (map fst (rev rows))" by (simp add: rows_def)
  then have desc: "sorted_wrt (\<lambda>x y. fst y \<le> fst x) rows"
    by (simp add: sorted_map sorted_wrt_rev)
  have list: "list_requests f db = map row_to_request_row (take n rows)"
    by (simp add: list_requests_def rows_def n_def)
  have "clamp 1 500 (lf_limit f) \<le> 500" by (simp add: clamp_def not_less)
  then have "n \<le> 500" by (simp add: n_def word_le_nat_alt)
  moreover have "sorted_wrt (\<lambda>x y. fst y \<le> fst x) (take n rows @ drop n rows)"
    using desc by simp
  then have "sorted_wrt (\<lambda>x y. fst y \<le> fst x) (take n rows)"
      "\<forall>x \<in> set (take n rows). \<forall>y \<in> set (drop n rows). fst y \<le> fst x"
    unfolding sorted_wrt_append by blast+
  moreover have "mset (list_requests f db) + mset (map row_to_request_row (drop n rows))
      = mset (map row_to_request_row (filter (log_selected f) (ld_requests db)))"
    unfolding list mset_append [symmetric] map_append [symmetric] append_take_drop_id
    by (simp add: rows_def)
  moreover have "map row_to_request_row (drop n rows) \<noteq> [] \<longrightarrow> length (take n rows) = n"
    by simp
  ultimately show ?thesis unfolding n_def [symmetric] list
    by (intro conjI exI [of _ "map row_to_request_row (drop n rows)"])
      (simp_all add: sorted_wrt_map created)
qed

theorem list_requests_newest_witness:
  "length (list_requests \<lparr>lf_limit = 0, lf_tier = None, lf_provider = None, lf_finished = None\<rparr>
     (run_writes [LogRequest ''2026-01-01'' (demo_log ''r1''), LogRequest ''2026-01-02'' (demo_log ''r2'')]
        empty_log)) \<le> 500"
  by (simp only: list_requests_newest)

end
