(* ===== verification/Keystore.thy ===== *)
theory Keystore
  imports Registry
begin

section \<open>Master key and encrypted credential store\<close>

text \<open>
  \<open>src/auth/keystore.rs\<close>. The cryptography is library code: the record \<open>Crypto\<close> holds the
  operations the source calls (AES-256-GCM, HKDF, hex and base64 codecs, the UTF-8 check), and
  \<open>crypto_ok\<close> the documented laws used below: decryption inverts encryption under the same key
  and nonce, a ciphertext carries a tag and so is not empty, base64 decoding inverts encoding, an
  encoded text has no blanks at its ends, a subkey is a key. A Rust string is its list of UTF-8
  bytes. Random nonces are arguments.
\<close>

type_synonym bytes = "u8 list"

record Crypto =
  cy_seal :: "bytes \<Rightarrow> bytes \<Rightarrow> string \<Rightarrow> string + bytes"
  cy_open :: "bytes \<Rightarrow> bytes \<Rightarrow> bytes \<Rightarrow> string option"
  cy_hkdf :: "bytes \<Rightarrow> bytes \<Rightarrow> bytes"
  cy_hex_decode :: "string \<Rightarrow> bytes option"
  cy_b64_encode :: "bytes \<Rightarrow> string"
  cy_b64_decode :: "string \<Rightarrow> bytes option"
  cy_utf8 :: "string \<Rightarrow> bool"

definition crypto_ok :: "Crypto \<Rightarrow> bool" where
  "crypto_ok cy \<longleftrightarrow>
     (\<forall>k n p. \<exists>ct. cy_seal cy k n p = Inr ct \<and> ct \<noteq> [] \<and> cy_open cy k n ct = Some p)
     \<and> (\<forall>b. cy_b64_decode cy (trim (cy_b64_encode cy b)) = Some b)"

definition NONCE_LEN :: nat where "NONCE_LEN = 12"
definition KEY_LEN :: nat where "KEY_LEN = 32"
definition ENC_PREFIX :: string where "ENC_PREFIX = ''enc:''"

definition as_bytes :: "string \<Rightarrow> bytes" where
  "as_bytes s = map (\<lambda>c. word_of_nat (of_char c)) s"

definition TOML_AUTH_KEY :: bytes where
  "TOML_AUTH_KEY = as_bytes ''token-dealer/v0.2/auth-keys/v1''"

definition SQLITE_PROVIDER_CRED :: bytes where
  "SQLITE_PROVIDER_CRED = as_bytes ''token-dealer/v0.2/provider-credentials/v1''"

datatype MasterKeyError = Missing | BadFileLength nat | BadFormat | Decrypt | BadBase64

type_synonym MasterKey = bytes

definition mk_from_slice :: "bytes \<Rightarrow> MasterKey option" where
  "mk_from_slice b = (if length b = KEY_LEN then Some b else None)"

definition mk_from_hex :: "Crypto \<Rightarrow> string \<Rightarrow> MasterKey option" where
  "mk_from_hex cy s = Option.bind (cy_hex_decode cy (trim s)) mk_from_slice"

definition mk_from_base64 :: "Crypto \<Rightarrow> string \<Rightarrow> MasterKey option" where
  "mk_from_base64 cy s = Option.bind (cy_b64_decode cy (trim s)) mk_from_slice"

definition mk_from_text :: "Crypto \<Rightarrow> string \<Rightarrow> MasterKey option" where
  "mk_from_text cy s =
     opt_or (mk_from_hex cy s) (opt_or (mk_from_base64 cy s) (mk_from_slice (as_bytes s)))"

text \<open>\<open>file\<close> reads a file (\<open>None\<close> is an I/O error), \<open>env\<close> an environment variable.\<close>

definition from_env_strict ::
  "Crypto \<Rightarrow> (string \<Rightarrow> bytes option) \<Rightarrow> (string \<Rightarrow> string option) \<Rightarrow> MasterKeyError + MasterKey" where
  "from_env_strict cy file env =
     (case env ''ROUTER_MASTER_KEY_FILE'' of
        Some path \<Rightarrow> (case file path of
            None \<Rightarrow> Inl BadFormat
          | Some b \<Rightarrow> ok_or (BadFileLength (length b)) (mk_from_slice b))
      | None \<Rightarrow> (case env ''ROUTER_MASTER_KEY'' of
            Some s \<Rightarrow> ok_or BadFormat (mk_from_text cy s)
          | None \<Rightarrow> Inl Missing))"

text \<open>\<open>fresh\<close> is the random key of the fallback.\<close>

definition from_env_or_generate ::
  "Crypto \<Rightarrow> (string \<Rightarrow> bytes option) \<Rightarrow> (string \<Rightarrow> string option) \<Rightarrow> bytes \<Rightarrow> string + MasterKey" where
  "from_env_or_generate cy file env fresh =
     (case env ''ROUTER_MASTER_KEY_FILE'' of
        Some path \<Rightarrow> (case file path of
            None \<Rightarrow> Inl ''io error''
          | Some b \<Rightarrow> ok_or (''ROUTER_MASTER_KEY_FILE is not 32 bytes (got ''
              @ show_nat (length b) @ '')'') (mk_from_slice b))
      | None \<Rightarrow> Inr (unwrap_or fresh (Option.bind (env ''ROUTER_MASTER_KEY'') (mk_from_text cy))))"

definition derive_subkey :: "Crypto \<Rightarrow> MasterKey \<Rightarrow> bytes \<Rightarrow> bytes" where
  "derive_subkey cy mk info = cy_hkdf cy mk info"

text \<open>A failing \<open>seal\<close> is a panic (\<open>expect\<close>).\<close>

definition encrypt :: "Crypto \<Rightarrow> MasterKey \<Rightarrow> bytes \<Rightarrow> string \<Rightarrow> bytes \<Rightarrow> string + string" where
  "encrypt cy mk nonce plaintext purpose =
     and_then (cy_seal cy (derive_subkey cy mk purpose) nonce plaintext)
       (\<lambda>ct. Inr (ENC_PREFIX @ cy_b64_encode cy (nonce @ ct)))"

definition decrypt :: "Crypto \<Rightarrow> MasterKey \<Rightarrow> string \<Rightarrow> bytes \<Rightarrow> MasterKeyError + string" where
  "decrypt cy mk blob purpose =
     and_then (ok_or Decrypt (strip_prefix ENC_PREFIX blob)) (\<lambda>rest.
     and_then (ok_or BadBase64 (cy_b64_decode cy (trim rest))) (\<lambda>b.
     if length b \<le> NONCE_LEN then Inl Decrypt
     else and_then (ok_or Decrypt (cy_open cy (derive_subkey cy mk purpose)
            (take NONCE_LEN b) (drop NONCE_LEN b))) (\<lambda>pt.
          if cy_utf8 cy pt then Inr pt else Inl Decrypt)))"

subsection \<open>The credential store\<close>

text \<open>
  The table \<open>provider_credentials\<close> and the cache of decrypted keys. The store's cipher uses the
  master key itself, not a subkey.
\<close>

record KeyStore =
  ks_master :: MasterKey
  ks_table :: "string \<rightharpoonup> bytes \<times> bytes"
  ks_cache :: "string \<rightharpoonup> string"

definition keystore_new :: "MasterKey \<Rightarrow> (string \<rightharpoonup> bytes \<times> bytes) \<Rightarrow> KeyStore" where
  "keystore_new mk table = \<lparr>ks_master = mk, ks_table = table, ks_cache = Map.empty\<rparr>"

definition ks_set :: "Crypto \<Rightarrow> bytes \<Rightarrow> string \<Rightarrow> string \<Rightarrow> KeyStore \<Rightarrow> (string + unit) \<times> KeyStore" where
  "ks_set cy nonce provider_id plaintext s =
     (case cy_seal cy (ks_master s) nonce plaintext of
        Inl e \<Rightarrow> (Inl (''encrypt failed: '' @ e), s)
      | Inr ct \<Rightarrow> (Inr (), s\<lparr>ks_table := (ks_table s)(provider_id \<mapsto> (ct, nonce)),
                           ks_cache := (ks_cache s)(provider_id \<mapsto> plaintext)\<rparr>))"

definition ks_get :: "Crypto \<Rightarrow> string \<Rightarrow> KeyStore \<Rightarrow> (string + string option) \<times> KeyStore" where
  "ks_get cy provider_id s = (case ks_cache s provider_id of
      Some v \<Rightarrow> (Inr (Some v), s)
    | None \<Rightarrow> (case ks_table s provider_id of
          None \<Rightarrow> (Inr None, s)
        | Some (ct, nonce) \<Rightarrow>
            if length nonce \<noteq> NONCE_LEN then (Inl ''stored nonce has wrong length'', s)
            else (case cy_open cy (ks_master s) nonce ct of
                None \<Rightarrow> (Inl ''decrypt failed'', s)
              | Some pt \<Rightarrow>
                  if cy_utf8 cy pt
                  then (Inr (Some pt), s\<lparr>ks_cache := (ks_cache s)(provider_id \<mapsto> pt)\<rparr>)
                  else (Inl ''invalid utf-8'', s))))"

definition ks_delete :: "string \<Rightarrow> KeyStore \<Rightarrow> KeyStore" where
  "ks_delete provider_id s = s\<lparr>ks_table := (ks_table s)(provider_id := None),
     ks_cache := (ks_cache s)(provider_id := None)\<rparr>"

text \<open>\<open>resolve\<close>: TOML literal, then the provider's variable, then the store.\<close>

definition resolve_literal :: "Crypto \<Rightarrow> MasterKey \<Rightarrow> (string \<Rightarrow> string option) \<Rightarrow> string \<Rightarrow> string option" where
  "resolve_literal cy mk env lit =
     opt_or (Option.bind (env_reference lit) env)
     (opt_or (case strip_prefix ''enc:'' lit of
          None \<Rightarrow> None
        | Some blob \<Rightarrow> (case decrypt cy mk (''enc:'' @ blob) TOML_AUTH_KEY of
              Inl _ \<Rightarrow> None | Inr pt \<Rightarrow> Some pt))
      (if lit \<noteq> [] then Some lit else None))"

definition resolve ::
  "Crypto \<Rightarrow> (string \<Rightarrow> string option) \<Rightarrow> MasterKey \<Rightarrow> string \<Rightarrow> string option \<Rightarrow> KeyStore
     \<Rightarrow> string \<times> KeyStore" where
  "resolve cy env mk provider_id literal s =
     (case Option.bind literal (resolve_literal cy mk env) of
        Some k \<Rightarrow> (k, s)
      | None \<Rightarrow> (case env (env_var_of provider_id) of
            Some v \<Rightarrow> if v \<noteq> [] then (v, s)
                      else (case ks_get cy provider_id s of
                              (Inr r, s') \<Rightarrow> (unwrap_or '''' r, s') | (Inl _, s') \<Rightarrow> ('''', s'))
          | None \<Rightarrow> (case ks_get cy provider_id s of
                      (Inr r, s') \<Rightarrow> (unwrap_or '''' r, s') | (Inl _, s') \<Rightarrow> ('''', s'))))"

subsection \<open>Consistency of cache and table\<close>

text \<open>The cache never disagrees with the table: a cached key is what its row decrypts to.\<close>

definition ks_ok :: "Crypto \<Rightarrow> KeyStore \<Rightarrow> bool" where
  "ks_ok cy s \<longleftrightarrow> crypto_ok cy \<and> (\<forall>pid v. ks_cache s pid = Some v \<longrightarrow>
     (\<exists>ct n. ks_table s pid = Some (ct, n) \<and> length n = NONCE_LEN
        \<and> cy_open cy (ks_master s) n ct = Some v))"

lemma crypto_okD:
  assumes "crypto_ok cy"
  shows "\<exists>ct. cy_seal cy k n p = Inr ct \<and> ct \<noteq> [] \<and> cy_open cy k n ct = Some p"
    and "cy_b64_decode cy (trim (cy_b64_encode cy b)) = Some b"
  using assms unfolding crypto_ok_def by blast+

lemma encrypt_decrypt:
  assumes "crypto_ok cy" "length nonce = NONCE_LEN" "cy_utf8 cy p"
  shows "\<exists>blob. encrypt cy mk nonce p purpose = Inr blob \<and> decrypt cy mk blob purpose = Inr p
    \<and> prefix ENC_PREFIX blob"
proof -
  obtain ct where ct: "cy_seal cy (derive_subkey cy mk purpose) nonce p = Inr ct" "ct \<noteq> []"
    "cy_open cy (derive_subkey cy mk purpose) nonce ct = Some p"
    using crypto_okD(1)[OF assms(1)] by blast
  then show ?thesis using assms(2,3) crypto_okD(2)[OF assms(1), of "nonce @ ct"]
    by (simp add: encrypt_def decrypt_def)
qed

definition ks_lookup :: "Crypto \<Rightarrow> KeyStore \<Rightarrow> string \<Rightarrow> string option" where
  "ks_lookup cy s pid = (case fst (ks_get cy pid s) of Inr r \<Rightarrow> r | Inl _ \<Rightarrow> None)"

definition ks_put :: "Crypto \<Rightarrow> string \<Rightarrow> bytes \<times> string \<Rightarrow> KeyStore \<Rightarrow> KeyStore" where
  "ks_put cy pid v s = snd (ks_set cy (fst v) pid (snd v) s)"

lemma ks_ok_set:
  assumes "ks_ok cy s" "length nonce = NONCE_LEN"
  shows "ks_ok cy (snd (ks_set cy nonce pid p s))"
proof -
  obtain ct where "cy_seal cy (ks_master s) nonce p = Inr ct" "cy_open cy (ks_master s) nonce ct = Some p"
    using assms(1) crypto_okD(1) unfolding ks_ok_def by blast
  with assms show ?thesis by (auto simp: ks_set_def ks_ok_def)
qed

lemma ks_ok_delete: "ks_ok cy s \<Longrightarrow> ks_ok cy (ks_delete pid s)"
  by (auto simp: ks_ok_def ks_delete_def)

lemma ks_ok_get: "ks_ok cy s \<Longrightarrow> ks_ok cy (snd (ks_get cy pid s))"
  by (auto simp: ks_get_def ks_ok_def split: option.splits)

lemma ks_lookup_set:
  assumes "ks_ok cy s"
  shows "ks_lookup cy (snd (ks_set cy nonce pid p s)) q = (if q = pid then Some p else ks_lookup cy s q)"
proof -
  obtain ct where "cy_seal cy (ks_master s) nonce p = Inr ct"
    using assms crypto_okD(1) unfolding ks_ok_def by blast
  then show ?thesis by (auto simp: ks_lookup_def ks_set_def ks_get_def split: option.splits)
qed

lemma ks_lookup_delete:
  "ks_lookup cy (ks_delete pid s) q = (if q = pid then None else ks_lookup cy s q)"
  by (auto simp: ks_lookup_def ks_delete_def ks_get_def split: option.splits)

interpretation ks: kv_store "ks_lookup cy" "\<lambda>pid p. snd \<circ> ks_set cy (replicate NONCE_LEN 0) pid p"
    ks_delete "ks_ok cy"
  for cy
  by unfold_locales (simp_all add: ks_lookup_set ks_lookup_delete ks_ok_set ks_ok_delete)

text \<open>A cache that is dropped (a restart) changes no answer.\<close>

lemma ks_lookup_restart:
  assumes "ks_ok cy s" and "\<forall>v \<in> ran (ks_cache s). cy_utf8 cy v"
  shows "ks_lookup cy (keystore_new (ks_master s) (ks_table s)) pid = ks_lookup cy s pid"
proof (cases "ks_cache s pid")
  case None
  then show ?thesis
    by (simp add: ks_lookup_def ks_get_def keystore_new_def split: option.split)
next
  case (Some v)
  then obtain ct n where "ks_table s pid = Some (ct, n)" "length n = NONCE_LEN"
    "cy_open cy (ks_master s) n ct = Some v"
    using assms(1) unfolding ks_ok_def by blast
  moreover have "cy_utf8 cy v" using assms(2) Some by (auto simp: ran_def)
  ultimately show ?thesis using Some by (simp add: ks_lookup_def ks_get_def keystore_new_def)
qed

lemma from_env_strict_length: "from_env_strict cy file env = Inr mk \<Longrightarrow> length mk = KEY_LEN"
  by (auto simp: from_env_strict_def mk_from_text_def mk_from_slice_def mk_from_hex_def
      mk_from_base64_def ok_or_def opt_or_def bind_eq_Some_conv split: option.splits if_split_asm)

subsection \<open>A codec to evaluate with\<close>

text \<open>The identity cipher with a tag byte, and a base64 stand-in without blanks.\<close>

definition toy_crypto :: Crypto where
  "toy_crypto = \<lparr>cy_seal = (\<lambda>k n p. Inr (as_bytes p @ [0])),
     cy_open = (\<lambda>k n ct. if ct = [] then None else Some (map (\<lambda>b. char_of (unat b)) (butlast ct))),
     cy_hkdf = (\<lambda>mk info. mk), cy_hex_decode = (\<lambda>_. None),
     cy_b64_encode = (\<lambda>b. CHR ''x'' # map (\<lambda>x. char_of (unat x)) b @ ''x''),
     cy_b64_decode = (\<lambda>s. Some (as_bytes (butlast (tl s)))),
     cy_utf8 = (\<lambda>_. True)\<rparr>"

lemma char_byte [simp]: "char_of (unat (word_of_nat (of_char c) :: u8)) = c"
  by (simp add: unat_of_nat)

lemma unat_byte_mod [simp]: "unat (b :: u8) mod 256 = unat b"
  using unsigned_less[of b, where ?'a = nat] by simp

lemma trim_solid: "\<not> is_whitespace a \<Longrightarrow> \<not> is_whitespace b \<Longrightarrow> trim (a # s @ [b]) = a # s @ [b]"
  by (simp add: trim_def)

lemma toy_crypto_ok: "crypto_ok toy_crypto"
proof -
  have "\<not> is_whitespace (CHR ''x'')" by (simp add: is_whitespace_def Let_def)
  then show ?thesis
    by (simp add: crypto_ok_def toy_crypto_def as_bytes_def trim_solid comp_def)
qed

subsection \<open>Properties\<close>

text \<open>
  C40. Round trip of an encrypted configuration value: what \<open>encrypt\<close> produces under a purpose
  carries the \<open>enc:\<close> prefix and decrypts, under the same master key and purpose, to the plaintext.
\<close>

theorem encrypt_decrypt_roundtrip:
  assumes "crypto_ok cy" and "length nonce = NONCE_LEN" and "cy_utf8 cy p"
  shows "\<exists>blob. encrypt cy mk nonce p purpose = Inr blob \<and> decrypt cy mk blob purpose = Inr p
    \<and> starts_with blob ''enc:''"
  using encrypt_decrypt[OF assms] by (simp add: ENC_PREFIX_def)

theorem encrypt_decrypt_roundtrip_witness:
  "\<exists>blob. encrypt toy_crypto [] (replicate 12 0) ''sk-1'' TOML_AUTH_KEY = Inr blob
     \<and> decrypt toy_crypto [] blob TOML_AUTH_KEY = Inr ''sk-1''"
  using encrypt_decrypt_roundtrip[OF toy_crypto_ok, of "replicate 12 0" "''sk-1''" "[]" TOML_AUTH_KEY]
  by (auto simp: NONCE_LEN_def toy_crypto_def)

text \<open>
  The credential store is a store: after any sequence of \<open>set\<close> calls a provider's key is the
  one set last (or what it was before), a \<open>get\<close> of it still finds it after the cache is dropped by
  a restart with the same master key, and a deleted provider has none.
\<close>

theorem keystore_last_set_wins:
  assumes "crypto_ok cy" and "ks_cache s = Map.empty" and "\<forall>p. cy_utf8 cy p"
  shows "let s' = fold (\<lambda>(pid, p) st. snd (ks_set cy (replicate NONCE_LEN 0) pid p st)) sets s in
     ks_lookup cy s' q = (case map_of (rev sets) q of None \<Rightarrow> ks_lookup cy s q | Some p \<Rightarrow> Some p)
     \<and> ks_lookup cy (keystore_new (ks_master s') (ks_table s')) q = ks_lookup cy s' q
     \<and> ks_lookup cy (ks_delete q s') q = None"
proof -
  have ok: "ks_ok cy s" using assms(1,2) by (simp add: ks_ok_def)
  let ?s' = "fold (\<lambda>(pid, p) st. snd (ks_set cy (replicate NONCE_LEN 0) pid p st)) sets s"
  have f: "fold (\<lambda>(pid, p). snd \<circ> ks_set cy (replicate NONCE_LEN 0) pid p) sets s = ?s'"
    by (simp add: split_def comp_def)
  have "ks_lookup cy ?s' q = (case map_of (rev sets) q of None \<Rightarrow> ks_lookup cy s q | Some p \<Rightarrow> Some p)"
    using ks.lookup_fold_put[OF ok, of sets q] unfolding f .
  moreover have "ks_ok cy ?s'" using ks.ok_fold_put[OF ok, of sets] unfolding f .
  ultimately show ?thesis
    using ks_lookup_restart[of cy ?s' q] assms(3) by (simp add: Let_def ks_lookup_delete)
qed

theorem keystore_last_set_wins_witness:
  "ks_lookup toy_crypto (snd (ks_set toy_crypto (replicate NONCE_LEN 0) ''openai'' ''k2''
     (snd (ks_set toy_crypto (replicate NONCE_LEN 0) ''openai'' ''k1'' (keystore_new [] Map.empty)))))
     ''openai'' = Some ''k2''"
proof -
  have c: "ks_cache (keystore_new [] Map.empty) = Map.empty" by (simp add: keystore_new_def)
  have u: "\<forall>p. cy_utf8 toy_crypto p" by (simp add: toy_crypto_def)
  from keystore_last_set_wins[OF toy_crypto_ok c u,
      of "[(''openai'', ''k1''), (''openai'', ''k2'')]" "''openai''"]
  show ?thesis by (simp add: Let_def)
qed

text \<open>
  An \<open>enc:\<close> value that does not decrypt is not an error: the resolver returns the ciphertext
  text itself as the provider's API key.
\<close>

theorem undecryptable_literal_is_key:
  assumes "decrypt cy mk (''enc:'' @ blob) TOML_AUTH_KEY = Inl e"
  shows "resolve cy env mk pid (Some (''enc:'' @ blob)) s = (''enc:'' @ blob, s)"
  using assms by (simp add: resolve_def resolve_literal_def env_reference_def strip_prefix_def)

theorem undecryptable_literal_is_key_witness:
  "resolve toy_crypto (\<lambda>_. None) [] ''openai'' (Some ''enc:xx'') (keystore_new [] Map.empty)
     = (''enc:xx'', keystore_new [] Map.empty)"
proof -
  have "trim ''xx'' = ''xx''" by (simp add: trim_def is_whitespace_def)
  then have "decrypt toy_crypto [] (''enc:'' @ ''xx'') TOML_AUTH_KEY = Inl Decrypt"
    by (simp add: decrypt_def toy_crypto_def ENC_PREFIX_def strip_prefix_def as_bytes_def)
  from undecryptable_literal_is_key[OF this] show ?thesis by simp
qed

end
