(* ===== verification/OAuth.thy ===== *)
theory OAuth
  imports Keystore Errors
begin

section \<open>The OAuth token manager\<close>

text \<open>
  \<open>src/oauth/mod.rs\<close>: stored refresh tokens, the refresh grant, and the three ways to obtain a
  refresh token (redirect with PKCE, device code, pasted code). The maps behind the locks are
  partial maps. One call of an operation gets the HTTP client as a function from the request it
  sends to the answer (an operation sends at most one request per URL), the nonces of the
  credential store, the clock and the random values as arguments; JSON text codec, SHA-256 and the
  process environment are arguments too. Values that overflow \<open>chrono\<close>'s range are not modelled.
\<close>

unbundle bit_operations_syntax

record OAuthConfig =
  oc_provider_id :: string
  oc_token_url :: string
  oc_client_id :: string
  oc_client_secret :: "string option"
  oc_extra :: "(string \<times> string) list"
  oc_refresh_buffer_secs :: u64

record OAuthCredentials =
  ocr_access_token :: string
  ocr_refresh_token :: "string option"
  ocr_expires_at :: "nat option"
  ocr_scopes :: "string list"

definition needs_refresh :: "nat \<Rightarrow> OAuthCredentials \<Rightarrow> u64 \<Rightarrow> bool" where
  "needs_refresh now c buffer_secs = (case ocr_expires_at c of
      Some e \<Rightarrow> e \<le> now + unat buffer_secs | None \<Rightarrow> False)"

record DeviceClientCreds =
  dcl_client_id :: string
  dcl_client_secret :: string

record OAuthManager =
  oa_keys :: KeyStore
  oa_cache :: "string \<rightharpoonup> OAuthCredentials"
  oa_configs :: "string \<rightharpoonup> OAuthConfig"
  oa_config_table :: "string \<rightharpoonup> OAuthConfig"
  oa_states :: "string \<rightharpoonup> string"
  oa_pkce_verifiers :: "string \<rightharpoonup> string"
  oa_devices :: "string \<rightharpoonup> string"
  oa_device_clients :: "string \<rightharpoonup> DeviceClientCreds"

definition oauth_new :: "KeyStore \<Rightarrow> (string \<rightharpoonup> OAuthConfig) \<Rightarrow> OAuthManager" where
  "oauth_new ks table = \<lparr>oa_keys = ks, oa_cache = Map.empty, oa_configs = Map.empty,
     oa_config_table = table, oa_states = Map.empty, oa_pkce_verifiers = Map.empty,
     oa_devices = Map.empty, oa_device_clients = Map.empty\<rparr>"

subsection \<open>HTTP\<close>

datatype HttpBody = FormBody "(string \<times> string) list" | RawBody string | JsonBody json

record HttpCall =
  hc_url :: string
  hc_content_type :: string
  hc_body :: HttpBody

record HttpReply =
  hp_status :: u16
  hp_reason :: "string option"
  hp_text :: string
  hp_json :: "json option"

type_synonym http = "HttpCall \<Rightarrow> string + HttpReply"

definition is_success :: "u16 \<Rightarrow> bool" where
  "is_success s \<longleftrightarrow> 200 \<le> s \<and> s < 300"

definition show_status :: "HttpReply \<Rightarrow> string" where
  "show_status r = show_nat (unat (hp_status r)) @ '' ''
     @ unwrap_or ''<unknown status code>'' (hp_reason r)"

definition status_and_text :: "HttpReply \<Rightarrow> string" where
  "status_and_text r = show_nat (unat (hp_status r)) @ '' '' @ unwrap_or '''' (hp_reason r)
     @ '': '' @ hp_text r"

definition reply_json :: "HttpReply \<Rightarrow> string + json" where
  "reply_json r = ok_or ''error decoding response body'' (hp_json r)"

definition FORM_TYPE :: string where
  "FORM_TYPE = ''application/x-www-form-urlencoded''"

subsection \<open>Encodings\<close>

definition unreserved :: "char \<Rightarrow> bool" where
  "unreserved c \<longleftrightarrow> (let n = (of_char c :: nat) in
     (65 \<le> n \<and> n \<le> 90) \<or> (97 \<le> n \<and> n \<le> 122) \<or> (48 \<le> n \<and> n \<le> 57) \<or> c \<in> set ''-_.~'')"

definition hex_digit :: "nat \<Rightarrow> char" where
  "hex_digit n = (if n < 10 then char_of (48 + n) else char_of (55 + n))"

definition urlencoding :: "string \<Rightarrow> string" where
  "urlencoding s = concat (map (\<lambda>c. if unreserved c then [c]
     else [CHR ''%'', hex_digit (of_char c div 16), hex_digit (of_char c mod 16)]) s)"

definition ALPHABET :: string where
  "ALPHABET = ''ABCDEFGHIJKLMNOPQRSTUVWXYZabcdefghijklmnopqrstuvwxyz0123456789-_''"

definition alpha :: "u8 \<Rightarrow> char" where
  "alpha i = ALPHABET ! unat i"

fun base64_url_encode :: "u8 list \<Rightarrow> string" where
  "base64_url_encode (b0 # b1 # b2 # bs) =
     alpha (drop_bit 2 b0)
     # alpha (push_bit 4 (b0 AND 3) OR drop_bit 4 b1)
     # alpha (push_bit 2 (b1 AND 15) OR drop_bit 6 b2)
     # alpha (b2 AND 63)
     # base64_url_encode bs"
| "base64_url_encode [b0] = [alpha (drop_bit 2 b0), alpha (push_bit 4 (b0 AND 3))]"
| "base64_url_encode [b0, b1] =
     [alpha (drop_bit 2 b0), alpha (push_bit 4 (b0 AND 3) OR drop_bit 4 b1),
      alpha (push_bit 2 (b1 AND 15))]"
| "base64_url_encode [] = []"

definition generate_pkce_verifier :: "u8 list \<Rightarrow> string" where
  "generate_pkce_verifier random32 = base64_url_encode random32"

definition pkce_challenge_s256 :: "(string \<Rightarrow> u8 list) \<Rightarrow> string \<Rightarrow> string" where
  "pkce_challenge_s256 sha256 verifier = base64_url_encode (sha256 verifier)"

subsection \<open>Stored refresh tokens\<close>

definition parse_stored_refresh ::
  "(string \<Rightarrow> json option) \<Rightarrow> string \<Rightarrow> string \<times> string option \<times> string option" where
  "parse_stored_refresh parse raw =
     (case Option.bind (parse raw) (\<lambda>v. map_option (Pair v) (get_str ''refresh_token'' v)) of
        Some (v, rt) \<Rightarrow> (rt, get_str ''client_id'' v, get_str ''client_secret'' v)
      | None \<Rightarrow> (raw, None, None))"

definition serialize_stored_refresh ::
  "(json \<Rightarrow> string) \<Rightarrow> string \<Rightarrow> string option \<Rightarrow> string option \<Rightarrow> string" where
  "serialize_stored_refresh to_text rt cid cs = (case (cid, cs) of
      (Some i, Some s) \<Rightarrow> to_text (Object [(''refresh_token'', String rt),
         (''client_id'', String i), (''client_secret'', String s)])
    | _ \<Rightarrow> rt)"

definition oauth_slot :: "string \<Rightarrow> string" where
  "oauth_slot provider_id = ''oauth:'' @ provider_id"

definition lookup_manifest_oauth :: "string \<Rightarrow> ManifestOAuth option" where
  "lookup_manifest_oauth provider_id =
     Option.bind (resolve_alias provider_id) (\<lambda>pt. Option.bind (lookup pt) oauth)"

definition resolve_client_secret :: "(string \<Rightarrow> string option) \<Rightarrow> string \<Rightarrow> string \<Rightarrow> string" where
  "resolve_client_secret env provider_id manifest_secret =
     (if manifest_secret \<noteq> [] then manifest_secret
      else if provider_id = ''google'' then unwrap_or '''' (env ''GOOGLE_OAUTH_CLIENT_SECRET'')
      else '''')"

definition oauth_setup ::
  "Crypto \<Rightarrow> bytes \<Rightarrow> OAuthConfig \<Rightarrow> string \<Rightarrow> OAuthManager \<Rightarrow> (string + unit) \<times> OAuthManager" where
  "oauth_setup cy nonce cfg initial m =
     (let m1 = m\<lparr>oa_configs := (oa_configs m)(oc_provider_id cfg \<mapsto> cfg),
                 oa_config_table := (oa_config_table m)(oc_provider_id cfg \<mapsto> cfg)\<rparr> in
      case ks_set cy nonce (oauth_slot (oc_provider_id cfg)) initial (oa_keys m1) of
        (r, ks) \<Rightarrow> (r, m1\<lparr>oa_keys := ks\<rparr>))"

definition set_refresh_token ::
  "Crypto \<Rightarrow> bytes \<Rightarrow> string \<Rightarrow> string \<Rightarrow> OAuthManager \<Rightarrow> (string + unit) \<times> OAuthManager" where
  "set_refresh_token cy nonce provider_id token m =
     (case ks_set cy nonce (oauth_slot provider_id) token (oa_keys m) of
        (Inl e, ks) \<Rightarrow> (Inl e, m\<lparr>oa_keys := ks\<rparr>)
      | (Inr _, ks) \<Rightarrow> (Inr (), m\<lparr>oa_keys := ks, oa_cache := (oa_cache m)(provider_id := None)\<rparr>))"

subsection \<open>The refresh grant\<close>

definition config_for :: "OAuthManager \<Rightarrow> string \<Rightarrow> OAuthConfig option" where
  "config_for m provider_id = opt_or (oa_configs m provider_id)
     (map_option (\<lambda>o1. \<lparr>oc_provider_id = provider_id, oc_token_url = token_url o1,
        oc_client_id = client_id o1, oc_client_secret = None, oc_extra = [],
        oc_refresh_buffer_secs = 300\<rparr>) (lookup_manifest_oauth provider_id))"

definition refresh_form :: "OAuthConfig \<Rightarrow> string \<Rightarrow> string option \<Rightarrow> string option \<Rightarrow> (string \<times> string) list" where
  "refresh_form cfg rt cid cs =
     [(''grant_type'', ''refresh_token''), (''refresh_token'', rt),
      (''client_id'', unwrap_or (oc_client_id cfg) cid)]
     @ (case opt_or cs (oc_client_secret cfg) of None \<Rightarrow> [] | Some s \<Rightarrow> [(''client_secret'', s)])
     @ oc_extra cfg"

definition split_whitespace :: "string \<Rightarrow> string list" where
  "split_whitespace s = filter (\<lambda>x. x \<noteq> [])
     (split_on (CHR '' '') (map (\<lambda>c. if is_whitespace c then CHR '' '' else c) s))"

record Codec =
  co_parse :: "string \<Rightarrow> json option"
  co_text :: "json \<Rightarrow> string"

definition token_answer :: "nat \<Rightarrow> string \<Rightarrow> json \<Rightarrow> string + OAuthCredentials" where
  "token_answer now rt v =
     and_then (ok_or ''OAuth response missing access_token'' (get_str ''access_token'' v)) (\<lambda>acc.
     Inr \<lparr>ocr_access_token = acc,
          ocr_refresh_token = opt_or (get_str ''refresh_token'' v) (Some rt),
          ocr_expires_at = map_option (\<lambda>secs. now + unat secs) (get_u64 ''expires_in'' v),
          ocr_scopes = unwrap_or [] (map_option split_whitespace (get_str ''scope'' v))\<rparr>)"

definition oauth_refresh ::
  "Crypto \<Rightarrow> Codec \<Rightarrow> http \<Rightarrow> bytes \<Rightarrow> nat \<Rightarrow> string \<Rightarrow> OAuthManager
     \<Rightarrow> (string + string option) \<times> OAuthManager" where
  "oauth_refresh cy co http nonce now provider_id m0 =
     (let (got, ks) = ks_get cy (oauth_slot provider_id) (oa_keys m0);
          m = m0\<lparr>oa_keys := ks\<rparr> in
      case config_for m0 provider_id of
        None \<Rightarrow> (Inr None, m)
      | Some cfg \<Rightarrow> (case (case got of Inl _ \<Rightarrow> None | Inr r \<Rightarrow> r) of
          None \<Rightarrow> (Inr None, m)
        | Some raw \<Rightarrow>
           (let (rt, cid, cs) = parse_stored_refresh (co_parse co) raw in
            case http \<lparr>hc_url = oc_token_url cfg, hc_content_type = FORM_TYPE,
                       hc_body = FormBody (refresh_form cfg rt cid cs)\<rparr> of
              Inl e \<Rightarrow> (Inl e, m)
            | Inr resp \<Rightarrow>
                if \<not> is_success (hp_status resp)
                then (Inl (''OAuth refresh for '' @ provider_id @ '' returned ''
                        @ show_status resp @ '': '' @ hp_text resp), m)
                else (case and_then (reply_json resp) (token_answer now rt) of
                    Inl e \<Rightarrow> (Inl e, m)
                  | Inr creds \<Rightarrow>
                     (let m1 = m\<lparr>oa_cache := (oa_cache m)(provider_id \<mapsto> creds)\<rparr> in
                      case ocr_refresh_token creds of
                        None \<Rightarrow> (Inr (Some (ocr_access_token creds)), m1)
                      | Some new \<Rightarrow>
                         (case ks_set cy nonce (oauth_slot provider_id)
                                 (serialize_stored_refresh (co_text co) new cid cs) (oa_keys m1) of
                            (Inl e, ks1) \<Rightarrow> (Inl e, m1\<lparr>oa_keys := ks1\<rparr>)
                          | (Inr _, ks1) \<Rightarrow> (Inr (Some (ocr_access_token creds)),
                                          m1\<lparr>oa_keys := ks1\<rparr>)))))))"

definition access_token ::
  "Crypto \<Rightarrow> Codec \<Rightarrow> http \<Rightarrow> bytes \<Rightarrow> nat \<Rightarrow> string \<Rightarrow> OAuthManager
     \<Rightarrow> (string + string option) \<times> OAuthManager" where
  "access_token cy co http nonce now provider_id m =
     (case oa_cache m provider_id of
        Some c \<Rightarrow>
          if \<not> needs_refresh now c (unwrap_or 300 (map_option oc_refresh_buffer_secs
                 (oa_configs m provider_id)))
          then (Inr (Some (ocr_access_token c)), m)
          else oauth_refresh cy co http nonce now provider_id m
      | None \<Rightarrow> oauth_refresh cy co http nonce now provider_id m)"

text \<open>One round of the background task over the ids of \<open>oa_configs\<close>; errors are logged.\<close>

definition refresh_round ::
  "Crypto \<Rightarrow> Codec \<Rightarrow> http \<Rightarrow> bytes \<Rightarrow> nat \<Rightarrow> string list \<Rightarrow> OAuthManager \<Rightarrow> OAuthManager" where
  "refresh_round cy co http nonce now pids m =
     fold (\<lambda>pid m. snd (oauth_refresh cy co http nonce now pid m)) pids m"

subsection \<open>Redirect flow\<close>

definition effective_redirect :: "ManifestOAuth \<Rightarrow> string \<Rightarrow> string" where
  "effective_redirect cfg uri = (if redirect_uri cfg = [] then uri else redirect_uri cfg)"

definition DEFAULT_SCOPE :: string where
  "DEFAULT_SCOPE = ''openid profile email offline_access''"

definition popup_url :: "ManifestOAuth \<Rightarrow> string \<Rightarrow> string \<Rightarrow> string \<Rightarrow> string" where
  "popup_url cfg uri state challenge =
     (let sc = (if scope cfg = [] then DEFAULT_SCOPE else replace_chars [CHR '' ''] (CHR ''+'') (scope cfg)) in
      authorize_url cfg @ ''?response_type=code&client_id='' @ urlencoding (client_id cfg)
      @ ''&redirect_uri='' @ urlencoding (effective_redirect cfg uri)
      @ ''&state='' @ urlencoding state @ ''&scope='' @ urlencoding sc
      @ concat (map (\<lambda>(k, v). ''&'' @ urlencoding k @ ''='' @ urlencoding v)
          (extra_authorize_params cfg))
      @ (if requires_pkce cfg
         then ''&code_challenge='' @ urlencoding challenge @ ''&code_challenge_method=S256'' else ''''))"

definition start_popup_oauth ::
  "(string \<Rightarrow> u8 list) \<Rightarrow> string \<Rightarrow> u8 list \<Rightarrow> string \<Rightarrow> string \<Rightarrow> OAuthManager
     \<Rightarrow> (string + string \<times> string) \<times> OAuthManager" where
  "start_popup_oauth sha256 uuid random32 provider_id uri m =
     (case lookup_manifest_oauth provider_id of
        None \<Rightarrow> (Inl (''provider '' @ provider_id @ '' has no OAuth config or is not popup_oauth''), m)
      | Some cfg \<Rightarrow>
          if authorize_url cfg = []
          then (Inl (''provider '' @ provider_id @ '' is not popup_oauth (no authorize_url)''), m)
          else if is_anthropic_paste_code cfg
          then (Inl (''provider '' @ provider_id @ '' uses the paste-code flow (POST /admin/oauth/''
                  @ provider_id @ ''/paste) not popup''), m)
          else (let state = provider_id @ ''.'' @ uuid;
                    verifier = generate_pkce_verifier random32;
                    url = popup_url cfg uri state (pkce_challenge_s256 sha256 verifier) in
                (Inr (url, state),
                 m\<lparr>oa_states := (oa_states m)(state \<mapsto> provider_id),
                   oa_pkce_verifiers := (oa_pkce_verifiers m)(state \<mapsto> verifier)\<rparr>)))"

definition popup_form ::
  "(string \<Rightarrow> string option) \<Rightarrow> ManifestOAuth \<Rightarrow> string \<Rightarrow> string \<Rightarrow> string \<Rightarrow> string option
     \<Rightarrow> (string \<times> string) list" where
  "popup_form env cfg provider_id code uri verifier =
     (let secret = resolve_client_secret env provider_id (client_secret cfg) in
      [(''grant_type'', ''authorization_code''), (''code'', code),
       (''redirect_uri'', effective_redirect cfg uri), (''client_id'', client_id cfg)]
      @ (case verifier of None \<Rightarrow> [] | Some v \<Rightarrow> [(''code_verifier'', v)])
      @ (if secret = [] then [] else [(''client_secret'', secret)]))"

text \<open>The common end of the exchanges: the answer's refresh token, or the error.\<close>

definition exchange_refresh :: "string \<Rightarrow> string \<Rightarrow> (HttpReply \<Rightarrow> string) \<Rightarrow> string + HttpReply \<Rightarrow> string + string" where
  "exchange_refresh failed missing show_reply answer = and_then answer (\<lambda>resp.
     if \<not> is_success (hp_status resp) then Inl (failed @ show_reply resp)
     else and_then (reply_json resp) (\<lambda>v. ok_or missing (get_str ''refresh_token'' v)))"

definition complete_popup_oauth ::
  "Crypto \<Rightarrow> http \<Rightarrow> bytes \<Rightarrow> (string \<Rightarrow> string option) \<Rightarrow> string \<Rightarrow> string \<Rightarrow> string \<Rightarrow> string
     \<Rightarrow> OAuthManager \<Rightarrow> (string + unit) \<times> OAuthManager" where
  "complete_popup_oauth cy http nonce env provider_id code state uri m0 =
     (case oa_states m0 state of
        None \<Rightarrow> (Inl ''invalid or expired state'', m0)
      | Some expected \<Rightarrow>
         (let m1 = m0\<lparr>oa_states := (oa_states m0)(state := None)\<rparr> in
          if expected \<noteq> provider_id then (Inl ''state was issued for a different provider'', m1)
          else (case lookup_manifest_oauth provider_id of
              None \<Rightarrow> (Inl (''provider '' @ provider_id @ '' has no OAuth config''), m1)
            | Some cfg \<Rightarrow>
               (let verifier = oa_pkce_verifiers m1 state;
                    m2 = m1\<lparr>oa_pkce_verifiers := (oa_pkce_verifiers m1)(state := None)\<rparr>;
                    answer = http \<lparr>hc_url = token_url cfg, hc_content_type = FORM_TYPE,
                      hc_body = FormBody (popup_form env cfg provider_id code uri verifier)\<rparr> in
                case exchange_refresh ''token exchange failed: ''
                       ''token response missing refresh_token'' status_and_text answer of
                  Inl e \<Rightarrow> (Inl e, m2)
                | Inr new \<Rightarrow> set_refresh_token cy nonce provider_id new m2))))"

subsection \<open>Pasted codes\<close>

text \<open>\<open>rsplit_once\<close>: cut at the last delimiter.\<close>

definition rsplit_once :: "char \<Rightarrow> string \<Rightarrow> (string \<times> string) option" where
  "rsplit_once d s = map_option (\<lambda>(a, b). (rev b, rev a)) (split_once d (rev s))"

definition paste_parts :: "string \<Rightarrow> string \<times> string" where
  "paste_parts pasted = (let trimmed = trim pasted in
     case rsplit_once (CHR ''#'') trimmed of
       Some (c, s) \<Rightarrow> (trim c, trim s) | None \<Rightarrow> (trimmed, ''''))"

definition paste_anthropic_code ::
  "Crypto \<Rightarrow> http \<Rightarrow> bytes \<Rightarrow> string \<Rightarrow> string \<Rightarrow> OAuthManager \<Rightarrow> (string + string) \<times> OAuthManager" where
  "paste_anthropic_code cy http nonce provider_id pasted m =
     (case lookup_manifest_oauth provider_id of
        None \<Rightarrow> (Inl (''provider '' @ provider_id @ '' has no OAuth config''), m)
      | Some cfg \<Rightarrow>
          if \<not> is_anthropic_paste_code cfg
          then (Inl (''provider '' @ provider_id @ '' does not support the paste-code flow''), m)
          else (let (code, state) = paste_parts pasted in
            if code = [] then (Inl ''pasted code is empty'', m)
            else (let form = [(''client_id'', client_id cfg), (''code'', code)]
                      @ (if state = [] then [] else [(''code_verifier'', state)])
                      @ [(''grant_type'', ''authorization_code''),
                         (''redirect_uri'', paste_code_redirect_url cfg)];
                      answer = http \<lparr>hc_url = token_url cfg, hc_content_type = FORM_TYPE,
                        hc_body = FormBody form\<rparr> in
                  case exchange_refresh ''Anthropic token exchange failed: ''
                         (''Anthropic exchange returned no refresh_token. ''
                          @ ''The code may be expired or already used. Re-run the paste flow.'')
                         (\<lambda>r. show_nat (unat (hp_status r)) @ '' '' @ unwrap_or '''' (hp_reason r)
                            @ '': '' @ take 300 (hp_text r)) answer of
                    Inl e \<Rightarrow> (Inl e, m)
                  | Inr rt \<Rightarrow> (case set_refresh_token cy nonce provider_id rt m of
                      (Inl e, m1) \<Rightarrow> (Inl e, m1)
                    | (Inr _, m1) \<Rightarrow> (Inr rt, m1)))))"

subsection \<open>Device flow\<close>

function trim_end_str :: "string \<Rightarrow> string \<Rightarrow> string" where
  "trim_end_str p s = (if p \<noteq> [] \<and> ends_with s p
     then trim_end_str p (take (length s - length p) s) else s)"
  by pat_completeness auto
termination by (relation "measure (length \<circ> snd)") (auto simp: suffix_def)

declare trim_end_str.simps [simp del]

function replace_str :: "string \<Rightarrow> string \<Rightarrow> string \<Rightarrow> string" where
  "replace_str p r s = (case s of [] \<Rightarrow> []
     | c # cs \<Rightarrow> if p \<noteq> [] \<and> starts_with s p then r @ replace_str p r (drop (length p) s)
               else c # replace_str p r cs)"
  by pat_completeness auto
termination by (relation "measure (\<lambda>(p, r, s). length s)") (auto simp: prefix_def)

declare replace_str.simps [simp del]

text \<open>\<open>x as u64\<close> of a float saturates and truncates.\<close>

definition f64_as_u64 :: "f64 \<Rightarrow> u64" where
  "f64_as_u64 x = (if x \<le> 0 then 0 else if 2 ^ 64 \<le> x then - 1 else of_nat (nat \<lfloor>x\<rfloor>))"

record DeviceFlowInfo =
  di_device_code :: string
  di_user_code :: string
  di_verification_uri :: string
  di_interval :: u64
  di_expires_in :: u64

definition is_aws :: "string \<Rightarrow> bool" where
  "is_aws url \<longleftrightarrow> contains url ''amazonaws.com''"

definition register_url :: "string \<Rightarrow> string" where
  "register_url url = trim_end_str ''/device_authorization''
     (trim_end_str ''/deviceAuthorization'' url) @ ''/client/register''"

definition register_body :: "string \<Rightarrow> json" where
  "register_body sc = Object [(''clientName'', String ''Manifest''), (''clientType'', String ''public''),
     (''scopes'', Array (map String (split_whitespace sc))),
     (''grantTypes'', Array [String ''urn:ietf:params:oauth:grant-type:device_code'',
        String ''refresh_token''])]"

text \<open>The client of the flow: registered first for AWS, the manifest's otherwise.\<close>

definition flow_client :: "http \<Rightarrow> string \<Rightarrow> ManifestOAuth \<Rightarrow> string \<Rightarrow> string + string \<times> string option" where
  "flow_client http provider_id cfg sc =
     (if \<not> is_aws (device_code_url cfg) then Inr (client_id cfg, None)
      else and_then (http \<lparr>hc_url = register_url (device_code_url cfg),
               hc_content_type = ''application/json'', hc_body = JsonBody (register_body sc)\<rparr>) (\<lambda>reg.
        if \<not> is_success (hp_status reg)
        then Inl (provider_id @ '' registerClient failed: '' @ status_and_text reg)
        else and_then (reply_json reg) (\<lambda>v.
          and_then (ok_or (provider_id @ '' registerClient: missing client_id'') (get_str ''clientId'' v))
            (\<lambda>cid. Inr (cid, Some (unwrap_or '''' (get_str ''clientSecret'' v)))))))"

definition device_call ::
  "ManifestOAuth \<Rightarrow> string \<Rightarrow> string \<Rightarrow> string option \<Rightarrow> string \<Rightarrow> HttpCall" where
  "device_call cfg sc cid cs challenge = (case cs of
      Some secret \<Rightarrow> \<lparr>hc_url = device_code_url cfg, hc_content_type = ''application/json'',
         hc_body = JsonBody (Object [(''clientId'', String cid), (''clientSecret'', String secret),
           (''startUrl'', String ''https://view.awsapps.com/start'')])\<rparr>
    | None \<Rightarrow> \<lparr>hc_url = device_code_url cfg, hc_content_type = FORM_TYPE,
         hc_body = RawBody (''client_id='' @ urlencoding cid @ ''&scope='' @ urlencoding sc
           @ (if device_response_camelcase cfg
              then ''&code_challenge='' @ urlencoding challenge @ ''&code_challenge_method=S256''
              else ''''))\<rparr>)"

definition device_field :: "string \<Rightarrow> string option \<Rightarrow> string + string" where
  "device_field name x = ok_or (''device_code response missing '' @ name) x"

definition minimax_expiry :: "nat \<Rightarrow> json \<Rightarrow> u64 option" where
  "minimax_expiry now_ms v = opt_or
     (map_option (\<lambda>ms. f64_as_u64 (max 1 ((ms - of_nat now_ms) / 1000)))
        (Option.bind (jget ''expired_in'' v) as_f64))
     (map_option (\<lambda>s. s div 1000) (get_u64 ''expired_in'' v))"

text \<open>Device code, user code, verification URI, interval and expiry of the three answer shapes.\<close>

definition device_answer ::
  "ManifestOAuth \<Rightarrow> nat \<Rightarrow> json
     \<Rightarrow> string + string \<times> string \<times> string \<times> u64 option \<times> u64 option" where
  "device_answer cfg now_ms v =
     (if device_response_camelcase cfg then
        and_then (device_field ''user_code'' (get_str ''user_code'' v)) (\<lambda>uc.
        and_then (device_field ''verification_uri'' (get_str ''verification_uri'' v)) (\<lambda>vu.
        Inr (uc, uc, vu, get_u64 ''interval'' v, minimax_expiry now_ms v)))
      else if is_aws (device_code_url cfg) then
        and_then (device_field ''deviceCode'' (get_str ''deviceCode'' v)) (\<lambda>dc.
        and_then (device_field ''userCode'' (get_str ''userCode'' v)) (\<lambda>uc.
        and_then (device_field ''verificationUri''
            (Option.bind (opt_or (jget ''verificationUriComplete'' v) (jget ''verificationUri'' v)) as_str))
          (\<lambda>vu. Inr (dc, uc, vu, get_u64 ''interval'' v, get_u64 ''expiresIn'' v))))
      else
        and_then (device_field ''device_code'' (get_str ''device_code'' v)) (\<lambda>dc.
        and_then (device_field ''user_code'' (get_str ''user_code'' v)) (\<lambda>uc.
        and_then (device_field ''verification_uri''
            (Option.bind (opt_or (jget ''verification_uri'' v) (jget ''verification_url'' v)) as_str))
          (\<lambda>vu. Inr (dc, uc, vu, get_u64 ''interval'' v, get_u64 ''expires_in'' v)))))"

definition start_device_flow ::
  "(string \<Rightarrow> u8 list) \<Rightarrow> http \<Rightarrow> u8 list \<Rightarrow> nat \<Rightarrow> string \<Rightarrow> OAuthManager
     \<Rightarrow> (string + DeviceFlowInfo) \<times> OAuthManager" where
  "start_device_flow sha256 http random32 now_ms provider_id m =
     (case lookup_manifest_oauth provider_id of
        None \<Rightarrow> (Inl (''provider '' @ provider_id @ '' has no OAuth config''), m)
      | Some cfg \<Rightarrow>
          if device_code_url cfg = []
          then (Inl (''provider '' @ provider_id @ '' is not device_code''), m)
          else (let sc = (if scope cfg = [] then DEFAULT_SCOPE else scope cfg) in
            case flow_client http provider_id cfg sc of
              Inl e \<Rightarrow> (Inl e, m)
            | Inr (cid, cs) \<Rightarrow>
               (let verifier = generate_pkce_verifier random32;
                    answer = http (device_call cfg sc cid cs (pkce_challenge_s256 sha256 verifier)) in
                case and_then answer (\<lambda>resp.
                       if \<not> is_success (hp_status resp)
                       then Inl (''device_code request failed: '' @ status_and_text resp)
                       else and_then (reply_json resp) (device_answer cfg now_ms)) of
                  Inl e \<Rightarrow> (Inl e, m)
                | Inr (dc, uc, vu, iv, ei) \<Rightarrow>
                    (Inr \<lparr>di_device_code = dc, di_user_code = uc,
                          di_verification_uri = (if provider_id = ''minimax''
                            then replace_str ''www.minimax.io'' ''platform.minimax.io'' vu else vu),
                          di_interval = unwrap_or 5 iv, di_expires_in = unwrap_or 600 ei\<rparr>,
                     m\<lparr>oa_devices := (oa_devices m)(dc \<mapsto> provider_id),
                       oa_pkce_verifiers := (if device_response_camelcase cfg
                         then (oa_pkce_verifiers m)(dc \<mapsto> verifier) else oa_pkce_verifiers m),
                       oa_device_clients := (case cs of None \<Rightarrow> oa_device_clients m
                         | Some secret \<Rightarrow> (oa_device_clients m)(dc \<mapsto>
                             \<lparr>dcl_client_id = cid, dcl_client_secret = secret\<rparr>))\<rparr>))))"

text \<open>The token request of a poll.\<close>

definition poll_grant :: "string \<Rightarrow> ManifestOAuth \<Rightarrow> string" where
  "poll_grant provider_id cfg =
     (if provider_id = ''minimax'' then ''urn:ietf:params:oauth:grant-type:user_code''
      else if is_aws (token_url cfg) then ''device_code''
      else ''urn:ietf:params:oauth:grant-type:device_code'')"

definition poll_call ::
  "string \<Rightarrow> ManifestOAuth \<Rightarrow> string \<Rightarrow> DeviceClientCreds option \<Rightarrow> string option \<Rightarrow> HttpCall" where
  "poll_call provider_id cfg dc registered verifier =
     (let cid = unwrap_or (client_id cfg) (map_option dcl_client_id registered);
          secret = map_option dcl_client_secret registered; grant = poll_grant provider_id cfg in
      if is_aws (token_url cfg) then
        \<lparr>hc_url = token_url cfg, hc_content_type = ''application/json'',
         hc_body = JsonBody (Object [(''clientId'', String cid),
           (''clientSecret'', String (unwrap_or '''' secret)), (''grantType'', String grant),
           (''deviceCode'', String dc)])\<rparr>
      else
        \<lparr>hc_url = token_url cfg, hc_content_type = FORM_TYPE, hc_body = RawBody
          (if provider_id = ''minimax''
           then ''grant_type='' @ urlencoding grant @ ''&client_id='' @ urlencoding cid
             @ ''&code_verifier='' @ urlencoding (unwrap_or '''' verifier)
           else ''grant_type='' @ urlencoding grant @ ''&device_code='' @ urlencoding dc
             @ ''&client_id='' @ urlencoding cid
             @ (case secret of None \<Rightarrow> '''' | Some s \<Rightarrow> ''&client_secret='' @ urlencoding s))\<rparr>)"

definition forget_device :: "string \<Rightarrow> OAuthManager \<Rightarrow> OAuthManager" where
  "forget_device dc m = m\<lparr>oa_devices := (oa_devices m)(dc := None),
     oa_device_clients := (oa_device_clients m)(dc := None)\<rparr>"

text \<open>The answer of a poll; a body that is not JSON is an error before the status is looked at.\<close>

definition poll_answer ::
  "Crypto \<Rightarrow> Codec \<Rightarrow> bytes \<Rightarrow> string \<Rightarrow> string \<Rightarrow> DeviceClientCreds option \<Rightarrow> HttpReply \<Rightarrow> json
     \<Rightarrow> OAuthManager \<Rightarrow> (string + bool) \<times> OAuthManager" where
  "poll_answer cy co nonce provider_id dc registered resp body m =
     (if is_success (hp_status resp) then
        (case get_str ''refresh_token'' body of
           None \<Rightarrow> (Inl ''token response missing refresh_token'', m)
         | Some new \<Rightarrow>
            (let blob = serialize_stored_refresh (co_text co) new
                   (map_option dcl_client_id registered) (map_option dcl_client_secret registered) in
             case ks_set cy nonce (oauth_slot provider_id) blob (oa_keys m) of
               (Inl e, ks) \<Rightarrow> (Inl e, m\<lparr>oa_keys := ks\<rparr>)
             | (Inr _, ks) \<Rightarrow> (Inr True, forget_device dc (m\<lparr>oa_keys := ks\<rparr>))))
      else (let err = unwrap_or '''' (get_str ''error'' body) in
        if err = ''authorization_pending'' \<or> err = ''slow_down'' then (Inr False, m)
        else if err = ''expired_token'' \<or> err = ''access_denied''
        then (Inl (''device_code rejected: '' @ err), forget_device dc m)
        else (Inl (''device_code poll failed: '' @ show_nat (unat (hp_status resp)) @ '' '' @ err
                @ '': '' @ co_text co body), m)))"

definition poll_device_flow ::
  "Crypto \<Rightarrow> Codec \<Rightarrow> http \<Rightarrow> bytes \<Rightarrow> string \<Rightarrow> OAuthManager \<Rightarrow> (string + bool) \<times> OAuthManager" where
  "poll_device_flow cy co http nonce dc m =
     (case oa_devices m dc of
        None \<Rightarrow> (Inl ''device_code not found (expired or never issued)'', m)
      | Some provider_id \<Rightarrow> (case lookup_manifest_oauth provider_id of
          None \<Rightarrow> (Inl (''provider '' @ provider_id @ '' has no OAuth config''), m)
        | Some cfg \<Rightarrow>
           (let registered = oa_device_clients m dc;
                minimax = provider_id = ''minimax'';
                verifier = (if minimax then oa_pkce_verifiers m dc else None);
                m1 = (if minimax then m\<lparr>oa_pkce_verifiers := (oa_pkce_verifiers m)(dc := None)\<rparr> else m) in
            case http (poll_call provider_id cfg dc registered verifier) of
              Inl e \<Rightarrow> (Inl e, m1)
            | Inr resp \<Rightarrow> (case reply_json resp of
                Inl e \<Rightarrow> (Inl e, m1)
              | Inr body \<Rightarrow> poll_answer cy co nonce provider_id dc registered resp body m1))))"

subsection \<open>The stored token\<close>

lemma ks_lookup_get [simp]: "ks_lookup cy (snd (ks_get cy q s)) p = ks_lookup cy s p"
  by (auto simp: ks_lookup_def ks_get_def split: option.splits)

lemma ks_get_lookup: "ks_lookup cy s p = (case fst (ks_get cy p s) of Inl _ \<Rightarrow> None | Inr r \<Rightarrow> r)"
  by (simp add: ks_lookup_def split: sum.split)

lemma ks_set_Inr: "ks_ok cy s \<Longrightarrow> \<exists>ks. ks_set cy nonce p v s = (Inr (), ks)"
  using crypto_okD(1) [of cy "ks_master s" nonce v] by (auto simp: ks_set_def ks_ok_def)

text \<open>The text codec reads back the object that is stored for a registered client.\<close>

definition stored_object :: "string \<Rightarrow> string \<Rightarrow> string \<Rightarrow> json" where
  "stored_object rt cid cs = Object [(''refresh_token'', String rt), (''client_id'', String cid),
     (''client_secret'', String cs)]"

definition codec_ok :: "Codec \<Rightarrow> bool" where
  "codec_ok co \<longleftrightarrow> (\<forall>rt cid cs. co_parse co (co_text co (stored_object rt cid cs))
     = Some (stored_object rt cid cs))"

lemma parse_serialize_client:
  assumes "codec_ok co"
  shows "parse_stored_refresh (co_parse co) (serialize_stored_refresh (co_text co) rt (Some cid) (Some cs))
     = (rt, Some cid, Some cs)"
  using assms unfolding codec_ok_def
  by (simp add: parse_stored_refresh_def serialize_stored_refresh_def get_str_def
      stored_object_def)

lemma token_answer_refresh: "token_answer now rt v = Inr c \<Longrightarrow> ocr_refresh_token c \<noteq> None"
  by (auto simp: token_answer_def and_then_Inr_iff opt_or_def split: option.split)

text \<open>What a successful refresh has done.\<close>

lemma oauth_refresh_Some:
  assumes "ks_ok cy (oa_keys m)"
    and "oauth_refresh cy co http nonce now pid m = (Inr (Some tok), m')"
  shows "\<exists>raw rt cid cs creds new. ks_lookup cy (oa_keys m) (oauth_slot pid) = Some raw
     \<and> parse_stored_refresh (co_parse co) raw = (rt, cid, cs)
     \<and> ocr_access_token creds = tok \<and> ocr_refresh_token creds = Some new
     \<and> m' = m\<lparr>oa_cache := (oa_cache m)(pid \<mapsto> creds),
              oa_keys := snd (ks_set cy nonce (oauth_slot pid) (serialize_stored_refresh (co_text co) new cid cs)
                 (snd (ks_get cy (oauth_slot pid) (oa_keys m))))\<rparr>"
proof -
  obtain got ks where g: "ks_get cy (oauth_slot pid) (oa_keys m) = (got, ks)"
    by (cases "ks_get cy (oauth_slot pid) (oa_keys m)")
  note a = assms(2) [unfolded oauth_refresh_def g Let_def prod.case]
  obtain cfg where c: "config_for m pid = Some cfg" using a by (cases "config_for m pid") auto
  obtain raw where r: "got = Inr (Some raw)" using a c by (auto split: sum.splits option.splits)
  obtain rt cid cs where p: "parse_stored_refresh (co_parse co) raw = (rt, cid, cs)"
    by (cases "parse_stored_refresh (co_parse co) raw")
  obtain resp creds where h: "is_success (hp_status resp)"
      "and_then (reply_json resp) (token_answer now rt) = Inr creds"
      "http \<lparr>hc_url = oc_token_url cfg, hc_content_type = FORM_TYPE,
        hc_body = FormBody (refresh_form cfg rt cid cs)\<rparr> = Inr resp"
    using a c r p by (auto split: sum.splits if_splits)
  obtain new where n: "ocr_refresh_token creds = Some new"
    using h(2) token_answer_refresh by (fastforce simp: and_then_Inr_iff)
  obtain ks1 where k: "ks_set cy nonce (oauth_slot pid) (serialize_stored_refresh (co_text co) new cid cs) ks
      = (Inr (), ks1)"
    using ks_set_Inr ks_ok_get [OF assms(1), of "oauth_slot pid"] g by fastforce
  have "ks_lookup cy (oa_keys m) (oauth_slot pid) = Some raw" using g r by (simp add: ks_get_lookup)
  moreover have "tok = ocr_access_token creds \<and> m' = m\<lparr>oa_cache := (oa_cache m)(pid \<mapsto> creds), oa_keys := ks1\<rparr>"
    using a c r p h n k by simp
  ultimately show ?thesis using p n k g by fastforce
qed

text \<open>What a failed refresh leaves alone.\<close>

lemma oauth_refresh_Inl:
  assumes "ks_ok cy (oa_keys m)" and "oauth_refresh cy co http nonce now pid m = (Inl e, m')"
  shows "m' = m\<lparr>oa_keys := snd (ks_get cy (oauth_slot pid) (oa_keys m))\<rparr>"
proof -
  obtain got ks where g: "ks_get cy (oauth_slot pid) (oa_keys m) = (got, ks)"
    by (cases "ks_get cy (oauth_slot pid) (oa_keys m)")
  have "ks_ok cy ks" using ks_ok_get [OF assms(1), of "oauth_slot pid"] g by simp
  then have no: "ks_set cy nonce p v ks \<noteq> (Inl x, y)" for p v x y
    using ks_set_Inr [of cy ks nonce p v] by auto
  show ?thesis using assms(2) g no
    by (auto simp: oauth_refresh_def Let_def split: option.splits sum.splits prod.splits if_splits)
qed

lemma access_token_fresh:
  assumes "oa_cache m pid = Some c"
    and "\<not> needs_refresh now c (unwrap_or 300 (map_option oc_refresh_buffer_secs (oa_configs m pid)))"
  shows "access_token cy co http nonce now pid m = (Inr (Some (ocr_access_token c)), m)"
  using assms by (simp add: access_token_def)

subsection \<open>Base64url\<close>

definition alpha_index :: "char \<Rightarrow> u8" where
  "alpha_index c = of_nat (length (takeWhile (\<lambda>d. d \<noteq> c) ALPHABET))"

fun base64_url_decode :: "string \<Rightarrow> u8 list" where
  "base64_url_decode (c0 # c1 # c2 # c3 # cs) =
     (push_bit 2 (alpha_index c0) OR drop_bit 4 (alpha_index c1))
     # (push_bit 4 (alpha_index c1) OR drop_bit 2 (alpha_index c2))
     # (push_bit 6 (alpha_index c2) OR alpha_index c3)
     # base64_url_decode cs"
| "base64_url_decode [c0, c1] = [push_bit 2 (alpha_index c0) OR drop_bit 4 (alpha_index c1)]"
| "base64_url_decode [c0, c1, c2] =
     [push_bit 2 (alpha_index c0) OR drop_bit 4 (alpha_index c1),
      push_bit 4 (alpha_index c1) OR drop_bit 2 (alpha_index c2)]"
| "base64_url_decode _ = []"

lemma length_ALPHABET [simp]: "length ALPHABET = 64"
  by (simp add: ALPHABET_def)

lemma alphabet_table:
  "list_all (\<lambda>i. alpha_index (alpha (of_nat i)) = of_nat i \<and> unreserved (alpha (of_nat i))) [0..<64]"
  by code_simp

lemma alpha_ok: assumes "i < 64" shows "alpha_index (alpha i) = i \<and> unreserved (alpha i)"
proof -
  have "unat i \<in> set [0..<64]" using assms by (simp add: word_less_nat_alt)
  with alphabet_table have "alpha_index (alpha (of_nat (unat i))) = of_nat (unat i)
      \<and> unreserved (alpha (of_nat (unat i)))"
    unfolding list_all_iff by blast
  then show ?thesis by simp
qed

lemma less_8_cases:
  "n < 8 \<Longrightarrow> n = 0 \<or> n = Suc 0 \<or> n = 2 \<or> n = 3 \<or> n = 4 \<or> n = 5 \<or> n = 6 \<or> n = (7 :: nat)"
  by arith

lemma byte_bits:
  assumes "bit a 0 = bit b 0" "bit a (Suc 0) = bit b (Suc 0)" "bit a 2 = bit b 2" "bit a 3 = bit b 3"
    "bit a 4 = bit b 4" "bit a 5 = bit b 5" "bit a 6 = bit b 6" "bit a 7 = bit b 7"
  shows "a = (b :: u8)"
  using assms by (intro bit_word_eqI) (auto dest!: less_8_cases)

lemma byte_top: "8 \<le> n \<Longrightarrow> \<not> bit (x :: u8) n"
  using bit_imp_le_length [of x n] by auto

lemma less_64: "take_bit 6 x = x \<Longrightarrow> (x :: u8) < 64"
proof -
  assume "take_bit 6 x = x"
  then have "unat x = take_bit 6 (unat x)" by (metis unsigned_take_bit_eq)
  also have "\<dots> < 64" using take_bit_nat_less_exp [of 6 "unat x"] by simp
  finally show ?thesis by (simp add: word_less_nat_alt)
qed

lemma suc_numerals: "(Suc (Suc 0)) = 2" "Suc (Suc (Suc 0)) = 3" by simp_all

lemma sextets:
  fixes b0 b1 b2 :: u8
  shows "drop_bit 2 b0 < 64" "push_bit 4 (b0 AND 3) < 64" "push_bit 4 (b0 AND 3) OR drop_bit 4 b1 < 64"
    "push_bit 2 (b1 AND 15) < 64" "push_bit 2 (b1 AND 15) OR drop_bit 6 b2 < 64" "b2 AND 63 < 64"
  by (rule less_64, rule byte_bits; simp add: bit_simps byte_top suc_numerals)+

lemma octets:
  fixes b0 b1 b2 :: u8
  shows "push_bit 2 (drop_bit 2 b0) OR drop_bit 4 (push_bit 4 (b0 AND 3)) = b0"
    "push_bit 2 (drop_bit 2 b0) OR drop_bit 4 (push_bit 4 (b0 AND 3) OR drop_bit 4 b1) = b0"
    "push_bit 4 (push_bit 4 (b0 AND 3) OR drop_bit 4 b1) OR drop_bit 2 (push_bit 2 (b1 AND 15)) = b1"
    "push_bit 4 (push_bit 4 (b0 AND 3) OR drop_bit 4 b1)
       OR drop_bit 2 (push_bit 2 (b1 AND 15) OR drop_bit 6 b2) = b1"
    "push_bit 6 (push_bit 2 (b1 AND 15) OR drop_bit 6 b2) OR (b2 AND 63) = b2"
  by (rule byte_bits; simp add: bit_simps byte_top suc_numerals)+

lemma decode_encode: "base64_url_decode (base64_url_encode bs) = bs"
  by (induction bs rule: base64_url_encode.induct) (simp_all only: base64_url_encode.simps base64_url_decode.simps
      alpha_ok sextets octets)

lemma encode_unreserved: "\<forall>c \<in> set (base64_url_encode bs). unreserved c"
  by (induction bs rule: base64_url_encode.induct)
    (simp_all only: base64_url_encode.simps alpha_ok sextets ball_simps list.set simp_thms)

lemma length_encode: "length (base64_url_encode bs) = (length bs * 4 + 2) div 3"
  by (induction bs rule: base64_url_encode.induct) simp_all

lemma urlencoding_unreserved: "\<forall>c \<in> set s. unreserved c \<Longrightarrow> urlencoding s = s"
  by (induction s) (auto simp: urlencoding_def)

subsection \<open>Properties\<close>

text \<open>A codec to evaluate with, for stored objects only: two unary lengths, then the three texts.\<close>

definition toy_codec :: Codec where
  "toy_codec = \<lparr>co_parse = (\<lambda>s.
       let n = length (takeWhile (\<lambda>c. c = CHR ''#'') s); s1 = drop (Suc n) s;
           k = length (takeWhile (\<lambda>c. c = CHR ''#'') s1); s2 = drop (Suc k) s1 in
       Some (stored_object (take n s2) (take k (drop n s2)) (drop (n + k) s2))),
     co_text = (\<lambda>v. case (get_str ''refresh_token'' v, get_str ''client_id'' v, get_str ''client_secret'' v) of
       (Some a, Some b, Some c) \<Rightarrow> replicate (length a) (CHR ''#'') @ CHR ''.'' #
          replicate (length b) (CHR ''#'') @ CHR ''.'' # a @ b @ c
     | _ \<Rightarrow> [])\<rparr>"

lemma takeWhile_marks:
  "takeWhile (\<lambda>c. c = CHR ''#'') (replicate n (CHR ''#'') @ CHR ''.'' # s) = replicate n (CHR ''#'')"
  by (induction n) auto

lemma drop_marks: "drop (Suc n) (replicate n x @ y # s) = s"
  by (induction n) auto

lemma toy_codec_ok: "codec_ok toy_codec"
  unfolding codec_ok_def toy_codec_def
  by (simp add: stored_object_def get_str_def takeWhile_marks drop_marks Let_def)

definition demo_manager :: OAuthManager where
  "demo_manager = oauth_new (snd (ks_set toy_crypto (replicate NONCE_LEN 0) (oauth_slot ''kiro'')
     (co_text toy_codec (stored_object ''r1'' ''c1'' ''s1'')) (keystore_new [] Map.empty))) Map.empty"

definition demo_reply :: "u16 \<Rightarrow> HttpReply" where
  "demo_reply st = \<lparr>hp_status = st, hp_reason = None, hp_text = ''body'',
     hp_json = Some (Object [(''access_token'', String ''a1''), (''refresh_token'', String ''r2''),
       (''expires_in'', Number (PosInt 3600)), (''error'', String ''authorization_pending'')])\<rparr>"

lemma demo_ks_ok: "ks_ok toy_crypto (oa_keys demo_manager)"
  unfolding demo_manager_def oauth_new_def
  using ks_ok_set [of toy_crypto "keystore_new [] Map.empty" "replicate NONCE_LEN 0"]
  by (simp add: ks_ok_def keystore_new_def toy_crypto_ok)

lemma demo_stored: "ks_lookup toy_crypto (oa_keys demo_manager) (oauth_slot ''kiro'')
    = Some (co_text toy_codec (stored_object ''r1'' ''c1'' ''s1''))"
  unfolding demo_manager_def oauth_new_def
  using ks_lookup_set [of toy_crypto "keystore_new [] Map.empty"]
  by (simp add: ks_ok_def keystore_new_def toy_crypto_ok)

lemma lookup_kiro: "lookup_manifest_oauth ''kiro'' = oauth manifest_kiro"
proof -
  have "resolve_alias ''kiro'' = Some Kiro" by code_simp
  then show ?thesis by (simp add: lookup_manifest_oauth_def)
qed

lemma lookup_minimax: "lookup_manifest_oauth ''minimax'' = oauth manifest_minimax"
proof -
  have "resolve_alias ''minimax'' = Some Minimax" by code_simp
  then show ?thesis by (simp add: lookup_manifest_oauth_def)
qed

text \<open>The refresh of the demonstration manager against a server that answers every request alike.\<close>

definition demo_refresh :: "u16 \<Rightarrow> (string + string option) \<times> OAuthManager" where
  "demo_refresh st = oauth_refresh toy_crypto toy_codec (\<lambda>_. Inr (demo_reply st)) (replicate NONCE_LEN 0) 0
     ''kiro'' demo_manager"

lemma demo_get: "\<exists>ks. ks_get toy_crypto (oauth_slot ''kiro'') (oa_keys demo_manager)
    = (Inr (Some (co_text toy_codec (stored_object ''r1'' ''c1'' ''s1''))), ks) \<and> ks_ok toy_crypto ks"
proof -
  obtain r ks where g: "ks_get toy_crypto (oauth_slot ''kiro'') (oa_keys demo_manager) = (r, ks)"
    by (cases "ks_get toy_crypto (oauth_slot ''kiro'') (oa_keys demo_manager)")
  then have "ks_ok toy_crypto ks" using ks_ok_get [OF demo_ks_ok, of "oauth_slot ''kiro''"] by simp
  with g demo_stored show ?thesis by (cases r) (auto simp: ks_lookup_def)
qed

lemma demo_parse: "parse_stored_refresh (co_parse toy_codec) (co_text toy_codec (stored_object ''r1'' ''c1'' ''s1''))
    = (''r1'', Some ''c1'', Some ''s1'')"
  using parse_serialize_client [OF toy_codec_ok, of "''r1''" "''c1''" "''s1''"]
  by (simp add: serialize_stored_refresh_def stored_object_def)

lemma demo_refresh_ok: "\<exists>m' c. demo_refresh 200 = (Inr (Some ''a1''), m')
    \<and> oa_cache m' ''kiro'' = Some c \<and> ocr_expires_at c = Some 3600 \<and> oa_configs m' = Map.empty"
proof -
  obtain ks where g: "ks_get toy_crypto (oauth_slot ''kiro'') (oa_keys demo_manager)
      = (Inr (Some (co_text toy_codec (stored_object ''r1'' ''c1'' ''s1''))), ks)" "ks_ok toy_crypto ks"
    using demo_get by blast
  obtain cfg where c: "config_for demo_manager ''kiro'' = Some cfg"
    by (simp add: config_for_def lookup_kiro manifest_kiro_def demo_manager_def oauth_new_def)
  have k: "\<exists>ks1. ks_set toy_crypto nonce p v ks = (Inr (), ks1)" for nonce p v
    by (rule ks_set_Inr [OF g(2)])
  obtain ks1 where k1: "ks_set toy_crypto (replicate NONCE_LEN 0) (oauth_slot ''kiro'')
      (serialize_stored_refresh (co_text toy_codec) ''r2'' (Some ''c1'') (Some ''s1'')) ks = (Inr (), ks1)"
    using k by blast
  have cf: "oa_configs demo_manager = Map.empty" by (simp add: demo_manager_def oauth_new_def)
  show ?thesis unfolding demo_refresh_def oauth_refresh_def g Let_def prod.case c
    by (simp add: demo_parse demo_reply_def is_success_def reply_json_def token_answer_def
        get_str_def get_u64_def k1 cf)
qed

lemma demo_refresh_fails: "\<exists>e m'. demo_refresh 500 = (Inl e, m')"
proof -
  obtain ks where g: "ks_get toy_crypto (oauth_slot ''kiro'') (oa_keys demo_manager)
      = (Inr (Some (co_text toy_codec (stored_object ''r1'' ''c1'' ''s1''))), ks)"
    using demo_get by blast
  obtain cfg where c: "config_for demo_manager ''kiro'' = Some cfg"
    by (simp add: config_for_def lookup_kiro manifest_kiro_def demo_manager_def oauth_new_def)
  show ?thesis unfolding demo_refresh_def oauth_refresh_def g Let_def prod.case c
    by (simp add: demo_parse demo_reply_def is_success_def)
qed

text \<open>The base64url encoder is the inverse of the decoder of RFC 4648 on every byte string, uses
  only characters that are unreserved in URLs, and so the PKCE verifier of 32 random bytes has the
  43 characters RFC 7636 asks for and travels unchanged through the URL encoder.\<close>

theorem pkce_verifier_wellformed:
  "base64_url_decode (base64_url_encode bs) = bs
   \<and> length (generate_pkce_verifier bs) = (length bs * 4 + 2) div 3
   \<and> length (generate_pkce_verifier (replicate 32 b)) = 43
   \<and> urlencoding (generate_pkce_verifier bs) = generate_pkce_verifier bs"
  by (simp add: generate_pkce_verifier_def decode_encode length_encode urlencoding_unreserved
      encode_unreserved)

text \<open>A refresh keeps the registered client: when the stored token carries the client that was
  registered for its flow, a successful refresh stores the new refresh token with the same client,
  so that the next refresh can authenticate, and caches the access token it returns.\<close>

theorem refresh_keeps_client:
  assumes "ks_ok cy (oa_keys m)" and "length nonce = NONCE_LEN"
    and "codec_ok co"
    and "ks_lookup cy (oa_keys m) (oauth_slot pid) = Some raw"
    and "parse_stored_refresh (co_parse co) raw = (rt, Some cid, Some cs)"
    and "oauth_refresh cy co http nonce now pid m = (Inr (Some tok), m')"
  shows "(\<exists>raw' rt'. ks_lookup cy (oa_keys m') (oauth_slot pid) = Some raw'
            \<and> parse_stored_refresh (co_parse co) raw' = (rt', Some cid, Some cs))
     \<and> map_option ocr_access_token (oa_cache m' pid) = Some tok"
proof -
  obtain creds new where r: "ocr_access_token creds = tok"
      "m' = m\<lparr>oa_cache := (oa_cache m)(pid \<mapsto> creds), oa_keys := snd (ks_set cy nonce (oauth_slot pid)
         (serialize_stored_refresh (co_text co) new (Some cid) (Some cs))
         (snd (ks_get cy (oauth_slot pid) (oa_keys m))))\<rparr>"
    using oauth_refresh_Some [OF assms(1,6)] assms(4,5) by auto
  have "ks_lookup cy (oa_keys m') (oauth_slot pid)
      = Some (serialize_stored_refresh (co_text co) new (Some cid) (Some cs))"
    using r(2) ks_lookup_set [OF ks_ok_get [OF assms(1)]] by simp
  then show ?thesis using parse_serialize_client [OF assms(3)] r by auto
qed

theorem refresh_keeps_client_witness:
  "\<exists>m' raw' rt'. demo_refresh 200 = (Inr (Some ''a1''), m')
     \<and> ks_lookup toy_crypto (oa_keys m') (oauth_slot ''kiro'') = Some raw'
     \<and> parse_stored_refresh (co_parse toy_codec) raw' = (rt', Some ''c1'', Some ''s1'')"
proof -
  obtain m' where d: "demo_refresh 200 = (Inr (Some ''a1''), m')" using demo_refresh_ok by blast
  have n: "length (replicate NONCE_LEN (0 :: u8)) = NONCE_LEN" by simp
  show ?thesis
    using refresh_keeps_client [OF demo_ks_ok n toy_codec_ok demo_stored demo_parse d [unfolded demo_refresh_def]] d
    by blast
qed

text \<open>A failed refresh loses nothing: after an error every stored token reads as before and the
  cache of access tokens is unchanged.\<close>

theorem refresh_error_keeps_tokens:
  assumes "ks_ok cy (oa_keys m)" and "oauth_refresh cy co http nonce now pid m = (Inl e, m')"
  shows "ks_lookup cy (oa_keys m') q = ks_lookup cy (oa_keys m) q \<and> oa_cache m' = oa_cache m"
  using oauth_refresh_Inl [OF assms] by simp

theorem refresh_error_keeps_tokens_witness:
  "ks_lookup toy_crypto (oa_keys (snd (demo_refresh 500))) (oauth_slot ''kiro'')
     = Some (co_text toy_codec (stored_object ''r1'' ''c1'' ''s1''))"
proof -
  obtain e m' where d: "demo_refresh 500 = (Inl e, m')" using demo_refresh_fails by blast
  show ?thesis using refresh_error_keeps_tokens [OF demo_ks_ok d [unfolded demo_refresh_def], of "oauth_slot ''kiro''"]
    by (simp add: d demo_stored)
qed

text \<open>A fresh access token is reused: after a successful refresh whose answer says how long the
  token lives, and until the refresh buffer before its expiry, asking for the token again returns
  it without any request, whatever the network does.\<close>

theorem fresh_token_is_reused:
  assumes "ks_ok cy (oa_keys m)"
    and "oauth_refresh cy co http nonce now pid m = (Inr (Some tok), m')"
    and "oa_cache m' pid = Some c" and "ocr_expires_at c = Some t"
    and "now' + unat (unwrap_or 300 (map_option oc_refresh_buffer_secs (oa_configs m pid))) < t"
  shows "access_token cy co http' nonce' now' pid m' = (Inr (Some tok), m')"
proof -
  obtain creds ks where r: "ocr_access_token creds = tok"
      "m' = m\<lparr>oa_cache := (oa_cache m)(pid \<mapsto> creds), oa_keys := ks\<rparr>"
    using oauth_refresh_Some [OF assms(1,2)] by auto
  then have "oa_cache m' pid = Some creds" "oa_configs m' = oa_configs m" by simp_all
  with assms(3-5) access_token_fresh [of m' pid c now'] r(1) show ?thesis
    by (simp add: needs_refresh_def)
qed

theorem fresh_token_is_reused_witness:
  "access_token toy_crypto toy_codec (\<lambda>_. Inl ''offline'') [] 3299 ''kiro'' (snd (demo_refresh 200))
     = (Inr (Some ''a1''), snd (demo_refresh 200))"
proof -
  obtain m' c where d: "demo_refresh 200 = (Inr (Some ''a1''), m')" "oa_cache m' ''kiro'' = Some c"
      "ocr_expires_at c = Some 3600" "oa_configs m' = Map.empty"
    using demo_refresh_ok by blast
  have "3299 + unat (unwrap_or 300 (map_option oc_refresh_buffer_secs (oa_configs demo_manager ''kiro''))) < 3600"
    by (simp add: demo_manager_def oauth_new_def)
  from fresh_token_is_reused [OF demo_ks_ok d(1) [unfolded demo_refresh_def] d(2,3) this]
  show ?thesis using d(1) by simp
qed

text \<open>A state of the redirect flow is good once and for its provider only: completing with a
  state succeeds only when it was issued to this provider, and after any attempt, successful or
  not, every further attempt with this state is refused.\<close>

theorem oauth_state_single_use:
  assumes "complete_popup_oauth cy http nonce env pid code state uri m = (r, m')"
  shows "(r = Inr () \<longrightarrow> oa_states m state = Some pid)
     \<and> fst (complete_popup_oauth cy http' nonce' env' pid' code' state uri' m')
         = Inl ''invalid or expired state''"
proof -
  have "oa_states m' state = None \<and> (r = Inr () \<longrightarrow> oa_states m state = Some pid)"
    using assms by (auto simp: complete_popup_oauth_def set_refresh_token_def Let_def
        split: option.splits if_splits sum.splits prod.splits)
  then show ?thesis by (simp add: complete_popup_oauth_def)
qed

theorem oauth_state_single_use_witness:
  "fst (complete_popup_oauth toy_crypto (\<lambda>_. Inl ''offline'') [] (\<lambda>_. None) ''openai'' ''code'' ''st'' ''uri''
     (snd (complete_popup_oauth toy_crypto (\<lambda>_. Inl ''offline'') [] (\<lambda>_. None) ''xai'' ''code'' ''st'' ''uri''
        (demo_manager\<lparr>oa_states := [''st'' \<mapsto> ''openai'']\<rparr>)))) = Inl ''invalid or expired state''"
proof -
  let ?m = "demo_manager\<lparr>oa_states := [''st'' \<mapsto> ''openai'']\<rparr>"
  have "complete_popup_oauth toy_crypto (\<lambda>_. Inl ''offline'') [] (\<lambda>_. None) ''xai'' ''code'' ''st'' ''uri'' ?m
      = (Inl ''state was issued for a different provider'', ?m\<lparr>oa_states := (oa_states ?m)(''st'' := None)\<rparr>)"
    by (simp add: complete_popup_oauth_def)
  from oauth_state_single_use [OF this] this show ?thesis by simp
qed

text \<open>The MiniMax device flow sends its PKCE verifier with the first poll only: every poll takes
  the verifier out of the store, so after one poll, also when the user had not approved yet, each
  later poll sends an empty \<open>code_verifier\<close>. (The client of the last poll echoes the body it is
  sent.)\<close>

theorem minimax_verifier_lost_after_first_poll:
  assumes "oa_devices m dc = Some ''minimax''" and "oa_device_clients m dc = None"
    and "poll_device_flow cy co http nonce dc m = (Inr False, m')"
  shows "fst (poll_device_flow cy co (\<lambda>c. Inl (case hc_body c of RawBody b \<Rightarrow> b | _ \<Rightarrow> [])) nonce' dc m')
     = Inl (''grant_type='' @ urlencoding ''urn:ietf:params:oauth:grant-type:user_code''
          @ ''&client_id='' @ urlencoding (client_id (the (oauth manifest_minimax)))
          @ ''&code_verifier='')"
proof -
  have cfg: "lookup_manifest_oauth ''minimax'' = Some (the (oauth manifest_minimax))"
    by (simp add: lookup_minimax manifest_minimax_def)
  have m': "oa_devices m' dc = Some ''minimax'' \<and> oa_device_clients m' dc = None
      \<and> oa_pkce_verifiers m' dc = None"
    using assms unfolding poll_device_flow_def cfg poll_answer_def
    by (auto simp: Let_def split: sum.splits option.splits if_splits prod.splits)
  have aws: "\<not> is_aws (token_url (the (oauth manifest_minimax)))"
    by (simp add: is_aws_def manifest_minimax_def)
  show ?thesis using m'
    by (simp add: poll_device_flow_def cfg poll_call_def aws poll_grant_def urlencoding_def)
qed

theorem minimax_verifier_lost_after_first_poll_witness:
  "fst (poll_device_flow toy_crypto toy_codec (\<lambda>c. Inl (case hc_body c of RawBody b \<Rightarrow> b | _ \<Rightarrow> [])) [] ''ABCD''
     (snd (poll_device_flow toy_crypto toy_codec (\<lambda>_. Inr (demo_reply 400)) [] ''ABCD''
        (demo_manager\<lparr>oa_devices := [''ABCD'' \<mapsto> ''minimax''], oa_pkce_verifiers := [''ABCD'' \<mapsto> ''v1'']\<rparr>))))
   = Inl (''grant_type='' @ urlencoding ''urn:ietf:params:oauth:grant-type:user_code''
          @ ''&client_id='' @ urlencoding (client_id (the (oauth manifest_minimax)))
          @ ''&code_verifier='')"
proof -
  let ?m = "demo_manager\<lparr>oa_devices := [''ABCD'' \<mapsto> ''minimax''], oa_pkce_verifiers := [''ABCD'' \<mapsto> ''v1'']\<rparr>"
  have m: "oa_devices ?m ''ABCD'' = Some ''minimax''" "oa_device_clients ?m ''ABCD'' = None"
    by (simp_all add: demo_manager_def oauth_new_def)
  have "fst (poll_device_flow toy_crypto toy_codec (\<lambda>_. Inr (demo_reply 400)) [] ''ABCD'' ?m) = Inr False"
    using m by (simp add: poll_device_flow_def lookup_minimax manifest_minimax_def reply_json_def
        poll_answer_def demo_reply_def is_success_def get_str_def Let_def)
  then have "poll_device_flow toy_crypto toy_codec (\<lambda>_. Inr (demo_reply 400)) [] ''ABCD'' ?m
      = (Inr False, snd (poll_device_flow toy_crypto toy_codec (\<lambda>_. Inr (demo_reply 400)) [] ''ABCD'' ?m))"
    by (simp add: prod_eq_iff)
  from minimax_verifier_lost_after_first_poll [OF m this] show ?thesis .
qed

end
