(* ===== verification/Upstream.thy ===== *)
theory Upstream
  imports OAuth
begin

section \<open>Calling a provider\<close>

text \<open>
  What the adapters under \<open>src/providers/adapters/\<close> share: the trait of
  \<open>src/providers/adapter.rs\<close>, the HTTP call they make, and the framing of the streams they read.
  The HTTP client is the parameter \<open>upstream\<close>: a call gives an error or a reply with its status,
  its body (as text, as JSON and as a list of byte chunks). A byte is a \<open>char\<close>. The adapters cut the
  stream at frame boundaries with a buffer; the locale \<open>framing\<close> states what such a cutter
  promises and shows that the chunks the network delivers do not matter.
\<close>

datatype Capability =
    CapTools | CapVision | CapAudio | CapVideo | CapReasoning | CapContext u32

record ReqwestError =
  re_timeout :: bool
  re_text :: string

record UpstreamCall =
  cl_method :: string
  cl_url :: string
  cl_headers :: "(string \<times> string) list"
  cl_body :: "json option"

record UpstreamReply =
  an_status :: u16
  an_reason :: string
  an_text :: string
  an_json :: "ReqwestError + json"
  an_bytes :: "(ReqwestError + string) list"

type_synonym upstream = "UpstreamCall \<Rightarrow> ReqwestError + UpstreamReply"

definition app_error_of :: "ReqwestError \<Rightarrow> AppError" where
  "app_error_of e = from_reqwest (re_timeout e) (re_text e)"

text \<open>\<open>HeaderValue::from_str(s).unwrap_or(\"invalid\")\<close>.\<close>

definition visible_ascii :: "char \<Rightarrow> bool" where
  "visible_ascii c \<longleftrightarrow> (let n = (of_char c :: nat) in (32 \<le> n \<and> n < 127) \<or> n = 9)"

definition header_value :: "string \<Rightarrow> string" where
  "header_value s = (if list_all visible_ascii s then s else ''invalid'')"

text \<open>Sending, and the error of a reply that is not a success.\<close>

definition call_provider :: "upstream \<Rightarrow> string \<Rightarrow> UpstreamCall \<Rightarrow> AppError + UpstreamReply" where
  "call_provider send provider call = (case send call of
      Inl e \<Rightarrow> Inl (app_error_of e)
    | Inr r \<Rightarrow> if is_success (an_status r) then Inr r
             else Inl (ProviderError provider (an_status r) (an_text r)))"

definition reply_value :: "UpstreamReply \<Rightarrow> AppError + json" where
  "reply_value r = (case an_json r of Inl e \<Rightarrow> Inl (app_error_of e) | Inr v \<Rightarrow> Inr v)"

text \<open>A call whose body is JSON: \<open>client.post(url)...json(&body)\<close>.\<close>

definition post_json :: "string \<Rightarrow> (string \<times> string) list \<Rightarrow> json \<Rightarrow> UpstreamCall" where
  "post_json url hdrs body = \<lparr>cl_method = ''POST'', cl_url = url, cl_headers = hdrs, cl_body = Some body\<rparr>"

text \<open>\<open>slice::first\<close>, and counters read from JSON: a missing one is zero, a wide one is cut to 32 bits.\<close>

definition first :: "'a list \<Rightarrow> 'a option" where
  "first xs = (case xs of [] \<Rightarrow> None | x # _ \<Rightarrow> Some x)"

lemma first_simps [simp]: "first [] = None" "first (x # xs) = Some x"
  by (simp_all add: first_def)

definition count_field :: "string \<Rightarrow> json \<Rightarrow> u32" where
  "count_field k v = ucast (unwrap_or 0 (get_u64 k v))"

definition count_field_opt :: "string \<Rightarrow> json \<Rightarrow> u32 option" where
  "count_field_opt k v = map_option ucast (get_u64 k v)"

definition str_field :: "string \<Rightarrow> json \<Rightarrow> string" where
  "str_field k v = unwrap_or [] (get_str k v)"

definition plain_usage :: "string \<Rightarrow> string \<Rightarrow> json \<Rightarrow> Usage" where
  "plain_usage k_in k_out u = \<lparr>input_tokens = count_field k_in u, output_tokens = count_field k_out u,
     cache_read_tokens = None, cache_write_tokens = None\<rparr>"

definition strings :: "string list \<Rightarrow> json" where
  "strings xs = Array (map String xs)"

definition jf64 :: "f64 \<Rightarrow> json" where
  "jf64 x = Number (Float x)"

text \<open>\<open>m.insert("stream", Bool(b))\<close> on the body, which is an object.\<close>

definition with_stream :: "bool \<Rightarrow> json \<Rightarrow> json" where
  "with_stream b body = jset ''stream'' (Bool b) body"

subsection \<open>Live model lists\<close>

definition list_call :: "upstream \<Rightarrow> string \<Rightarrow> UpstreamCall \<Rightarrow> AppError + json" where
  "list_call send label call = (case send call of
      Inl e \<Rightarrow> Inl (Internal (label @ '' list: '' @ re_text e))
    | Inr r \<Rightarrow>
        if \<not> is_success (an_status r)
        then Inl (Internal (label @ '' list '' @ show_nat (unat (an_status r)) @ '' '' @ an_reason r
               @ '': '' @ take 200 (an_text r)))
        else (case an_json r of
            Inl e \<Rightarrow> Inl (Internal (label @ '' parse: '' @ re_text e))
          | Inr v \<Rightarrow> Inr v))"

definition ids_of_data :: "json \<Rightarrow> string list" where
  "ids_of_data v = unwrap_or []
     (map_option (List.map_filter (get_str ''id'')) (get_array ''data'' v))"

definition list_models :: "upstream \<Rightarrow> string \<Rightarrow> string \<Rightarrow> AppError + string list" where
  "list_models send base key = and_then (list_call send ''models''
     \<lparr>cl_method = ''GET'', cl_url = trim_end_matches (CHR ''/'') base @ ''/v1/models'',
      cl_headers = [(''authorization'', ''Bearer '' @ key)], cl_body = None\<rparr>) (\<lambda>v. Inr (ids_of_data v))"

subsection \<open>Reading a stream\<close>

text \<open>What an adapter does with the frames it has cut, in order.\<close>

fun steps :: "('f \<Rightarrow> 's \<Rightarrow> 'c list \<times> 's) \<Rightarrow> 'f list \<Rightarrow> 's \<Rightarrow> 'c list \<times> 's" where
  "steps step [] st = ([], st)"
| "steps step (f # fs) st = (let (o1, st1) = step f st; (o2, st2) = steps step fs st1 in (o1 @ o2, st2))"

text \<open>The body of \<open>try_stream!\<close>: a chunk that is an error ends the stream with it, and the terminal
  chunks are only sent when the bytes end normally.\<close>

fun run_stream ::
  "('b list \<Rightarrow> 'f list \<times> 'b list) \<Rightarrow> ('f \<Rightarrow> 's \<Rightarrow> 'c list \<times> 's) \<Rightarrow> ('s \<Rightarrow> 'c list)
     \<Rightarrow> (ReqwestError + 'b list) list \<Rightarrow> 'b list \<Rightarrow> 's \<Rightarrow> (AppError + 'c) list" where
  "run_stream cutter step fin [] buf st = map Inr (fin st)"
| "run_stream cutter step fin (Inl e # chunks) buf st = [Inl (app_error_of e)]"
| "run_stream cutter step fin (Inr b # chunks) buf st =
     (let (frames, buf') = cutter (buf @ b); (out, st') = steps step frames st in
      map Inr out @ run_stream cutter step fin chunks buf' st')"

lemma steps_append:
  "steps step (fs @ gs) st = (let (o1, st1) = steps step fs st; (o2, st2) = steps step gs st1 in
     (o1 @ o2, st2))"
  by (induction fs arbitrary: st) (auto simp: Let_def split: prod.splits)

lemma steps_concat:
  "steps (\<lambda>f st. steps g (h f) st) fs st = steps g (concat (map h fs)) st"
  by (induction fs arbitrary: st) (simp_all add: steps_append)

lemma steps_stateless: "steps (\<lambda>f st. (g f, st)) fs st = (concat (map g fs), st)"
  by (induction fs) simp_all

text \<open>
  \<open>head\<close> finds the first frame of a buffer and what follows it, \<open>cutter\<close> takes all of them. More bytes
  never change a frame that is already there.
\<close>

locale framing =
  fixes head :: "'b list \<Rightarrow> ('f \<times> 'b list) option"
    and cutter :: "'b list \<Rightarrow> 'f list \<times> 'b list"
  assumes cutter_head: "cutter b = (case head b of None \<Rightarrow> ([], b)
      | Some (f, r) \<Rightarrow> (f # fst (cutter r), snd (cutter r)))"
    and head_shrinks: "head b = Some (f, r) \<Longrightarrow> length r < length b"
    and head_stable: "head b = Some (f, r) \<Longrightarrow> head (b @ c) = Some (f, r @ c)"
    and head_empty: "head [] = None"
begin

lemma cut_append:
  "cutter (b @ c) = (fst (cutter b) @ fst (cutter (snd (cutter b) @ c)), snd (cutter (snd (cutter b) @ c)))"
proof (induction b rule: length_induct)
  case (1 b)
  show ?case
  proof (cases "head b")
    case None
    then show ?thesis by (simp add: cutter_head[of b])
  next
    case (Some fr)
    obtain f r where fr: "fr = (f, r)" by (cases fr)
    have "cutter (r @ c) = (fst (cutter r) @ fst (cutter (snd (cutter r) @ c)), snd (cutter (snd (cutter r) @ c)))"
      using 1 head_shrinks[of b f r] Some fr by blast
    moreover have "cutter (b @ c) = (f # fst (cutter (r @ c)), snd (cutter (r @ c)))"
      using cutter_head[of "b @ c"] head_stable[of b f r c] Some fr by simp
    moreover have "cutter b = (f # fst (cutter r), snd (cutter r))"
      using cutter_head[of b] Some fr by simp
    ultimately show ?thesis by simp
  qed
qed

lemma head_rest: "head (snd (cutter b)) = None"
proof (induction b rule: length_induct)
  case (1 b)
  show ?case
  proof (cases "head b")
    case None
    then show ?thesis by (simp add: cutter_head[of b])
  next
    case (Some fr)
    then show ?thesis using 1 head_shrinks[of b "fst fr" "snd fr"] cutter_head[of b]
      by (cases fr) auto
  qed
qed

text \<open>What the frames of a byte sequence make an adapter emit.\<close>

definition emitted :: "('f \<Rightarrow> 's \<Rightarrow> 'c list \<times> 's) \<Rightarrow> ('s \<Rightarrow> 'c list) \<Rightarrow> 'b list \<Rightarrow> 's \<Rightarrow> 'c list" where
  "emitted step fin bytes st = (case steps step (fst (cutter bytes)) st of (out, st') \<Rightarrow> out @ fin st')"

lemma run_stream_emitted:
  "head buf = None \<Longrightarrow>
   run_stream cutter step fin (map Inr bs) buf st = map Inr (emitted step fin (buf @ concat bs) st)"
proof (induction bs arbitrary: buf st)
  case Nil
  then show ?case by (simp add: emitted_def cutter_head[of buf])
next
  case (Cons b bs)
  obtain frames buf' where c: "cutter (buf @ b) = (frames, buf')" by (cases "cutter (buf @ b)")
  obtain out st' where s: "steps step frames st = (out, st')" by (cases "steps step frames st")
  have rest: "head buf' = None" using head_rest[of "buf @ b"] by (simp add: c)
  have "emitted step fin (buf @ b @ concat bs) st = out @ emitted step fin (buf' @ concat bs) st'"
    using cut_append[of "buf @ b" "concat bs"]
    by (simp add: emitted_def c s steps_append split: prod.splits)
  then show ?case using Cons.IH[OF rest, of st'] by (simp add: c s)
qed

text \<open>The chunks of the network do not matter, only the bytes.\<close>

lemma chunking_irrelevant:
  "concat bs = concat bs' \<Longrightarrow> run_stream cutter step fin (map Inr bs) [] st = run_stream cutter step fin (map Inr bs') [] st"
  using head_empty by (simp add: run_stream_emitted)

end

subsection \<open>Server-sent events\<close>

abbreviation NL :: char where "NL \<equiv> CHR 0x0A"

fun find_sse_boundary :: "string \<Rightarrow> nat option" where
  "find_sse_boundary (a # b # cs) =
     (if a = NL \<and> b = NL then Some 0 else map_option Suc (find_sse_boundary (b # cs)))"
| "find_sse_boundary _ = None"

definition sse_head :: "string \<Rightarrow> (string \<times> string) option" where
  "sse_head buf = map_option (\<lambda>pos. (take pos buf, drop (pos + 2) buf)) (find_sse_boundary buf)"

lemma find_sse_boundary_bound: "find_sse_boundary b = Some p \<Longrightarrow> p + 2 \<le> length b"
  by (induction b arbitrary: p rule: find_sse_boundary.induct) (auto split: if_split_asm)

lemma find_sse_boundary_append: "find_sse_boundary b = Some p \<Longrightarrow> find_sse_boundary (b @ c) = Some p"
  by (induction b arbitrary: p rule: find_sse_boundary.induct) (auto split: if_split_asm)

lemma sse_head_shrinks: "sse_head b = Some (f, r) \<Longrightarrow> length r < length b"
  using find_sse_boundary_bound[of b] by (fastforce simp: sse_head_def)

function sse_cut :: "string \<Rightarrow> string list \<times> string" where
  "sse_cut buf = (case sse_head buf of None \<Rightarrow> ([], buf)
     | Some (raw, rest) \<Rightarrow> (case sse_cut rest of (evs, buf') \<Rightarrow> (raw # evs, buf')))"
  by pat_completeness auto
termination
  by (relation "measure length") (auto dest: sse_head_shrinks)

declare sse_cut.simps [simp del]

interpretation sse: framing sse_head sse_cut
proof
  show "sse_cut b = (case sse_head b of None \<Rightarrow> ([], b)
      | Some (f, r) \<Rightarrow> (f # fst (sse_cut r), snd (sse_cut r)))" for b
    by (simp add: sse_cut.simps[of b] split_def split: option.split)
  show "sse_head b = Some (f, r) \<Longrightarrow> length r < length b" for b f r
    by (rule sse_head_shrinks)
  show "sse_head b = Some (f, r) \<Longrightarrow> sse_head (b @ c) = Some (f, r @ c)" for b f r c
    using find_sse_boundary_bound[of b] find_sse_boundary_append[of b _ c]
    by (auto simp: sse_head_def)
  show "sse_head [] = None" by (simp add: sse_head_def)
qed

text \<open>\<open>str::lines\<close>, and the values of the \<open>data:\<close> lines of one event.\<close>

definition chomp :: "string \<Rightarrow> string" where
  "chomp s = unwrap_or s (strip_suffix [CHR 0x0D] s)"

definition lines_of :: "string \<Rightarrow> string list" where
  "lines_of s = (let ps = split_on NL s in
     map chomp (butlast ps) @ (if last ps = [] then [] else [last ps]))"

definition data_lines :: "string \<Rightarrow> string list" where
  "data_lines text = List.map_filter (strip_prefix ''data: '') (lines_of text)"

definition event_values :: "(string \<Rightarrow> json option) \<Rightarrow> (string \<Rightarrow> string) \<Rightarrow> string \<Rightarrow> json list" where
  "event_values parse lossy raw =
     List.map_filter (\<lambda>d. if d = ''[DONE]'' then None else parse d) (data_lines (lossy raw))"


subsection \<open>Chunks and the text they carry\<close>

definition text_chunk :: "string \<Rightarrow> string \<Rightarrow> string \<Rightarrow> CanonicalChunk" where
  "text_chunk mid model t = \<lparr>ch_id = mid, ch_model = model,
     ch_delta = \<lparr>cd_text = Some t, cd_tool_use = None\<rparr>, ch_finish_reason = None, ch_usage = None\<rparr>"

definition final_chunk :: "string \<Rightarrow> string \<Rightarrow> string option \<Rightarrow> Usage option \<Rightarrow> CanonicalChunk" where
  "final_chunk mid model why u = \<lparr>ch_id = mid, ch_model = model, ch_delta = delta_default,
     ch_finish_reason = why, ch_usage = u\<rparr>"

abbreviation chunk_text :: "CanonicalChunk \<Rightarrow> string" where
  "chunk_text c \<equiv> unwrap_or [] (cd_text (ch_delta c))"

text \<open>
  What the event handlers of the adapters promise: the chunks of an event carry exactly its text.
  Some keep what they have sent in their state.
\<close>

locale text_stream =
  fixes event :: "'e \<Rightarrow> 's \<Rightarrow> CanonicalChunk list \<times> 's"
    and carried :: "'e \<Rightarrow> string"
  assumes event_carried: "event e st = (out, st') \<Longrightarrow> concat (map chunk_text out) = carried e"
begin

lemma steps_text: "steps event es st = (out, st') \<Longrightarrow> concat (map chunk_text out) = concat (map carried es)"
proof (induction es arbitrary: st out st')
  case (Cons e es)
  obtain o1 s1 where e: "event e st = (o1, s1)" by (cases "event e st")
  obtain o2 s2 where r: "steps event es s1 = (o2, s2)" by (cases "steps event es s1")
  have "out = o1 @ o2" using Cons.prems by (simp add: e r)
  then show ?case using Cons.IH[OF r] event_carried[OF e] by simp
qed simp

end

text \<open>What the adapters over server-sent events do, given the values they read from an event.\<close>

locale sse_text_stream = text_stream event carried
  for event :: "json \<Rightarrow> 's \<Rightarrow> CanonicalChunk list \<times> 's" and carried :: "json \<Rightarrow> string" +
  fixes vals :: "string \<Rightarrow> json list"
    and fin :: "'s \<Rightarrow> CanonicalChunk list"
  assumes fin_silent: "concat (map chunk_text (fin st)) = []"
begin

lemma run_text:
  "\<exists>cs. run_stream sse_cut (\<lambda>raw st. steps event (vals raw) st) fin (map Inr bs) [] st = map Inr cs
     \<and> concat (map chunk_text cs) = concat (map carried (concat (map vals (fst (sse_cut (concat bs))))))"
proof -
  obtain out st' where s: "steps event (concat (map vals (fst (sse_cut (concat bs))))) st = (out, st')"
    by fastforce
  have "run_stream sse_cut (\<lambda>raw st. steps event (vals raw) st) fin (map Inr bs) [] st = map Inr (out @ fin st')"
    using s sse.head_empty by (simp add: sse.run_stream_emitted sse.emitted_def steps_concat)
  then show ?thesis using steps_text[OF s] fin_silent by (intro exI[of _ "out @ fin st'"]) simp
qed

end

locale sent_text_stream = text_stream +
  fixes sent :: "'b \<Rightarrow> string"
  assumes event_sent: "event e st = (out, st') \<Longrightarrow> sent st' = sent st @ carried e"
begin

lemma steps_sent: "steps event es st = (out, st') \<Longrightarrow> sent st' = sent st @ concat (map carried es)"
proof (induction es arbitrary: st out st')
  case (Cons e es)
  obtain o1 s1 where e: "event e st = (o1, s1)" by (cases "event e st")
  obtain o2 s2 where r: "steps event es s1 = (o2, s2)" by (cases "steps event es s1")
  have "st' = s2" using Cons.prems by (simp add: e r)
  then show ?case using Cons.IH[OF r] event_sent[OF e] by simp
qed simp

end

end
