(* ===== verification/AdapterOpenai.thy ===== *)
theory AdapterOpenai
  imports Upstream Outbound Inbound
begin

section \<open>OpenAI-compatible adapters\<close>

text \<open>
  \<open>src/providers/adapters/openai.rs\<close> and \<open>generic.rs\<close>: request bodies, the parsers of responses and
  stream chunks, and the two calls. \<open>ts\<close> is \<open>serde_json::to_string\<close>, \<open>parse\<close> is \<open>from_str\<close>,
  \<open>lossy\<close> is \<open>String::from_utf8_lossy\<close>, \<open>uuid\<close> the text of a fresh UUID.
\<close>

definition bearer_header :: "string \<Rightarrow> string \<times> string" where
  "bearer_header key = (''authorization'', header_value (''Bearer '' @ key))"

definition json_content :: "string \<times> string" where
  "json_content = (''content-type'', ''application/json'')"

fun openai_supports :: "Capability \<Rightarrow> bool" where
  "openai_supports CapTools = True"
| "openai_supports CapVision = True"
| "openai_supports CapAudio = False"
| "openai_supports CapVideo = False"
| "openai_supports CapReasoning = True"
| "openai_supports (CapContext n) = (n \<le> 128000)"

fun generic_supports :: "Capability \<Rightarrow> bool" where
  "generic_supports (CapContext n) = (n \<le> 8192)"
| "generic_supports _ = False"

subsection \<open>Requests\<close>

fun role_name :: "Role \<Rightarrow> string" where
  "role_name System = ''system''"
| "role_name User = ''user''"
| "role_name Assistant = ''assistant''"
| "role_name Tool = ''tool''"

fun image_url :: "string \<Rightarrow> ImageData \<Rightarrow> string" where
  "image_url media_type (ImageUrl url) = url"
| "image_url media_type (ImageBase64 d) = ''data:'' @ media_type @ '';base64,'' @ d"

fun openai_part :: "ContentBlock \<Rightarrow> json option" where
  "openai_part (Text s) = Some (Object [(''type'', String ''text''), (''text'', String s)])"
| "openai_part (Image media_type d) = Some (Object [(''type'', String ''image_url''),
     (''image_url'', Object [(''url'', String (image_url media_type d))])])"
| "openai_part _ = None"

definition openai_content :: "ContentBlock list \<Rightarrow> json" where
  "openai_content blocks =
     (if list_ex (\<lambda>b. \<not> is_text b) blocks then Array (List.map_filter openai_part blocks)
      else String (text_from_blocks blocks))"

definition openai_tool_calls :: "(json \<Rightarrow> string) \<Rightarrow> CanonicalToolCall list \<Rightarrow> json" where
  "openai_tool_calls ts tcs =
     Array (map (\<lambda>tc. Object (tool_call_json ts (tc_id tc) (tc_name tc) (tc_arguments tc))) tcs)"

definition message_to_openai :: "(json \<Rightarrow> string) \<Rightarrow> CanonicalMessage \<Rightarrow> json" where
  "message_to_openai ts msg =
     jset_opt ''tool_calls'' (map_option (openai_tool_calls ts) (cm_tool_calls msg))
     (jset_opt ''tool_call_id'' (map_option String (cm_tool_call_id msg))
     (jset_opt ''name'' (map_option String (cm_name msg))
       (Object [(''role'', String (role_name (cm_role msg))),
                (''content'', openai_content (cm_content msg))])))"

definition openai_tool :: "CanonicalTool \<Rightarrow> json" where
  "openai_tool t = Object [(''type'', String ''function''),
     (''function'', Object [(''name'', String (ct_name t)),
        (''description'', jstr_opt (ct_description t)), (''parameters'', ct_parameters t)])]"

fun openai_tool_choice :: "ToolChoice \<Rightarrow> json" where
  "openai_tool_choice Auto = String ''auto''"
| "openai_tool_choice NoTool = String ''none''"
| "openai_tool_choice Required = String ''required''"
| "openai_tool_choice (Specific nm) = Object [(''type'', String ''function''),
     (''function'', Object [(''name'', String nm)])]"

definition system_message :: "string option \<Rightarrow> json list" where
  "system_message sys = (case sys of None \<Rightarrow> []
     | Some s \<Rightarrow> [Object [(''role'', String ''system''), (''content'', String s)]])"

definition openai_body :: "(json \<Rightarrow> string) \<Rightarrow> CanonicalRequest \<Rightarrow> json" where
  "openai_body ts req =
     jset_opt ''tool_choice'' (map_option openai_tool_choice (cr_tool_choice req))
     (jset_opt ''tools'' (map_option (\<lambda>tools. Array (map openai_tool tools)) (cr_tools req))
     (jset_opt ''stop'' (map_option strings (cr_stop req))
     (jset_opt ''top_p'' (map_option jf64 (cr_top_p req))
     (jset_opt ''temperature'' (map_option jf64 (cr_temperature req))
     (jset_opt ''max_tokens'' (map_option ju32 (cr_max_tokens req))
       (Object [(''model'', String (cr_selected_model req)),
         (''messages'', Array (system_message (cr_system req)
            @ map (message_to_openai ts) (cr_messages req))),
         (''stream'', Bool (cr_stream req))]))))))"

definition generic_message :: "CanonicalMessage \<Rightarrow> json" where
  "generic_message msg = Object [(''role'', String (role_name (cm_role msg))),
     (''content'', String (text_from_blocks (cm_content msg)))]"

definition generic_body :: "CanonicalRequest \<Rightarrow> json" where
  "generic_body req =
     jset_opt ''temperature'' (map_option jf64 (cr_temperature req))
     (jset_opt ''max_tokens'' (map_option ju32 (cr_max_tokens req))
       (Object [(''model'', String (cr_selected_model req)),
         (''messages'', Array (system_message (cr_system req) @ map generic_message (cr_messages req))),
         (''stream'', Bool (cr_stream req))]))"

subsection \<open>Responses\<close>

definition parse_openai_usage :: "json \<Rightarrow> Usage" where
  "parse_openai_usage u = \<lparr>input_tokens = count_field ''prompt_tokens'' u,
     output_tokens = count_field ''completion_tokens'' u,
     cache_read_tokens = Option.bind (jget ''prompt_tokens_details'' u) (count_field_opt ''cached_tokens''),
     cache_write_tokens = None\<rparr>"

definition function_field :: "string \<Rightarrow> json \<Rightarrow> string option" where
  "function_field k tc = Option.bind (jget ''function'' tc) (get_str k)"

definition openai_tool_use :: "(string \<Rightarrow> json option) \<Rightarrow> json \<Rightarrow> ContentBlock" where
  "openai_tool_use parse tc = ToolUse (str_field ''id'' tc) (unwrap_or [] (function_field ''name'' tc))
     (unwrap_or Null (parse (unwrap_or ''{}'' (function_field ''arguments'' tc))))"

definition first_choice :: "json \<Rightarrow> json option" where
  "first_choice v = Option.bind (get_array ''choices'' v) first"

definition openai_blocks :: "(string \<Rightarrow> json option) \<Rightarrow> json \<Rightarrow> ContentBlock list" where
  "openai_blocks parse msg =
     (case get_str ''content'' msg of None \<Rightarrow> [] | Some s \<Rightarrow> [Text s])
     @ (case get_array ''tool_calls'' msg of None \<Rightarrow> [] | Some tcs \<Rightarrow> map (openai_tool_use parse) tcs)"

definition parse_openai_response ::
  "(string \<Rightarrow> json option) \<Rightarrow> json \<Rightarrow> string \<Rightarrow> AppError + CanonicalResponse" where
  "parse_openai_response parse v provider = Inr
     \<lparr>rs_id = str_field ''id'' v, rs_model = str_field ''model'' v, rs_provider = provider,
      rs_content = (case Option.bind (first_choice v) (jget ''message'') of
          None \<Rightarrow> [] | Some msg \<Rightarrow> openai_blocks parse msg),
      rs_finish_reason = Option.bind (first_choice v) (get_str ''finish_reason''),
      rs_usage = unwrap_or usage_default (map_option parse_openai_usage (jget ''usage'' v))\<rparr>"

definition chunk_tool_use :: "(string \<Rightarrow> json option) \<Rightarrow> json \<Rightarrow> CanonicalToolCall" where
  "chunk_tool_use parse tc = \<lparr>tc_id = str_field ''id'' tc,
     tc_name = unwrap_or [] (function_field ''name'' tc),
     tc_arguments = unwrap_or Null (Option.bind (function_field ''arguments'' tc) parse)\<rparr>"

text \<open>The chunk parsers of the two adapters differ in the usage they read.\<close>

definition parse_chunk_with ::
  "(json \<Rightarrow> Usage) \<Rightarrow> (string \<Rightarrow> json option) \<Rightarrow> string \<Rightarrow> json \<Rightarrow> CanonicalChunk option" where
  "parse_chunk_with usage_of parse model v =
     Option.bind (first_choice v) (\<lambda>choice.
     Option.bind (jget ''delta'' choice) (\<lambda>delta. Some
       \<lparr>ch_id = str_field ''id'' v, ch_model = model,
        ch_delta = \<lparr>cd_text = get_str ''content'' delta,
          cd_tool_use = map_option (chunk_tool_use parse)
            (Option.bind (get_array ''tool_calls'' delta) first)\<rparr>,
        ch_finish_reason = get_str ''finish_reason'' choice,
        ch_usage = map_option usage_of (jget ''usage'' v)\<rparr>))"

definition parse_openai_chunk ::
  "(string \<Rightarrow> json option) \<Rightarrow> string \<Rightarrow> json \<Rightarrow> CanonicalChunk option" where
  "parse_openai_chunk = parse_chunk_with parse_openai_usage"

definition parse_openai_compat_chunk ::
  "(string \<Rightarrow> json option) \<Rightarrow> string \<Rightarrow> json \<Rightarrow> CanonicalChunk option" where
  "parse_openai_compat_chunk = parse_chunk_with (plain_usage ''prompt_tokens'' ''completion_tokens'')"

definition parse_generic_response :: "json \<Rightarrow> string \<Rightarrow> string \<Rightarrow> CanonicalResponse" where
  "parse_generic_response v provider wanted_model =
     \<lparr>rs_id = str_field ''id'' v, rs_model = unwrap_or wanted_model (get_str ''model'' v),
      rs_provider = provider,
      rs_content = (case Option.bind (Option.bind (first_choice v) (jget ''message''))
            (get_str ''content'') of None \<Rightarrow> [] | Some s \<Rightarrow> [Text s]),
      rs_finish_reason = Option.bind (first_choice v) (get_str ''finish_reason''),
      rs_usage = unwrap_or usage_default
        (map_option (plain_usage ''prompt_tokens'' ''completion_tokens'') (jget ''usage'' v))\<rparr>"

subsection \<open>The two calls\<close>

definition chat_url :: "string \<Rightarrow> string \<Rightarrow> string" where
  "chat_url base path = trim_end_matches (CHR ''/'') base @ path"

definition CHAT_PATH :: string where
  "CHAT_PATH = ''/v1/chat/completions''"

text \<open>\<open>stream_options\<close> asks for the token counts at the end of a stream.\<close>

definition with_usage_option :: "json \<Rightarrow> json" where
  "with_usage_option body = jset ''stream_options'' (Object [(''include_usage'', Bool True)]) body"

definition openai_complete ::
  "upstream \<Rightarrow> (json \<Rightarrow> string) \<Rightarrow> (string \<Rightarrow> json option) \<Rightarrow> string \<Rightarrow> string \<Rightarrow> string
     \<Rightarrow> CanonicalRequest \<Rightarrow> string \<Rightarrow> AppError + CanonicalResponse" where
  "openai_complete send ts parse i base path req key =
     and_then (call_provider send i (post_json (chat_url base path) [bearer_header key, json_content]
         (with_stream False (openai_body ts req)))) (\<lambda>r.
     and_then (reply_value r) (\<lambda>v. parse_openai_response parse v i))"

definition openai_step ::
  "(string \<Rightarrow> json option) \<Rightarrow> (string \<Rightarrow> string) \<Rightarrow> string \<Rightarrow> string \<Rightarrow> unit
     \<Rightarrow> CanonicalChunk list \<times> unit" where
  "openai_step parse lossy model raw st =
     (List.map_filter (parse_openai_chunk parse model) (event_values parse lossy raw), st)"

definition openai_stream ::
  "upstream \<Rightarrow> (json \<Rightarrow> string) \<Rightarrow> (string \<Rightarrow> json option) \<Rightarrow> (string \<Rightarrow> string) \<Rightarrow> string \<Rightarrow> string
     \<Rightarrow> string \<Rightarrow> CanonicalRequest \<Rightarrow> string \<Rightarrow> AppError + (AppError + CanonicalChunk) list" where
  "openai_stream send ts parse lossy i base path req key =
     and_then (call_provider send i (post_json (chat_url base path) [bearer_header key, json_content]
         (with_usage_option (with_stream True (openai_body ts req))))) (\<lambda>r.
     Inr (run_stream sse_cut (openai_step parse lossy (cr_selected_model req)) (\<lambda>_. [])
            (an_bytes r) [] ()))"

definition generic_complete ::
  "upstream \<Rightarrow> string \<Rightarrow> string \<Rightarrow> CanonicalRequest \<Rightarrow> string \<Rightarrow> AppError + CanonicalResponse" where
  "generic_complete send i base req key =
     and_then (call_provider send i (post_json (chat_url base CHAT_PATH) [bearer_header key]
         (with_stream False (generic_body req)))) (\<lambda>r.
     and_then (reply_value r) (\<lambda>v. Inr (parse_generic_response v i (cr_selected_model req))))"

definition stamp_id :: "string \<Rightarrow> CanonicalChunk \<Rightarrow> CanonicalChunk" where
  "stamp_id i c = (if ch_id c = [] then c\<lparr>ch_id := i\<rparr> else c)"

definition generic_step ::
  "(string \<Rightarrow> json option) \<Rightarrow> (string \<Rightarrow> string) \<Rightarrow> string \<Rightarrow> string \<Rightarrow> string \<Rightarrow> unit
     \<Rightarrow> CanonicalChunk list \<times> unit" where
  "generic_step parse lossy model mid raw st =
     (map (stamp_id mid) (List.map_filter (parse_openai_compat_chunk parse model)
        (event_values parse lossy raw)), st)"

definition generic_stream ::
  "upstream \<Rightarrow> (string \<Rightarrow> json option) \<Rightarrow> (string \<Rightarrow> string) \<Rightarrow> string \<Rightarrow> string \<Rightarrow> string
     \<Rightarrow> CanonicalRequest \<Rightarrow> string \<Rightarrow> AppError + (AppError + CanonicalChunk) list" where
  "generic_stream send parse lossy uuid i base req key =
     and_then (call_provider send i (post_json (chat_url base CHAT_PATH) [bearer_header key, json_content]
         (with_usage_option (with_stream True (generic_body req))))) (\<lambda>r.
     Inr (run_stream sse_cut (generic_step parse lossy (cr_selected_model req) (''chatcmpl-'' @ uuid))
            (\<lambda>_. []) (an_bytes r) [] ()))"

subsection \<open>Reading back what the router writes\<close>

fun is_tool_use :: "ContentBlock \<Rightarrow> bool" where
  "is_tool_use (ToolUse _ _ _) = True"
| "is_tool_use _ = False"

lemma function_field_call:
  "function_field ''name'' (Object (tool_call_json ts i n j)) = Some n"
  "function_field ''arguments'' (Object (tool_call_json ts i n j)) = Some (ts j)"
  "str_field ''id'' (Object (tool_call_json ts i n j)) = i"
  by (simp_all add: function_field_def tool_call_json_def get_str_def str_field_def)

lemma openai_tool_use_call:
  "parse (ts j) = Some j \<Longrightarrow> openai_tool_use parse (Object (tool_call_json ts i n j)) = ToolUse i n j"
  by (simp add: openai_tool_use_def function_field_call)

lemma tool_uses_roundtrip:
  "\<forall>i n j. ToolUse i n j \<in> set blocks \<longrightarrow> parse (ts j) = Some j \<Longrightarrow>
   map (openai_tool_use parse) (List.map_filter (tool_call_of_block ts) blocks) = filter is_tool_use blocks"
proof (induction blocks)
  case (Cons b bs)
  then show ?case by (cases b) (auto simp: openai_tool_use_call)
qed simp

lemma count_usage_fields:
  "count_field ''prompt_tokens'' (Object (usage_fields u @ o1)) = input_tokens u"
  "count_field ''completion_tokens'' (Object (usage_fields u @ o1)) = output_tokens u"
  by (simp_all add: count_field_def get_u64_def usage_fields_def)

lemma parse_usage_fields:
  "map_of o1 ''prompt_tokens_details'' = None \<Longrightarrow>
   parse_openai_usage (Object (usage_fields u @ o1)) =
     u\<lparr>cache_read_tokens := None, cache_write_tokens := None\<rparr>"
  by (cases u) (simp add: parse_openai_usage_def count_usage_fields, simp add: usage_fields_def)

lemma message_roundtrip:
  assumes "\<forall>i n j. ToolUse i n j \<in> set blocks \<longrightarrow> parse (ts j) = Some j"
  shows "openai_blocks parse (Object [(''role'', String ''assistant''),
       (''content'', String (text_from_blocks blocks)),
       (''tool_calls'', jopt (tool_calls_from_blocks ts blocks))])
     = Text (text_from_blocks blocks) # filter is_tool_use blocks"
proof -
  have "tool_calls_from_blocks ts blocks =
      (if filter is_tool_use blocks = [] then None
       else Some (Array (List.map_filter (tool_call_of_block ts) blocks)))"
    using tool_uses_roundtrip[OF assms, symmetric]
    by (simp add: tool_calls_from_blocks_def Let_def)
  then show ?thesis
    using tool_uses_roundtrip[OF assms]
    by (auto simp: openai_blocks_def get_str_def get_array_def jopt_def split: if_splits)
qed

subsection \<open>Properties\<close>

text \<open>C38. Round trip of responses: what the router answers in OpenAI form is read back by its OpenAI
  adapter as the same response (id, model, finish reason, token counts and, in order, every tool
  call, all text joined in front), under the reading side's provider name; only the two cache
  counters are lost.\<close>

theorem openai_response_roundtrip:
  assumes "\<forall>i n j. ToolUse i n j \<in> set (rs_content r) \<longrightarrow> parse (ts j) = Some j"
  shows "parse_openai_response parse (response_to_openai ts created r) p = Inr (r
    \<lparr>rs_provider := p,
     rs_content := Text (text_from_blocks (rs_content r)) # filter is_tool_use (rs_content r),
     rs_usage := (rs_usage r)\<lparr>cache_read_tokens := None, cache_write_tokens := None\<rparr>\<rparr>)"
  using message_roundtrip[OF assms]
  by (simp add: parse_openai_response_def response_to_openai_def first_choice_def get_array_def
      str_field_def get_str_def parse_usage_fields)

text \<open>Round trip of stream chunks: the chunk line the router emits is read back with the same
  text, tool call, finish reason and token counts (the reading side stamps its own model). But the
  \<open>usage\<close> of a chunk without counts is written as a null, and is read back as zero counts.\<close>

theorem openai_chunk_roundtrip:
  assumes "\<forall>tc. cd_tool_use (ch_delta c) = Some tc \<longrightarrow> parse (ts (tc_arguments tc)) = Some (tc_arguments tc)"
  shows "Option.bind (chunk_to_openai ts created c) (parse_openai_chunk parse model) = Some (c
    \<lparr>ch_model := model, ch_usage := Some (case ch_usage c of None \<Rightarrow> usage_default
       | Some u \<Rightarrow> u\<lparr>cache_read_tokens := None, cache_write_tokens := None\<rparr>)\<rparr>)"
proof -
  have null: "parse_openai_usage Null = usage_default"
    by (simp add: parse_openai_usage_def usage_default_def count_field_def get_u64_def)
  have fields: "parse_openai_usage (Object (usage_fields u)) =
      u\<lparr>cache_read_tokens := None, cache_write_tokens := None\<rparr>" for u
    using parse_usage_fields[of "[]" u] by simp
  show ?thesis using assms
    by (cases "ch_usage c"; cases "cd_tool_use (ch_delta c)")
      (simp_all add: chunk_to_openai_def parse_openai_chunk_def parse_chunk_with_def first_choice_def
        get_array_def str_field_def get_str_def jopt_def null fields chunk_tool_use_def
        function_field_call[unfolded str_field_def get_str_def] function_field_def tool_call_json_def)
qed

lemma empty_choices_dropped:
  "get_array ''choices'' v = Some [] \<Longrightarrow> parse_openai_chunk parse model v = None"
  by (simp add: parse_openai_chunk_def parse_chunk_with_def first_choice_def)

lemma chunk_usage:
  "parse_openai_chunk parse model v = Some c \<Longrightarrow> ch_usage c = map_option parse_openai_usage (jget ''usage'' v)"
  by (auto simp: parse_openai_chunk_def parse_chunk_with_def split: bind_splits)

lemma openai_stream_emitted:
  assumes "send (post_json (chat_url base path) [bearer_header key, json_content]
        (with_usage_option (with_stream True (openai_body ts req)))) = Inr r"
    and "is_success (an_status r)" and "an_bytes r = map Inr bs"
  shows "openai_stream send ts parse lossy i base path req key = Inr (map Inr (concat (map
     (\<lambda>raw. List.map_filter (parse_openai_chunk parse (cr_selected_model req)) (event_values parse lossy raw))
     (fst (sse_cut (concat bs))))))"
proof -
  have "openai_step parse lossy m = (\<lambda>raw st. (List.map_filter (parse_openai_chunk parse m)
      (event_values parse lossy raw), st))" for m
    by (simp add: openai_step_def fun_eq_iff)
  then show ?thesis using assms sse.head_empty
    by (simp add: openai_stream_def call_provider_def sse.run_stream_emitted sse.emitted_def steps_stateless)
qed

text \<open>The token counts of an OpenAI stream are lost. When the service reports them the way the
  adapter asks for (in a last chunk whose list of choices is empty, \<open>usage\<close> being absent or null in
  the others), no chunk the adapter emits carries a count other than zero.\<close>

theorem stream_counts_lost:
  assumes "send (post_json (chat_url base path) [bearer_header key, json_content]
        (with_usage_option (with_stream True (openai_body ts req)))) = Inr r"
    and "is_success (an_status r)" and "an_bytes r = map Inr bs"
    and "\<forall>raw \<in> set (fst (sse_cut (concat bs))). \<forall>v \<in> set (event_values parse lossy raw).
      jget ''usage'' v = None \<or> jget ''usage'' v = Some Null \<or> get_array ''choices'' v = Some []"
  shows "\<exists>cs. openai_stream send ts parse lossy i base path req key = Inr (map Inr cs)
    \<and> (\<forall>c \<in> set cs. ch_usage c = None \<or> ch_usage c = Some usage_default)"
proof -
  have null: "parse_openai_usage Null = usage_default"
    by (simp add: parse_openai_usage_def usage_default_def count_field_def get_u64_def)
  have quiet: "ch_usage c = None \<or> ch_usage c = Some usage_default"
    if "raw \<in> set (fst (sse_cut (concat bs)))" "v \<in> set (event_values parse lossy raw)"
      "parse_openai_chunk parse (cr_selected_model req) v = Some c" for raw v c
  proof -
    from assms(4) that(1,2) have "jget ''usage'' v = None \<or> jget ''usage'' v = Some Null"
      using that(3) empty_choices_dropped by fastforce
    then show ?thesis using chunk_usage[OF that(3)] null by (elim disjE) simp_all
  qed
  show ?thesis
    by (rule exI, rule conjI, rule openai_stream_emitted[where send = send and r = r, OF assms(1-3)])
      (auto simp: set_map_filter dest!: quiet)
qed


subsection \<open>Examples\<close>

definition sample_response :: CanonicalResponse where
  "sample_response = \<lparr>rs_id = ''r1'', rs_model = ''m'', rs_provider = ''acme'',
     rs_content = [ToolUse ''t1'' ''add'' Null, Text ''hi''], rs_finish_reason = Some ''stop'',
     rs_usage = \<lparr>input_tokens = 3, output_tokens = 4, cache_read_tokens = Some 2, cache_write_tokens = None\<rparr>\<rparr>"

theorem openai_response_roundtrip_witness:
  "parse_openai_response (\<lambda>_. Some Null) (response_to_openai (\<lambda>_. ''null'') 0 sample_response) ''p'' = Inr
     \<lparr>rs_id = ''r1'', rs_model = ''m'', rs_provider = ''p'',
      rs_content = [Text ''hi'', ToolUse ''t1'' ''add'' Null], rs_finish_reason = Some ''stop'',
      rs_usage = \<lparr>input_tokens = 3, output_tokens = 4, cache_read_tokens = None, cache_write_tokens = None\<rparr>\<rparr>"
  using openai_response_roundtrip [of sample_response "\<lambda>_. Some Null" "\<lambda>_. ''null''" 0 "''p''"]
  by (simp add: sample_response_def text_from_blocks_def)

definition sample_chunk :: CanonicalChunk where
  "sample_chunk = \<lparr>ch_id = ''c1'', ch_model = ''a'', ch_delta = \<lparr>cd_text = Some ''hi'', cd_tool_use = None\<rparr>,
     ch_finish_reason = None, ch_usage = None\<rparr>"

theorem openai_chunk_roundtrip_witness:
  "Option.bind (chunk_to_openai (\<lambda>_. []) 0 sample_chunk) (parse_openai_chunk (\<lambda>_. None) ''b'')
     = Some \<lparr>ch_id = ''c1'', ch_model = ''b'', ch_delta = \<lparr>cd_text = Some ''hi'', cd_tool_use = None\<rparr>,
         ch_finish_reason = None, ch_usage = Some usage_default\<rparr>"
  using openai_chunk_roundtrip [of sample_chunk "\<lambda>_. None" "\<lambda>_. []" 0 "''b''"]
  by (simp add: sample_chunk_def)

definition usage_chunk :: json where
  "usage_chunk = Object [(''choices'', Array []), (''usage'', Object [(''completion_tokens'', ju32 7)])]"

definition usage_reply :: UpstreamReply where
  "usage_reply = \<lparr>an_status = 200, an_reason = ''OK'', an_text = '''', an_json = Inr Null,
     an_bytes = map Inr [''data: u'' @ [NL], [NL]]\<rparr>"

definition sample_request :: CanonicalRequest where
  "sample_request = \<lparr>cr_messages = [], cr_system = None, cr_max_tokens = None, cr_temperature = None,
     cr_top_p = None, cr_stop = None, cr_stream = True, cr_tools = None, cr_tool_choice = None,
     cr_tier = Standard, cr_selected_model = ''m'', cr_selected_provider = ''acme'',
     cr_request_id = ''r1'', cr_extensions = [], cr_metadata = metadata_default\<rparr>"

theorem stream_counts_lost_witness:
  "\<exists>cs. openai_stream (\<lambda>_. Inr usage_reply) (\<lambda>_. []) (\<lambda>_. Some usage_chunk) (\<lambda>s. s) ''acme'' ''http://x''
      CHAT_PATH sample_request ''k'' = Inr (map Inr cs)
    \<and> (\<forall>c \<in> set cs. ch_usage c = None \<or> ch_usage c = Some usage_default)"
proof (rule stream_counts_lost [where r = usage_reply and bs = "[''data: u'' @ [NL], [NL]]"])
  show "\<forall>raw \<in> set (fst (sse_cut (concat [''data: u'' @ [NL], [NL]]))).
      \<forall>v \<in> set (event_values (\<lambda>_. Some usage_chunk) (\<lambda>s. s) raw).
      jget ''usage'' v = None \<or> jget ''usage'' v = Some Null \<or> get_array ''choices'' v = Some []"
    by (auto simp: event_values_def set_map_filter usage_chunk_def get_array_def split: if_splits)
qed (simp_all add: usage_reply_def is_success_def)

end
