(* ===== verification/AdapterAnthropic.thy ===== *)
theory AdapterAnthropic
  imports AdapterOpenai
begin

section \<open>The Anthropic adapter\<close>

text \<open>
  \<open>src/providers/adapters/anthropic.rs\<close>: the Messages API. The stream keeps the text it has sent
  (\<open>emitted_text\<close>), which decides whether it ends with a terminal chunk of its own.
\<close>

definition API_VERSION :: string where
  "API_VERSION = ''2023-06-01''"

fun anthropic_supports :: "Capability \<Rightarrow> bool" where
  "anthropic_supports CapTools = True"
| "anthropic_supports CapVision = True"
| "anthropic_supports CapAudio = False"
| "anthropic_supports CapVideo = False"
| "anthropic_supports CapReasoning = True"
| "anthropic_supports (CapContext n) = (n \<le> 200000)"

definition anthropic_auth :: "string \<Rightarrow> string \<times> string" where
  "anthropic_auth key = (''x-api-key'', header_value key)"

subsection \<open>Requests\<close>

definition text_json :: "string \<Rightarrow> json" where
  "text_json s = Object [(''type'', String ''text''), (''text'', String s)]"

fun image_source :: "string \<Rightarrow> ImageData \<Rightarrow> json" where
  "image_source media_type (ImageUrl url) = Object [(''type'', String ''url''), (''url'', String url)]"
| "image_source media_type (ImageBase64 d) = Object [(''type'', String ''base64''),
     (''media_type'', String media_type), (''data'', String d)]"

fun anthropic_part :: "ContentBlock \<Rightarrow> json option" where
  "anthropic_part (Text s) = Some (text_json s)"
| "anthropic_part (Image media_type d) = Some (Object [(''type'', String ''image''),
     (''source'', image_source media_type d)])"
| "anthropic_part _ = None"

definition blocks_to_anthropic_content :: "ContentBlock list \<Rightarrow> json" where
  "blocks_to_anthropic_content blocks = Array (List.map_filter anthropic_part blocks)"

definition anthropic_tool_use :: "CanonicalToolCall \<Rightarrow> json" where
  "anthropic_tool_use tc = Object [(''type'', String ''tool_use''), (''id'', String (tc_id tc)),
     (''name'', String (tc_name tc)), (''input'', tc_arguments tc)]"

fun anthropic_tool_result :: "ContentBlock \<Rightarrow> json option" where
  "anthropic_tool_result (ToolResult i content) = Some (Object [(''type'', String ''tool_result''),
     (''tool_use_id'', String i), (''content'', strings (List.map_filter text_of_block content))])"
| "anthropic_tool_result _ = None"

definition message_to_anthropic :: "CanonicalMessage \<Rightarrow> json" where
  "message_to_anthropic msg = (case cm_role msg of
      User \<Rightarrow> Object [(''role'', String ''user''), (''content'', blocks_to_anthropic_content (cm_content msg))]
    | Assistant \<Rightarrow> Object [(''role'', String ''assistant''),
        (''content'', Array (map text_json (List.map_filter text_of_block (cm_content msg))
           @ map anthropic_tool_use (unwrap_or [] (cm_tool_calls msg))))]
    | Tool \<Rightarrow> Object [(''role'', String ''user''),
        (''content'', Array (List.map_filter anthropic_tool_result (cm_content msg)))]
    | System \<Rightarrow> Object [(''role'', String ''user''), (''content'', Array [])])"

definition anthropic_tool :: "CanonicalTool \<Rightarrow> json" where
  "anthropic_tool t = Object [(''name'', String (ct_name t)),
     (''description'', jstr_opt (ct_description t)), (''input_schema'', ct_parameters t)]"

fun anthropic_tool_choice :: "ToolChoice \<Rightarrow> json" where
  "anthropic_tool_choice Auto = Object [(''type'', String ''auto'')]"
| "anthropic_tool_choice NoTool = Object [(''type'', String ''none'')]"
| "anthropic_tool_choice Required = Object [(''type'', String ''any'')]"
| "anthropic_tool_choice (Specific nm) = Object [(''type'', String ''tool''), (''name'', String nm)]"

definition anthropic_body :: "CanonicalRequest \<Rightarrow> json" where
  "anthropic_body req =
     jset_opt ''tool_choice'' (map_option anthropic_tool_choice (cr_tool_choice req))
     (jset_opt ''tools'' (map_option (\<lambda>tools. Array (map anthropic_tool tools)) (cr_tools req))
     (jset_opt ''stop_sequences'' (map_option strings (cr_stop req))
     (jset_opt ''top_p'' (map_option jf64 (cr_top_p req))
     (jset_opt ''temperature'' (map_option jf64 (cr_temperature req))
     (jset_opt ''system'' (map_option String (cr_system req))
       (Object [(''model'', String (cr_selected_model req)),
         (''messages'', Array (map message_to_anthropic (cr_messages req))),
         (''max_tokens'', ju32 (unwrap_or 4096 (cr_max_tokens req))),
         (''stream'', Bool (cr_stream req))]))))))"

subsection \<open>Responses\<close>

definition anthropic_block :: "json \<Rightarrow> ContentBlock option" where
  "anthropic_block b = (case get_str ''type'' b of
      None \<Rightarrow> None
    | Some kind \<Rightarrow>
        if kind = ''text'' then map_option Text (get_str ''text'' b)
        else if kind = ''tool_use'' then Some (ToolUse (str_field ''id'' b) (str_field ''name'' b)
               (unwrap_or Null (jget ''input'' b)))
        else None)"

definition anthropic_usage :: "json \<Rightarrow> Usage" where
  "anthropic_usage u = \<lparr>input_tokens = count_field ''input_tokens'' u,
     output_tokens = count_field ''output_tokens'' u,
     cache_read_tokens = count_field_opt ''cache_read_input_tokens'' u,
     cache_write_tokens = count_field_opt ''cache_creation_input_tokens'' u\<rparr>"

definition parse_anthropic_response :: "json \<Rightarrow> string \<Rightarrow> AppError + CanonicalResponse" where
  "parse_anthropic_response v provider = Inr
     \<lparr>rs_id = str_field ''id'' v, rs_model = str_field ''model'' v, rs_provider = provider,
      rs_content = List.map_filter anthropic_block (unwrap_or [] (get_array ''content'' v)),
      rs_finish_reason = get_str ''stop_reason'' v,
      rs_usage = unwrap_or usage_default (map_option anthropic_usage (jget ''usage'' v))\<rparr>"

subsection \<open>Streams\<close>

definition text_delta :: "json \<Rightarrow> string option" where
  "text_delta v = Option.bind (jget ''delta'' v) (\<lambda>delta.
     if get_str ''type'' delta = Some ''text_delta'' then get_str ''text'' delta else None)"

definition delta_usage :: "json \<Rightarrow> Usage" where
  "delta_usage usage = \<lparr>input_tokens = 0, output_tokens = count_field ''output_tokens'' usage,
     cache_read_tokens = None, cache_write_tokens = None\<rparr>"

definition anthropic_event ::
  "string \<Rightarrow> string \<Rightarrow> json \<Rightarrow> string \<Rightarrow> CanonicalChunk list \<times> string" where
  "anthropic_event mid model v emitted_text =
     (if get_str ''type'' v = Some ''content_block_delta''
      then (case text_delta v of
          None \<Rightarrow> ([], emitted_text)
        | Some t \<Rightarrow> ([text_chunk mid model t], emitted_text @ t))
      else if get_str ''type'' v = Some ''message_delta''
      then (case jget ''usage'' v of
          None \<Rightarrow> ([], emitted_text)
        | Some usage \<Rightarrow> ([final_chunk mid model (Option.bind (jget ''delta'' v) (get_str ''stop_reason''))
                            (Some (delta_usage usage))], emitted_text))
      else ([], emitted_text))"

definition anthropic_step ::
  "(string \<Rightarrow> json option) \<Rightarrow> (string \<Rightarrow> string) \<Rightarrow> string \<Rightarrow> string \<Rightarrow> string \<Rightarrow> string
     \<Rightarrow> CanonicalChunk list \<times> string" where
  "anthropic_step parse lossy mid model raw st =
     steps (anthropic_event mid model) (event_values parse lossy raw) st"

definition anthropic_end :: "string \<Rightarrow> string \<Rightarrow> string \<Rightarrow> CanonicalChunk list" where
  "anthropic_end mid model emitted_text =
     (if emitted_text \<noteq> [] then [final_chunk mid model (Some ''end_turn'') None] else [])"

subsection \<open>The calls\<close>

definition anthropic_call :: "string \<Rightarrow> string \<Rightarrow> json \<Rightarrow> UpstreamCall" where
  "anthropic_call base key body = post_json (base @ ''/v1/messages'')
     [anthropic_auth key, (''anthropic-version'', API_VERSION), json_content] body"

definition anthropic_complete ::
  "upstream \<Rightarrow> string \<Rightarrow> string \<Rightarrow> CanonicalRequest \<Rightarrow> string \<Rightarrow> AppError + CanonicalResponse" where
  "anthropic_complete send i base req key =
     and_then (call_provider send i (anthropic_call base key (with_stream False (anthropic_body req)))) (\<lambda>r.
     and_then (reply_value r) (\<lambda>v. parse_anthropic_response v i))"

definition anthropic_stream ::
  "upstream \<Rightarrow> (string \<Rightarrow> json option) \<Rightarrow> (string \<Rightarrow> string) \<Rightarrow> string \<Rightarrow> string \<Rightarrow> string
     \<Rightarrow> CanonicalRequest \<Rightarrow> string \<Rightarrow> AppError + (AppError + CanonicalChunk) list" where
  "anthropic_stream send parse lossy uuid i base req key =
     (let mid = ''msg_'' @ uuid; model = cr_selected_model req in
     and_then (call_provider send i (anthropic_call base key (with_stream True (anthropic_body req)))) (\<lambda>r.
     Inr (run_stream sse_cut (anthropic_step parse lossy mid model) (anthropic_end mid model)
            (an_bytes r) [] [])))"

definition anthropic_list_models :: "upstream \<Rightarrow> string \<Rightarrow> string \<Rightarrow> AppError + string list" where
  "anthropic_list_models send base key = and_then (list_call send ''anthropic models''
     \<lparr>cl_method = ''GET'', cl_url = trim_end_matches (CHR ''/'') base @ ''/v1/models'',
      cl_headers = [(''x-api-key'', key), (''anthropic-version'', API_VERSION)], cl_body = None\<rparr>)
     (\<lambda>v. Inr (ids_of_data v))"

subsection \<open>Text on its way to Anthropic\<close>

lemma text_parts_user: "text_parts (List.map_filter anthropic_part blocks) = List.map_filter text_of_block blocks"
proof (induction blocks)
  case (Cons b bs)
  then show ?case by (cases b) (simp_all add: text_parts_def text_json_def get_str_def)
qed (simp add: text_parts_def)

lemma text_parts_assistant:
  "text_parts (map text_json ts @ map anthropic_tool_use tcs) = ts"
proof -
  have "text_parts (map text_json ts) = ts"
    by (induction ts) (simp_all add: text_parts_def text_json_def get_str_def)
  moreover have "text_parts (map anthropic_tool_use tcs) = []"
    by (induction tcs) (simp_all add: text_parts_def anthropic_tool_use_def get_str_def)
  ultimately show ?thesis by (simp add: text_parts_def)
qed

lemma text_parts_tool: "text_parts (List.map_filter anthropic_tool_result blocks) = []"
proof (induction blocks)
  case (Cons b bs)
  then show ?case by (cases b) (simp_all add: text_parts_def get_str_def)
qed (simp add: text_parts_def)

subsection \<open>Streams end to end\<close>

text \<open>The text an event carries.\<close>

definition event_text :: "json \<Rightarrow> string" where
  "event_text v = (if get_str ''type'' v = Some ''content_block_delta''
     then unwrap_or [] (text_delta v) else [])"

lemma anthropic_event_text:
  "anthropic_event mid model v st = (out, st') \<Longrightarrow>
   concat (map chunk_text out) = event_text v \<and> st' = st @ event_text v"
  by (auto simp: anthropic_event_def event_text_def text_chunk_def final_chunk_def delta_default_def
      split: if_split_asm option.split_asm)

interpretation anthropic: sent_text_stream "anthropic_event mid model" event_text "\<lambda>st. st"
  by unfold_locales (use anthropic_event_text in auto)

lemma anthropic_steps_input:
  "steps (anthropic_event mid model) vs st = (out, st') \<Longrightarrow>
   \<forall>c \<in> set out. ch_id c = mid \<and> ch_model c = model \<and> (\<forall>u. ch_usage c = Some u \<longrightarrow> input_tokens u = 0)"
proof (induction vs arbitrary: st out st')
  case (Cons v vs)
  obtain o1 s1 where e: "anthropic_event mid model v st = (o1, s1)" by (cases "anthropic_event mid model v st")
  obtain o2 s2 where r: "steps (anthropic_event mid model) vs s1 = (o2, s2)"
    by (cases "steps (anthropic_event mid model) vs s1")
  have "\<forall>c \<in> set o1. ch_id c = mid \<and> ch_model c = model \<and> (\<forall>u. ch_usage c = Some u \<longrightarrow> input_tokens u = 0)"
    using e by (auto simp: anthropic_event_def text_chunk_def final_chunk_def delta_usage_def
        split: if_split_asm option.split_asm)
  then show ?case using Cons.IH[OF r] Cons.prems by (auto simp: e r)
qed simp

lemma anthropic_stream_emitted:
  assumes "send (anthropic_call base key (with_stream True (anthropic_body req))) = Inr r"
    and "is_success (an_status r)" and "an_bytes r = map Inr bs"
    and "steps (anthropic_event (''msg_'' @ uuid) (cr_selected_model req))
      (concat (map (event_values parse lossy) (fst (sse_cut (concat bs))))) [] = (out, st)"
  shows "anthropic_stream send parse lossy uuid i base req key
     = Inr (map Inr (out @ anthropic_end (''msg_'' @ uuid) (cr_selected_model req) st))"
proof -
  have "anthropic_step parse lossy m d = (\<lambda>raw st. steps (anthropic_event m d) (event_values parse lossy raw) st)"
    for m d by (simp add: anthropic_step_def fun_eq_iff)
  then show ?thesis using assms sse.head_empty
    by (simp add: anthropic_stream_def Let_def call_provider_def sse.run_stream_emitted sse.emitted_def
        steps_concat)
qed


subsection \<open>Properties\<close>

text \<open>Text on its way to Anthropic: of a user or assistant message of the client every text
  reaches the provider, in order. Of a tool message none does: the answer of the tool is dropped (a
  client sends it as the content of a message with role \<open>tool\<close>, the adapter sends only
  \<open>tool_result\<close> blocks).\<close>

theorem anthropic_text_delivery:
  assumes "im_role msg \<noteq> ''system''"
  shows "\<exists>parts. jget ''content'' (message_to_anthropic (message_to_canonical parse text_of msg)) = Some (Array parts)
    \<and> text_parts parts = (if im_role msg = ''tool'' then []
        else List.map_filter text_of_block (content_to_blocks text_of (im_content msg)))"
  using assms
  by (auto simp: message_to_anthropic_def message_to_canonical_def role_from_str_def
      blocks_to_anthropic_content_def text_parts_user text_parts_assistant text_parts_tool)

definition tool_answer :: InboundMessage where
  "tool_answer = \<lparr>im_role = ''tool'', im_content = String ''42'', im_name = None,
     im_tool_call_id = Some ''t1'', im_tool_calls = None\<rparr>"

theorem anthropic_text_delivery_witness:
  "\<exists>parts. jget ''content'' (message_to_anthropic (message_to_canonical (\<lambda>_. None) (\<lambda>_. []) tool_answer))
     = Some (Array parts) \<and> text_parts parts = []"
  using anthropic_text_delivery [of tool_answer "\<lambda>_. None" "\<lambda>_. []"] by (simp add: tool_answer_def)

text \<open>A stream that the network delivers without an error yields the text of its delta events,
  in order and nothing else. Its token counts never include the input (they come with
  \<open>message_start\<close>, which is not read), and whenever it has text it ends with a chunk of its own whose
  reason is \<open>end_turn\<close>, also after the provider has reported another one.\<close>

theorem anthropic_stream_chunks:
  assumes "send (anthropic_call base key (with_stream True (anthropic_body req))) = Inr r"
    and "is_success (an_status r)" and "an_bytes r = map Inr bs"
    and "t = concat (map event_text
      (concat (map (event_values parse lossy) (fst (sse_cut (concat bs))))))"
  shows "\<exists>cs. anthropic_stream send parse lossy uuid i base req key = Inr (map Inr cs)
    \<and> concat (map chunk_text cs) = t
    \<and> (\<forall>c \<in> set cs. ch_id c = ''msg_'' @ uuid \<and> ch_model c = cr_selected_model req
         \<and> (\<forall>u. ch_usage c = Some u \<longrightarrow> input_tokens u = 0))
    \<and> (t \<noteq> [] \<longrightarrow> ch_finish_reason (last cs) = Some ''end_turn'' \<and> ch_usage (last cs) = None)"
proof -
  let ?vs = "concat (map (event_values parse lossy) (fst (sse_cut (concat bs))))"
  let ?tail = "anthropic_end (''msg_'' @ uuid) (cr_selected_model req)"
  obtain out st where s: "steps (anthropic_event (''msg_'' @ uuid) (cr_selected_model req)) ?vs [] = (out, st)"
    by fastforce
  have st: "concat (map chunk_text out) = t" "st = t" using anthropic.steps_text[OF s] anthropic.steps_sent[OF s] assms(4) by simp_all
  have "anthropic_stream send parse lossy uuid i base req key = Inr (map Inr (out @ ?tail st))"
    by (rule anthropic_stream_emitted[where send = send and r = r, OF assms(1-3) s])
  then show ?thesis
    using st anthropic_steps_input[OF s]
    by (intro exI[of _ "out @ ?tail st"])
      (auto simp: anthropic_end_def final_chunk_def delta_default_def)
qed

definition delta_event :: json where
  "delta_event = Object [(''type'', String ''content_block_delta''),
     (''delta'', Object [(''type'', String ''text_delta''), (''text'', String ''hi'')])]"

definition limit_event :: json where
  "limit_event = Object [(''type'', String ''message_delta''),
     (''delta'', Object [(''stop_reason'', String ''max_tokens'')]), (''usage'', Object [])]"

definition event_codec :: "string \<Rightarrow> json option" where
  "event_codec s = (if s = ''d'' then Some delta_event else if s = ''m'' then Some limit_event else None)"

definition event_reply :: UpstreamReply where
  "event_reply = \<lparr>an_status = 200, an_reason = ''OK'', an_text = '''', an_json = Inr Null,
     an_bytes = map Inr [''data: d'' @ [NL, NL] @ ''data:'', '' m'' @ [NL, NL]]\<rparr>"

theorem anthropic_stream_chunks_witness:
  "\<exists>cs. anthropic_stream (\<lambda>_. Inr event_reply) event_codec (\<lambda>s. s) ''u'' ''a'' ''http://x'' sample_request ''k''
      = Inr (map Inr cs) \<and> concat (map chunk_text cs) = ''hi''
    \<and> ch_finish_reason (last cs) = Some ''end_turn''"
proof -
  let ?bs = "[''data: d'' @ [NL, NL] @ ''data:'', '' m'' @ [NL, NL]]"
  have t: "''hi'' = concat (map event_text
      (concat (map (event_values event_codec (\<lambda>s. s)) (fst (sse_cut (concat ?bs))))))"
    by code_simp
  have r: "is_success (an_status event_reply)" "an_bytes event_reply = map Inr ?bs"
    by (simp_all add: event_reply_def is_success_def)
  show ?thesis
    using anthropic_stream_chunks [where send = "\<lambda>_. Inr event_reply" and r = event_reply, OF refl r t] by blast
qed

end
