(* ===== verification/AdapterGoogle.thy ===== *)
theory AdapterGoogle
  imports AdapterAnthropic
begin

section \<open>The Gemini and Responses adapters\<close>

text \<open>
  \<open>src/providers/adapters/google.rs\<close> (generateContent) and \<open>responses.rs\<close> (/v1/responses). The Gemini
  stream keeps the last usage it has read, the Responses stream that and the text it has sent.
\<close>

subsection \<open>Gemini: requests\<close>

definition model_path :: "string \<Rightarrow> string \<Rightarrow> bool \<Rightarrow> string" where
  "model_path base model stream = trim_end_matches (CHR ''/'') base @ ''/v1beta/models/'' @ model @ '':''
     @ (if stream then ''streamGenerateContent?alt=sse'' else ''generateContent'')"

fun google_supports :: "Capability \<Rightarrow> bool" where
  "google_supports CapTools = True"
| "google_supports CapVision = True"
| "google_supports CapAudio = True"
| "google_supports CapVideo = False"
| "google_supports CapReasoning = True"
| "google_supports (CapContext n) = (n \<le> 1000000)"

definition google_auth :: "string \<Rightarrow> string \<times> string" where
  "google_auth key = (''x-goog-api-key'', header_value key)"

fun google_part :: "ContentBlock \<Rightarrow> json option" where
  "google_part (Text s) = Some (Object [(''text'', String s)])"
| "google_part (Image media_type (ImageBase64 d)) = Some (Object [(''inline_data'',
     Object [(''mime_type'', String media_type), (''data'', String d)])])"
| "google_part _ = None"

fun google_role :: "Role \<Rightarrow> string option" where
  "google_role User = Some ''user''"
| "google_role Tool = Some ''user''"
| "google_role Assistant = Some ''model''"
| "google_role System = None"

definition google_content :: "CanonicalMessage \<Rightarrow> json option" where
  "google_content m = map_option (\<lambda>role. Object [(''role'', String role),
     (''parts'', Array (List.map_filter google_part (cm_content m)))]) (google_role (cm_role m))"

definition generation_config :: "CanonicalRequest \<Rightarrow> json" where
  "generation_config req =
     jset_opt ''stopSequences'' (map_option strings (cr_stop req))
     (jset_opt ''topP'' (map_option jf64 (cr_top_p req))
     (jset_opt ''temperature'' (map_option jf64 (cr_temperature req))
     (jset_opt ''maxOutputTokens'' (map_option ju32 (cr_max_tokens req)) (Object []))))"

definition google_body :: "CanonicalRequest \<Rightarrow> json" where
  "google_body req = (let cfg = generation_config req in
     jset_opt ''generationConfig'' (if cfg = Object [] then None else Some cfg)
     (jset_opt ''systemInstruction'' (map_option
         (\<lambda>s. Object [(''parts'', Array [Object [(''text'', String s)]])]) (cr_system req))
       (Object [(''contents'', Array (List.map_filter google_content (cr_messages req)))])))"

subsection \<open>Gemini: answers\<close>

definition google_finish :: "string \<Rightarrow> string" where
  "google_finish s = (if s = ''STOP'' then ''stop'' else if s = ''MAX_TOKENS'' then ''length''
     else if s = ''SAFETY'' then ''content_filter'' else s)"

definition first_candidate :: "json \<Rightarrow> json option" where
  "first_candidate v = Option.bind (get_array ''candidates'' v) first"

definition candidate_texts :: "json \<Rightarrow> string list" where
  "candidate_texts cand = text_parts (unwrap_or []
     (Option.bind (jget ''content'' cand) (get_array ''parts'')))"

definition candidate_finish :: "json \<Rightarrow> string option" where
  "candidate_finish cand = map_option google_finish (get_str ''finishReason'' cand)"

definition google_usage :: "json \<Rightarrow> Usage" where
  "google_usage = plain_usage ''promptTokenCount'' ''candidatesTokenCount''"

definition parse_google_response ::
  "string \<Rightarrow> json \<Rightarrow> string \<Rightarrow> string \<Rightarrow> AppError + CanonicalResponse" where
  "parse_google_response uuid v provider fallback_model = Inr
     \<lparr>rs_id = ''gemini-'' @ uuid, rs_model = fallback_model, rs_provider = provider,
      rs_content = (case first_candidate v of None \<Rightarrow> [] | Some cand \<Rightarrow> map Text (candidate_texts cand)),
      rs_finish_reason = Option.bind (first_candidate v) candidate_finish,
      rs_usage = unwrap_or usage_default (map_option google_usage (jget ''usageMetadata'' v))\<rparr>"

definition google_event ::
  "string \<Rightarrow> string \<Rightarrow> json \<Rightarrow> Usage option \<Rightarrow> CanonicalChunk list \<times> Usage option" where
  "google_event mid model v final_usage =
     (let usage = opt_or (map_option google_usage (jget ''usageMetadata'' v)) final_usage in
      (case first_candidate v of
          None \<Rightarrow> []
        | Some cand \<Rightarrow> (let why = candidate_finish cand in
            map (\<lambda>t. (text_chunk mid model t)\<lparr>ch_finish_reason := why\<rparr>)
              (filter (\<lambda>t. t \<noteq> []) (candidate_texts cand))
            @ (if why \<noteq> None then [final_chunk mid model why usage] else [])), usage))"

text \<open>This adapter does not look for \<open>[DONE]\<close>.\<close>

definition google_values :: "(string \<Rightarrow> json option) \<Rightarrow> (string \<Rightarrow> string) \<Rightarrow> string \<Rightarrow> json list" where
  "google_values parse lossy raw = List.map_filter parse (data_lines (lossy raw))"

definition google_step ::
  "(string \<Rightarrow> json option) \<Rightarrow> (string \<Rightarrow> string) \<Rightarrow> string \<Rightarrow> string \<Rightarrow> string \<Rightarrow> Usage option
     \<Rightarrow> CanonicalChunk list \<times> Usage option" where
  "google_step parse lossy mid model raw st =
     steps (google_event mid model) (google_values parse lossy raw) st"

definition google_end :: "string \<Rightarrow> string \<Rightarrow> Usage option \<Rightarrow> CanonicalChunk list" where
  "google_end mid model final_usage = (case final_usage of None \<Rightarrow> []
     | Some u \<Rightarrow> [final_chunk mid model (Some ''stop'') (Some u)])"

definition google_complete ::
  "upstream \<Rightarrow> string \<Rightarrow> string \<Rightarrow> string \<Rightarrow> CanonicalRequest \<Rightarrow> string
     \<Rightarrow> AppError + CanonicalResponse" where
  "google_complete send uuid i base req key =
     and_then (call_provider send i (post_json (model_path base (cr_selected_model req) False)
         [google_auth key, json_content] (google_body req))) (\<lambda>r.
     and_then (reply_value r) (\<lambda>v. parse_google_response uuid v i (cr_selected_model req)))"

definition google_stream ::
  "upstream \<Rightarrow> (string \<Rightarrow> json option) \<Rightarrow> (string \<Rightarrow> string) \<Rightarrow> string \<Rightarrow> string \<Rightarrow> string
     \<Rightarrow> CanonicalRequest \<Rightarrow> string \<Rightarrow> AppError + (AppError + CanonicalChunk) list" where
  "google_stream send parse lossy uuid i base req key =
     (let mid = ''gemini-'' @ uuid; model = cr_selected_model req in
     and_then (call_provider send i (post_json (model_path base model True)
         [google_auth key, json_content] (google_body req))) (\<lambda>r.
     Inr (run_stream sse_cut (google_step parse lossy mid model) (google_end mid model)
            (an_bytes r) [] None)))"

definition google_list_models :: "upstream \<Rightarrow> string \<Rightarrow> string \<Rightarrow> AppError + string list" where
  "google_list_models send base key = and_then (list_call send ''google models''
     \<lparr>cl_method = ''GET'', cl_url = base @ ''/v1beta/models?key='' @ key, cl_headers = [], cl_body = None\<rparr>)
     (\<lambda>v. Inr (unwrap_or [] (map_option (List.map_filter (\<lambda>m. map_option
        (\<lambda>s. unwrap_or s (strip_prefix ''models/'' s)) (get_str ''name'' m))) (get_array ''models'' v))))"

subsection \<open>Responses: requests\<close>

fun responses_supports :: "Capability \<Rightarrow> bool" where
  "responses_supports CapTools = True"
| "responses_supports CapVision = True"
| "responses_supports CapAudio = False"
| "responses_supports CapVideo = False"
| "responses_supports CapReasoning = True"
| "responses_supports (CapContext n) = (n \<le> 200000)"

definition responses_tool :: "CanonicalTool \<Rightarrow> json" where
  "responses_tool t = Object [(''type'', String ''function''), (''name'', String (ct_name t)),
     (''description'', jstr_opt (ct_description t)), (''parameters'', ct_parameters t)]"

definition responses_body :: "CanonicalRequest \<Rightarrow> json" where
  "responses_body req =
     jset_opt ''tools'' (map_option (\<lambda>tools. Array (map responses_tool tools)) (cr_tools req))
     (jset_opt ''top_p'' (map_option jf64 (cr_top_p req))
     (jset_opt ''temperature'' (map_option jf64 (cr_temperature req))
     (jset_opt ''max_output_tokens'' (map_option ju32 (cr_max_tokens req))
       (Object [(''model'', String (cr_selected_model req)),
         (''input'', Array (system_message (cr_system req) @ map generic_message (cr_messages req))),
         (''stream'', Bool (cr_stream req))]))))"

subsection \<open>Responses: answers\<close>

definition item_texts :: "json \<Rightarrow> string list" where
  "item_texts item = (if get_str ''type'' item = Some ''message''
     then text_parts (unwrap_or [] (get_array ''content'' item)) else [])"

definition responses_usage :: "json \<Rightarrow> Usage" where
  "responses_usage = plain_usage ''input_tokens'' ''output_tokens''"

definition parse_responses_response ::
  "json \<Rightarrow> string \<Rightarrow> string \<Rightarrow> AppError + CanonicalResponse" where
  "parse_responses_response v provider fallback_model = Inr
     \<lparr>rs_id = str_field ''id'' v, rs_model = unwrap_or fallback_model (get_str ''model'' v),
      rs_provider = provider,
      rs_content = map Text (concat (map item_texts (unwrap_or [] (get_array ''output'' v)))),
      rs_finish_reason = Some ''stop'',
      rs_usage = unwrap_or usage_default (map_option responses_usage (jget ''usage'' v))\<rparr>"

definition responses_event ::
  "string \<Rightarrow> string \<Rightarrow> json \<Rightarrow> string \<times> Usage option \<Rightarrow> CanonicalChunk list \<times> string \<times> Usage option" where
  "responses_event mid model v st = (case st of (acc, last_usage) \<Rightarrow>
     if get_str ''type'' v = Some ''response.output_text.delta''
     then (case get_str ''delta'' v of
         None \<Rightarrow> ([], st)
       | Some d \<Rightarrow> ([text_chunk mid model d], (acc @ d, last_usage)))
     else if get_str ''type'' v = Some ''response.completed''
     then (case jget ''response'' v of
         None \<Rightarrow> ([], st)
       | Some resp \<Rightarrow> (let u = opt_or (map_option responses_usage (jget ''usage'' resp)) last_usage in
           ([final_chunk mid model (Some ''stop'') u], (acc, u))))
     else ([], st))"

definition responses_step ::
  "(string \<Rightarrow> json option) \<Rightarrow> (string \<Rightarrow> string) \<Rightarrow> string \<Rightarrow> string \<Rightarrow> string
     \<Rightarrow> string \<times> Usage option \<Rightarrow> CanonicalChunk list \<times> string \<times> Usage option" where
  "responses_step parse lossy mid model raw st =
     steps (responses_event mid model) (event_values parse lossy raw) st"

definition responses_end :: "string \<Rightarrow> string \<Rightarrow> string \<times> Usage option \<Rightarrow> CanonicalChunk list" where
  "responses_end mid model st = (if fst st \<noteq> [] \<and> snd st = None
     then [final_chunk mid model (Some ''stop'') None] else [])"

definition responses_complete ::
  "upstream \<Rightarrow> string \<Rightarrow> string \<Rightarrow> CanonicalRequest \<Rightarrow> string \<Rightarrow> AppError + CanonicalResponse" where
  "responses_complete send i base req key =
     and_then (call_provider send i (post_json (base @ ''/v1/responses'') [bearer_header key, json_content]
         (with_stream False (responses_body req)))) (\<lambda>r.
     and_then (reply_value r) (\<lambda>v. parse_responses_response v i (cr_selected_model req)))"

definition responses_stream ::
  "upstream \<Rightarrow> (string \<Rightarrow> json option) \<Rightarrow> (string \<Rightarrow> string) \<Rightarrow> string \<Rightarrow> string \<Rightarrow> string
     \<Rightarrow> CanonicalRequest \<Rightarrow> string \<Rightarrow> AppError + (AppError + CanonicalChunk) list" where
  "responses_stream send parse lossy uuid i base req key =
     (let mid = ''resp-'' @ uuid; model = cr_selected_model req in
     and_then (call_provider send i (post_json (base @ ''/v1/responses'') [bearer_header key, json_content]
         (with_stream True (responses_body req)))) (\<lambda>r.
     Inr (run_stream sse_cut (responses_step parse lossy mid model) (responses_end mid model)
            (an_bytes r) [] ([], None))))"

subsection \<open>The text of an event\<close>

definition google_text :: "json \<Rightarrow> string" where
  "google_text v = (case first_candidate v of None \<Rightarrow> [] | Some cand \<Rightarrow> concat (candidate_texts cand))"

lemma concat_nonempty: "concat (filter (\<lambda>t. t \<noteq> []) ts) = concat ts"
  by (induction ts) auto

interpretation google: text_stream "google_event mid model" google_text
proof
  fix v st out and st' :: "Usage option"
  assume "google_event mid model v st = (out, st')"
  then show "concat (map chunk_text out) = google_text v"
    using concat_nonempty
    by (auto simp: google_event_def google_text_def Let_def text_chunk_def final_chunk_def delta_default_def
        comp_def split: option.splits if_split_asm)
qed

definition responses_text :: "json \<Rightarrow> string" where
  "responses_text v = (if get_str ''type'' v = Some ''response.output_text.delta''
     then unwrap_or [] (get_str ''delta'' v) else [])"

lemma responses_event_text:
  "responses_event mid model v st = (out, st') \<Longrightarrow>
   concat (map chunk_text out) = responses_text v \<and> fst st' = fst st @ responses_text v"
  by (cases st) (auto simp: responses_event_def responses_text_def text_chunk_def final_chunk_def
      delta_default_def Let_def split: if_split_asm option.split_asm)

interpretation responses: sent_text_stream "responses_event mid model" responses_text fst
  by unfold_locales (use responses_event_text in auto)

end
