(* ===== verification/AdapterKiro.thy ===== *)
theory AdapterKiro
  imports AdapterOpenai
begin

section \<open>The Kiro adapter\<close>

text \<open>
  \<open>src/providers/adapters/kiro.rs\<close>: the AWS event-stream frames, their headers, the accumulator and
  the two calls. Lengths are \<open>usize\<close> values and never wrap. Slicing a payload whose start lies behind
  its end is a panic of the source: a frame is \<open>BadFrame\<close> then, and the function that parses the
  buffer has no result.
\<close>

definition KIRO_CHAT_TARGET :: string where
  "KIRO_CHAT_TARGET = ''AmazonCodeWhispererStreamingService.GenerateAssistantResponse''"

definition KIRO_ORIGIN :: string where
  "KIRO_ORIGIN = ''KIRO_CLI''"

definition KIRO_AGENT_MODE :: string where
  "KIRO_AGENT_MODE = ''SUPERVISED''"

fun kiro_supports :: "Capability \<Rightarrow> bool" where
  "kiro_supports CapTools = True"
| "kiro_supports CapVision = True"
| "kiro_supports CapAudio = False"
| "kiro_supports CapVideo = False"
| "kiro_supports CapReasoning = True"
| "kiro_supports (CapContext n) = (n \<le> 200000)"

definition kiro_auth :: "string \<Rightarrow> string \<times> string" where
  "kiro_auth key = (''authorization'', ''placeholder'')"

subsection \<open>Requests\<close>

definition para :: "string \<Rightarrow> string" where
  "para current_text = (if current_text = [] then [] else current_text @ [NL, NL])"

fun kiro_message :: "CanonicalMessage \<Rightarrow> json list \<times> string \<Rightarrow> json list \<times> string" where
  "kiro_message m (history, current_text) = (let t = text_from_blocks (cm_content m) in
     case cm_role m of
       System \<Rightarrow> (history, para current_text @ ''System instructions:'' @ [NL] @ t)
     | User \<Rightarrow> (history, para current_text @ ''User:'' @ [NL] @ t)
     | Assistant \<Rightarrow> (history @ [Object [(''assistantResponseMessage'', Object [(''content'', String t)])]],
                    current_text)
     | Tool \<Rightarrow> (history @ [Object [(''userInputMessage'', Object
                 [(''content'', String (''Tool result: '' @ t)), (''origin'', String KIRO_ORIGIN)])]],
               current_text))"

definition kiro_text :: "string option \<Rightarrow> string \<Rightarrow> string" where
  "kiro_text sys current_text =
     (let t = (case sys of
         None \<Rightarrow> current_text
       | Some s \<Rightarrow> ''System instructions:'' @ [NL] @ s
           @ (if current_text = [] then [] else [NL, NL] @ ''User:'' @ [NL] @ current_text)) in
      if t = [] then ''Hello'' else t)"

definition kiro_body :: "string \<Rightarrow> CanonicalRequest \<Rightarrow> json" where
  "kiro_body uuid req =
     (let model = cr_selected_model req; (history, current_text) = fold kiro_message (cr_messages req) ([], []) in
      Object [(''conversationState'', Object
         [(''conversationId'', String uuid), (''history'', Array history),
          (''currentMessage'', Object [(''userInputMessage'', Object
             [(''content'', String (kiro_text (cr_system req) current_text)),
              (''origin'', String KIRO_ORIGIN),
              (''modelId'', String (unwrap_or model (strip_prefix ''kiro/'' model)))])]),
          (''chatTriggerType'', String ''MANUAL'')]),
        (''agentMode'', String KIRO_AGENT_MODE)])"

subsection \<open>Frames\<close>

definition byte :: "char \<Rightarrow> nat" where
  "byte c = of_char c"

definition from_be_bytes :: "string \<Rightarrow> nat" where
  "from_be_bytes bs = foldl (\<lambda>n c. n * 256 + byte c) 0 bs"

definition i8_json :: "char \<Rightarrow> json" where
  "i8_json c = (if byte c < 128 then Number (PosInt (of_nat (byte c)))
     else Number (NegInt (int (byte c) - 256)))"

text \<open>The value of a header of type \<open>t\<close>, and the bytes after it; \<open>None\<close> where the source breaks.\<close>

definition header_json :: "(string \<Rightarrow> string) \<Rightarrow> nat \<Rightarrow> string \<Rightarrow> (json \<times> string) option" where
  "header_json lossy t raw =
     (if t = 0 \<or> t = 1 then Some (Bool (t = 0), raw)
      else if t = 2 then (case raw of [] \<Rightarrow> None | c # rest \<Rightarrow> Some (i8_json c, rest))
      else if t = 7 then
        (if length raw < 2 then None
         else (let len = from_be_bytes (take 2 raw); rest = drop 2 raw in
           if length rest < len then None else Some (String (lossy (take len rest)), drop len rest)))
      else None)"

lemma header_json_rest: "header_json lossy t raw = Some (v, rest) \<Longrightarrow> length rest \<le> length raw"
  by (auto simp: header_json_def Let_def split: if_split_asm list.split_asm)

function parse_kiro_headers :: "(string \<Rightarrow> string) \<Rightarrow> string \<Rightarrow> object \<Rightarrow> object" where
  "parse_kiro_headers lossy [] acc = acc"
| "parse_kiro_headers lossy (c # raw) acc =
     (if length raw < byte c then acc
      else (case drop (byte c) raw of
          [] \<Rightarrow> acc
        | t # rest \<Rightarrow> (case header_json lossy (byte t) rest of
              None \<Rightarrow> acc
            | Some (v, rest') \<Rightarrow>
                parse_kiro_headers lossy rest' (obj_insert (lossy (take (byte c) raw)) v acc))))"
  by pat_completeness auto
termination
proof (relation "measure (\<lambda>(_, raw, _). length raw)", goal_cases)
  case (2 lossy c raw acc t rest p v rest')
  have "length (drop (byte c) raw) = Suc (length rest)" using 2(2) by simp
  then have "length rest < length raw" by simp
  with header_json_rest[of lossy "byte t" rest v rest'] 2 show ?case by simp
qed simp

record KiroEvent =
  ke_event_type :: "string option"
  ke_message_type :: "string option"
  ke_payload :: json

datatype KiroFrame = Frame KiroEvent | BadFrame

definition frame_lengths :: "string \<Rightarrow> nat \<times> nat" where
  "frame_lengths buf = (from_be_bytes (take 4 buf), from_be_bytes (take 4 (drop 4 buf)))"

definition frame_of :: "(string \<Rightarrow> json option) \<Rightarrow> (string \<Rightarrow> string) \<Rightarrow> nat \<Rightarrow> nat \<Rightarrow> string \<Rightarrow> KiroFrame" where
  "frame_of parse lossy total_len headers_len buf =
     (let payload_start = 12 + headers_len; payload_end = total_len - 4 in
      if payload_end < payload_start then BadFrame
      else (let hs = parse_kiro_headers lossy (take headers_len (drop 12 buf)) [] in Frame
        \<lparr>ke_event_type = Option.bind (map_of hs '':event-type'') as_str,
         ke_message_type = Option.bind (map_of hs '':message-type'') as_str,
         ke_payload = unwrap_or Null
           (parse (lossy (take (payload_end - payload_start) (drop payload_start buf))))\<rparr>))"

definition kiro_head ::
  "(string \<Rightarrow> json option) \<Rightarrow> (string \<Rightarrow> string) \<Rightarrow> string \<Rightarrow> (KiroFrame \<times> string) option" where
  "kiro_head parse lossy buf =
     (if length buf < 12 then None
      else (case frame_lengths buf of (total_len, headers_len) \<Rightarrow>
        if total_len < 16 \<or> total_len < headers_len + 12 \<or> length buf < total_len then None
        else Some (frame_of parse lossy total_len headers_len buf, drop total_len buf)))"

lemma kiro_head_shrinks: "kiro_head parse lossy b = Some (f, r) \<Longrightarrow> length r < length b"
  by (auto simp: kiro_head_def split: if_split_asm prod.split_asm)

function kiro_cut ::
  "(string \<Rightarrow> json option) \<Rightarrow> (string \<Rightarrow> string) \<Rightarrow> string \<Rightarrow> KiroFrame list \<times> string" where
  "kiro_cut parse lossy buf = (case kiro_head parse lossy buf of
      None \<Rightarrow> ([], buf)
    | Some (f, rest) \<Rightarrow> (case kiro_cut parse lossy rest of (fs, buf') \<Rightarrow> (f # fs, buf')))"
  by pat_completeness auto
termination
  by (relation "measure (\<lambda>(_, _, b). length b)") (auto dest: kiro_head_shrinks)

declare kiro_cut.simps [simp del]

fun event_of :: "KiroFrame \<Rightarrow> KiroEvent option" where
  "event_of (Frame ev) = Some ev"
| "event_of BadFrame = None"

definition parse_kiro_events ::
  "(string \<Rightarrow> json option) \<Rightarrow> (string \<Rightarrow> string) \<Rightarrow> string \<Rightarrow> (KiroEvent list \<times> string) option" where
  "parse_kiro_events parse lossy buf = (case kiro_cut parse lossy buf of (fs, rest) \<Rightarrow>
     if BadFrame \<in> set fs then None else Some (List.map_filter event_of fs, rest))"

subsection \<open>Events\<close>

definition token_usage :: "json \<Rightarrow> Usage \<Rightarrow> Usage" where
  "token_usage tu usage = usage
     \<lparr>input_tokens := ucast (unwrap_or 0 (Option.bind
         (opt_or (jget ''uncachedInputTokens'' tu) (jget ''inputTokens'' tu)) as_u64)),
      output_tokens := count_field ''outputTokens'' tu\<rparr>"

definition apply_kiro_event ::
  "string \<Rightarrow> Usage \<Rightarrow> KiroEvent \<Rightarrow> string option \<times> string \<times> Usage" where
  "apply_kiro_event acc usage ev =
     (if ke_message_type ev = Some ''exception'' then (None, acc, usage)
      else (let et = to_lowercase (unwrap_or [] (ke_event_type ev));
                said = (if contains et ''assistantresponse'' then get_str ''content'' (ke_payload ev) else None) in
        case said of
          Some content \<Rightarrow> (Some content, acc @ content, usage)
        | None \<Rightarrow> (None, acc, if contains et ''metadata''
            then (case jget ''tokenUsage'' (ke_payload ev) of None \<Rightarrow> usage
                  | Some tu \<Rightarrow> token_usage tu usage)
            else usage)))"

text \<open>\<open>complete\<close>: the accumulated text and usage; \<open>None\<close> is the panic.\<close>

fun apply_all :: "KiroEvent list \<Rightarrow> string \<times> Usage \<Rightarrow> string \<times> Usage" where
  "apply_all [] st = st"
| "apply_all (ev # evs) (acc, usage) = (case apply_kiro_event acc usage ev of
     (_, acc', usage') \<Rightarrow> apply_all evs (acc', usage'))"

fun kiro_collect ::
  "(string \<Rightarrow> json option) \<Rightarrow> (string \<Rightarrow> string) \<Rightarrow> (ReqwestError + string) list \<Rightarrow> string
     \<Rightarrow> string \<times> Usage \<Rightarrow> (AppError + string \<times> Usage) option" where
  "kiro_collect parse lossy [] buf st = Some (Inr st)"
| "kiro_collect parse lossy (Inl e # chunks) buf st = Some (Inl (app_error_of e))"
| "kiro_collect parse lossy (Inr b # chunks) buf st = (case parse_kiro_events parse lossy (buf @ b) of
      None \<Rightarrow> None
    | Some (evs, buf') \<Rightarrow> kiro_collect parse lossy chunks buf' (apply_all evs st))"

definition kiro_call :: "string \<Rightarrow> string \<Rightarrow> json \<Rightarrow> UpstreamCall" where
  "kiro_call base key body = post_json base
     [(''authorization'', ''Bearer '' @ key), (''content-type'', ''application/x-amz-json-1.0''),
      (''x-amz-target'', KIRO_CHAT_TARGET), (''x-amzn-kiro-agent-mode'', KIRO_AGENT_MODE)] body"

definition kiro_response :: "string \<Rightarrow> string \<Rightarrow> string \<Rightarrow> string \<times> Usage \<Rightarrow> CanonicalResponse" where
  "kiro_response uuid model provider st = (case st of (content, usage) \<Rightarrow>
     \<lparr>rs_id = ''kiro-'' @ uuid, rs_model = model, rs_provider = provider,
      rs_content = (if content = [] then [] else [Text content]),
      rs_finish_reason = Some ''stop'', rs_usage = usage\<rparr>)"

definition kiro_complete ::
  "upstream \<Rightarrow> (string \<Rightarrow> json option) \<Rightarrow> (string \<Rightarrow> string) \<Rightarrow> string \<Rightarrow> string \<Rightarrow> string \<Rightarrow> string
     \<Rightarrow> CanonicalRequest \<Rightarrow> string \<Rightarrow> (AppError + CanonicalResponse) option" where
  "kiro_complete send parse lossy conv uuid i base req key =
     (case call_provider send i (kiro_call base key (kiro_body conv req)) of
        Inl e \<Rightarrow> Some (Inl e)
      | Inr r \<Rightarrow> map_option (\<lambda>res. and_then res (\<lambda>st. Inr (kiro_response uuid (cr_selected_model req) i st)))
          (kiro_collect parse lossy (an_bytes r) [] ([], usage_default)))"

text \<open>The stream: the usage exists once an event has been applied. The flag of the result says that
  the task has panicked after the items.\<close>

fun kiro_event_step ::
  "string \<Rightarrow> string \<Rightarrow> KiroEvent \<Rightarrow> string \<times> Usage option \<Rightarrow> CanonicalChunk list \<times> string \<times> Usage option" where
  "kiro_event_step mid model ev (acc, last_usage) =
     (case apply_kiro_event acc (unwrap_or usage_default last_usage) ev of (said, acc', usage') \<Rightarrow>
        ((case said of None \<Rightarrow> [] | Some t \<Rightarrow> [text_chunk mid model t]), (acc', Some usage')))"

definition kiro_end :: "string \<Rightarrow> string \<Rightarrow> string \<times> Usage option \<Rightarrow> CanonicalChunk list" where
  "kiro_end mid model st = [final_chunk mid model (Some ''stop'') (snd st)]"

fun kiro_run ::
  "(string \<Rightarrow> json option) \<Rightarrow> (string \<Rightarrow> string) \<Rightarrow> string \<Rightarrow> string \<Rightarrow> (ReqwestError + string) list
     \<Rightarrow> string \<Rightarrow> string \<times> Usage option \<Rightarrow> (AppError + CanonicalChunk) list \<times> bool" where
  "kiro_run parse lossy mid model [] buf st = (map Inr (kiro_end mid model st), False)"
| "kiro_run parse lossy mid model (Inl e # chunks) buf st = ([Inl (app_error_of e)], False)"
| "kiro_run parse lossy mid model (Inr b # chunks) buf st =
     (case parse_kiro_events parse lossy (buf @ b) of
        None \<Rightarrow> ([], True)
      | Some (evs, buf') \<Rightarrow>
         (case steps (kiro_event_step mid model) evs st of (out, st') \<Rightarrow>
          case kiro_run parse lossy mid model chunks buf' st' of (items, panicked) \<Rightarrow>
            (map Inr out @ items, panicked)))"

definition kiro_stream ::
  "upstream \<Rightarrow> (string \<Rightarrow> json option) \<Rightarrow> (string \<Rightarrow> string) \<Rightarrow> string \<Rightarrow> string \<Rightarrow> string \<Rightarrow> string
     \<Rightarrow> CanonicalRequest \<Rightarrow> string \<Rightarrow> AppError + (AppError + CanonicalChunk) list \<times> bool" where
  "kiro_stream send parse lossy conv uuid i base req key =
     and_then (call_provider send i (kiro_call base key (kiro_body conv req))) (\<lambda>r.
     Inr (kiro_run parse lossy (''kiro-'' @ uuid) (cr_selected_model req) (an_bytes r) [] ([], None)))"

subsection \<open>Frames do not depend on the chunks\<close>

lemma take_append_le: "n \<le> length b \<Longrightarrow> take n (b @ c) = take n b"
  by simp

lemma frame_of_append:
  assumes "total_len \<le> length b" and "headers_len + 12 \<le> total_len" and "16 \<le> total_len"
  shows "frame_of parse lossy total_len headers_len (b @ c) = frame_of parse lossy total_len headers_len b"
  using assms by (simp add: frame_of_def Let_def)

interpretation kiro: framing "kiro_head parse lossy" "kiro_cut parse lossy"
proof
  show "kiro_cut parse lossy b = (case kiro_head parse lossy b of None \<Rightarrow> ([], b)
      | Some (f, r) \<Rightarrow> (f # fst (kiro_cut parse lossy r), snd (kiro_cut parse lossy r)))" for b
    by (simp add: kiro_cut.simps[of _ _ b] split_def split: option.split)
  show "kiro_head parse lossy b = Some (f, r) \<Longrightarrow> length r < length b" for b f r
    by (rule kiro_head_shrinks)
  show "kiro_head parse lossy (b @ c) = Some (f, r @ c)" if "kiro_head parse lossy b = Some (f, r)" for b f r c
  proof -
    obtain total_len headers_len where l: "frame_lengths b = (total_len, headers_len)"
      by (cases "frame_lengths b")
    from that l have "12 \<le> length b" "16 \<le> total_len" "headers_len + 12 \<le> total_len" "total_len \<le> length b"
      "f = frame_of parse lossy total_len headers_len b" "r = drop total_len b"
      by (auto simp: kiro_head_def split: if_split_asm)
    moreover have "frame_lengths (b @ c) = frame_lengths b"
      using \<open>12 \<le> length b\<close> by (simp add: frame_lengths_def)
    ultimately show ?thesis using l by (simp add: kiro_head_def frame_of_append)
  qed
  show "kiro_head parse lossy [] = None" by (simp add: kiro_head_def)
qed

subsection \<open>A byte stream without bad frames\<close>

definition kiro_events ::
  "(string \<Rightarrow> json option) \<Rightarrow> (string \<Rightarrow> string) \<Rightarrow> string \<Rightarrow> KiroEvent list" where
  "kiro_events parse lossy bytes = List.map_filter event_of (fst (kiro_cut parse lossy bytes))"

abbreviation well_framed :: "(string \<Rightarrow> json option) \<Rightarrow> (string \<Rightarrow> string) \<Rightarrow> string \<Rightarrow> bool" where
  "well_framed parse lossy bytes \<equiv> BadFrame \<notin> set (fst (kiro_cut parse lossy bytes))"

lemma parse_kiro_events_ok:
  "well_framed parse lossy b \<Longrightarrow>
   parse_kiro_events parse lossy b = Some (kiro_events parse lossy b, snd (kiro_cut parse lossy b))"
  by (simp add: parse_kiro_events_def kiro_events_def split_def)

lemma well_framed_append:
  assumes "well_framed parse lossy (b @ c)"
  shows "well_framed parse lossy b" and "well_framed parse lossy (snd (kiro_cut parse lossy b) @ c)"
    and "kiro_events parse lossy (b @ c)
      = kiro_events parse lossy b @ kiro_events parse lossy (snd (kiro_cut parse lossy b) @ c)"
  using assms kiro.cut_append[of parse lossy b c] by (auto simp: kiro_events_def)

lemma kiro_events_none: "kiro_head parse lossy b = None \<Longrightarrow> kiro_events parse lossy b = []"
  by (simp add: kiro_events_def kiro_cut.simps[of _ _ b])

lemma apply_all_append: "apply_all (xs @ ys) st = apply_all ys (apply_all xs st)"
  by (induction xs st rule: apply_all.induct) (simp_all split: prod.splits)

lemma kiro_collect_events:
  "kiro_head parse lossy buf = None \<Longrightarrow> well_framed parse lossy (buf @ concat bs) \<Longrightarrow>
   kiro_collect parse lossy (map Inr bs) buf st
     = Some (Inr (apply_all (kiro_events parse lossy (buf @ concat bs)) st))"
proof (induction bs arbitrary: buf st)
  case (Cons b bs)
  have wf: "well_framed parse lossy ((buf @ b) @ concat bs)" using Cons.prems(2) by simp
  show ?case
    using parse_kiro_events_ok[OF well_framed_append(1)[OF wf]] well_framed_append(3)[OF wf]
      Cons.IH[OF kiro.head_rest well_framed_append(2)[OF wf]]
    by (simp add: apply_all_append)
qed (simp add: kiro_events_none)

lemma kiro_run_events:
  "kiro_head parse lossy buf = None \<Longrightarrow> well_framed parse lossy (buf @ concat bs) \<Longrightarrow>
   kiro_run parse lossy mid model (map Inr bs) buf st =
     (case steps (kiro_event_step mid model) (kiro_events parse lossy (buf @ concat bs)) st of
        (out, st') \<Rightarrow> (map Inr (out @ kiro_end mid model st'), False))"
proof (induction bs arbitrary: buf st)
  case (Cons b bs)
  have wf: "well_framed parse lossy ((buf @ b) @ concat bs)" using Cons.prems(2) by simp
  show ?case
    using parse_kiro_events_ok[OF well_framed_append(1)[OF wf]] well_framed_append(3)[OF wf]
      Cons.IH[OF kiro.head_rest well_framed_append(2)[OF wf]]
    by (simp add: steps_append split: prod.splits)
qed (simp add: kiro_events_none)

text \<open>Streamed and collected events agree.\<close>

lemma kiro_said:
  "fst (snd (apply_kiro_event acc u ev)) = acc @ unwrap_or [] (fst (apply_kiro_event acc u ev))"
  by (simp add: apply_kiro_event_def Let_def split: option.split)

lemma kiro_steps_apply:
  "steps (kiro_event_step mid model) evs (acc, last_usage) = (out, acc', last') \<Longrightarrow>
   apply_all evs (acc, unwrap_or usage_default last_usage) = (acc', unwrap_or usage_default last')
   \<and> acc' = acc @ concat (map chunk_text out)"
proof (induction evs arbitrary: acc last_usage out)
  case (Cons ev evs)
  obtain said a1 u1 where e: "apply_kiro_event acc (unwrap_or usage_default last_usage) ev = (said, a1, u1)"
    by (metis prod_cases3)
  obtain o2 where r: "steps (kiro_event_step mid model) evs (a1, Some u1) = (o2, acc', last')"
    and out: "out = (case said of None \<Rightarrow> [] | Some t \<Rightarrow> [text_chunk mid model t]) @ o2"
    using Cons.prems by (auto simp: e Let_def split: prod.splits)
  have "a1 = acc @ unwrap_or [] said"
    using kiro_said[of acc "unwrap_or usage_default last_usage" ev] by (simp add: e)
  then show ?case using Cons.IH[OF r] by (auto simp: e out text_chunk_def split: option.split)
qed simp

subsection \<open>Properties\<close>

text \<open>C37. The streaming and the non-streaming call of the Kiro adapter agree. On the same bytes, cut
  into chunks in any two ways, without a transport error and without a bad frame, the text of the
  stream is the text of the response, and its last chunk carries the response's finish reason and
  token counts.\<close>

theorem kiro_stream_agrees_with_complete:
  assumes "send (kiro_call base key (kiro_body conv req)) = Inr r" and "is_success (an_status r)"
    and "send' (kiro_call base key (kiro_body conv req)) = Inr r'" and "is_success (an_status r')"
    and "an_bytes r = map Inr bs" and "an_bytes r' = map Inr bs'" and "concat bs = concat bs'"
    and "well_framed parse lossy (concat bs)"
  shows "\<exists>resp items. kiro_complete send parse lossy conv uuid i base req key = Some (Inr resp)
    \<and> kiro_stream send' parse lossy conv uuid i base req key = Inr (map Inr items, False)
    \<and> text_from_blocks (rs_content resp) = concat (map chunk_text items)
    \<and> ch_finish_reason (last items) = rs_finish_reason resp
    \<and> unwrap_or usage_default (ch_usage (last items)) = rs_usage resp"
proof -
  let ?evs = "kiro_events parse lossy (concat bs')"
  obtain acc last' out where s:
    "steps (kiro_event_step (''kiro-'' @ uuid) (cr_selected_model req)) ?evs ([], None) = (out, acc, last')"
    by (metis prod_cases3)
  have a: "apply_all ?evs ([], usage_default) = (acc, unwrap_or usage_default last')"
    "acc = concat (map chunk_text out)" using kiro_steps_apply[OF s] by simp_all
  have "kiro_complete send parse lossy conv uuid i base req key
      = Some (Inr (kiro_response uuid (cr_selected_model req) i (acc, unwrap_or usage_default last')))"
    using assms a kiro_collect_events[OF kiro.head_empty, of parse lossy bs]
    by (simp add: kiro_complete_def call_provider_def)
  moreover have "kiro_stream send' parse lossy conv uuid i base req key
      = Inr (map Inr (out @ kiro_end (''kiro-'' @ uuid) (cr_selected_model req) (acc, last')), False)"
    using assms s kiro_run_events[OF kiro.head_empty, of parse lossy bs']
    by (simp add: kiro_stream_def call_provider_def)
  ultimately show ?thesis using a(2)
    by (intro exI[of _ "kiro_response uuid (cr_selected_model req) i (acc, unwrap_or usage_default last')"]
          exI[of _ "out @ kiro_end (''kiro-'' @ uuid) (cr_selected_model req) (acc, last')"] conjI)
      (auto simp: kiro_response_def kiro_end_def final_chunk_def delta_default_def text_from_blocks_def)
qed


text \<open>A frame that declares fewer than four bytes after its headers passes the length checks of
  the parser, but its payload then starts behind its end: reading it is a panic, in the streaming
  and in the non-streaming call, whatever the rest of the reply is.\<close>

theorem kiro_short_frame_panics:
  assumes "12 \<le> length b" and "frame_lengths b = (total_len, headers_len)"
    and "16 \<le> total_len" and "total_len \<le> length b"
    and "headers_len + 12 \<le> total_len" and "total_len < headers_len + 16"
  shows "kiro_collect parse lossy (Inr b # chunks) [] st = None
    \<and> kiro_run parse lossy mid model (Inr b # chunks) [] st' = ([], True)"
proof -
  have "kiro_head parse lossy b = Some (BadFrame, drop total_len b)"
    using assms by (simp add: kiro_head_def frame_of_def Let_def)
  then have "BadFrame \<in> set (fst (kiro_cut parse lossy b))"
    by (simp add: kiro_cut.simps[of _ _ b] split_def)
  then have "parse_kiro_events parse lossy b = None"
    by (simp add: parse_kiro_events_def split_def)
  then show ?thesis by simp
qed

text \<open>A frame of sixteen bytes that declares four bytes of headers.\<close>

definition short_frame :: string where
  "short_frame = map char_of [0, 0, 0, 16, 0, 0, 0, 4 :: nat] @ replicate 8 (char_of (0 :: nat))"

theorem kiro_short_frame_panics_witness:
  "kiro_collect (\<lambda>_. None) (\<lambda>s. s) [Inr short_frame] [] ([], usage_default) = None"
proof -
  have "frame_lengths short_frame = (16, 4)" and "length short_frame = 16" by code_simp+
  then show ?thesis
    using kiro_short_frame_panics [of short_frame 16 4 "\<lambda>_. None" "\<lambda>s. s" "[]"] by simp
qed

text \<open>A frame with one header, \<open>:event-type\<close>, and a payload of one byte.\<close>

definition said_frame :: string where
  "said_frame = map char_of [0, 0, 0, 49, 0, 0, 0, 32, 0, 0, 0, 0 :: nat]
     @ char_of (11 :: nat) # '':event-type'' @ map char_of [7, 0, 17 :: nat]
     @ ''assistantResponse'' @ [CHR ''x''] @ replicate 4 (char_of (0 :: nat))"

definition said_codec :: "string \<Rightarrow> json option" where
  "said_codec s = (if s = ''x'' then Some (Object [(''content'', String ''hi'')]) else None)"

definition said_reply :: "string list \<Rightarrow> UpstreamReply" where
  "said_reply bs = \<lparr>an_status = 200, an_reason = ''OK'', an_text = '''', an_json = Inr Null,
     an_bytes = map Inr bs\<rparr>"

theorem kiro_stream_agrees_with_complete_witness:
  "\<exists>resp items. kiro_complete (\<lambda>_. Inr (said_reply [said_frame])) said_codec (\<lambda>s. s) ''c'' ''u'' ''kiro''
      ''http://x'' sample_request ''k'' = Some (Inr resp)
    \<and> kiro_stream (\<lambda>_. Inr (said_reply [take 20 said_frame, drop 20 said_frame])) said_codec (\<lambda>s. s)
        ''c'' ''u'' ''kiro'' ''http://x'' sample_request ''k'' = Inr (map Inr items, False)
    \<and> text_from_blocks (rs_content resp) = concat (map chunk_text items)"
proof -
  have wf: "well_framed said_codec (\<lambda>s. s) (concat [said_frame])" by code_simp
  have bs: "concat [said_frame] = concat [take 20 said_frame, drop 20 said_frame]" by simp
  have r: "is_success (an_status (said_reply bs))" "an_bytes (said_reply bs) = map Inr bs" for bs
    by (simp_all add: said_reply_def is_success_def)
  show ?thesis
    using kiro_stream_agrees_with_complete [where send = "\<lambda>_. Inr (said_reply [said_frame])"
        and send' = "\<lambda>_. Inr (said_reply [take 20 said_frame, drop 20 said_frame])",
        OF refl r(1) refl r(1) r(2) r(2) bs wf] by blast
qed

end
