(* ===== verification/Pipeline.thy ===== *)
theory Pipeline
  imports QueryLog OAuth Users Inbound
begin

section \<open>The request pipeline\<close>

text \<open>
  \<open>src/proxy/pipeline.rs\<close>: the routing decision with the key it resolves, the run of the fallback
  chain, the streaming call and what a completion leaves in the logs and in the usage table.
  \<open>Pipeline\<close> is the state of the handles the source keeps (the key store is shared with the OAuth
  manager and is read through it). The clock, the provider calls, the sleep, the UUID, the texts
  SQLite takes from its clock, HTTP and the cryptography are fields of \<open>PipeEnv\<close>; the provider
  side is an abstract world \<open>'x\<close> that every call may change. Detached log writes are appended to
  \<open>pl_writes\<close> in the order the source spawns them.
\<close>

record ('x, 's) PipeEnv =
  pe_now :: "'x \<Rightarrow> instant \<times> 'x"
  pe_complete :: "Adapter \<Rightarrow> CanonicalRequest \<Rightarrow> string \<Rightarrow> 'x \<Rightarrow> (AppError + CanonicalResponse) \<times> 'x"
  pe_stream :: "Adapter \<Rightarrow> CanonicalRequest \<Rightarrow> string \<Rightarrow> 'x \<Rightarrow> (AppError + 's) \<times> 'x"
  pe_sleep :: "nat \<Rightarrow> 'x \<Rightarrow> 'x"
  pe_uuid :: string
  pe_ts :: string
  pe_day :: string
  pe_unix :: nat
  pe_nonce :: bytes
  pe_http :: http
  pe_crypto :: Crypto
  pe_codec :: Codec
  pe_var :: "string \<Rightarrow> string option"
  pe_parse :: "string \<Rightarrow> json option"
  pe_text :: "json \<Rightarrow> string"

record Pipeline =
  pl_registry :: ProviderRegistry
  pl_config :: RouterConfig
  pl_db :: UserDb
  pl_health :: HealthRegistry
  pl_master :: MasterKey
  pl_oauth :: OAuthManager
  pl_pricing :: PricingStore
  pl_writes :: "LogWrite list"

record RoutingOutput =
  ro_canonical :: CanonicalRequest
  ro_route :: SelectedRoute
  ro_key :: string
  ro_request_id :: string
  ro_user_id :: "string option"
  ro_user_agent :: "string option"

subsection \<open>Routing\<close>

definition choose_route ::
  "Pipeline \<Rightarrow> string option \<Rightarrow> Tier \<Rightarrow> AppError + SelectedRoute" where
  "choose_route pl model_override tier =
     (case model_override of
        Some m \<Rightarrow> ok_or (BadRequest (''unknown provider in model ref: '' @ m))
                    (route_explicit (pl_registry pl) m)
      | None \<Rightarrow> ok_or (Internal (''no primary configured for tier '' @ tier_as_str tier))
                    (route_tier (pl_registry pl) (pl_config pl) tier))"

definition provider_key :: "RouterConfig \<Rightarrow> string \<Rightarrow> string option" where
  "provider_key cfg p = Option.bind (find (\<lambda>c. pc_id c = p) (providers cfg)) pc_key"

definition dispatch_key ::
  "('x, 's) PipeEnv \<Rightarrow> Tier \<Rightarrow> string \<Rightarrow> Pipeline \<Rightarrow> string \<times> Pipeline" where
  "dispatch_key env tier p pl =
     (let cfg_key = opt_or (provider_key (pl_config pl) p) (tier_key_override (pl_config pl) tier);
          (resolved, ks) = resolve (pe_crypto env) (pe_var env) (pl_master pl) p cfg_key
             (oa_keys (pl_oauth pl));
          pl1 = pl\<lparr>pl_oauth := (pl_oauth pl)\<lparr>oa_keys := ks\<rparr>\<rparr> in
      if lookup_manifest_oauth p = None then (resolved, pl1)
      else (case access_token (pe_crypto env) (pe_codec env) (pe_http env) (pe_nonce env)
                   (pe_unix env) p (pl_oauth pl1) of
              (Inr (Some access), oa) \<Rightarrow> (access, pl1\<lparr>pl_oauth := oa\<rparr>)
            | (_, oa) \<Rightarrow> (resolved, pl1\<lparr>pl_oauth := oa\<rparr>)))"

definition route ::
  "('x, 's) PipeEnv \<Rightarrow> InboundRequest \<Rightarrow> string option \<Rightarrow> Tier \<Rightarrow> Pipeline
     \<Rightarrow> (AppError + RoutingOutput) \<times> Pipeline" where
  "route env inbound model_override tier pl =
     (case choose_route pl model_override tier of
        Inl e \<Rightarrow> (Inl e, pl)
      | Inr r \<Rightarrow>
         (let canonical = into_canonical (pe_parse env) (pe_text env) inbound tier
                (sel_model_id r) (sel_provider_id r) (pe_uuid env);
              (key, pl1) = dispatch_key env tier (sel_provider_id r) pl in
          if key = [] then (Inl (Internal (''no API key for provider '' @ sel_provider_id r)), pl1)
          else (Inr \<lparr>ro_canonical = canonical, ro_route = r, ro_key = key,
                     ro_request_id = pe_uuid env, ro_user_id = None, ro_user_agent = None\<rparr>, pl1)))"

definition resolve_route ::
  "('x, 's) PipeEnv \<Rightarrow> PreRouting \<Rightarrow> Tier \<Rightarrow> string option \<Rightarrow> Pipeline
     \<Rightarrow> (AppError + RoutingOutput) \<times> Pipeline" where
  "resolve_route env pre tier model_override pl = route env (pr_request pre) model_override tier pl"

subsection \<open>Running the chain\<close>

text \<open>The closure that hands the executor a handle; the world also holds the shared key store.\<close>

definition resolve_handle ::
  "('x, 's) PipeEnv \<Rightarrow> Pipeline \<Rightarrow> string \<Rightarrow> KeyStore \<times> 'x
     \<Rightarrow> Adapter ProviderHandle option \<times> (KeyStore \<times> 'x)" where
  "resolve_handle env pl p w = (case reg_get (pl_registry pl) p of
      None \<Rightarrow> (None, w)
    | Some adapter \<Rightarrow>
       (let (key, ks) = resolve (pe_crypto env) (pe_var env) (pl_master pl) p
              (provider_key (pl_config pl) p) (fst w) in
        (Some \<lparr>h_provider_id = p, h_model_id = ad_default_model adapter, h_adapter = adapter,
               h_key = key\<rparr>, (ks, snd w))))"

definition exec_env ::
  "('x, 's) PipeEnv \<Rightarrow> Pipeline \<Rightarrow> (Adapter, KeyStore \<times> 'x) ExecEnv" where
  "exec_env env pl =
     \<lparr>en_now = (\<lambda>(ks, x). let (t, x') = pe_now env x in (t, (ks, x'))),
      en_complete = (\<lambda>a req key (ks, x). let (r, x') = pe_complete env a req key x in (r, (ks, x'))),
      en_sleep = (\<lambda>n (ks, x). (ks, pe_sleep env n x)),
      en_resolve = resolve_handle env pl\<rparr>"

definition plan_for :: "RouterConfig \<Rightarrow> RoutingOutput \<Rightarrow> RoutingPlan" where
  "plan_for cfg routed =
     (let tier_cfg = map_of (tiers cfg) (tier_as_str (cr_tier (ro_canonical routed))) in
      \<lparr>rp_request = ro_canonical routed,
       rp_primary = sel_provider_id (ro_route routed) @ ''/'' @ sel_model_id (ro_route routed),
       rp_fallbacks = unwrap_or [] (map_option ti_fallbacks tier_cfg),
       rp_downgrade_to = Option.bind tier_cfg ti_downgrade_to,
       rp_request_budget = from_millis (unat (request_budget_ms (retry cfg))),
       rp_max_retries_per_provider = max_same_provider_retries (retry cfg),
       rp_max_retry_after_ms = max_retry_after_ms (retry cfg),
       rp_fixed_retry_wait_ms = fixed_retry_wait_ms (retry cfg)\<rparr>)"

definition hook_for :: "RouterConfig \<Rightarrow> HealthHook" where
  "hook_for cfg = \<lparr>failure_threshold = max 1 (max_same_provider_retries (retry cfg)),
     cooldown_secs = 60\<rparr>"

subsection \<open>What a completion leaves behind\<close>

text \<open>The derived \<open>Debug\<close> text of an outcome; the reasons hold no character that it escapes.\<close>

fun outcome_debug :: "AttemptOutcome \<Rightarrow> string" where
  "outcome_debug Success = ''Success''"
| "outcome_debug (Retry w why) =
     ''Retry { wait_ms: '' @ show_nat (unat w) @ '', reason: \"'' @ why @ ''\" }''"
| "outcome_debug (Skip why) = ''Skip { reason: \"'' @ why @ ''\" }''"
| "outcome_debug (Fatal why) = ''Fatal { reason: \"'' @ why @ ''\" }''"
| "outcome_debug (ContextLimit l) = ''ContextTooLong { limit: '' @ show_nat (unat l) @ '' }''"

definition completion_cost :: "PricingStore \<Rightarrow> CanonicalResponse \<Rightarrow> f64 option" where
  "completion_cost s r = calculate_with_db (rs_provider r) (rs_model r)
     (input_tokens (rs_usage r)) (output_tokens (rs_usage r)) (Some s)"

definition request_log_of :: "PricingStore \<Rightarrow> RoutingOutput \<Rightarrow> ExecutionResult \<Rightarrow> RequestLog" where
  "request_log_of s routed result = (let r = ex_response result in
     \<lparr>lq_id = ro_request_id routed, lq_tier = tier_as_str (cr_tier (ro_canonical routed)),
      lq_requested_model = Some (cr_selected_model (ro_canonical routed)),
      lq_routed_model = rs_model r, lq_routed_provider = rs_provider r,
      lq_total_latency_ms = (if ex_attempts result = [] then 0
         else int (at_latency_ms (last (ex_attempts result)))),
      lq_input_tokens = Some (input_tokens (rs_usage r)),
      lq_output_tokens = Some (output_tokens (rs_usage r)),
      lq_cache_read_tokens = cache_read_tokens (rs_usage r),
      lq_cost_usd = completion_cost s r, lq_truncated = False,
      lq_fallback_count = ex_fallback_count result, lq_finished = True,
      lq_finish_reason = rs_finish_reason r, lq_client_ip = None,
      lq_user_id = ro_user_id routed, lq_user_agent = ro_user_agent routed\<rparr>)"

definition attempt_log_of :: "RoutingOutput \<Rightarrow> nat \<Rightarrow> AttemptRecord \<Rightarrow> AttemptLog" where
  "attempt_log_of routed idx a =
     \<lparr>la_request_id = ro_request_id routed, la_attempt_number = of_nat (idx + 1),
      la_provider = at_provider a, la_model = at_model a, la_outcome = outcome_debug (at_outcome a),
      la_error_code = None, la_error_message = None, la_latency_ms = int (at_latency_ms a),
      la_retry_wait_ms = None\<rparr>"

definition attempt_logs :: "RoutingOutput \<Rightarrow> AttemptRecord list \<Rightarrow> AttemptLog list" where
  "attempt_logs routed as = map (\<lambda>(idx, a). attempt_log_of routed idx a) (enumerate 0 as)"

definition charge_user ::
  "('x, 's) PipeEnv \<Rightarrow> PricingStore \<Rightarrow> RoutingOutput \<Rightarrow> CanonicalResponse \<Rightarrow> UserDb \<Rightarrow> UserDb" where
  "charge_user env s routed r db = (case (ro_user_id routed, completion_cost s r) of
      (Some uid, Some c) \<Rightarrow> snd (user_record_usage (pe_day env) uid
         (input_tokens (rs_usage r)) (output_tokens (rs_usage r)) c db)
    | _ \<Rightarrow> db)"

definition log_completion ::
  "('x, 's) PipeEnv \<Rightarrow> RoutingOutput \<Rightarrow> ExecutionResult \<Rightarrow> Pipeline \<Rightarrow> Pipeline" where
  "log_completion env routed result pl = pl
     \<lparr>pl_db := charge_user env (pl_pricing pl) routed (ex_response result) (pl_db pl),
      pl_writes := pl_writes pl @ LogRequest (pe_ts env) (request_log_of (pl_pricing pl) routed result)
        # map LogAttempt (attempt_logs routed (ex_attempts result))\<rparr>"

definition complete ::
  "('x, 's) PipeEnv \<Rightarrow> RoutingOutput \<Rightarrow> Pipeline \<Rightarrow> 'x
     \<Rightarrow> (AppError + CanonicalResponse) \<times> Pipeline \<times> 'x" where
  "complete env routed pl x =
     (case execute (exec_env env pl) (plan_for (pl_config pl) routed) (hook_for (pl_config pl))
             (pl_health pl) (oa_keys (pl_oauth pl), x) of
        (res, h, ks, x') \<Rightarrow>
         (let pl1 = pl\<lparr>pl_health := h, pl_oauth := (pl_oauth pl)\<lparr>oa_keys := ks\<rparr>\<rparr> in
          case res of
            Inl e \<Rightarrow> (Inl e, pl1, x')
          | Inr result \<Rightarrow> (Inr (ex_response result), log_completion env routed result pl1, x')))"

definition stream_route ::
  "('x, 's) PipeEnv \<Rightarrow> RoutingOutput \<Rightarrow> Pipeline \<Rightarrow> 'x \<Rightarrow> (AppError + 's) \<times> 'x" where
  "stream_route env routed pl x =
     (case reg_get (pl_registry pl) (sel_provider_id (ro_route routed)) of
        None \<Rightarrow> (Inl (Internal (''provider disappeared: '' @ sel_provider_id (ro_route routed))), x)
      | Some adapter \<Rightarrow> pe_stream env adapter (ro_canonical routed) (ro_key routed) x)"

subsection \<open>The chain calls only registered adapters, with their own model\<close>

lemma resolve_handle_Some:
  "resolve_handle env pl p w = (Some hl, w') \<Longrightarrow>
   reg_get (pl_registry pl) p = Some (h_adapter hl) \<and> h_provider_id hl = p
   \<and> h_model_id hl = ad_default_model (h_adapter hl)"
  by (auto simp: resolve_handle_def Let_def split: option.splits prod.splits)

lemma exec_env_complete:
  "en_complete (exec_env env pl) a req key w = (res, w') \<Longrightarrow>
   pe_complete env a req key (snd w) = (res, snd w')"
  by (cases w) (auto simp: exec_env_def Let_def split: prod.splits)

lemma exec_env_resolve [simp]: "en_resolve (exec_env env pl) = resolve_handle env pl"
  by (simp add: exec_env_def)

text \<open>The response of a run is the answer of a handle the resolver gave for a provider of the chain.\<close>

definition answered ::
  "('a, 'w) ExecEnv \<Rightarrow> RoutingPlan \<Rightarrow> string set \<Rightarrow> CanonicalResponse \<Rightarrow> bool" where
  "answered env plan ps resp \<longleftrightarrow> (\<exists>p \<in> ps. \<exists>hl w0 w1 w2 w3. en_resolve env p w0 = (Some hl, w1)
     \<and> en_complete env (h_adapter hl) (entry_request plan hl) (h_key hl) w2 = (Inr resp, w3))"

lemma exec_entry_answered:
  assumes "exec_entry env plan hook started (p, m) acc h w = (Return (Inr r), h', w')" and "p \<in> ps"
  shows "answered env plan ps (ex_response r)"
  using assms(1)
proof (cases rule: exec_entry_cases)
  case (run t w1 w2 hl w3)
  from run(5) show ?thesis
  proof (cases rule: run_attempts_cases)
    case (ok resp a)
    with do_attempt_calls[OF ok(1)] run(4) assms(2) show ?thesis
      by (auto simp: answered_def finish_def)
  next
    case (fail e a)
    then show ?thesis by (auto dest: after_failure_Return[OF sym])
  next
    case (retry_ok e a1 h1 w1 w2 resp a2)
    with do_attempt_calls[OF retry_ok(4)] run(4) assms(2) show ?thesis
      by (auto simp: answered_def finish_def)
  next
    case (retry_fail e a1 h1 w1 w2 e2 a2)
    then show ?thesis by (auto dest: after_failure_Return[OF sym])
  qed
qed simp_all

lemma entry_answered:
  "exec_entry env plan hook started e acc h w = (Return (Inr r), h', w') \<Longrightarrow>
   fst e \<in> ps \<Longrightarrow> answered env plan ps (ex_response r)"
  using exec_entry_answered[of env plan hook started "fst e" "snd e"] by simp

lemma exec_loop_answered:
  assumes "exec_loop env plan hook started chain acc h w = (Inr r, h', w')"
  shows "answered env plan (fst ` set chain) (ex_response r)"
proof -
  have "\<forall>s. Inr r = (Inr s :: AppError + ExecutionResult) \<longrightarrow>
      answered env plan (fst ` set chain) (ex_response s)"
    by (rule exec_loop_rule[OF assms, where I = "\<lambda>es _ _ _. fst ` set es \<subseteq> fst ` set chain"
          and Q = "\<lambda>res _ _. \<forall>s. res = Inr s \<longrightarrow> answered env plan (fst ` set chain) (ex_response s)"])
      (force intro: entry_answered)+
  then show ?thesis by simp
qed

lemma completeE:
  assumes "complete env routed pl x = (Inr resp, pl', x')"
  obtains started ks0 x0 result h ks where
    "exec_loop (exec_env env pl) (plan_for (pl_config pl) routed) (hook_for (pl_config pl)) started
       (plan_chain (plan_for (pl_config pl) routed)) acc_init (pl_health pl) (ks0, x0)
       = (Inr result, h, ks, x')"
    "resp = ex_response result"
    "pl' = log_completion env routed result
       (pl\<lparr>pl_health := h, pl_oauth := (pl_oauth pl)\<lparr>oa_keys := ks\<rparr>\<rparr>)"
  using assms that
  by (auto simp: complete_def execute_def Let_def split: prod.splits sum.splits)

lemma split_provider_model_slash [simp]:
  "CHR ''/'' \<notin> set p \<Longrightarrow> split_provider_model (p @ ''/'' @ m) = (p, m)"
  using split_once_Some[of "CHR ''/''" "p @ ''/'' @ m" p m] by (simp add: split_provider_model_def)

lemma route_explicit_no_slash:
  "route_explicit r m = Some s \<Longrightarrow> CHR ''/'' \<notin> set (sel_provider_id s)
     \<and> m = sel_provider_id s @ ''/'' @ sel_model_id s \<and> reg_get r (sel_provider_id s) \<noteq> None"
  by (auto simp: route_explicit_def split_model_ref_def split_once_Some
      split: option.splits prod.splits if_split_asm)

subsection \<open>Properties\<close>

lemma exec_loop_result:
  assumes "complete env routed pl x = (Inr resp, pl', x')"
  obtains result h ks where
    "result_ok (exec_env env pl) (plan_for (pl_config pl) routed)
       (length (plan_chain (plan_for (pl_config pl) routed))) result"
    "resp = ex_response result"
    "pl' = log_completion env routed result
       (pl\<lparr>pl_health := h, pl_oauth := (pl_oauth pl)\<lparr>oa_keys := ks\<rparr>\<rparr>)"
  using completeE[OF assms] exec_loop_success by metis

lemma complete_called:
  assumes "complete env routed pl x = (Inr resp, pl', x')"
  shows "\<exists>p \<in> fst ` set (plan_chain (plan_for (pl_config pl) routed)). \<exists>a key y y'.
    reg_get (pl_registry pl) p = Some a
    \<and> pe_complete env a ((ro_canonical routed)\<lparr>cr_selected_provider := p,
          cr_selected_model := ad_default_model a\<rparr>) key y = (Inr resp, y')"
proof -
  from assms obtain started ks0 x0 result h ks where
    "exec_loop (exec_env env pl) (plan_for (pl_config pl) routed) (hook_for (pl_config pl)) started
       (plan_chain (plan_for (pl_config pl) routed)) acc_init (pl_health pl) (ks0, x0)
       = (Inr result, h, ks, x')" "resp = ex_response result"
    by (elim completeE)
  then have "answered (exec_env env pl) (plan_for (pl_config pl) routed)
      (fst ` set (plan_chain (plan_for (pl_config pl) routed))) resp"
    by (metis exec_loop_answered)
  from this[unfolded answered_def exec_env_resolve] obtain p hl w0 w1 w2 w3 where
    p: "p \<in> fst ` set (plan_chain (plan_for (pl_config pl) routed))"
    and hl: "resolve_handle env pl p w0 = (Some hl, w1)"
    and call: "en_complete (exec_env env pl) (h_adapter hl)
      (entry_request (plan_for (pl_config pl) routed) hl) (h_key hl) w2 = (Inr resp, w3)"
    by blast
  have "rp_request (plan_for (pl_config pl) routed) = ro_canonical routed"
    by (simp add: plan_for_def Let_def)
  with resolve_handle_Some[OF hl] exec_env_complete[OF call] p show ?thesis
    by (intro bexI[OF _ p] exI[of _ "h_adapter hl"] exI[of _ "h_key hl"]) auto
qed

text \<open>C30. A completed request was answered by a registered provider of the chain (the routed one or a
  fallback of the tier), and the model it was asked for is that adapter's own default model: neither
  the routed model nor the model of a fallback entry reaches the provider.\<close>

theorem complete_sends_default_model:
  assumes "complete env routed pl x = (Inr resp, pl', x')"
  shows "\<exists>p \<in> fst ` set (plan_chain (plan_for (pl_config pl) routed)). \<exists>a key y y'.
    reg_get (pl_registry pl) p = Some a
    \<and> pe_complete env a ((ro_canonical routed)\<lparr>cr_selected_provider := p,
          cr_selected_model := ad_default_model a\<rparr>) key y = (Inr resp, y')"
  using assms by (rule complete_called)

lemma attempt_logs_id: "a \<in> set (attempt_logs routed as) \<Longrightarrow> la_request_id a = ro_request_id routed"
  by (auto simp: attempt_logs_def attempt_log_of_def)

lemma attempt_logs_sorted:
  assumes "length as < 2 ^ 32"
  shows "sort_key la_attempt_number (attempt_logs routed as) = attempt_logs routed as"
proof (rule sort_key_id_if_sorted)
  have "map la_attempt_number (attempt_logs routed as) = map (\<lambda>i. of_nat (i + 1)) [0..<length as]"
    by (rule nth_equalityI) (simp_all add: attempt_logs_def attempt_log_of_def nth_enumerate_eq)
  moreover have "sorted (map (\<lambda>i. of_nat (i + 1) :: u32) [0..<length as])"
    unfolding sorted_iff_nth_mono length_map length_upt
    using assms by (auto simp: word_le_nat_alt unat_of_nat take_bit_nat_eq_self simp del: of_nat_Suc of_nat_add)
  ultimately show "sorted (map la_attempt_number (attempt_logs routed as))" by simp
qed


lemma charge_user_unfold:
  "charge_user env s routed r db = (case (ro_user_id routed, completion_cost s r) of
      (Some uid, Some c) \<Rightarrow> if user_row db uid = None then db
        else db\<lparr>db_usage := record_usage (pe_day env) uid (input_tokens (rs_usage r))
                  (output_tokens (rs_usage r)) c (db_usage db)\<rparr>
    | _ \<Rightarrow> db)"
  by (simp add: charge_user_def user_record_usage_def split: option.splits)


lemma dispatch_key_plain:
  assumes "lookup_manifest_oauth p = None"
  shows "fst (dispatch_key env tier p pl) = fst (resolve (pe_crypto env) (pe_var env) (pl_master pl) p
    (opt_or (provider_key (pl_config pl) p) (tier_key_override (pl_config pl) tier))
    (oa_keys (pl_oauth pl)))"
  using assms by (simp add: dispatch_key_def Let_def split: prod.splits)

text \<open>Precedence of keys: for a provider without OAuth whose configuration names a literal key, that
  key is the one the request is sent with, whatever key the tier is given; the tier's key is used
  exactly when the provider has none.\<close>

theorem provider_key_wins_over_tier_key:
  assumes "fst (route env inbound ov tier pl) = Inr routed"
    and "p = sel_provider_id (ro_route routed)" and "lookup_manifest_oauth p = None"
    and "lit \<noteq> []" and "env_reference lit = None" and "strip_prefix ''enc:'' lit = None"
    and "provider_key (pl_config pl) p = Some lit
      \<or> provider_key (pl_config pl) p = None \<and> tier_key_override (pl_config pl) tier = Some lit"
  shows "ro_key routed = lit"
proof -
  from assms(1,2) have "ro_key routed = fst (dispatch_key env tier p pl)"
    by (auto simp: route_def Let_def split: sum.splits prod.splits if_split_asm)
  moreover have "resolve_literal (pe_crypto env) (pl_master pl) (pe_var env) lit = Some lit"
    using assms(4-6) by (simp add: resolve_literal_def)
  ultimately show ?thesis using assms(7) by (auto simp: dispatch_key_plain[OF assms(3)] resolve_def)
qed

lemma into_canonical_routing [simp]:
  "cr_selected_model (into_canonical parse text_of req tier m p rid) = m"
  "cr_selected_provider (into_canonical parse text_of req tier m p rid) = p"
  "cr_tier (into_canonical parse text_of req tier m p rid) = tier"
  "cr_request_id (into_canonical parse text_of req tier m p rid) = rid"
  "cr_metadata (into_canonical parse text_of req tier m p rid) = metadata_default"
  "cr_stream (into_canonical parse text_of req tier m p rid) = ir_stream req"
  by (simp_all add: into_canonical_def split_def Let_def)

definition reference :: "SelectedRoute \<Rightarrow> string" where
  "reference r = sel_provider_id r @ ''/'' @ sel_model_id r"

definition wanted_reference :: "Pipeline \<Rightarrow> string option \<Rightarrow> Tier \<Rightarrow> string option" where
  "wanted_reference pl ov tier = (case ov of None \<Rightarrow> primary_for_tier (pl_config pl) tier | Some m \<Rightarrow> Some m)"

lemma choose_route_result:
  "case choose_route pl ov tier of
     Inr r \<Rightarrow> reg_get (pl_registry pl) (sel_provider_id r) \<noteq> None
       \<and> wanted_reference pl ov tier = Some (reference r)
   | Inl e \<Rightarrow> status e = (if ov = None then 500 else 400)
       \<and> Option.bind (wanted_reference pl ov tier) (route_explicit (pl_registry pl)) = None"
  by (auto simp: choose_route_def ok_or_def wanted_reference_def reference_def route_tier_def
      dest: route_explicit_no_slash split: option.splits bind_splits)

lemma route_ok:
  assumes "route env inbound ov tier pl = (Inr routed, pl')"
  shows "reg_get (pl_registry pl) (sel_provider_id (ro_route routed)) \<noteq> None
    \<and> wanted_reference pl ov tier = Some (reference (ro_route routed)) \<and> ro_request_id routed = pe_uuid env"
  using assms choose_route_result[where pl = pl and ov = ov and tier = tier]
  by (auto simp: route_def Let_def split: sum.splits prod.splits if_split_asm)

text \<open>A routing decision names a registered provider and the model of the reference it was made
  from (the override, else the tier's primary), the canonical request carries both and the tier, and
  the key is never empty. Every refusal is a bad request for an override that names no registered
  provider, or an internal error for a tier without a usable primary or a provider without a key.\<close>

theorem route_decision:
  "case fst (route env inbound ov tier pl) of
      Inr routed \<Rightarrow> ro_key routed \<noteq> []
        \<and> reg_get (pl_registry pl) (sel_provider_id (ro_route routed)) \<noteq> None
        \<and> wanted_reference pl ov tier = Some (reference (ro_route routed))
        \<and> cr_selected_model (ro_canonical routed) = sel_model_id (ro_route routed)
        \<and> cr_selected_provider (ro_canonical routed) = sel_provider_id (ro_route routed)
        \<and> cr_tier (ro_canonical routed) = tier \<and> cr_request_id (ro_canonical routed) = ro_request_id routed
    | Inl e \<Rightarrow> status e = 500
        \<or> status e = 400 \<and> (\<exists>m. ov = Some m \<and> route_explicit (pl_registry pl) m = None)"
proof (cases "choose_route pl ov tier")
  case (Inl e)
  with choose_route_result[where pl = pl and ov = ov and tier = tier] show ?thesis
    by (cases ov) (auto simp: route_def wanted_reference_def)
next
  case (Inr r)
  obtain key pl1 where k: "dispatch_key env tier (sel_provider_id r) pl = (key, pl1)"
    by (cases "dispatch_key env tier (sel_provider_id r) pl")
  show ?thesis
  proof (cases "key = []")
    case True
    with Inr k have "fst (route env inbound ov tier pl) = Inl (Internal (''no API key for provider '' @ sel_provider_id r))"
      by (simp add: route_def Let_def)
    then show ?thesis by simp
  next
    case False
    with Inr k choose_route_result[where pl = pl and ov = ov and tier = tier] show ?thesis
      by (auto simp: route_def Let_def)
  qed
qed

subsection \<open>A pipeline with one provider\<close>

definition demo_reply_of :: "CanonicalRequest \<Rightarrow> CanonicalResponse" where
  "demo_reply_of req = \<lparr>rs_id = ''r'', rs_model = cr_selected_model req,
     rs_provider = cr_selected_provider req, rs_content = [Text ''hi''], rs_finish_reason = Some ''stop'',
     rs_usage = usage_default\<lparr>input_tokens := 3, output_tokens := 4\<rparr>\<rparr>"

definition pipe_env :: "(nat, unit) PipeEnv" where
  "pipe_env = \<lparr>pe_now = (\<lambda>x. (x, Suc x)), pe_complete = (\<lambda>a req key x. (Inr (demo_reply_of req), x)),
     pe_stream = (\<lambda>a req key x. (Inr (), x)), pe_sleep = (\<lambda>n x. x + n), pe_uuid = ''id-1'',
     pe_ts = ''2026-01-01 10:00:00'', pe_day = ''2026-01-01'', pe_unix = 0, pe_nonce = [],
     pe_http = (\<lambda>_. Inl ''down''), pe_crypto = toy_crypto, pe_codec = toy_codec, pe_var = (\<lambda>_. None),
     pe_parse = (\<lambda>_. None), pe_text = (\<lambda>_. '''')\<rparr>"

definition demo_tier :: TierConfig where
  "demo_tier = \<lparr>ti_primary = ''acme/m1'', ti_fallbacks = [], ti_allow_tier_downgrade = False,
     ti_downgrade_to = None, ti_min_context_window = None, ti_timeouts = timeouts_set_default\<rparr>"

definition demo_provider :: ProviderConfig where
  "demo_provider = \<lparr>pc_id = ''acme'', pc_type = Generic, pc_key = Some ''sk-1'',
     pc_base_url = Some ''http://acme'', pc_default_model = Some ''m0'', pc_path = None\<rparr>"

definition demo_pipeline :: Pipeline where
  "demo_pipeline = \<lparr>pl_registry = [(''acme'', GenericAdapter ''acme'' ''http://acme'' ''m0'')],
     pl_config = config_default\<lparr>providers := [demo_provider], tiers := [(''standard'', demo_tier)],
       tier_keys := [(''standard'', ''sk-tier'')]\<rparr>,
     pl_db = db_empty, pl_health = Map.empty, pl_master = [],
     pl_oauth = oauth_new (keystore_new [] Map.empty) Map.empty, pl_pricing = [], pl_writes = []\<rparr>"

definition demo_inbound :: InboundRequest where
  "demo_inbound = \<lparr>ir_model = ''auto'', ir_messages = [], ir_max_tokens = None,
     ir_temperature = None, ir_top_p = None, ir_stop = None, ir_stream = False, ir_tools = None,
     ir_tool_choice = None\<rparr>"

definition demo_routed :: RoutingOutput where
  "demo_routed = \<lparr>ro_canonical = into_canonical (\<lambda>_. None) (\<lambda>_. '''') demo_inbound Standard ''m1'' ''acme'' ''id-1'',
     ro_route = \<lparr>sel_provider_id = ''acme'', sel_model_id = ''m1''\<rparr>, ro_key = ''sk-1'',
     ro_request_id = ''id-1'', ro_user_id = None, ro_user_agent = None\<rparr>"

lemma pipe_parts:
  "split_provider_model ''acme/m1'' = (''acme'', ''m1'')"
  "env_reference ''sk-1'' = None" "strip_prefix ''enc:'' ''sk-1'' = None"
  "lookup_manifest_oauth ''acme'' = None"
  by code_simp+

lemma pipe_key: "resolve toy_crypto (\<lambda>_. None) [] ''acme'' (Some ''sk-1'') ks = (''sk-1'', ks)"
  by (simp add: resolve_def resolve_literal_def pipe_parts)

lemmas pipe_defs = pipe_env_def demo_pipeline_def exec_env_def demo_routed_def plan_for_def hook_for_def
  plan_chain_def health_get_def health_default_def resolve_handle_def reg_get_def config_default_def
  retry_default_def from_millis_def demo_tier_def provider_key_def demo_provider_def

lemma pipe_run: "\<exists>pl' x'. complete pipe_env demo_routed demo_pipeline 0 =
   (Inr (demo_reply_of ((ro_canonical demo_routed)\<lparr>cr_selected_provider := ''acme'', cr_selected_model := ''m0''\<rparr>)), pl', x')"
  by (simp add: complete_def execute_def Let_def pipe_parts pipe_key pipe_defs
    exec_entry_def check_available_def  run_attempts_def do_attempt_def outcome_of_def record_outcome_def finish_def)

lemma pipe_route: "fst (route pipe_env demo_inbound None Standard demo_pipeline) = Inr demo_routed"
  by code_simp

theorem provider_key_wins_over_tier_key_witness: "ro_key demo_routed = ''sk-1''"
proof (rule provider_key_wins_over_tier_key [OF pipe_route refl])
  show "lookup_manifest_oauth (sel_provider_id (ro_route demo_routed)) = None"
    by (simp add: demo_routed_def pipe_parts)
  show "provider_key (pl_config demo_pipeline) (sel_provider_id (ro_route demo_routed)) = Some ''sk-1''
    \<or> provider_key (pl_config demo_pipeline) (sel_provider_id (ro_route demo_routed)) = None
      \<and> tier_key_override (pl_config demo_pipeline) Standard = Some ''sk-1''"
    by (simp add: pipe_defs)
qed (simp_all add: pipe_parts)

theorem complete_sends_default_model_witness:
  "\<exists>p a key y y'. reg_get (pl_registry demo_pipeline) p = Some a
    \<and> fst (pe_complete pipe_env a ((ro_canonical demo_routed)\<lparr>cr_selected_provider := p,
          cr_selected_model := ad_default_model a\<rparr>) key y) = Inr y'"
proof -
  from pipe_run obtain pl' x' where run: "complete pipe_env demo_routed demo_pipeline 0
    = (Inr (demo_reply_of ((ro_canonical demo_routed)\<lparr>cr_selected_provider := ''acme'',
        cr_selected_model := ''m0''\<rparr>)), pl', x')" by blast
  show ?thesis using complete_sends_default_model [OF run] by (metis fst_conv)
qed


end
