(* ===== verification/Adapters.thy ===== *)
theory Adapters
  imports AdapterGoogle AdapterKiro Pipeline
begin

section \<open>All adapters\<close>

text \<open>
  The dispatch on the boxed trait object of \<open>src/providers/adapter.rs\<close>: which implementation each
  adapter of the registry runs. A completion is \<open>None\<close> when the task panics, a stream carries the flag
  of the Kiro adapter.
\<close>

record AdapterEnv =
  av_send :: upstream
  av_ts :: "json \<Rightarrow> string"
  av_parse :: "string \<Rightarrow> json option"
  av_lossy :: "string \<Rightarrow> string"
  av_conv :: string
  av_uuid :: string

fun supports :: "Adapter \<Rightarrow> Capability \<Rightarrow> bool" where
  "supports (AnthropicAdapter _ _ _) = anthropic_supports"
| "supports (GoogleAdapter _ _ _) = google_supports"
| "supports (KiroAdapter _ _ _) = kiro_supports"
| "supports (ResponsesAdapter _ _ _) = responses_supports"
| "supports (GenericAdapter _ _ _) = generic_supports"
| "supports (OpenAiAdapter _ _ _ _) = openai_supports"

fun auth_header :: "Adapter \<Rightarrow> string \<Rightarrow> string \<times> string" where
  "auth_header (AnthropicAdapter _ _ _) = anthropic_auth"
| "auth_header (GoogleAdapter _ _ _) = google_auth"
| "auth_header (KiroAdapter _ _ _) = kiro_auth"
| "auth_header (ResponsesAdapter _ _ _) = bearer_header"
| "auth_header (GenericAdapter _ _ _) = bearer_header"
| "auth_header (OpenAiAdapter _ _ _ _) = bearer_header"

fun adapter_complete ::
  "AdapterEnv \<Rightarrow> Adapter \<Rightarrow> CanonicalRequest \<Rightarrow> string \<Rightarrow> (AppError + CanonicalResponse) option" where
  "adapter_complete e (AnthropicAdapter i base _) req key = Some (anthropic_complete (av_send e) i base req key)"
| "adapter_complete e (GoogleAdapter i base _) req key = Some (google_complete (av_send e) (av_uuid e) i base req key)"
| "adapter_complete e (KiroAdapter i base _) req key =
     kiro_complete (av_send e) (av_parse e) (av_lossy e) (av_conv e) (av_uuid e) i base req key"
| "adapter_complete e (ResponsesAdapter i base _) req key = Some (responses_complete (av_send e) i base req key)"
| "adapter_complete e (GenericAdapter i base _) req key = Some (generic_complete (av_send e) i base req key)"
| "adapter_complete e (OpenAiAdapter i base path _) req key =
     Some (openai_complete (av_send e) (av_ts e) (av_parse e) i base path req key)"

definition quiet :: "AppError + 'i list \<Rightarrow> AppError + 'i list \<times> bool" where
  "quiet r = and_then r (\<lambda>items. Inr (items, False))"

fun adapter_stream ::
  "AdapterEnv \<Rightarrow> Adapter \<Rightarrow> CanonicalRequest \<Rightarrow> string
     \<Rightarrow> AppError + (AppError + CanonicalChunk) list \<times> bool" where
  "adapter_stream e (AnthropicAdapter i base _) req key =
     quiet (anthropic_stream (av_send e) (av_parse e) (av_lossy e) (av_uuid e) i base req key)"
| "adapter_stream e (GoogleAdapter i base _) req key =
     quiet (google_stream (av_send e) (av_parse e) (av_lossy e) (av_uuid e) i base req key)"
| "adapter_stream e (KiroAdapter i base _) req key =
     kiro_stream (av_send e) (av_parse e) (av_lossy e) (av_conv e) (av_uuid e) i base req key"
| "adapter_stream e (ResponsesAdapter i base _) req key =
     quiet (responses_stream (av_send e) (av_parse e) (av_lossy e) (av_uuid e) i base req key)"
| "adapter_stream e (GenericAdapter i base _) req key =
     quiet (generic_stream (av_send e) (av_parse e) (av_lossy e) (av_uuid e) i base req key)"
| "adapter_stream e (OpenAiAdapter i base path _) req key =
     quiet (openai_stream (av_send e) (av_ts e) (av_parse e) (av_lossy e) i base path req key)"

fun adapter_list_models :: "AdapterEnv \<Rightarrow> Adapter \<Rightarrow> string \<Rightarrow> AppError + string list" where
  "adapter_list_models e (AnthropicAdapter i base _) key = anthropic_list_models (av_send e) base key"
| "adapter_list_models e (GoogleAdapter i base _) key = google_list_models (av_send e) base key"
| "adapter_list_models e a key = list_models (av_send e) (ad_base_url a) key"

subsection \<open>The text of the streams\<close>

text \<open>A network that answers every call with success and these chunks.\<close>

definition delivers :: "upstream \<Rightarrow> string list \<Rightarrow> bool" where
  "delivers send bs \<longleftrightarrow> (\<forall>call. \<exists>r. send call = Inr r \<and> is_success (an_status r) \<and> an_bytes r = map Inr bs)"

lemma delivers_call:
  assumes "delivers send bs"
  obtains r where "call_provider send i call = Inr r" "an_bytes r = map Inr bs"
proof -
  from assms obtain r where "send call = Inr r" "is_success (an_status r)" "an_bytes r = map Inr bs"
    unfolding delivers_def by blast
  then show thesis using that[of r] by (simp add: call_provider_def)
qed

lemma delivers_stream:
  assumes "delivers send bs"
  shows "and_then (call_provider send i call) (\<lambda>r. Inr (run_stream c step fin (an_bytes r) [] st))
    = Inr (run_stream c step fin (map Inr bs) [] st)"
  using assms by (rule delivers_call[of send bs i call]) simp

context sse_text_stream
begin

lemma stream_text:
  assumes "delivers send bs" and "delivers send' bs'" and "concat bs = concat bs'"
    and "\<And>s c. delivers s c \<Longrightarrow> stream s =
      Inr (run_stream sse_cut (\<lambda>raw st. steps event (vals raw) st) fin (map Inr c) [] st)"
  shows "\<exists>items. quiet (stream send) = Inr (map Inr items, False)
    \<and> quiet (stream send') = Inr (map Inr items, False)
    \<and> concat (map chunk_text items) = concat (map carried (concat (map vals (fst (sse_cut (concat bs))))))"
proof -
  from run_text[where bs = bs and st = st] obtain items where
    "run_stream sse_cut (\<lambda>raw st. steps event (vals raw) st) fin (map Inr bs) [] st = map Inr items"
    "concat (map chunk_text items) = concat (map carried (concat (map vals (fst (sse_cut (concat bs))))))"
    by blast
  then show ?thesis
    using assms(4)[OF assms(1)] assms(4)[OF assms(2)]
      sse.chunking_irrelevant[OF assms(3), of "\<lambda>raw st. steps event (vals raw) st" fin st]
    by (simp add: quiet_def)
qed

end

interpretation anthropic_sse: sse_text_stream "anthropic_event mid model" event_text
    "event_values parse lossy" "anthropic_end mid model" for mid model parse lossy
  by unfold_locales (simp add: anthropic_end_def final_chunk_def delta_default_def)

interpretation google_sse: sse_text_stream "google_event mid model" google_text
    "google_values parse lossy" "google_end mid model" for mid model parse lossy
  by unfold_locales (auto simp: google_end_def final_chunk_def delta_default_def split: option.split)

interpretation responses_sse: sse_text_stream "responses_event mid model" responses_text
    "event_values parse lossy" "responses_end mid model" for mid model parse lossy
  by unfold_locales (simp add: responses_end_def final_chunk_def delta_default_def)

text \<open>The OpenAI-compatible chunk parsers as event handlers.\<close>

definition chunk_event :: "(json \<Rightarrow> CanonicalChunk option) \<Rightarrow> json \<Rightarrow> unit \<Rightarrow> CanonicalChunk list \<times> unit" where
  "chunk_event p v st = ((case p v of None \<Rightarrow> [] | Some c \<Rightarrow> [c]), st)"

definition parsed_text :: "(json \<Rightarrow> CanonicalChunk option) \<Rightarrow> json \<Rightarrow> string" where
  "parsed_text p v = unwrap_or [] (map_option chunk_text (p v))"

interpretation chunk_sse: sse_text_stream "chunk_event p" "parsed_text p" "event_values parse lossy" "\<lambda>_. []" for p parse lossy
  by unfold_locales (auto simp: chunk_event_def parsed_text_def split: option.splits)

lemma steps_chunk_event: "steps (chunk_event p) vs st = (List.map_filter p vs, st)"
  by (induction vs arbitrary: st) (simp_all add: chunk_event_def split: option.split)

lemma openai_step_events:
  "openai_step parse lossy model = (\<lambda>raw st. steps (chunk_event (parse_openai_chunk parse model))
     (event_values parse lossy raw) st)"
  by (simp add: fun_eq_iff openai_step_def steps_chunk_event)

definition stamped :: "(string \<Rightarrow> json option) \<Rightarrow> string \<Rightarrow> string \<Rightarrow> json \<Rightarrow> CanonicalChunk option" where
  "stamped parse model mid v = map_option (stamp_id mid) (parse_openai_compat_chunk parse model v)"

lemma map_map_filter: "map g (List.map_filter p vs) = List.map_filter (\<lambda>v. map_option g (p v)) vs"
  by (induction vs) (simp_all split: option.split)

lemma generic_step_events:
  "generic_step parse lossy model mid = (\<lambda>raw st. steps (chunk_event (stamped parse model mid))
     (event_values parse lossy raw) st)"
  by (simp add: fun_eq_iff generic_step_def steps_chunk_event map_map_filter stamped_def[abs_def])

text \<open>The text an adapter reads in the bytes of a stream.\<close>

fun wire_text :: "AdapterEnv \<Rightarrow> Adapter \<Rightarrow> CanonicalRequest \<Rightarrow> string \<Rightarrow> string" where
  "wire_text e (AnthropicAdapter _ _ _) req b =
     concat (map event_text (concat (map (event_values (av_parse e) (av_lossy e)) (fst (sse_cut b)))))"
| "wire_text e (GoogleAdapter _ _ _) req b =
     concat (map google_text (concat (map (google_values (av_parse e) (av_lossy e)) (fst (sse_cut b)))))"
| "wire_text e (ResponsesAdapter _ _ _) req b =
     concat (map responses_text (concat (map (event_values (av_parse e) (av_lossy e)) (fst (sse_cut b)))))"
| "wire_text e (GenericAdapter _ _ _) req b =
     concat (map (parsed_text (stamped (av_parse e) (cr_selected_model req) (''chatcmpl-'' @ av_uuid e)))
       (concat (map (event_values (av_parse e) (av_lossy e)) (fst (sse_cut b)))))"
| "wire_text e (OpenAiAdapter _ _ _ _) req b =
     concat (map (parsed_text (parse_openai_chunk (av_parse e) (cr_selected_model req)))
       (concat (map (event_values (av_parse e) (av_lossy e)) (fst (sse_cut b)))))"
| "wire_text e (KiroAdapter _ _ _) req b =
     fst (apply_all (kiro_events (av_parse e) (av_lossy e) b) ([], usage_default))"

lemma step_events:
  "anthropic_step parse lossy mid model = (\<lambda>raw st. steps (anthropic_event mid model) (event_values parse lossy raw) st)"
  "google_step parse lossy mid model = (\<lambda>raw st. steps (google_event mid model) (google_values parse lossy raw) st)"
  "responses_step parse lossy mid model = (\<lambda>raw st. steps (responses_event mid model) (event_values parse lossy raw) st)"
  by (simp_all add: fun_eq_iff anthropic_step_def google_step_def responses_step_def)

subsection \<open>Properties\<close>

text \<open>C11. Of every adapter: a stream the network delivers without an error is a function of its bytes.
  However the bytes are cut into chunks the same items come out, none of them an error, and their
  text is the text the adapter reads in the bytes (for Kiro, as long as no frame is bad).\<close>

theorem streams_ignore_chunking:
  assumes "delivers send bs" and "delivers send' bs'" and "concat bs = concat bs'"
    and "is_KiroAdapter a \<Longrightarrow> well_framed (av_parse e) (av_lossy e) (concat bs)"
  shows "\<exists>items. adapter_stream (e\<lparr>av_send := send\<rparr>) a req key = Inr (map Inr items, False)
    \<and> adapter_stream (e\<lparr>av_send := send'\<rparr>) a req key = Inr (map Inr items, False)
    \<and> concat (map chunk_text items) = wire_text e a req (concat bs)"
proof (cases a)
  case (AnthropicAdapter i base m)
  show ?thesis unfolding AnthropicAdapter
    by (simp, rule anthropic_sse.stream_text[OF assms(1-3)])
      (simp add: anthropic_stream_def Let_def delivers_stream step_events)
next
  case (GoogleAdapter i base m)
  show ?thesis unfolding GoogleAdapter
    by (simp, rule google_sse.stream_text[OF assms(1-3)])
      (simp add: google_stream_def Let_def delivers_stream step_events)
next
  case (ResponsesAdapter i base m)
  show ?thesis unfolding ResponsesAdapter
    by (simp, rule responses_sse.stream_text[OF assms(1-3)])
      (simp add: responses_stream_def Let_def delivers_stream step_events)
next
  case (GenericAdapter i base m)
  show ?thesis unfolding GenericAdapter
    by (simp, rule chunk_sse.stream_text[OF assms(1-3)])
      (simp add: generic_stream_def delivers_stream generic_step_events)
next
  case (OpenAiAdapter i base path m)
  show ?thesis unfolding OpenAiAdapter
    by (simp, rule chunk_sse.stream_text[OF assms(1-3)])
      (simp add: openai_stream_def delivers_stream openai_step_events)
next
  case (KiroAdapter i base m)
  let ?evs = "kiro_events (av_parse e) (av_lossy e) (concat bs)"
  obtain out acc u where s: "steps (kiro_event_step (''kiro-'' @ av_uuid e) (cr_selected_model req)) ?evs ([], None)
      = (out, acc, u)" by (metis prod_cases3)
  let ?items = "out @ kiro_end (''kiro-'' @ av_uuid e) (cr_selected_model req) (acc, u)"
  have wf: "well_framed (av_parse e) (av_lossy e) (concat bs)" using assms(4) KiroAdapter by simp
  have run: "adapter_stream (e\<lparr>av_send := s\<rparr>) a req key = Inr (map Inr ?items, False)"
    if "delivers s c" and "concat c = concat bs" for s c
    using that(1)
    by (rule delivers_call[where i = i and call = "kiro_call base key (kiro_body (av_conv e) req)"])
      (use kiro_run_events[OF kiro.head_empty, of "av_parse e" "av_lossy e" c] wf that(2) s KiroAdapter
        in \<open>simp add: kiro_stream_def\<close>)
  have "wire_text e a req (concat bs) = concat (map chunk_text ?items)"
    using kiro_steps_apply[OF s] KiroAdapter
    by (simp add: kiro_end_def final_chunk_def delta_default_def)
  with run[OF assms(1) refl] run[OF assms(2) assms(3)[symmetric]] show ?thesis
    by (intro exI[of _ ?items] conjI) simp_all
qed

lemma adapter_complete_reports:
  "(case adapter_complete e a req key of
      Some (Inr resp) \<Rightarrow> rs_provider resp = ad_provider_id a
    | Some (Inl (ProviderError p s m)) \<Rightarrow> p = ad_provider_id a
    | _ \<Rightarrow> True)"
proof -
  have call: "call_provider send i call = Inl (ProviderError p s m) \<Longrightarrow> p = i" for send i call p s m
    by (auto simp: call_provider_def app_error_of_def from_reqwest_def split: sum.splits if_split_asm)
  have val: "reply_value r \<noteq> Inl (ProviderError p s m)" for r p s m
    by (auto simp: reply_value_def app_error_of_def from_reqwest_def split: sum.split)
  have col: "kiro_collect parse lossy bs buf st \<noteq> Some (Inl (ProviderError p s m))" for parse lossy bs buf st p s m
    by (induction parse lossy bs buf st rule: kiro_collect.induct)
      (auto simp: app_error_of_def from_reqwest_def split: option.split)
  show ?thesis
    using call val col
    by (cases a) (auto simp: anthropic_complete_def google_complete_def responses_complete_def
        generic_complete_def openai_complete_def kiro_complete_def and_then_def parse_anthropic_response_def
        parse_google_response_def parse_responses_response_def parse_generic_response_def
        parse_openai_response_def kiro_response_def split: sum.splits option.splits AppError.splits)
qed

lemma adapter_complete_provider:
  "adapter_complete e a req key = Some (Inr resp) \<Longrightarrow> rs_provider resp = ad_provider_id a"
  using adapter_complete_reports[where e = e and a = a and req = req and key = key] by simp

theorem streams_ignore_chunking_witness:
  "\<exists>items. adapter_stream \<lparr>av_send = \<lambda>_. Inr (said_reply [''data'', '': d'' @ [NL, NL]]), av_ts = \<lambda>_. [],
       av_parse = event_codec, av_lossy = \<lambda>s. s, av_conv = ''c'', av_uuid = ''u''\<rparr>
       (AnthropicAdapter ''a'' ''http://x'' ''m'') sample_request ''k'' = Inr (map Inr items, False)
    \<and> concat (map chunk_text items) = ''hi''"
proof -
  let ?e = "\<lparr>av_send = \<lambda>_. Inr (said_reply [''data'', '': d'' @ [NL, NL]]), av_ts = \<lambda>_. [],
       av_parse = event_codec, av_lossy = \<lambda>s. s, av_conv = ''c'', av_uuid = ''u''\<rparr>"
  let ?bs = "[''data'', '': d'' @ [NL, NL]]" and ?a = "AnthropicAdapter ''a'' ''http://x'' ''m''"
  have d: "delivers (\<lambda>_. Inr (said_reply bs)) bs" for bs
    by (simp add: delivers_def said_reply_def is_success_def)
  have t: "wire_text ?e ?a sample_request (concat ?bs) = ''hi''" by code_simp
  show ?thesis
    using streams_ignore_chunking [of "\<lambda>_. Inr (said_reply ?bs)" ?bs "\<lambda>_. Inr (said_reply [concat ?bs])"
        "[concat ?bs]" ?a ?e sample_request "''k''"] d[of ?bs] d[of "[concat ?bs]"] t
    by auto
qed

subsection \<open>The pipeline over the adapters\<close>

text \<open>The provider calls of an environment are those of the adapters (over some network state).\<close>

definition runs_adapters :: "('x, 's) PipeEnv \<Rightarrow> bool" where
  "runs_adapters env \<longleftrightarrow> (\<forall>a req key x. \<exists>e. adapter_complete e a req key = Some (fst (pe_complete env a req key x)))"

lemma from_configs_loop_ids:
  "from_configs_loop cfgs r = Inr r' \<Longrightarrow> \<forall>(p, a) \<in> set r. ad_provider_id a = p \<Longrightarrow>
   \<forall>(p, a) \<in> set r'. ad_provider_id a = p"
proof (induction cfgs arbitrary: r)
  case (Cons c cs)
  obtain a where a: "build_adapter c = Inr a" and rest: "from_configs_loop cs (reg_insert (pc_id c) a r) = Inr r'"
    using Cons.prems(1) by (auto simp: and_then_def split: sum.splits)
  have "\<forall>(p, a) \<in> set (reg_insert (pc_id c) a r). ad_provider_id a = p"
    using Cons.prems(2) build_adapter_id[OF a]
    by (induction "pc_id c" a r rule: reg_insert.induct) (auto split: if_splits)
  then show ?case by (rule Cons.IH[OF rest])
qed simp

lemma registry_ids:
  "from_configs cfgs = Inr r \<Longrightarrow> reg_get r p = Some a \<Longrightarrow> ad_provider_id a = p"
  unfolding from_configs_def reg_get_def by (drule from_configs_loop_ids) (auto dest: map_of_SomeD)


definition null_env :: AdapterEnv where
  "null_env = \<lparr>av_send = \<lambda>_. Inr \<lparr>an_status = 200, an_reason = '''', an_text = '''', an_json = Inr Null,
     an_bytes = []\<rparr>, av_ts = \<lambda>_. [], av_parse = \<lambda>_. None, av_lossy = \<lambda>s. s, av_conv = '''', av_uuid = ''''\<rparr>"

definition net_env :: "(nat, unit) PipeEnv" where
  "net_env = pipe_env\<lparr>pe_complete := (\<lambda>a req key x. (the (adapter_complete null_env a req key), x))\<rparr>"

lemma net_runs_adapters: "runs_adapters net_env"
proof -
  have "\<exists>r. adapter_complete null_env a req key = Some r" for a req key
    by (cases a) (auto simp: kiro_complete_def call_provider_def null_env_def is_success_def)
  then show ?thesis
    by (auto simp: runs_adapters_def net_env_def intro!: exI[of _ null_env])
qed

lemma generic_null: "generic_complete (av_send null_env) i base req key
    = Inr (parse_generic_response Null i (cr_selected_model req))"
  by (simp add: generic_complete_def call_provider_def null_env_def is_success_def reply_value_def)

lemma net_run: "\<exists>pl' x'. complete net_env demo_routed demo_pipeline 0
    = (Inr (parse_generic_response Null ''acme'' ''m0''), pl', x')"
  by (simp add: complete_def execute_def Let_def pipe_parts pipe_key pipe_defs net_env_def generic_null
    exec_entry_def check_available_def run_attempts_def do_attempt_def outcome_of_def record_outcome_def
    finish_def)


end
