(* ===== verification/Handlers.thy ===== *)
theory Handlers
  imports Adapters Scorer Specificity AuthMw
begin

section \<open>The chat handler and the public endpoints\<close>

text \<open>
  \<open>src/server/handlers.rs\<close> and the SSE helpers of \<open>src/proxy/stream.rs\<close>. A handler takes the request
  headers as a lookup (a value that is not visible ASCII reads as absent), the pipeline and the
  world of the provider calls. \<open>Panicked\<close> is a panic of the task. Each item of a provider stream
  comes with the milliseconds since the response has started; keep-alive comments are left out.
\<close>

record ('x) ChatEnv =
  ce_pipe :: "('x, (AppError + CanonicalChunk) list \<times> bool) PipeEnv"
  ce_decode :: "json \<Rightarrow> string + InboundRequest"
  ce_ts :: "json \<Rightarrow> string"
  ce_count :: "string \<Rightarrow> u32"
  ce_order :: "SpecificityCategory list"
  ce_created :: int
  ce_elapsed :: "nat \<Rightarrow> nat"

record SseEvent =
  ev_name :: "string option"
  ev_data :: string

type_synonym headers = "string \<Rightarrow> string option"

datatype ChatOutcome =
    Panicked
  | Answered HttpResponse
  | Streamed (stream_headers: "(string \<times> string) list") (stream_events: "SseEvent list") (stream_panics: bool)

definition app_response :: "AppError \<Rightarrow> HttpResponse" where
  "app_response e = (case into_response e of (s, b) \<Rightarrow> \<lparr>hr_status = s, hr_headers = [], hr_body = Some b\<rparr>)"

definition json_response :: "u16 \<Rightarrow> json \<Rightarrow> HttpResponse" where
  "json_response s b = \<lparr>hr_status = s, hr_headers = [], hr_body = Some b\<rparr>"

definition health_body :: HttpResponse where
  "health_body = json_response 200 (Object [(''status'', String ''ok'')])"

subsection \<open>Public endpoints\<close>

definition public_stats :: "string \<Rightarrow> Pipeline \<Rightarrow> HttpResponse" where
  "public_stats day pl = (case get_global_usage_today day (pl_db pl) of (input, output, cost, reqs) \<Rightarrow>
     json_response 200 (Object
      [(''today'', Object [(''input_tokens'', ju32 input), (''output_tokens'', ju32 output),
          (''cost_usd'', jf64 cost), (''request_count'', ju32 reqs)]),
       (''providers_configured'', Number (PosInt (of_nat (length (providers (pl_config pl)))))),
       (''tiers'', Number (PosInt (of_nat (length (tiers (pl_config pl))))))]))"

text \<open>Models are listed once per pair of provider and model: the defaults, then the discovered ones.\<close>

definition insert_new :: "'a list \<Rightarrow> 'a \<Rightarrow> 'a list" where
  "insert_new seen x = (if x \<in> set seen then seen else seen @ [x])"

definition merge_models :: "(string \<times> string) list \<Rightarrow> (string \<times> string) list option \<Rightarrow> (string \<times> string) list" where
  "merge_models defaults discovered =
     foldl insert_new [] (defaults @ unwrap_or [] discovered)"

definition model_entry :: "string \<times> string \<Rightarrow> json" where
  "model_entry row = (case row of (p, m) \<Rightarrow> Object
     [(''id'', String (p @ ''/'' @ m)), (''object'', String ''model''), (''owned_by'', String p)])"

definition models_endpoint :: "(string \<times> string) list option \<Rightarrow> Pipeline \<Rightarrow> HttpResponse" where
  "models_endpoint discovered pl = json_response 200 (Object [(''object'', String ''list''),
     (''data'', Array (map model_entry (merge_models (reg_list (pl_registry pl)) discovered)))])"

subsection \<open>Server-sent events\<close>

definition data_event :: "string \<Rightarrow> SseEvent" where
  "data_event d = \<lparr>ev_name = None, ev_data = d\<rparr>"

definition error_event :: "(json \<Rightarrow> string) \<Rightarrow> string \<Rightarrow> SseEvent" where
  "error_event ts msg = \<lparr>ev_name = Some ''error'', ev_data = ts (Object [(''error'', String msg)])\<rparr>"

definition done_event :: "(json \<Rightarrow> string) \<Rightarrow> SseEvent" where
  "done_event ts = data_event (ts done_sentinel)"

definition chunk_events :: "(json \<Rightarrow> string) \<Rightarrow> int \<Rightarrow> CanonicalChunk \<Rightarrow> SseEvent list" where
  "chunk_events ts created c = (case chunk_to_openai ts created c of None \<Rightarrow> [] | Some v \<Rightarrow> [data_event (ts v)])"

definition chunks_to_sse :: "(json \<Rightarrow> string) \<Rightarrow> int \<Rightarrow> CanonicalChunk list \<Rightarrow> SseEvent list" where
  "chunks_to_sse ts created chunks = concat (map (chunk_events ts created) chunks) @ [done_event ts]"

definition fill_chunk :: "string \<Rightarrow> string \<Rightarrow> CanonicalChunk \<Rightarrow> CanonicalChunk" where
  "fill_chunk model rid c =
     (let c = (if ch_model c = [] then c\<lparr>ch_model := model\<rparr> else c) in
      if ch_id c = [] then c\<lparr>ch_id := rid\<rparr> else c)"

text \<open>The body of the response stream. \<open>n\<close> counts the items; a panic of the provider stream cuts the
  body off where it happens.\<close>

fun stream_body ::
  "(json \<Rightarrow> string) \<Rightarrow> int \<Rightarrow> string \<Rightarrow> string \<Rightarrow> nat \<Rightarrow> (nat \<Rightarrow> nat) \<Rightarrow> bool \<Rightarrow> nat
     \<Rightarrow> (AppError + CanonicalChunk) list \<Rightarrow> SseEvent list" where
  "stream_body ts created model rid budget elapsed panics n [] =
     (if panics then [] else [done_event ts])"
| "stream_body ts created model rid budget elapsed panics n (item # items) =
     (if budget < elapsed n then [error_event ts ''request budget exceeded'', done_event ts]
      else (case item of
          Inl e \<Rightarrow> [error_event ts (error_to_string e), done_event ts]
        | Inr c \<Rightarrow> chunk_events ts created (fill_chunk model rid c)
            @ stream_body ts created model rid budget elapsed panics (Suc n) items))"

subsection \<open>Routing headers\<close>

definition put_header :: "string \<Rightarrow> string \<Rightarrow> (string \<times> string) list \<Rightarrow> (string \<times> string) list" where
  "put_header k v hs = (if list_all visible_ascii v then row_put k v hs else hs)"

definition attach_routing_headers ::
  "string \<Rightarrow> string \<Rightarrow> Tier \<Rightarrow> string \<Rightarrow> string option \<Rightarrow> (string \<times> string) list \<Rightarrow> (string \<times> string) list" where
  "attach_routing_headers provider model tier rid category hs =
     (let h1 = put_header ''x-router-model'' model hs;
          h2 = put_header ''x-router-provider'' provider h1;
          h3 = put_header ''x-router-tier'' (tier_as_str tier) h2;
          h4 = put_header ''x-router-request-id'' rid h3 in
      case category of None \<Rightarrow> h4 | Some cat \<Rightarrow> put_header ''x-router-specificity'' cat h4)"

subsection \<open>Chat completions\<close>

definition model_hint :: "string \<Rightarrow> (Tier \<times> string) option" where
  "model_hint model_string = (case splitn 3 (CHR ''/'') model_string of
      [a, b, c] \<Rightarrow> map_option (\<lambda>t. (t, model_string)) (tier_parse a)
    | _ \<Rightarrow> None)"

definition budget_user :: "UserContext \<Rightarrow> string option" where
  "budget_user user = (if uc_via user = ''legacy_key'' \<or> uc_via user = ''env_password'' then None
     else Some (uc_user_id user))"

definition projected_cost :: "PricingStore \<Rightarrow> string option \<Rightarrow> f64" where
  "projected_cost pricing model_override =
     unwrap_or 0 (calculate_with_db ''any'' (unwrap_or [] model_override) 0 0 (Some pricing))"

definition budget_gate :: "string \<Rightarrow> UserContext \<Rightarrow> string option \<Rightarrow> Pipeline \<Rightarrow> string option" where
  "budget_gate day user model_override pl = (let cfg = budgets (pl_config pl) in
     if 0 < daily_cost_usd cfg \<or> 0 < per_request_cost_usd cfg
     then (case budget_check cfg (db_usage (pl_db pl)) day (budget_user user)
                 (projected_cost (pl_pricing pl) model_override) of
             Deny why \<Rightarrow> Some why | _ \<Rightarrow> None)
     else None)"

definition no_providers :: HttpResponse where
  "no_providers = json_response 503 (Object [(''error'', Object
     [(''message'', String ''no providers configured; visit /ui/providers to add one''),
      (''type'', String ''no_providers''), (''code'', String ''no_providers_configured'')])])"

definition budget_exceeded :: "string \<Rightarrow> HttpResponse" where
  "budget_exceeded why = json_response 429 (Object [(''error'', Object
     [(''code'', String ''budget_exceeded''), (''message'', String why),
      (''type'', String ''rate_limit_error'')])])"

text \<open>Tier and override of a request: hint or score, then the category that was detected.\<close>

definition chosen_override ::
  "(Tier \<times> string) option \<Rightarrow> ScoreResult \<Rightarrow> SpecificityDecision option \<Rightarrow> string option" where
  "chosen_override hint sc decision =
     opt_or (Option.bind decision sd_primary) (opt_or (map_option snd hint) (sc_model_override sc))"

definition chosen_tier :: "(Tier \<times> string) option \<Rightarrow> ScoreResult \<Rightarrow> Tier" where
  "chosen_tier hint sc = unwrap_or (sc_tier sc) (map_option fst hint)"

definition stamp_user :: "UserContext \<Rightarrow> headers \<Rightarrow> SpecificityDecision option \<Rightarrow> RoutingOutput \<Rightarrow> RoutingOutput" where
  "stamp_user user hs decision routed =
     (let md0 = cr_metadata (ro_canonical routed);
          md1 = (case hs ''user-agent'' of None \<Rightarrow> md0
            | Some ua \<Rightarrow> md0\<lparr>md_agent_type := Some (agent_as_str (detect_agent (Some ua)))\<rparr>);
          md2 = (case decision of None \<Rightarrow> md1
            | Some d \<Rightarrow> md1\<lparr>md_specificity_category :=
                Some (unwrap_or (category_as_str (sd_category d)) (md_specificity_category md1))\<rparr>) in
      routed\<lparr>ro_user_id := budget_user user, ro_user_agent := opt_or (hs ''user-agent'') (ro_user_agent routed),
             ro_canonical := (ro_canonical routed)\<lparr>cr_metadata := md2\<rparr>,
             ro_key := (case hs ''x-router-key'' of
                 Some k \<Rightarrow> if k \<noteq> [] then k else ro_key routed | None \<Rightarrow> ro_key routed)\<rparr>)"

definition answer_routed ::
  "('x) ChatEnv \<Rightarrow> Tier \<Rightarrow> RoutingOutput \<Rightarrow> Pipeline \<Rightarrow> 'x \<Rightarrow> ChatOutcome \<times> Pipeline \<times> 'x" where
  "answer_routed env tier routed pl x =
     (let attach = attach_routing_headers (sel_provider_id (ro_route routed)) (sel_model_id (ro_route routed))
            tier (ro_request_id routed) (md_specificity_category (cr_metadata (ro_canonical routed))) in
      if cr_stream (ro_canonical routed)
      then (case stream_route (ce_pipe env) routed pl x of
          (Inl e, x') \<Rightarrow> (Answered (app_response e), pl, x')
        | (Inr (items, panics), x') \<Rightarrow>
            (Streamed (attach []) (stream_body (ce_ts env) (ce_created env) (sel_model_id (ro_route routed))
               (ro_request_id routed) (unat (request_budget_ms (retry (pl_config pl)))) (ce_elapsed env)
               panics 0 items) panics, pl, x'))
      else (case complete (ce_pipe env) routed pl x of
          (Inl e, pl', x') \<Rightarrow> (Answered (app_response e), pl', x')
        | (Inr r, pl', x') \<Rightarrow>
            (Answered \<lparr>hr_status = 200, hr_headers = attach [],
               hr_body = Some (response_to_openai (ce_ts env) (ce_created env) r)\<rparr>, pl', x')))"

definition chat_completions ::
  "('x) ChatEnv \<Rightarrow> headers \<Rightarrow> UserContext \<Rightarrow> json \<Rightarrow> Pipeline \<Rightarrow> 'x \<Rightarrow> ChatOutcome \<times> Pipeline \<times> 'x" where
  "chat_completions env hs user body pl x =
     (if reg_ids (pl_registry pl) = [] then (Answered no_providers, pl, x)
      else (case parse_inbound (ce_decode env) body of
          Inl e \<Rightarrow> (Answered (app_response e), pl, x)
        | Inr pre \<Rightarrow>
           (let req = pr_request pre; hint = model_hint (pr_model_string pre);
                sc = score (ce_count env) (pl_config pl) (hs ''x-router-tier'') req in
            case detect (ce_order env) (detector_from_config (pl_config pl)) req
                   (hs ''x-router-specificity'') [] of
              Inl _ \<Rightarrow> (Panicked, pl, x)
            | Inr decision \<Rightarrow>
               (let tier = chosen_tier hint sc; ov = chosen_override hint sc decision in
                case budget_gate (pe_day (ce_pipe env)) user ov pl of
                  Some why \<Rightarrow> (Answered (budget_exceeded why), pl, x)
                | None \<Rightarrow> (case route (ce_pipe env) req ov tier pl of
                      (Inl e, pl') \<Rightarrow> (Answered (app_response e), pl', x)
                    | (Inr routed, pl') \<Rightarrow>
                        answer_routed env tier (stamp_user user hs decision routed) pl' x)))))"

subsection \<open>Models are listed once\<close>

lemma foldl_insert_new:
  "distinct out \<Longrightarrow> distinct (foldl insert_new out xs) \<and> set (foldl insert_new out xs) = set out \<union> set xs
     \<and> (\<exists>more. foldl insert_new out xs = out @ more)"
proof (induction xs arbitrary: out)
  case (Cons x xs)
  have "distinct (insert_new out x)" using Cons.prems by (simp add: insert_new_def)
  from Cons.IH[OF this] show ?case by (auto simp: insert_new_def)
qed simp

subsection \<open>The budget gate\<close>

lemma projected_cost_zero: "projected_cost pricing ov = 0"
  by (simp add: projected_cost_def calculate_with_db_def token_cost_def unwrap_or_def Let_def split: option.split)

lemma budget_gate_iff:
  "budget_gate day user ov pl \<noteq> None \<longleftrightarrow> 0 < daily_cost_usd (budgets (pl_config pl))
     \<and> daily_cost_usd (budgets (pl_config pl)) < daily_spend (db_usage (pl_db pl)) day (budget_user user)"
  by (auto simp: budget_gate_def budget_check_def projected_cost_zero Let_def split: if_splits)

subsection \<open>References of three segments\<close>

lemma splitn_three:
  assumes "splitn 3 (CHR ''/'') s = [a, b, c]"
  shows "split_once (CHR ''/'') s = Some (a, b @ ''/'' @ c)"
proof -
  obtain r where r: "split_once (CHR ''/'') s = Some (a, r)" "splitn (Suc (Suc 0)) (CHR ''/'') r = [b, c]"
    using assms by (auto simp: numeral_3_eq_3 split: option.splits prod.splits)
  then have "split_once (CHR ''/'') r = Some (b, c)" by (auto split: option.splits prod.splits)
  with r(1) show ?thesis by (simp add: split_once_Some)
qed

lemma model_hint_Some:
  assumes "model_hint s = Some (t, m)"
  obtains a rest where "m = s" "tier_parse a = Some t" "split_once (CHR ''/'') s = Some (a, rest)"
proof -
  from assms obtain a b c where abc: "splitn 3 (CHR ''/'') s = [a, b, c]" "tier_parse a = Some t" "m = s"
    by (auto simp: model_hint_def split: list.splits)
  from that[OF abc(3,2) splitn_three[OF abc(1)]] show thesis .
qed

lemma route_explicit_unregistered:
  "split_once (CHR ''/'') s = Some (a, rest) \<Longrightarrow> reg_get r a = None \<Longrightarrow> route_explicit r s = None"
  by (simp add: route_explicit_def split_model_ref_def)

subsection \<open>Headers\<close>

lemma map_of_put_header:
  "map_of (put_header k v hs) j = (if j = k \<and> list_all visible_ascii v then Some v else map_of hs j)"
proof -
  have "map_of (row_put k v hs) j = (if j = k then Some v else map_of hs j)"
    by (induction k v hs rule: row_put.induct) auto
  then show ?thesis by (simp add: put_header_def)
qed

subsection \<open>Properties\<close>

text \<open>The budget gate of a chat request: it refuses exactly when a daily limit is set and the spend
  recorded today for the user already exceeds it. The cost of the request itself is projected as
  zero, so the cap on a single request has no effect on any request.\<close>

theorem budget_gate_decides:
  "budget_gate day user ov pl \<noteq> None \<longleftrightarrow> 0 < daily_cost_usd (budgets (pl_config pl))
     \<and> daily_cost_usd (budgets (pl_config pl)) < daily_spend (db_usage (pl_db pl)) day (budget_user user)"
  by (rule budget_gate_iff)

text \<open>C12. A user over the daily budget spends nothing more: whatever the request, no provider is called,
  nothing is booked or logged, and the answer is an error (429 once the request has been read).\<close>

theorem over_budget_calls_nobody:
  assumes "0 < daily_cost_usd (budgets (pl_config pl))"
    and "daily_cost_usd (budgets (pl_config pl))
      < daily_spend (db_usage (pl_db pl)) (pe_day (ce_pipe env)) (budget_user user)"
  shows "\<exists>out. chat_completions env hs user body pl x = (out, pl, x)
    \<and> (out = Panicked \<or> (\<exists>resp. out = Answered resp \<and> hr_status resp \<in> {400, 429, 503}))"
proof -
  have deny: "\<exists>why. budget_gate (pe_day (ce_pipe env)) user ov pl = Some why" for ov
    using budget_gate_iff[of "pe_day (ce_pipe env)" user ov pl] assms by auto
  have bad: "hr_status (app_response e) = 400" if "parse_inbound (ce_decode env) body = Inl e" for e
    using that by (auto simp: parse_inbound_def app_response_def into_response_def Let_def split: sum.splits)
  show ?thesis
  proof (cases "parse_inbound (ce_decode env) body")
    case (Inl e)
    with bad show ?thesis by (simp add: chat_completions_def no_providers_def json_response_def)
  next
    case (Inr pre)
    show ?thesis
    proof (cases "detect (ce_order env) (detector_from_config (pl_config pl)) (pr_request pre)
        (hs ''x-router-specificity'') []")
      case (Inl m)
      with Inr show ?thesis by (simp add: chat_completions_def no_providers_def json_response_def Let_def)
    next
      case (Inr decision)
      obtain why where "budget_gate (pe_day (ce_pipe env)) user (chosen_override (model_hint (pr_model_string pre))
          (score (ce_count env) (pl_config pl) (hs ''x-router-tier'') (pr_request pre)) decision) pl = Some why"
        using deny by blast
      with Inr \<open>parse_inbound (ce_decode env) body = Inr pre\<close> show ?thesis
        by (simp add: chat_completions_def no_providers_def budget_exceeded_def json_response_def Let_def)
    qed
  qed
qed

text \<open>The documented form \<open>tier/provider/model\<close> is never routed: with specificity off, within the
  budget and with no provider named like the tier, a request for such a model is answered with
  400, because the whole reference is taken as the override and its first segment as the provider.\<close>

theorem tier_reference_is_refused:
  assumes "ce_decode env body = Inr req" and "model_hint (ir_model req) = Some (t, m)"
    and "split_once (CHR ''/'') (ir_model req) = Some (a, rest)" and "reg_get (pl_registry pl) a = None"
    and "reg_ids (pl_registry pl) \<noteq> []" and "\<not> sp_enabled (specificity (pl_config pl))"
    and "budget_gate (pe_day (ce_pipe env)) user (Some (ir_model req)) pl = None"
  shows "chat_completions env hs user body pl x
    = (Answered (app_response (BadRequest (''unknown provider in model ref: '' @ ir_model req))), pl, x)"
proof -
  have m: "m = ir_model req" using assms(2) by (rule model_hint_Some) simp
  have pre: "parse_inbound (ce_decode env) body = Inr \<lparr>pr_model_string = ir_model req, pr_request = req\<rparr>"
    using assms(1) by (simp add: parse_inbound_def)
  have det: "detect (ce_order env) (detector_from_config (pl_config pl)) req (hs ''x-router-specificity'') [] = Inr None"
    using assms(6) by (simp add: detect_def detector_from_config_def)
  have ov: "chosen_override (Some (t, m)) sc None = Some (ir_model req)" for sc
    by (simp add: chosen_override_def m)
  have "route_explicit (pl_registry pl) (ir_model req) = None"
    using assms(3,4) by (rule route_explicit_unregistered)
  then have "route (ce_pipe env) req (Some (ir_model req)) tier pl
      = (Inl (BadRequest (''unknown provider in model ref: '' @ ir_model req)), pl)" for tier
    by (simp add: route_def choose_route_def)
  then show ?thesis using assms(2,5,7) by (simp add: chat_completions_def pre det ov Let_def)
qed


definition fair_prefix :: "nat \<Rightarrow> (nat \<Rightarrow> nat) \<Rightarrow> nat \<Rightarrow> nat \<Rightarrow> (AppError + CanonicalChunk) list \<Rightarrow> bool" where
  "fair_prefix budget elapsed n k items \<longleftrightarrow> k \<le> length items
     \<and> (\<forall>i < k. elapsed (n + i) \<le> budget \<and> (\<exists>c. items ! i = Inr c))"

text \<open>C36. The body of a streamed answer: the chunks of a prefix of the provider's items in order, each
  of which arrived within the request budget, then at most one error event (exactly when the items
  were not all sent), then the terminator as the last event.\<close>

theorem stream_body_is_prefix:
  "\<exists>k errs. fair_prefix budget elapsed n k items \<and> length errs \<le> 1 \<and> (errs = [] \<longleftrightarrow> k = length items)
     \<and> list_all (\<lambda>e. ev_name e = Some ''error'') errs
     \<and> stream_body ts created model rid budget elapsed False n items
       = concat (map (\<lambda>item. case item of Inl _ \<Rightarrow> [] | Inr c \<Rightarrow> chunk_events ts created (fill_chunk model rid c))
           (take k items)) @ errs @ [done_event ts]"
proof (induction items arbitrary: n)
  case Nil
  show ?case by (rule exI[of _ 0], rule exI[of _ "[]"]) (simp add: fair_prefix_def)
next
  case (Cons item items)
  show ?case
  proof (cases "budget < elapsed n")
    case True
    then show ?thesis
      by (intro exI[of _ 0] exI[of _ "[error_event ts ''request budget exceeded'']"])
        (simp add: fair_prefix_def error_event_def)
  next
    case False
    show ?thesis
    proof (cases item)
      case (Inl e)
      with False show ?thesis
        by (intro exI[of _ 0] exI[of _ "[error_event ts (error_to_string e)]"])
          (simp add: fair_prefix_def error_event_def)
    next
      case (Inr c)
      from Cons.IH[of "Suc n"] obtain k errs where ih: "fair_prefix budget elapsed (Suc n) k items"
        "length errs \<le> 1" "errs = [] \<longleftrightarrow> k = length items" "list_all (\<lambda>e. ev_name e = Some ''error'') errs"
        "stream_body ts created model rid budget elapsed False (Suc n) items
         = concat (map (\<lambda>item. case item of Inl _ \<Rightarrow> [] | Inr c \<Rightarrow> chunk_events ts created (fill_chunk model rid c))
           (take k items)) @ errs @ [done_event ts]" by blast
      have "elapsed (n + i) \<le> budget \<and> (\<exists>c. (item # items) ! i = Inr c)" if "i < Suc k" for i
        using that ih(1) False Inr by (cases i) (auto simp: fair_prefix_def)
      then have "fair_prefix budget elapsed n (Suc k) (item # items)"
        using ih(1) by (simp add: fair_prefix_def)
      with ih False Inr show ?thesis by (intro exI[of _ "Suc k"] exI[of _ errs]) simp
    qed
  qed
qed

text \<open>The terminator is a JSON string, so a codec that quotes strings sends it in quotes.\<close>

lemma done_event_is_quoted:
  "ts (String ''[DONE]'') = [CHR 0x22] @ ''[DONE]'' @ [CHR 0x22] \<Longrightarrow>
   ev_data (done_event ts) \<noteq> ''[DONE]''"
  by (simp add: done_event_def data_event_def done_sentinel_def)

text \<open>The model list names every default model and every discovered model exactly once, the
  defaults first.\<close>

theorem merged_models_once:
  "distinct (merge_models defaults discovered)
   \<and> set (merge_models defaults discovered) = set defaults \<union> set (unwrap_or [] discovered)
   \<and> take (card (set defaults)) (merge_models defaults discovered) = merge_models defaults None"
proof -
  let ?d = "foldl insert_new [] defaults"
  have d: "distinct ?d" "set ?d = set defaults" using foldl_insert_new[of "[]" defaults] by simp_all
  from foldl_insert_new[OF d(1), of "unwrap_or [] discovered"] obtain more where
    m: "foldl insert_new ?d (unwrap_or [] discovered) = ?d @ more"
      "distinct (?d @ more)" "set (?d @ more) = set ?d \<union> set (unwrap_or [] discovered)" by metis
  have "length ?d = card (set defaults)" using d distinct_card by metis
  then show ?thesis using m d by (simp add: merge_models_def)
qed


fun answer_headers :: "ChatOutcome \<Rightarrow> (string \<times> string) list" where
  "answer_headers Panicked = []"
| "answer_headers (Answered resp) = hr_headers resp"
| "answer_headers (Streamed hs _ _) = hs"

lemma attached_headers:
  "map_of (attach_routing_headers p m tier rid category hs) ''x-router-provider''
     = (if list_all visible_ascii p then Some p else map_of hs ''x-router-provider'')"
  "map_of (attach_routing_headers p m tier rid category hs) ''x-router-model''
     = (if list_all visible_ascii m then Some m else map_of hs ''x-router-model'')"
  "map_of (attach_routing_headers p m tier rid category hs) ''x-router-request-id''
     = (if list_all visible_ascii rid then Some rid else map_of hs ''x-router-request-id'')"
  "map_of (attach_routing_headers p m tier rid category hs) ''x-router-tier'' = Some (tier_as_str tier)"
  by (cases category; simp add: attach_routing_headers_def Let_def map_of_put_header;
      cases tier; simp add: visible_ascii_def Let_def)+

lemma app_response_headers [simp]: "hr_headers (app_response e) = []"
  by (simp add: app_response_def split_def)

lemma answer_routed_headers:
  assumes "answer_routed env tier routed pl x = (out, pl', x')" and "answer_headers out \<noteq> []"
  shows "answer_headers out = attach_routing_headers (sel_provider_id (ro_route routed))
    (sel_model_id (ro_route routed)) tier (ro_request_id routed)
    (md_specificity_category (cr_metadata (ro_canonical routed))) []"
  using assms by (auto simp: answer_routed_def Let_def split: if_split_asm prod.splits sum.splits)

lemma stamp_user_route [simp]:
  "ro_route (stamp_user user hs d routed) = ro_route routed"
  "ro_request_id (stamp_user user hs d routed) = ro_request_id routed"
  by (simp_all add: stamp_user_def Let_def)

lemma chat_routed:
  assumes "chat_completions env hs user body pl x = (out, pl', x')" and "answer_headers out \<noteq> []"
  obtains req ov tier routed pl1 decision where
    "route (ce_pipe env) req ov tier pl = (Inr routed, pl1)"
    "answer_routed env tier (stamp_user user hs decision routed) pl1 x = (out, pl', x')"
  using assms that
  by (auto simp: chat_completions_def Let_def no_providers_def budget_exceeded_def json_response_def
      split: if_split_asm sum.splits option.splits prod.splits)

text \<open>The routing headers of an answer name the decision: the tier, the id of the request, and the
  provider and the model of the reference that was routed (the override or the tier's primary), whose
  provider is registered. They do not name the provider that answered: a fallback leaves them as
  they are.\<close>

theorem chat_headers_name_the_route:
  assumes "chat_completions env hs user body pl x = (out, pl', x')" and "answer_headers out \<noteq> []"
  shows "\<exists>ov tier r. wanted_reference pl ov tier = Some (reference r)
    \<and> reg_get (pl_registry pl) (sel_provider_id r) \<noteq> None
    \<and> map_of (answer_headers out) ''x-router-tier'' = Some (tier_as_str tier)
    \<and> map_of (answer_headers out) ''x-router-provider''
        = (if list_all visible_ascii (sel_provider_id r) then Some (sel_provider_id r) else None)
    \<and> map_of (answer_headers out) ''x-router-model''
        = (if list_all visible_ascii (sel_model_id r) then Some (sel_model_id r) else None)
    \<and> map_of (answer_headers out) ''x-router-request-id''
        = (if list_all visible_ascii (pe_uuid (ce_pipe env)) then Some (pe_uuid (ce_pipe env)) else None)"
proof -
  from assms obtain req ov tier routed pl1 decision where
    r: "route (ce_pipe env) req ov tier pl = (Inr routed, pl1)"
    and a: "answer_routed env tier (stamp_user user hs decision routed) pl1 x = (out, pl', x')"
    by (rule chat_routed)
  from answer_routed_headers[OF a assms(2)] route_ok[OF r] show ?thesis
    by (intro exI[of _ ov] exI[of _ tier] exI[of _ "ro_route routed"]) (simp add: attached_headers)
qed

subsection \<open>Examples\<close>

definition chat_env :: "InboundRequest \<Rightarrow> nat ChatEnv" where
  "chat_env req = \<lparr>ce_pipe = \<lparr>pe_now = (\<lambda>x. (x, Suc x)),
       pe_complete = (\<lambda>a req key x. (Inr (demo_reply_of req), Suc x)),
       pe_stream = (\<lambda>a req key x. (Inr ([], False), Suc x)), pe_sleep = (\<lambda>n x. x + n), pe_uuid = ''id-1'',
       pe_ts = ''2026-01-01 10:00:00'', pe_day = ''2026-01-01'', pe_unix = 0, pe_nonce = [],
       pe_http = (\<lambda>_. Inl ''down''), pe_crypto = toy_crypto, pe_codec = toy_codec, pe_var = (\<lambda>_. None),
       pe_parse = (\<lambda>_. None), pe_text = (\<lambda>_. '''')\<rparr>,
     ce_decode = (\<lambda>_. Inr req), ce_ts = (\<lambda>_. []), ce_count = (\<lambda>_. 0), ce_order = all_categories,
     ce_created = 0, ce_elapsed = (\<lambda>_. 0)\<rparr>"

definition chat_user :: UserContext where
  "chat_user = \<lparr>uc_user_id = ''u1'', uc_email = ''ann@x.io'', uc_name = ''Ann'', uc_role = UserRole,
     uc_via = ''api_key'', uc_key_prefix = None, uc_session_id = None\<rparr>"

definition spent_pipeline :: Pipeline where
  "spent_pipeline = demo_pipeline
     \<lparr>pl_config := (pl_config demo_pipeline)\<lparr>budgets := budget_default\<lparr>daily_cost_usd := 1\<rparr>\<rparr>,
      pl_db := db_empty\<lparr>db_usage := [((''u1'', ''2026-01-01''),
        \<lparr>us_input = 5, us_output = 5, us_cost = 2, us_requests = 1\<rparr>)]\<rparr>\<rparr>"

theorem over_budget_calls_nobody_witness:
  "\<exists>out. chat_completions (chat_env demo_inbound) (\<lambda>_. None) chat_user Null spent_pipeline 7
     = (out, spent_pipeline, 7)"
proof -
  have "0 < daily_cost_usd (budgets (pl_config spent_pipeline))"
    "daily_cost_usd (budgets (pl_config spent_pipeline))
      < daily_spend (db_usage (pl_db spent_pipeline)) (pe_day (ce_pipe (chat_env demo_inbound))) (budget_user chat_user)"
    by (simp_all add: spent_pipeline_def daily_spend_def chat_env_def budget_user_def chat_user_def)
  from over_budget_calls_nobody [OF this] show ?thesis by blast
qed

theorem tier_reference_is_refused_witness:
  "chat_completions (chat_env (demo_inbound\<lparr>ir_model := ''simple/acme/m1''\<rparr>)) (\<lambda>_. None) chat_user Null
     demo_pipeline 7
   = (Answered (app_response (BadRequest ''unknown provider in model ref: simple/acme/m1'')), demo_pipeline, 7)"
proof -
  let ?req = "demo_inbound\<lparr>ir_model := ''simple/acme/m1''\<rparr>"
  have 1: "ce_decode (chat_env ?req) Null = Inr ?req" by (simp add: chat_env_def)
  have 2: "model_hint (ir_model ?req) = Some (Simple, ''simple/acme/m1'')" by code_simp
  have 3: "split_once (CHR ''/'') (ir_model ?req) = Some (''simple'', ''acme/m1'')" by code_simp
  have 4: "reg_get (pl_registry demo_pipeline) ''simple'' = None" by code_simp
  have 5: "reg_ids (pl_registry demo_pipeline) \<noteq> []" by code_simp
  have 6: "\<not> sp_enabled (specificity (pl_config demo_pipeline))" by code_simp
  have 7: "budget_gate (pe_day (ce_pipe (chat_env ?req))) chat_user (Some (ir_model ?req)) demo_pipeline = None"
    by code_simp
  have 8: "''unknown provider in model ref: '' @ ir_model ?req = ''unknown provider in model ref: simple/acme/m1''"
    by code_simp
  from tier_reference_is_refused [where env = "chat_env ?req" and body = Null and req = ?req,
      OF 1 2 3 4 5 6 7]
  show ?thesis unfolding 8 .
qed

text \<open>A streamed demonstration request, evaluated stage by stage.\<close>

definition demo_stream :: InboundRequest where
  "demo_stream = demo_inbound\<lparr>ir_stream := True\<rparr>"

lemma demo_stream_stages:
  "reg_ids (pl_registry demo_pipeline) \<noteq> []"
  "parse_inbound (ce_decode (chat_env demo_stream)) Null
     = Inr \<lparr>pr_model_string = ''auto'', pr_request = demo_stream\<rparr>"
  "model_hint ''auto'' = None"
  "score (\<lambda>_. 0) (pl_config demo_pipeline) (Some ''standard'') demo_stream
     = \<lparr>sc_tier = Standard, sc_model_override = None\<rparr>"
  "detect all_categories (detector_from_config (pl_config demo_pipeline)) demo_stream None [] = Inr None"
  "budget_gate ''2026-01-01'' chat_user None demo_pipeline = None"
  by code_simp+

lemma demo_stream_answered:
  "case route (ce_pipe (chat_env demo_stream)) demo_stream None Standard demo_pipeline of
     (Inr routed, pl) \<Rightarrow> cr_stream (ro_canonical (stamp_user chat_user [''x-router-tier'' \<mapsto> ''standard''] None routed))
        \<and> (case stream_route (ce_pipe (chat_env demo_stream))
             (stamp_user chat_user [''x-router-tier'' \<mapsto> ''standard''] None routed) pl 7 of
             (Inr _, _) \<Rightarrow> True | _ \<Rightarrow> False)
   | _ \<Rightarrow> False"
  by code_simp

lemma attached_not_empty: "attach_routing_headers p m tier rid category hs \<noteq> []"
  using attached_headers(4)[of p m tier rid category hs] by auto

lemma demo_stream_headers:
  "answer_headers (fst (chat_completions (chat_env demo_stream) [''x-router-tier'' \<mapsto> ''standard''] chat_user
     Null demo_pipeline 7)) \<noteq> []"
proof -
  have env: "pe_day (ce_pipe (chat_env demo_stream)) = ''2026-01-01''" "ce_count (chat_env demo_stream) = (\<lambda>_. 0)"
    "ce_order (chat_env demo_stream) = all_categories" by (simp_all add: chat_env_def)
  have hs: "([''x-router-tier'' \<mapsto> ''standard''] :: headers) ''x-router-tier'' = Some ''standard''"
    "([''x-router-tier'' \<mapsto> ''standard''] :: headers) ''x-router-specificity'' = None" by simp_all
  let ?stamp = "stamp_user chat_user [''x-router-tier'' \<mapsto> ''standard''] None"
  let ?env = "ce_pipe (chat_env demo_stream)"
  obtain routed pl where r: "route ?env demo_stream None Standard demo_pipeline = (Inr routed, pl)"
    using demo_stream_answered
    by (cases "route ?env demo_stream None Standard demo_pipeline"; cases "fst (route ?env demo_stream None Standard demo_pipeline)") auto
  obtain res x where x: "stream_route ?env (?stamp routed) pl 7 = (res, x)" by fastforce
  obtain items p where run: "res = Inr (items, p)" "cr_stream (ro_canonical (?stamp routed))"
    using demo_stream_answered by (cases res) (auto simp: r x)
  show ?thesis
    by (simp add: chat_completions_def demo_stream_stages env hs r x run Let_def chosen_tier_def chosen_override_def
        answer_routed_def attached_not_empty del: fun_upd_apply)
qed

theorem chat_headers_name_the_route_witness:
  "\<exists>ov tier r. wanted_reference demo_pipeline ov tier = Some (reference r)
    \<and> map_of (answer_headers (fst (chat_completions (chat_env demo_stream) [''x-router-tier'' \<mapsto> ''standard'']
          chat_user Null demo_pipeline 7))) ''x-router-tier'' = Some (tier_as_str tier)"
proof -
  let ?run = "chat_completions (chat_env demo_stream) [''x-router-tier'' \<mapsto> ''standard''] chat_user Null demo_pipeline 7"
  have "?run = (fst ?run, fst (snd ?run), snd (snd ?run))" by (simp only: prod.collapse)
  from chat_headers_name_the_route [OF this demo_stream_headers] show ?thesis by blast
qed

end
