(* ===== verification/ConfigToml.thy ===== *)
theory ConfigToml
  imports Config
begin

section \<open>The configuration as a TOML document\<close>

text \<open>
  What the derived \<open>Serialize\<close> and \<open>Deserialize\<close> of \<open>src/config/types.rs\<close> do with the attributes
  written there: \<open>default\<close> on a field (the default applies when the key is missing), \<open>rename\<close> and
  \<open>rename_all\<close>, optional fields (missing is \<open>None\<close>, \<open>None\<close> is not written), unknown keys ignored,
  integers checked against their width, an integer accepted where a float is expected. A table is an
  association list; serde's positional form (an array in place of a table) is left out. Text parsing
  and printing are library code and parameters of the theories that use them.
\<close>

datatype toml =
    TString string
  | TInteger int
  | TFloat f64
  | TBoolean bool
  | TDatetime string
  | TArray "toml list"
  | TTable "(string \<times> toml) list"

type_synonym table = "(string \<times> toml) list"

fun toml_str :: "toml \<Rightarrow> string option" where
  "toml_str (TString s) = Some s"
| "toml_str _ = None"

fun toml_array :: "toml \<Rightarrow> toml list option" where
  "toml_array (TArray xs) = Some xs"
| "toml_array _ = None"

fun toml_table :: "toml \<Rightarrow> table option" where
  "toml_table (TTable t) = Some t"
| "toml_table _ = None"

fun toml_get :: "string \<Rightarrow> toml \<Rightarrow> toml option" where
  "toml_get k (TTable t) = map_of t k"
| "toml_get k _ = None"

fun table_insert :: "string \<Rightarrow> toml \<Rightarrow> table \<Rightarrow> table" where
  "table_insert k v [] = [(k, v)]"
| "table_insert k v ((k', v') # t) =
     (if k = k' then (k, v) # t else (k', v') # table_insert k v t)"

lemma map_of_table_insert [simp]: "map_of (table_insert k v t) = (map_of t)(k \<mapsto> v)"
  by (induction k v t rule: table_insert.induct) auto

lemma table_insert_same [simp]: "map_of t k = Some v \<Longrightarrow> table_insert k v t = t"
  by (induction k v t rule: table_insert.induct) (auto split: if_splits)

subsection \<open>Deserialising: one combinator per kind of field\<close>

fun de_str :: "toml \<Rightarrow> string option" where
  "de_str (TString s) = Some s"
| "de_str _ = None"

fun de_bool :: "toml \<Rightarrow> bool option" where
  "de_bool (TBoolean b) = Some b"
| "de_bool _ = None"

fun de_u32 :: "toml \<Rightarrow> u32 option" where
  "de_u32 (TInteger i) = (if 0 \<le> i \<and> i < 2 ^ 32 then Some (word_of_int i) else None)"
| "de_u32 _ = None"

fun de_u64 :: "toml \<Rightarrow> u64 option" where
  "de_u64 (TInteger i) = (if 0 \<le> i \<and> i < 2 ^ 64 then Some (word_of_int i) else None)"
| "de_u64 _ = None"

fun de_f64 :: "toml \<Rightarrow> f64 option" where
  "de_f64 (TFloat x) = Some x"
| "de_f64 (TInteger i) = Some (of_int i)"
| "de_f64 _ = None"

fun de_vec :: "(toml \<Rightarrow> 'a option) \<Rightarrow> toml \<Rightarrow> 'a list option" where
  "de_vec d (TArray xs) = those (map d xs)"
| "de_vec d _ = None"

definition de_pair :: "(toml \<Rightarrow> 'a option) \<Rightarrow> string \<times> toml \<Rightarrow> (string \<times> 'a) option" where
  "de_pair d kv = map_option (Pair (fst kv)) (d (snd kv))"

fun de_map :: "(toml \<Rightarrow> 'a option) \<Rightarrow> toml \<Rightarrow> (string \<times> 'a) list option" where
  "de_map d (TTable t) = those (map (de_pair d) t)"
| "de_map d _ = None"

definition required :: "string \<Rightarrow> (toml \<Rightarrow> 'a option) \<Rightarrow> toml \<Rightarrow> 'a option" where
  "required k d v = Option.bind (toml_get k v) d"

definition defaulted :: "string \<Rightarrow> (toml \<Rightarrow> 'a option) \<Rightarrow> 'a \<Rightarrow> toml \<Rightarrow> 'a option" where
  "defaulted k d x v = (case toml_get k v of None \<Rightarrow> Some x | Some w \<Rightarrow> d w)"

fun de_opt :: "(toml \<Rightarrow> 'a option) \<Rightarrow> toml option \<Rightarrow> 'a option option" where
  "de_opt d None = Some None"
| "de_opt d (Some w) = map_option Some (d w)"

definition optional :: "string \<Rightarrow> (toml \<Rightarrow> 'a option) \<Rightarrow> toml \<Rightarrow> 'a option option" where
  "optional k d v = de_opt d (toml_get k v)"

text \<open>A struct is read from a table only; \<open>app\<close> applies a constructor to one more field.\<close>

definition struct_of :: "toml \<Rightarrow> 'a option \<Rightarrow> 'a option" where
  "struct_of v r = (case toml_table v of None \<Rightarrow> None | Some _ \<Rightarrow> r)"

definition app :: "('a \<Rightarrow> 'b) option \<Rightarrow> 'a option \<Rightarrow> 'b option" where
  "app f x = Option.bind f (\<lambda>g. map_option g x)"

lemma app_Some [simp]: "app (Some f) (Some x) = Some (f x)"
  by (simp add: app_def)

lemma app_eq_Some: "app f x = Some y \<longleftrightarrow> (\<exists>g a. f = Some g \<and> x = Some a \<and> y = g a)"
  by (cases f; cases x) (auto simp: app_def)

lemma struct_of_TTable [simp]: "struct_of (TTable t) r = r"
  by (simp add: struct_of_def)

subsection \<open>Serialising\<close>

definition en_u32 :: "u32 \<Rightarrow> toml" where "en_u32 n = TInteger (uint n)"
definition en_u64 :: "u64 \<Rightarrow> toml" where "en_u64 n = TInteger (uint n)"
definition en_vec :: "('a \<Rightarrow> toml) \<Rightarrow> 'a list \<Rightarrow> toml" where "en_vec e xs = TArray (map e xs)"
definition en_map :: "('a \<Rightarrow> toml) \<Rightarrow> (string \<times> 'a) list \<Rightarrow> toml" where
  "en_map e kvs = TTable (map (\<lambda>(k, x). (k, e x)) kvs)"
definition en_opt :: "string \<Rightarrow> ('a \<Rightarrow> toml) \<Rightarrow> 'a option \<Rightarrow> table" where
  "en_opt k e x = (case x of None \<Rightarrow> [] | Some y \<Rightarrow> [(k, e y)])"

text \<open>\<open>serialize_u64\<close> of the TOML serialiser fails above \<open>i64::MAX\<close>.\<close>

fun in_i64 :: "toml \<Rightarrow> bool" where
  "in_i64 (TInteger i) = (- (2 ^ 63) \<le> i \<and> i < 2 ^ 63)"
| "in_i64 (TArray xs) = list_all in_i64 xs"
| "in_i64 (TTable t) = list_all (\<lambda>(k, v). in_i64 v) t"
| "in_i64 _ = True"

lemma map_of_en_opt:
  "map_of (en_opt k e x @ t) j = (if j = k then opt_or (map_option e x) (map_of t j) else map_of t j)"
  "map_of (en_opt k e x) j = (if j = k then map_option e x else None)"
  by (auto simp: en_opt_def split: option.split)

lemma de_opt_en [simp]: "(\<And>y. d (e y) = Some y) \<Longrightarrow> de_opt d (map_option e x) = Some x"
  by (cases x) simp_all

lemma de_en_u32 [simp]: "de_u32 (en_u32 n) = Some n"
  using uint_lt2p[of n] by (simp add: en_u32_def)

lemma de_en_u64 [simp]: "de_u64 (en_u64 n) = Some n"
  using uint_lt2p[of n] by (simp add: en_u64_def)

lemma those_map_Some: "(\<And>x. x \<in> set xs \<Longrightarrow> d (e x) = Some x) \<Longrightarrow> those (map (\<lambda>x. d (e x)) xs) = Some xs"
  by (induction xs) auto

lemma de_en_vec [simp]: "(\<And>x. d (e x) = Some x) \<Longrightarrow> de_vec d (en_vec e xs) = Some xs"
  using those_map_Some[of xs d e] by (simp add: en_vec_def o_def)

lemma de_en_map [simp]: "(\<And>x. d (e x) = Some x) \<Longrightarrow> de_map d (en_map e kvs) = Some kvs"
  by (induction kvs) (auto simp: en_map_def de_pair_def)

lemma de_vec_TString [simp]: "those (map (de_str \<circ> TString) xs) = Some xs"
  by (induction xs) auto

lemma those_SomeD: "those xs = Some ys \<Longrightarrow> y \<in> set ys \<Longrightarrow> Some y \<in> set xs"
proof (induction xs arbitrary: ys)
  case (Cons x xs)
  then show ?case by (cases x; cases "those xs") auto
qed simp

subsection \<open>The tables of the configuration\<close>

lemmas field_defs = required_def defaulted_def optional_def map_of_en_opt

text \<open>\<open>rename_all = "kebab-case"\<close> on the provider types,
       \<open>"snake_case"\<close> on the categories.\<close>

fun provider_type_name :: "ProviderType \<Rightarrow> string" where
  "provider_type_name Anthropic = ''anthropic''"
| "provider_type_name Google = ''google''"
| "provider_type_name Kiro = ''kiro''"
| "provider_type_name Responses = ''responses''"
| "provider_type_name Generic = ''generic''"
| "provider_type_name Openai = ''openai''"
| "provider_type_name Openrouter = ''openrouter''"
| "provider_type_name Tokenrouter = ''tokenrouter''"
| "provider_type_name Groq = ''groq''"
| "provider_type_name Deepseek = ''deepseek''"
| "provider_type_name Fireworks = ''fireworks''"
| "provider_type_name Mistral = ''mistral''"
| "provider_type_name Xai = ''xai''"
| "provider_type_name Qwen = ''qwen''"
| "provider_type_name Moonshot = ''moonshot''"
| "provider_type_name Zai = ''zai''"
| "provider_type_name Xiaomi = ''xiaomi''"
| "provider_type_name Minimax = ''minimax''"
| "provider_type_name Byteplus = ''byteplus''"
| "provider_type_name Nvidia = ''nvidia''"
| "provider_type_name OpencodeGo = ''opencode-go''"
| "provider_type_name OpencodeZen = ''opencode-zen''"
| "provider_type_name Kilo = ''kilo''"
| "provider_type_name Commandcode = ''commandcode''"
| "provider_type_name GithubCopilot = ''github-copilot''"
| "provider_type_name Gitlawb = ''gitlawb''"
| "provider_type_name Ollama = ''ollama''"
| "provider_type_name OllamaCloud = ''ollama-cloud''"
| "provider_type_name LlamaCpp = ''llama-cpp''"
| "provider_type_name LmStudio = ''lm-studio''"

definition all_provider_types :: "ProviderType list" where
  "all_provider_types = [Anthropic, Google, Kiro, Responses, Generic, Openai, Openrouter, Tokenrouter,
       Groq, Deepseek, Fireworks, Mistral, Xai, Qwen, Moonshot, Zai, Xiaomi, Minimax, Byteplus, Nvidia,
       OpencodeGo, OpencodeZen, Kilo, Commandcode, GithubCopilot, Gitlawb, Ollama, OllamaCloud, LlamaCpp,
       LmStudio]"

fun de_provider_type :: "toml \<Rightarrow> ProviderType option" where
  "de_provider_type (TString s) = find (\<lambda>p. provider_type_name p = s) all_provider_types"
| "de_provider_type _ = None"

definition en_provider_type :: "ProviderType \<Rightarrow> toml" where
  "en_provider_type p = TString (provider_type_name p)"

lemma de_en_provider_type [simp]: "de_provider_type (en_provider_type p) = Some p"
  by (cases p; simp add: en_provider_type_def all_provider_types_def)

fun de_category :: "toml \<Rightarrow> SpecificityCategory option" where
  "de_category (TString s) = find (\<lambda>c. category_as_str c = s) all_categories"
| "de_category _ = None"

definition en_category :: "SpecificityCategory \<Rightarrow> toml" where
  "en_category c = TString (category_as_str c)"

lemma de_en_category [simp]: "de_category (en_category c) = Some c"
  by (cases c; simp add: en_category_def all_categories_def)

text \<open>\<open>DatabaseConfig\<close> has the one field \<open>path\<close>.\<close>

definition de_database :: "toml \<Rightarrow> string option" where
  "de_database v = struct_of v (required ''path'' de_str v)"

definition en_database :: "string \<Rightarrow> toml" where
  "en_database p = TTable [(''path'', TString p)]"

lemma de_en_database [simp]: "de_database (en_database p) = Some p"
  by (simp add: de_database_def en_database_def required_def)

definition de_server :: "toml \<Rightarrow> ServerConfig option" where
  "de_server v = struct_of v (app (app (app (Some (\<lambda>x0 x1 x2. \<lparr>sv_bind = x0,
       sv_log_level = x1, sv_oauth_redirect_uri = x2\<rparr>))
     (required ''bind'' de_str v))
     (defaulted ''log_level'' de_str ''info'' v))
     (defaulted ''oauth_redirect_uri'' de_str '''' v))"

definition en_server :: "ServerConfig \<Rightarrow> toml" where
  "en_server c = TTable ([(''bind'', TString (sv_bind c))]
     @ [(''log_level'', TString (sv_log_level c))]
     @ [(''oauth_redirect_uri'', TString (sv_oauth_redirect_uri c))])"

lemma de_en_server [simp]: "de_server (en_server c) = Some c"
  by (cases c) (simp add: de_server_def en_server_def field_defs del: map_of_append)

definition de_auth_key :: "toml \<Rightarrow> AuthKey option" where
  "de_auth_key v = struct_of v (app (app (Some (\<lambda>x0 x1. \<lparr>ak_key = x0, ak_name = x1\<rparr>))
     (required ''key'' de_str v))
     (required ''name'' de_str v))"

definition en_auth_key :: "AuthKey \<Rightarrow> toml" where
  "en_auth_key c = TTable ([(''key'', TString (ak_key c))]
     @ [(''name'', TString (ak_name c))])"

lemma de_en_auth_key [simp]: "de_auth_key (en_auth_key c) = Some c"
  by (cases c) (simp add: de_auth_key_def en_auth_key_def field_defs del: map_of_append)

definition de_auth :: "toml \<Rightarrow> AuthConfig option" where
  "de_auth v = struct_of v (app (app (app (Some (\<lambda>x0 x1 x2. \<lparr>au_enabled = x0,
       au_admin_key = x1, au_keys = x2\<rparr>))
     (required ''enabled'' de_bool v))
     (optional ''admin_key'' de_str v))
     (defaulted ''keys'' (de_vec de_auth_key) [] v))"

definition en_auth :: "AuthConfig \<Rightarrow> toml" where
  "en_auth c = TTable ([(''enabled'', TBoolean (au_enabled c))]
     @ en_opt ''admin_key'' TString (au_admin_key c)
     @ [(''keys'', (en_vec en_auth_key) (au_keys c))])"

lemma de_en_auth [simp]: "de_auth (en_auth c) = Some c"
  by (cases c) (simp add: de_auth_def en_auth_def field_defs del: map_of_append)

definition de_provider :: "toml \<Rightarrow> ProviderConfig option" where
  "de_provider v = struct_of v (app (app (app (app (app (app (Some (\<lambda>x0 x1 x2 x3 x4 x5. \<lparr>pc_id = x0,
       pc_type = x1, pc_key = x2, pc_base_url = x3, pc_default_model = x4, pc_path = x5\<rparr>))
     (required ''id'' de_str v))
     (defaulted ''type'' de_provider_type Generic v))
     (optional ''key'' de_str v))
     (optional ''base_url'' de_str v))
     (optional ''default_model'' de_str v))
     (optional ''path'' de_str v))"

definition en_provider :: "ProviderConfig \<Rightarrow> toml" where
  "en_provider c = TTable ([(''id'', TString (pc_id c))]
     @ [(''type'', en_provider_type (pc_type c))]
     @ en_opt ''key'' TString (pc_key c)
     @ en_opt ''base_url'' TString (pc_base_url c)
     @ en_opt ''default_model'' TString (pc_default_model c)
     @ en_opt ''path'' TString (pc_path c))"

lemma de_en_provider [simp]: "de_provider (en_provider c) = Some c"
  by (cases c) (simp add: de_provider_def en_provider_def field_defs del: map_of_append)

definition de_timeouts_set :: "toml \<Rightarrow> TierTimeoutsSet option" where
  "de_timeouts_set v = struct_of v (app (app (app (Some (\<lambda>x0 x1 x2. \<lparr>ts_connect_ms = x0,
       ts_read_ms = x1, ts_per_attempt_ms = x2\<rparr>))
     (optional ''connect_ms'' de_u64 v))
     (optional ''read_ms'' de_u64 v))
     (optional ''per_attempt_ms'' de_u64 v))"

definition en_timeouts_set :: "TierTimeoutsSet \<Rightarrow> toml" where
  "en_timeouts_set c = TTable (en_opt ''connect_ms'' en_u64 (ts_connect_ms c)
     @ en_opt ''read_ms'' en_u64 (ts_read_ms c)
     @ en_opt ''per_attempt_ms'' en_u64 (ts_per_attempt_ms c))"

lemma de_en_timeouts_set [simp]: "de_timeouts_set (en_timeouts_set c) = Some c"
  by (cases c) (simp add: de_timeouts_set_def en_timeouts_set_def field_defs del: map_of_append)

definition de_tier :: "toml \<Rightarrow> TierConfig option" where
  "de_tier v = struct_of v (app (app (app (app (app (app (Some (\<lambda>x0 x1 x2 x3 x4 x5. \<lparr>ti_primary = x0,
       ti_fallbacks = x1, ti_allow_tier_downgrade = x2, ti_downgrade_to = x3, ti_min_context_window = x4,
       ti_timeouts = x5\<rparr>))
     (required ''primary'' de_str v))
     (defaulted ''fallbacks'' (de_vec de_str) [] v))
     (defaulted ''allow_tier_downgrade'' de_bool False v))
     (optional ''downgrade_to'' de_str v))
     (optional ''min_context_window'' de_u32 v))
     (defaulted ''timeouts'' de_timeouts_set timeouts_set_default v))"

definition en_tier :: "TierConfig \<Rightarrow> toml" where
  "en_tier c = TTable ([(''primary'', TString (ti_primary c))]
     @ [(''fallbacks'', (en_vec TString) (ti_fallbacks c))]
     @ [(''allow_tier_downgrade'', TBoolean (ti_allow_tier_downgrade c))]
     @ en_opt ''downgrade_to'' TString (ti_downgrade_to c)
     @ en_opt ''min_context_window'' en_u32 (ti_min_context_window c)
     @ [(''timeouts'', en_timeouts_set (ti_timeouts c))])"

lemma de_en_tier [simp]: "de_tier (en_tier c) = Some c"
  by (cases c) (simp add: de_tier_def en_tier_def field_defs del: map_of_append)

definition de_condition :: "toml \<Rightarrow> DetectionCondition option" where
  "de_condition v = struct_of v (app (app (app (Some (\<lambda>x0 x1 x2. \<lparr>dc_has_tools = x0,
       dc_input_tokens_gt = x1, dc_prompt_contains = x2\<rparr>))
     (optional ''has_tools'' de_bool v))
     (optional ''input_tokens_gt'' de_u32 v))
     (optional ''prompt_contains'' (de_vec de_str) v))"

definition en_condition :: "DetectionCondition \<Rightarrow> toml" where
  "en_condition c = TTable (en_opt ''has_tools'' TBoolean (dc_has_tools c)
     @ en_opt ''input_tokens_gt'' en_u32 (dc_input_tokens_gt c)
     @ en_opt ''prompt_contains'' (en_vec TString) (dc_prompt_contains c))"

lemma de_en_condition [simp]: "de_condition (en_condition c) = Some c"
  by (cases c) (simp add: de_condition_def en_condition_def field_defs del: map_of_append)

definition de_detection_rule :: "toml \<Rightarrow> DetectionRule option" where
  "de_detection_rule v = struct_of v (app (app (Some (\<lambda>x0 x1. \<lparr>dr_condition = x0,
       dr_tier = x1\<rparr>))
     (required ''if'' de_condition v))
     (required ''tier'' de_str v))"

definition en_detection_rule :: "DetectionRule \<Rightarrow> toml" where
  "en_detection_rule c = TTable ([(''if'', en_condition (dr_condition c))]
     @ [(''tier'', TString (dr_tier c))])"

lemma de_en_detection_rule [simp]: "de_detection_rule (en_detection_rule c) = Some c"
  by (cases c) (simp add: de_detection_rule_def en_detection_rule_def field_defs del: map_of_append)

definition de_detection :: "toml \<Rightarrow> DetectionConfig option" where
  "de_detection v = struct_of v (app (app (app (app (Some (\<lambda>x0 x1 x2 x3. \<lparr>de_default_tier = x0,
       de_session_window_minutes = x1, de_session_lookback = x2, de_rules = x3\<rparr>))
     (optional ''default_tier'' de_str v))
     (optional ''session_window_minutes'' de_u32 v))
     (optional ''session_lookback'' de_u32 v))
     (defaulted ''rules'' (de_vec de_detection_rule) [] v))"

definition en_detection :: "DetectionConfig \<Rightarrow> toml" where
  "en_detection c = TTable (en_opt ''default_tier'' TString (de_default_tier c)
     @ en_opt ''session_window_minutes'' en_u32 (de_session_window_minutes c)
     @ en_opt ''session_lookback'' en_u32 (de_session_lookback c)
     @ [(''rules'', (en_vec en_detection_rule) (de_rules c))])"

lemma de_en_detection [simp]: "de_detection (en_detection c) = Some c"
  by (cases c) (simp add: de_detection_def en_detection_def field_defs del: map_of_append)

definition de_retry :: "toml \<Rightarrow> RetryConfig option" where
  "de_retry v = struct_of v (app (app (app (app (Some (\<lambda>x0 x1 x2 x3. \<lparr>max_same_provider_retries = x0,
       fixed_retry_wait_ms = x1, max_retry_after_ms = x2, request_budget_ms = x3\<rparr>))
     (defaulted ''max_same_provider_retries'' de_u32 1 v))
     (defaulted ''fixed_retry_wait_ms'' de_u64 1500 v))
     (defaulted ''max_retry_after_ms'' de_u64 10000 v))
     (defaulted ''request_budget_ms'' de_u64 120000 v))"

definition en_retry :: "RetryConfig \<Rightarrow> toml" where
  "en_retry c = TTable ([(''max_same_provider_retries'', en_u32 (max_same_provider_retries c))]
     @ [(''fixed_retry_wait_ms'', en_u64 (fixed_retry_wait_ms c))]
     @ [(''max_retry_after_ms'', en_u64 (max_retry_after_ms c))]
     @ [(''request_budget_ms'', en_u64 (request_budget_ms c))])"

lemma de_en_retry [simp]: "de_retry (en_retry c) = Some c"
  by (cases c) (simp add: de_retry_def en_retry_def field_defs del: map_of_append)

definition de_specificity_rule :: "toml \<Rightarrow> SpecificityRule option" where
  "de_specificity_rule v = struct_of v (app (app (app (Some (\<lambda>x0 x1 x2. \<lparr>sr_category = x0,
       sr_primary = x1, sr_threshold = x2\<rparr>))
     (required ''category'' de_category v))
     (required ''primary'' de_str v))
     (optional ''threshold'' de_u32 v))"

definition en_specificity_rule :: "SpecificityRule \<Rightarrow> toml" where
  "en_specificity_rule c = TTable ([(''category'', en_category (sr_category c))]
     @ [(''primary'', TString (sr_primary c))]
     @ en_opt ''threshold'' en_u32 (sr_threshold c))"

lemma de_en_specificity_rule [simp]: "de_specificity_rule (en_specificity_rule c) = Some c"
  by (cases c) (simp add: de_specificity_rule_def en_specificity_rule_def field_defs del: map_of_append)

definition de_specificity :: "toml \<Rightarrow> SpecificityConfig option" where
  "de_specificity v = struct_of v (app (app (Some (\<lambda>x0 x1. \<lparr>sp_enabled = x0,
       sp_rules = x1\<rparr>))
     (defaulted ''enabled'' de_bool False v))
     (defaulted ''rules'' (de_vec de_specificity_rule) [] v))"

definition en_specificity :: "SpecificityConfig \<Rightarrow> toml" where
  "en_specificity c = TTable ([(''enabled'', TBoolean (sp_enabled c))]
     @ [(''rules'', (en_vec en_specificity_rule) (sp_rules c))])"

lemma de_en_specificity [simp]: "de_specificity (en_specificity c) = Some c"
  by (cases c) (simp add: de_specificity_def en_specificity_def field_defs del: map_of_append)

definition de_budgets :: "toml \<Rightarrow> BudgetConfig option" where
  "de_budgets v = struct_of v (app (app (app (Some (\<lambda>x0 x1 x2. \<lparr>daily_cost_usd = x0,
       per_request_cost_usd = x1, warn_fraction = x2\<rparr>))
     (defaulted ''daily_cost_usd'' de_f64 0 v))
     (defaulted ''per_request_cost_usd'' de_f64 0 v))
     (defaulted ''warn_fraction'' de_f64 (8 / 10) v))"

definition en_budgets :: "BudgetConfig \<Rightarrow> toml" where
  "en_budgets c = TTable ([(''daily_cost_usd'', TFloat (daily_cost_usd c))]
     @ [(''per_request_cost_usd'', TFloat (per_request_cost_usd c))]
     @ [(''warn_fraction'', TFloat (warn_fraction c))])"

lemma de_en_budgets [simp]: "de_budgets (en_budgets c) = Some c"
  by (cases c) (simp add: de_budgets_def en_budgets_def field_defs del: map_of_append)

definition de_pricing_sync :: "toml \<Rightarrow> PricingSyncConfig option" where
  "de_pricing_sync v = struct_of v (app (app (app (Some (\<lambda>x0 x1 x2. \<lparr>ps_enabled = x0,
       ps_interval_hours = x1, ps_openrouter_url = x2\<rparr>))
     (defaulted ''enabled'' de_bool True v))
     (defaulted ''interval_hours'' de_u64 24 v))
     (defaulted ''openrouter_url'' de_str ''https://openrouter.ai/api/v1/models'' v))"

definition en_pricing_sync :: "PricingSyncConfig \<Rightarrow> toml" where
  "en_pricing_sync c = TTable ([(''enabled'', TBoolean (ps_enabled c))]
     @ [(''interval_hours'', en_u64 (ps_interval_hours c))]
     @ [(''openrouter_url'', TString (ps_openrouter_url c))])"

lemma de_en_pricing_sync [simp]: "de_pricing_sync (en_pricing_sync c) = Some c"
  by (cases c) (simp add: de_pricing_sync_def en_pricing_sync_def field_defs del: map_of_append)

definition de_discovery :: "toml \<Rightarrow> DiscoveryConfig option" where
  "de_discovery v = struct_of v (app (app (app (Some (\<lambda>x0 x1 x2. \<lparr>dv_enabled = x0,
       dv_auto_assign_tiers = x1, dv_min_input_price_per_1m = x2\<rparr>))
     (defaulted ''enabled'' de_bool True v))
     (defaulted ''auto_assign_tiers'' de_bool False v))
     (defaulted ''min_input_price_per_1m'' de_f64 (1 / 10) v))"

definition en_discovery :: "DiscoveryConfig \<Rightarrow> toml" where
  "en_discovery c = TTable ([(''enabled'', TBoolean (dv_enabled c))]
     @ [(''auto_assign_tiers'', TBoolean (dv_auto_assign_tiers c))]
     @ [(''min_input_price_per_1m'', TFloat (dv_min_input_price_per_1m c))])"

lemma de_en_discovery [simp]: "de_discovery (en_discovery c) = Some c"
  by (cases c) (simp add: de_discovery_def en_discovery_def field_defs del: map_of_append)

definition de_streaming :: "toml \<Rightarrow> StreamingConfig option" where
  "de_streaming v = struct_of v (app (Some (\<lambda>x0. \<lparr>buffer_threshold_tokens = x0\<rparr>))
     (defaulted ''buffer_threshold_tokens'' de_u32 2048 v))"

definition en_streaming :: "StreamingConfig \<Rightarrow> toml" where
  "en_streaming c = TTable ([(''buffer_threshold_tokens'', en_u32 (buffer_threshold_tokens c))])"

lemma de_en_streaming [simp]: "de_streaming (en_streaming c) = Some c"
  by (cases c) (simp add: de_streaming_def en_streaming_def field_defs del: map_of_append)

definition de_bucket :: "toml \<Rightarrow> RateLimitBucket option" where
  "de_bucket v = struct_of v (app (app (Some (\<lambda>x0 x1. \<lparr>refill_per_minute = x0,
       burst = x1\<rparr>))
     (defaulted ''refill_per_minute'' de_u32 600 v))
     (defaulted ''burst'' de_u32 1200 v))"

definition en_bucket :: "RateLimitBucket \<Rightarrow> toml" where
  "en_bucket c = TTable ([(''refill_per_minute'', en_u32 (refill_per_minute c))]
     @ [(''burst'', en_u32 (burst c))])"

lemma de_en_bucket [simp]: "de_bucket (en_bucket c) = Some c"
  by (cases c) (simp add: de_bucket_def en_bucket_def field_defs del: map_of_append)

definition de_ratelimit :: "toml \<Rightarrow> RateLimitConfig option" where
  "de_ratelimit v = struct_of v (app (app (app (Some (\<lambda>x0 x1 x2. \<lparr>rl_enabled = x0,
       rl_global = x1, rl_per_key = x2\<rparr>))
     (defaulted ''enabled'' de_bool True v))
     (defaulted ''global'' de_bucket bucket_default v))
     (defaulted ''per_key'' de_bucket bucket_default v))"

definition en_ratelimit :: "RateLimitConfig \<Rightarrow> toml" where
  "en_ratelimit c = TTable ([(''enabled'', TBoolean (rl_enabled c))]
     @ [(''global'', en_bucket (rl_global c))]
     @ [(''per_key'', en_bucket (rl_per_key c))])"

lemma de_en_ratelimit [simp]: "de_ratelimit (en_ratelimit c) = Some c"
  by (cases c) (simp add: de_ratelimit_def en_ratelimit_def field_defs del: map_of_append)

definition de_config :: "toml \<Rightarrow> RouterConfig option" where
  "de_config v = struct_of v (app (app (app (app (app (app (app (app (app (app (app (app (app (app (app (app (Some (\<lambda>x0 x1 x2 x3 x4 x5 x6 x7 x8 x9 x10 x11 x12 x13 x14 x15. \<lparr>server = x0,
       oauth_redirect_uri = x1, auth = x2, database_path = x3, providers = x4, tiers = x5, tier_keys = x6,
       detection = x7, retry = x8, streaming = x9, specificity = x10, budgets = x11, pricing_sync = x12,
       discovery = x13, log_retention_days = x14, ratelimit = x15\<rparr>))
     (defaulted ''server'' de_server server_default v))
     (optional ''oauth_redirect_uri'' de_str v))
     (defaulted ''auth'' de_auth auth_default v))
     (defaulted ''database'' de_database '''' v))
     (defaulted ''providers'' (de_vec de_provider) [] v))
     (defaulted ''tiers'' (de_map de_tier) [] v))
     (defaulted ''tier_keys'' (de_map de_str) [] v))
     (defaulted ''detection'' de_detection detection_default v))
     (defaulted ''retry'' de_retry retry_default v))
     (defaulted ''streaming'' de_streaming streaming_default v))
     (defaulted ''specificity'' de_specificity specificity_default v))
     (defaulted ''budgets'' de_budgets budget_default v))
     (defaulted ''pricing_sync'' de_pricing_sync pricing_sync_default v))
     (defaulted ''discovery'' de_discovery discovery_default v))
     (defaulted ''log_retention_days'' de_u32 0 v))
     (defaulted ''ratelimit'' de_ratelimit ratelimit_default v))"

definition en_config :: "RouterConfig \<Rightarrow> toml" where
  "en_config c = TTable ([(''server'', en_server (server c))]
     @ en_opt ''oauth_redirect_uri'' TString (oauth_redirect_uri c)
     @ [(''auth'', en_auth (auth c))]
     @ [(''database'', en_database (database_path c))]
     @ [(''providers'', (en_vec en_provider) (providers c))]
     @ [(''tiers'', (en_map en_tier) (tiers c))]
     @ [(''tier_keys'', (en_map TString) (tier_keys c))]
     @ [(''detection'', en_detection (detection c))]
     @ [(''retry'', en_retry (retry c))]
     @ [(''streaming'', en_streaming (streaming c))]
     @ [(''specificity'', en_specificity (specificity c))]
     @ [(''budgets'', en_budgets (budgets c))]
     @ [(''pricing_sync'', en_pricing_sync (pricing_sync c))]
     @ [(''discovery'', en_discovery (discovery c))]
     @ [(''log_retention_days'', en_u32 (log_retention_days c))]
     @ [(''ratelimit'', en_ratelimit (ratelimit c))])"

lemma de_en_config [simp]: "de_config (en_config c) = Some c"
  by (cases c) (simp add: de_config_def en_config_def field_defs del: map_of_append)

subsection \<open>Documents\<close>

text \<open>An empty document is the default configuration.\<close>

lemma de_config_empty: "de_config (TTable []) = Some config_default"
  by (simp add: de_config_def defaulted_def optional_def config_default_def)

lemma de_vec_None: "x \<in> set xs \<Longrightarrow> d x = None \<Longrightarrow> de_vec d (TArray xs) = None"
proof (induction xs)
  case (Cons y ys)
  then show ?case by (cases "d y") auto
qed simp

lemma app_None [simp]: "app None x = None" "app f None = None"
  by (cases f; simp add: app_def)+

lemma de_auth_bad_key:
  assumes "map_of t ''keys'' = Some (TArray ks)" "k \<in> set ks" "toml_get ''key'' k = None"
  shows "de_auth (TTable t) = None"
proof -
  have "de_auth_key k = None" using assms(3) by (simp add: de_auth_key_def required_def struct_of_def split: option.split)
  then have "de_vec de_auth_key (TArray ks) = None" using assms(2) by (rule de_vec_None[rotated])
  then show ?thesis by (simp add: de_auth_def defaulted_def assms(1) del: de_vec.simps)
qed

lemma de_config_bad_auth:
  "map_of t ''auth'' = Some a \<Longrightarrow> de_auth a = None \<Longrightarrow> de_config (TTable t) = None"
  by (simp add: de_config_def defaulted_def)

end
