(* ===== verification/Validate.thy ===== *)
theory Validate
  imports ConfigToml Registry Errors
begin

section \<open>The configuration validator\<close>

text \<open>
  \<open>src/config/validate.rs\<close>: the typed parse, the semantic checks in the order of the code, the walk
  for unknown fields over the generic tree, and the deprecations. Parsers of third-party crates
  (TOML text, URLs, socket addresses, base64) are the fields of \<open>TomlEnv\<close>; \<open>te_de_error\<close> is the
  message of a failed typed parse.
\<close>

record TomlEnv =
  te_parse :: "string \<Rightarrow> string + table"
  te_pretty :: "toml \<Rightarrow> string"
  te_de_error :: "string \<Rightarrow> string"
  te_url :: "string \<Rightarrow> bool"
  te_socket :: "string \<Rightarrow> bool"
  te_base64 :: "string \<Rightarrow> bool"

record ConfigError =
  er_path :: string
  er_reason :: string

record ConfigWarning =
  wa_path :: string
  wa_reason :: string

record ValidationOutcome =
  vo_errors :: "ConfigError list"
  vo_warnings :: "ConfigWarning list"

definition has_errors :: "ValidationOutcome \<Rightarrow> bool" where
  "has_errors out \<longleftrightarrow> vo_errors out \<noteq> []"

definition has_warnings :: "ValidationOutcome \<Rightarrow> bool" where
  "has_warnings out \<longleftrightarrow> vo_warnings out \<noteq> []"

definition quoted :: "string \<Rightarrow> string" where
  "quoted s = [CHR 0x22] @ s @ [CHR 0x22]"

definition err_if :: "bool \<Rightarrow> string \<Rightarrow> string \<Rightarrow> ConfigError list" where
  "err_if b path why = (if b then [\<lparr>er_path = path, er_reason = why\<rparr>] else [])"

lemma err_if_Nil [simp]: "err_if b p r = [] \<longleftrightarrow> \<not> b"
  by (simp add: err_if_def)

subsection \<open>Semantic checks\<close>

definition is_valid_log_level :: "string \<Rightarrow> bool" where
  "is_valid_log_level s \<longleftrightarrow>
     to_lowercase s \<in> {''trace'', ''debug'', ''info'', ''warn'', ''warning'', ''error''}"

definition looks_like_encrypted_blob :: "TomlEnv \<Rightarrow> string \<Rightarrow> bool" where
  "looks_like_encrypted_blob te s \<longleftrightarrow> s \<noteq> [] \<and> te_base64 te (trim s)"

definition check_server :: "TomlEnv \<Rightarrow> ServerConfig \<Rightarrow> ConfigError list" where
  "check_server te sv =
     (if trim (sv_bind sv) = [] then err_if True ''[server].bind''
          (''must be set (e.g. '' @ quoted ''0.0.0.0:8080'' @ '')'')
      else err_if (\<not> te_socket te (sv_bind sv)) ''[server].bind''
          (quoted (sv_bind sv) @ '' is not a valid host:port''))
     @ err_if (\<not> is_valid_log_level (sv_log_level sv)) ''[server].log_level''
         (quoted (sv_log_level sv) @ '' is not a valid level (trace|debug|info|warn|error)'')
     @ err_if (sv_oauth_redirect_uri sv \<noteq> [] \<and> \<not> te_url te (sv_oauth_redirect_uri sv))
         ''[server].oauth_redirect_uri'' (quoted (sv_oauth_redirect_uri sv) @ '' is not a valid URL'')"

definition indexed :: "string \<Rightarrow> nat \<Rightarrow> string" where
  "indexed name idx = name @ ''['' @ show_nat idx @ '']''"

definition check_key_literal :: "TomlEnv \<Rightarrow> string \<Rightarrow> string option \<Rightarrow> ConfigError list" where
  "check_key_literal te path key = (case Option.bind key (strip_prefix ''enc:'') of
      None \<Rightarrow> []
    | Some rest \<Rightarrow> err_if (\<not> looks_like_encrypted_blob te rest) (path @ ''.key'')
        (quoted ''enc:'' @ '' prefix present but ciphertext is not valid base64''))"

definition check_provider_url :: "TomlEnv \<Rightarrow> string \<Rightarrow> string option \<Rightarrow> ConfigError list" where
  "check_provider_url te path url = (case url of None \<Rightarrow> []
    | Some b \<Rightarrow> err_if (b \<noteq> [] \<and> \<not> te_url te b) (path @ ''.base_url'') (quoted b @ '' is not a valid URL''))"

text \<open>The loop over the providers, with the ids seen so far.\<close>

fun check_providers :: "TomlEnv \<Rightarrow> nat \<Rightarrow> string list \<Rightarrow> ProviderConfig list \<Rightarrow> ConfigError list" where
  "check_providers te idx seen [] = []"
| "check_providers te idx seen (p # ps) =
     (let path = indexed ''providers'' idx; blank = (trim (pc_id p) = []) in
      (if blank then err_if True (path @ ''.id'') ''must not be empty''
       else err_if (pc_id p \<in> set seen) (path @ ''.id'') (''duplicate provider id '' @ quoted (pc_id p)))
      @ check_key_literal te path (pc_key p)
      @ check_provider_url te path (pc_base_url p)
      @ check_providers te (Suc idx) (if blank then seen else pc_id p # seen) ps)"

definition provider_ids :: "RouterConfig \<Rightarrow> string set" where
  "provider_ids cfg = pc_id ` set (providers cfg)"

definition ref_head :: "string \<Rightarrow> string" where
  "ref_head r = split_head (CHR ''/'') r"

definition check_tier :: "RouterConfig \<Rightarrow> string \<times> TierConfig \<Rightarrow> ConfigError list" where
  "check_tier cfg nt = (case nt of (name, t) \<Rightarrow>
     (let path = ''tiers.'' @ name in
      (if ti_primary t = [] then err_if True (path @ ''.primary'') ''must not be empty''
       else err_if (ti_primary t \<notin> provider_ids cfg \<and> ref_head (ti_primary t) \<notin> provider_ids cfg)
         (path @ ''.primary'') (''unknown provider '' @ quoted (ti_primary t) @ '' (not in [[providers]])''))
      @ concat (map (\<lambda>fb. err_if (ref_head fb \<notin> provider_ids cfg) (path @ ''.fallbacks'')
           (''unknown fallback provider '' @ quoted fb)) (ti_fallbacks t))
      @ (case ti_downgrade_to t of None \<Rightarrow> []
         | Some down \<Rightarrow> err_if (map_of (tiers cfg) down = None) (path @ ''.downgrade_to'')
             (''unknown tier '' @ quoted down))
      @ err_if (ti_min_context_window t = Some 0) (path @ ''.min_context_window'') ''must be > 0 when set''))"

fun check_rules :: "RouterConfig \<Rightarrow> nat \<Rightarrow> DetectionRule list \<Rightarrow> ConfigError list" where
  "check_rules cfg idx [] = []"
| "check_rules cfg idx (r # rs) =
     err_if (map_of (tiers cfg) (dr_tier r) = None) (indexed ''detection.rules'' idx @ ''.tier'')
       (''unknown tier '' @ quoted (dr_tier r))
     @ check_rules cfg (Suc idx) rs"

definition check_retry :: "RetryConfig \<Rightarrow> ConfigError list" where
  "check_retry r =
     err_if (request_budget_ms r = 0) ''[retry].request_budget_ms'' ''must be > 0 (infinite-loop guard)''
     @ err_if (max_retry_after_ms r < fixed_retry_wait_ms r) ''[retry]''
         (''fixed_retry_wait_ms ('' @ show_nat (unat (fixed_retry_wait_ms r))
           @ '') > max_retry_after_ms ('' @ show_nat (unat (max_retry_after_ms r)) @ '')'')"

definition check_budgets :: "BudgetConfig \<Rightarrow> ConfigError list" where
  "check_budgets b =
     err_if (warn_fraction b \<le> 0 \<or> 1 < warn_fraction b) ''[budgets].warn_fraction'' ''must be in (0, 1]''
     @ err_if (daily_cost_usd b < 0) ''[budgets].daily_cost_usd'' ''must be >= 0 (0 = unlimited)''
     @ err_if (per_request_cost_usd b < 0) ''[budgets].per_request_cost_usd'' ''must be >= 0 (0 = unlimited)''"

fun check_specificity :: "RouterConfig \<Rightarrow> nat \<Rightarrow> SpecificityRule list \<Rightarrow> ConfigError list" where
  "check_specificity cfg idx [] = []"
| "check_specificity cfg idx (r # rs) =
     (let path = indexed ''specificity.rules'' idx in
      err_if (ref_head (sr_primary r) \<notin> provider_ids cfg) (path @ ''.primary'')
        (''unknown provider in '' @ quoted (sr_primary r))
      @ err_if (sr_threshold r = Some 0) (path @ ''.threshold'') ''must be > 0 when set''
      @ check_specificity cfg (Suc idx) rs)"

definition check_semantic :: "TomlEnv \<Rightarrow> RouterConfig \<Rightarrow> ConfigError list" where
  "check_semantic te cfg =
     check_server te (server cfg)
     @ check_providers te 0 [] (providers cfg)
     @ concat (map (check_tier cfg) (tiers cfg))
     @ check_rules cfg 0 (de_rules (detection cfg))
     @ check_retry (retry cfg)
     @ check_budgets (budgets cfg)
     @ err_if (ps_openrouter_url (pricing_sync cfg) \<noteq> [] \<and> \<not> te_url te (ps_openrouter_url (pricing_sync cfg)))
         ''[pricing_sync].openrouter_url''
         (quoted (ps_openrouter_url (pricing_sync cfg)) @ '' is not a valid URL'')
     @ err_if (dv_min_input_price_per_1m (discovery cfg) < 0) ''[discovery].min_input_price_per_1m''
         ''must be >= 0''
     @ check_specificity cfg 0 (sp_rules (specificity cfg))"

subsection \<open>Unknown fields\<close>

type_synonym SectionSchema = "string list"

datatype ValueSchema =
    Section SectionSchema
  | ArrayOfSections SectionSchema
  | MapOfSections SectionSchema

definition KNOWN_TOP_LEVEL :: "string list" where
  "KNOWN_TOP_LEVEL = [''server'', ''oauth_redirect_uri'', ''auth'', ''database'', ''providers'', ''tiers'',
     ''tier_keys'', ''detection'', ''retry'', ''streaming'', ''specificity'', ''budgets'', ''pricing_sync'',
     ''discovery'', ''log_retention_days'', ''ratelimit'']"

definition section_table :: "(string \<times> ValueSchema) list" where
  "section_table =
    [(''server'', Section [''bind'', ''log_level'', ''oauth_redirect_uri'']),
     (''auth'', Section [''enabled'', ''admin_key'', ''admin_password'', ''keys'']),
     (''database'', Section [''path'']),
     (''providers'', ArrayOfSections [''id'', ''type'', ''key'', ''base_url'', ''default_model'', ''path'']),
     (''tiers'', MapOfSections [''primary'', ''fallbacks'', ''allow_tier_downgrade'', ''downgrade_to'',
        ''min_context_window'', ''timeouts'']),
     (''tier_keys'', Section []),
     (''detection'', Section [''default_tier'', ''session_window_minutes'', ''session_lookback'', ''rules'']),
     (''retry'', Section [''max_same_provider_retries'', ''fixed_retry_wait_ms'', ''max_retry_after_ms'',
        ''request_budget_ms'']),
     (''streaming'', Section [''buffer_threshold_tokens'']),
     (''specificity'', Section [''enabled'', ''rules'']),
     (''budgets'', Section [''daily_cost_usd'', ''per_request_cost_usd'', ''warn_fraction'']),
     (''pricing_sync'', Section [''enabled'', ''interval_hours'', ''openrouter_url'']),
     (''discovery'', Section [''enabled'', ''auto_assign_tiers'', ''min_input_price_per_1m'']),
     (''ratelimit'', Section [''enabled'', ''global'', ''per_key''])]"

definition section_of :: "string \<Rightarrow> ValueSchema option" where
  "section_of name = map_of section_table name"

definition nested_table :: "((string \<times> string) \<times> ValueSchema) list" where
  "nested_table =
    [((''auth'', ''keys''), ArrayOfSections [''key'', ''name'']),
     ((''detection'', ''rules''), ArrayOfSections [''if'', ''tier'']),
     ((''specificity'', ''rules''), ArrayOfSections [''category'', ''primary'', ''threshold'']),
     ((''tiers'', ''fallbacks''), Section []),
     ((''tiers'', ''timeouts''), Section [''connect_ms'', ''read_ms'', ''per_attempt_ms'']),
     ((''ratelimit'', ''global''), Section [''refill_per_minute'', ''burst'']),
     ((''ratelimit'', ''per_key''), Section [''refill_per_minute'', ''burst''])]"

definition nested :: "string \<Rightarrow> string \<Rightarrow> ValueSchema option" where
  "nested parent key = map_of nested_table (parent, key)"

definition sub_path :: "string \<Rightarrow> string \<Rightarrow> string" where
  "sub_path pre key = pre @ ''.'' @ key"

lemma size_entry: "(k, v) \<in> set t \<Longrightarrow> size v < size (TTable t)"
  by (induction t) auto

lemma size_item: "v \<in> set xs \<Longrightarrow> size v < size (TArray xs)"
  by (induction xs) auto

function walk_value :: "string \<Rightarrow> toml \<Rightarrow> ValueSchema \<Rightarrow> ConfigWarning list"
  and walk_section :: "string \<Rightarrow> toml \<Rightarrow> SectionSchema \<Rightarrow> ConfigWarning list" where
  "walk_value pre v schema = (case schema of
      Section s \<Rightarrow> walk_section pre v s
    | ArrayOfSections s \<Rightarrow> (case v of
          TArray xs \<Rightarrow> concat (map (\<lambda>(idx, item). walk_section (indexed pre idx) item s)
            (List.enumerate 0 xs))
        | _ \<Rightarrow> [])
    | MapOfSections s \<Rightarrow> (case v of
          TTable t \<Rightarrow> concat (map (\<lambda>(k, w). walk_section (sub_path pre k) w s) t)
        | _ \<Rightarrow> []))"
| "walk_section pre v known = (case v of
      TTable t \<Rightarrow> concat (map (\<lambda>(k, w).
          if k \<notin> set known then [\<lparr>wa_path = sub_path pre k, wa_reason = ''unknown field''\<rparr>]
          else (case nested pre k of
              None \<Rightarrow> []
            | Some schema \<Rightarrow> walk_value (sub_path pre k) w schema)) t)
    | _ \<Rightarrow> [])"
  by pat_completeness auto
termination
proof (relation "measure (\<lambda>x. case x of Inl (_, v, _) \<Rightarrow> 2 * size v + 1 | Inr (_, v, _) \<Rightarrow> 2 * size v)",
    goal_cases)
  case (3 pre v schema s xs idxi idx item)
  then have "item \<in> set xs" by (cases idxi) (auto simp: in_set_enumerate_eq)
  then show ?case using 3 size_item[of item xs] by simp
next
  case (4 pre v schema s t kw k w)
  then show ?case using size_entry[of k w t] by simp
next
  case (5 pre v known t kw k w schema)
  then show ?case using size_entry[of k w t] by simp
qed simp_all

definition collect_unknown_fields :: "table \<Rightarrow> ConfigWarning list" where
  "collect_unknown_fields tree = concat (map (\<lambda>(key, v).
     if key \<notin> set KNOWN_TOP_LEVEL then [\<lparr>wa_path = key, wa_reason = ''unknown top-level field''\<rparr>]
     else (case section_of key of None \<Rightarrow> [] | Some schema \<Rightarrow> walk_value key v schema)) tree)"

subsection \<open>Deprecations and the whole validator\<close>

definition DEPRECATIONS :: "(string \<times> string) list" where
  "DEPRECATIONS = [(''oauth_redirect_uri'',
     ''top-level oauth_redirect_uri is deprecated; move under [server]'')]"

definition collect_deprecations :: "string + table \<Rightarrow> ConfigWarning list" where
  "collect_deprecations parsed = (case parsed of
      Inl _ \<Rightarrow> []
    | Inr tree \<Rightarrow> List.map_filter (\<lambda>(path, hint).
        if map_of tree (split_head (CHR ''.'') path) \<noteq> None
        then Some \<lparr>wa_path = path, wa_reason = hint\<rparr> else None) DEPRECATIONS)"

text \<open>\<open>toml::from_str\<close>: parse, then the derived deserialiser.\<close>

definition config_from_str :: "TomlEnv \<Rightarrow> string \<Rightarrow> RouterConfig option" where
  "config_from_str te raw = (case te_parse te raw of Inl _ \<Rightarrow> None | Inr t \<Rightarrow> de_config (TTable t))"

definition validate :: "TomlEnv \<Rightarrow> string \<Rightarrow> ValidationOutcome" where
  "validate te raw =
     (let syntax = (case te_parse te raw of
          Inl e \<Rightarrow> [\<lparr>er_path = ''<root>'', er_reason = ''TOML syntax: '' @ e\<rparr>] | Inr _ \<Rightarrow> []) in
      case config_from_str te raw of
        None \<Rightarrow> \<lparr>vo_errors = syntax @ [\<lparr>er_path = ''<root>'', er_reason = te_de_error te raw\<rparr>],
                   vo_warnings = []\<rparr>
      | Some cfg \<Rightarrow> \<lparr>vo_errors = syntax @ check_semantic te cfg,
          vo_warnings = (case te_parse te raw of Inl _ \<Rightarrow> [] | Inr t \<Rightarrow> collect_unknown_fields t)
             @ collect_deprecations (te_parse te raw)\<rparr>)"

declare walk_value.simps [simp del] walk_section.simps [simp del]

subsection \<open>What the validator accepts\<close>

text \<open>The abstract contract: what an accepted configuration satisfies, without paths or messages.\<close>

fun opt_all :: "('a \<Rightarrow> bool) \<Rightarrow> 'a option \<Rightarrow> bool" where
  "opt_all P None = True"
| "opt_all P (Some x) = P x"

definition valid_provider :: "TomlEnv \<Rightarrow> ProviderConfig \<Rightarrow> bool" where
  "valid_provider te p \<longleftrightarrow> trim (pc_id p) \<noteq> []
     \<and> opt_all (looks_like_encrypted_blob te) (Option.bind (pc_key p) (strip_prefix ''enc:''))
     \<and> opt_all (\<lambda>b. b = [] \<or> te_url te b) (pc_base_url p)"

definition valid_tier :: "RouterConfig \<Rightarrow> TierConfig \<Rightarrow> bool" where
  "valid_tier cfg t \<longleftrightarrow> ti_primary t \<noteq> []
     \<and> (ti_primary t \<in> provider_ids cfg \<or> ref_head (ti_primary t) \<in> provider_ids cfg)
     \<and> (\<forall>fb \<in> set (ti_fallbacks t). ref_head fb \<in> provider_ids cfg)
     \<and> opt_all (\<lambda>down. map_of (tiers cfg) down \<noteq> None) (ti_downgrade_to t)
     \<and> ti_min_context_window t \<noteq> Some 0"

definition valid_config :: "TomlEnv \<Rightarrow> RouterConfig \<Rightarrow> bool" where
  "valid_config te cfg \<longleftrightarrow>
     (let sv = server cfg; b = budgets cfg in
      trim (sv_bind sv) \<noteq> [] \<and> te_socket te (sv_bind sv) \<and> is_valid_log_level (sv_log_level sv)
      \<and> (sv_oauth_redirect_uri sv = [] \<or> te_url te (sv_oauth_redirect_uri sv))
      \<and> distinct (map pc_id (providers cfg)) \<and> (\<forall>p \<in> set (providers cfg). valid_provider te p)
      \<and> (\<forall>(name, t) \<in> set (tiers cfg). valid_tier cfg t)
      \<and> (\<forall>r \<in> set (de_rules (detection cfg)). map_of (tiers cfg) (dr_tier r) \<noteq> None)
      \<and> 0 < request_budget_ms (retry cfg)
      \<and> fixed_retry_wait_ms (retry cfg) \<le> max_retry_after_ms (retry cfg)
      \<and> 0 < warn_fraction b \<and> warn_fraction b \<le> 1
      \<and> 0 \<le> daily_cost_usd b \<and> 0 \<le> per_request_cost_usd b
      \<and> (ps_openrouter_url (pricing_sync cfg) = [] \<or> te_url te (ps_openrouter_url (pricing_sync cfg)))
      \<and> 0 \<le> dv_min_input_price_per_1m (discovery cfg)
      \<and> (\<forall>r \<in> set (sp_rules (specificity cfg)). ref_head (sr_primary r) \<in> provider_ids cfg
           \<and> sr_threshold r \<noteq> Some 0))"

lemma check_server_Nil: "check_server te sv = [] \<longleftrightarrow>
    trim (sv_bind sv) \<noteq> [] \<and> te_socket te (sv_bind sv) \<and> is_valid_log_level (sv_log_level sv)
    \<and> (sv_oauth_redirect_uri sv = [] \<or> te_url te (sv_oauth_redirect_uri sv))"
  by (auto simp: check_server_def)

lemma check_key_Nil: "check_key_literal te path key = [] \<longleftrightarrow>
    opt_all (looks_like_encrypted_blob te) (Option.bind key (strip_prefix ''enc:''))"
  by (auto simp: check_key_literal_def split: option.split)

lemma check_url_Nil: "check_provider_url te path url = [] \<longleftrightarrow> opt_all (\<lambda>b. b = [] \<or> te_url te b) url"
  by (auto simp: check_provider_url_def split: option.split)

lemma check_providers_Nil: "check_providers te idx seen ps = [] \<longleftrightarrow>
    distinct (map pc_id ps) \<and> set (map pc_id ps) \<inter> set seen = {} \<and> (\<forall>p \<in> set ps. valid_provider te p)"
proof (induction ps arbitrary: idx seen)
  case (Cons p ps)
  show ?case
    by (cases "trim (pc_id p) = []")
      (auto simp: Let_def Cons.IH check_key_Nil check_url_Nil valid_provider_def)
qed simp

lemma check_tier_Nil: "check_tier cfg (name, t) = [] \<longleftrightarrow> valid_tier cfg t"
  by (auto simp: check_tier_def valid_tier_def Let_def split: option.split)

lemma check_rules_Nil: "check_rules cfg idx rs = [] \<longleftrightarrow> (\<forall>r \<in> set rs. map_of (tiers cfg) (dr_tier r) \<noteq> None)"
  by (induction rs arbitrary: idx) auto

lemma check_specificity_Nil: "check_specificity cfg idx rs = [] \<longleftrightarrow>
    (\<forall>r \<in> set rs. ref_head (sr_primary r) \<in> provider_ids cfg \<and> sr_threshold r \<noteq> Some 0)"
  by (induction rs arbitrary: idx) (auto simp: Let_def)

lemma check_retry_Nil: "check_retry r = [] \<longleftrightarrow>
    0 < request_budget_ms r \<and> fixed_retry_wait_ms r \<le> max_retry_after_ms r"
  by (auto simp: check_retry_def word_neq_0_conv not_less)

lemma check_budgets_Nil: "check_budgets b = [] \<longleftrightarrow> 0 < warn_fraction b \<and> warn_fraction b \<le> 1
    \<and> 0 \<le> daily_cost_usd b \<and> 0 \<le> per_request_cost_usd b"
  by (auto simp: check_budgets_def not_less not_le)

lemma check_semantic_Nil: "check_semantic te cfg = [] \<longleftrightarrow> valid_config te cfg"
proof -
  have tiers: "concat (map (check_tier cfg) (tiers cfg)) = [] \<longleftrightarrow> (\<forall>(name, t) \<in> set (tiers cfg). valid_tier cfg t)"
    by (auto simp: check_tier_Nil)
  show ?thesis
    unfolding check_semantic_def append_is_Nil_conv tiers check_server_Nil check_providers_Nil check_rules_Nil
      check_retry_Nil check_budgets_Nil check_specificity_Nil err_if_Nil valid_config_def Let_def
    by auto
qed

lemma accepted_iff:
  "\<not> has_errors (validate te raw) \<longleftrightarrow> (\<exists>cfg. config_from_str te raw = Some cfg \<and> valid_config te cfg)"
  by (auto simp: has_errors_def validate_def config_from_str_def check_semantic_Nil Let_def
      split: sum.splits option.splits)

subsection \<open>Walking for unknown fields\<close>

definition walk_entry :: "string \<Rightarrow> SectionSchema \<Rightarrow> string \<times> toml \<Rightarrow> ConfigWarning list" where
  "walk_entry pre known kv = (case kv of (k, w) \<Rightarrow>
     if k \<notin> set known then [\<lparr>wa_path = sub_path pre k, wa_reason = ''unknown field''\<rparr>]
     else (case nested pre k of None \<Rightarrow> [] | Some schema \<Rightarrow> walk_value (sub_path pre k) w schema))"

lemma walk_table: "walk_section pre (TTable t) known = concat (map (walk_entry pre known) t)"
  by (simp add: walk_section.simps walk_entry_def[abs_def] split_def)

lemma nested_in_tier: "nested (sub_path ''tiers'' name) k = None"
  by (simp add: nested_def nested_table_def sub_path_def)

lemma walk_known_leaf: "k \<in> set known \<Longrightarrow> nested pre k = None \<Longrightarrow> walk_entry pre known (k, w) = []"
  by (simp add: walk_entry_def)

lemma walk_opt_leaf [simp]:
  "k \<in> set known \<Longrightarrow> nested pre k = None \<Longrightarrow> concat (map (walk_entry pre known) (en_opt k e x)) = []"
  by (cases x) (simp_all add: en_opt_def walk_known_leaf)

lemma walk_in_tier: "walk_entry (sub_path ''tiers'' name) known (k, w)
    = (if k \<in> set known then [] else [\<lparr>wa_path = sub_path (sub_path ''tiers'' name) k, wa_reason = ''unknown field''\<rparr>])"
  by (simp add: walk_entry_def nested_in_tier)

lemma nested_Some: "nested p k = Some v \<Longrightarrow> p \<in> {''auth'', ''detection'', ''specificity'', ''tiers'', ''ratelimit''}"
  by (auto simp: nested_def nested_table_def split: if_splits)

lemma nested_indexed: "nested (indexed pre i) k = None"
proof (cases "nested (indexed pre i) k")
  case (Some v)
  have "last (indexed pre i) = CHR '']''" by (simp add: indexed_def)
  then have "indexed pre i \<notin> {''auth'', ''detection'', ''specificity'', ''tiers'', ''ratelimit''}" by auto
  with nested_Some[OF Some] show ?thesis by blast
qed

lemma walk_items:
  "(\<And>i x. walk_section (indexed pre i) (e x) s = []) \<Longrightarrow> walk_value pre (en_vec e xs) (ArrayOfSections s) = []"
  by (auto simp: walk_value.simps en_vec_def in_set_enumerate_eq)

lemmas walk_leaf = walk_table walk_known_leaf nested_indexed

lemma walk_saved_items:
  "walk_section (indexed pre i) (en_auth_key ak) [''key'', ''name''] = []"
  "walk_section (indexed pre i) (en_provider p)
     [''id'', ''type'', ''key'', ''base_url'', ''default_model'', ''path''] = []"
  "walk_section (indexed pre i) (en_detection_rule dr) [''if'', ''tier''] = []"
  "walk_section (indexed pre i) (en_specificity_rule sr) [''category'', ''primary'', ''threshold''] = []"
  by (simp_all add: walk_leaf en_auth_key_def en_provider_def en_detection_rule_def en_specificity_rule_def)

lemma walk_saved_tier:
  "walk_section (sub_path ''tiers'' name) (en_tier t)
     [''primary'', ''fallbacks'', ''allow_tier_downgrade'', ''downgrade_to'', ''min_context_window'', ''timeouts''] = []"
  by (simp add: walk_leaf nested_in_tier en_tier_def)

lemma nested_eval:
  assumes "p \<notin> {''auth'', ''detection'', ''specificity'', ''tiers'', ''ratelimit''}"
  shows "nested p k = None"
proof (cases "nested p k")
  case (Some v)
  from assms nested_Some[OF Some] show ?thesis by (rule notE)
qed

lemma walk_Section: "walk_value pre v (Section s) = walk_section pre v s"
  by (simp add: walk_value.simps)

lemma walk_all_known:
  "(\<And>k. nested pre k = None) \<Longrightarrow> list_all (\<lambda>(k, w). k \<in> set known) t
   \<Longrightarrow> walk_value pre (TTable t) (Section known) = []"
  by (auto simp: walk_Section walk_table walk_known_leaf list_all_iff)

lemma walk_flat:
  assumes "pre \<notin> {''auth'', ''detection'', ''specificity'', ''tiers'', ''ratelimit''}"
    and "list_all (\<lambda>(k, w). k \<in> set known) t"
  shows "walk_value pre (TTable t) (Section known) = []"
  by (rule walk_all_known[OF nested_eval[OF assms(1)] assms(2)])

lemma walk_saved_sections:
  "walk_value ''server'' (en_server sv) (Section [''bind'', ''log_level'', ''oauth_redirect_uri'']) = []"
  "walk_value ''database'' (en_database d) (Section [''path'']) = []"
  "walk_value ''retry'' (en_retry r) (Section [''max_same_provider_retries'', ''fixed_retry_wait_ms'',
     ''max_retry_after_ms'', ''request_budget_ms'']) = []"
  "walk_value ''streaming'' (en_streaming st) (Section [''buffer_threshold_tokens'']) = []"
  "walk_value ''budgets'' (en_budgets b) (Section [''daily_cost_usd'', ''per_request_cost_usd'', ''warn_fraction'']) = []"
  "walk_value ''pricing_sync'' (en_pricing_sync ps) (Section [''enabled'', ''interval_hours'', ''openrouter_url'']) = []"
  "walk_value ''discovery'' (en_discovery dv)
     (Section [''enabled'', ''auto_assign_tiers'', ''min_input_price_per_1m'']) = []"
  unfolding en_server_def en_database_def en_retry_def en_streaming_def en_budgets_def en_pricing_sync_def
    en_discovery_def
  by (rule walk_flat; simp)+

lemma nested_values:
  "nested ''auth'' ''keys'' = Some (ArrayOfSections [''key'', ''name''])"
  "nested ''detection'' ''rules'' = Some (ArrayOfSections [''if'', ''tier''])"
  "nested ''specificity'' ''rules'' = Some (ArrayOfSections [''category'', ''primary'', ''threshold''])"
  "nested ''ratelimit'' ''global'' = Some (Section [''refill_per_minute'', ''burst''])"
  "nested ''ratelimit'' ''per_key'' = Some (Section [''refill_per_minute'', ''burst''])"
  "nested ''auth'' ''enabled'' = None" "nested ''auth'' ''admin_key'' = None"
  "nested ''detection'' ''default_tier'' = None" "nested ''detection'' ''session_window_minutes'' = None"
  "nested ''detection'' ''session_lookback'' = None" "nested ''specificity'' ''enabled'' = None"
  "nested ''ratelimit'' ''enabled'' = None"
  by (simp_all add: nested_def nested_table_def)

lemma walk_known_nested:
  "k \<in> set known \<Longrightarrow> nested pre k = Some schema \<Longrightarrow> walk_entry pre known (k, w) = walk_value (sub_path pre k) w schema"
  by (simp add: walk_entry_def)

lemma walk_saved_bucket:
  "walk_section (sub_path ''ratelimit'' k) (en_bucket b) [''refill_per_minute'', ''burst''] = []"
  by (simp add: en_bucket_def walk_table walk_known_leaf nested_def nested_table_def sub_path_def)

lemmas walk_saved_simps = walk_Section walk_table walk_known_leaf walk_known_nested nested_values
  walk_items walk_saved_items walk_saved_bucket

lemma walk_saved_auth: "walk_value ''auth'' (en_auth a) (Section [''enabled'', ''admin_key'', ''admin_password'', ''keys'']) = []"
  by (simp add: en_auth_def walk_saved_simps)

lemma walk_saved_detection: "walk_value ''detection'' (en_detection d)
    (Section [''default_tier'', ''session_window_minutes'', ''session_lookback'', ''rules'']) = []"
  by (simp add: en_detection_def walk_saved_simps)

lemma walk_saved_specificity: "walk_value ''specificity'' (en_specificity sp) (Section [''enabled'', ''rules'']) = []"
  by (simp add: en_specificity_def walk_saved_simps)

lemma walk_saved_ratelimit: "walk_value ''ratelimit'' (en_ratelimit r) (Section [''enabled'', ''global'', ''per_key'']) = []"
  by (simp add: en_ratelimit_def walk_saved_simps)

lemma walk_saved_providers: "walk_value ''providers'' (en_vec en_provider ps)
    (ArrayOfSections [''id'', ''type'', ''key'', ''base_url'', ''default_model'', ''path'']) = []"
  by (rule walk_items) (rule walk_saved_items)

lemma walk_saved_tiers: "walk_value ''tiers'' (en_map en_tier ts) (MapOfSections [''primary'', ''fallbacks'',
    ''allow_tier_downgrade'', ''downgrade_to'', ''min_context_window'', ''timeouts'']) = []"
  by (auto simp: walk_value.simps en_map_def walk_saved_tier)

definition tier_key_warning :: "string \<times> 'a \<Rightarrow> ConfigWarning" where
  "tier_key_warning kv = \<lparr>wa_path = sub_path ''tier_keys'' (fst kv), wa_reason = ''unknown field''\<rparr>"

lemma walk_tier_keys: "walk_value ''tier_keys'' (TTable t) (Section []) = map tier_key_warning t"
proof -
  have "walk_entry ''tier_keys'' [] kv = [tier_key_warning kv]" for kv
    by (cases kv) (simp add: walk_entry_def tier_key_warning_def)
  then show ?thesis by (induction t) (simp_all add: walk_Section walk_table)
qed

lemma section_values:
  "section_of ''server'' = Some (Section [''bind'', ''log_level'', ''oauth_redirect_uri''])"
  "section_of ''oauth_redirect_uri'' = None"
  "section_of ''auth'' = Some (Section [''enabled'', ''admin_key'', ''admin_password'', ''keys''])"
  "section_of ''database'' = Some (Section [''path''])"
  "section_of ''providers'' = Some (ArrayOfSections [''id'', ''type'', ''key'', ''base_url'', ''default_model'', ''path''])"
  "section_of ''tiers'' = Some (MapOfSections [''primary'', ''fallbacks'', ''allow_tier_downgrade'', ''downgrade_to'',
        ''min_context_window'', ''timeouts''])"
  "section_of ''tier_keys'' = Some (Section [])"
  "section_of ''detection'' = Some (Section [''default_tier'', ''session_window_minutes'', ''session_lookback'', ''rules''])"
  "section_of ''retry'' = Some (Section [''max_same_provider_retries'', ''fixed_retry_wait_ms'',
     ''max_retry_after_ms'', ''request_budget_ms''])"
  "section_of ''streaming'' = Some (Section [''buffer_threshold_tokens''])"
  "section_of ''specificity'' = Some (Section [''enabled'', ''rules''])"
  "section_of ''budgets'' = Some (Section [''daily_cost_usd'', ''per_request_cost_usd'', ''warn_fraction''])"
  "section_of ''pricing_sync'' = Some (Section [''enabled'', ''interval_hours'', ''openrouter_url''])"
  "section_of ''discovery'' = Some (Section [''enabled'', ''auto_assign_tiers'', ''min_input_price_per_1m''])"
  "section_of ''log_retention_days'' = None"
  "section_of ''ratelimit'' = Some (Section [''enabled'', ''global'', ''per_key''])"
  by (simp_all add: section_of_def section_table_def)

definition walk_top :: "string \<times> toml \<Rightarrow> ConfigWarning list" where
  "walk_top kv = (case kv of (key, v) \<Rightarrow>
     if key \<notin> set KNOWN_TOP_LEVEL then [\<lparr>wa_path = key, wa_reason = ''unknown top-level field''\<rparr>]
     else (case section_of key of None \<Rightarrow> [] | Some schema \<Rightarrow> walk_value key v schema))"

lemma collect_unknown_walk_top: "collect_unknown_fields t = concat (map walk_top t)"
  by (simp add: collect_unknown_fields_def walk_top_def[abs_def] split_def)

lemma walk_top_section:
  "key \<in> set KNOWN_TOP_LEVEL \<Longrightarrow> section_of key = Some schema \<Longrightarrow> walk_top (key, v) = walk_value key v schema"
  "key \<in> set KNOWN_TOP_LEVEL \<Longrightarrow> section_of key = None \<Longrightarrow> walk_top (key, v) = []"
  by (simp_all add: walk_top_def)

lemma collect_saved:
  assumes "en_config c = TTable t"
  shows "collect_unknown_fields t = map tier_key_warning (tier_keys c)"
proof -
  have keys: "walk_value ''tier_keys'' (en_map TString (tier_keys c)) (Section []) = map tier_key_warning (tier_keys c)"
    by (simp add: en_map_def walk_tier_keys tier_key_warning_def split_def)
  have redirect: "concat (map walk_top (en_opt ''oauth_redirect_uri'' TString x)) = []" for x
    by (cases x) (simp_all add: en_opt_def walk_top_section KNOWN_TOP_LEVEL_def section_values)
  from assms show ?thesis
    by (auto simp: en_config_def collect_unknown_walk_top walk_top_section KNOWN_TOP_LEVEL_def section_values
        redirect keys walk_saved_sections walk_saved_auth walk_saved_detection walk_saved_specificity
        walk_saved_ratelimit walk_saved_providers walk_saved_tiers)
qed

subsection \<open>Properties\<close>


text \<open>C24. What the serialiser writes is read back without loss, and the walker reports nothing about it
  except every entry of \<open>tier_keys\<close>, which is documented and still reported as unknown.\<close>

theorem saved_config_reads_back:
  "\<exists>t. en_config c = TTable t \<and> de_config (TTable t) = Some c
     \<and> collect_unknown_fields t = map tier_key_warning (tier_keys c)"
proof -
  obtain t where t: "en_config c = TTable t" by (simp add: en_config_def)
  with collect_saved[OF t] de_en_config[of c] show ?thesis by auto
qed

text \<open>Below a tier nothing is walked: two documents that differ only in the \<open>timeouts\<close> table of a
  tier get the same report, whatever misspelt keys that table has. The schema for it exists
  (\<open>nested_table\<close>) but is looked up under the path \<open>tiers.NAME\<close>.\<close>

theorem tier_timeouts_unchecked:
  "collect_unknown_fields (a @ (''tiers'', TTable (b @ (name, TTable (c @ (''timeouts'', w) # d)) # e)) # f)
   = collect_unknown_fields (a @ (''tiers'', TTable (b @ (name, TTable (c @ (''timeouts'', w') # d)) # e)) # f)"
proof -
  have "walk_section (sub_path ''tiers'' name) (TTable (c @ (''timeouts'', w) # d)) s
      = walk_section (sub_path ''tiers'' name) (TTable (c @ (''timeouts'', w') # d)) s" for s
    by (simp add: walk_table walk_in_tier)
  then show ?thesis
    by (simp add: collect_unknown_walk_top walk_top_section KNOWN_TOP_LEVEL_def section_values walk_value.simps)
qed

lemma accepted_tier:
  assumes "\<not> has_errors (validate te raw)" "config_from_str te raw = Some cfg" "(name, t) \<in> set (tiers cfg)"
  shows "valid_config te cfg" "valid_tier cfg t"
  using assms by (auto simp: accepted_iff valid_config_def Let_def)

lemma registered_ids:
  assumes "from_configs cfgs = Inr r" "p \<in> pc_id ` set cfgs"
  shows "reg_get r p \<noteq> None"
proof -
  from from_configs_get[OF assms(1)] obtain as where
    as: "list_all2 (\<lambda>cfg a. build_adapter cfg = Inr a) cfgs as"
    and g: "reg_get r p = map_of (rev (zip (map pc_id cfgs) as)) p" by blast
  have "length cfgs = length as" using as by (rule list_all2_lengthD)
  then have "fst ` set (rev (zip (map pc_id cfgs) as)) = pc_id ` set cfgs"
    by (metis length_map map_fst_zip set_map set_rev)
  with assms(2) show ?thesis by (simp add: g map_of_eq_None_iff)
qed

text \<open>What an accepted tier primary means for routing, once the registry has been built from the
  same configuration: a primary of the form \<open>provider/model\<close> is routed to exactly that provider and
  model, and a primary that names only a provider, which the validator accepts, is never routed.\<close>

theorem accepted_primary_routes:
  assumes "\<not> has_errors (validate te raw)" and "config_from_str te raw = Some cfg"
    and "from_configs (providers cfg) = Inr r" and "(name, t) \<in> set (tiers cfg)"
  shows "(CHR ''/'' \<notin> set (ti_primary t) \<longrightarrow> route_explicit r (ti_primary t) = None)
    \<and> (\<forall>p m. ti_primary t = p @ CHR ''/'' # m \<longrightarrow> CHR ''/'' \<notin> set p \<longrightarrow> m \<noteq> [] \<longrightarrow>
          ti_primary t \<notin> provider_ids cfg \<longrightarrow>
          route_explicit r (ti_primary t) = Some \<lparr>sel_provider_id = p, sel_model_id = m\<rparr>)"
proof (intro conjI allI impI)
  assume "CHR ''/'' \<notin> set (ti_primary t)"
  then show "route_explicit r (ti_primary t) = None"
    by (simp add: route_explicit_def split_model_ref_def flip: split_once_None)
next
  fix p m assume pm: "ti_primary t = p @ CHR ''/'' # m" "CHR ''/'' \<notin> set p" "m \<noteq> []"
    "ti_primary t \<notin> provider_ids cfg"
  note valid = accepted_tier[OF assms(1,2,4)]
  have head: "p \<in> provider_ids cfg"
    using valid(2) pm by (simp add: valid_tier_def ref_head_def)
  then obtain pc where pc: "pc \<in> set (providers cfg)" "p = pc_id pc" by (auto simp: provider_ids_def)
  then have "trim p \<noteq> []" using valid(1) by (auto simp: valid_config_def valid_provider_def Let_def)
  then have "p \<noteq> []" by (auto simp: trim_def)
  with pm have "split_model_ref (ti_primary t) = Some (p, m)" by (simp add: split_model_ref_Some)
  moreover have "reg_get r p \<noteq> None" using registered_ids[OF assms(3)] head by (simp add: provider_ids_def)
  ultimately show "route_explicit r (ti_primary t) = Some \<lparr>sel_provider_id = p, sel_model_id = m\<rparr>"
    by (simp add: route_explicit_Some)
qed

subsection \<open>Examples\<close>

text \<open>A toy document store: the text is a name, and two names have a document.\<close>

definition demo_config :: RouterConfig where
  "demo_config = config_default
     \<lparr>providers := [\<lparr>pc_id = ''a'', pc_type = Openai, pc_key = None, pc_base_url = None,
        pc_default_model = None, pc_path = None\<rparr>],
      tiers := [(''simple'', \<lparr>ti_primary = ''a/m1'', ti_fallbacks = [], ti_allow_tier_downgrade = False,
        ti_downgrade_to = None, ti_min_context_window = None, ti_timeouts = timeouts_set_default\<rparr>)]\<rparr>"

definition demo_toml :: TomlEnv where
  "demo_toml = \<lparr>te_parse = (\<lambda>raw. if raw = ''doc'' then Inr (the (toml_table (en_config demo_config))) else Inl ''bad''),
     te_pretty = (\<lambda>_. ''doc''), te_de_error = (\<lambda>_. ''invalid''), te_url = (\<lambda>_. True), te_socket = (\<lambda>_. True),
     te_base64 = (\<lambda>_. True)\<rparr>"

lemma en_config_table: "TTable (the (toml_table (en_config c))) = en_config c"
  by (simp add: en_config_def)

lemma demo_accepted: "config_from_str demo_toml ''doc'' = Some demo_config"
  by (simp add: config_from_str_def demo_toml_def en_config_table)

lemma demo_valid: "valid_config demo_toml demo_config"
  by code_simp

theorem accepted_primary_routes_witness:
  "\<exists>r. from_configs (providers demo_config) = Inr r
     \<and> route_explicit r ''a/m1'' = Some \<lparr>sel_provider_id = ''a'', sel_model_id = ''m1''\<rparr>"
proof -
  obtain r where r: "from_configs (providers demo_config) = Inr r"
    by (simp add: demo_config_def from_configs_def build_adapter_def Let_def)
  have 1: "\<not> has_errors (validate demo_toml ''doc'')" using accepted_iff demo_accepted demo_valid by blast
  have 2: "(''simple'', snd (hd (tiers demo_config))) \<in> set (tiers demo_config)" by (simp add: demo_config_def)
  have 3: "ti_primary (snd (hd (tiers demo_config))) = ''a'' @ CHR ''/'' # ''m1''" by (simp add: demo_config_def)
  have 4: "ti_primary (snd (hd (tiers demo_config))) \<notin> provider_ids demo_config" by code_simp
  have "route_explicit r (ti_primary (snd (hd (tiers demo_config)))) = Some \<lparr>sel_provider_id = ''a'', sel_model_id = ''m1''\<rparr>"
    using accepted_primary_routes [OF 1 demo_accepted r 2, THEN conjunct2, rule_format, OF 3 _ _ 4] by simp
  with r 3 show ?thesis by simp
qed

end
