(* ===== verification/ConfigService.thy ===== *)
theory ConfigService
  imports Validate Keystore AuthMw
begin

section \<open>The configuration service\<close>

text \<open>
  \<open>src/config/service.rs\<close>: loading with first-run file and migration of old files, hot reload,
  updates that are written back. The disk is the configuration file and the backup of the
  migration; \<open>se_writable\<close> says whether a write succeeds, \<open>se_master\<close> is
  \<open>MasterKey::from_env_strict().ok()\<close>, \<open>se_nonce i\<close> the random nonce of the i-th encryption of a
  migration. Creating the directory and log lines are left out. \<open>Panics\<close> is a failing seal.
\<close>

record ServiceEnv =
  se_toml :: TomlEnv
  se_path :: string
  se_writable :: bool
  se_master :: "MasterKey option"
  se_crypto :: Crypto
  se_nonce :: "nat \<Rightarrow> bytes"

record Disk =
  dk_config :: "string option"
  dk_backup :: "string option"

datatype 'a outcome = Done 'a | Failed string | Panics

definition newline :: string where "newline = [CHR 0x0A]"

definition minimal_text :: string where
  "minimal_text = join newline
     [''# token-dealer first-run config.'',
      ''# Add providers via /ui/providers or by editing this file.'',
      ''# See README.md for the full schema and an upgraded example.'',
      ''[server]'',
      ''bind = '' @ quoted ''0.0.0.0:8080'',
      ''log_level = '' @ quoted ''info'',
      '''',
      ''[auth]'',
      ''enabled = true'',
      '''',
      ''[[auth.keys]]'',
      ''# name = '' @ quoted ''example'',
      ''# key = '' @ quoted ''sk-...'',
      '''']"

text \<open>The document that text denotes: the two lines of the key are comments.\<close>

definition minimal_table :: table where
  "minimal_table =
     [(''server'', TTable [(''bind'', TString ''0.0.0.0:8080''), (''log_level'', TString ''info'')]),
      (''auth'', TTable [(''enabled'', TBoolean True), (''keys'', TArray [TTable []])])]"

definition write_config :: "ServiceEnv \<Rightarrow> string \<Rightarrow> Disk \<Rightarrow> unit outcome \<times> Disk" where
  "write_config env txt dk =
     (if se_writable env then (Done (), dk\<lparr>dk_config := Some txt\<rparr>) else (Failed ''write failed'', dk))"

definition write_minimal_config :: "ServiceEnv \<Rightarrow> Disk \<Rightarrow> unit outcome \<times> Disk" where
  "write_minimal_config env dk = write_config env minimal_text dk"

subsection \<open>Migration\<close>

definition plain_key :: "toml \<Rightarrow> string option" where
  "plain_key entry = (case Option.bind (toml_get ''key'' entry) toml_str of
      None \<Rightarrow> None | Some k \<Rightarrow> if starts_with k ''enc:'' then None else Some k)"

definition auth_keys :: "table \<Rightarrow> toml list option" where
  "auth_keys tree = Option.bind (Option.bind (map_of tree ''auth'') (toml_get ''keys'')) toml_array"

definition has_plaintext_key :: "table \<Rightarrow> bool" where
  "has_plaintext_key tree = list_ex (\<lambda>e. plain_key e \<noteq> None) (unwrap_or [] (auth_keys tree))"

definition has_ratelimit :: "table \<Rightarrow> bool" where
  "has_ratelimit tree \<longleftrightarrow> Option.bind (map_of tree ''ratelimit'') toml_table \<noteq> None"

definition ratelimit_table :: toml where
  "ratelimit_table = (let bucket = (\<lambda>rpm b. TTable [(''refill_per_minute'', TInteger rpm), (''burst'', TInteger b)]) in
     TTable [(''enabled'', TBoolean True), (''global'', bucket 600 1200), (''per_key'', bucket 60 120)])"

definition encrypt_entry :: "ServiceEnv \<Rightarrow> MasterKey \<Rightarrow> nat \<Rightarrow> toml \<Rightarrow> string + toml" where
  "encrypt_entry env mk n entry = (case entry of
      TTable t \<Rightarrow> (case plain_key entry of
          None \<Rightarrow> Inr entry
        | Some k \<Rightarrow> and_then (encrypt (se_crypto env) mk (se_nonce env n) k TOML_AUTH_KEY)
            (\<lambda>enc. Inr (TTable (table_insert ''key'' (TString enc) t))))
    | _ \<Rightarrow> Inr entry)"

fun encrypt_entries :: "ServiceEnv \<Rightarrow> MasterKey \<Rightarrow> nat \<Rightarrow> toml list \<Rightarrow> string + toml list" where
  "encrypt_entries env mk n [] = Inr []"
| "encrypt_entries env mk n (e # es) =
     and_then (encrypt_entry env mk n e) (\<lambda>e'.
     and_then (encrypt_entries env mk (Suc n) es) (\<lambda>es'. Inr (e' # es')))"

definition encrypt_tree :: "ServiceEnv \<Rightarrow> MasterKey \<Rightarrow> table \<Rightarrow> string + table" where
  "encrypt_tree env mk tree = (case Option.bind (map_of tree ''auth'') toml_table of
      None \<Rightarrow> Inr tree
    | Some auth_table \<Rightarrow> (case Option.bind (map_of auth_table ''keys'') toml_array of
          None \<Rightarrow> Inr tree
        | Some es \<Rightarrow> and_then (encrypt_entries env mk 0 es) (\<lambda>es'.
            Inr (table_insert ''auth'' (TTable (table_insert ''keys'' (TArray es') auth_table)) tree))))"

definition migrated_tree :: "ServiceEnv \<Rightarrow> table \<Rightarrow> string + table" where
  "migrated_tree env tree =
     (let tree1 = (if has_ratelimit tree then tree else table_insert ''ratelimit'' ratelimit_table tree) in
      case se_master env of
        Some mk \<Rightarrow> if has_plaintext_key tree then encrypt_tree env mk tree1 else Inr tree1
      | None \<Rightarrow> Inr tree1)"

definition migrate_v0_1_if_needed :: "ServiceEnv \<Rightarrow> string \<Rightarrow> Disk \<Rightarrow> unit outcome \<times> Disk" where
  "migrate_v0_1_if_needed env txt dk = (case te_parse (se_toml env) txt of
      Inl e \<Rightarrow> (Failed e, dk)
    | Inr tree \<Rightarrow>
       (if has_ratelimit tree \<and> \<not> has_plaintext_key tree then (Done (), dk)
        else if dk_backup dk = None \<and> \<not> se_writable env then (Failed ''copy failed'', dk)
        else (let dk1 = (if dk_backup dk = None then dk\<lparr>dk_backup := Some txt\<rparr> else dk) in
              case migrated_tree env tree of
                Inl e \<Rightarrow> (Panics, dk1)
              | Inr tree' \<Rightarrow> write_config env (te_pretty (se_toml env) (TTable tree')) dk1)))"

subsection \<open>Load, reload, update\<close>

definition failed_validation :: "ServiceEnv \<Rightarrow> nat \<Rightarrow> string \<Rightarrow> string" where
  "failed_validation env n rest = ''config at '' @ se_path env @ '' failed validation: '' @ show_nat n @ rest"

text \<open>Validation and typed parse of a text, as \<open>load\<close> and \<open>reload\<close> both do them.\<close>

definition parse_config :: "ServiceEnv \<Rightarrow> string \<Rightarrow> string \<Rightarrow> RouterConfig outcome" where
  "parse_config env rest txt = (let out = validate (se_toml env) txt in
     if has_errors out then Failed (failed_validation env (length (vo_errors out)) rest)
     else (case config_from_str (se_toml env) txt of
        None \<Rightarrow> Failed (te_de_error (se_toml env) txt) | Some cfg \<Rightarrow> Done cfg))"

definition load_rest :: string where
  "load_rest = '' error(s); run `token-dealer check` for details''"

definition reload_rest :: string where
  "reload_rest = '' error(s); reload aborted''"

definition load :: "ServiceEnv \<Rightarrow> Disk \<Rightarrow> RouterConfig outcome \<times> Disk" where
  "load env dk = (case dk_config dk of
      None \<Rightarrow> (case write_minimal_config env dk of
          (Done _, dk') \<Rightarrow> (Done config_default, dk')
        | (Failed e, dk') \<Rightarrow> (Failed e, dk') | (Panics, dk') \<Rightarrow> (Panics, dk'))
    | Some txt \<Rightarrow> (case migrate_v0_1_if_needed env txt dk of
          (Panics, dk') \<Rightarrow> (Panics, dk')
        | (_, dk') \<Rightarrow> (parse_config env load_rest (unwrap_or txt (dk_config dk')), dk')))"

definition reload :: "ServiceEnv \<Rightarrow> RouterConfig \<Rightarrow> Disk \<Rightarrow> unit outcome \<times> RouterConfig" where
  "reload env cfg dk = (case dk_config dk of
      None \<Rightarrow> (Failed ''read failed'', cfg)
    | Some txt \<Rightarrow> (case parse_config env reload_rest txt of
          Done new \<Rightarrow> (Done (), new) | Failed e \<Rightarrow> (Failed e, cfg) | Panics \<Rightarrow> (Panics, cfg)))"

definition save_to_disk :: "ServiceEnv \<Rightarrow> RouterConfig \<Rightarrow> Disk \<Rightarrow> unit outcome \<times> Disk" where
  "save_to_disk env cfg dk =
     (if \<not> in_i64 (en_config cfg) then (Failed ''out-of-range value for u64 type'', dk)
      else write_config env (te_pretty (se_toml env) (en_config cfg)) dk)"

definition update_with ::
  "ServiceEnv \<Rightarrow> (RouterConfig \<Rightarrow> RouterConfig) \<Rightarrow> RouterConfig \<Rightarrow> Disk
     \<Rightarrow> RouterConfig outcome \<times> RouterConfig \<times> Disk" where
  "update_with env f cfg dk = (let next = f cfg in
     case save_to_disk env next dk of
       (Done _, dk') \<Rightarrow> (Done next, next, dk')
     | (Failed e, dk') \<Rightarrow> (Failed e, next, dk')
     | (Panics, dk') \<Rightarrow> (Panics, next, dk'))"

subsection \<open>Parsing what was written\<close>

definition reads_back :: "ServiceEnv \<Rightarrow> table \<Rightarrow> bool" where
  "reads_back env t \<longleftrightarrow> te_parse (se_toml env) (te_pretty (se_toml env) (TTable t)) = Inr t"

lemma parse_config_Done:
  "parse_config env rest txt = Done cfg \<longleftrightarrow>
     config_from_str (se_toml env) txt = Some cfg \<and> valid_config (se_toml env) cfg"
  using accepted_iff[of "se_toml env" "txt"]
  by (auto simp: parse_config_def Let_def split: option.splits)

lemma parse_config_not_panics: "parse_config env rest txt \<noteq> Panics"
  by (auto simp: parse_config_def Let_def split: option.splits)

lemma parse_config_invalid:
  assumes "config_from_str (se_toml env) txt = Some cfg" "\<not> valid_config (se_toml env) cfg"
  shows "\<exists>msg. parse_config env rest txt = Failed msg"
proof (cases "parse_config env rest txt")
  case (Done c)
  with assms show ?thesis by (simp add: parse_config_Done)
qed (simp_all add: parse_config_not_panics)

lemma config_from_saved:
  assumes "en_config cfg = TTable t" "reads_back env t"
  shows "config_from_str (se_toml env) (te_pretty (se_toml env) (en_config cfg)) = Some cfg"
  using assms de_en_config[of cfg] by (simp add: config_from_str_def reads_back_def)

lemma write_config_ok: "se_writable env \<Longrightarrow> write_config env txt dk = (Done (), dk\<lparr>dk_config := Some txt\<rparr>)"
  by (simp add: write_config_def)

subsection \<open>The first run\<close>

definition migrated_minimal :: table where
  "migrated_minimal = minimal_table @ [(''ratelimit'', ratelimit_table)]"

lemma minimal_has: "\<not> has_ratelimit minimal_table" "\<not> has_plaintext_key minimal_table"
  by (simp_all add: minimal_table_def has_ratelimit_def has_plaintext_key_def auth_keys_def plain_key_def)

lemma migrate_minimal: "migrated_tree env minimal_table = Inr migrated_minimal"
  by (simp add: migrated_tree_def minimal_has migrated_minimal_def Let_def split: option.split)
    (simp add: minimal_table_def)

lemma de_minimal_None: "de_config (TTable migrated_minimal) = None"
proof (rule de_config_bad_auth)
  show "map_of migrated_minimal ''auth'' = Some (TTable [(''enabled'', TBoolean True), (''keys'', TArray [TTable []])])"
    by (simp add: migrated_minimal_def minimal_table_def)
  show "de_auth (TTable [(''enabled'', TBoolean True), (''keys'', TArray [TTable []])]) = None"
    by (rule de_auth_bad_key[of _ "[TTable []]" "TTable []"]) simp_all
qed

text \<open>C20. The first run writes a file that the second start refuses: the file ends with an empty
  \<open>[[auth.keys]]\<close> entry, whose \<open>key\<close> is required. Whatever the parser of TOML text, as long as it
  reads the file as the document it denotes and reads back what the migration wrote.\<close>

theorem first_run_breaks_next_start:
  assumes "dk_config dk = None" and "dk_backup dk = None" and "se_writable env"
    and "te_parse (se_toml env) minimal_text = Inr minimal_table" and "reads_back env migrated_minimal"
  shows "\<exists>dk1 dk2 msg. load env dk = (Done config_default, dk1) \<and> load env dk1 = (Failed msg, dk2)
    \<and> (\<exists>msg'. load env dk2 = (Failed msg', dk2))"
proof -
  let ?txt = "te_pretty (se_toml env) (TTable migrated_minimal)"
  let ?dk1 = "dk\<lparr>dk_config := Some minimal_text\<rparr>"
  let ?dk2 = "?dk1\<lparr>dk_backup := Some minimal_text, dk_config := Some ?txt\<rparr>"
  have first: "load env dk = (Done config_default, ?dk1)"
    using assms(1,3) by (simp add: load_def write_minimal_config_def write_config_ok)
  have mig: "migrate_v0_1_if_needed env minimal_text ?dk1 = (Done (), ?dk2)"
    using assms(2-4) by (simp add: migrate_v0_1_if_needed_def minimal_has migrate_minimal write_config_ok Let_def)
  have bad: "config_from_str (se_toml env) ?txt = None"
    using assms(5) by (simp add: config_from_str_def reads_back_def de_minimal_None)
  have failed: "\<exists>msg. parse_config env load_rest ?txt = Failed msg"
    using bad parse_config_Done[of env load_rest ?txt] parse_config_not_panics[of env load_rest ?txt]
    by (cases "parse_config env load_rest ?txt") auto
  have again: "migrate_v0_1_if_needed env ?txt ?dk2 = (Done (), ?dk2)"
  proof -
    have "has_ratelimit migrated_minimal" "\<not> has_plaintext_key migrated_minimal"
      by (simp_all add: migrated_minimal_def minimal_table_def has_ratelimit_def has_plaintext_key_def
          auth_keys_def plain_key_def ratelimit_table_def Let_def)
    then show ?thesis using assms(5) by (simp add: migrate_v0_1_if_needed_def reads_back_def)
  qed
  from failed first mig again show ?thesis by (auto simp: load_def)
qed

subsection \<open>Updates and reloads\<close>

lemma save_ok:
  "se_writable env \<Longrightarrow> in_i64 (en_config cfg) \<Longrightarrow>
   save_to_disk env cfg dk = (Done (), dk\<lparr>dk_config := Some (te_pretty (se_toml env) (en_config cfg))\<rparr>)"
  by (simp add: save_to_disk_def write_config_ok)

lemma update_saves:
  assumes "se_writable env" "in_i64 (en_config (f cfg))"
  shows "update_with env f cfg dk
     = (Done (f cfg), f cfg, dk\<lparr>dk_config := Some (te_pretty (se_toml env) (en_config (f cfg)))\<rparr>)"
  using assms by (simp add: update_with_def save_ok Let_def)

lemma reload_saved:
  assumes "en_config new = TTable t" "reads_back env t"
    and "dk_config dk = Some (te_pretty (se_toml env) (en_config new))"
  shows "if valid_config (se_toml env) new then reload env cfg dk = (Done (), new)
     else \<exists>msg. reload env cfg dk = (Failed msg, cfg)"
proof -
  let ?txt = "te_pretty (se_toml env) (en_config new)"
  have parsed: "config_from_str (se_toml env) ?txt = Some new"
    using assms(1,2) by (rule config_from_saved)
  show ?thesis
  proof (cases "valid_config (se_toml env) new")
    case True
    then show ?thesis using assms(3) parsed parse_config_Done[of env reload_rest ?txt new] by (simp add: reload_def)
  next
    case False
    then show ?thesis using assms(3) parse_config_invalid[OF parsed False, of reload_rest] by (auto simp: reload_def)
  qed
qed

text \<open>C25. An update is written without validation. After it the file holds the new configuration without
  loss, and a reload of that file succeeds (and changes nothing) exactly when the new configuration is
  valid; otherwise the service keeps running with the invalid configuration it has in memory.\<close>

theorem update_then_reload:
  assumes "se_writable env" and "in_i64 (en_config (f cfg))" and "en_config (f cfg) = TTable t"
    and "reads_back env t"
  shows "\<exists>dk'. update_with env f cfg dk = (Done (f cfg), f cfg, dk')
    \<and> (if valid_config (se_toml env) (f cfg) then reload env (f cfg) dk' = (Done (), f cfg)
       else \<exists>msg. reload env (f cfg) dk' = (Failed msg, f cfg))"
proof -
  let ?dk = "dk\<lparr>dk_config := Some (te_pretty (se_toml env) (en_config (f cfg)))\<rparr>"
  have "dk_config ?dk = Some (te_pretty (se_toml env) (en_config (f cfg)))" by simp
  from update_saves [where f = f and cfg = cfg, OF assms(1,2)] reload_saved [OF assms(3,4) this, of "f cfg"]
  show ?thesis by blast
qed

text \<open>A failed update is not rolled back: when the file cannot be written, or an integer does not fit
  the format, the caller gets an error and the file is unchanged, but the running configuration is the
  new one.\<close>

theorem failed_update_keeps_new_config:
  assumes "\<not> se_writable env \<or> \<not> in_i64 (en_config (f cfg))"
  shows "\<exists>msg. update_with env f cfg dk = (Failed msg, f cfg, dk)"
  using assms by (auto simp: update_with_def save_to_disk_def write_config_def Let_def)

text \<open>C27. A reload changes the configuration only to a valid one: it succeeds exactly when the file holds
  a valid configuration, which then replaces the old one, and otherwise leaves the old one in place.\<close>

theorem reload_is_guarded:
  "case reload env cfg dk of
     (Done _, new) \<Rightarrow> valid_config (se_toml env) new
        \<and> (\<exists>raw. dk_config dk = Some raw \<and> config_from_str (se_toml env) raw = Some new)
   | (Failed _, new) \<Rightarrow> new = cfg \<and> (\<nexists>raw c. dk_config dk = Some raw
        \<and> config_from_str (se_toml env) raw = Some c \<and> valid_config (se_toml env) c)
   | (Panics, _) \<Rightarrow> False"
proof (cases "dk_config dk")
  case None
  then show ?thesis by (simp add: reload_def)
next
  case (Some raw)
  show ?thesis
  proof (cases "parse_config env reload_rest raw")
    case (Done new)
    then show ?thesis using Some parse_config_Done[of env reload_rest raw new] by (simp add: reload_def)
  next
    case (Failed msg)
    then have "parse_config env reload_rest raw \<noteq> Done c" for c by simp
    then have "\<not> (config_from_str (se_toml env) raw = Some c \<and> valid_config (se_toml env) c)" for c
      using parse_config_Done[of env reload_rest raw c] by blast
    then show ?thesis using Some Failed by (simp add: reload_def)
  next
    case Panics
    then show ?thesis using parse_config_not_panics by blast
  qed
qed

subsection \<open>Migrated keys\<close>

lemma encrypt_enc: "encrypt cy mk n k p = Inr enc \<Longrightarrow> starts_with enc ''enc:''"
  by (auto simp: encrypt_def and_then_Inr_iff ENC_PREFIX_def)

lemma plain_key_encrypted: "encrypt_entry env mk n e = Inr e' \<Longrightarrow> plain_key e' = None"
proof (cases e)
  case (TTable t)
  assume e: "encrypt_entry env mk n e = Inr e'"
  show ?thesis
  proof (cases "plain_key e")
    case None
    with e TTable show ?thesis by (simp add: encrypt_entry_def)
  next
    case (Some k)
    with e TTable obtain enc where enc: "encrypt (se_crypto env) mk (se_nonce env n) k TOML_AUTH_KEY = Inr enc"
      "e' = TTable (table_insert ''key'' (TString enc) t)"
      by (auto simp: encrypt_entry_def and_then_Inr_iff)
    with encrypt_enc[OF enc(1)] show ?thesis by (simp add: plain_key_def)
  qed
qed (auto simp: encrypt_entry_def plain_key_def)

lemma plain_keys_encrypted: "encrypt_entries env mk n es = Inr es' \<Longrightarrow> list_all (\<lambda>e. plain_key e = None) es'"
  by (induction es arbitrary: n es') (auto simp: and_then_Inr_iff plain_key_encrypted)

lemma toml_table_Some: "toml_table v = Some t \<longleftrightarrow> v = TTable t"
  by (cases v) auto

lemma auth_keys_tables:
  "auth_keys tree = Some es \<longleftrightarrow> (\<exists>a. map_of tree ''auth'' = Some (TTable a) \<and> map_of a ''keys'' = Some (TArray es))"
proof -
  have "toml_array x = Some es \<longleftrightarrow> x = TArray es" for x by (cases x) auto
  moreover have "toml_get k v = Some x \<longleftrightarrow> (\<exists>t. v = TTable t \<and> map_of t k = Some x)" for k v x by (cases v) auto
  ultimately show ?thesis by (auto simp: auth_keys_def bind_eq_Some_conv)
qed

lemma no_plain_key_iff:
  "\<not> has_plaintext_key tree \<longleftrightarrow> (\<forall>es. auth_keys tree = Some es \<longrightarrow> list_all (\<lambda>e. plain_key e = None) es)"
  by (cases "auth_keys tree") (auto simp: has_plaintext_key_def list_ex_iff list_all_iff)

lemma auth_keys_ratelimit [simp]: "auth_keys (table_insert ''ratelimit'' v tree) = auth_keys tree"
  by (simp add: auth_keys_def)

lemma encrypt_tree_no_plain:
  assumes "encrypt_tree env mk tree = Inr tree'"
  shows "\<not> has_plaintext_key tree'"
proof (cases "auth_keys tree")
  case None
  have "encrypt_tree env mk tree = Inr tree"
  proof (cases "Option.bind (map_of tree ''auth'') toml_table")
    case (Some a)
    then have "map_of tree ''auth'' = Some (TTable a)" by (auto simp: bind_eq_Some_conv toml_table_Some)
    with None Some show ?thesis by (simp add: encrypt_tree_def auth_keys_def)
  qed (simp add: encrypt_tree_def)
  with assms None show ?thesis by (simp add: has_plaintext_key_def)
next
  case (Some es)
  then obtain a where a: "map_of tree ''auth'' = Some (TTable a)" "map_of a ''keys'' = Some (TArray es)"
    by (auto simp: auth_keys_tables)
  with assms obtain es' where es': "encrypt_entries env mk 0 es = Inr es'"
    "tree' = table_insert ''auth'' (TTable (table_insert ''keys'' (TArray es') a)) tree"
    by (auto simp: encrypt_tree_def and_then_Inr_iff)
  have "auth_keys tree' = Some es'" by (simp add: es'(2) auth_keys_def)
  with plain_keys_encrypted[OF es'(1)] show ?thesis by (simp add: no_plain_key_iff)
qed

lemma migrated_tree_no_plain:
  "se_master env = Some mk \<Longrightarrow> migrated_tree env tree = Inr tree' \<Longrightarrow> \<not> has_plaintext_key tree'"
  by (auto simp: migrated_tree_def Let_def has_plaintext_key_def split: if_split_asm
      dest: encrypt_tree_no_plain[unfolded has_plaintext_key_def])

lemma de_auth_key_text:
  "de_auth_key e = Some ak \<Longrightarrow> Option.bind (toml_get ''key'' e) toml_str = Some (ak_key ak)"
proof -
  assume "de_auth_key e = Some ak"
  then obtain s n where s: "required ''key'' de_str e = Some s" "ak = \<lparr>ak_key = s, ak_name = n\<rparr>"
    by (auto simp: de_auth_key_def struct_of_def app_eq_Some split: option.split_asm)
  have "de_str v = toml_str v" for v by (cases v) simp_all
  then have "de_str = toml_str" by (rule ext)
  with s show ?thesis by (simp add: required_def)
qed

lemma struct_of_Some: "struct_of v r = Some x \<longleftrightarrow> (\<exists>t. v = TTable t) \<and> r = Some x"
  by (cases v) (simp_all add: struct_of_def)

lemma de_vec_member:
  assumes "de_vec d (TArray es) = Some ys" "y \<in> set ys" obtains e where "e \<in> set es" "d e = Some y"
  using those_SomeD[of "map d es" ys y] assms by auto

lemma de_auth_keys:
  assumes "de_auth (TTable a) = Some au" "k \<in> set (au_keys au)"
  obtains es e where "map_of a ''keys'' = Some (TArray es)" "e \<in> set es" "de_auth_key e = Some k"
proof -
  from assms(1) have d: "defaulted ''keys'' (de_vec de_auth_key) [] (TTable a) = Some (au_keys au)"
    by (auto simp: de_auth_def app_eq_Some)
  show thesis
  proof (cases "map_of a ''keys''")
    case None
    with d assms(2) show ?thesis by (simp add: defaulted_def)
  next
    case (Some v)
    with d have v: "de_vec de_auth_key v = Some (au_keys au)" by (simp add: defaulted_def)
    then obtain es where es: "v = TArray es" by (cases v) simp_all
    from de_vec_member[OF v[unfolded es] assms(2)] that[of es] Some es show ?thesis by blast
  qed
qed

lemma de_config_auth:
  assumes "de_config (TTable t) = Some cfg"
  shows "defaulted ''auth'' de_auth auth_default (TTable t) = Some (auth cfg)"
  using assms by (auto simp: de_config_def app_eq_Some)

lemma config_keys_encrypted:
  assumes "de_config (TTable t) = Some cfg" "\<not> has_plaintext_key t" "k \<in> set (au_keys (auth cfg))"
  shows "starts_with (ak_key k) ''enc:''"
proof (cases "map_of t ''auth''")
  case None
  with de_config_auth[OF assms(1)] have "auth cfg = auth_default" by (simp add: defaulted_def)
  with assms(3) show ?thesis by (simp add: auth_default_def)
next
  case (Some v)
  with de_config_auth[OF assms(1)] have au: "de_auth v = Some (auth cfg)" by (simp add: defaulted_def)
  then obtain a where a: "v = TTable a" by (auto simp: de_auth_def struct_of_Some)
  from de_auth_keys[OF au[unfolded a] assms(3)] obtain es e where
    e: "map_of a ''keys'' = Some (TArray es)" "e \<in> set es" "de_auth_key e = Some k" by blast
  have "auth_keys t = Some es" using Some a e(1) by (simp add: auth_keys_def)
  then have "plain_key e = None" using assms(2) e(2) by (simp add: no_plain_key_iff list_all_iff)
  then show ?thesis using de_auth_key_text[OF e(3)] by (simp add: plain_key_def split: if_split_asm)
qed

lemma load_migrated:
  assumes "dk_config dk = Some raw" "te_parse (se_toml env) raw = Inr tree" "se_master env = Some mk"
    "migrated_tree env tree = Inr tree'" "reads_back env tree'" "se_writable env"
    "load env dk = (Done cfg, dk')"
  obtains t where "de_config (TTable t) = Some cfg" "\<not> has_plaintext_key t"
proof (cases "has_ratelimit tree \<and> \<not> has_plaintext_key tree")
  case True
  with assms(1,2,7) have "parse_config env load_rest raw = Done cfg"
    by (simp add: load_def migrate_v0_1_if_needed_def)
  then have "de_config (TTable tree) = Some cfg" using assms(2) by (simp add: parse_config_Done config_from_str_def)
  with that True show ?thesis by blast
next
  case False
  let ?txt = "te_pretty (se_toml env) (TTable tree')"
  obtain dk1 where "migrate_v0_1_if_needed env raw dk = (Done (), dk1\<lparr>dk_config := Some ?txt\<rparr>)"
    using False assms(1,2,4,6) by (auto simp: migrate_v0_1_if_needed_def Let_def write_config_ok)
  with assms(1,7) have "parse_config env load_rest ?txt = Done cfg" by (simp add: load_def)
  then have "de_config (TTable tree') = Some cfg"
    using assms(5) by (simp add: parse_config_Done config_from_str_def reads_back_def)
  with that migrated_tree_no_plain[OF assms(3,4)] show ?thesis by blast
qed

text \<open>C19. With a master key set, loading an old file encrypts its keys, and the middleware compares what
  a client presents with the stored text: the keys the clients know are refused from then on, while
  the ciphertext from the file is accepted as a credential.\<close>

theorem migrated_keys_are_refused:
  assumes "dk_config dk = Some raw" and "te_parse (se_toml env) raw = Inr tree" and "se_master env = Some mk"
    and "migrated_tree env tree = Inr tree'" and "reads_back env tree'" and "se_writable env"
    and "load env dk = (Done cfg, dk')"
  shows "(\<forall>p. \<not> starts_with p ''enc:'' \<longrightarrow> au_admin_key (auth cfg) \<noteq> Some p \<longrightarrow> var ''ROUTER_MASTER_KEY'' \<noteq> Some p \<longrightarrow>
      \<not> check_keys (keys_from_config var (auth cfg)) p)
    \<and> (\<forall>k \<in> set (au_keys (auth cfg)). check_keys (keys_from_config var (auth cfg)) (ak_key k))"
proof -
  obtain t where t: "de_config (TTable t) = Some cfg" "\<not> has_plaintext_key t"
    using load_migrated[OF assms] by blast
  note enc = config_keys_encrypted[OF t]
  have refused: "\<forall>p. \<not> starts_with p ''enc:'' \<longrightarrow> au_admin_key (auth cfg) \<noteq> Some p \<longrightarrow> var ''ROUTER_MASTER_KEY'' \<noteq> Some p \<longrightarrow>
      \<not> check_keys (keys_from_config var (auth cfg)) p"
    using enc by (auto simp: check_keys_iff keys_from_config_def split: option.split_asm if_split_asm)
  have accepted: "\<forall>k \<in> set (au_keys (auth cfg)). check_keys (keys_from_config var (auth cfg)) (ak_key k)"
    using enc by (fastforce simp: check_keys_iff keys_from_config_def)
  from refused accepted show ?thesis by (rule conjI)
qed

subsection \<open>Examples\<close>

text \<open>A parser that knows a few texts, and a printer that gives everything the same name.\<close>

definition toy_service :: "(string \<times> table) list \<Rightarrow> bool \<Rightarrow> MasterKey option \<Rightarrow> ServiceEnv" where
  "toy_service docs writable master = \<lparr>se_toml = demo_toml\<lparr>te_parse := (\<lambda>raw. ok_or ''bad'' (map_of docs raw))\<rparr>,
     se_path = ''token-dealer.toml'', se_writable = writable, se_master = master, se_crypto = toy_crypto,
     se_nonce = (\<lambda>_. replicate NONCE_LEN 0)\<rparr>"

definition empty_disk :: Disk where
  "empty_disk = \<lparr>dk_config = None, dk_backup = None\<rparr>"

lemma toy_reads_back: "reads_back (toy_service docs w mk) t \<longleftrightarrow> map_of docs ''doc'' = Some t"
  by (cases "map_of docs ''doc''") (simp_all add: reads_back_def toy_service_def demo_toml_def ok_or_def)

theorem first_run_breaks_next_start_witness:
  "\<exists>dk1 dk2 msg. load (toy_service [(minimal_text, minimal_table), (''doc'', migrated_minimal)] True None) empty_disk
       = (Done config_default, dk1)
     \<and> load (toy_service [(minimal_text, minimal_table), (''doc'', migrated_minimal)] True None) dk1 = (Failed msg, dk2)"
proof -
  let ?env = "toy_service [(minimal_text, minimal_table), (''doc'', migrated_minimal)] True None"
  have 1: "dk_config empty_disk = None" "dk_backup empty_disk = None" by (simp_all add: empty_disk_def)
  have 2: "se_writable ?env" by (simp add: toy_service_def)
  have 3: "te_parse (se_toml ?env) minimal_text = Inr minimal_table" by (simp add: toy_service_def)
  have "minimal_text \<noteq> ''doc''" by code_simp
  then have 4: "reads_back ?env migrated_minimal" by (simp add: toy_reads_back)
  from first_run_breaks_next_start [OF 1 2 3 4] show ?thesis by blast
qed

theorem update_then_reload_witness:
  "\<exists>dk. reload (toy_service [(''doc'', the (toml_table (en_config demo_config)))] True None) demo_config dk
     = (Done (), demo_config)"
proof -
  let ?t = "the (toml_table (en_config demo_config))"
  let ?env = "toy_service [(''doc'', ?t)] True None"
  have 1: "se_writable ?env" by (simp add: toy_service_def)
  have 2: "in_i64 (en_config ((\<lambda>_. demo_config) config_default))" by code_simp
  have 3: "en_config ((\<lambda>_. demo_config) config_default) = TTable ?t" by (simp add: en_config_table)
  have 4: "reads_back ?env ?t" by (simp add: toy_reads_back)
  have 5: "valid_config (se_toml ?env) demo_config" by code_simp
  from update_then_reload [where f = "\<lambda>_. demo_config" and cfg = config_default, OF 1 2 3 4, of empty_disk] 5 show ?thesis by (auto simp only: if_True)
qed

theorem failed_update_keeps_new_config_witness:
  "\<exists>msg. update_with (toy_service [] False None) (\<lambda>_. demo_config) config_default empty_disk
     = (Failed msg, demo_config, empty_disk)"
  using failed_update_keeps_new_config [of "toy_service [] False None" "\<lambda>_. demo_config" config_default empty_disk]
  by (simp add: toy_service_def)

definition old_table :: table where
  "old_table = [(''auth'', TTable [(''enabled'', TBoolean True),
     (''keys'', TArray [TTable [(''key'', TString ''sk-1''), (''name'', TString ''ann'')]])])]"

definition old_cipher :: string where
  "old_cipher = (case encrypt toy_crypto [1] (replicate NONCE_LEN 0) ''sk-1'' TOML_AUTH_KEY of Inr e \<Rightarrow> e | Inl _ \<Rightarrow> [])"

definition old_migrated :: table where
  "old_migrated = [(''auth'', TTable [(''enabled'', TBoolean True),
     (''keys'', TArray [TTable [(''key'', TString old_cipher), (''name'', TString ''ann'')]])]),
     (''ratelimit'', ratelimit_table)]"

definition old_service :: ServiceEnv where
  "old_service = toy_service [(''old'', old_table), (''doc'', old_migrated)] True (Some [1])"

definition old_config :: RouterConfig where
  "old_config = config_default\<lparr>auth := \<lparr>au_enabled = True, au_admin_key = None,
     au_keys = [\<lparr>ak_key = old_cipher, ak_name = ''ann''\<rparr>]\<rparr>\<rparr>"

lemma old_encrypt: "encrypt toy_crypto [1] (replicate NONCE_LEN 0) ''sk-1'' TOML_AUTH_KEY = Inr old_cipher"
  by (simp add: old_cipher_def encrypt_def toy_crypto_def)

lemma old_table_shape: "\<not> has_ratelimit old_table" "has_plaintext_key old_table"
  by (simp_all add: old_table_def has_ratelimit_def has_plaintext_key_def auth_keys_def plain_key_def)

lemma old_migration: "migrated_tree old_service old_table = Inr old_migrated"
proof -
  have "se_crypto old_service = toy_crypto" "se_nonce old_service = (\<lambda>_. replicate NONCE_LEN 0)"
    "se_master old_service = Some [1]" by (simp_all add: old_service_def toy_service_def)
  then show ?thesis
    by (simp add: migrated_tree_def old_table_shape Let_def encrypt_tree_def)
      (simp add: old_table_def encrypt_entry_def plain_key_def old_encrypt old_migrated_def)
qed

lemma old_decoded: "de_config (TTable old_migrated) = Some old_config"
  by code_simp

lemma old_valid: "valid_config (se_toml old_service) old_config"
  by code_simp

lemma old_load:
  "load old_service (empty_disk\<lparr>dk_config := Some ''old''\<rparr>)
     = (Done old_config, \<lparr>dk_config = Some ''doc'', dk_backup = Some ''old''\<rparr>)"
proof -
  have te: "te_parse (se_toml old_service) ''old'' = Inr old_table" "te_parse (se_toml old_service) ''doc'' = Inr old_migrated"
    "te_pretty (se_toml old_service) t = ''doc''" "se_writable old_service" for t
    by (simp_all add: old_service_def toy_service_def demo_toml_def)
  have "parse_config old_service load_rest ''doc'' = Done old_config"
    by (simp add: parse_config_Done config_from_str_def te old_decoded old_valid)
  then show ?thesis
    by (simp add: load_def empty_disk_def migrate_v0_1_if_needed_def te old_table_shape old_migration write_config_ok Let_def)
qed

theorem migrated_keys_are_refused_witness:
  "load old_service (empty_disk\<lparr>dk_config := Some ''old''\<rparr>)
       = (Done old_config, \<lparr>dk_config = Some ''doc'', dk_backup = Some ''old''\<rparr>)
     \<and> \<not> check_keys (keys_from_config (\<lambda>_. None) (auth old_config)) ''sk-1''"
proof -
  have 1: "dk_config (empty_disk\<lparr>dk_config := Some ''old''\<rparr>) = Some ''old''" by simp
  have 2: "te_parse (se_toml old_service) ''old'' = Inr old_table" by (simp add: old_service_def toy_service_def)
  have 3: "se_master old_service = Some [1]" "se_writable old_service" "reads_back old_service old_migrated"
    by (simp_all add: old_service_def toy_reads_back) (simp_all add: toy_service_def)
  have plain: "\<not> starts_with ''sk-1'' ''enc:''" by code_simp
  have admin: "au_admin_key (auth old_config) \<noteq> Some ''sk-1''" by (simp add: old_config_def)
  from migrated_keys_are_refused [OF 1 2 3(1) old_migration 3(3,2) old_load, of "\<lambda>_. None"] plain admin
  have "\<not> check_keys (keys_from_config (\<lambda>_. None) (auth old_config)) ''sk-1''" by blast
  with old_load show ?thesis by (rule conjI)
qed

end
