(* ===== verification/AccountEndpoints.thy ===== *)
theory AccountEndpoints
  imports Handlers
begin

section \<open>Login, accounts and keys\<close>

text \<open>
  \<open>src/server/auth_endpoints.rs\<close> and the set-up form of \<open>src/server/ui_login.rs\<close>, over the user
  store. The caller is the context the middleware put into the request. Argon2 is \<open>ac_verify\<close> and
  \<open>ac_hash\<close>; the fresh id, the fresh token and the clock are fields as well. A plain-text body is
  given as the JSON string of its text. Database errors other than violated constraints are left out.
\<close>

record AccountEnv =
  ac_auth :: AuthEnv
  ac_rfc :: "DateTime \<Rightarrow> string"
  ac_now :: DateTime
  ac_uuid :: string
  ac_token :: string
  ac_hash :: "string \<Rightarrow> string"
  ac_verify :: "string \<Rightarrow> string \<Rightarrow> bool"

record LoginReq =
  lr_api_key :: "string option"
  lr_email :: "string option"
  lr_password :: "string option"

definition error_json :: "u16 \<Rightarrow> string \<Rightarrow> HttpResponse" where
  "error_json s msg = json_response s (Object [(''error'', String msg)])"

definition status_json :: "string \<Rightarrow> HttpResponse" where
  "status_json st = json_response 200 (Object [(''status'', String st)])"

lemma response_status [simp]:
  "hr_status (error_json s msg) = s" "hr_status (json_response s b) = s" "hr_status (status_json st) = 200"
  by (simp_all add: error_json_def json_response_def status_json_def)

subsection \<open>Login and logout\<close>

definition session_cookie :: "string \<Rightarrow> string" where
  "session_cookie plaintext =
     SESSION_COOKIE @ ''='' @ plaintext @ ''; HttpOnly; SameSite=Lax; Path=/; Max-Age=2592000''"

definition user_json :: "User \<Rightarrow> json" where
  "user_json u = Object [(''id'', String (u_id u)), (''email'', String (u_email u)),
     (''name'', String (u_name u)), (''role'', String (role_as_str (u_role u)))]"

definition new_session ::
  "AccountEnv \<Rightarrow> string \<Rightarrow> string option \<Rightarrow> string option \<Rightarrow> UserDb \<Rightarrow> (string + string) \<times> UserDb" where
  "new_session env user_id user_agent ip db =
     create_session_cookie (ae_sha (ac_auth env)) (ac_rfc env) (ac_uuid env) (ae_ts (ac_auth env)) (ac_now env)
       (ac_token env) user_id user_agent ip db"

definition finish_login :: "AccountEnv \<Rightarrow> headers \<Rightarrow> User \<Rightarrow> UserDb \<Rightarrow> HttpResponse \<times> UserDb" where
  "finish_login env hs user db =
     (case new_session env (u_id user) (hs ''user-agent'') (map_option (split_head (CHR '','')) (hs ''x-forwarded-for''))
             (touch_last_login (ae_ts (ac_auth env)) (u_id user) db) of
        (Inl e, db') \<Rightarrow> (error_json 500 (''session: '' @ e), db')
      | (Inr plaintext, db') \<Rightarrow>
          ((json_response 200 (Object [(''status'', String ''ok''), (''user'', user_json user)]))
             \<lparr>hr_headers := [(''set-cookie'', session_cookie plaintext)]\<rparr>, db'))"

text \<open>Path 2 of the handler, also taken when the key is missing or empty.\<close>

definition password_login :: "AccountEnv \<Rightarrow> headers \<Rightarrow> LoginReq \<Rightarrow> UserDb \<Rightarrow> HttpResponse \<times> UserDb" where
  "password_login env hs body db =
     (case (lr_email body, lr_password body) of
        (Some email, Some password) \<Rightarrow>
          (case get_user_by_email (ae_rd (ac_auth env)) email db of
             None \<Rightarrow> (error_json 401 ''invalid credentials'', db)
           | Some user \<Rightarrow> (case u_password_hash user of
               None \<Rightarrow> (error_json 401 ''password login not enabled for this user'', db)
             | Some h \<Rightarrow> if ac_verify env password h then finish_login env hs user db
                          else (error_json 401 ''invalid credentials'', db)))
      | _ \<Rightarrow> (error_json 400 ''provide api_key OR email+password'', db))"

definition login :: "AccountEnv \<Rightarrow> headers \<Rightarrow> LoginReq \<Rightarrow> UserDb \<Rightarrow> HttpResponse \<times> UserDb" where
  "login env hs body db =
     (case lr_api_key body of
        None \<Rightarrow> password_login env hs body db
      | Some key \<Rightarrow>
          if key = [] then password_login env hs body db
          else (case get_user_by_api_key (ae_sha (ac_auth env)) (ae_rd (ac_auth env)) (ae_ts (ac_auth env)) key db of
                (Some (user, _), db') \<Rightarrow> finish_login env hs user db'
              | (None, db') \<Rightarrow> (error_json 401 ''invalid API key'', db')))"

definition logout :: "UserContext \<Rightarrow> UserDb \<Rightarrow> HttpResponse \<times> UserDb" where
  "logout user db =
     ((status_json ''ok'')\<lparr>hr_headers := [(''set-cookie'',
         SESSION_COOKIE @ ''=; HttpOnly; SameSite=Lax; Path=/; Max-Age=0'')]\<rparr>,
      case uc_session_id user of None \<Rightarrow> db | Some sid \<Rightarrow> delete_session sid db)"

definition me :: "UserContext \<Rightarrow> HttpResponse" where
  "me user = json_response 200 (Object [(''id'', String (uc_user_id user)), (''email'', String (uc_email user)),
     (''name'', String (uc_name user)), (''role'', String (role_as_str (uc_role user))),
     (''via'', String (uc_via user)), (''key_prefix'', jstr_opt (uc_key_prefix user))])"

subsection \<open>Passwords\<close>

record RotatePasswordReq =
  rp_current_password :: string
  rp_new_password :: string

definition rotate_password ::
  "AccountEnv \<Rightarrow> UserContext \<Rightarrow> RotatePasswordReq \<Rightarrow> UserDb \<Rightarrow> HttpResponse \<times> UserDb" where
  "rotate_password env caller body db =
     (if rp_new_password body = [] then (error_json 400 ''new_password must not be empty'', db)
      else (case get_user (ae_rd (ac_auth env)) (uc_user_id caller) db of
          None \<Rightarrow> (error_json 404 ''user not found'', db)
        | Some user \<Rightarrow> (case u_password_hash user of
            None \<Rightarrow> (error_json 400 ''user has no password set; cannot rotate'', db)
          | Some stored \<Rightarrow>
              if \<not> ac_verify env (rp_current_password body) stored
              then (error_json 401 ''current_password is wrong'', db)
              else (case update_password (uc_user_id caller) (rp_new_password body)
                         (ac_hash env (rp_new_password body)) db of
                  (Inl _, db') \<Rightarrow> (error_json 500 ''internal error'', db')
                | (Inr _, db') \<Rightarrow> (status_json ''ok'', delete_user_sessions (uc_user_id caller) db')))))"

subsection \<open>User management\<close>

record CreateUserReq =
  cu_email :: string
  cu_name :: string
  cu_password :: "string option"
  cu_role :: "string option"

definition create_user_endpoint ::
  "AccountEnv \<Rightarrow> UserContext \<Rightarrow> CreateUserReq \<Rightarrow> UserDb \<Rightarrow> HttpResponse \<times> UserDb" where
  "create_user_endpoint env caller body db =
     (if \<not> is_admin caller then (error_json 403 ''admin only'', db)
      else (case create_user (ac_uuid env) (ae_ts (ac_auth env)) (ac_now env) (cu_email body) (cu_name body)
                 (map_option (ac_hash env) (cu_password body))
                 (unwrap_or UserRole (map_option role_parse (cu_role body))) db of
          (Inl e, db') \<Rightarrow> (error_json 400 e, db')
        | (Inr u, db') \<Rightarrow> (json_response 201 (user_json u), db')))"

definition listed_user :: "AccountEnv \<Rightarrow> User \<Rightarrow> json" where
  "listed_user env u = Object [(''id'', String (u_id u)), (''email'', String (u_email u)),
     (''name'', String (u_name u)), (''role'', String (role_as_str (u_role u))),
     (''created_at'', String (ac_rfc env (u_created_at u))),
     (''last_login_at'', jstr_opt (map_option (ac_rfc env) (u_last_login_at u)))]"

definition list_users_endpoint :: "AccountEnv \<Rightarrow> UserContext \<Rightarrow> UserDb \<Rightarrow> HttpResponse" where
  "list_users_endpoint env caller db =
     (if \<not> is_admin caller then error_json 403 ''admin only''
      else json_response 200 (Object [(''users'',
         Array (map (listed_user env) (list_users (ae_rd (ac_auth env)) db)))]))"

definition delete_user_endpoint :: "string \<Rightarrow> UserContext \<Rightarrow> UserDb \<Rightarrow> HttpResponse \<times> UserDb" where
  "delete_user_endpoint i caller db =
     (if \<not> is_admin caller then (error_json 403 ''admin only'', db)
      else (status_json ''deleted'', delete_user i db))"

subsection \<open>API keys and usage\<close>

definition em_dash :: string where "em_dash = [CHR 0xE2, CHR 0x80, CHR 0x94]"

definition key_warning :: json where
  "key_warning = String (''Save this key '' @ em_dash @ '' it won'' @ [CHR 0x27] @ ''t be shown again.'')"

definition issue_key :: "AccountEnv \<Rightarrow> string \<Rightarrow> string \<Rightarrow> UserDb \<Rightarrow> (string + ApiKey \<times> string) \<times> UserDb" where
  "issue_key env user_id name db = create_api_key (ae_sha (ac_auth env)) (ac_uuid env) (ae_ts (ac_auth env))
     (ac_now env) (ac_token env) user_id name db"

definition create_own_key :: "AccountEnv \<Rightarrow> UserContext \<Rightarrow> json \<Rightarrow> UserDb \<Rightarrow> HttpResponse \<times> UserDb" where
  "create_own_key env user body db =
     (case issue_key env (uc_user_id user) (unwrap_or ''default'' (get_str ''name'' body)) db of
        (Inl e, db') \<Rightarrow> (error_json 500 e, db')
      | (Inr (_, plaintext), db') \<Rightarrow>
          (json_response 200 (Object [(''api_key'', String plaintext), (''warning'', key_warning)]), db'))"

definition listed_key :: "AccountEnv \<Rightarrow> ApiKey \<Rightarrow> json" where
  "listed_key env k = Object [(''id'', String (k_id k)), (''name'', String (k_name k)),
     (''prefix'', String (k_key_prefix k)), (''created_at'', String (ac_rfc env (k_created_at k))),
     (''last_used_at'', jstr_opt (map_option (ac_rfc env) (k_last_used_at k))), (''revoked'', Bool (k_revoked k))]"

definition list_own_keys :: "AccountEnv \<Rightarrow> UserContext \<Rightarrow> UserDb \<Rightarrow> HttpResponse" where
  "list_own_keys env user db = json_response 200 (Object [(''keys'',
     Array (map (listed_key env) (list_api_keys (ae_rd (ac_auth env)) (uc_user_id user) db)))])"

definition delete_own_key :: "AccountEnv \<Rightarrow> string \<Rightarrow> UserContext \<Rightarrow> UserDb \<Rightarrow> HttpResponse \<times> UserDb" where
  "delete_own_key env i user db =
     (if \<not> list_ex (\<lambda>k. k_id k = i) (list_api_keys (ae_rd (ac_auth env)) (uc_user_id user) db)
      then (error_json 404 ''not found'', db)
      else (status_json ''deleted'', delete_api_key i db))"

definition my_usage :: "string \<Rightarrow> string \<Rightarrow> UserContext \<Rightarrow> UserDb \<Rightarrow> HttpResponse" where
  "my_usage day since user db =
     (case get_usage_today day (uc_user_id user) db of (input, output, cost, reqs) \<Rightarrow>
      json_response 200 (Object
       [(''today'', Object [(''input_tokens'', ju32 input), (''output_tokens'', ju32 output),
           (''cost_usd'', jf64 cost), (''request_count'', ju32 reqs)]),
        (''last_30_days'', Array (map (\<lambda>(d, i, out, c). Object [(''day'', String d),
             (''input_tokens'', ju32 i), (''output_tokens'', ju32 out), (''cost_usd'', jf64 c)])
           (get_usage_summary since (uc_user_id user) db)))]))"

record AdminCreateKeyReq =
  ck_user_id :: string
  ck_name :: string

definition admin_create_key ::
  "AccountEnv \<Rightarrow> string \<Rightarrow> UserContext \<Rightarrow> AdminCreateKeyReq \<Rightarrow> UserDb \<Rightarrow> HttpResponse \<times> UserDb" where
  "admin_create_key env user_id_path caller body db =
     (if \<not> is_admin caller then (error_json 403 ''admin only'', db)
      else (let target = (if user_id_path = ''__self__'' then ck_user_id body else user_id_path) in
        if target = [] then (error_json 400 ''user_id required'', db)
        else (case issue_key env target (ck_name body) db of
            (Inl e, db') \<Rightarrow> (error_json 500 e, db')
          | (Inr (_, plaintext), db') \<Rightarrow>
              (json_response 200 (Object [(''api_key'', String plaintext), (''user_id'', String target),
                 (''warning'', key_warning)]), db'))))"

subsection \<open>The first set-up\<close>

definition redirect_to :: "string \<Rightarrow> HttpResponse" where
  "redirect_to url = \<lparr>hr_status = 303, hr_headers = [(''location'', url)], hr_body = None\<rparr>"

definition text_response :: "u16 \<Rightarrow> string \<Rightarrow> HttpResponse" where
  "text_response s txt = \<lparr>hr_status = s, hr_headers = [], hr_body = Some (String txt)\<rparr>"

text \<open>\<open>fresh\<close> gives the id of the session; \<open>ac_uuid\<close> is the id of the user.\<close>

definition setup_submit ::
  "AccountEnv \<Rightarrow> string \<Rightarrow> headers \<Rightarrow> LoginReq \<Rightarrow> UserDb \<Rightarrow> HttpResponse \<times> UserDb" where
  "setup_submit env fresh hs body db =
     (if list_users (ae_rd (ac_auth env)) db \<noteq> [] then (redirect_to ''/ui/login'', db)
      else (case lr_email body of
          None \<Rightarrow> (text_response 400 ''email required'', db)
        | Some email \<Rightarrow> if email = [] then (text_response 400 ''email required'', db)
            else (let name = split_head (CHR ''@'') email; password = unwrap_or [] (lr_password body) in
              if length password < 8 then (text_response 400 ''password must be at least 8 chars'', db)
              else (case create_user (ac_uuid env) (ae_ts (ac_auth env)) (ac_now env) email name
                        (Some (ac_hash env password)) AdminRole db of
                  (Inl e, db') \<Rightarrow> (text_response 400 (''create: '' @ e), db')
                | (Inr u, db') \<Rightarrow> (case new_session (env\<lparr>ac_uuid := fresh\<rparr>) (u_id u) (hs ''user-agent'') None db' of
                    (r, db'') \<Rightarrow> ((redirect_to ''/ui/login?setup=ok'')
                      \<lparr>hr_headers := [(''location'', ''/ui/login?setup=ok''),
                         (''set-cookie'', session_cookie (case r of Inr plaintext \<Rightarrow> plaintext | Inl _ \<Rightarrow> []))]\<rparr>, db''))))))"

subsection \<open>Every endpoint keeps the constraints of the schema\<close>

definition env_of :: "AccountEnv \<Rightarrow> UserEnv" where
  "env_of env = \<lparr>ue_sha = ae_sha (ac_auth env), ue_rfc = ac_rfc env, ue_rd = ae_rd (ac_auth env)\<rparr>"

lemma wf_ops:
  assumes "db_wf db"
  shows "db_wf (snd (create_user uuid ts now email name ph role db))"
    "db_wf (snd (update_password i p h db))" "db_wf (delete_user i db)" "db_wf (touch_last_login ts i db)"
    "db_wf (snd (create_api_key sha uuid ts now tok i name db))"
    "db_wf (snd (get_user_by_api_key sha rd ts key db))"
    "db_wf (delete_api_key i db)" "db_wf (snd (create_session sha rfc uuid ts now tok i ua ip ttl db))"
    "db_wf (delete_session i db)" "db_wf (delete_user_sessions i db)"
  using db_wf_apply[OF assms, of "\<lparr>ue_sha = sha, ue_rfc = rfc, ue_rd = rd\<rparr>" "OpCreateUser uuid ts now email name ph role"]
    db_wf_apply[OF assms, of "\<lparr>ue_sha = sha, ue_rfc = rfc, ue_rd = rd\<rparr>" "OpUpdatePassword i p h"]
    db_wf_apply[OF assms, of "\<lparr>ue_sha = sha, ue_rfc = rfc, ue_rd = rd\<rparr>" "OpDeleteUser i"]
    db_wf_apply[OF assms, of "\<lparr>ue_sha = sha, ue_rfc = rfc, ue_rd = rd\<rparr>" "OpTouchLastLogin ts i"]
    db_wf_apply[OF assms, of "\<lparr>ue_sha = sha, ue_rfc = rfc, ue_rd = rd\<rparr>" "OpCreateApiKey uuid ts now tok i name"]
    db_wf_apply[OF assms, of "\<lparr>ue_sha = sha, ue_rfc = rfc, ue_rd = rd\<rparr>" "OpUserByApiKey ts key"]
    db_wf_apply[OF assms, of "\<lparr>ue_sha = sha, ue_rfc = rfc, ue_rd = rd\<rparr>" "OpDeleteApiKey i"]
    db_wf_apply[OF assms, of "\<lparr>ue_sha = sha, ue_rfc = rfc, ue_rd = rd\<rparr>" "OpCreateSession uuid ts now tok i ua ip ttl"]
    db_wf_apply[OF assms, of "\<lparr>ue_sha = sha, ue_rfc = rfc, ue_rd = rd\<rparr>" "OpDeleteSession i"]
    db_wf_apply[OF assms, of "\<lparr>ue_sha = sha, ue_rfc = rfc, ue_rd = rd\<rparr>" "OpDeleteUserSessions i"]
  by simp_all

lemma wf_new_session: "db_wf db \<Longrightarrow> db_wf (snd (new_session env i ua ip db))"
  using wf_ops(8)[of db] by (auto simp: new_session_def create_session_cookie_def split_def split: sum.split)

lemma wf_finish_login: "db_wf db \<Longrightarrow> db_wf (snd (finish_login env hs user db))"
  using wf_new_session[OF wf_ops(4)]
  by (auto simp: finish_login_def split_def split: sum.split)

lemma wf_password_login: "db_wf db \<Longrightarrow> db_wf (snd (password_login env hs body db))"
  by (auto simp: password_login_def wf_finish_login split: option.split)

lemma wf_login: "db_wf db \<Longrightarrow> db_wf (snd (login env hs body db))"
  using wf_ops(6)[of db]
  by (auto simp: login_def wf_password_login split_def intro!: wf_finish_login split: option.split)

lemma wf_logout: "db_wf db \<Longrightarrow> db_wf (snd (logout user db))"
  by (auto simp: logout_def wf_ops(9) split: option.split)

lemma wf_rotate: "db_wf db \<Longrightarrow> db_wf (snd (rotate_password env caller body db))"
  using wf_ops(2)[of db]
  by (auto simp: rotate_password_def split_def intro!: wf_ops(10) split: option.split sum.split)

lemma wf_issue_key: "db_wf db \<Longrightarrow> db_wf (snd (issue_key env i name db))"
  by (simp add: issue_key_def wf_ops(5))

lemma wf_setup: "db_wf db \<Longrightarrow> db_wf (snd (setup_submit env fresh hs body db))"
  using wf_ops(1)[of db] wf_new_session
  by (auto simp: setup_submit_def Let_def split_def split: option.split sum.split)

lemmas wf_managed = wf_ops(1)[of _ "ac_uuid env" for env]

lemma wf_endpoints:
  assumes "db_wf db"
  shows "db_wf (snd (create_user_endpoint env caller cu db))" "db_wf (snd (delete_user_endpoint i caller db))"
    "db_wf (snd (create_own_key env caller js db))" "db_wf (snd (delete_own_key env i caller db))"
    "db_wf (snd (admin_create_key env i caller ck db))"
  using assms wf_ops(1,3,7)[OF assms] wf_issue_key[OF assms]
  by (auto simp: create_user_endpoint_def delete_user_endpoint_def create_own_key_def delete_own_key_def
      admin_create_key_def Let_def split_def split: sum.split)

subsection \<open>What a login proves and gives\<close>

definition proves :: "AccountEnv \<Rightarrow> LoginReq \<Rightarrow> UserDb \<Rightarrow> string \<Rightarrow> bool" where
  "proves env body db u \<longleftrightarrow>
     (if unwrap_or [] (lr_api_key body) \<noteq> []
      then key_user (ae_sha (ac_auth env)) (ae_rd (ac_auth env)) (ae_ts (ac_auth env)) (unwrap_or [] (lr_api_key body)) db
             = Some u
      else (\<exists>email password r h. lr_email body = Some email \<and> lr_password body = Some password
             \<and> find (\<lambda>r. ur_email r = to_lowercase email) (db_users db) = Some r \<and> ur_id r = u
             \<and> ur_password_hash r = Some h \<and> ac_verify env password h))"

lemma new_session_issued:
  assumes "new_session env i ua ip db = (Inr p, db')"
    and "ts < ac_rfc env (ac_now env + SESSION_TTL_HOURS * 3600)"
  shows "p = ac_token env" "session_user (ae_sha (ac_auth env)) rd ts (ac_token env) db' = Some i"
proof -
  from assms(1) obtain s where c: "create_session (ae_sha (ac_auth env)) (ac_rfc env) (ac_uuid env)
      (ae_ts (ac_auth env)) (ac_now env) (ac_token env) i ua ip SESSION_TTL_HOURS db = (Inr (s, p), db')"
    by (auto simp: new_session_def create_session_cookie_def split: prod.split_asm sum.split_asm)
  then show "p = ac_token env" by (auto simp: create_session_def Let_def split: if_split_asm)
  from c obtain r where r: "db_sessions db' = db_sessions db @ [r]" "db_users db' = db_users db"
    "\<forall>x \<in> set (db_sessions db). ss_session_hash x \<noteq> ae_sha (ac_auth env) (ac_token env)"
    "ss_session_hash r = ae_sha (ac_auth env) (ac_token env)"
    "ss_expires_at r = ac_rfc env (ac_now env + SESSION_TTL_HOURS * 3600)" "ss_user_id r = i" "user_row db i \<noteq> None"
    by (auto simp: create_session_def Let_def split: if_split_asm)
  then have "user_row db' (ss_user_id r) \<noteq> None"
    "ae_sha (ac_auth env) (ac_token env) \<notin> ss_session_hash ` set (db_sessions db)" by (auto simp: user_row_def)
  with r assms(2) sessions.auth_issued[where sha = "ae_sha (ac_auth env)" and rd = rd, of db' db r "ac_token env" ts]
  show "session_user (ae_sha (ac_auth env)) rd ts (ac_token env) db' = Some i" by simp
qed

lemma finish_login_ok:
  assumes "finish_login env hs user db = (resp, db')" "hr_status resp = 200"
    and "ts < ac_rfc env (ac_now env + SESSION_TTL_HOURS * 3600)"
  shows "hr_headers resp = [(''set-cookie'', session_cookie (ac_token env))]"
    "session_user (ae_sha (ac_auth env)) rd ts (ac_token env) db' = Some (u_id user)"
proof -
  from assms(1,2) obtain p where p: "new_session env (u_id user) (hs ''user-agent'')
      (map_option (split_head (CHR '','')) (hs ''x-forwarded-for'')) (touch_last_login (ae_ts (ac_auth env)) (u_id user) db)
      = (Inr p, db')" "hr_headers resp = [(''set-cookie'', session_cookie p)]"
    by (auto simp: finish_login_def split: prod.split_asm sum.split_asm)
  from new_session_issued[OF p(1) assms(3)] p(2)
  show "hr_headers resp = [(''set-cookie'', session_cookie (ac_token env))]"
    "session_user (ae_sha (ac_auth env)) rd ts (ac_token env) db' = Some (u_id user)" by simp_all
qed

lemma login_finished:
  assumes "login env hs body db = (resp, db')" "hr_status resp = 200"
  obtains user db1 where "finish_login env hs user db1 = (resp, db')" "proves env body db (u_id user)"
proof (cases "unwrap_or [] (lr_api_key body) \<noteq> []")
  case True
  then obtain key where key: "lr_api_key body = Some key" "key \<noteq> []" by (cases "lr_api_key body") auto
  with assms obtain user k db1 where
    u: "get_user_by_api_key (ae_sha (ac_auth env)) (ae_rd (ac_auth env)) (ae_ts (ac_auth env)) key db = (Some (user, k), db1)"
      "finish_login env hs user db1 = (resp, db')"
    by (auto simp: login_def split: prod.split_asm option.split_asm)
  have "proves env body db (u_id user)" using key u(1) by (simp add: proves_def key_user_def)
  with u(2) that show ?thesis by blast
next
  case False
  with assms have "password_login env hs body db = (resp, db')"
    by (auto simp: login_def split: option.split_asm)
  with assms(2) obtain email password r h where
    e: "lr_email body = Some email" "lr_password body = Some password"
      "find (\<lambda>r. ur_email r = to_lowercase email) (db_users db) = Some r" "ur_password_hash r = Some h"
      "ac_verify env password h" "finish_login env hs (row_to_user (ae_rd (ac_auth env)) r) db = (resp, db')"
    by (auto simp: password_login_def get_user_by_email_def row_to_user_def split: option.split_asm if_split_asm)
  have "proves env body db (u_id (row_to_user (ae_rd (ac_auth env)) r))"
    using False e by (auto simp: proves_def row_to_user_def)
  with e(6) that show ?thesis by blast
qed

subsection \<open>Properties\<close>

text \<open>C14. A login succeeds only for somebody who proves to be a user, by a live API key or by the password
  of the account, and then the cookie it sets is a session of exactly that user until it expires.\<close>

theorem login_opens_session_of_prover:
  assumes "login env hs body db = (resp, db')" and "hr_status resp = 200"
    and "ts < ac_rfc env (ac_now env + SESSION_TTL_HOURS * 3600)"
  shows "\<exists>u. proves env body db u \<and> hr_headers resp = [(''set-cookie'', session_cookie (ac_token env))]
    \<and> session_user (ae_sha (ac_auth env)) rd ts (ac_token env) db' = Some u"
proof -
  from login_finished[OF assms(1,2)] obtain user db1 where
    f: "finish_login env hs user db1 = (resp, db')" "proves env body db (u_id user)" by blast
  from finish_login_ok(1)[OF f(1) assms(2,3)] finish_login_ok(2)[OF f(1) assms(2,3), of rd] f(2) show ?thesis by blast
qed

text \<open>No account endpoint breaks the constraints of the user tables.\<close>

theorem account_endpoints_keep_schema:
  assumes "db_wf db"
  shows "db_wf (snd (login env hs body db)) \<and> db_wf (snd (logout user db)) \<and> db_wf (snd (rotate_password env user rp db))
    \<and> db_wf (snd (create_user_endpoint env user cu db)) \<and> db_wf (snd (delete_user_endpoint i user db))
    \<and> db_wf (snd (create_own_key env user js db)) \<and> db_wf (snd (delete_own_key env i user db))
    \<and> db_wf (snd (admin_create_key env i user ck db)) \<and> db_wf (snd (setup_submit env fresh hs body db))"
  using assms by (simp add: wf_login wf_logout wf_rotate wf_endpoints wf_setup)

text \<open>Account management is for admins: for any other caller every one of its endpoints answers 403
  and leaves the tables as they are.\<close>

theorem account_management_needs_admin:
  assumes "\<not> is_admin caller"
  shows "create_user_endpoint env caller cu db = (error_json 403 ''admin only'', db)
    \<and> delete_user_endpoint i caller db = (error_json 403 ''admin only'', db)
    \<and> admin_create_key env i caller ck db = (error_json 403 ''admin only'', db)
    \<and> list_users_endpoint env caller db = error_json 403 ''admin only''"
  using assms by (simp add: create_user_endpoint_def delete_user_endpoint_def admin_create_key_def list_users_endpoint_def)

text \<open>A password rotation that succeeds knew the old password, stores the new one, and ends every
  session of the caller, the one it was requested with included; API keys and other users' sessions
  stay as they are.\<close>

theorem rotation_ends_every_session:
  assumes "rotate_password env caller body db = (resp, db')" and "hr_status resp = 200"
  shows "db_sessions db' = filter (\<lambda>r. ss_user_id r \<noteq> uc_user_id caller) (db_sessions db)
    \<and> db_api_keys db' = db_api_keys db
    \<and> (\<exists>r h. user_row db (uc_user_id caller) = Some r \<and> ur_password_hash r = Some h
         \<and> ac_verify env (rp_current_password body) h
         \<and> user_row db' (uc_user_id caller) = Some (r\<lparr>ur_password_hash := Some (ac_hash env (rp_new_password body))\<rparr>))"
proof -
  from assms obtain r h where r: "user_row db (uc_user_id caller) = Some r" "ur_password_hash r = Some h"
    "ac_verify env (rp_current_password body) h" "rp_new_password body \<noteq> []"
    by (auto simp: rotate_password_def get_user_def row_to_user_def split: if_split_asm option.split_asm)
  let ?up = "map (\<lambda>r. if ur_id r = uc_user_id caller
      then r\<lparr>ur_password_hash := Some (ac_hash env (rp_new_password body))\<rparr> else r)"
  have ex: "\<exists>r \<in> set (db_users db). ur_id r = uc_user_id caller" using user_row_SomeD[OF r(1)] by blast
  have db': "db' = delete_user_sessions (uc_user_id caller) (db\<lparr>db_users := ?up (db_users db)\<rparr>)"
    using assms(1) r ex by (auto simp: rotate_password_def get_user_def row_to_user_def update_password_def)
  have find: "find (\<lambda>r. ur_id r = uc_user_id caller) (?up xs)
      = map_option (\<lambda>r. r\<lparr>ur_password_hash := Some (ac_hash env (rp_new_password body))\<rparr>)
          (find (\<lambda>r. ur_id r = uc_user_id caller) xs)" for xs
    by (induction xs) auto
  have "user_row db' (uc_user_id caller) = Some (r\<lparr>ur_password_hash := Some (ac_hash env (rp_new_password body))\<rparr>)"
    using r(1) find[of "db_users db"] by (simp add: db' delete_user_sessions_def user_row_def)
  with r show ?thesis by (auto simp: db' delete_user_sessions_def)
qed

text \<open>A user deletes only keys of their own: whatever id is asked for, the keys of every other user
  are kept.\<close>

theorem own_key_deletion_is_local:
  assumes "db_wf db" and "delete_own_key env i user db = (resp, db')"
  shows "filter (\<lambda>r. kr_user_id r \<noteq> uc_user_id user) (db_api_keys db')
      = filter (\<lambda>r. kr_user_id r \<noteq> uc_user_id user) (db_api_keys db)
    \<and> db_users db' = db_users db \<and> db_sessions db' = db_sessions db"
proof (cases "list_ex (\<lambda>k. k_id k = i) (list_api_keys (ae_rd (ac_auth env)) (uc_user_id user) db)")
  case False
  with assms(2) show ?thesis by (simp add: delete_own_key_def)
next
  case True
  then obtain r where r: "r \<in> set (db_api_keys db)" "kr_id r = i" "kr_user_id r = uc_user_id user"
    by (auto simp: list_ex_iff list_api_keys_def row_to_api_key_def)
  have "kr_id q = i \<longrightarrow> kr_user_id q = uc_user_id user" if "q \<in> set (db_api_keys db)" for q
    using that r assms(1) by (auto simp: db_wf_def distinct_map inj_on_def)
  then have "filter (\<lambda>q. kr_user_id q \<noteq> uc_user_id user) (filter (\<lambda>q. kr_id q \<noteq> i) (db_api_keys db))
      = filter (\<lambda>q. kr_user_id q \<noteq> uc_user_id user) (db_api_keys db)"
    by (auto intro: filter_cong)
  moreover have "db' = delete_api_key i db" using True assms(2) by (simp add: delete_own_key_def)
  ultimately show ?thesis by (simp add: delete_api_key_def)
qed

text \<open>The set-up form makes an admin only in an empty system: with a user in the table it changes
  nothing.\<close>

theorem setup_runs_once:
  assumes "db_users db \<noteq> []"
  shows "setup_submit env fresh hs body db = (redirect_to ''/ui/login'', db)"
proof -
  have "length (list_users (ae_rd (ac_auth env)) db) = length (db_users db)" by (simp add: list_users_def)
  with assms have "list_users (ae_rd (ac_auth env)) db \<noteq> []" by (metis length_0_conv)
  then show ?thesis by (simp add: setup_submit_def)
qed

subsection \<open>Examples\<close>

definition demo_account :: AccountEnv where
  "demo_account = \<lparr>ac_auth = demo_auth, ac_rfc = (\<lambda>_. ''2026-02-01''), ac_now = 0, ac_uuid = ''s2'',
     ac_token = ''new'', ac_hash = rev, ac_verify = (\<lambda>p h. h = rev p)\<rparr>"

definition demo_caller :: UserContext where
  "demo_caller = \<lparr>uc_user_id = ''u2'', uc_email = ''bob@x.io'', uc_name = ''Bob'', uc_role = UserRole,
     uc_via = ''session'', uc_key_prefix = None, uc_session_id = Some ''s1''\<rparr>"

text \<open>Two users: one with an API key, one with a password and a session.\<close>

definition demo_accounts :: UserDb where
  "demo_accounts = \<lparr>db_users =
      [\<lparr>ur_id = ''u1'', ur_email = ''ann@x.io'', ur_name = ''Ann'', ur_password_hash = None, ur_role = ''user'',
         ur_metadata = ''{}'', ur_created_at = ''2026-01-01 08:00:00'', ur_last_login_at = None\<rparr>,
       \<lparr>ur_id = ''u2'', ur_email = ''bob@x.io'', ur_name = ''Bob'', ur_password_hash = Some ''wp'', ur_role = ''user'',
         ur_metadata = ''{}'', ur_created_at = ''2026-01-01 09:00:00'', ur_last_login_at = None\<rparr>],
     db_api_keys = [\<lparr>kr_id = ''k1'', kr_user_id = ''u1'', kr_key_hash = ''1-kt'', kr_key_prefix = ''tk-1'',
         kr_name = ''laptop'', kr_last_used_at = None, kr_expires_at = None, kr_created_at = ''2026-01-01 08:00:00'',
         kr_revoked = False\<rparr>],
     db_sessions = [\<lparr>ss_id = ''s1'', ss_user_id = ''u2'', ss_session_hash = ''kot'', ss_user_agent = None, ss_ip = None,
         ss_created_at = ''2026-01-01 09:00:00'', ss_expires_at = ''2026-01-31'', ss_last_seen_at = ''2026-01-01 09:00:00''\<rparr>],
     db_usage = []\<rparr>"

lemma demo_accounts_wf: "db_wf demo_accounts"
  by (simp add: demo_accounts_def db_wf_def)

lemmas demo_account_defs = demo_account_def demo_auth_def demo_env_def demo_accounts_def demo_caller_def

theorem login_opens_session_of_prover_witness:
  "\<exists>u. proves demo_account \<lparr>lr_api_key = Some ''tk-1'', lr_email = None, lr_password = None\<rparr> demo_accounts u
     \<and> session_user rev (ae_rd demo_auth) ''2026-01-01'' ''new''
         (snd (login demo_account (\<lambda>_. None) \<lparr>lr_api_key = Some ''tk-1'', lr_email = None, lr_password = None\<rparr> demo_accounts))
       = Some u"
proof -
  let ?body = "\<lparr>lr_api_key = Some ''tk-1'', lr_email = None, lr_password = None\<rparr>"
  let ?run = "login demo_account (\<lambda>_. None) ?body demo_accounts"
  have 1: "?run = (fst ?run, snd ?run)" by (simp only: prod.collapse)
  have 2: "hr_status (fst ?run) = 200"
    by (simp add: demo_account_defs login_def get_user_by_api_key_def key_match_def user_row_def finish_login_def
        new_session_def create_session_cookie_def create_session_def touch_last_login_def row_to_user_def Let_def)
  have 3: "''2026-01-01'' < ac_rfc demo_account (ac_now demo_account + SESSION_TTL_HOURS * 3600)"
    by (simp add: demo_account_def)
  have 4: "ae_sha (ac_auth demo_account) = rev" "ac_token demo_account = ''new''"
    by (simp_all add: demo_account_def demo_auth_def)
  from login_opens_session_of_prover [OF 1 2 3, of "ae_rd demo_auth"] show ?thesis unfolding 4 by blast
qed

theorem account_endpoints_keep_schema_witness:
  "db_wf (snd (logout demo_caller demo_accounts)) \<and> db_sessions (snd (logout demo_caller demo_accounts)) = []"
proof -
  have "db_sessions (snd (logout demo_caller demo_accounts)) = []"
    by (simp add: logout_def demo_account_defs delete_session_def)
  with account_endpoints_keep_schema [OF demo_accounts_wf, where user = demo_caller] show ?thesis by blast
qed

theorem account_management_needs_admin_witness:
  "delete_user_endpoint ''u1'' demo_caller demo_accounts = (error_json 403 ''admin only'', demo_accounts)"
proof -
  have "\<not> is_admin demo_caller" by (simp add: is_admin_def demo_caller_def)
  from account_management_needs_admin [OF this] show ?thesis by blast
qed

theorem rotation_ends_every_session_witness:
  "db_sessions (snd (rotate_password demo_account demo_caller \<lparr>rp_current_password = ''pw'', rp_new_password = ''new''\<rparr>
      demo_accounts)) = []"
proof -
  let ?body = "\<lparr>rp_current_password = ''pw'', rp_new_password = ''new''\<rparr>"
  let ?run = "rotate_password demo_account demo_caller ?body demo_accounts"
  have 1: "?run = (fst ?run, snd ?run)" by (simp only: prod.collapse)
  have 2: "hr_status (fst ?run) = 200"
    by (simp add: demo_account_defs rotate_password_def get_user_def user_row_def row_to_user_def update_password_def)
  have 3: "filter (\<lambda>r. ss_user_id r \<noteq> uc_user_id demo_caller) (db_sessions demo_accounts) = []"
    by (simp add: demo_account_defs)
  from rotation_ends_every_session [OF 1 2] 3 show ?thesis by (simp only:)
qed

theorem own_key_deletion_is_local_witness:
  "filter (\<lambda>r. kr_user_id r \<noteq> ''u2'') (db_api_keys (snd (delete_own_key demo_account ''k1'' demo_caller demo_accounts)))
     = filter (\<lambda>r. kr_user_id r \<noteq> ''u2'') (db_api_keys demo_accounts)"
proof -
  have u: "uc_user_id demo_caller = ''u2''" by (simp add: demo_caller_def)
  let ?run = "delete_own_key demo_account ''k1'' demo_caller demo_accounts"
  have "?run = (fst ?run, snd ?run)" by (simp only: prod.collapse)
  from own_key_deletion_is_local [OF demo_accounts_wf this, unfolded u] show ?thesis by blast
qed

theorem setup_runs_once_witness:
  "setup_submit demo_account ''s2'' (\<lambda>_. None) \<lparr>lr_api_key = None, lr_email = Some ''eve@x.io'', lr_password = Some ''password''\<rparr>
     demo_accounts = (redirect_to ''/ui/login'', demo_accounts)"
proof -
  have "db_users demo_accounts \<noteq> []" by (simp add: demo_accounts_def)
  then show ?thesis by (rule setup_runs_once)
qed

end
