(* ===== verification/Startup.thy ===== *)
theory Startup
  imports AccountEndpoints ConfigService RateLimit QueryLog
begin

section \<open>Start of the server\<close>

text \<open>
  \<open>src/main.rs\<close> and the shared state of \<open>src/lib.rs\<close>: what \<open>main\<close> builds from the configuration,
  the first administrator, the retention pruner and the \<open>check\<close> command. \<open>App\<close> is the part of
  \<open>AppState\<close> that changes; the detached tasks and the tracing set-up are left out. The data a
  start finds is \<open>Stored\<close>; opening the database and binding the address are parameters that
  may fail. Printed text is left out.
\<close>

record App =
  app_pipe :: Pipeline
  app_disk :: Disk
  app_limiter :: RateLimiter

abbreviation app_config :: "App \<Rightarrow> RouterConfig" where
  "app_config ap \<equiv> pl_config (app_pipe ap)"

abbreviation app_registry :: "App \<Rightarrow> ProviderRegistry" where
  "app_registry ap \<equiv> pl_registry (app_pipe ap)"

abbreviation app_oauth :: "App \<Rightarrow> OAuthManager" where
  "app_oauth ap \<equiv> pl_oauth (app_pipe ap)"

record StartEnv =
  sx_service :: ServiceEnv
  sx_account :: AccountEnv
  sx_file :: "string \<Rightarrow> bytes option"
  sx_fresh_key :: bytes
  sx_random18 :: "u8 list"
  sx_now :: instant
  sx_open_error :: "string option"
  sx_bind_error :: "string \<Rightarrow> string option"

record Stored =
  st_users :: UserDb
  st_credentials :: "string \<rightharpoonup> bytes \<times> bytes"
  st_oauth_config :: "string \<rightharpoonup> OAuthConfig"
  st_prices :: PricingStore

subsection \<open>What the configuration determines\<close>

definition start_registry :: "RouterConfig \<Rightarrow> ProviderRegistry" where
  "start_registry cfg = (case from_configs (providers cfg) of Inr r \<Rightarrow> r | Inl _ \<Rightarrow> [])"

definition start_limiter :: "RateLimitConfig \<Rightarrow> instant \<Rightarrow> RateLimiter" where
  "start_limiter r now =
     (if rl_enabled r
      then limiter_new (refill_per_minute (rl_per_key r)) (burst (rl_per_key r))
             (refill_per_minute (rl_global r)) (burst (rl_global r)) now
      else limiter_disabled now)"

fun master_key_error_text :: "MasterKeyError \<Rightarrow> string" where
  "master_key_error_text Missing =
     ''ROUTER_MASTER_KEY (or ROUTER_MASTER_KEY_FILE) is required when [auth] is enabled. '' @
     ''Generate one with: head -c 32 /dev/urandom | base64''"
| "master_key_error_text (BadFileLength n) = ''ROUTER_MASTER_KEY_FILE is not 32 bytes (got '' @ show_nat n @ '')''"
| "master_key_error_text BadFormat =
     ''ROUTER_MASTER_KEY could not be decoded as hex (64 chars) or base64 (44 chars) or raw 32 bytes''"
| "master_key_error_text Decrypt = ''decrypt failed: ciphertext is malformed or wrong master key''"
| "master_key_error_text BadBase64 = ''encrypted blob is not valid base64''"

definition start_master :: "StartEnv \<Rightarrow> RouterConfig \<Rightarrow> string + MasterKey" where
  "start_master env cfg =
     (let cy = se_crypto (sx_service env); var = ae_var (ac_auth (sx_account env)) in
      if au_enabled (auth cfg)
      then (case from_env_strict cy (sx_file env) var of
          Inr mk \<Rightarrow> Inr mk
        | Inl e \<Rightarrow> Inl (master_key_error_text e @ newline @ newline
             @ ''Hint: generate one with: head -c 32 /dev/urandom | base64''))
      else from_env_or_generate cy (sx_file env) var (sx_fresh_key env))"

subsection \<open>The first administrator\<close>

definition generate_admin_password :: "u8 list \<Rightarrow> string" where
  "generate_admin_password random18 = base64_url_encode random18"

definition bootstrap_admin_if_needed :: "AccountEnv \<Rightarrow> u8 list \<Rightarrow> UserDb \<Rightarrow> (string + unit) \<times> UserDb" where
  "bootstrap_admin_if_needed env random18 db =
     (if list_users (ae_rd (ac_auth env)) db \<noteq> [] then (Inr (), db)
      else (case create_user (ac_uuid env) (ae_ts (ac_auth env)) (ac_now env) ''admin@local'' ''Admin''
               (Some (ac_hash env (generate_admin_password random18))) AdminRole db of
          (Inl e, db') \<Rightarrow> (Inl e, db') | (Inr _, db') \<Rightarrow> (Inr (), db')))"

subsection \<open>The start\<close>

definition new_app :: "RouterConfig \<Rightarrow> MasterKey \<Rightarrow> Stored \<Rightarrow> instant \<Rightarrow> UserDb \<Rightarrow> Disk \<Rightarrow> App" where
  "new_app cfg mk st now db dk =
     \<lparr>app_pipe = \<lparr>pl_registry = start_registry cfg, pl_config = cfg, pl_db = db, pl_health = Map.empty,
        pl_master = mk, pl_oauth = oauth_new (keystore_new mk (st_credentials st)) (st_oauth_config st),
        pl_pricing = snd (seed_defaults (st_prices st)), pl_writes = []\<rparr>,
      app_disk = dk, app_limiter = start_limiter (ratelimit cfg) now\<rparr>"

text \<open>\<open>main\<close>: the running state or the error it returns, with the file and the users it leaves.\<close>

definition main :: "StartEnv \<Rightarrow> Disk \<Rightarrow> Stored \<Rightarrow> (string + App) \<times> Disk \<times> UserDb" where
  "main env dk st = (case load (sx_service env) dk of
      (Failed e, dk') \<Rightarrow> (Inl e, dk', st_users st)
    | (Panics, dk') \<Rightarrow> (Inl ''panic'', dk', st_users st)
    | (Done cfg, dk') \<Rightarrow> (case sx_open_error env of
          Some e \<Rightarrow> (Inl e, dk', st_users st)
        | None \<Rightarrow> (case start_master env cfg of
              Inl e \<Rightarrow> (Inl e, dk', st_users st)
            | Inr mk \<Rightarrow> (case (if au_enabled (auth cfg)
                  then bootstrap_admin_if_needed (sx_account env) (sx_random18 env) (st_users st)
                  else (Inr (), st_users st)) of
                (Inl e, db) \<Rightarrow> (Inl e, dk', db)
              | (Inr _, db) \<Rightarrow> (case sx_bind_error env (sv_bind (server cfg)) of
                    Some e \<Rightarrow> (Inl e, dk', db)
                  | None \<Rightarrow> (Inr (new_app cfg mk st (sx_now env) db dk'), dk', db))))))"

subsection \<open>The retention pruner\<close>

text \<open>
  One hourly round. \<open>cutoff\<close> is the text of \<open>datetime('now', '-N days')\<close>. A delete that would leave
  an attempt without its request violates the foreign key, and SQLite undoes the whole statement.
\<close>

definition expired :: "string \<Rightarrow> string \<times> RequestLog \<Rightarrow> bool" where
  "expired cutoff row \<longleftrightarrow> fst row < cutoff"

definition prune_delete :: "string \<Rightarrow> LogDb \<Rightarrow> (string + nat) \<times> LogDb" where
  "prune_delete cutoff db =
     (let old = filter (expired cutoff) (ld_requests db) in
      if list_ex (\<lambda>a. list_ex (\<lambda>row. lq_id (snd row) = la_request_id a) old) (ld_attempts db)
      then (Inl ''FOREIGN KEY constraint failed'', db)
      else (Inr (length old), db\<lparr>ld_requests := filter (\<lambda>row. \<not> expired cutoff row) (ld_requests db)\<rparr>))"

definition prune_round :: "(u32 \<Rightarrow> string) \<Rightarrow> RouterConfig \<Rightarrow> LogDb \<Rightarrow> LogDb" where
  "prune_round cutoff cfg db = (if log_retention_days cfg = 0 then db
     else snd (prune_delete (cutoff (log_retention_days cfg)) db))"

subsection \<open>The check command\<close>

text \<open>The arguments behind \<open>check\<close>: an exit code, or the path to check.\<close>

fun check_args :: "string list \<Rightarrow> string option \<Rightarrow> nat + string option" where
  "check_args [] path = Inr path"
| "check_args (a # as) path =
     (if a = ''--config'' \<or> a = ''-c'' then (case as of [] \<Rightarrow> Inl 2 | v # rest \<Rightarrow> check_args rest (Some v))
      else if a = ''-h'' \<or> a = ''--help'' then Inl 0
      else Inl 2)"

datatype FileRead = Content string | NotFound | ReadError string

definition exit_of :: "ValidationOutcome \<Rightarrow> nat" where
  "exit_of out = (if has_errors out then 1 else if has_warnings out then 2 else 0)"

definition run_check :: "TomlEnv \<Rightarrow> (string \<Rightarrow> FileRead) \<Rightarrow> string option \<Rightarrow> string list \<Rightarrow> nat" where
  "run_check te read config_var args = (case check_args args None of
      Inl code \<Rightarrow> code
    | Inr path \<Rightarrow> (case read (unwrap_or ''token-dealer.toml'' (opt_or path config_var)) of
          NotFound \<Rightarrow> 2 | ReadError _ \<Rightarrow> 1 | Content raw \<Rightarrow> exit_of (validate te raw)))"

definition healthcheck_port :: "(string \<Rightarrow> u16 option) \<Rightarrow> string option \<Rightarrow> u16" where
  "healthcheck_port parse port_var = unwrap_or 8080 (parse (unwrap_or ''8080'' port_var))"

text \<open>Which of its three programs the binary runs.\<close>

datatype Command = Healthcheck | Check "string list" | Serve

definition command_of :: "string list \<Rightarrow> Command" where
  "command_of args = (if ''--healthcheck'' \<in> set args then Healthcheck
     else case dropWhile (\<lambda>a. a \<noteq> ''check'') args of [] \<Rightarrow> Serve | _ # rest \<Rightarrow> Check rest)"

subsection \<open>The check command and the start\<close>

lemma check_code: "exit_of (validate te raw) \<noteq> 1 \<longleftrightarrow> (\<exists>cfg. config_from_str te raw = Some cfg \<and> valid_config te cfg)"
  using accepted_iff [of te raw] by (auto simp: exit_of_def)

lemma migrated_already:
  assumes "te_parse (se_toml env) txt = Inr tree" "has_ratelimit tree" "\<not> has_plaintext_key tree"
  shows "migrate_v0_1_if_needed env txt dk = (Done (), dk)"
  using assms by (simp add: migrate_v0_1_if_needed_def)

text \<open>C26. For a file that needs no migration, the check command exits with 1 exactly when a start would
  refuse the configuration, whatever else the file says.\<close>

theorem check_predicts_load:
  assumes "dk_config dk = Some raw" and "te_parse (se_toml env) raw = Inr tree"
    and "has_ratelimit tree" and "\<not> has_plaintext_key tree"
    and "check_args args None = Inr path"
    and "read (unwrap_or ''token-dealer.toml'' (opt_or path var)) = Content raw"
  shows "run_check (se_toml env) read var args = 1 \<longleftrightarrow> (\<forall>cfg. fst (load env dk) \<noteq> Done cfg)"
proof -
  have code: "run_check (se_toml env) read var args = exit_of (validate (se_toml env) raw)"
    using assms(5,6) by (simp add: run_check_def)
  have load: "load env dk = (parse_config env load_rest raw, dk)"
    using assms(1) migrated_already [OF assms(2-4)] by (simp add: load_def)
  show ?thesis unfolding code load fst_conv parse_config_Done using check_code [of "se_toml env" raw] by blast
qed

subsection \<open>Registry at the start\<close>

lemma lookup_known: "lookup ty = None \<longleftrightarrow> ty = Generic"
  by (cases ty) simp_all

lemma build_adapter_ok: "(\<exists>a. build_adapter p = Inr a) \<longleftrightarrow> \<not> (pc_type p = Generic \<and> pc_base_url p = None)"
  by (cases "pc_base_url p"; cases "lookup (pc_type p)")
    (auto simp: build_adapter_def Let_def lookup_known)

lemma from_configs_loop_ok:
  "(\<exists>r'. from_configs_loop ps r = Inr r') \<longleftrightarrow> \<not> list_ex (\<lambda>p. pc_type p = Generic \<and> pc_base_url p = None) ps"
proof (induction ps arbitrary: r)
  case (Cons p ps)
  show ?case
  proof (cases "build_adapter p")
    case (Inl e)
    then show ?thesis using build_adapter_ok [of p] by auto
  next
    case (Inr a)
    then show ?thesis using build_adapter_ok [of p] Cons.IH by auto
  qed
qed simp

lemma from_configs_loop_keys:
  "from_configs_loop ps r = Inr r' \<Longrightarrow> set (map fst r') = set (map fst r) \<union> pc_id ` set ps"
proof (induction ps arbitrary: r)
  case (Cons p ps)
  then obtain a where "from_configs_loop ps (reg_insert (pc_id p) a r) = Inr r'" by (auto simp: and_then_Inr_iff)
  from Cons.IH [OF this] show ?case by (simp add: keys_reg_insert [unfolded set_map] image_Un)
qed simp

lemma from_configs_keys: "from_configs ps = Inr r \<Longrightarrow> set (map fst r) = pc_id ` set ps"
  using from_configs_loop_keys [of ps "[]"] by (simp add: from_configs_def)

text \<open>At the start one provider without a usable base URL empties the whole registry: either every
  configured provider is registered, or none is.\<close>

theorem one_bad_provider_empties_registry:
  "set (reg_ids (start_registry cfg))
     = (if list_ex (\<lambda>p. pc_type p = Generic \<and> pc_base_url p = None) (providers cfg) then {}
        else pc_id ` set (providers cfg))"
proof (cases "from_configs (providers cfg)")
  case (Inl e)
  then have "list_ex (\<lambda>p. pc_type p = Generic \<and> pc_base_url p = None) (providers cfg)"
    using from_configs_loop_ok [of "providers cfg" "[]"] by (auto simp: from_configs_def)
  with Inl show ?thesis by (simp add: start_registry_def reg_ids_def)
next
  case (Inr r)
  then have "\<not> list_ex (\<lambda>p. pc_type p = Generic \<and> pc_base_url p = None) (providers cfg)"
    using from_configs_loop_ok [of "providers cfg" "[]"] by (auto simp: from_configs_def)
  moreover have "set (reg_ids r) = pc_id ` set (providers cfg)"
    using from_configs_keys [OF Inr] by (simp add: reg_ids_def)
  ultimately show ?thesis using Inr by (simp add: start_registry_def)
qed

subsection \<open>The first administrator\<close>

text \<open>On an empty user table the start creates exactly one user, an administrator, who can log in with
  the printed password; afterwards neither another start nor the set-up form changes the users.\<close>

theorem bootstrap_admin_can_log_in:
  assumes "db_wf db" and "db_users db = []"
    and "ac_verify env2 (generate_admin_password q) (ac_hash env (generate_admin_password q))"
  shows "case bootstrap_admin_if_needed env q db of
     (Inr _, db') \<Rightarrow> map (\<lambda>r. (ur_email r, ur_role r)) (db_users db') = [(''admin@local'', ''admin'')]
        \<and> hr_status (fst (login env2 hs \<lparr>lr_api_key = None, lr_email = Some ''admin@local'',
             lr_password = Some (generate_admin_password q)\<rparr> db')) = 200
        \<and> bootstrap_admin_if_needed env3 q3 db' = (Inr (), db')
        \<and> setup_submit env3 fresh hs3 form db' = (redirect_to ''/ui/login'', db')
   | (Inl _, _) \<Rightarrow> False"
proof -
  let ?pw = "generate_admin_password q"
  let ?row = "\<lparr>ur_id = ac_uuid env, ur_email = ''admin@local'', ur_name = ''Admin'',
     ur_password_hash = Some (ac_hash env ?pw), ur_role = ''admin'', ur_metadata = ''{}'',
     ur_created_at = ae_ts (ac_auth env), ur_last_login_at = None\<rparr>"
  let ?db = "db\<lparr>db_users := [?row]\<rparr>"
  have none: "list_users rd db = []" for rd using assms(2) by (simp add: list_users_def)
  have mail: "to_lowercase (trim ''admin@local'') = ''admin@local''" "to_lowercase ''admin@local'' = ''admin@local''"
    by code_simp+
  have boot: "bootstrap_admin_if_needed env q db = (Inr (), ?db)"
    using assms(2) by (simp add: bootstrap_admin_if_needed_def none create_user_def mail Let_def)
  have some: "list_users rd ?db \<noteq> []" for rd by (simp add: list_users_def)
  have sessions: "db_sessions db = []" using assms(1,2) by (simp add: db_wf_def)
  have ok: "hr_status (fst (login env2 hs \<lparr>lr_api_key = None, lr_email = Some ''admin@local'',
      lr_password = Some ?pw\<rparr> ?db)) = 200"
    using assms(3) by (simp add: login_def password_login_def get_user_by_email_def mail row_to_user_def
        finish_login_def new_session_def create_session_cookie_def create_session_def touch_last_login_def
        user_row_def sessions Let_def)
  show ?thesis unfolding boot using ok some
    by (simp add: bootstrap_admin_if_needed_def [of env3] setup_submit_def)
qed

subsection \<open>Retention\<close>

lemma prune_blocked:
  assumes "(ts, r) \<in> set (ld_requests db)" "a \<in> set (ld_attempts db)" "la_request_id a = lq_id r" "ts < cutoff"
  shows "prune_delete cutoff db = (Inl ''FOREIGN KEY constraint failed'', db)"
proof -
  have "list_ex (\<lambda>a. list_ex (\<lambda>row. lq_id (snd row) = la_request_id a)
      (filter (expired cutoff) (ld_requests db))) (ld_attempts db)"
    unfolding list_ex_iff set_filter expired_def using assms by force
  then show ?thesis by (simp add: prune_delete_def Let_def)
qed

text \<open>C29. The retention pruner is stopped by its first expired request that has an attempt record: from
  then on every round fails as a whole, and no request, however old, is ever deleted.\<close>

theorem retention_blocked_for_good:
  assumes "(ts, r) \<in> set (ld_requests db)" and "a \<in> set (ld_attempts db)" and "la_request_id a = lq_id r"
    and "list_all (\<lambda>(cutoff, cfg). ts < cutoff (log_retention_days cfg)) rounds"
  shows "fold (\<lambda>(cutoff, cfg). prune_round cutoff cfg) rounds db = db"
  using assms(4)
proof (induction rounds)
  case (Cons x rounds)
  obtain cutoff cfg where x: "x = (cutoff, cfg)" by (cases x)
  with Cons have "prune_round cutoff cfg db = db"
    by (simp add: prune_round_def prune_blocked [OF assms(1-3)])
  with Cons x show ?case by simp
qed simp

lemma prune_keeps_wf:
  assumes "log_wf db"
  shows "log_wf (snd (prune_delete cutoff db))"
proof (cases "list_ex (\<lambda>a. list_ex (\<lambda>row. lq_id (snd row) = la_request_id a)
    (filter (expired cutoff) (ld_requests db))) (ld_attempts db)")
  case True
  with assms show ?thesis by (simp add: prune_delete_def Let_def)
next
  case False
  then have keep: "\<not> expired cutoff row" if "a \<in> set (ld_attempts db)" "row \<in> set (ld_requests db)"
    "lq_id (snd row) = la_request_id a" for a row
    using that by (cases row) (fastforce simp: list_ex_iff)
  have "la_request_id a \<in> (lq_id \<circ> snd) ` {row \<in> set (ld_requests db). \<not> expired cutoff row}"
    if a: "a \<in> set (ld_attempts db)" for a
  proof -
    from assms a have "la_request_id a \<in> (lq_id \<circ> snd) ` set (ld_requests db)"
      by (auto simp: log_wf_def has_request_def)
    then obtain row where "row \<in> set (ld_requests db)" "la_request_id a = lq_id (snd row)" by auto
    with keep [OF a] show ?thesis by (auto intro!: image_eqI [of _ _ row])
  qed
  with False assms show ?thesis
    by (simp add: prune_delete_def Let_def log_wf_def has_request_def distinct_map_filter)
qed

text \<open>A pruning round never breaks the link of attempts to requests, and deletes only expired requests.\<close>

theorem prune_is_safe:
  assumes "log_wf db"
  shows "log_wf (prune_round cutoff cfg db)
    \<and> ld_attempts (prune_round cutoff cfg db) = ld_attempts db
    \<and> filter (\<lambda>row. \<not> expired (cutoff (log_retention_days cfg)) row) (ld_requests (prune_round cutoff cfg db))
        = filter (\<lambda>row. \<not> expired (cutoff (log_retention_days cfg)) row) (ld_requests db)"
  using prune_keeps_wf [OF assms] assms
  by (simp add: prune_round_def) (simp add: prune_delete_def Let_def)

subsection \<open>Examples\<close>

definition old_request :: RequestLog where
  "old_request = \<lparr>lq_id = ''r1'', lq_tier = ''simple'', lq_requested_model = None, lq_routed_model = ''m'',
     lq_routed_provider = ''a'', lq_total_latency_ms = 5, lq_input_tokens = None, lq_output_tokens = None,
     lq_cache_read_tokens = None, lq_cost_usd = None, lq_truncated = False, lq_fallback_count = 0,
     lq_finished = True, lq_finish_reason = None, lq_client_ip = None, lq_user_id = None, lq_user_agent = None\<rparr>"

definition old_attempt :: AttemptLog where
  "old_attempt = \<lparr>la_request_id = ''r1'', la_attempt_number = 1, la_provider = ''a'', la_model = ''m'',
     la_outcome = ''success'', la_error_code = None, la_error_message = None, la_latency_ms = 5,
     la_retry_wait_ms = None\<rparr>"

text \<open>Two old requests; the first has an attempt.\<close>

definition old_logs :: LogDb where
  "old_logs = \<lparr>ld_requests = [(''2026-01-01'', old_request), (''2026-01-02'', old_request\<lparr>lq_id := ''r2''\<rparr>)],
     ld_attempts = [old_attempt], ld_health = []\<rparr>"

definition keep_a_week :: "(u32 \<Rightarrow> string) \<times> RouterConfig" where
  "keep_a_week = (\<lambda>_. ''2026-03-01'', config_default\<lparr>log_retention_days := 7\<rparr>)"

theorem retention_blocked_for_good_witness:
  "fold (\<lambda>(cutoff, cfg). prune_round cutoff cfg) [keep_a_week, keep_a_week] old_logs = old_logs"
proof (rule retention_blocked_for_good [where ts = "''2026-01-01''" and r = old_request and a = old_attempt])
  show "list_all (\<lambda>(cutoff, cfg). ''2026-01-01'' < cutoff (log_retention_days cfg)) [keep_a_week, keep_a_week]"
    by (simp add: keep_a_week_def) code_simp?
qed (simp_all add: old_logs_def old_attempt_def old_request_def)

theorem prune_is_safe_witness:
  "log_wf (prune_round (fst keep_a_week) (snd keep_a_week) (old_logs\<lparr>ld_attempts := []\<rparr>))
     \<and> ld_requests (prune_round (fst keep_a_week) (snd keep_a_week) (old_logs\<lparr>ld_attempts := []\<rparr>)) = []"
proof -
  have "log_wf (old_logs\<lparr>ld_attempts := []\<rparr>)" by (simp add: log_wf_def old_logs_def old_request_def)
  from prune_is_safe [OF this, of "fst keep_a_week" "snd keep_a_week"]
  have 1: "log_wf (prune_round (fst keep_a_week) (snd keep_a_week) (old_logs\<lparr>ld_attempts := []\<rparr>))" by blast
  have 2: "ld_requests (prune_round (fst keep_a_week) (snd keep_a_week) (old_logs\<lparr>ld_attempts := []\<rparr>)) = []"
    by (simp add: prune_round_def prune_delete_def keep_a_week_def old_logs_def expired_def)
  from 1 2 show ?thesis by (rule conjI)
qed

theorem check_predicts_load_witness:
  "run_check (se_toml (toy_service [(''doc'', [(''ratelimit'', TTable []), (''server'', TString ''x'')])] True None))
       (\<lambda>p. if p = ''a.toml'' then Content ''doc'' else NotFound) None [''-c'', ''a.toml''] = 1
     \<longleftrightarrow> (\<forall>cfg. fst (load (toy_service [(''doc'', [(''ratelimit'', TTable []), (''server'', TString ''x'')])] True None)
            \<lparr>dk_config = Some ''doc'', dk_backup = None\<rparr>) \<noteq> Done cfg)"
  by (rule check_predicts_load [where raw = "''doc''" and path = "Some ''a.toml''"
        and tree = "[(''ratelimit'', TTable []), (''server'', TString ''x'')]"])
    (simp_all add: toy_service_def ok_or_def has_ratelimit_def has_plaintext_key_def auth_keys_def)

theorem bootstrap_admin_can_log_in_witness:
  "\<exists>db'. bootstrap_admin_if_needed demo_account [1, 2, 3] db_empty = (Inr (), db')
     \<and> hr_status (fst (login demo_account (\<lambda>_. None) \<lparr>lr_api_key = None, lr_email = Some ''admin@local'',
             lr_password = Some (generate_admin_password [1, 2, 3])\<rparr> db')) = 200"
proof -
  have 1: "db_wf db_empty" "db_users db_empty = []" by (simp_all add: db_wf_def db_empty_def)
  have 2: "ac_verify demo_account (generate_admin_password [1, 2, 3]) (ac_hash demo_account (generate_admin_password [1, 2, 3]))"
    by (simp add: demo_account_def)
  obtain res db' where b: "bootstrap_admin_if_needed demo_account [1, 2, 3] db_empty = (res, db')" by (rule prod.exhaust)
  note run = bootstrap_admin_can_log_in [OF 1 2, of "\<lambda>_. None" demo_account "[1, 2, 3]", unfolded b prod.case]
  show ?thesis
  proof (cases res)
    case (Inl e)
    then show ?thesis using run by simp
  next
    case (Inr u)
    have "hr_status (fst (login demo_account (\<lambda>_. None) \<lparr>lr_api_key = None, lr_email = Some ''admin@local'',
        lr_password = Some (generate_admin_password [1, 2, 3])\<rparr> db')) = 200"
      by (rule run [unfolded Inr sum.case, THEN conjunct2, THEN conjunct1])
    with b Inr show ?thesis by (metis old.unit.exhaust)
  qed
qed

end
