(* ===== verification/Admin.thy ===== *)
theory Admin
  imports Startup
begin

section \<open>The admin API\<close>

text \<open>
  \<open>src/server/admin.rs\<close>: the handlers behind \<open>/admin/\<close> that edit the providers, tiers and rules of
  the configuration, the stored credentials and the OAuth set-up. \<open>App\<close> is the part of the shared
  state they change: the pipeline (its registry, configuration, key store and OAuth manager are the
  handles every handler shares) and the disk of the configuration service. The outgoing calls of
  the adapters and of the OAuth manager, the random values, the clock and the process environment
  are fields of \<open>AdminEnv\<close>. Handlers get the typed body that serde produces.
\<close>

record AdminEnv =
  am_service :: ServiceEnv
  am_adapters :: AdapterEnv
  am_http :: http
  am_codec :: Codec
  am_nonce :: "nat \<Rightarrow> bytes"
  am_random :: "u8 list"
  am_uuid :: string
  am_sha256 :: "string \<Rightarrow> u8 list"
  am_unix :: nat
  am_now_ms :: nat
  am_var :: "string \<Rightarrow> string option"

abbreviation am_crypto :: "AdminEnv \<Rightarrow> Crypto" where
  "am_crypto env \<equiv> se_crypto (am_service env)"

definition set_registry :: "ProviderRegistry \<Rightarrow> App \<Rightarrow> App" where
  "set_registry r ap = ap\<lparr>app_pipe := (app_pipe ap)\<lparr>pl_registry := r\<rparr>\<rparr>"

definition set_oauth :: "OAuthManager \<Rightarrow> App \<Rightarrow> App" where
  "set_oauth m ap = ap\<lparr>app_pipe := (app_pipe ap)\<lparr>pl_oauth := m\<rparr>\<rparr>"

definition set_keys :: "KeyStore \<Rightarrow> App \<Rightarrow> App" where
  "set_keys ks ap = set_oauth ((app_oauth ap)\<lparr>oa_keys := ks\<rparr>) ap"

lemma app_updates [simp]:
  "app_config (set_registry r ap) = app_config ap" "app_registry (set_registry r ap) = r"
  "app_disk (set_registry r ap) = app_disk ap" "app_oauth (set_registry r ap) = app_oauth ap"
  "app_config (set_oauth m ap) = app_config ap" "app_registry (set_oauth m ap) = app_registry ap"
  "app_disk (set_oauth m ap) = app_disk ap" "app_oauth (set_oauth m ap) = m"
  "app_config (set_keys ks ap) = app_config ap" "app_registry (set_keys ks ap) = app_registry ap"
  "app_disk (set_keys ks ap) = app_disk ap" "oa_keys (app_oauth (set_keys ks ap)) = ks"
  by (simp_all add: set_registry_def set_oauth_def set_keys_def)

subsection \<open>Edits of the configuration\<close>

definition config_update :: "AdminEnv \<Rightarrow> (RouterConfig \<Rightarrow> RouterConfig) \<Rightarrow> App \<Rightarrow> (string + unit) \<times> App" where
  "config_update env f ap =
     (case update_with (am_service env) f (app_config ap) (app_disk ap) of (r, cfg, dk) \<Rightarrow>
       ((case r of Done _ \<Rightarrow> Inr () | Failed e \<Rightarrow> Inl e | Panics \<Rightarrow> Inl ''panic''),
        ap\<lparr>app_pipe := (app_pipe ap)\<lparr>pl_config := cfg\<rparr>, app_disk := dk\<rparr>))"

definition save_failed :: "string \<Rightarrow> HttpResponse" where
  "save_failed e = error_json 500 (''save failed: '' @ e)"

definition put_provider :: "ProviderConfig \<Rightarrow> RouterConfig \<Rightarrow> RouterConfig" where
  "put_provider p cfg = cfg\<lparr>providers := filter (\<lambda>q. pc_id q \<noteq> pc_id p) (providers cfg) @ [p]\<rparr>"

definition drop_provider :: "string \<Rightarrow> RouterConfig \<Rightarrow> RouterConfig" where
  "drop_provider i cfg = cfg\<lparr>providers := filter (\<lambda>q. pc_id q \<noteq> i) (providers cfg)\<rparr>"

definition add_provider :: "AdminEnv \<Rightarrow> ProviderConfig \<Rightarrow> App \<Rightarrow> HttpResponse \<times> App" where
  "add_provider env body ap = (case config_update env (put_provider body) ap of
      (Inl e, ap') \<Rightarrow> (save_failed e, ap')
    | (Inr _, ap') \<Rightarrow> (case reg_add body (app_registry ap') of
          (Inl e, r) \<Rightarrow> (error_json 500 e, set_registry r ap')
        | (Inr _, r) \<Rightarrow> (json_response 201 (Object [(''status'', String ''added''),
              (''id'', String (pc_id body))]), set_registry r ap')))"

definition remove_provider :: "AdminEnv \<Rightarrow> string \<Rightarrow> App \<Rightarrow> HttpResponse \<times> App" where
  "remove_provider env i ap =
     (if i = [] then (error_json 400 ''id required'', ap)
      else (case config_update env (drop_provider i) ap of
          (Inl e, ap') \<Rightarrow> (save_failed e, ap')
        | (Inr _, ap') \<Rightarrow> (case reg_remove i (app_registry ap') of (removed, r) \<Rightarrow>
            ((if removed then json_response 200 (Object [(''status'', String ''removed''), (''id'', String i)])
              else error_json 404 (''provider '' @ i @ '' not found'')), set_registry r ap'))))"

record TierUpdate =
  tu_primary :: string
  tu_fallbacks :: "string list"
  tu_allow_tier_downgrade :: bool
  tu_downgrade_to :: "string option"
  tu_min_context_window :: "u32 option"
  tu_timeouts :: "TierTimeoutsSet option"

definition tier_of_update :: "TierUpdate \<Rightarrow> TierConfig" where
  "tier_of_update b = \<lparr>ti_primary = tu_primary b, ti_fallbacks = tu_fallbacks b,
     ti_allow_tier_downgrade = tu_allow_tier_downgrade b, ti_downgrade_to = tu_downgrade_to b,
     ti_min_context_window = tu_min_context_window b,
     ti_timeouts = unwrap_or timeouts_set_default (tu_timeouts b)\<rparr>"

definition put_tier :: "string \<Rightarrow> TierConfig \<Rightarrow> RouterConfig \<Rightarrow> RouterConfig" where
  "put_tier name t cfg = cfg\<lparr>tiers := row_put name t (tiers cfg)\<rparr>"

definition update_tier :: "AdminEnv \<Rightarrow> string \<Rightarrow> TierUpdate \<Rightarrow> App \<Rightarrow> HttpResponse \<times> App" where
  "update_tier env tier body ap =
     (if tier_parse tier = None then (error_json 400 (''unknown tier: '' @ tier), ap)
      else (case config_update env (put_tier tier (tier_of_update body)) ap of
          (Inl e, ap') \<Rightarrow> (save_failed e, ap')
        | (Inr _, ap') \<Rightarrow> (json_response 200 (Object [(''status'', String ''updated''),
              (''tier'', String tier)]), ap')))"

definition save_config :: "AdminEnv \<Rightarrow> App \<Rightarrow> HttpResponse \<times> App" where
  "save_config env ap = (case save_to_disk (am_service env) (app_config ap) (app_disk ap) of (r, dk) \<Rightarrow>
     ((case r of Done _ \<Rightarrow> status_json ''saved'' | Failed e \<Rightarrow> save_failed e | Panics \<Rightarrow> save_failed ''panic''),
      ap\<lparr>app_disk := dk\<rparr>))"

definition reload_config :: "AdminEnv \<Rightarrow> App \<Rightarrow> HttpResponse \<times> App" where
  "reload_config env ap = (case reload (am_service env) (app_config ap) (app_disk ap) of (r, cfg) \<Rightarrow>
     ((case r of Done _ \<Rightarrow> status_json ''reloaded''
       | Failed e \<Rightarrow> error_json 500 e | Panics \<Rightarrow> error_json 500 ''panic''),
      ap\<lparr>app_pipe := (app_pipe ap)\<lparr>pl_config := cfg\<rparr>\<rparr>))"

record AddRuleRequest =
  ar_index :: "nat option"
  ar_has_tools :: "bool option"
  ar_input_tokens_gt :: "u32 option"
  ar_prompt_contains :: "string list option"
  ar_tier :: string

definition rule_of_request :: "AddRuleRequest \<Rightarrow> DetectionRule" where
  "rule_of_request b = \<lparr>dr_condition = \<lparr>dc_has_tools = ar_has_tools b,
      dc_input_tokens_gt = ar_input_tokens_gt b, dc_prompt_contains = ar_prompt_contains b\<rparr>,
     dr_tier = ar_tier b\<rparr>"

definition with_rules :: "(DetectionRule list \<Rightarrow> DetectionRule list) \<Rightarrow> RouterConfig \<Rightarrow> RouterConfig" where
  "with_rules f cfg = cfg\<lparr>detection := (detection cfg)\<lparr>de_rules := f (de_rules (detection cfg))\<rparr>\<rparr>"

definition put_rule :: "nat option \<Rightarrow> 'r \<Rightarrow> 'r list \<Rightarrow> 'r list" where
  "put_rule idx rule rules = (case idx of
      Some i \<Rightarrow> if i < length rules then rules[i := rule] else rules @ [rule]
    | None \<Rightarrow> rules @ [rule])"

definition remove_at :: "nat \<Rightarrow> 'r list \<Rightarrow> 'r list" where
  "remove_at i rules = (if i < length rules then take i rules @ drop (Suc i) rules else rules)"

definition add_rule :: "AdminEnv \<Rightarrow> AddRuleRequest \<Rightarrow> App \<Rightarrow> HttpResponse \<times> App" where
  "add_rule env body ap =
     (if tier_parse (ar_tier body) = None then (error_json 400 (''unknown tier: '' @ ar_tier body), ap)
      else (case config_update env (with_rules (put_rule (ar_index body) (rule_of_request body))) ap of
          (Inl e, ap') \<Rightarrow> (save_failed e, ap') | (Inr _, ap') \<Rightarrow> (status_json ''ok'', ap')))"

definition delete_rule :: "AdminEnv \<Rightarrow> nat \<Rightarrow> App \<Rightarrow> HttpResponse \<times> App" where
  "delete_rule env i ap = (case config_update env (with_rules (remove_at i)) ap of
      (Inl e, ap') \<Rightarrow> (save_failed e, ap')
    | (Inr _, ap') \<Rightarrow> (json_response 200 (Object [(''status'', String ''deleted''),
          (''index'', Number (PosInt (of_nat i)))]), ap'))"

subsection \<open>Stored credentials\<close>

definition set_key :: "AdminEnv \<Rightarrow> string \<Rightarrow> string \<Rightarrow> App \<Rightarrow> HttpResponse \<times> App" where
  "set_key env provider_id key ap =
     (if key = [] then (error_json 400 ''key required'', ap)
      else (case ks_set (am_crypto env) (am_nonce env 0) provider_id key (oa_keys (app_oauth ap)) of (r, ks) \<Rightarrow>
        ((case r of
            Inr _ \<Rightarrow> json_response 200 (Object [(''status'', String ''stored''), (''provider'', String provider_id)])
          | Inl e \<Rightarrow> error_json 500 (''store failed: '' @ e)), set_keys ks ap)))"

definition delete_key :: "string \<Rightarrow> App \<Rightarrow> HttpResponse \<times> App" where
  "delete_key provider_id ap =
     (json_response 200 (Object [(''status'', String ''deleted''), (''provider'', String provider_id)]),
      set_keys (ks_delete provider_id (oa_keys (app_oauth ap))) ap)"

subsection \<open>OAuth set-up\<close>

definition set_oauth_refresh :: "AdminEnv \<Rightarrow> string \<Rightarrow> string \<Rightarrow> App \<Rightarrow> HttpResponse \<times> App" where
  "set_oauth_refresh env provider_id key ap =
     (case set_refresh_token (am_crypto env) (am_nonce env 0) provider_id key (app_oauth ap) of (r, m) \<Rightarrow>
       ((case r of
           Inr _ \<Rightarrow> json_response 200 (Object [(''status'', String ''refresh token stored''),
              (''provider'', String provider_id)])
         | Inl e \<Rightarrow> error_json 500 (''store failed: '' @ e)), set_oauth m ap))"

text \<open>\<open>str::rsplit_once\<close> with a string pattern: around its last occurrence.\<close>

fun rsplit_str :: "string \<Rightarrow> string \<Rightarrow> (string \<times> string) option" where
  "rsplit_str p [] = None"
| "rsplit_str p (c # cs) = (case rsplit_str p cs of
      Some (a, b) \<Rightarrow> Some (c # a, b)
    | None \<Rightarrow> map_option (Pair []) (strip_prefix p (c # cs)))"

definition ADMIN_OAUTH :: string where "ADMIN_OAUTH = ''/admin/oauth/''"

definition callback_path :: "string \<Rightarrow> string" where
  "callback_path provider_id = ADMIN_OAUTH @ provider_id @ ''/callback''"

definition rebuild_redirect_uri :: "string \<Rightarrow> string \<Rightarrow> string" where
  "rebuild_redirect_uri configured provider_id =
     (if configured = [] then callback_path provider_id
      else if contains configured ''{provider}'' then replace_str ''{provider}'' provider_id configured
      else (case rsplit_str ADMIN_OAUTH configured of
          Some (front, _) \<Rightarrow> front @ callback_path provider_id
        | None \<Rightarrow>
            if ends_with configured ''/callback'' \<or> ends_with configured ''/''
            then trim_end_matches (CHR ''/'') configured @ callback_path provider_id
            else configured @ callback_path provider_id))"

definition config_redirect :: "RouterConfig \<Rightarrow> string" where
  "config_redirect cfg = (if sv_oauth_redirect_uri (server cfg) \<noteq> [] then sv_oauth_redirect_uri (server cfg)
     else unwrap_or [] (oauth_redirect_uri cfg))"

definition start_oauth :: "AdminEnv \<Rightarrow> string \<Rightarrow> json option \<Rightarrow> App \<Rightarrow> HttpResponse \<times> App" where
  "start_oauth env provider_id body ap =
     (let uri = unwrap_or (rebuild_redirect_uri (config_redirect (app_config ap)) provider_id)
            (Option.bind body (get_str ''redirect_uri'')) in
      case start_popup_oauth (am_sha256 env) (am_uuid env) (am_random env) provider_id uri (app_oauth ap) of
        (Inl e, m) \<Rightarrow> (error_json 400 (''start_oauth failed: '' @ e), set_oauth m ap)
      | (Inr (url, _), m) \<Rightarrow>
          ((if body = None then redirect_to url
            else json_response 200 (Object [(''authorize_url'', String url), (''state'', String ''ok'')])),
           set_oauth m ap))"

definition urlencoding_simple :: "string \<Rightarrow> string" where
  "urlencoding_simple s = concat (map (\<lambda>b.
     let n = (of_char b :: nat) in
     if (65 \<le> n \<and> n \<le> 90) \<or> (97 \<le> n \<and> n \<le> 122) \<or> (48 \<le> n \<and> n \<le> 57) \<or> b \<in> set ''-_.~'' then [b]
     else CHR ''%'' # [hex_digit (n div 16), hex_digit (n mod 16)]) s)"

definition oauth_callback :: "AdminEnv \<Rightarrow> string \<Rightarrow> (string \<rightharpoonup> string) \<Rightarrow> App \<Rightarrow> HttpResponse \<times> App" where
  "oauth_callback env provider_id params ap =
     (let uri = rebuild_redirect_uri (config_redirect (app_config ap)) provider_id;
          done = ''/ui/oauth/done?provider='' @ provider_id @ ''&status='' in
      case complete_popup_oauth (am_crypto env) (am_http env) (am_nonce env 0) (am_var env) provider_id
             (unwrap_or [] (params ''code'')) (unwrap_or [] (params ''state'')) uri (app_oauth ap) of
        (Inr _, m) \<Rightarrow> (redirect_to (done @ ''ok''), set_oauth m ap)
      | (Inl e, m) \<Rightarrow> (redirect_to (done @ ''err&msg='' @ urlencoding_simple e), set_oauth m ap))"

definition ju64 :: "u64 \<Rightarrow> json" where "ju64 n = Number (PosInt n)"

definition device_json :: "DeviceFlowInfo \<Rightarrow> json" where
  "device_json d = Object [(''device_code'', String (di_device_code d)), (''user_code'', String (di_user_code d)),
     (''verification_uri'', String (di_verification_uri d)), (''interval'', ju64 (di_interval d)),
     (''expires_in'', ju64 (di_expires_in d))]"

definition start_device_oauth :: "AdminEnv \<Rightarrow> string \<Rightarrow> App \<Rightarrow> HttpResponse \<times> App" where
  "start_device_oauth env provider_id ap =
     (case start_device_flow (am_sha256 env) (am_http env) (am_random env) (am_now_ms env) provider_id (app_oauth ap) of
        (Inr info, m) \<Rightarrow> (json_response 200 (device_json info), set_oauth m ap)
      | (Inl e, m) \<Rightarrow> (error_json 400 (''start_device failed: '' @ e), set_oauth m ap))"

definition paste_code :: "AdminEnv \<Rightarrow> string \<Rightarrow> json \<Rightarrow> App \<Rightarrow> HttpResponse \<times> App" where
  "paste_code env provider_id body ap =
     (let code = unwrap_or [] (get_str ''code'' body) in
      if code = [] then (error_json 400 ''code field is required'', ap)
      else (case paste_anthropic_code (am_crypto env) (am_http env) (am_nonce env 0) provider_id code (app_oauth ap) of
          (Inr _, m) \<Rightarrow> (json_response 200 (Object [(''status'', String ''ok''), (''provider'', String provider_id)]),
             set_oauth m ap)
        | (Inl e, m) \<Rightarrow> (error_json 400 e, set_oauth m ap)))"

text \<open>The refresh that follows the storing is tried once and its outcome is dropped.\<close>

definition setup_oauth_via_cli :: "AdminEnv \<Rightarrow> string \<Rightarrow> json \<Rightarrow> App \<Rightarrow> HttpResponse \<times> App" where
  "setup_oauth_via_cli env provider_id body ap =
     (let token = unwrap_or [] (get_str ''refresh_token'' body) in
      if token = [] then (error_json 400 ''refresh_token is required'', ap)
      else (let stored = (case (get_str ''client_id'' body, get_str ''client_secret'' body) of
              (Some cid, Some cs) \<Rightarrow> serialize_stored_refresh (co_text (am_codec env)) token (Some cid) (Some cs)
            | _ \<Rightarrow> token) in
        case ks_set (am_crypto env) (am_nonce env 0) (oauth_slot provider_id) stored (oa_keys (app_oauth ap)) of
          (Inl e, ks) \<Rightarrow> (error_json 500 (''store: '' @ e), set_keys ks ap)
        | (Inr _, ks) \<Rightarrow>
            (json_response 200 (Object [(''status'', String ''ok''), (''provider'', String provider_id)]),
             set_oauth (snd (oauth_refresh (am_crypto env) (am_codec env) (am_http env) (am_nonce env 1) (am_unix env)
                provider_id ((app_oauth ap)\<lparr>oa_keys := ks\<rparr>))) ap)))"

definition poll_device_oauth :: "AdminEnv \<Rightarrow> json \<Rightarrow> App \<Rightarrow> HttpResponse \<times> App" where
  "poll_device_oauth env body ap =
     (let dc = unwrap_or [] (get_str ''device_code'' body) in
      if dc = [] then (error_json 400 ''device_code required'', ap)
      else (case poll_device_flow (am_crypto env) (am_codec env) (am_http env) (am_nonce env 0) dc (app_oauth ap) of
          (Inr b, m) \<Rightarrow> (json_response 200 (Object [(''authorized'', Bool b)]), set_oauth m ap)
        | (Inl e, m) \<Rightarrow> (error_json 502 (''poll failed: '' @ e), set_oauth m ap)))"

subsection \<open>Provider types, trial calls, prices\<close>

definition listed_types :: "string list" where
  "listed_types = [''anthropic'', ''google'', ''kiro'', ''responses'', ''generic'', ''openai'', ''openrouter'',
     ''tokenrouter'', ''groq'', ''deepseek'', ''fireworks'', ''mistral'', ''xai'', ''qwen'', ''moonshot'', ''zai'',
     ''xiaomi'', ''minimax'', ''byteplus'', ''nvidia'', ''opencode-go'', ''opencode-zen'', ''kilo'',
     ''commandcode'', ''github-copilot'', ''gitlawb'', ''ollama'', ''ollama-cloud'', ''llamacpp'', ''lmstudio'']"

definition list_provider_types :: HttpResponse where
  "list_provider_types = json_response 200 (Object [(''types'', Array (map String listed_types)),
     (''aliases'', Array (map (\<lambda>(a, b). Array [String a, String b]) ALIASES))])"

definition validate_provider_type :: "json \<Rightarrow> HttpResponse" where
  "validate_provider_type body = (let s = unwrap_or [] (get_str ''type'' body) in
     if s = [] then error_json 400 ''type field required''
     else if resolve_alias s \<noteq> None then status_json ''ok''
     else error_json 400 (''unknown provider type: '' @ s))"

definition list_provider_models :: "AdminEnv \<Rightarrow> ProviderConfig \<Rightarrow> App \<Rightarrow> HttpResponse \<times> App" where
  "list_provider_models env body ap =
     (if pc_id body = [] then (error_json 400 ''id required'', ap)
      else (case ks_get (am_crypto env) (pc_id body) (oa_keys (app_oauth ap)) of (got, ks) \<Rightarrow>
        ((case opt_or (case got of Inl _ \<Rightarrow> None | Inr k \<Rightarrow> k) (pc_key body) of
            None \<Rightarrow> error_json 400 ''no key configured; paste the API key in the form first''
          | Some key \<Rightarrow> (case build_transient body of
                Inl e \<Rightarrow> error_json 400 (''build adapter: '' @ e)
              | Inr adapter \<Rightarrow> (case adapter_list_models (am_adapters env) adapter key of
                    Inr models \<Rightarrow> json_response 200 (Object [(''models'', Array (map String models))])
                  | Inl e \<Rightarrow> error_json 502 (error_to_string e)))), set_keys ks ap)))"

definition html_escape :: "string \<Rightarrow> string" where
  "html_escape s = replace_str ''>'' ''&gt;'' (replace_str ''<'' ''&lt;'' (replace_str ''&'' ''&amp;'' s))"

definition html_test_result :: "bool \<Rightarrow> bool \<Rightarrow> string \<Rightarrow> HttpResponse" where
  "html_test_result is_htmx ok message =
     (if is_htmx then text_response 200 (''<div class='' @ quoted (''test-result '' @ (if ok then ''ok'' else ''error''))
         @ ''>'' @ html_escape message @ ''</div>'')
      else if ok then json_response 200 (Object [(''status'', String ''ok''), (''message'', String message)])
      else json_response 502 (Object [(''status'', String ''error''), (''message'', String message)]))"

definition get_call :: "string \<Rightarrow> (string \<times> string) list \<Rightarrow> UpstreamCall" where
  "get_call url hdrs = \<lparr>cl_method = ''GET'', cl_url = url, cl_headers = hdrs, cl_body = None\<rparr>"

definition test_call :: "ProviderType \<Rightarrow> Adapter \<Rightarrow> string \<Rightarrow> UpstreamCall" where
  "test_call ty adapter key =
     (let base = trim_end_matches (CHR ''/'') (ad_base_url adapter) in
      case ty of
        Anthropic \<Rightarrow> post_json (base @ ''/v1/messages'')
          [(''x-api-key'', key), (''anthropic-version'', ''2023-06-01''), (''content-type'', ''application/json'')]
          (Object [(''model'', String (ad_default_model adapter)), (''max_tokens'', Number (PosInt 1)),
             (''messages'', Array [Object [(''role'', String ''user''), (''content'', String ''hi'')]])])
      | Google \<Rightarrow> get_call (base @ ''/v1beta/models'') [(''x-goog-api-key'', key)]
      | Kiro \<Rightarrow> get_call (base @ ''/ping'') [(''authorization'', ''Bearer '' @ key)]
      | _ \<Rightarrow> get_call (base @ ''/v1/models'') [(''authorization'', ''Bearer '' @ key)])"

definition test_message :: "UpstreamReply \<Rightarrow> string" where
  "test_message r =
     (if is_success (an_status r)
      then show_nat (unat (an_status r)) @ '' OK ('' @ show_nat (length (an_text r)) @ '' bytes): '' @ take 120 (an_text r)
      else show_nat (unat (an_status r)) @ '' '' @ an_reason r @ '': '' @ take 200 (an_text r))"

definition apostrophe :: string where "apostrophe = [CHR 0x27]"

definition test_provider :: "AdminEnv \<Rightarrow> headers \<Rightarrow> ProviderConfig \<Rightarrow> App \<Rightarrow> HttpResponse \<times> App" where
  "test_provider env hs body ap =
     (let is_htmx = hs ''hx-request'' = Some ''true'' in
      if pc_id body = [] then (html_test_result is_htmx False ''id required'', ap)
      else if list_ex (\<lambda>p. pc_id p = pc_id body) (providers (app_config ap))
      then (html_test_result is_htmx False (''provider id '' @ apostrophe @ pc_id body @ apostrophe @ '' already exists''), ap)
      else (case resolve (am_crypto env) (am_var env) (pl_master (app_pipe ap)) (pc_id body) (pc_key body)
               (oa_keys (app_oauth ap)) of (key, ks) \<Rightarrow>
        ((case build_transient body of
            Inl e \<Rightarrow> html_test_result is_htmx False e
          | Inr adapter \<Rightarrow> (case av_send (am_adapters env) (test_call (pc_type body) adapter key) of
                Inl e \<Rightarrow> html_test_result is_htmx False (''connection failed: '' @ re_text e)
              | Inr r \<Rightarrow> html_test_result is_htmx (is_success (an_status r)) (test_message r))),
         set_keys ks ap)))"

definition list_pricing :: "App \<Rightarrow> HttpResponse" where
  "list_pricing ap = json_response 200 (Object [(''prices'', Array (map (\<lambda>p. Object
      [(''model_id'', String (mp_model_id p)), (''input_per_1m'', jf64 (mp_input_per_1m p)),
       (''output_per_1m'', jf64 (mp_output_per_1m p)), (''context_window'', ju32 (mp_context_window p)),
       (''modality'', ju32 (mp_modality p))]) (price_list (pl_pricing (app_pipe ap)))))])"

definition sync_pricing_now ::
  "(string \<Rightarrow> f64 option) \<Rightarrow> (string \<Rightarrow> string + OpenRouterModel list) \<Rightarrow> App \<Rightarrow> HttpResponse \<times> App" where
  "sync_pricing_now parse fetch ap =
     (let url = ps_openrouter_url (pricing_sync (app_config ap)) in
      case sync_once parse (fetch url) (pl_pricing (app_pipe ap)) of (r, prices) \<Rightarrow>
       ((case r of
           Inr n \<Rightarrow> json_response 200 (Object [(''status'', String ''ok''),
              (''upserted'', Number (PosInt (of_nat n))), (''url'', String url)])
         | Inl e \<Rightarrow> error_json 502 e),
        ap\<lparr>app_pipe := (app_pipe ap)\<lparr>pl_pricing := prices\<rparr>\<rparr>))"

subsection \<open>Edits and the disk\<close>

lemma config_update_parts [simp]:
  "app_config (snd (config_update env f ap)) = f (app_config ap)"
  "app_registry (snd (config_update env f ap)) = app_registry ap"
  "app_oauth (snd (config_update env f ap)) = app_oauth ap"
  "app_limiter (snd (config_update env f ap)) = app_limiter ap"
  by (auto simp: config_update_def update_with_def Let_def split: prod.split outcome.split)

lemma config_updateD:
  assumes "config_update env f ap = (r, ap')"
  shows "app_config ap' = f (app_config ap) \<and> app_registry ap' = app_registry ap
     \<and> app_oauth ap' = app_oauth ap \<and> app_limiter ap' = app_limiter ap"
  using config_update_parts [of env f ap] unfolding assms snd_conv by blast

definition saved_text :: "AdminEnv \<Rightarrow> RouterConfig \<Rightarrow> string" where
  "saved_text env cfg = te_pretty (se_toml (am_service env)) (en_config cfg)"

lemma config_update_ok:
  assumes "se_writable (am_service env)" "in_i64 (en_config (f (app_config ap)))"
  shows "config_update env f ap = (Inr (), ap\<lparr>app_pipe := (app_pipe ap)\<lparr>pl_config := f (app_config ap)\<rparr>,
     app_disk := (app_disk ap)\<lparr>dk_config := Some (saved_text env (f (app_config ap)))\<rparr>\<rparr>)"
  using update_saves [where f = f and cfg = "app_config ap", OF assms]
  by (simp add: config_update_def saved_text_def)

subsection \<open>The registry follows the configuration\<close>

definition adapters_of :: "ProviderConfig list \<Rightarrow> string \<rightharpoonup> Adapter" where
  "adapters_of ps = foldl (\<lambda>m p. case build_adapter p of Inr a \<Rightarrow> m(pc_id p \<mapsto> a) | Inl _ \<Rightarrow> m) Map.empty ps"

definition buildable :: "ProviderConfig \<Rightarrow> bool" where
  "buildable p \<longleftrightarrow> \<not> (pc_type p = Generic \<and> pc_base_url p = None)"

lemma buildable_iff: "buildable p \<longleftrightarrow> (\<exists>a. build_adapter p = Inr a)"
  by (simp add: buildable_def build_adapter_ok)

lemma reg_get_insert: "reg_get (reg_insert k a r) = (reg_get r)(k \<mapsto> a)"
  by (rule ext) (simp add: reg_get_def)

lemma reg_get_Nil: "reg_get [] = Map.empty"
  by (rule ext) (simp add: reg_get_def)

lemma from_configs_loop_adapters:
  "from_configs_loop ps r = Inr r' \<Longrightarrow>
     reg_get r' = foldl (\<lambda>m p. case build_adapter p of Inr a \<Rightarrow> m(pc_id p \<mapsto> a) | Inl _ \<Rightarrow> m) (reg_get r) ps"
proof (induction ps arbitrary: r)
  case (Cons p ps)
  then obtain a where a: "build_adapter p = Inr a" "from_configs_loop ps (reg_insert (pc_id p) a r) = Inr r'"
    by (auto simp: and_then_Inr_iff)
  show ?case
    unfolding foldl.simps a(1) sum.case reg_get_insert [symmetric] by (rule Cons.IH [OF a(2)])
qed simp

text \<open>\<open>in_step\<close>: the registry is what a start would build from the running configuration.\<close>

definition in_step :: "App \<Rightarrow> bool" where
  "in_step ap \<longleftrightarrow> list_all buildable (providers (app_config ap))
     \<and> reg_get (app_registry ap) = adapters_of (providers (app_config ap))"

lemma from_configs_buildable: "(\<exists>r. from_configs ps = Inr r) \<longleftrightarrow> list_all buildable ps"
  using from_configs_loop_ok [of ps "[]"] by (auto simp: from_configs_def buildable_def list_all_iff list_ex_iff)

lemma from_configs_adapters: "from_configs ps = Inr r \<Longrightarrow> reg_get r = adapters_of ps"
  using from_configs_loop_adapters [of ps "[]" r] by (simp add: from_configs_def adapters_of_def reg_get_Nil)

lemma in_step_iff:
  "in_step ap \<longleftrightarrow> (\<exists>r. from_configs (providers (app_config ap)) = Inr r \<and> reg_get (app_registry ap) = reg_get r)"
  using from_configs_buildable [of "providers (app_config ap)"] from_configs_adapters by (auto simp: in_step_def)

lemma adapters_of_snoc: "build_adapter p = Inr a \<Longrightarrow> adapters_of (ps @ [p]) = (adapters_of ps)(pc_id p \<mapsto> a)"
  by (simp add: adapters_of_def)

lemma adapters_of_filter:
  "adapters_of (filter (\<lambda>q. pc_id q \<noteq> i) ps) = (adapters_of ps)(i := None)"
proof (induction ps rule: rev_induct)
  case (snoc p ps)
  then show ?case by (cases "build_adapter p") (auto simp: adapters_of_def fun_upd_twist)
qed (simp add: adapters_of_def)

lemma list_all_filter: "list_all P xs \<Longrightarrow> list_all P (filter Q xs)"
  by (auto simp: list_all_iff)

lemma in_step_add:
  assumes "in_step ap" and "hr_status (fst (add_provider env p ap)) \<noteq> 500"
  shows "in_step (snd (add_provider env p ap))"
proof -
  obtain r ap' where u: "config_update env (put_provider p) ap = (r, ap')" by (rule prod.exhaust)
  then have c: "app_config ap' = put_provider p (app_config ap)" "app_registry ap' = app_registry ap"
    using config_updateD by blast+
  from assms(2) u obtain a where a: "r = Inr ()" "build_adapter p = Inr a"
    by (auto simp: add_provider_def save_failed_def reg_add_def split: sum.split_asm)
  let ?old = "filter (\<lambda>q. pc_id q \<noteq> pc_id p) (providers (app_config ap))"
  have "adapters_of (?old @ [p]) = (adapters_of (providers (app_config ap)))(pc_id p \<mapsto> a)"
    by (simp add: adapters_of_snoc [OF a(2)] adapters_of_filter)
  moreover have "list_all buildable (?old @ [p])"
    using assms(1) a(2) by (auto simp: in_step_def buildable_iff intro: list_all_filter)
  ultimately show ?thesis
    using assms(1) u a c reg_get_insert [of "pc_id p" a "app_registry ap"] by (simp add: add_provider_def reg_add_def in_step_def put_provider_def)
qed

lemma in_step_remove:
  assumes "in_step ap" and "hr_status (fst (remove_provider env i ap)) \<noteq> 500"
  shows "in_step (snd (remove_provider env i ap))"
proof (cases "i = []")
  case True
  with assms show ?thesis by (simp add: remove_provider_def)
next
  case False
  obtain r ap' where u: "config_update env (drop_provider i) ap = (r, ap')" by (rule prod.exhaust)
  then have c: "app_config ap' = drop_provider i (app_config ap)" "app_registry ap' = app_registry ap"
    using config_updateD by blast+
  from assms(2) u False have r: "r = Inr ()"
    by (auto simp: remove_provider_def save_failed_def split: sum.split_asm)
  have "reg_get (reg_delete i (app_registry ap)) = (reg_get (app_registry ap))(i := None)"
    by (rule ext) (simp add: reg_get_def)
  with assms(1) u c r False show ?thesis
    by (simp add: remove_provider_def reg_remove_def in_step_def drop_provider_def adapters_of_filter list_all_filter)
qed

subsection \<open>Sequences of admin requests\<close>

datatype AdminOp =
    AddProvider ProviderConfig | RemoveProvider string | UpdateTier string TierUpdate | SaveConfig
  | AddRule AddRuleRequest | DeleteRule nat | SetKey string string | DeleteKey string
  | SetOAuthRefresh string string | StartOAuth string "json option" | OAuthCallback string "string \<rightharpoonup> string"
  | StartDevice string | PasteCode string json | SetupOAuth string json | PollDevice json
  | ListModels ProviderConfig | TestProvider headers ProviderConfig

fun admin_op :: "AdminEnv \<Rightarrow> AdminOp \<Rightarrow> App \<Rightarrow> HttpResponse \<times> App" where
  "admin_op env (AddProvider p) ap = add_provider env p ap"
| "admin_op env (RemoveProvider i) ap = remove_provider env i ap"
| "admin_op env (UpdateTier t b) ap = update_tier env t b ap"
| "admin_op env SaveConfig ap = save_config env ap"
| "admin_op env (AddRule b) ap = add_rule env b ap"
| "admin_op env (DeleteRule i) ap = delete_rule env i ap"
| "admin_op env (SetKey p k) ap = set_key env p k ap"
| "admin_op env (DeleteKey p) ap = delete_key p ap"
| "admin_op env (SetOAuthRefresh p k) ap = set_oauth_refresh env p k ap"
| "admin_op env (StartOAuth p b) ap = start_oauth env p b ap"
| "admin_op env (OAuthCallback p ps) ap = oauth_callback env p ps ap"
| "admin_op env (StartDevice p) ap = start_device_oauth env p ap"
| "admin_op env (PasteCode p b) ap = paste_code env p b ap"
| "admin_op env (SetupOAuth p b) ap = setup_oauth_via_cli env p b ap"
| "admin_op env (PollDevice b) ap = poll_device_oauth env b ap"
| "admin_op env (ListModels p) ap = list_provider_models env p ap"
| "admin_op env (TestProvider hs p) ap = test_provider env hs p ap"

text \<open>Every request has its own environment; the list holds the status codes of the answers.\<close>

inductive admin_run :: "App \<Rightarrow> u16 list \<Rightarrow> App \<Rightarrow> bool" where
  run_none: "admin_run ap [] ap"
| run_op: "admin_run ap ss ap' \<Longrightarrow> admin_op env op ap' = (resp, ap'') \<Longrightarrow> admin_run ap (ss @ [hr_status resp]) ap''"

inductive_cases admin_run_NilE [elim!]: "admin_run ap [] ap'"

text \<open>Only the edits of the provider list touch what \<open>in_step\<close> reads.\<close>

lemma other_ops_untouched:
  assumes "admin_op env op ap = (resp, ap')" "\<And>p. op \<noteq> AddProvider p" "\<And>i. op \<noteq> RemoveProvider i"
  shows "providers (app_config ap') = providers (app_config ap) \<and> app_registry ap' = app_registry ap
     \<and> app_limiter ap' = app_limiter ap"
proof -
  have lim [simp]: "app_limiter (set_oauth m ap) = app_limiter ap" "app_limiter (set_keys ks ap) = app_limiter ap" for m ks
    by (simp_all add: set_oauth_def set_keys_def)
  show ?thesis
  proof (cases op)
    case (UpdateTier t b)
    then show ?thesis using assms(1)
      by (auto simp: update_tier_def put_tier_def split: if_split_asm prod.split_asm sum.split_asm dest!: config_updateD)
  next
    case (AddRule b)
    then show ?thesis using assms(1)
      by (auto simp: add_rule_def with_rules_def split: if_split_asm prod.split_asm sum.split_asm dest!: config_updateD)
  next
    case (DeleteRule i)
    then show ?thesis using assms(1)
      by (auto simp: delete_rule_def with_rules_def split: prod.split_asm sum.split_asm dest!: config_updateD)
  qed (use assms in \<open>auto simp: save_config_def set_key_def delete_key_def set_oauth_refresh_def start_oauth_def
      oauth_callback_def start_device_oauth_def paste_code_def setup_oauth_via_cli_def poll_device_oauth_def
      list_provider_models_def test_provider_def Let_def
      split: prod.split_asm sum.split_asm if_split_asm outcome.split_asm\<close>)
qed


subsection \<open>Edits that go wrong\<close>

text \<open>Adding a generic provider without a base URL is answered with 500 and changes no registry, but the
  provider is already in the configuration and in the file: the next start has no provider at all.\<close>

theorem bad_provider_empties_next_registry:
  assumes "se_writable (am_service env)" and "in_i64 (en_config (put_provider p (app_config ap)))"
    and "\<not> buildable p"
  shows "\<exists>e ap'. add_provider env p ap = (error_json 500 e, ap')
     \<and> app_registry ap' = app_registry ap
     \<and> dk_config (app_disk ap') = Some (saved_text env (app_config ap'))
     \<and> start_registry (app_config ap') = []"
proof -
  let ?cfg = "put_provider p (app_config ap)"
  note up = config_update_ok [where f = "put_provider p", OF assms(1,2)]
  from assms(3) obtain e where e: "build_adapter p = Inl e" by (metis buildable_iff sumE)
  have "\<not> list_all buildable (providers ?cfg)" using assms(3) by (simp add: put_provider_def)
  then have "\<nexists>r. from_configs (providers ?cfg) = Inr r" using from_configs_buildable by blast
  then have "start_registry ?cfg = []" by (cases "from_configs (providers ?cfg)") (simp_all add: start_registry_def)
  with up e show ?thesis by (auto simp: add_provider_def reg_add_def set_registry_def)
qed

lemma valid_config_rule:
  "valid_config te cfg \<Longrightarrow> r \<in> set (de_rules (detection cfg)) \<Longrightarrow> map_of (tiers cfg) (dr_tier r) \<noteq> None"
  unfolding valid_config_def Let_def by blast

text \<open>A detection rule for a tier that is not configured is accepted and saved, after which every reload of
  that file is refused.\<close>

theorem rule_for_missing_tier_breaks_reload:
  assumes "se_writable (am_service env)" and "tier_parse (ar_tier b) \<noteq> None"
    and "map_of (tiers (app_config ap)) (ar_tier b) = None"
    and "ap' = snd (add_rule env b ap)"
    and "in_i64 (en_config (app_config ap'))" and "en_config (app_config ap') = TTable t"
    and "reads_back (am_service env) t"
  shows "hr_status (fst (add_rule env b ap)) = 200
     \<and> (\<exists>msg. reload_config env ap' = (error_json 500 msg, ap'))"
proof -
  let ?f = "with_rules (put_rule (ar_index b) (rule_of_request b))"
  have cfg: "app_config ap' = ?f (app_config ap)"
    using assms(2,4) config_update_parts [of env ?f ap]
    by (auto simp: add_rule_def dest!: config_updateD split: prod.split sum.split)
  note up = config_update_ok [where f = ?f, OF assms(1) assms(5) [unfolded cfg]]
  have ap': "ap' = snd (config_update env ?f ap)" "hr_status (fst (add_rule env b ap)) = 200"
    using assms(2,4) up by (auto simp: add_rule_def)
  have "rule_of_request b \<in> set (de_rules (detection (app_config ap')))"
    by (auto simp: cfg with_rules_def put_rule_def set_update_memI split: option.split)
  moreover have "map_of (tiers (app_config ap')) (dr_tier (rule_of_request b)) = None"
    using assms(3) by (simp add: cfg with_rules_def rule_of_request_def)
  ultimately have bad: "\<not> valid_config (se_toml (am_service env)) (app_config ap')"
    using valid_config_rule by blast
  have "dk_config (app_disk ap') = Some (te_pretty (se_toml (am_service env)) (en_config (app_config ap')))"
    using up by (simp add: ap'(1) saved_text_def)
  from reload_saved [OF assms(6,7) this, of "app_config ap'"] bad obtain msg where
    "reload (am_service env) (app_config ap') (app_disk ap') = (Failed msg, app_config ap')" by auto
  with ap'(2) show ?thesis by (auto simp: reload_config_def)
qed

text \<open>An update of a tier under one of the spellings the parser also accepts succeeds, and changes the route
  of no tier.\<close>

theorem aliased_tier_update_is_lost:
  assumes "se_writable (am_service env)" and "tier \<in> {''high-context'', ''mm''}"
    and "in_i64 (en_config (put_tier tier (tier_of_update b) (app_config ap)))"
  shows "case update_tier env tier b ap of (resp, ap') \<Rightarrow> hr_status resp = 200
     \<and> route_tier (app_registry ap') (app_config ap') t = route_tier (app_registry ap) (app_config ap) t"
proof -
  have known: "tier_parse tier \<noteq> None" using assms(2) by (auto simp: tier_parse_def)
  have other: "tier_as_str t \<noteq> tier" using assms(2) by (cases t) auto
  note up = config_update_ok [where f = "put_tier tier (tier_of_update b)", OF assms(1,3)]
  have "primary_for_tier (put_tier tier (tier_of_update b) (app_config ap)) t = primary_for_tier (app_config ap) t"
    using other by (simp add: primary_for_tier_def put_tier_def)
  with known up show ?thesis by (simp add: update_tier_def route_tier_def)
qed

text \<open>The types listed for the form are those the router decodes, except two that it lists, and confirms when
  asked, but refuses in a provider.\<close>

theorem listed_types_refused:
  "filter (\<lambda>s. de_provider_type (TString s) = None) listed_types = [''llamacpp'', ''lmstudio'']
     \<and> map (\<lambda>s. hr_status (validate_provider_type (Object [(''type'', String s)]))) [''llamacpp'', ''lmstudio''] = [200, 200]"
  by code_simp

text \<open>A reload replaces the configuration and nothing else: a provider it adds is not routed to, and one it
  removes still is.\<close>

theorem reload_leaves_registry:
  "app_registry (snd (reload_config env ap)) = app_registry ap
     \<and> app_limiter (snd (reload_config env ap)) = app_limiter ap
     \<and> route_explicit (app_registry (snd (reload_config env ap))) m = route_explicit (app_registry ap) m"
  by (simp add: reload_config_def split_def)

subsection \<open>Keys and the address they are sent to\<close>

text \<open>C28. Listing the models of a provider sends the stored key of the named provider to the address in the
  request, whatever address the provider is configured with: a caller of the admin API reads every
  stored key by naming a server of its own.\<close>

theorem stored_key_sent_to_requested_url:
  assumes "pc_id body \<noteq> []" and "pc_type body = Openai" and "pc_base_url body = Some url"
    and "ks_lookup (am_crypto env) (oa_keys (app_oauth ap)) (pc_id body) = Some key"
    and "av_send (am_adapters env) (get_call (trim_end_matches (CHR ''/'') url @ ''/v1/models'')
           [(''authorization'', ''Bearer '' @ key)]) = Inr r"
    and "is_success (an_status r)" and "an_json r = Inr v"
  shows "fst (list_provider_models env body ap)
     = json_response 200 (Object [(''models'', Array (map String (ids_of_data v)))])"
proof -
  obtain got ks where g: "ks_get (am_crypto env) (pc_id body) (oa_keys (app_oauth ap)) = (got, ks)"
    by (rule prod.exhaust)
  with assms(4) have "got = Inr (Some key)" by (auto simp: ks_lookup_def split: sum.split_asm)
  moreover obtain path model where "build_transient body = Inr (OpenAiAdapter (pc_id body) url path model)"
    using assms(2,3) by (simp add: build_transient_def build_adapter_def Let_def)
  ultimately show ?thesis using assms(1,5-7) g
    by (simp add: list_provider_models_def list_models_def list_call_def get_call_def)
qed

lemma resolve_stored: "var (env_var_of p) = None \<Longrightarrow> fst (resolve cy var mk p None s) = unwrap_or [] (ks_lookup cy s p)"
  by (simp add: resolve_def ks_lookup_def split: prod.split sum.split)

text \<open>A key that was stored is the key the router resolves for the provider, when neither the
  configuration nor the environment names one; once deleted, there is none.\<close>

theorem stored_key_is_resolved:
  assumes "ks_ok (am_crypto env) (oa_keys (app_oauth ap))" and "key \<noteq> []" and "var (env_var_of p) = None"
  shows "case set_key env p key ap of (resp, ap') \<Rightarrow> hr_status resp = 200
     \<and> fst (resolve (am_crypto env) var mk p None (oa_keys (app_oauth ap'))) = key
     \<and> fst (resolve (am_crypto env) var mk p None (oa_keys (app_oauth (snd (delete_key p ap'))))) = []"
proof -
  let ?s = "oa_keys (app_oauth ap)"
  obtain ct where ct: "cy_seal (am_crypto env) (ks_master ?s) (am_nonce env 0) key = Inr ct"
    using assms(1) crypto_okD(1) unfolding ks_ok_def by blast
  have set: "set_key env p key ap = (json_response 200 (Object [(''status'', String ''stored''), (''provider'', String p)]),
      set_keys (snd (ks_set (am_crypto env) (am_nonce env 0) p key ?s)) ap)"
    using assms(2) ct by (simp add: set_key_def ks_set_def)
  show ?thesis unfolding set prod.case
    by (simp add: resolve_stored [where var = var and p = p, OF assms(3)] ks_lookup_set [OF assms(1)]
        ks_lookup_delete delete_key_def)
qed

subsection \<open>Escaping\<close>

lemma replace_str_single:
  "replace_str [x] r s = concat (map (\<lambda>c. if c = x then r else [c]) s)"
proof (induction s)
  case (Cons c cs)
  then show ?case by (cases "c = x") (subst replace_str.simps, simp)+
qed (subst replace_str.simps, simp)

definition escape_char :: "char \<Rightarrow> string" where
  "escape_char c = (if c = CHR ''&'' then ''&amp;'' else if c = CHR ''<'' then ''&lt;''
     else if c = CHR ''>'' then ''&gt;'' else [c])"

lemma html_escape_chars: "html_escape s = concat (map escape_char s)"
  by (induction s) (simp_all add: html_escape_def replace_str_single escape_char_def)

text \<open>How a browser reads the entities the escapers of the server write.\<close>

definition entity :: "string \<Rightarrow> (char \<times> nat) option" where
  "entity s = (if starts_with s ''lt;'' then Some (CHR ''<'', 3) else if starts_with s ''gt;'' then Some (CHR ''>'', 3)
     else if starts_with s ''amp;'' then Some (CHR ''&'', 4) else if starts_with s ''quot;'' then Some (CHR 0x22, 5)
     else if starts_with s ''#39;'' then Some (CHR 0x27, 4) else None)"

function unescape :: "string \<Rightarrow> string" where
  "unescape s = (case s of [] \<Rightarrow> []
     | c # cs \<Rightarrow> (case (if c = CHR ''&'' then entity cs else None) of
          Some (x, n) \<Rightarrow> x # unescape (drop n cs)
        | None \<Rightarrow> c # unescape cs))"
  by pat_completeness auto
termination by (relation "measure length") auto

declare unescape.simps [simp del]

lemma unescape_Nil [simp]: "unescape [] = []"
  by (subst unescape.simps) simp

lemma unescape_other: "c \<noteq> CHR ''&'' \<Longrightarrow> unescape (c # cs) = c # unescape cs"
  by (subst unescape.simps) simp

lemma unescape_entity: "entity cs = Some (x, n) \<Longrightarrow> unescape (CHR ''&'' # cs) = x # unescape (drop n cs)"
  by (subst unescape.simps) simp

lemma unescape_escape_char: "unescape (escape_char c @ s) = c # unescape s"
  by (simp add: escape_char_def unescape_other unescape_entity entity_def)

interpretation html: text_codec escape_char unescape "\<lambda>c. c \<noteq> CHR ''<'' \<and> c \<noteq> CHR ''>''"
  by unfold_locales (rule unescape_Nil, rule unescape_escape_char, auto simp: escape_char_def split: if_split_asm)

text \<open>A message that goes into the result page cannot open or close a tag, and it is shown to the reader as
  it is.\<close>

theorem html_escape_is_faithful:
  "CHR ''<'' \<notin> set (html_escape s) \<and> CHR ''>'' \<notin> set (html_escape s) \<and> unescape (html_escape s) = s"
  unfolding html_escape_chars using html.absent by (simp add: html.decodes)

text \<open>The two percent encoders of the source are the same function.\<close>

theorem percent_encoders_agree: "urlencoding_simple s = urlencoding s"
  by (simp add: urlencoding_simple_def urlencoding_def unreserved_def Let_def)

subsection \<open>Redirect addresses\<close>

lemma contains_slash:
  "CHR ''/'' \<notin> set n \<Longrightarrow> contains (b @ CHR ''/'' # s) n \<Longrightarrow> contains b n \<or> contains s n"
proof (induction b)
  case Nil
  then show ?case by (cases n) auto
next
  case (Cons c b)
  show ?case
  proof (cases "contains (b @ CHR ''/'' # s) n")
    case True
    with Cons show ?thesis by auto
  next
    case False
    with Cons.prems(2) obtain d where d: "c # b @ CHR ''/'' # s = n @ d" by (auto simp: prefix_def)
    have "starts_with (c # b) n"
      using Cons.prems(1) prefix_append [of n "c # b" "CHR ''/'' # s"] d
      by (auto simp: prefix_def Cons_eq_append_conv append_eq_append_conv2)
    then show ?thesis by simp
  qed
qed

lemma contains_from_slash:
  "CHR ''/'' \<notin> set b \<Longrightarrow> contains (b @ CHR ''/'' # s) (CHR ''/'' # n) \<longleftrightarrow> starts_with s n \<or> contains s (CHR ''/'' # n)"
  by (induction b) auto

lemma rsplit_str_None: "\<not> contains s p \<Longrightarrow> rsplit_str p s = None"
  by (induction s) (auto simp: strip_prefix_def split: option.split)

lemma rsplit_str_append: "rsplit_str p t = Some (x, y) \<Longrightarrow> rsplit_str p (b @ t) = Some (b @ x, y)"
  by (induction b) auto

lemma rsplit_str_here: "rsplit_str (c # n) (n @ s) = None \<Longrightarrow> rsplit_str (c # n) (c # n @ s) = Some ([], s)"
  by (simp add: strip_prefix_def)

lemma contains_set: "contains s n \<Longrightarrow> set n \<subseteq> set s"
  by (auto simp: contains_iff)

lemma rsplit_callback:
  assumes "CHR ''/'' \<notin> set p"
  shows "rsplit_str ADMIN_OAUTH (b @ callback_path p) = Some (b, p @ ''/callback'')"
proof -
  let ?tail = "''admin/oauth/'' @ p @ ''/callback''"
  have "\<not> contains ''callback'' ADMIN_OAUTH" by code_simp
  then have 3: "\<not> contains (p @ ''/callback'') ADMIN_OAUTH"
    using contains_from_slash [OF assms, of "''callback''" "''admin/oauth/''"] by (simp add: ADMIN_OAUTH_def)
  have "\<not> starts_with (p @ ''/callback'') ''admin/oauth/''"
  proof
    assume "starts_with (p @ ''/callback'') ''admin/oauth/''"
    then obtain d where d: "p @ ''/callback'' = ''admin/oauth/'' @ d" by (auto simp: prefix_def)
    have "takeWhile (\<lambda>c. c \<noteq> CHR ''/'') (p @ ''/callback'') = p" using assms by (simp add: takeWhile_append)
    moreover have "takeWhile (\<lambda>c. c \<noteq> CHR ''/'') (''admin/oauth/'' @ d) = ''admin''" by simp
    ultimately have "p = ''admin''" using d by simp
    with d show False by simp
  qed
  with 3 have 2: "\<not> contains (''oauth'' @ CHR ''/'' # p @ ''/callback'') ADMIN_OAUTH"
    using contains_from_slash [of "''oauth''" "p @ ''/callback''" "''admin/oauth/''"] by (simp add: ADMIN_OAUTH_def)
  then have "\<not> contains (''admin'' @ CHR ''/'' # ''oauth'' @ CHR ''/'' # p @ ''/callback'') ADMIN_OAUTH"
    using contains_from_slash [of "''admin''" "''oauth'' @ CHR ''/'' # p @ ''/callback''" "''admin/oauth/''"]
    by (simp add: ADMIN_OAUTH_def)
  then have "\<not> contains ?tail ADMIN_OAUTH" unfolding append_Cons append_Nil .
  then have "rsplit_str ADMIN_OAUTH ?tail = None" by (rule rsplit_str_None)
  then have "rsplit_str ADMIN_OAUTH (callback_path p) = Some ([], p @ ''/callback'')"
    using rsplit_str_here [of "CHR ''/''" "''admin/oauth/''" "p @ ''/callback''"]
    unfolding callback_path_def ADMIN_OAUTH_def append_Cons append_Nil by blast
  from rsplit_str_append [OF this, of b] show ?thesis by simp
qed

lemma no_template_callback:
  assumes "\<not> contains b ''{provider}''" "CHR ''{'' \<notin> set p"
  shows "\<not> contains (b @ callback_path p) ''{provider}''"
proof
  let ?tail = "''admin/oauth/'' @ p @ ''/callback''"
  assume "contains (b @ callback_path p) ''{provider}''"
  then have "contains (b @ CHR ''/'' # ?tail) ''{provider}''" by (simp add: callback_path_def ADMIN_OAUTH_def)
  from contains_slash [OF _ this] assms(1) have "contains ?tail ''{provider}''" by simp
  then have "CHR ''{'' \<in> set ?tail" by (auto dest: contains_set)
  with assms(2) show False by simp
qed

text \<open>The part of a configured address that stays, whatever the provider.\<close>

definition redirect_base :: "string \<Rightarrow> string" where
  "redirect_base c = (case rsplit_str ADMIN_OAUTH c of Some (front, _) \<Rightarrow> front
     | None \<Rightarrow> if ends_with c ''/callback'' \<or> ends_with c ''/'' then trim_end_matches (CHR ''/'') c else c)"

lemma rebuild_base:
  "\<not> contains c ''{provider}'' \<Longrightarrow> rebuild_redirect_uri c p = redirect_base c @ callback_path p"
  by (auto simp: rebuild_redirect_uri_def redirect_base_def split: option.split)

lemma rsplit_str_front: "rsplit_str p c = Some (x, y) \<Longrightarrow> c = x @ p @ y"
  by (induction c arbitrary: x) (auto simp: strip_prefix_Some split: option.split_asm)

lemma redirect_base_prefix: "\<exists>d. c = redirect_base c @ d"
proof -
  have "\<exists>d. c = trim_end_matches (CHR ''/'') c @ d"
    unfolding trim_end_matches_def by (metis append_Nil2 rev_append rev_rev_ident takeWhile_dropWhile_id)
  then show ?thesis unfolding redirect_base_def
    by (cases "rsplit_str ADMIN_OAUTH c") (auto dest!: rsplit_str_front)
qed

text \<open>Without a template in the configured address, an address rebuilt for one provider can be rebuilt for
  any other: the result is the one built from the configured address, and it ends in the callback
  route of that provider.\<close>

theorem redirect_uri_switches_provider:
  assumes "\<not> contains c ''{provider}''" and "CHR ''/'' \<notin> set p" and "CHR ''{'' \<notin> set p"
  shows "rebuild_redirect_uri (rebuild_redirect_uri c p) q = rebuild_redirect_uri c q
     \<and> ends_with (rebuild_redirect_uri c q) (''/admin/oauth/'' @ q @ ''/callback'')"
proof -
  have "\<not> contains (redirect_base c) ''{provider}''"
    using assms(1) redirect_base_prefix [of c] contains_append_mono(1) by metis
  then have n: "\<not> contains (redirect_base c @ callback_path p) ''{provider}''"
    using assms(3) by (rule no_template_callback)
  have b: "redirect_base (redirect_base c @ callback_path p) = redirect_base c"
    unfolding redirect_base_def [of "redirect_base c @ callback_path p"] rsplit_callback [OF assms(2)] by simp
  show ?thesis unfolding rebuild_base [OF assms(1)] rebuild_base [OF n] b
    by (simp add: callback_path_def ADMIN_OAUTH_def suffix_def)
qed

subsection \<open>Examples\<close>

definition demo_stored :: Stored where
  "demo_stored = \<lparr>st_users = db_empty, st_credentials = Map.empty, st_oauth_config = Map.empty, st_prices = []\<rparr>"

definition demo_app :: "RouterConfig \<Rightarrow> App" where
  "demo_app cfg = new_app cfg [] demo_stored 0 db_empty empty_disk"

definition demo_admin :: "(string \<times> table) list \<Rightarrow> AdminEnv" where
  "demo_admin docs = \<lparr>am_service = toy_service docs True None, am_adapters = null_env, am_http = (\<lambda>_. Inl ''offline''),
     am_codec = toy_codec, am_nonce = (\<lambda>_. replicate NONCE_LEN 0), am_random = [], am_uuid = ''u'',
     am_sha256 = (\<lambda>_. []), am_unix = 0, am_now_ms = 0, am_var = (\<lambda>_. None)\<rparr>"

lemma demo_app_parts [simp]:
  "app_config (demo_app cfg) = cfg" "app_registry (demo_app cfg) = start_registry cfg"
  "app_disk (demo_app cfg) = empty_disk" "oa_keys (app_oauth (demo_app cfg)) = keystore_new [] Map.empty"
  by (simp_all add: demo_app_def new_app_def demo_stored_def oauth_new_def)

lemma toy_writable [simp]: "se_writable (toy_service docs True m)"
  by (simp add: toy_service_def)

lemma demo_admin_parts [simp]:
  "se_writable (am_service (demo_admin docs))" "se_toml (am_service (demo_admin docs))
     = demo_toml\<lparr>te_parse := (\<lambda>raw. ok_or ''bad'' (map_of docs raw))\<rparr>"
  "am_crypto (demo_admin docs) = toy_crypto" "am_service (demo_admin docs) = toy_service docs True None"
  by (simp_all add: demo_admin_def toy_service_def)

definition plain_provider :: ProviderConfig where
  "plain_provider = \<lparr>pc_id = ''o'', pc_type = Openai, pc_key = None, pc_base_url = None,
     pc_default_model = None, pc_path = None\<rparr>"


theorem bad_provider_empties_next_registry_witness:
  "\<exists>e ap'. add_provider (demo_admin []) (plain_provider\<lparr>pc_type := Generic\<rparr>) (demo_app config_default) = (error_json 500 e, ap')
     \<and> start_registry (app_config ap') = []"
proof -
  let ?p = "plain_provider\<lparr>pc_type := Generic\<rparr>"
  have w: "in_i64 (en_config (put_provider ?p (app_config (demo_app config_default))))" by simp code_simp
  have b: "\<not> buildable ?p" by (simp add: buildable_def plain_provider_def)
  from bad_provider_empties_next_registry [OF demo_admin_parts(1) w b] show ?thesis by blast
qed

definition mm_rule :: AddRuleRequest where
  "mm_rule = \<lparr>ar_index = None, ar_has_tools = Some True, ar_input_tokens_gt = None, ar_prompt_contains = None,
     ar_tier = ''complex''\<rparr>"

theorem rule_for_missing_tier_breaks_reload_witness:
  "\<exists>docs msg. hr_status (fst (add_rule (demo_admin docs) mm_rule (demo_app config_default))) = 200
     \<and> reload_config (demo_admin docs) (snd (add_rule (demo_admin docs) mm_rule (demo_app config_default)))
         = (error_json 500 msg, snd (add_rule (demo_admin docs) mm_rule (demo_app config_default)))"
proof -
  let ?cfg = "with_rules (put_rule None (rule_of_request mm_rule)) config_default"
  let ?t = "the (toml_table (en_config ?cfg))"
  let ?env = "demo_admin [(''doc'', ?t)]"
  let ?ap' = "snd (add_rule ?env mm_rule (demo_app config_default))"
  have 2: "tier_parse (ar_tier mm_rule) \<noteq> None" by (simp add: mm_rule_def tier_parse_def)
  have 3: "map_of (tiers (app_config (demo_app config_default))) (ar_tier mm_rule) = None" by (simp add: config_default_def)
  have w: "in_i64 (en_config ?cfg)" by code_simp
  have i: "ar_index mm_rule = None" by (simp add: mm_rule_def)
  have c: "app_config ?ap' = ?cfg"
    using 2 config_update_ok [where f = "with_rules (put_rule None (rule_of_request mm_rule))" and env = ?env and ap = "demo_app config_default"] w
    by (auto simp: add_rule_def i)
  have 5: "in_i64 (en_config (app_config ?ap'))" "en_config (app_config ?ap') = TTable ?t"
    unfolding c by (rule w) (simp only: en_config_table)
  have 6: "reads_back (am_service ?env) ?t" by (simp add: toy_reads_back)
  from rule_for_missing_tier_breaks_reload [OF demo_admin_parts(1) 2 3 refl 5 6] show ?thesis by blast
qed

definition mm_update :: TierUpdate where
  "mm_update = \<lparr>tu_primary = ''o/m'', tu_fallbacks = [], tu_allow_tier_downgrade = False, tu_downgrade_to = None,
     tu_min_context_window = None, tu_timeouts = None\<rparr>"

theorem aliased_tier_update_is_lost_witness:
  "\<exists>ap'. update_tier (demo_admin []) ''mm'' mm_update (demo_app config_default) = (json_response 200 (Object
        [(''status'', String ''updated''), (''tier'', String ''mm'')]), ap')
     \<and> route_tier (app_registry ap') (app_config ap') Multimodal = None"
proof -
  have m: "''mm'' \<in> {''high-context'', ''mm''}" by simp
  have w: "in_i64 (en_config (put_tier ''mm'' (tier_of_update mm_update) (app_config (demo_app config_default))))"
    by simp code_simp
  note lost = aliased_tier_update_is_lost [OF demo_admin_parts(1) [of "[]"] m w, of Multimodal]
  have old: "route_tier (app_registry (demo_app config_default)) (app_config (demo_app config_default)) Multimodal = None"
    by (simp add: route_tier_def primary_for_tier_def config_default_def)
  have resp: "fst (update_tier (demo_admin []) ''mm'' mm_update (demo_app config_default)) = json_response 200 (Object
        [(''status'', String ''updated''), (''tier'', String ''mm'')])"
    using config_update_ok [where f = "put_tier ''mm'' (tier_of_update mm_update)", OF demo_admin_parts(1) w]
    by (simp add: update_tier_def tier_parse_def)
  obtain r ap' where u: "update_tier (demo_admin []) ''mm'' mm_update (demo_app config_default) = (r, ap')" by (rule prod.exhaust)
  from lost resp show ?thesis unfolding u prod.case fst_conv old by blast
qed

definition evil_reply :: UpstreamReply where
  "evil_reply = \<lparr>an_status = 200, an_reason = ''OK'', an_text = '''', an_json = Inr (Object []), an_bytes = []\<rparr>"

definition sk_app :: App where
  "sk_app = set_keys (keystore_new [] Map.empty\<lparr>ks_cache := [''o'' \<mapsto> ''sk'']\<rparr>) (demo_app config_default)"

definition evil_admin :: AdminEnv where
  "evil_admin = (demo_admin [])\<lparr>am_adapters := null_env\<lparr>av_send := (\<lambda>c.
     if c = get_call ''https://evil/v1/models'' [(''authorization'', ''Bearer sk'')] then Inr evil_reply
     else Inl \<lparr>re_timeout = True, re_text = []\<rparr>)\<rparr>\<rparr>"

theorem stored_key_sent_to_requested_url_witness:
  "fst (list_provider_models evil_admin (plain_provider\<lparr>pc_base_url := Some ''https://evil''\<rparr>) sk_app)
     = json_response 200 (Object [(''models'', Array (map String (ids_of_data (Object []))))])"
  by (rule stored_key_sent_to_requested_url [where url = "''https://evil''" and key = "''sk''" and r = evil_reply])
    (simp_all add: plain_provider_def ks_lookup_def ks_get_def evil_admin_def sk_app_def keystore_new_def
      trim_end_matches_def evil_reply_def is_success_def)

theorem stored_key_is_resolved_witness:
  "fst (resolve toy_crypto (\<lambda>_. None) [] ''o'' None
     (oa_keys (app_oauth (snd (set_key (demo_admin []) ''o'' ''sk'' (demo_app config_default)))))) = ''sk''"
proof -
  have 1: "ks_ok (am_crypto (demo_admin [])) (oa_keys (app_oauth (demo_app config_default)))"
    by (simp add: ks_ok_def toy_crypto_ok keystore_new_def del: demo_admin_parts(4))
  have 2: "(\<lambda>_. None) (env_var_of ''o'') = None" by simp
  obtain r ap' where u: "set_key (demo_admin []) ''o'' ''sk'' (demo_app config_default) = (r, ap')" by (rule prod.exhaust)
  from stored_key_is_resolved [where var = "\<lambda>_. None" and p = "''o''" and key = "''sk''" and env = "demo_admin []", OF 1 _ 2, of "[]"]
  show ?thesis unfolding u prod.case snd_conv demo_admin_parts(3) by simp
qed

theorem redirect_uri_switches_provider_witness:
  "rebuild_redirect_uri (rebuild_redirect_uri ''http://h:1'' ''openai'') ''kiro'' = rebuild_redirect_uri ''http://h:1'' ''kiro''"
proof -
  have "\<not> contains ''http://h:1'' ''{provider}''" by code_simp
  from redirect_uri_switches_provider [OF this, of "''openai''" "''kiro''"] show ?thesis by simp
qed

end
