(* ===== verification/Proxies.thy ===== *)
theory Proxies
  imports Admin
begin

section \<open>Pass-through endpoints\<close>

text \<open>
  \<open>src/server/passthrough.rs\<close> (\<open>/v1/messages\<close>, \<open>/v1/responses\<close>) and \<open>src/server/multimodal.rs\<close>
  (images, speech, video): the body goes to the provider as it came, and its answer comes back.
  The HTTP client is the parameter \<open>proxy\<close>; an answer has its content type and its bytes, or the
  error of reading them. A body of bytes is given as the JSON string of its text. The pipeline is
  the shared state; the log row of a multimodal call is a detached write.
\<close>

record ProxyReply =
  py_status :: u16
  py_content_type :: "string option"
  py_bytes :: "ReqwestError + string"

type_synonym proxy = "UpstreamCall \<Rightarrow> ReqwestError + ProxyReply"

record ProxyEnv =
  px_send :: proxy
  px_crypto :: Crypto
  px_var :: "string \<Rightarrow> string option"
  px_uuid :: string
  px_ts :: string

definition is_messages_compatible :: "string \<Rightarrow> bool" where
  "is_messages_compatible fmt \<longleftrightarrow> fmt = ''anthropic'' \<or> fmt = ''kiro''"

definition is_responses_compatible :: "string \<Rightarrow> bool" where
  "is_responses_compatible fmt \<longleftrightarrow> fmt = ''openai'' \<or> fmt = ''openrouter'' \<or> fmt = ''responses''"

definition adapter_wire_format :: "ProviderType \<Rightarrow> string" where
  "adapter_wire_format ty = (case ty of
      Anthropic \<Rightarrow> ''anthropic'' | Kiro \<Rightarrow> ''kiro'' | Openai \<Rightarrow> ''openai'' | Openrouter \<Rightarrow> ''openrouter''
    | Responses \<Rightarrow> ''responses'' | Google \<Rightarrow> ''google'' | Generic \<Rightarrow> ''generic'' | _ \<Rightarrow> ''openai'')"

definition typed_error :: "u16 \<Rightarrow> string \<Rightarrow> string \<Rightarrow> (string \<times> json) list \<Rightarrow> HttpResponse" where
  "typed_error s msg ty extra =
     json_response s (Object [(''error'', Object ([(''message'', String msg), (''type'', String ty)] @ extra))])"

definition bad_request :: "string \<Rightarrow> HttpResponse" where
  "bad_request msg = typed_error 400 msg ''invalid_request_error'' []"

text \<open>\<open>provider/model\<close>, or the last two of exactly three parts.\<close>

definition proxy_target :: "string \<Rightarrow> (string \<times> string) option" where
  "proxy_target model = (case split_model_ref model of
      Some pm \<Rightarrow> Some pm
    | None \<Rightarrow> (case splitn 3 (CHR ''/'') model of [_, p, m] \<Rightarrow> Some (p, m) | _ \<Rightarrow> None))"

definition model_of_body :: "json \<Rightarrow> string" where
  "model_of_body body = unwrap_or [] (get_str ''model'' body)"

definition provider_config :: "RouterConfig \<Rightarrow> string \<Rightarrow> ProviderConfig option" where
  "provider_config cfg p = find (\<lambda>c. pc_id c = p) (providers cfg)"

definition proxy_key :: "ProxyEnv \<Rightarrow> string \<Rightarrow> Pipeline \<Rightarrow> string \<times> Pipeline" where
  "proxy_key env p pl =
     (case resolve (px_crypto env) (px_var env) (pl_master pl) p (provider_key (pl_config pl) p) (oa_keys (pl_oauth pl)) of
        (key, ks) \<Rightarrow> (key, pl\<lparr>pl_oauth := (pl_oauth pl)\<lparr>oa_keys := ks\<rparr>\<rparr>))"

definition proxy_url :: "Adapter \<Rightarrow> string \<Rightarrow> string" where
  "proxy_url adapter endpoint = trim_end_matches (CHR ''/'') (ad_base_url adapter) @ endpoint"

definition proxy_call :: "Adapter \<Rightarrow> string \<Rightarrow> string \<Rightarrow> (string \<times> string) list \<Rightarrow> json \<Rightarrow> UpstreamCall" where
  "proxy_call adapter endpoint key extra body = post_json (proxy_url adapter endpoint)
     ([auth_header adapter key, (''content-type'', ''application/json'')] @ extra) body"

definition accept_header :: "json \<Rightarrow> (string \<times> string) list" where
  "accept_header body = (if unwrap_or False (Option.bind (jget ''stream'' body) as_bool)
     then [(''accept'', ''text/event-stream'')] else [])"

definition visible :: "string option \<Rightarrow> string option" where
  "visible v = Option.bind v (\<lambda>s. if list_all visible_ascii s then Some s else None)"

definition header_if :: "string \<Rightarrow> string option \<Rightarrow> (string \<times> string) list" where
  "header_if name v = (case v of None \<Rightarrow> [] | Some s \<Rightarrow> [(name, s)])"

definition mismatch :: "string \<Rightarrow> string \<Rightarrow> string \<Rightarrow> string \<Rightarrow> HttpResponse" where
  "mismatch endpoint expected p fmt = typed_error 400
     (''/'' @ endpoint @ '' received but tier primary is '' @ p @ ''/'' @ fmt
        @ ''; use /v1/chat/completions or change tier primary'') ''invalid_request_error''
     [(''code'', String ''wire_format_mismatch''), (''expected_format'', String expected), (''actual_format'', String fmt)]"

text \<open>The answer of the provider, relayed.\<close>

definition relay_wire :: "ReqwestError + ProxyReply \<Rightarrow> HttpResponse" where
  "relay_wire answer = (case answer of
      Inl e \<Rightarrow> typed_error 502 (''upstream error: '' @ re_text e) ''upstream_error'' []
    | Inr r \<Rightarrow> (case py_bytes r of
          Inl e \<Rightarrow> typed_error 502 (''upstream read error: '' @ re_text e) ''upstream_error'' []
        | Inr b \<Rightarrow> \<lparr>hr_status = py_status r, hr_headers = header_if ''content-type'' (visible (py_content_type r)),
                   hr_body = Some (String b)\<rparr>))"

definition passthrough_wire ::
  "ProxyEnv \<Rightarrow> string \<Rightarrow> string \<Rightarrow> (string \<Rightarrow> bool) \<Rightarrow> json \<Rightarrow> Pipeline \<Rightarrow> HttpResponse \<times> Pipeline" where
  "passthrough_wire env endpoint expected compatible body pl =
     (let model = model_of_body body in
      if model = [] then (bad_request ''model field required'', pl)
      else (case proxy_target model of
          None \<Rightarrow> (bad_request (''invalid model ref: '' @ model), pl)
        | Some (p, _) \<Rightarrow>
           (let fmt = unwrap_or ''unknown'' (map_option (adapter_wire_format \<circ> pc_type) (provider_config (pl_config pl) p)) in
            if \<not> compatible fmt then (mismatch endpoint expected p fmt, pl)
            else (case reg_get (pl_registry pl) p of
                None \<Rightarrow> (bad_request (''unknown provider: '' @ p), pl)
              | Some adapter \<Rightarrow> (case proxy_key env p pl of (key, pl') \<Rightarrow>
                  if key = [] then (bad_request (''no API key for '' @ p), pl')
                  else (relay_wire (px_send env (proxy_call adapter endpoint key (accept_header body) body)), pl'))))))"

definition messages_passthrough :: "ProxyEnv \<Rightarrow> json \<Rightarrow> Pipeline \<Rightarrow> HttpResponse \<times> Pipeline" where
  "messages_passthrough env = passthrough_wire env ''/v1/messages'' ''anthropic'' is_messages_compatible"

definition responses_passthrough :: "ProxyEnv \<Rightarrow> json \<Rightarrow> Pipeline \<Rightarrow> HttpResponse \<times> Pipeline" where
  "responses_passthrough env = passthrough_wire env ''/v1/responses'' ''openai-responses'' is_responses_compatible"

subsection \<open>Images, speech, video\<close>

definition multimodal_row :: "ProxyEnv \<Rightarrow> string \<Rightarrow> string \<Rightarrow> u16 \<Rightarrow> RequestLog" where
  "multimodal_row env p model st = \<lparr>lq_id = px_uuid env, lq_tier = ''multimodal'', lq_requested_model = Some model,
     lq_routed_model = ''passthrough'', lq_routed_provider = p, lq_total_latency_ms = 0, lq_input_tokens = None,
     lq_output_tokens = None, lq_cache_read_tokens = None, lq_cost_usd = None, lq_truncated = False,
     lq_fallback_count = 0, lq_finished = True, lq_finish_reason = Some (if is_success st then ''ok'' else ''error''),
     lq_client_ip = None, lq_user_id = None, lq_user_agent = None\<rparr>"

definition relay_multimodal :: "string \<Rightarrow> string \<Rightarrow> ProxyReply \<Rightarrow> HttpResponse" where
  "relay_multimodal p model r = \<lparr>hr_status = py_status r,
     hr_headers = header_if ''content-type'' (Some (unwrap_or ''application/json'' (visible (py_content_type r))))
       @ header_if ''x-router-provider'' (visible (Some p)) @ header_if ''x-router-model'' (visible (Some model)),
     hr_body = Some (String (case py_bytes r of Inl _ \<Rightarrow> [] | Inr b \<Rightarrow> b))\<rparr>"

definition passthrough :: "ProxyEnv \<Rightarrow> string \<Rightarrow> json \<Rightarrow> Pipeline \<Rightarrow> HttpResponse \<times> Pipeline" where
  "passthrough env path_suffix body pl =
     (let model = model_of_body body in
      if model = [] then (bad_request ''model field required'', pl)
      else (case proxy_target model of
          None \<Rightarrow> (bad_request (''invalid model ref: '' @ model), pl)
        | Some (p, _) \<Rightarrow> (case reg_get (pl_registry pl) p of
              None \<Rightarrow> (bad_request (''unknown provider: '' @ p), pl)
            | Some adapter \<Rightarrow> (case proxy_key env p pl of (key, pl') \<Rightarrow>
                if key = [] then (bad_request (''no API key for '' @ p), pl')
                else (case px_send env (proxy_call adapter path_suffix key [] body) of
                    Inl e \<Rightarrow> (typed_error 502 (''upstream send: '' @ re_text e) ''server_error'' [], pl')
                  | Inr r \<Rightarrow> (relay_multimodal p model r,
                      pl'\<lparr>pl_writes := pl_writes pl' @ [LogRequest (px_ts env) (multimodal_row env p model (py_status r))]\<rparr>))))))"

definition image_generations :: "ProxyEnv \<Rightarrow> json \<Rightarrow> Pipeline \<Rightarrow> HttpResponse \<times> Pipeline" where
  "image_generations env = passthrough env ''/v1/images/generations''"

definition audio_speech :: "ProxyEnv \<Rightarrow> json \<Rightarrow> Pipeline \<Rightarrow> HttpResponse \<times> Pipeline" where
  "audio_speech env = passthrough env ''/v1/audio/speech''"

definition video_generations :: "ProxyEnv \<Rightarrow> json \<Rightarrow> Pipeline \<Rightarrow> HttpResponse \<times> Pipeline" where
  "video_generations env = passthrough env ''/v1/videos/generations''"

subsection \<open>What a pass-through does\<close>

text \<open>Only the key cache of the pipeline can change before the answer is relayed.\<close>

lemma proxy_key_parts:
  assumes "proxy_key env p pl = (key, pl')"
  shows "pl_db pl' = pl_db pl \<and> pl_writes pl' = pl_writes pl \<and> pl_config pl' = pl_config pl \<and> pl_registry pl' = pl_registry pl"
  using assms by (auto simp: proxy_key_def split: prod.split_asm)

text \<open>A pass-through request leaves no trace: whatever it asks for and whatever the provider answers, neither
  the usage of any user nor the log gets an entry, so budgets never see it.\<close>

theorem passthrough_is_never_accounted:
  "pl_db (snd (passthrough_wire env endpoint expected compatible body pl)) = pl_db pl
     \<and> pl_writes (snd (passthrough_wire env endpoint expected compatible body pl)) = pl_writes pl"
  by (auto simp: passthrough_wire_def Let_def dest: proxy_key_parts split: option.split prod.split)

definition speaks :: "(string \<Rightarrow> bool) \<Rightarrow> RouterConfig \<Rightarrow> string \<Rightarrow> bool" where
  "speaks compatible cfg p \<longleftrightarrow>
     compatible (unwrap_or ''unknown'' (map_option (adapter_wire_format \<circ> pc_type) (provider_config cfg p)))"

text \<open>A pass-through request for a provider of the right format that has an adapter and a key sends its body
  unchanged, once, to the endpoint of that provider, and relays status and bytes of the answer.\<close>

theorem passthrough_relays:
  assumes "split_model_ref (model_of_body body) = Some (p, m)" and "speaks compatible (pl_config pl) p"
    and "reg_get (pl_registry pl) p = Some adapter" and "fst (proxy_key env p pl) \<noteq> []"
    and "px_send env \<lparr>cl_method = ''POST'', cl_url = trim_end_matches (CHR ''/'') (ad_base_url adapter) @ endpoint,
          cl_headers = [auth_header adapter (fst (proxy_key env p pl)), (''content-type'', ''application/json'')]
            @ accept_header body, cl_body = Some body\<rparr> = Inr r"
    and "py_bytes r = Inr b"
  shows "hr_status (fst (passthrough_wire env endpoint expected compatible body pl)) = py_status r
     \<and> hr_body (fst (passthrough_wire env endpoint expected compatible body pl)) = Some (String b)"
proof -
  have "model_of_body body \<noteq> []" using assms(1) by (auto simp: split_model_ref_def)
  moreover have "proxy_target (model_of_body body) = Some (p, m)" by (simp add: proxy_target_def assms(1))
  moreover have "proxy_call adapter endpoint (fst (proxy_key env p pl)) (accept_header body) body
      = \<lparr>cl_method = ''POST'', cl_url = trim_end_matches (CHR ''/'') (ad_base_url adapter) @ endpoint,
          cl_headers = [auth_header adapter (fst (proxy_key env p pl)), (''content-type'', ''application/json'')]
            @ accept_header body, cl_body = Some body\<rparr>"
    by (simp add: proxy_call_def proxy_url_def post_json_def)
  ultimately show ?thesis using assms(2-4) assms(5,6)
    by (simp add: passthrough_wire_def Let_def speaks_def split_def relay_wire_def)
qed

text \<open>The documented form tier/provider/model is never understood by a pass-through: its first segment is
  taken as the provider, and unless a provider has the name of the tier the request is refused
  without a call and without a change.\<close>

theorem passthrough_refuses_tier_reference:
  assumes "model_of_body body = tier_as_str t @ ''/'' @ p @ ''/'' @ m"
    and "provider_config (pl_config pl) (tier_as_str t) = None" and "\<not> compatible ''unknown''"
  shows "passthrough_wire env endpoint expected compatible body pl
     = (mismatch endpoint expected (tier_as_str t) ''unknown'', pl)"
proof -
  have "CHR ''/'' \<notin> set (tier_as_str t)" by (cases t) simp_all
  then have "split_once (CHR ''/'') (model_of_body body) = Some (tier_as_str t, p @ ''/'' @ m)"
    using split_once_append [of "CHR ''/''" "tier_as_str t" "p @ ''/'' @ m"] by (simp add: assms(1))
  moreover have "tier_as_str t \<noteq> []" by (cases t) simp_all
  ultimately have "proxy_target (model_of_body body) = Some (tier_as_str t, p @ ''/'' @ m)" "model_of_body body \<noteq> []"
    by (simp_all add: proxy_target_def split_model_ref_def assms(1))
  then show ?thesis using assms(2,3) by (simp add: passthrough_wire_def Let_def)
qed

text \<open>A multimodal call logs exactly one row when the provider answered, without tokens, cost or user, and
  otherwise nothing; the usage of the users never changes.\<close>

theorem multimodal_logs_answered_calls:
  "\<exists>rows. pl_writes (snd (passthrough env path body pl)) = pl_writes pl @ rows
     \<and> list_all (\<lambda>w. \<exists>l. w = LogRequest (px_ts env) l \<and> lq_cost_usd l = None \<and> lq_user_id l = None) rows
     \<and> length rows = (if hr_headers (fst (passthrough env path body pl)) = [] then 0 else 1)
     \<and> pl_db (snd (passthrough env path body pl)) = pl_db pl"
  by (auto simp: passthrough_def Let_def bad_request_def typed_error_def json_response_def relay_multimodal_def
      header_if_def multimodal_row_def dest: proxy_key_parts split: option.split prod.split sum.split)

subsection \<open>Examples\<close>

definition anthropic_config :: RouterConfig where
  "anthropic_config = config_default\<lparr>providers := [\<lparr>pc_id = ''a'', pc_type = Anthropic, pc_key = Some ''sk'',
     pc_base_url = Some ''http://a/'', pc_default_model = None, pc_path = None\<rparr>]\<rparr>"

definition a_reply :: ProxyReply where
  "a_reply = \<lparr>py_status = 200, py_content_type = None, py_bytes = Inr ''{}''\<rparr>"

definition a_body :: json where
  "a_body = Object [(''model'', String ''a/claude'')]"

definition a_proxy :: ProxyEnv where
  "a_proxy = \<lparr>px_send = (\<lambda>c. if cl_url c = ''http://a/v1/messages'' \<and> cl_body c = Some a_body then Inr a_reply
       else Inl \<lparr>re_timeout = True, re_text = []\<rparr>),
     px_crypto = toy_crypto, px_var = (\<lambda>_. None), px_uuid = ''r'', px_ts = ''2026-01-01''\<rparr>"

definition a_pipe :: Pipeline where
  "a_pipe = app_pipe (demo_app anthropic_config)"

lemma a_key: "fst (proxy_key a_proxy ''a'' a_pipe) = ''sk''"
  by (simp add: proxy_key_def a_proxy_def a_pipe_def provider_key_def anthropic_config_def resolve_def
      resolve_literal_def env_reference_def strip_prefix_def split: prod.split)

theorem passthrough_relays_witness:
  "hr_status (fst (messages_passthrough a_proxy a_body a_pipe)) = 200
     \<and> hr_body (fst (messages_passthrough a_proxy a_body a_pipe)) = Some (String ''{}'')"
proof -
  have 1: "split_model_ref (model_of_body a_body) = Some (''a'', ''claude'')"
    by (simp add: model_of_body_def a_body_def get_str_def split_model_ref_def)
  have 2: "speaks is_messages_compatible (pl_config a_pipe) ''a''"
    by (simp add: speaks_def a_pipe_def provider_config_def anthropic_config_def adapter_wire_format_def
        is_messages_compatible_def)
  have 3: "reg_get (pl_registry a_pipe) ''a'' = Some (AnthropicAdapter ''a'' ''http://a/'' (default_model manifest_anthropic))"
    by (simp add: a_pipe_def start_registry_def anthropic_config_def from_configs_def build_adapter_def Let_def reg_get_def)
  have 4: "fst (proxy_key a_proxy ''a'' a_pipe) \<noteq> []" by (simp add: a_key)
  have 5: "px_send a_proxy \<lparr>cl_method = ''POST'', cl_url = trim_end_matches (CHR ''/'')
        (ad_base_url (AnthropicAdapter ''a'' ''http://a/'' (default_model manifest_anthropic))) @ ''/v1/messages'',
      cl_headers = [auth_header (AnthropicAdapter ''a'' ''http://a/'' (default_model manifest_anthropic)) (fst (proxy_key a_proxy ''a'' a_pipe)),
         (''content-type'', ''application/json'')] @ accept_header a_body, cl_body = Some a_body\<rparr> = Inr a_reply"
    by (simp add: a_proxy_def trim_end_matches_def)
  have 6: "py_bytes a_reply = Inr ''{}''" "py_status a_reply = 200" by (simp_all add: a_reply_def)
  from passthrough_relays [OF 1 2 3 4 5 6(1)] show ?thesis by (simp add: messages_passthrough_def 6(2))
qed

theorem passthrough_refuses_tier_reference_witness:
  "messages_passthrough a_proxy (Object [(''model'', String ''complex/a/claude'')]) a_pipe
     = (mismatch ''/v1/messages'' ''anthropic'' ''complex'' ''unknown'', a_pipe)"
proof -
  have 1: "model_of_body (Object [(''model'', String ''complex/a/claude'')]) = tier_as_str Complex @ ''/'' @ ''a'' @ ''/'' @ ''claude''"
    by (simp add: model_of_body_def get_str_def)
  have 2: "provider_config (pl_config a_pipe) (tier_as_str Complex) = None"
    by (simp add: provider_config_def a_pipe_def anthropic_config_def)
  have 3: "\<not> is_messages_compatible ''unknown''" by (simp add: is_messages_compatible_def)
  from passthrough_refuses_tier_reference [where t = Complex and p = "''a''" and m = "''claude''" and compatible = is_messages_compatible, OF 1 2 3, of a_proxy "''/v1/messages''" "''anthropic''"]
  show ?thesis by (simp add: messages_passthrough_def)
qed

end
