(* ===== verification/Routes.thy ===== *)
theory Routes
  imports Proxies
begin

section \<open>Routes and layers\<close>

text \<open>
  \<open>src/server/router.rs\<close>: the route table and the order of the layers around it, and the request
  id of \<open>src/server/middleware.rs\<close>. A route is a path pattern (a segment that starts with a colon
  is a parameter) with its methods; handlers go by the name of their function. A layer that is
  added later is outside: request id, then authentication, then the rate limit, then the route. The
  lookup in the table is the router library's and a parameter of \<open>serve\<close>; \<open>plain_routing\<close> is an
  instance of it for concrete paths. In the table an entry with a fixed segment stands before one
  with a parameter in its place, so the first match is the most specific one. Tracing is left out.
\<close>

type_synonym methods = "(string \<times> string) list"

definition v1_routes :: "(string \<times> methods) list" where
  "v1_routes =
    [(''/v1/chat/completions'', [(''POST'', ''chat_completions'')]),
     (''/v1/messages'', [(''POST'', ''messages_passthrough'')]),
     (''/v1/responses'', [(''POST'', ''responses_passthrough'')]),
     (''/v1/models'', [(''GET'', ''list_models'')]),
     (''/v1/images/generations'', [(''POST'', ''image_generations'')]),
     (''/v1/audio/speech'', [(''POST'', ''audio_speech'')]),
     (''/v1/videos/generations'', [(''POST'', ''video_generations'')]),
     (''/v1/health'', [(''GET'', ''health'')]),
     (''/health'', [(''GET'', ''health'')])]"

definition admin_routes :: "(string \<times> methods) list" where
  "admin_routes =
    [(''/admin/config/reload'', [(''POST'', ''reload_config'')]),
     (''/admin/config/save'', [(''POST'', ''save_config'')]),
     (''/admin/providers'', [(''POST'', ''add_provider''), (''GET'', ''list_provider_types'')]),
     (''/admin/providers/test'', [(''POST'', ''test_provider'')]),
     (''/admin/providers/list-models'', [(''POST'', ''list_provider_models'')]),
     (''/admin/providers/:id'', [(''POST'', ''remove_provider''), (''DELETE'', ''remove_provider''),
        (''PATCH'', ''remove_provider'')]),
     (''/admin/tiers/:tier'', [(''POST'', ''update_tier''), (''PATCH'', ''update_tier''), (''PUT'', ''update_tier'')]),
     (''/admin/provider-types/validate'', [(''POST'', ''validate_provider_type'')]),
     (''/admin/rules'', [(''POST'', ''add_rule'')]),
     (''/admin/rules/:index'', [(''POST'', ''delete_rule''), (''DELETE'', ''delete_rule'')]),
     (''/admin/keys/:provider_id'', [(''POST'', ''set_key''), (''DELETE'', ''delete_key'')]),
     (''/admin/oauth/:provider_id/refresh'', [(''POST'', ''set_oauth_refresh'')]),
     (''/admin/oauth/:provider_id/start'', [(''GET'', ''start_oauth''), (''POST'', ''start_oauth'')]),
     (''/admin/oauth/:provider_id/callback'', [(''GET'', ''oauth_callback'')]),
     (''/admin/oauth/:provider_id/paste'', [(''POST'', ''paste_anthropic_code'')]),
     (''/admin/oauth/:provider_id/setup'', [(''POST'', ''setup_oauth_via_cli'')]),
     (''/admin/oauth/:provider_id/device/start'', [(''POST'', ''start_device_oauth'')]),
     (''/admin/oauth/device/poll'', [(''POST'', ''poll_device_oauth'')]),
     (''/admin/pricing'', [(''GET'', ''list_pricing'')]),
     (''/admin/pricing/sync'', [(''POST'', ''sync_pricing_now'')])]"

definition ui_routes :: "(string \<times> methods) list" where
  "ui_routes =
    [(''/'', [(''GET'', ''index'')]),
     (''/ui'', [(''GET'', ''index'')]),
     (''/ui/'', [(''GET'', ''dashboard'')]),
     (''/ui/providers'', [(''GET'', ''providers_page'')]),
     (''/ui/providers/new'', [(''GET'', ''providers_new_step1'')]),
     (''/ui/providers/new/config'', [(''GET'', ''providers_new_step2'')]),
     (''/ui/oauth/done'', [(''GET'', ''oauth_done_page'')]),
     (''/ui/partials/providers'', [(''GET'', ''providers_partial'')]),
     (''/ui/tiers'', [(''GET'', ''tiers_page'')]),
     (''/ui/logs'', [(''GET'', ''logs_page'')]),
     (''/ui/rules'', [(''GET'', ''rules_page'')]),
     (''/ui/playground'', [(''GET'', ''playground_page''), (''POST'', ''playground_send'')]),
     (''/ui/users'', [(''GET'', ''users_page'')]),
     (''/ui/account'', [(''GET'', ''account_page'')]),
     (''/ui/pricing'', [(''GET'', ''pricing_page'')]),
     (''/ui/style.css'', [(''GET'', ''ui_style'')]),
     (''/ui/login'', [(''GET'', ''login_page'')]),
     (''/ui/setup'', [(''GET'', ''setup_page''), (''POST'', ''setup_submit'')]),
     (''/admin/ui/remove/:id'', [(''POST'', ''ui_remove_provider'')])]"

definition account_routes :: "(string \<times> methods) list" where
  "account_routes =
    [(''/auth/login'', [(''POST'', ''login'')]),
     (''/auth/logout'', [(''POST'', ''logout'')]),
     (''/auth/me'', [(''GET'', ''me'')]),
     (''/auth/keys'', [(''GET'', ''list_own_keys''), (''POST'', ''create_own_key'')]),
     (''/auth/keys/:id'', [(''DELETE'', ''delete_own_key'')]),
     (''/auth/usage'', [(''GET'', ''my_usage'')]),
     (''/admin/auth/rotate-password'', [(''POST'', ''rotate_password'')]),
     (''/admin/users'', [(''GET'', ''list_users''), (''POST'', ''create_user'')]),
     (''/admin/users/:id'', [(''DELETE'', ''delete_user'')]),
     (''/admin/users/:id/keys'', [(''POST'', ''admin_create_key'')]),
     (''/v1/stats'', [(''GET'', ''public_stats'')]),
     (''/healthz'', [(''GET'', ''healthz'')]),
     (''/api/v1/events'', [(''GET'', ''sse_events'')])]"

definition route_table :: "(string \<times> methods) list" where
  "route_table = v1_routes @ admin_routes @ ui_routes @ account_routes"

subsection \<open>A lookup in the table\<close>

text \<open>The values of the parameters, when the segments match.\<close>

fun match_segments :: "string list \<Rightarrow> string list \<Rightarrow> string list option" where
  "match_segments [] [] = Some []"
| "match_segments (p # ps) (s # ss) =
     (if starts_with p '':'' then (if s = [] then None else map_option (Cons s) (match_segments ps ss))
      else if p = s then match_segments ps ss else None)"
| "match_segments _ _ = None"

definition segments :: "string \<Rightarrow> string list" where
  "segments path = split_on (CHR ''/'') path"

definition match_path :: "string \<Rightarrow> string \<Rightarrow> string list option" where
  "match_path pattern path = match_segments (segments pattern) (segments path)"

datatype Routed = NoRoute | MethodNotAllowed | Handler string "string list"

fun find_route :: "(string \<times> methods) list \<Rightarrow> string \<Rightarrow> (methods \<times> string list) option" where
  "find_route [] path = None"
| "find_route ((pattern, ms) # rs) path = (case match_path pattern path of
      Some ps \<Rightarrow> Some (ms, ps) | None \<Rightarrow> find_route rs path)"

text \<open>A \<open>GET\<close> route answers \<open>HEAD\<close> as well.\<close>

definition plain_routing :: "(string \<times> methods) list \<Rightarrow> string \<Rightarrow> string \<Rightarrow> Routed" where
  "plain_routing table meth path = (case find_route table path of
      None \<Rightarrow> NoRoute
    | Some (ms, ps) \<Rightarrow> (case map_of ms (if meth = ''HEAD'' then ''GET'' else meth) of
          None \<Rightarrow> MethodNotAllowed | Some h \<Rightarrow> Handler h ps))"

subsection \<open>Layers\<close>

definition request_id :: "string \<Rightarrow> string option \<Rightarrow> string" where
  "request_id uuid header = unwrap_or uuid header"

datatype Served = Refused HttpResponse | Limited HttpResponse | Reached UserContext Routed

definition too_many :: "nat \<Rightarrow> json \<Rightarrow> HttpResponse" where
  "too_many retry_after body =
     \<lparr>hr_status = 429, hr_headers = [(''retry-after'', show_nat retry_after)], hr_body = Some body\<rparr>"

text \<open>\<open>t1\<close>, \<open>t2\<close>, \<open>t3\<close> are the clock readings of the limiter.\<close>

type_synonym routing = "(string \<times> methods) list \<Rightarrow> string \<Rightarrow> string \<Rightarrow> Routed"

definition serve ::
  "routing \<Rightarrow> AuthEnv \<Rightarrow> RouterConfig \<Rightarrow> instant \<Rightarrow> instant \<Rightarrow> instant \<Rightarrow> HttpRequest \<Rightarrow> UserDb \<times> RateLimiter
     \<Rightarrow> Served \<times> UserDb \<times> RateLimiter" where
  "serve rt env cfg t1 t2 t3 rq st =
     (case auth_middleware env (auth cfg) rq (fst st) of
        (Respond r, db) \<Rightarrow> (Refused r, db, snd st)
      | (Run ctx, db) \<Rightarrow>
          (case ratelimit_middleware (rl_enabled (ratelimit cfg)) (rq_path rq)
                 (Some (uc_key_prefix ctx, uc_session_id ctx)) t1 t2 t3 (snd st) of
             (TooMany n body, l) \<Rightarrow> (Limited (too_many n body), db, l)
           | (Forward, l) \<Rightarrow> (Reached ctx (rt route_table (rq_method rq) (rq_path rq)), db, l)))"

subsection \<open>What the table leaves open\<close>

definition bare_request :: "string \<Rightarrow> string \<Rightarrow> HttpRequest" where
  "bare_request meth path = \<lparr>rq_method = meth, rq_path = path, rq_authorization = None, rq_cookie = None,
     rq_accept = None\<rparr>"

text \<open>The routes the authentication does not guard: besides the public pages these are the event stream and
  all account routes under /auth/, which run for anonymous callers. The public path of the OAuth
  callback has no route, and the route of the callback is guarded.\<close>

theorem unguarded_routes:
  "filter (\<lambda>p. \<not> guarded (bare_request ''GET'' p)) (map fst route_table) =
     [''/v1/health'', ''/health'', ''/'', ''/ui'', ''/ui/style.css'', ''/ui/login'', ''/ui/setup'', ''/auth/login'',
      ''/auth/logout'', ''/auth/me'', ''/auth/keys'', ''/auth/keys/:id'', ''/auth/usage'', ''/v1/stats'', ''/healthz'',
      ''/api/v1/events'']
     \<and> is_public_path ''/admin/oauth/callback'' \<and> plain_routing route_table ''GET'' ''/admin/oauth/callback'' = NoRoute
     \<and> guarded (bare_request ''GET'' ''/admin/oauth/openai/callback'')
     \<and> plain_routing route_table ''GET'' ''/admin/oauth/openai/callback'' = Handler ''oauth_callback'' [''openai'']"
  by code_simp

text \<open>The admin routes are open to every user: once the authentication has accepted the caller, whatever the
  role, a request outside the rate-limited paths reaches the handler of its route.\<close>

theorem admin_routes_ignore_role:
  assumes "fst (auth_middleware env (auth cfg) rq db) = Run ctx" and "starts_with (rq_path rq) ''/admin/''"
  shows "fst (serve rt env cfg t1 t2 t3 rq (db, l)) = Reached ctx (rt route_table (rq_method rq) (rq_path rq))"
proof -
  have "\<not> is_rate_limited_path (rq_path rq)"
    using assms(2) by (auto simp: is_rate_limited_path_def)
  then show ?thesis using assms(1)
    by (cases "auth_middleware env (auth cfg) rq db") (simp add: serve_def ratelimit_middleware_def)
qed

text \<open>The key of an ordinary user reaches the handler that adds a provider.\<close>

lemma demo_key_runs:
  "fst (auth_middleware demo_auth cfg (demo_chat ''Bearer tk-ab12''\<lparr>rq_path := path\<rparr>) demo_db) =
     Run \<lparr>uc_user_id = ''u1'', uc_email = ''ann@x.io'', uc_name = ''Ann'', uc_role = UserRole, uc_via = ''api_key'',
       uc_key_prefix = Some ''tk-ab12'', uc_session_id = None\<rparr>"
proof -
  have c: "char_of (97 :: nat) = CHR ''a''" by code_simp
  show ?thesis by (simp add: demo_auth_defs demo_defs c get_user_by_api_key_def)
qed

theorem admin_routes_ignore_role_witness:
  "\<exists>ctx. uc_role ctx = UserRole
     \<and> fst (serve plain_routing demo_auth config_default 0 0 0 (demo_chat ''Bearer tk-ab12''\<lparr>rq_path := ''/admin/providers''\<rparr>)
         (demo_db, limiter_disabled 0)) = Reached ctx (Handler ''add_provider'' [])"
proof -
  let ?rq = "demo_chat ''Bearer tk-ab12''\<lparr>rq_path := ''/admin/providers''\<rparr>"
  have p: "starts_with (rq_path ?rq) ''/admin/''" by simp
  have r: "plain_routing route_table (rq_method ?rq) (rq_path ?rq) = Handler ''add_provider'' []"
    unfolding demo_chat_def by simp code_simp
  show ?thesis
    using admin_routes_ignore_role [OF demo_key_runs p, where rt = plain_routing and ?t1.0 = 0 and ?t2.0 = 0 and ?t3.0 = 0 and l = "limiter_disabled 0",
        unfolded r]
    by (metis UserContext.select_convs(4))
qed

text \<open>A request the authentication refuses spends no token of the rate limiter, and none that the limiter
  refuses reaches a handler.\<close>

theorem refused_requests_spend_nothing:
  "case serve rt env cfg t1 t2 t3 rq (db, l) of (r, db', l') \<Rightarrow> (case r of
     Refused resp \<Rightarrow> l' = l \<and> fst (auth_middleware env (auth cfg) rq db) = Respond resp
   | Limited resp \<Rightarrow> hr_status resp = 429 \<and> rl_enabled (ratelimit cfg) \<and> is_rate_limited_path (rq_path rq)
   | Reached ctx _ \<Rightarrow> fst (auth_middleware env (auth cfg) rq db) = Run ctx)"
  by (auto simp: serve_def too_many_def ratelimit_middleware_def split: prod.split MwOutcome.split RateDecision.split
      sum.split if_split_asm)

end
