(* ===== verification/LoginCli.thy ===== *)
theory LoginCli
  imports Routes
begin

section \<open>The login client\<close>

text \<open>
  \<open>src/bin/login.rs\<close>, the program \<open>token-dealer-login\<close>: its arguments, its own table of OAuth
  clients, the pasted-code, device and loopback flows, and the request that hands the refresh
  token to the server. Parameters (\<open>CliEnv\<close>): the environment, the random source, the hash, the
  loopback listener (its port, and the request line it reads or the error), \<open>Url::parse\<close> with
  \<open>query_pairs\<close>, the HTTP client, the \<open>curl\<close> process and the JSON text codec. Printed text is left
  out, colours and the browser with it.
\<close>

datatype CurlRun = SpawnError string | CurlFailed string | CurlOutput string

record TokenCall =
  tc_url :: string
  tc_headers :: "(string \<times> string) list"
  tc_body :: string

record CliEnv =
  ce_var :: "string \<Rightarrow> string option"
  ce_random64 :: "u8 list"
  ce_uuid :: string
  ce_sha256 :: "string \<Rightarrow> u8 list"
  ce_port :: "string + nat"
  ce_request :: "string + string"
  ce_stdin :: "string + string"
  ce_query :: "string \<Rightarrow> string + (string \<times> string) list"
  ce_send :: "TokenCall \<Rightarrow> string + HttpReply"
  ce_get :: "string \<Rightarrow> string + HttpReply"
  ce_curl :: "string list \<Rightarrow> CurlRun"
  ce_parse :: "string \<Rightarrow> string + json"
  ce_show :: "json \<Rightarrow> string"
  ce_pretty :: "json \<Rightarrow> string"

subsection \<open>The table of clients\<close>

record ProviderOAuth =
  po_client_id :: string
  po_authorize_url :: string
  po_token_url :: string
  po_scope :: string
  po_scope_override :: "string option"
  po_extra_params :: "(string \<times> string) list"
  po_requires_pkce :: bool
  po_client_secret :: "string option"

definition google_secret :: "(string \<Rightarrow> string option) \<Rightarrow> string option" where
  "google_secret var = (case var ''GOOGLE_OAUTH_CLIENT_SECRET'' of
      Some s \<Rightarrow> if s \<noteq> [] then Some s else None | None \<Rightarrow> None)"

definition lookup_provider :: "(string \<Rightarrow> string option) \<Rightarrow> string \<Rightarrow> ProviderOAuth option" where
  "lookup_provider var provider =
     (if provider = ''openai'' \<or> provider = ''responses'' then Some
        \<lparr>po_client_id = ''app_EMoamEEZ73f0CkXaXp7hrann'',
         po_authorize_url = ''https://auth.openai.com/oauth/authorize'',
         po_token_url = ''https://auth.openai.com/oauth/token'',
         po_scope = ''openid profile email offline_access'', po_scope_override = None,
         po_extra_params = [], po_requires_pkce = True, po_client_secret = None\<rparr>
      else if provider = ''google'' \<or> provider = ''gemini'' then Some
        \<lparr>po_client_id = ''681255809395-oo8ft2oprdrnp9e3aqf6av3hmi99ikee6.apps.googleusercontent.com'',
         po_authorize_url = ''https://accounts.google.com/o/oauth2/v2/auth'',
         po_token_url = ''https://oauth2.googleapis.com/token'',
         po_scope = ''https://www.googleapis.com/auth/cloud-platform https://www.googleapis.com/auth/userinfo.email https://www.googleapis.com/auth/userinfo.profile openid'',
         po_scope_override = None, po_extra_params = [(''access_type'', ''offline''), (''prompt'', ''consent'')],
         po_requires_pkce = True, po_client_secret = google_secret var\<rparr>
      else if provider = ''xai'' \<or> provider = ''grok'' then Some
        \<lparr>po_client_id = ''b1a00492-073a-47ea-816f-4c329264a828'',
         po_authorize_url = ''https://auth.x.ai/oauth2/authorize'', po_token_url = ''https://auth.x.ai/oauth2/token'',
         po_scope = ''openid profile email offline_access grok-cli:access api:access'', po_scope_override = None,
         po_extra_params = [], po_requires_pkce = True, po_client_secret = None\<rparr>
      else if provider = ''github-copilot'' then Some
        \<lparr>po_client_id = ''Iv1.b507a08c87ecfe98'', po_authorize_url = '''',
         po_token_url = ''https://github.com/login/oauth/access_token'', po_scope = ''read:user'',
         po_scope_override = None, po_extra_params = [], po_requires_pkce = False, po_client_secret = None\<rparr>
      else if provider = ''kiro'' then Some
        \<lparr>po_client_id = ''Manifest'', po_authorize_url = '''',
         po_token_url = ''https://oidc.us-east-1.amazonaws.com/token'',
         po_scope = ''codewhisperer:completions codewhisperer:conversations'',
         po_scope_override = None, po_extra_params = [], po_requires_pkce = False, po_client_secret = None\<rparr>
      else if provider = ''minimax'' then Some
        \<lparr>po_client_id = ''78257093-7e40-4613-99e0-527b14b39113'', po_authorize_url = '''',
         po_token_url = ''https://account.minimax.io/oauth2/token'', po_scope = ''group_id profile model.completion'',
         po_scope_override = None, po_extra_params = [], po_requires_pkce = True, po_client_secret = None\<rparr>
      else if provider = ''anthropic'' then Some
        \<lparr>po_client_id = ''9d1c250a-e61b-44d9-88ed-5944d1962f5e'',
         po_authorize_url = ''https://claude.ai/oauth/authorize'',
         po_token_url = ''https://api.anthropic.com/v1/oauth/token'',
         po_scope = ''org:create_api_key user:profile user:inference'', po_scope_override = None,
         po_extra_params = [], po_requires_pkce = True, po_client_secret = None\<rparr>
      else None)"

subsection \<open>Arguments\<close>

record CliArgs =
  cli_server :: string
  cli_print_only :: bool
  cli_no_browser :: bool
  cli_provider :: "string option"

definition cli_defaults :: CliArgs where
  "cli_defaults = \<lparr>cli_server = ''http://127.0.0.1:8080'', cli_print_only = False, cli_no_browser = False,
     cli_provider = None\<rparr>"

text \<open>The arguments behind the program name; \<open>None\<close> stands for the help text.\<close>

fun parse_args :: "string list \<Rightarrow> CliArgs \<Rightarrow> string + CliArgs option" where
  "parse_args [] a = Inr (Some a)"
| "parse_args (x # xs) a =
     (if x = ''--server'' \<or> x = ''-s''
      then (case xs of [] \<Rightarrow> Inl ''--server requires URL'' | v # rest \<Rightarrow> parse_args rest (a\<lparr>cli_server := v\<rparr>))
      else if x = ''--print-url'' then parse_args xs (a\<lparr>cli_print_only := True\<rparr>)
      else if x = ''--no-browser'' then parse_args xs (a\<lparr>cli_no_browser := True\<rparr>)
      else if x = ''--help'' \<or> x = ''-h'' then Inr None
      else if starts_with x ''--'' then Inl (''unknown flag: '' @ x)
      else parse_args xs (a\<lparr>cli_provider := Some x\<rparr>))"

subsection \<open>Encodings\<close>

definition urlenc :: "string \<Rightarrow> string" where
  "urlenc s = concat (map (\<lambda>b.
     let n = (of_char b :: nat) in
     if (65 \<le> n \<and> n \<le> 90) \<or> (97 \<le> n \<and> n \<le> 122) \<or> (48 \<le> n \<and> n \<le> 57) \<or> b \<in> set ''-_.~'' then [b]
     else CHR ''%'' # [hex_digit (n div 16), hex_digit (n mod 16)]) s)"

definition TOKEN_ALPHABET :: string where
  "TOKEN_ALPHABET = ''ABCDEFGHIJKLMNOPQRSTUVWXYZabcdefghijklmnopqrstuvwxyz0123456789-._~''"

definition random_token :: "u8 list \<Rightarrow> string" where
  "random_token buf = map (\<lambda>b. TOKEN_ALPHABET ! (unat b mod length TOKEN_ALPHABET)) buf"

definition pkce_s256 :: "(string \<Rightarrow> u8 list) \<Rightarrow> string \<Rightarrow> string" where
  "pkce_s256 sha256 verifier = base64_url_encode (sha256 verifier)"

subsection \<open>Handing the token to the server\<close>

definition push_url :: "string \<Rightarrow> string \<Rightarrow> string" where
  "push_url srv provider = trim_end_matches (CHR ''/'') srv @ ''/admin/oauth/'' @ provider @ ''/setup''"

definition push_body :: "string \<Rightarrow> string option \<Rightarrow> string option \<Rightarrow> json" where
  "push_body refresh cid cs = Object ((''refresh_token'', String refresh) # (case (cid, cs) of
      (Some i, Some s) \<Rightarrow> [(''client_id'', String i), (''client_secret'', String s)] | _ \<Rightarrow> []))"

definition push_args :: "string \<Rightarrow> string \<Rightarrow> string list" where
  "push_args url body = [''-sS'', ''-X'', ''POST'', url, ''-H'', ''content-type: application/json'', ''-d'', body]"

definition push_refresh_token ::
  "CliEnv \<Rightarrow> string \<Rightarrow> string \<Rightarrow> string \<Rightarrow> string option \<Rightarrow> string option \<Rightarrow> string + unit" where
  "push_refresh_token env srv provider refresh cid cs =
     (case ce_curl env (push_args (push_url srv provider) (ce_show env (push_body refresh cid cs))) of
        SpawnError e \<Rightarrow> Inl e
      | CurlFailed err \<Rightarrow> Inl (''setup POST failed: '' @ err)
      | CurlOutput out \<Rightarrow> and_then (ce_parse env out) (\<lambda>v.
          if get_str ''status'' v = Some ''ok'' then Inr () else Inl (''setup returned: '' @ ce_show env v)))"

text \<open>How a flow ends.\<close>

datatype CliEnd = HelpShown | UrlPrinted string | Stored

definition stored :: "string + unit \<Rightarrow> CliEnd outcome" where
  "stored r = (case r of Inl e \<Rightarrow> Failed e | Inr _ \<Rightarrow> Done Stored)"

subsection \<open>Pasted codes\<close>

definition PASTE_REDIRECT :: string where
  "PASTE_REDIRECT = ''https://console.anthropic.com/oauth/code/callback''"

definition paste_url :: "ProviderOAuth \<Rightarrow> string \<Rightarrow> string \<Rightarrow> string" where
  "paste_url cfg state challenge =
     po_authorize_url cfg @ ''?code=true&client_id='' @ urlenc (po_client_id cfg) @ ''&response_type=code&redirect_uri=''
     @ urlenc PASTE_REDIRECT @ ''&scope='' @ urlenc (po_scope cfg) @ ''&state='' @ urlenc state
     @ ''&code_challenge='' @ urlenc challenge @ ''&code_challenge_method=S256''"

text \<open>\<open>rsplit_once('#')\<close>: the part before the last mark.\<close>

definition pasted_code :: "string \<Rightarrow> string" where
  "pasted_code pasted = (case rsplit_str ''#'' pasted of Some (c, _) \<Rightarrow> c | None \<Rightarrow> pasted)"

definition paste_body :: "ProviderOAuth \<Rightarrow> string \<Rightarrow> string \<Rightarrow> string" where
  "paste_body cfg code verifier = ''grant_type=authorization_code&code='' @ urlenc code
     @ ''&client_id='' @ urlenc (po_client_id cfg) @ ''&redirect_uri='' @ urlenc PASTE_REDIRECT
     @ ''&code_verifier='' @ urlenc verifier"

definition form_args :: "string \<Rightarrow> string \<Rightarrow> string list" where
  "form_args url body = [''-sS'', ''-X'', ''POST'', url, ''-H'', ''content-type: application/x-www-form-urlencoded'',
     ''--data'', body]"

definition run_anthropic_paste :: "CliEnv \<Rightarrow> string \<Rightarrow> bool \<Rightarrow> CliEnd outcome" where
  "run_anthropic_paste env srv print_only =
     (let cfg = the (lookup_provider (ce_var env) ''anthropic'');
          verifier = random_token (ce_random64 env);
          url = paste_url cfg (''anthropic.'' @ ce_uuid env) (pkce_s256 (ce_sha256 env) verifier) in
      if print_only then Done (UrlPrinted url)
      else (case ce_stdin env of
          Inl e \<Rightarrow> Failed e
        | Inr line \<Rightarrow> (let pasted = trim line in
            if pasted = [] then Failed ''empty input''
            else (case ce_curl env (form_args (po_token_url cfg) (paste_body cfg (pasted_code pasted) verifier)) of
                SpawnError e \<Rightarrow> Failed e
              | CurlFailed err \<Rightarrow> Failed (''Anthropic token exchange failed: '' @ err)
              | CurlOutput out \<Rightarrow> stored (and_then (ce_parse env out) (\<lambda>v.
                  and_then (ok_or ''Anthropic response missing refresh_token. Re-run the paste flow.''
                     (get_str ''refresh_token'' v))
                    (\<lambda>refresh. push_refresh_token env srv ''anthropic'' refresh None None)))))))"

subsection \<open>Device codes\<close>

text \<open>
  The flow asks the server with \<open>ureq\<close> (\<open>ce_get\<close>), then starts a second runtime inside the
  running one to poll, which the runtime library answers with a panic.
\<close>

definition device_start_url :: "string \<Rightarrow> string \<Rightarrow> string" where
  "device_start_url srv provider =
     trim_end_matches (CHR ''/'') srv @ ''/admin/oauth/'' @ provider @ ''/device/start''"

definition run_device_flow :: "CliEnv \<Rightarrow> string \<Rightarrow> string \<Rightarrow> bool \<Rightarrow> CliEnd outcome" where
  "run_device_flow env srv provider print_only =
     (case ce_get env (device_start_url srv provider) of
        Inl e \<Rightarrow> Failed e
      | Inr start \<Rightarrow>
          if \<not> is_success (hp_status start)
          then Failed (''device flow start failed: '' @ show_nat (unat (hp_status start)) @ '' '' @ hp_text start)
          else (case reply_json start of
              Inl e \<Rightarrow> Failed e
            | Inr body \<Rightarrow> (case get_str ''device_code'' body of
                None \<Rightarrow> Failed ''missing device_code''
              | Some _ \<Rightarrow> if print_only
                  then Done (UrlPrinted (unwrap_or ''(no verification_uri)'' (get_str ''verification_uri'' body)))
                  else Panics)))"

subsection \<open>The loopback flow\<close>

datatype CallbackResult = CallbackOk string string | CallbackError string

record Callback =
  cb_code :: string
  cb_state :: string
  cb_error :: string

definition callback_param :: "Callback \<Rightarrow> string \<times> string \<Rightarrow> Callback" where
  "callback_param c kv = (case kv of (k, v) \<Rightarrow>
     if k = ''code'' then c\<lparr>cb_code := v\<rparr> else if k = ''state'' then c\<lparr>cb_state := v\<rparr>
     else if k = ''error'' then c\<lparr>cb_error := v\<rparr> else c)"

text \<open>The path as it is cut out of the request line.\<close>

definition request_path :: "string \<Rightarrow> string option" where
  "request_path request_line = map_option (\<lambda>(path_query, _).
     case split_once (CHR '' '') path_query of Some (_, p) \<Rightarrow> p | None \<Rightarrow> path_query)
     (split_once (CHR '' '') request_line)"

text \<open>The result with the status of the page that is sent back.\<close>

definition accept_callback ::
  "(string \<Rightarrow> string + (string \<times> string) list) \<Rightarrow> string \<Rightarrow> string \<Rightarrow> string + CallbackResult \<times> nat" where
  "accept_callback query_pairs expected_state request_line =
     (case request_path request_line of
        None \<Rightarrow> Inl ''bad request line''
      | Some path \<Rightarrow> and_then (query_pairs (''http://127.0.0.1'' @ path)) (\<lambda>pairs.
          let c = foldl callback_param \<lparr>cb_code = [], cb_state = [], cb_error = []\<rparr> pairs in
          if cb_error c \<noteq> [] then Inr (CallbackError (''provider error: '' @ cb_error c), 400)
          else if cb_state c \<noteq> expected_state
          then Inr (CallbackError ''state mismatch (different browser session?)'', 400)
          else Inr (CallbackOk (cb_code c) (cb_state c), 200)))"

definition loopback_url :: "nat \<Rightarrow> string" where
  "loopback_url port = ''http://127.0.0.1:'' @ show_nat port @ ''/callback''"

definition loopback_authorize_url :: "ProviderOAuth \<Rightarrow> string \<Rightarrow> string \<Rightarrow> string \<Rightarrow> string" where
  "loopback_authorize_url cfg callback_url state challenge =
     po_authorize_url cfg @ ''?response_type=code&client_id='' @ urlenc (po_client_id cfg)
     @ ''&redirect_uri='' @ urlenc callback_url @ ''&scope='' @ urlenc (unwrap_or (po_scope cfg) (po_scope_override cfg))
     @ ''&state='' @ urlenc state
     @ (if po_requires_pkce cfg then ''&code_challenge='' @ urlenc challenge @ ''&code_challenge_method=S256'' else [])
     @ concat (map (\<lambda>(k, v). ''&'' @ urlenc k @ ''='' @ urlenc v) (po_extra_params cfg))"

definition exchange_body :: "ProviderOAuth \<Rightarrow> string \<Rightarrow> string \<Rightarrow> string \<Rightarrow> string" where
  "exchange_body cfg code callback_url verifier =
     ''grant_type=authorization_code&code='' @ urlenc code @ ''&redirect_uri='' @ urlenc callback_url
     @ ''&client_id='' @ urlenc (po_client_id cfg) @ ''&code_verifier='' @ urlenc verifier
     @ (case po_client_secret cfg of None \<Rightarrow> [] | Some cs \<Rightarrow> ''&client_secret='' @ urlenc cs)"

definition exchange_call :: "ProviderOAuth \<Rightarrow> string \<Rightarrow> TokenCall" where
  "exchange_call cfg body = \<lparr>tc_url = po_token_url cfg, tc_headers =
     [(''content-type'', ''application/x-www-form-urlencoded''), (''accept'', ''application/json'')], tc_body = body\<rparr>"

definition exchange_answer :: "CliEnv \<Rightarrow> string + HttpReply \<Rightarrow> string + string" where
  "exchange_answer env answer = and_then answer (\<lambda>r. and_then (reply_json r) (\<lambda>v.
     if \<not> is_success (hp_status r)
     then Inl (''token exchange failed: '' @ show_nat (unat (hp_status r)) @ '' '' @ unwrap_or [] (hp_reason r)
        @ '': '' @ ce_pretty env v)
     else ok_or (''token response missing refresh_token: '' @ ce_pretty env v) (get_str ''refresh_token'' v)))"

definition run_popup_flow :: "CliEnv \<Rightarrow> string \<Rightarrow> string \<Rightarrow> ProviderOAuth \<Rightarrow> bool \<Rightarrow> CliEnd outcome" where
  "run_popup_flow env srv provider cfg print_only = (case ce_port env of
      Inl e \<Rightarrow> Failed e
    | Inr port \<Rightarrow>
       (let callback_url = loopback_url port;
            verifier = random_token (ce_random64 env);
            state = provider @ ''.'' @ ce_uuid env in
        if print_only
        then Done (UrlPrinted (loopback_authorize_url cfg callback_url state (pkce_s256 (ce_sha256 env) verifier)))
        else (case and_then (ce_request env) (accept_callback (ce_query env) state) of
            Inl e \<Rightarrow> Failed (''callback error: '' @ e)
          | Inr (CallbackError e, _) \<Rightarrow> Failed (''callback error: '' @ e)
          | Inr (CallbackOk code _, _) \<Rightarrow> stored (and_then
              (exchange_answer env (ce_send env (exchange_call cfg (exchange_body cfg code callback_url verifier))))
              (\<lambda>refresh. push_refresh_token env srv provider refresh None None)))))"

subsection \<open>The program\<close>

definition cli_main :: "CliEnv \<Rightarrow> string list \<Rightarrow> CliEnd outcome" where
  "cli_main env args = (case parse_args args cli_defaults of
      Inl e \<Rightarrow> Failed e
    | Inr None \<Rightarrow> Done HelpShown
    | Inr (Some a) \<Rightarrow> (case cli_provider a of
          None \<Rightarrow> Failed ''missing provider name. Run `token-dealer-login --help` for usage.''
        | Some p \<Rightarrow>
            if p = ''anthropic'' then run_anthropic_paste env (cli_server a) (cli_print_only a)
            else if p = ''github-copilot'' \<or> p = ''kiro'' \<or> p = ''minimax''
            then run_device_flow env (cli_server a) p (cli_print_only a)
            else (case lookup_provider (ce_var env) p of
                None \<Rightarrow> Failed (''unknown provider: '' @ p
                  @ ''. Known: openai, google, gemini, xai, anthropic, github-copilot, kiro, minimax'')
              | Some cfg \<Rightarrow>
                  if po_authorize_url cfg = []
                  then Failed (''provider '' @ p @ '' has no popup_oauth authorize_url; use --device-code instead'')
                  else run_popup_flow env (cli_server a) p cfg (cli_print_only a))))"

subsection \<open>Encodings\<close>

lemma urlenc_urlencoding: "urlenc s = urlencoding s"
  by (simp add: urlenc_def urlencoding_def unreserved_def Let_def cong: map_cong)

lemma token_alphabet_unreserved: "list_all unreserved TOKEN_ALPHABET" "TOKEN_ALPHABET \<noteq> []"
  by code_simp+

lemma random_token_unreserved: "\<forall>c \<in> set (random_token buf). unreserved c"
proof -
  have "TOKEN_ALPHABET ! (unat b mod length TOKEN_ALPHABET) \<in> set TOKEN_ALPHABET" for b :: u8
    using token_alphabet_unreserved(2) by (intro nth_mem) simp
  then show ?thesis using token_alphabet_unreserved(1) by (auto simp: random_token_def list_all_iff)
qed

text \<open>The verifier the client makes fits PKCE: one unreserved character for every random byte, so that the
  form encoding sends it as it is; the challenge in the address is the one of this verifier.\<close>

theorem cli_verifier_wellformed:
  "length (random_token buf) = length buf \<and> list_all unreserved (random_token buf)
     \<and> urlenc (random_token buf) = random_token buf
     \<and> urlenc (pkce_s256 sha256 (random_token buf)) = base64_url_encode (sha256 (random_token buf))"
  using random_token_unreserved [of buf] encode_unreserved [of "sha256 (random_token buf)"]
  by (simp add: urlenc_urlencoding urlencoding_unreserved pkce_s256_def list_all_iff) (simp add: random_token_def)

subsection \<open>The callback\<close>

lemma request_path_method:
  assumes "CHR '' '' \<notin> set meth"
  shows "request_path (meth @ CHR '' '' # rest) = Some meth"
proof -
  have "split_once (CHR '' '') meth = None"
    using assms by (simp add: split_once_None)
  then show ?thesis using split_once_append [OF assms, of rest] by (simp add: request_path_def)
qed

text \<open>What \<open>Url::parse\<close> and \<open>query_pairs\<close> document: an address without a question mark has no pairs.\<close>

definition pairs_need_query :: "(string \<Rightarrow> string + (string \<times> string) list) \<Rightarrow> bool" where
  "pairs_need_query query_pairs \<longleftrightarrow> (\<forall>u ps. query_pairs u = Inr ps \<longrightarrow> CHR ''?'' \<notin> set u \<longrightarrow> ps = [])"

lemma callback_refused:
  assumes "pairs_need_query qp" "CHR '' '' \<notin> set meth" "CHR ''?'' \<notin> set meth" "expected \<noteq> []"
    and "accept_callback qp expected (meth @ CHR '' '' # rest) = Inr (r, st)"
  shows "r = CallbackError ''state mismatch (different browser session?)''"
proof -
  have "CHR ''?'' \<notin> set (''http://127.0.0.1'' @ meth)" using assms(3) by simp
  then have "ps = []" if "qp (''http://127.0.0.1'' @ meth) = Inr ps" for ps
    using assms(1) that unfolding pairs_need_query_def by blast
  with assms(4,5) show ?thesis
    by (auto simp: accept_callback_def request_path_method [OF assms(2)] and_then_Inr_iff Let_def split: if_split_asm)
qed

text \<open>No loopback login succeeds: the path is cut out of the wrong part of the request line, so that
  whatever the browser requests, with the right state or not, the client reports an error, without
  having exchanged the code.\<close>

theorem loopback_login_fails:
  assumes "pairs_need_query (ce_query env)" and "ce_port env = Inr port"
    and "ce_request env = Inr (meth @ CHR '' '' # rest)" and "CHR '' '' \<notin> set meth" and "CHR ''?'' \<notin> set meth"
  shows "\<exists>e. run_popup_flow env srv p cfg False = Failed (''callback error: '' @ e)"
proof (cases "accept_callback (ce_query env) (p @ ''.'' @ ce_uuid env) (meth @ CHR '' '' # rest)")
  case (Inl e)
  with assms(2,3) show ?thesis by (simp add: run_popup_flow_def Let_def)
next
  case (Inr x)
  then have "fst x = CallbackError ''state mismatch (different browser session?)''"
    using callback_refused [OF assms(1,4,5), of "p @ ''.'' @ ce_uuid env" rest "fst x" "snd x"] by simp
  with Inr assms(2,3) show ?thesis by (cases x) (simp add: run_popup_flow_def Let_def)
qed

subsection \<open>The table of clients\<close>

lemma client_types:
  "resolve_alias ''openai'' = Some Openai" "resolve_alias ''responses'' = Some Responses"
  "resolve_alias ''google'' = Some Google" "resolve_alias ''gemini'' = Some Google"
  "resolve_alias ''xai'' = Some Xai" "resolve_alias ''grok'' = Some Xai"
  "resolve_alias ''github-copilot'' = Some GithubCopilot" "resolve_alias ''kiro'' = Some Kiro"
  "resolve_alias ''minimax'' = Some Minimax" "resolve_alias ''anthropic'' = Some Anthropic"
  by code_simp+

lemma manifest_oauth: "resolve_alias p = Some ty \<Longrightarrow> lookup_manifest_oauth p = Option.bind (lookup ty) oauth"
  by (simp add: lookup_manifest_oauth_def)

lemmas client_manifests = manifest_openai_def manifest_responses_def manifest_google_def manifest_xai_def
  manifest_githubcopilot_def manifest_kiro_def manifest_minimax_def manifest_anthropic_def

definition same_client :: "ProviderOAuth \<Rightarrow> ManifestOAuth option \<Rightarrow> bool" where
  "same_client a m = (case m of None \<Rightarrow> False | Some b \<Rightarrow>
     po_client_id a = client_id b \<and> po_token_url a = token_url b \<and> po_scope a = scope b
     \<and> (po_authorize_url a = [] \<or> po_authorize_url a = authorize_url b))"

text \<open>The table of the client agrees with the manifest of the server: for every provider it knows, a refresh
  token it obtains belongs to the client, the token address and the scope the server will use.\<close>

theorem client_table_matches_manifest:
  assumes "lookup_provider var p = Some a"
  shows "same_client a (lookup_manifest_oauth p)"
proof -
  note [simp] = client_types [THEN manifest_oauth]
  consider "p = ''openai''" | "p = ''responses''" | "p = ''google''" | "p = ''gemini''" | "p = ''xai''" | "p = ''grok''"
    | "p = ''github-copilot''" | "p = ''kiro''" | "p = ''minimax''" | "p = ''anthropic''"
    using assms unfolding lookup_provider_def by (metis option.distinct(1))
  then show ?thesis using assms
    by cases (simp_all add: lookup_provider_def, auto simp: same_client_def client_manifests)
qed

subsection \<open>The client and the server\<close>

text \<open>The request \<open>curl\<close> makes: it carries no credential.\<close>

definition push_request :: "string \<Rightarrow> HttpRequest" where
  "push_request provider = \<lparr>rq_method = ''POST'', rq_path = ''/admin/oauth/'' @ provider @ ''/setup'',
     rq_authorization = None, rq_cookie = None, rq_accept = Some ''*/*''\<rparr>"

definition answer_body :: "Served \<Rightarrow> json option" where
  "answer_body s = (case s of Refused r \<Rightarrow> hr_body r | Limited r \<Rightarrow> hr_body r | Reached _ _ \<Rightarrow> None)"

text \<open>\<open>curl\<close> reaches the server: what it prints is the body of the answer, where the request is refused.\<close>

definition curl_reaches :: "CliEnv \<Rightarrow> string \<Rightarrow> (HttpRequest \<Rightarrow> Served) \<Rightarrow> bool" where
  "curl_reaches env srv respond \<longleftrightarrow> (\<forall>p body out v r.
     ce_curl env (push_args (push_url srv p) body) = CurlOutput out \<longrightarrow> respond (push_request p) = Refused r
     \<longrightarrow> ce_parse env out = Inr v \<longrightarrow> hr_body r = Some v)"

lemma push_guarded: "guarded (push_request p)"
proof -
  have "''/admin/oauth/'' @ p @ ''/setup'' \<noteq> ''/admin/oauth/callback''"
  proof
    assume "''/admin/oauth/'' @ p @ ''/setup'' = ''/admin/oauth/callback''"
    then have "last (p @ ''/setup'') = last ''callback''" by simp
    then show False by simp
  qed
  then show ?thesis by (simp add: guarded_def push_request_def is_public_path_def Let_def)
qed

lemma push_refused:
  assumes "au_enabled (auth cfg)"
    and "curl_reaches env srv (\<lambda>rq. fst (serve rt aenv cfg t1 t2 t3 rq (db, l)))"
  shows "push_refresh_token env srv p refresh None None \<noteq> Inr ()"
proof
  let ?rq = "push_request p"
  have "auth_middleware aenv (auth cfg) ?rq db = (anonymous_outcome aenv (auth cfg) ?rq, db)"
    by (simp add: auth_middleware_def extract_token_def request_cookies_def try_api_key_def try_legacy_def push_request_def)
  moreover have "anonymous_outcome aenv (auth cfg) ?rq = Respond (ui_or_admin_unauthorized aenv ?rq (rq_path ?rq))"
    using assms(1) push_guarded [of p] by (simp add: anonymous_outcome_def guarded_def push_request_def Let_def)
  ultimately have refused: "fst (serve rt aenv cfg t1 t2 t3 ?rq (db, l)) = Refused (ui_or_admin_unauthorized aenv ?rq (rq_path ?rq))"
    by (simp add: serve_def)
  assume "push_refresh_token env srv p refresh None None = Inr ()"
  then obtain out v where out: "ce_curl env (push_args (push_url srv p) (ce_show env (push_body refresh None None))) = CurlOutput out"
    and v: "ce_parse env out = Inr v" "get_str ''status'' v = Some ''ok''"
    by (auto simp: push_refresh_token_def and_then_Inr_iff split: CurlRun.split_asm if_split_asm)
  have "hr_body (ui_or_admin_unauthorized aenv ?rq (rq_path ?rq)) = Some v"
    using assms(2) out refused v(1) unfolding curl_reaches_def by blast
  with v(2) show False
    by (auto simp: ui_or_admin_unauthorized_def unauthorized_def get_str_def Let_def split: if_split_asm)
qed

lemma stored_push:
  assumes "cli_main env args = Done Stored"
  shows "\<exists>a p refresh. parse_args args cli_defaults = Inr (Some a)
     \<and> push_refresh_token env (cli_server a) p refresh None None = Inr ()"
proof -
  obtain a p where a: "parse_args args cli_defaults = Inr (Some a)" "cli_provider a = Some p"
    using assms by (auto simp: cli_main_def split: sum.split_asm option.split_asm)
  have st: "stored r = Done Stored \<Longrightarrow> r = Inr ()" for r by (auto simp: stored_def split: sum.split_asm)
  have "run_device_flow env (cli_server a) p pr \<noteq> Done Stored" for pr
    by (auto simp: run_device_flow_def split: sum.split option.split)
  with assms a consider "run_anthropic_paste env (cli_server a) (cli_print_only a) = Done Stored"
    | cfg where "run_popup_flow env (cli_server a) p cfg (cli_print_only a) = Done Stored"
    by (auto simp: cli_main_def split: if_split_asm option.split_asm)
  then have "\<exists>q refresh. push_refresh_token env (cli_server a) q refresh None None = Inr ()"
  proof cases
    case 1
    then show ?thesis
      by (auto simp: run_anthropic_paste_def Let_def and_then_Inr_iff split: if_split_asm sum.split_asm CurlRun.split_asm dest!: st)
        blast
  next
    case 2
    then show ?thesis
      by (auto simp: run_popup_flow_def Let_def and_then_Inr_iff split: if_split_asm sum.split_asm prod.split_asm
          CallbackResult.split_asm dest!: st)
        blast
  qed
  with a show ?thesis by blast
qed


text \<open>No device flow starts: the client asks with \<open>GET\<close> where the server has a \<open>POST\<close> route, and its HTTP
  client reports the refusal as an error.\<close>

theorem device_flow_fails:
  assumes "p \<in> {''github-copilot'', ''kiro'', ''minimax''}"
    and "plain_routing route_table ''GET'' (''/admin/oauth/'' @ p @ ''/device/start'') = MethodNotAllowed
       \<Longrightarrow> \<exists>e. ce_get env (device_start_url srv p) = Inl e"
  shows "\<exists>e. run_device_flow env srv p print_only = Failed e"
proof -
  have "list_all (\<lambda>q. plain_routing route_table ''GET'' (''/admin/oauth/'' @ q @ ''/device/start'') = MethodNotAllowed)
      [''github-copilot'', ''kiro'', ''minimax'']"
    by code_simp
  note bspec [OF this [unfolded list_all_iff list.set] assms(1)]
  with assms(2) show ?thesis by (auto simp: run_device_flow_def)
qed

subsection \<open>A run of the client\<close>

text \<open>A browser that answers with the right state, and a server whose answers \<open>curl\<close> cannot read.\<close>

definition a_cli :: CliEnv where
  "a_cli = \<lparr>ce_var = (\<lambda>_. None), ce_random64 = replicate 64 0, ce_uuid = ''u'', ce_sha256 = (\<lambda>_. [1, 2, 3]),
     ce_port = Inr 49152, ce_request = Inr ''GET /callback?code=c&state=openai.u HTTP/1.1'', ce_stdin = Inr ''c#s'',
     ce_query = (\<lambda>u. Inr (if CHR ''?'' \<in> set u then [(''code'', ''c''), (''state'', ''openai.u'')] else [])),
     ce_send = (\<lambda>_. Inl ''offline''), ce_get = (\<lambda>_. Inl ''status code 405''),
     ce_curl = (\<lambda>_. CurlOutput []), ce_parse = (\<lambda>_. Inl ''EOF''), ce_show = (\<lambda>_. []), ce_pretty = (\<lambda>_. [])\<rparr>"

theorem loopback_login_fails_witness:
  "\<exists>e. run_popup_flow a_cli ''http://td'' ''openai'' (the (lookup_provider (\<lambda>_. None) ''openai'')) False
     = Failed (''callback error: '' @ e)"
proof (rule loopback_login_fails)
  show "pairs_need_query (ce_query a_cli)" by (simp add: pairs_need_query_def a_cli_def)
  show "ce_port a_cli = Inr 49152" by (simp add: a_cli_def)
  show "ce_request a_cli = Inr (''GET'' @ CHR '' '' # ''/callback?code=c&state=openai.u HTTP/1.1'')"
    by (simp add: a_cli_def)
qed simp_all

theorem client_table_matches_manifest_witness:
  "same_client (the (lookup_provider (\<lambda>_. None) ''kiro'')) (lookup_manifest_oauth ''kiro'')"
  by (rule client_table_matches_manifest [where var = "\<lambda>_. None"]) (simp add: lookup_provider_def)


theorem device_flow_fails_witness: "\<exists>e. run_device_flow a_cli ''http://td'' ''kiro'' False = Failed e"
  by (rule device_flow_fails) (simp_all add: a_cli_def)

end
