(* ===== verification/Background.thy ===== *)
theory Background
  imports Startup
begin

section \<open>Background tasks and events\<close>

text \<open>
  \<open>src/discovery/mod.rs\<close> (the cache \<open>provider_models\<close> and the choice of cheap models for tiers),
  \<open>src/metadata/mod.rs\<close> (the in-memory store of models.dev data) and \<open>src/server/events.rs\<close> (the
  payloads of the event stream). The cache is an association list over its primary key with the
  time of discovery; a statement the database rejects is not modelled. The adapters' network and
  the text of models.dev are parameters. A \<open>HashMap\<close> is iterated in an order that is a parameter.
  The broadcast channel and the timers of the tasks are library code and left out.
\<close>

subsection \<open>Model discovery\<close>

type_synonym ModelCache = "((string \<times> string) \<times> string) list"

definition upsert_for_provider :: "string \<Rightarrow> string \<Rightarrow> string list \<Rightarrow> ModelCache \<Rightarrow> ModelCache" where
  "upsert_for_provider ts pid models cache =
     fold (\<lambda>m. row_put (pid, m) ts) models (filter (\<lambda>row. fst (fst row) \<noteq> pid) cache)"

definition discovery_key :: "string + string option \<Rightarrow> string" where
  "discovery_key got = (case got of Inr (Some k) \<Rightarrow> k | _ \<Rightarrow> [])"

fun discover_loop ::
  "AdapterEnv \<Rightarrow> Crypto \<Rightarrow> string \<Rightarrow> ProviderRegistry \<Rightarrow> string list \<Rightarrow> nat \<times> KeyStore \<times> ModelCache
     \<Rightarrow> nat \<times> KeyStore \<times> ModelCache" where
  "discover_loop env cy ts reg [] st = st"
| "discover_loop env cy ts reg (pid # pids) (n, ks, cache) =
     discover_loop env cy ts reg pids (case reg_get reg pid of
        None \<Rightarrow> (n, ks, cache)
      | Some adapter \<Rightarrow> (case ks_get cy pid ks of (got, ks') \<Rightarrow>
          (case adapter_list_models env adapter (discovery_key got) of
             Inl _ \<Rightarrow> (n, ks', cache)
           | Inr models \<Rightarrow> (n + length models, ks', upsert_for_provider ts pid models cache))))"

definition discover_all ::
  "AdapterEnv \<Rightarrow> Crypto \<Rightarrow> string \<Rightarrow> ProviderRegistry \<Rightarrow> KeyStore \<Rightarrow> ModelCache \<Rightarrow> nat \<times> KeyStore \<times> ModelCache" where
  "discover_all env cy ts reg ks cache = discover_loop env cy ts reg (reg_ids reg) (0, ks, cache)"

definition list_discovered :: "string option \<Rightarrow> ModelCache \<Rightarrow> (string \<times> string) list" where
  "list_discovered provider cache = sort (filter (\<lambda>(p, _). provider = None \<or> provider = Some p) (map fst cache))"

subsection \<open>Cheap models for the tiers\<close>

definition tier_limits :: "(Tier \<times> f64) list" where
  "tier_limits = [(Simple, 2), (Standard, 6), (Complex, 15), (Reasoning, 15), (HighContext, 6), (Multimodal, 4)]"

text \<open>The models by provider, as the map collects them; \<open>order\<close> is the order it is iterated in.\<close>

definition by_provider :: "(string \<times> string) list \<Rightarrow> (string \<times> string list) list" where
  "by_provider rows = map (\<lambda>p. (p, map snd (filter (\<lambda>row. fst row = p) rows))) (remdups (map fst rows))"

definition best_step ::
  "PricingStore \<Rightarrow> f64 \<Rightarrow> (f64 \<times> string) option \<Rightarrow> string \<times> string \<Rightarrow> (f64 \<times> string) option" where
  "best_step prices max_input best row = (case price_get prices (snd row) of
      None \<Rightarrow> best
    | Some price \<Rightarrow> (let candidate = mp_input_per_1m price in
        if candidate > max_input \<or> candidate \<le> 0 then best
        else (case best of
            Some (p, b) \<Rightarrow> if p \<le> candidate then best else Some (candidate, fst row @ ''/'' @ snd row)
          | None \<Rightarrow> Some (candidate, fst row @ ''/'' @ snd row))))"

definition auto_assign_tiers ::
  "((string \<times> string list) list \<Rightarrow> (string \<times> string list) list) \<Rightarrow> PricingStore \<Rightarrow> RouterConfig \<Rightarrow> ModelCache
     \<Rightarrow> (string \<times> string) list" where
  "auto_assign_tiers order prices cfg cache =
     (let rows = concat (map (\<lambda>(p, ms). map (Pair p) ms) (order (by_provider (list_discovered None cache)))) in
      List.map_filter (\<lambda>(tier, max_input).
        if primary_for_tier cfg tier \<noteq> None then None
        else map_option (\<lambda>(_, primary). (tier_as_str tier, primary)) (foldl (best_step prices max_input) None rows))
        tier_limits)"

subsection \<open>Metadata of models\<close>

record ModelMetadata =
  mm_provider :: string
  mm_model_id :: string
  mm_context_window :: "u32 option"
  mm_output_limit :: "u32 option"
  mm_supports_tools :: bool
  mm_supports_vision :: bool
  mm_supports_audio :: bool
  mm_supports_reasoning :: bool
  mm_input_per_million :: "f64 option"
  mm_output_per_million :: "f64 option"
  mm_cache_read_per_million :: "f64 option"
  mm_cache_write_per_million :: "f64 option"
  mm_source :: string

type_synonym MetadataStore = "(string \<times> string) \<rightharpoonup> ModelMetadata"

definition meta_get :: "MetadataStore \<Rightarrow> string \<Rightarrow> string \<Rightarrow> ModelMetadata option" where
  "meta_get s provider model = s (provider, model)"

definition meta_put :: "ModelMetadata \<Rightarrow> MetadataStore \<Rightarrow> MetadataStore" where
  "meta_put m s = s((mm_provider m, mm_model_id m) \<mapsto> m)"

definition field :: "string \<Rightarrow> json \<Rightarrow> json" where
  "field k v = unwrap_or Null (jget k v)"

definition u32_field :: "string \<Rightarrow> json \<Rightarrow> u32 option" where
  "u32_field k v = map_option ucast (Option.bind (jget k v) as_u64)"

definition mentions :: "string \<Rightarrow> string \<Rightarrow> json \<Rightarrow> bool" where
  "mentions k word v = unwrap_or False (map_option (list_ex (\<lambda>s. as_str s = Some word)) (Option.bind (jget k v) as_array))"

definition f64_field :: "string \<Rightarrow> json \<Rightarrow> f64 option" where
  "f64_field k v = Option.bind (jget k v) as_f64"

definition metadata_of :: "string \<Rightarrow> string \<Rightarrow> json \<Rightarrow> ModelMetadata" where
  "metadata_of provider model_id m =
     (let cost = field ''cost'' m; limits = field ''limit'' m; modalities = field ''modalities'' m in
      \<lparr>mm_provider = provider, mm_model_id = model_id,
       mm_context_window = u32_field ''context'' limits, mm_output_limit = u32_field ''output'' limits,
       mm_supports_tools = mentions ''output'' ''tools'' modalities,
       mm_supports_vision = mentions ''input'' ''image'' modalities,
       mm_supports_audio = mentions ''input'' ''audio'' modalities,
       mm_supports_reasoning = unwrap_or False (Option.bind (jget ''reasoning'' m) as_bool),
       mm_input_per_million = f64_field ''input'' cost, mm_output_per_million = f64_field ''output'' cost,
       mm_cache_read_per_million = f64_field ''cache_read'' cost,
       mm_cache_write_per_million = f64_field ''cache_write'' cost, mm_source = ''models_dev''\<rparr>)"

definition parse_models_dev :: "json \<Rightarrow> ModelMetadata list" where
  "parse_models_dev body = concat (map (\<lambda>(provider, models). map (\<lambda>(model_id, m). metadata_of provider model_id m)
     (unwrap_or [] (as_object models))) (unwrap_or [] (as_object body)))"

text \<open>One answer of models.dev: its status and its body, or the error of the client.\<close>

definition fetch_from_models_dev :: "string + u16 \<times> (string + json) \<Rightarrow> string + ModelMetadata list" where
  "fetch_from_models_dev answer = and_then answer (\<lambda>(status, body).
     if \<not> is_success status then Inl (''models.dev returned '' @ show_nat (unat status))
     else and_then body (\<lambda>v. Inr (parse_models_dev v)))"

definition refresh_metadata :: "string + u16 \<times> (string + json) \<Rightarrow> MetadataStore \<Rightarrow> MetadataStore" where
  "refresh_metadata answer s = (case fetch_from_models_dev answer of
      Inl _ \<Rightarrow> s | Inr metas \<Rightarrow> fold meta_put metas s)"

subsection \<open>Events\<close>

datatype RouterEvent =
    RequestCompleted (ev_request_id: string) (ev_tier: string) (ev_provider: string) (ev_model: string)
      (ev_cost_usd: "f64 option") (ev_input: "u32 option") (ev_output: "u32 option") (ev_latency_ms: u64) (ev_finished_at: int)
  | BudgetWarning (ev_user: "string option") (ev_kind: string) (ev_fraction: f64)
  | PricingSynced (ev_upserted: nat) (ev_url: string)

definition jopt :: "('a \<Rightarrow> json) \<Rightarrow> 'a option \<Rightarrow> json" where
  "jopt f x = (case x of None \<Rightarrow> Null | Some v \<Rightarrow> f v)"

definition ji64 :: "int \<Rightarrow> json" where
  "ji64 i = Number (if 0 \<le> i then PosInt (of_int i) else NegInt i)"

fun event_json :: "RouterEvent \<Rightarrow> json" where
  "event_json (RequestCompleted r t p m c i out lat fin) = Object [(''type'', String ''request_completed''),
     (''request_id'', String r), (''tier'', String t), (''provider'', String p), (''model'', String m),
     (''cost_usd'', jopt jf64 c), (''input_tokens'', jopt ju32 i), (''output_tokens'', jopt ju32 out),
     (''latency_ms'', Number (PosInt lat)), (''finished_at'', ji64 fin)]"
| "event_json (BudgetWarning u k f) = Object [(''type'', String ''budget_warning''),
     (''user_id'', jopt String u), (''kind'', String k), (''fraction'', jf64 f)]"
| "event_json (PricingSynced n url) = Object [(''type'', String ''pricing_synced''),
     (''upserted'', Number (PosInt (of_nat n))), (''url'', String url)]"

definition sse_of_payload :: "(json \<Rightarrow> string) \<Rightarrow> json \<Rightarrow> SseEvent" where
  "sse_of_payload show payload = \<lparr>ev_name = Some (unwrap_or ''message'' (get_str ''type'' payload)), ev_data = show payload\<rparr>"

subsection \<open>What a discovery changes\<close>

text \<open>The models a provider answers with, called with its stored key or with none.\<close>

definition discovery_answer ::
  "AdapterEnv \<Rightarrow> Crypto \<Rightarrow> ProviderRegistry \<Rightarrow> KeyStore \<Rightarrow> string \<Rightarrow> string list option" where
  "discovery_answer env cy reg ks p = (case reg_get reg p of
      None \<Rightarrow> None
    | Some adapter \<Rightarrow> (case adapter_list_models env adapter (unwrap_or [] (ks_lookup cy ks p)) of
          Inl _ \<Rightarrow> None | Inr models \<Rightarrow> Some models))"

lemma discovery_key_lookup: "discovery_key (fst (ks_get cy p ks)) = unwrap_or [] (ks_lookup cy ks p)"
  by (auto simp: discovery_key_def ks_lookup_def split: sum.split option.split)

lemma discovery_answer_cached [simp]:
  "discovery_answer env cy reg (snd (ks_get cy q ks)) = discovery_answer env cy reg ks"
  by (rule ext) (simp add: discovery_answer_def split: option.split)

lemma keys_row_put: "fst ` set (row_put k v t) = insert k (fst ` set t)"
  by (induction k v t rule: row_put.induct) auto

lemma keys_upsert:
  "fst ` set (upsert_for_provider ts pid models cache) =
     {row \<in> fst ` set cache. fst row \<noteq> pid} \<union> Pair pid ` set models"
proof -
  have "fst ` set (fold (\<lambda>m. row_put (pid, m) ts) models t) = fst ` set t \<union> Pair pid ` set models" for t
    by (induction models arbitrary: t) (auto simp: keys_row_put)
  then show ?thesis by (auto simp: upsert_for_provider_def)
qed

definition discover_step ::
  "AdapterEnv \<Rightarrow> Crypto \<Rightarrow> string \<Rightarrow> ProviderRegistry \<Rightarrow> string \<Rightarrow> nat \<times> KeyStore \<times> ModelCache
     \<Rightarrow> nat \<times> KeyStore \<times> ModelCache" where
  "discover_step env cy ts reg pid st = discover_loop env cy ts reg [pid] st"

lemma discover_loop_step: "discover_loop env cy ts reg (pid # pids) st = discover_loop env cy ts reg pids (discover_step env cy ts reg pid st)"
  by (cases st) (simp add: discover_step_def)

lemma discover_step_keys:
  assumes "discover_step env cy ts reg pid (n, ks, cache) = (n', ks', cache')"
  shows "discovery_answer env cy reg ks' = discovery_answer env cy reg ks"
    and "fst ` set cache' = (case discovery_answer env cy reg ks pid of None \<Rightarrow> fst ` set cache
       | Some models \<Rightarrow> {row \<in> fst ` set cache. fst row \<noteq> pid} \<union> Pair pid ` set models)"
proof -
  obtain got ks2 where g: "ks_get cy pid ks = (got, ks2)" by (rule prod.exhaust)
  have k: "discovery_key got = unwrap_or [] (ks_lookup cy ks pid)" using discovery_key_lookup [of cy pid ks] g by simp
  have a: "discovery_answer env cy reg ks2 = discovery_answer env cy reg ks"
    using discovery_answer_cached [of env cy reg pid ks] g by simp
  show "discovery_answer env cy reg ks' = discovery_answer env cy reg ks"
    using assms a by (auto simp: discover_step_def g split: option.split_asm sum.split_asm)
  show "fst ` set cache' = (case discovery_answer env cy reg ks pid of None \<Rightarrow> fst ` set cache
       | Some models \<Rightarrow> {row \<in> fst ` set cache. fst row \<noteq> pid} \<union> Pair pid ` set models)"
  proof (cases "reg_get reg pid")
    case (Some adapter)
    show ?thesis
    proof (cases "adapter_list_models env adapter (unwrap_or [] (ks_lookup cy ks pid))")
      case (Inr models)
      then have "cache' = upsert_for_provider ts pid models cache"
        using assms Some by (simp add: discover_step_def g k)
      with Some Inr keys_upsert [of ts pid models cache] show ?thesis by (simp only: discovery_answer_def option.case sum.case)
    qed (use assms Some in \<open>simp add: discover_step_def g k discovery_answer_def\<close>)
  qed (use assms in \<open>simp add: discover_step_def discovery_answer_def\<close>)
qed

lemma discover_loop_keys:
  assumes "discover_loop env cy ts reg pids (n, ks, cache) = (n', ks', cache')"
  shows "(p, m) \<in> fst ` set cache' \<longleftrightarrow> (case (if p \<in> set pids then discovery_answer env cy reg ks p else None) of
     None \<Rightarrow> (p, m) \<in> fst ` set cache | Some models \<Rightarrow> m \<in> set models)"
  using assms
proof (induction pids arbitrary: n ks cache)
  case (Cons pid pids)
  obtain n2 ks2 cache2 where s: "discover_step env cy ts reg pid (n, ks, cache) = (n2, ks2, cache2)" by (rule prod_cases3)
  note step = discover_step_keys [OF s]
  have "discover_loop env cy ts reg pids (n2, ks2, cache2) = (n', ks', cache')"
    using Cons.prems unfolding discover_loop_step s .
  from Cons.IH [OF this] show ?case
    unfolding step(1) step(2) by (cases "discovery_answer env cy reg ks pid"; cases "discovery_answer env cy reg ks p") auto
qed simp

text \<open>C35. A discovery replaces the cached models of exactly the providers that answer: theirs become the models
  they report, a provider that fails or is gone keeps what it had, and the model endpoint lists every
  model in the cache.\<close>

theorem discovery_replaces_answers:
  "case discover_all env cy ts reg ks cache of (_, _, cache') \<Rightarrow>
     set (list_discovered None cache') = {(p, m). case discovery_answer env cy reg ks p of
        None \<Rightarrow> (p, m) \<in> set (list_discovered None cache) | Some models \<Rightarrow> m \<in> set models}
     \<and> set (list_discovered None cache') \<subseteq> set (merge_models (reg_list reg) (Some (list_discovered None cache')))"
proof -
  obtain n ks' cache' where d: "discover_all env cy ts reg ks cache = (n, ks', cache')" by (rule prod_cases3)
  have all: "set (list_discovered None c) = fst ` set c" for c by (auto simp: list_discovered_def)
  have gone: "p \<notin> set (reg_ids reg) \<Longrightarrow> discovery_answer env cy reg ks p = None" for p
    unfolding discovery_answer_def reg_get_def reg_ids_def set_map using map_of_eq_None_iff [of reg p] by simp
  have "(p, m) \<in> fst ` set cache' \<longleftrightarrow> (case discovery_answer env cy reg ks p of
      None \<Rightarrow> (p, m) \<in> fst ` set cache | Some models \<Rightarrow> m \<in> set models)" for p m
    using discover_loop_keys [OF d [unfolded discover_all_def], of p m] gone [of p] by (auto split: if_split_asm)
  then have "fst ` set cache' = {(p, m). case discovery_answer env cy reg ks p of
      None \<Rightarrow> (p, m) \<in> fst ` set cache | Some models \<Rightarrow> m \<in> set models}"
    by auto
  moreover have "fst ` set cache' \<subseteq> set (merge_models (reg_list reg) (Some (list_discovered None cache')))"
    using foldl_insert_new [of "[]" "reg_list reg @ list_discovered None cache'"]
    by (simp add: merge_models_def all)
  ultimately show ?thesis unfolding d prod.case all by (rule conjI)
qed

subsection \<open>What the assignment of tiers picks\<close>

text \<open>The price of a model that may be picked: in the price table, positive and within the limit.\<close>

definition offer :: "PricingStore \<Rightarrow> f64 \<Rightarrow> string \<times> string \<Rightarrow> f64 option" where
  "offer prices max_input row = (case price_get prices (snd row) of
      None \<Rightarrow> None
    | Some price \<Rightarrow> if 0 < mp_input_per_1m price \<and> mp_input_per_1m price \<le> max_input
        then Some (mp_input_per_1m price) else None)"

definition ref_of :: "string \<times> string \<Rightarrow> string" where
  "ref_of row = fst row @ ''/'' @ snd row"

definition cheapest :: "PricingStore \<Rightarrow> f64 \<Rightarrow> (string \<times> string) set \<Rightarrow> f64 \<times> string \<Rightarrow> bool" where
  "cheapest prices max_input rows best \<longleftrightarrow>
     (\<exists>row \<in> rows. offer prices max_input row = Some (fst best) \<and> snd best = ref_of row)
     \<and> (\<forall>row \<in> rows. \<forall>c. offer prices max_input row = Some c \<longrightarrow> fst best \<le> c)"

lemma best_step_offer:
  "best_step prices mx best row = (case offer prices mx row of
      None \<Rightarrow> best
    | Some c \<Rightarrow> (case best of None \<Rightarrow> Some (c, ref_of row) | Some (p, b) \<Rightarrow> if p \<le> c then best else Some (c, ref_of row)))"
  by (auto simp: best_step_def offer_def ref_of_def Let_def split: option.split)

lemma best_fold:
  "case foldl (best_step prices mx) None rows of
     None \<Rightarrow> \<forall>row \<in> set rows. offer prices mx row = None
   | Some best \<Rightarrow> cheapest prices mx (set rows) best"
proof (induction rows rule: rev_induct)
  case (snoc row rows)
  let ?best = "foldl (best_step prices mx) None rows"
  show ?case
  proof (cases ?best)
    case None
    with snoc show ?thesis
      by (cases "offer prices mx row") (auto simp: best_step_offer [where best = None and row = row] cheapest_def)
  next
    case (Some best)
    with snoc have c: "cheapest prices mx (set rows) best" by simp
    show ?thesis
    proof (cases "offer prices mx row")
      case None
      with Some c show ?thesis by (simp add: best_step_offer [where row = row and best = "Some best"] cheapest_def)
    next
      case offered: (Some x)
      show ?thesis
      proof (cases "fst best \<le> x")
        case True
        then have "best_step prices mx (Some best) row = Some best"
          using offered by (cases best) (simp add: best_step_offer)
        moreover have "cheapest prices mx (set (rows @ [row])) best"
          using c offered True unfolding cheapest_def by fastforce
        ultimately show ?thesis using Some by simp
      next
        case False
        with Some c offered have "cheapest prices mx (set (rows @ [row])) (x, ref_of row)"
          unfolding cheapest_def by fastforce
        moreover have "best_step prices mx (Some best) row = Some (x, ref_of row)"
          using offered False by (cases best) (simp add: best_step_offer)
        ultimately show ?thesis using Some by simp
      qed
    qed
  qed
qed simp

lemma by_provider_rows: "set (concat (map (\<lambda>(p, ms). map (Pair p) ms) (by_provider rows))) = set rows"
  by (force simp: by_provider_def)

lemma map_of_assigned:
  assumes "distinct (map fst xs)" "(t, mx) \<in> set xs" "inj g"
  shows "map_of (List.map_filter (\<lambda>(t, mx). map_option (Pair (g t)) (h t mx)) xs) (g t) = h t mx"
  using assms(1,2)
proof (induction xs)
  case (Cons x xs)
  obtain t' mx' where x: "x = (t', mx')" by (cases x)
  have other: "map_of (List.map_filter (\<lambda>(t, mx). map_option (Pair (g t)) (h t mx)) ys) (g t) = None"
    if "t \<notin> fst ` set ys" for ys
    using that by (induction ys) (auto simp: map_filter_simps inj_eq [OF assms(3)] split: option.split)
  show ?case
  proof (cases "t' = t")
    case True
    with Cons.prems x have "mx' = mx" "t \<notin> fst ` set xs" by force+
    with True x other show ?thesis by (cases "h t mx") (simp_all add: map_filter_simps)
  next
    case False
    with Cons.prems x have "(t, mx) \<in> set xs" "distinct (map fst xs)" by auto
    from Cons.IH [OF this(2,1)] False x show ?thesis
      by (cases "h t' mx'") (simp_all add: map_filter_simps inj_eq [OF assms(3)])
  qed
qed simp

text \<open>Whatever order the providers are visited in, a tier is assigned exactly if it has no primary and some
  discovered model is offered within its limit, and what it gets is a discovered model that no other
  offer undercuts.\<close>

theorem auto_assign_picks_cheapest:
  assumes "(tier, mx) \<in> set tier_limits" and "\<forall>xs. set (order xs) = set xs"
  shows "case map_of (auto_assign_tiers order prices cfg cache) (tier_as_str tier) of
     Some primary \<Rightarrow> primary_for_tier cfg tier = None
       \<and> (\<exists>c. cheapest prices mx (set (list_discovered None cache)) (c, primary))
   | None \<Rightarrow> primary_for_tier cfg tier \<noteq> None
       \<or> list_all (\<lambda>row. offer prices mx row = None) (list_discovered None cache)"
proof -
  let ?rows = "concat (map (\<lambda>(p, ms). map (Pair p) ms) (order (by_provider (list_discovered None cache))))"
  let ?h = "\<lambda>t m. if primary_for_tier cfg t \<noteq> None then None else map_option snd (foldl (best_step prices m) None ?rows)"
  have rows: "set ?rows = set (list_discovered None cache)"
    using assms(2) by_provider_rows [of "list_discovered None cache"] by simp
  have inj: "inj tier_as_str" by (rule inj_on_inverseI [where g = "the \<circ> tier_parse"]) simp
  have d: "distinct (map fst tier_limits)" by (simp add: tier_limits_def)
  have "auto_assign_tiers order prices cfg cache =
      List.map_filter (\<lambda>(t, m). map_option (Pair (tier_as_str t)) (?h t m)) tier_limits"
    unfolding auto_assign_tiers_def Let_def
    by (rule arg_cong [where f = "\<lambda>f. List.map_filter f tier_limits"])
      (auto simp: fun_eq_iff option.map_comp o_def intro!: option.map_cong)
  then have m: "map_of (auto_assign_tiers order prices cfg cache) (tier_as_str tier) = ?h tier mx"
    by (simp only: map_of_assigned [where h = ?h, OF d assms(1) inj])
  show ?thesis
    using best_fold [where prices = prices and mx = mx and rows = ?rows] unfolding m rows
    by (auto simp: list_all_iff split: option.split option.split_asm if_split_asm)
qed

text \<open>The built-in prices are keyed by provider and model, and a discovered name has no provider: with these
  prices alone no tier is ever assigned.\<close>

lemma no_seeded_offer:
  assumes "CHR ''/'' \<notin> set (snd row)"
  shows "offer (snd (seed_defaults [])) mx row = None"
proof -
  have "map_of default_price_seeds (snd row) = None"
    using seeds_have_slash assms by (auto simp: map_of_eq_None_iff list_all_iff)
  then show ?thesis unfolding offer_def seed_defaults_def by (simp add: seed_fold) (simp add: price_get_def)
qed

subsection \<open>The store of metadata\<close>

lemma meta_fold: "fold meta_put metas s key =
     (case find (\<lambda>m. (mm_provider m, mm_model_id m) = key) (rev metas) of None \<Rightarrow> s key | Some m \<Rightarrow> Some m)"
proof (induction metas arbitrary: s)
  case (Cons m metas)
  have f: "find P (xs @ [y]) = (case find P xs of Some x \<Rightarrow> Some x | None \<Rightarrow> if P y then Some y else None)" for P xs and y :: ModelMetadata
    by (induction xs) auto
  show ?case by (simp add: Cons.IH f meta_put_def [of m s] split: option.split)
qed simp

text \<open>A refresh leaves the last metadata fetched for a model; a model that was not in the answer, and every
  model when the answer is an error or no success, keeps what is stored.\<close>

theorem refresh_keeps_last:
  "meta_get (refresh_metadata answer s) provider model =
     (case fetch_from_models_dev answer of
        Inl _ \<Rightarrow> meta_get s provider model
      | Inr metas \<Rightarrow> opt_or (find (\<lambda>m. mm_provider m = provider \<and> mm_model_id m = model) (rev metas)) (meta_get s provider model))"
  by (auto simp: refresh_metadata_def meta_get_def meta_fold split: sum.split option.split)

subsection \<open>Names of the events\<close>

text \<open>The events of the stream are named \<open>request_completed\<close>, \<open>budget_warning\<close> and \<open>pricing_synced\<close>.\<close>

theorem event_names:
  "ev_name (sse_of_payload show_json (event_json e)) = Some (case e of
     RequestCompleted _ _ _ _ _ _ _ _ _ \<Rightarrow> ''request_completed'' | BudgetWarning _ _ _ \<Rightarrow> ''budget_warning''
   | PricingSynced _ _ \<Rightarrow> ''pricing_synced'')"
  by (cases e) (simp_all add: sse_of_payload_def get_str_def)

subsection \<open>An assignment\<close>

definition two_prices :: PricingStore where
  "two_prices = [(''m1'', \<lparr>input_per_1k = 2 / 1000, output_per_1k = 0, row_context = 0, row_modality = 1\<rparr>),
     (''m2'', \<lparr>input_per_1k = 1 / 1000, output_per_1k = 0, row_context = 0, row_modality = 1\<rparr>)]"

definition two_models :: ModelCache where
  "two_models = [((''a'', ''m1''), ''t''), ((''b'', ''m2''), ''t'')]"

theorem auto_assign_picks_cheapest_witness:
  "\<exists>c. cheapest two_prices 2 (set (list_discovered None two_models)) (c, ''b/m2'')"
proof -
  have m: "map_of (auto_assign_tiers rev two_prices config_default two_models) (tier_as_str Simple) = Some ''b/m2''"
    by code_simp
  have t: "(Simple, 2) \<in> set tier_limits" by (simp add: tier_limits_def)
  have r: "\<forall>xs :: (string \<times> string list) list. set (rev xs) = set xs" by simp
  from auto_assign_picks_cheapest [OF t r, where prices = two_prices and cfg = config_default and cache = two_models] show ?thesis
    unfolding m by simp
qed

end
