(* ===== verification/WebForms.thy ===== *)
theory WebForms
  imports LoginCli
begin

section \<open>How the providers read what is sent to them\<close>

text \<open>
  Authorize addresses and form bodies are built by hand in \<open>src/oauth/mod.rs\<close> and \<open>src/bin/login.rs\<close>.
  This theory has the reader of \<open>application/x-www-form-urlencoded\<close> (WHATWG URL, section 5.1) as an
  abstract specification and shows which parameters a provider sees.
\<close>

subsection \<open>The encoder is a codec\<close>

definition form_byte :: "char \<Rightarrow> string" where
  "form_byte c = (if unreserved c then [c]
     else [CHR ''%'', hex_digit (of_char c div 16), hex_digit (of_char c mod 16)])"

lemma urlencoding_bytes: "urlencoding s = concat (map form_byte s)"
  by (simp add: urlencoding_def form_byte_def [abs_def])

definition plus_as_blank :: "char \<Rightarrow> char" where
  "plus_as_blank c = (if c = CHR ''+'' then CHR '' '' else c)"

definition form_decode :: "string \<Rightarrow> string" where
  "form_decode s = pct_decode (map plus_as_blank s)"

lemma hex_digit_upper: "hex_digit n = hex_upper n"
  by (simp add: hex_digit_def hex_upper_def)

lemma reserved_marks: "\<not> unreserved (CHR ''+'')" "\<not> unreserved (CHR ''%'')" "\<not> unreserved (CHR ''&'')" "\<not> unreserved (CHR ''='')"
    "\<not> unreserved (CHR ''?'')" "\<not> unreserved (CHR '' '')"
  by (simp_all add: unreserved_def)

lemma alnum_no_plus: "is_alnum c \<Longrightarrow> plus_as_blank c = c"
  by (auto simp: plus_as_blank_def is_alnum_def)

lemma form_decode_byte: "form_decode (form_byte c @ s) = c # form_decode s"
proof (cases "unreserved c")
  case True
  then have "c \<noteq> CHR ''+''" and "c \<noteq> CHR ''%''" using reserved_marks by metis+
  with True show ?thesis by (simp add: form_byte_def form_decode_def plus_as_blank_def pct_decode_safe)
next
  case False
  have n: "(of_char c :: nat) div 16 < 16" by (intro less_mult_imp_div_less) simp
  then have "char_of (16 * hex_val (hex_upper (of_char c div 16)) + hex_val (hex_upper (of_char c mod 16))) = c"
    by simp
  moreover have "plus_as_blank (CHR ''%'') = CHR ''%''" by (simp add: plus_as_blank_def)
  ultimately show ?thesis using False n
    by (simp add: form_byte_def form_decode_def hex_digit_upper alnum_no_plus is_alnum_hex_upper)
qed

lemma form_byte_chars: "d \<in> set (form_byte c) \<Longrightarrow> d = CHR ''%'' \<or> is_alnum d \<or> unreserved d"
proof -
  assume d: "d \<in> set (form_byte c)"
  have "(of_char c :: nat) div 16 < 16" by (intro less_mult_imp_div_less) simp
  with d show ?thesis by (auto simp: form_byte_def hex_digit_upper is_alnum_hex_upper split: if_split_asm)
qed

interpretation form: text_codec form_byte form_decode "\<lambda>d. d \<noteq> CHR ''&'' \<and> d \<noteq> CHR ''='' \<and> d \<noteq> CHR ''?''"
proof unfold_locales
  show "form_decode [] = []" by (simp add: form_decode_def)
  show "form_decode (form_byte c @ s) = c # form_decode s" for c s by (rule form_decode_byte)
  show "d \<noteq> CHR ''&'' \<and> d \<noteq> CHR ''='' \<and> d \<noteq> CHR ''?''" if "d \<in> set (form_byte c)" for c d
    using form_byte_chars [OF that] reserved_marks by (auto simp: is_alnum_def)
qed

subsection \<open>Reading a form\<close>

definition read_pair :: "string \<Rightarrow> string \<times> string" where
  "read_pair p = (case split_once (CHR ''='') p of
      Some (k, v) \<Rightarrow> (form_decode k, form_decode v) | None \<Rightarrow> (form_decode p, []))"

definition read_form :: "string \<Rightarrow> (string \<times> string) list" where
  "read_form s = map read_pair (filter (\<lambda>p. p \<noteq> []) (split_on (CHR ''&'') s))"

definition read_query :: "string \<Rightarrow> (string \<times> string) list" where
  "read_query url = (case split_once (CHR ''?'') url of Some (_, q) \<Rightarrow> read_form q | None \<Rightarrow> [])"

definition form_pair :: "string \<times> string \<Rightarrow> string" where
  "form_pair kv = urlencoding (fst kv) @ ''='' @ urlencoding (snd kv)"

definition form_text :: "(string \<times> string) list \<Rightarrow> string" where
  "form_text kvs = join ''&'' (map form_pair kvs)"

lemma read_form_pair: "read_pair (form_pair kv) = kv"
proof -
  have "CHR ''='' \<notin> set (urlencoding (fst kv))" unfolding urlencoding_bytes by (rule form.absent) simp
  then have "split_once (CHR ''='') (urlencoding (fst kv) @ CHR ''='' # urlencoding (snd kv))
      = Some (urlencoding (fst kv), urlencoding (snd kv))" by (rule split_once_append)
  then show ?thesis by (simp add: read_pair_def form_pair_def urlencoding_bytes form.decodes)
qed

lemma split_on_append: "d \<notin> set a \<Longrightarrow> split_on d (a @ d # b) = a # split_on d b"
  by (induction a) auto

lemma split_on_single: "d \<notin> set a \<Longrightarrow> split_on d a = [a]"
  by (induction a) auto

lemma split_on_join: "xs \<noteq> [] \<Longrightarrow> \<forall>x\<in>set xs. d \<notin> set x \<Longrightarrow> split_on d (join [d] xs) = xs"
  by (induction "[d]" xs rule: join.induct) (simp_all add: split_on_single split_on_append)

lemma form_pair_chars: "CHR ''&'' \<notin> set (form_pair kv)"
  using form.absent [of "CHR ''&''"] by (simp add: form_pair_def urlencoding_bytes)

lemma read_form_text: "read_form (form_text kvs) = kvs"
proof (cases "kvs = []")
  case True
  then show ?thesis by (simp add: read_form_def form_text_def)
next
  case False
  have pairs: "\<forall>p\<in>set (map form_pair kvs). CHR ''&'' \<notin> set p" using form_pair_chars by auto
  have "form_pair kv \<noteq> []" for kv by (simp add: form_pair_def)
  then have all: "filter (\<lambda>p. p \<noteq> []) (map form_pair kvs) = map form_pair kvs" by (simp add: filter_id_conv)
  have "split_on (CHR ''&'') (form_text kvs) = map form_pair kvs"
    unfolding form_text_def using False pairs by (intro split_on_join) simp_all
  with all show ?thesis by (simp add: read_form_def read_form_pair o_def)
qed

lemma read_query_text:
  "CHR ''?'' \<notin> set base \<Longrightarrow> read_query (base @ ''?'' @ form_text kvs) = kvs"
  using split_once_append [of "CHR ''?''" base "form_text kvs"] by (simp add: read_query_def read_form_text)

lemma form_text_Cons: "kvs \<noteq> [] \<Longrightarrow> form_text (kv # kvs) = form_pair kv @ ''&'' @ form_text kvs"
  by (cases kvs) (simp_all add: form_text_def)

lemma form_text_append: "kvs \<noteq> [] \<Longrightarrow> form_text (kvs @ ys) = form_text kvs @ concat (map (\<lambda>kv. ''&'' @ form_pair kv) ys)"
proof (induction ys arbitrary: kvs)
  case Nil
  then show ?case by simp
next
  case (Cons kv ys)
  have "form_text (kvs @ [kv]) = form_text kvs @ ''&'' @ form_pair kv" using Cons.prems
      join_snoc [of "map form_pair kvs" "''&''" "form_pair kv"] by (simp add: form_text_def)
  with Cons.IH [of "kvs @ [kv]"] show ?case by simp
qed

subsection \<open>What the providers read\<close>

lemma form_keys:
  "urlencoding ''response_type'' = ''response_type''" "urlencoding ''client_id'' = ''client_id''"
  "urlencoding ''redirect_uri'' = ''redirect_uri''" "urlencoding ''state'' = ''state''" "urlencoding ''scope'' = ''scope''"
  "urlencoding ''code_challenge'' = ''code_challenge''" "urlencoding ''code_challenge_method'' = ''code_challenge_method''"
  "urlencoding ''S256'' = ''S256''" "urlencoding ''code'' = ''code''" "urlencoding ''grant_type'' = ''grant_type''"
  "urlencoding ''authorization_code'' = ''authorization_code''" "urlencoding ''code_verifier'' = ''code_verifier''"
  "urlencoding ''client_secret'' = ''client_secret''" "urlencoding ''true'' = ''true''"
  by code_simp+

lemma form_text_start: "kvs \<noteq> [] \<Longrightarrow> form_text (kv # kvs) = form_pair kv @ concat (map (\<lambda>kv. ''&'' @ form_pair kv) kvs)"
  using form_text_append [of "[kv]" kvs] by (simp add: form_text_def)

text \<open>The scope of the manifest as the authorize address has it.\<close>

definition sent_scope :: "ManifestOAuth \<Rightarrow> string" where
  "sent_scope cfg = (if scope cfg = [] then DEFAULT_SCOPE else replace_chars [CHR '' ''] (CHR ''+'') (scope cfg))"

definition popup_params :: "ManifestOAuth \<Rightarrow> string \<Rightarrow> string \<Rightarrow> string \<Rightarrow> (string \<times> string) list" where
  "popup_params cfg uri state challenge =
     [(''response_type'', ''code''), (''client_id'', client_id cfg), (''redirect_uri'', effective_redirect cfg uri),
      (''state'', state), (''scope'', sent_scope cfg)] @ extra_authorize_params cfg
     @ (if requires_pkce cfg then [(''code_challenge'', challenge), (''code_challenge_method'', ''S256'')] else [])"

lemma popup_url_params: "popup_url cfg uri state challenge = authorize_url cfg @ ''?'' @ form_text (popup_params cfg uri state challenge)"
proof -
  have extra: "(\<lambda>(k, v). ''&'' @ urlencoding k @ ''='' @ urlencoding v) = (\<lambda>kv. ''&'' @ form_pair kv)"
    by (rule ext) (simp add: form_pair_def split_def)
  show ?thesis
    unfolding popup_url_def popup_params_def Let_def sent_scope_def extra
    by (cases "requires_pkce cfg") (simp_all add: form_text_start form_pair_def form_keys)
qed

text \<open>A provider reads exactly the intended parameters from the authorize address the server builds, whatever
  characters client, address and state hold, with one exception: the blanks of the scope arrive as plus
  signs, so that a list of scopes is asked for as a single unknown one.\<close>

theorem popup_request_is_read:
  assumes "CHR ''?'' \<notin> set (authorize_url cfg)" and "scope cfg \<noteq> []"
  shows "read_query (popup_url cfg uri state challenge) =
      [(''response_type'', ''code''), (''client_id'', client_id cfg), (''redirect_uri'', effective_redirect cfg uri),
       (''state'', state), (''scope'', replace_chars [CHR '' ''] (CHR ''+'') (scope cfg))] @ extra_authorize_params cfg
      @ (if requires_pkce cfg then [(''code_challenge'', challenge), (''code_challenge_method'', ''S256'')] else [])"
  unfolding popup_url_params read_query_text [OF assms(1)] popup_params_def sent_scope_def
  using assms(2) by (simp only: if_False)

theorem popup_request_is_read_witness:
  "map_of (read_query (popup_url (the (oauth manifest_google)) ''http://h/cb?x=1&y'' ''google.1'' ''ch'')) ''scope''
     \<noteq> Some (scope (the (oauth manifest_google)))
   \<and> map_of (read_query (popup_url (the (oauth manifest_google)) ''http://h/cb?x=1&y'' ''google.1'' ''ch'')) ''redirect_uri''
     = Some ''http://h/cb?x=1&y''"
proof -
  let ?g = "the (oauth manifest_google)"
  have u: "CHR ''?'' \<notin> set (authorize_url ?g)" and s: "scope ?g \<noteq> []"
    and r: "effective_redirect ?g ''http://h/cb?x=1&y'' = ''http://h/cb?x=1&y''"
    and p: "replace_chars [CHR '' ''] (CHR ''+'') (scope ?g) \<noteq> scope ?g" by code_simp+
  show ?thesis unfolding popup_request_is_read [OF u s] using r p by simp
qed

text \<open>The client asks for the scope as it is, and the exchange of its code carries the code, the address, the
  client and the verifier unchanged.\<close>

theorem client_requests_are_read:
  assumes "CHR ''?'' \<notin> set (po_authorize_url a)"
  shows "read_query (loopback_authorize_url a url state challenge) =
      [(''response_type'', ''code''), (''client_id'', po_client_id a), (''redirect_uri'', url),
       (''scope'', unwrap_or (po_scope a) (po_scope_override a)), (''state'', state)]
      @ (if po_requires_pkce a then [(''code_challenge'', challenge), (''code_challenge_method'', ''S256'')] else [])
      @ po_extra_params a
   \<and> read_form (exchange_body a code url verifier) =
      [(''grant_type'', ''authorization_code''), (''code'', code), (''redirect_uri'', url), (''client_id'', po_client_id a),
       (''code_verifier'', verifier)] @ (case po_client_secret a of None \<Rightarrow> [] | Some cs \<Rightarrow> [(''client_secret'', cs)])"
    (is "read_query ?u = ?q \<and> read_form ?b = ?f")
proof (rule conjI)
  have extra: "(\<lambda>(k, v). ''&'' @ urlencoding k @ ''='' @ urlencoding v) = (\<lambda>kv. ''&'' @ form_pair kv)"
    by (rule ext) (simp add: form_pair_def split_def)
  have "?u = po_authorize_url a @ ''?'' @ form_text ?q"
    unfolding loopback_authorize_url_def urlenc_urlencoding extra
    by (cases "po_requires_pkce a") (simp_all add: form_text_start form_pair_def form_keys)
  then show "read_query ?u = ?q" by (simp only: read_query_text [OF assms])
  have "?b = form_text ?f"
    unfolding exchange_body_def urlenc_urlencoding
    by (cases "po_client_secret a") (simp_all add: form_text_start form_pair_def form_keys)
  then show "read_form ?b = ?f" by (simp only: read_form_text)
qed

theorem client_requests_are_read_witness:
  "read_form (exchange_body (the (lookup_provider (\<lambda>_. None) ''openai'')) ''a&b=c'' ''http://127.0.0.1:1/callback'' ''v'')
     = [(''grant_type'', ''authorization_code''), (''code'', ''a&b=c''), (''redirect_uri'', ''http://127.0.0.1:1/callback''),
        (''client_id'', ''app_EMoamEEZ73f0CkXaXp7hrann''), (''code_verifier'', ''v'')]"
proof -
  let ?a = "the (lookup_provider (\<lambda>_. None) ''openai'')"
  have u: "CHR ''?'' \<notin> set (po_authorize_url ?a)" and c: "po_client_id ?a = ''app_EMoamEEZ73f0CkXaXp7hrann''"
    and s: "po_client_secret ?a = None" by code_simp+
  show ?thesis unfolding client_requests_are_read [OF u, THEN conjunct2] c s by simp
qed

end
