(* ===== verification/WebUi.thy ===== *)
theory WebUi
  imports Admin
begin

section \<open>The web interface\<close>

text \<open>
  \<open>src/server/ui.rs\<close>: the pages of the dashboard as the texts the handlers format. The wizard and the playground are in theories of their own. \<open>UiEnv\<close> has the path
  of the configuration file and the formats of the libraries: \<open>ui_decimals n x\<close> is \<open>{x:.n}\<close>, and
  \<open>ui_date\<close> is the \<open>strftime\<close> of \<open>chrono\<close>. Text outside ASCII is written as its UTF-8 bytes. A page
  is the body of a response with status 200.
\<close>

record UiEnv =
  ui_config_path :: string
  ui_decimals :: "nat \<Rightarrow> f64 \<Rightarrow> string"
  ui_date :: "string \<Rightarrow> DateTime \<Rightarrow> string"

definition em_dash :: string where "em_dash = [CHR 0xE2, CHR 0x80, CHR 0x94]"
definition en_dash :: string where "en_dash = [CHR 0xE2, CHR 0x80, CHR 0x93]"
definition ellipsis :: string where "ellipsis = [CHR 0xE2, CHR 0x80, CHR 0xA6]"
definition mid_dot :: string where "mid_dot = [CHR 0xC2, CHR 0xB7]"
definition right_arrow :: string where "right_arrow = [CHR 0xE2, CHR 0x86, CHR 0x92]"
definition left_arrow :: string where "left_arrow = [CHR 0xE2, CHR 0x86, CHR 0x90]"
definition check_mark :: string where "check_mark = [CHR 0xE2, CHR 0x9C, CHR 0x93]"
definition cross_mark :: string where "cross_mark = [CHR 0xE2, CHR 0x9C, CHR 0x95]"
definition bullet :: string where "bullet = [CHR 0xE2, CHR 0x80, CHR 0xA2]"

subsection \<open>Escaping and the frame of a page\<close>

definition ui_escape_char :: "char \<Rightarrow> string" where
  "ui_escape_char c =
     (if c = CHR ''&'' then ''&amp;'' else if c = CHR ''<'' then ''&lt;'' else if c = CHR ''>'' then ''&gt;''
      else if c = CHR 0x22 then ''&quot;'' else if c = CHR 0x27 then ''&#39;'' else [c])"

definition ui_escape :: "string \<Rightarrow> string" where
  "ui_escape s = concat (map ui_escape_char s)"

definition nav_link :: "string \<Rightarrow> string \<Rightarrow> string \<Rightarrow> string \<Rightarrow> string" where
  "nav_link active href label key = (let cls = (if active = key then ''active'' else []) in
     ''<a href=\"'' @ href @ ''\" class=\"'' @ cls @ ''\">'' @ label @ ''</a>'')"

definition HTMX_URL :: string where "HTMX_URL = ''https://unpkg.com/htmx.org@1.9.10''"

definition layout :: "string \<Rightarrow> string \<Rightarrow> string \<Rightarrow> string option \<Rightarrow> string" where
  "layout active title body flash =
     (let flash_html = (case flash of None \<Rightarrow> [] | Some f \<Rightarrow> ''<div id=\"flash\" class=\"flash\">'' @ f @ ''</div>'') in
     ''<!doctype html>\<newline>''
     @ ''<html lang=\"en\">\<newline>''
     @ ''<head>\<newline>''
     @ ''  <meta charset=\"utf-8\" />\<newline>''
     @ ''  <meta name=\"viewport\" content=\"width=device-width, initial-scale=1\" />\<newline>''
     @ ''  <title>'' @ title @ '' '' @ mid_dot @ '' token-dealer</title>\<newline>''
     @ ''  <link rel=\"stylesheet\" href=\"/ui/style.css\" />\<newline>''
     @ ''  <script src=\"'' @ HTMX_URL @ ''\" defer></script>\<newline>''
     @ ''</head>\<newline>''
     @ ''<body>\<newline>''
     @ ''<header class=\"app\">\<newline>''
     @ ''  <div class=\"brand\">token-dealer</div>\<newline>''
     @ ''  <nav>\<newline>''
     @ ''    '' @ nav_link active ''/'' ''Dashboard'' ''dashboard'' @ ''\<newline>''
     @ ''    '' @ nav_link active ''/ui/providers'' ''Providers'' ''providers'' @ ''\<newline>''
     @ ''    '' @ nav_link active ''/ui/tiers'' ''Tiers'' ''tiers'' @ ''\<newline>''
     @ ''    '' @ nav_link active ''/ui/rules'' ''Rules'' ''rules'' @ ''\<newline>''
     @ ''    '' @ nav_link active ''/ui/logs'' ''Logs'' ''logs'' @ ''\<newline>''
     @ ''    '' @ nav_link active ''/ui/playground'' ''Playground'' ''playground'' @ ''\<newline>''
     @ ''  </nav>\<newline>''
     @ ''  <div class=\"actions\">\<newline>''
     @ ''    <button class=\"secondary\" hx-post=\"/admin/config/save\" hx-swap=\"none\" hx-on::after-request=\"document.getElementById('flash')?.remove();let f=document.createElement('div');f.id='flash';f.className='flash success';f.textContent='saved to disk';document.querySelector('main').prepend(f);setTimeout(()=>f.remove(),3000)\">Save to disk</button>\<newline>''
     @ ''  </div>\<newline>''
     @ ''</header>\<newline>''
     @ ''<main>\<newline>''
     @ ''  '' @ flash_html @ ''\<newline>''
     @ ''  '' @ body @ ''\<newline>''
     @ ''</main>\<newline>''
     @ ''</body>\<newline>''
     @ ''</html>'')"

definition page :: "string \<Rightarrow> string \<Rightarrow> string \<Rightarrow> HttpResponse" where
  "page active title body = text_response 200 (layout active title body None)"

definition index :: HttpResponse where
  "index = \<lparr>hr_status = 302, hr_headers = [(''location'', ''/ui/'')], hr_body = Some (String [])\<rparr>"

subsection \<open>Dashboard and providers\<close>

definition dashboard_row :: "string \<times> string \<Rightarrow> string" where
  "dashboard_row row = (case row of (pid, model) \<Rightarrow>
     ''<tr><td><a href=\"/ui/providers#'' @ pid @ ''\">'' @ pid @ ''</a></td><td>'' @ model @ ''</td></tr>'')"

definition dashboard :: "UiEnv \<Rightarrow> App \<Rightarrow> HttpResponse" where
  "dashboard ui ap = (let bind = sv_bind (server (app_config ap));
     n_providers = show_nat (length (reg_list (app_registry ap)));
     n_tiers = show_nat (length (tiers (app_config ap)));
     provider_rows = concat (map dashboard_row (reg_list (app_registry ap))) in
     page ''dashboard'' ''Dashboard'' (
       ''\<newline>''
       @ ''<h1>Dashboard</h1>\<newline>''
       @ ''<p class=\"dim\">Listening on <code class=\"kbd\">'' @ bind @ ''</code> '' @ mid_dot
       @ '' config: <code class=\"kbd\">'' @ ui_config_path ui @ ''</code></p>\<newline>''
       @ ''\<newline>''
       @ ''<div class=\"cards\">\<newline>''
       @ ''  <div class=\"card\"><div class=\"label\">Providers</div><div class=\"value\">'' @ n_providers
       @ ''</div></div>\<newline>''
       @ ''  <div class=\"card\"><div class=\"label\">Tiers</div><div class=\"value\">'' @ n_tiers
       @ ''</div></div>\<newline>''
       @ ''  <div class=\"card\"><div class=\"label\">Log</div><div class=\"value muted\">phase 2</div></div>\<newline>''
       @ ''</div>\<newline>''
       @ ''\<newline>''
       @ ''<h2>Quick start</h2>\<newline>''
       @ ''<p>Route to a specific model:</p>\<newline>''
       @ ''<p><code class=\"kbd\">curl -X POST http://'' @ bind
       @ ''/v1/chat/completions -d '{\"model\":\"anthropic/claude-sonnet-4-5\",\"messages\":[{\"role\":\"user\",\"content\":\"hi\"}]}'</code></p>\<newline>''
       @ ''<p>Route by tier (uses the <code>standard</code> tier's primary):</p>\<newline>''
       @ ''<p><code class=\"kbd\">curl -X POST http://'' @ bind
       @ ''/v1/chat/completions -d '{\"model\":\"standard\",\"messages\":[{\"role\":\"user\",\"content\":\"hi\"}]}'</code></p>\<newline>''
       @ ''<p>Force a tier via header:</p>\<newline>''
       @ ''<p><code class=\"kbd\">curl -X POST http://'' @ bind
       @ ''/v1/chat/completions -H \"x-router-tier: complex\" -d '{...}'</code></p>\<newline>''
       @ ''\<newline>''
       @ ''<h2>Registered providers</h2>\<newline>''
       @ ''<table>\<newline>''
       @ ''  <thead><tr><th>ID</th><th>Default model</th></tr></thead>\<newline>''
       @ ''  <tbody>'' @ provider_rows @ ''</tbody>\<newline>''
       @ ''</table>\<newline>''))"

text \<open>The derived \<open>Debug\<close> name of a provider type, in lower case.\<close>

fun type_debug_lower :: "ProviderType \<Rightarrow> string" where
  "type_debug_lower Anthropic = ''anthropic''" | "type_debug_lower Google = ''google''"
| "type_debug_lower Kiro = ''kiro''" | "type_debug_lower Responses = ''responses''"
| "type_debug_lower Generic = ''generic''" | "type_debug_lower Openai = ''openai''"
| "type_debug_lower Openrouter = ''openrouter''" | "type_debug_lower Tokenrouter = ''tokenrouter''"
| "type_debug_lower Groq = ''groq''" | "type_debug_lower Deepseek = ''deepseek''"
| "type_debug_lower Fireworks = ''fireworks''" | "type_debug_lower Mistral = ''mistral''"
| "type_debug_lower Xai = ''xai''" | "type_debug_lower Qwen = ''qwen''"
| "type_debug_lower Moonshot = ''moonshot''" | "type_debug_lower Zai = ''zai''"
| "type_debug_lower Xiaomi = ''xiaomi''" | "type_debug_lower Minimax = ''minimax''"
| "type_debug_lower Byteplus = ''byteplus''" | "type_debug_lower Nvidia = ''nvidia''"
| "type_debug_lower OpencodeGo = ''opencodego''" | "type_debug_lower OpencodeZen = ''opencodezen''"
| "type_debug_lower Kilo = ''kilo''" | "type_debug_lower Commandcode = ''commandcode''"
| "type_debug_lower GithubCopilot = ''githubcopilot''" | "type_debug_lower Gitlawb = ''gitlawb''"
| "type_debug_lower Ollama = ''ollama''" | "type_debug_lower OllamaCloud = ''ollamacloud''"
| "type_debug_lower LlamaCpp = ''llamacpp''" | "type_debug_lower LmStudio = ''lmstudio''"

definition key_cell :: "string option \<Rightarrow> string" where
  "key_cell key = (case key of
      None \<Rightarrow> ''<span class=\"muted\">'' @ em_dash @ ''</span>''
    | Some k \<Rightarrow>
        if starts_with k ''${'' \<and> ends_with k ''}'' then ''<span class=\"muted\">env: '' @ take (length k - 3) (drop 2 k) @ ''</span>''
        else if k \<noteq> [] then ''<span class=\"kbd\">'' @ concat (replicate (min (length k) 8) bullet) @ ''</span>''
        else ''<span class=\"muted\">'' @ em_dash @ ''</span>'')"

definition provider_row :: "ProviderConfig \<Rightarrow> string" where
  "provider_row p =
     (let local = pc_type p \<in> {Ollama, LlamaCpp, LmStudio};
          badge = (if local then ''<span class=\"badge local\">local</span>'' else ''<span class=\"badge healthy\">cloud</span>'');
          pid = ui_escape (pc_id p) in
     ''<tr id=\"provider-'' @ pid @ ''\">\<newline>''
     @ ''              <td><strong>'' @ pid @ ''</strong></td>\<newline>''
     @ ''              <td><code>'' @ type_debug_lower (pc_type p) @ ''</code> '' @ badge @ ''</td>\<newline>''
     @ ''              <td>'' @ ui_escape (unwrap_or ''(manifest default)'' (pc_base_url p))
     @ ''</td>\<newline>''
     @ ''              <td><code>'' @ ui_escape (unwrap_or ''(manifest default)'' (pc_default_model p))
     @ ''</code></td>\<newline>''
     @ ''              <td>'' @ key_cell (pc_key p) @ ''</td>\<newline>''
     @ ''              <td><form hx-post=\"/admin/ui/remove/'' @ pid
     @ ''\" hx-target=\"#provider-list\" hx-swap=\"outerHTML\" hx-confirm=\"Remove provider '' @ pid
     @ ''?\" class=\"inline\"><button class=\"danger\" type=\"submit\">Remove</button></form></td>\<newline>''
     @ ''            </tr>'')"

definition render_providers_list :: "ProviderConfig list \<Rightarrow> string" where
  "render_providers_list ps =
     (if ps = [] then
       ''<div class=\"center-empty\" id=\"provider-list\">No providers configured. Add one above, or uncomment a block in <code>token-dealer.toml</code> and POST <code>/admin/config/reload</code>.</div>''
      else
       ''<table id=\"provider-list\">\<newline>''
       @ ''  <thead><tr><th>ID</th><th>Type</th><th>Base URL</th><th>Default model</th><th>Key</th><th></th></tr></thead>\<newline>''
       @ ''  <tbody>'' @ concat (map provider_row ps) @ ''</tbody>\<newline>''
       @ ''</table>'')"

definition providers_page :: "UiEnv \<Rightarrow> App \<Rightarrow> HttpResponse" where
  "providers_page ui ap = page ''providers'' ''Providers'' (
     ''\<newline>''
     @ ''<h1>Providers</h1>\<newline>''
     @ ''<p class=\"dim\">Adapters wired in to handle <code>provider/model</code> requests. The list and each adapter's defaults come from the manifest table.</p>\<newline>''
     @ ''<div class=\"notice\">Changes you make here are live in memory immediately and persisted to <code class=\"kbd\">''
     @ ui_config_path ui
     @ ''</code>. Click \"Save to disk\" in the top right to force a flush.</div>\<newline>''
     @ ''\<newline>''
     @ ''<a class=\"wizard-cta\" href=\"/ui/providers/new\">+ Add a provider</a>\<newline>''
     @ ''\<newline>''
     @ ''<h2>Configured providers</h2>\<newline>''
     @ render_providers_list (providers (app_config ap)) @ ''\<newline>'')"

definition providers_partial :: "App \<Rightarrow> HttpResponse" where
  "providers_partial ap = text_response 200 (render_providers_list (providers (app_config ap)))"

definition ui_remove_provider :: "AdminEnv \<Rightarrow> string \<Rightarrow> App \<Rightarrow> HttpResponse \<times> App" where
  "ui_remove_provider env i ap = (case config_update env (drop_provider i) ap of
      (Inl e, ap') \<Rightarrow> (text_response 500 (''<div class=\"flash error\">save failed: '' @ e @ ''</div>''), ap')
    | (Inr _, ap') \<Rightarrow> (let ap'' = set_registry (snd (reg_remove i (app_registry ap'))) ap' in
        (text_response 200 (render_providers_list (providers (app_config ap''))), ap'')))"

subsection \<open>Rules and tiers\<close>

definition render_condition :: "DetectionCondition \<Rightarrow> string" where
  "render_condition c =
     (let parts = (case dc_has_tools c of None \<Rightarrow> [] | Some t \<Rightarrow> [''has_tools = '' @ (if t then ''true'' else ''false'')])
        @ (case dc_input_tokens_gt c of None \<Rightarrow> [] | Some n \<Rightarrow> [''input_tokens > '' @ show_nat (unat n)])
        @ (case dc_prompt_contains c of None \<Rightarrow> [] | Some kws \<Rightarrow>
            if kws \<noteq> [] then [''prompt_contains: '' @ join '', '' kws] else []) in
      if parts = [] then ''(always)'' else join '' AND '' parts)"

definition rule_row :: "nat \<times> DetectionRule \<Rightarrow> string" where
  "rule_row ir = (case ir of (i, r) \<Rightarrow>
     ''<tr id=\"rule-'' @ show_nat i @ ''\">\<newline>''
     @ ''              <td><code>'' @ show_nat i @ ''</code></td>\<newline>''
     @ ''              <td><code>'' @ ui_escape (render_condition (dr_condition r))
     @ ''</code></td>\<newline>''
     @ ''              <td><span class=\"badge healthy\">'' @ ui_escape (dr_tier r)
     @ ''</span></td>\<newline>''
     @ ''              <td><form hx-post=\"/admin/rules/'' @ show_nat i
     @ ''\" hx-target=\"#rule-list\" hx-swap=\"outerHTML\" hx-confirm=\"Delete rule '' @ show_nat i
     @ ''?\" class=\"inline\"><button class=\"danger\" type=\"submit\">Delete</button></form></td>\<newline>''
     @ ''            </tr>'')"

definition render_rules_list :: "DetectionRule list \<Rightarrow> string" where
  "render_rules_list rules =
     (if rules = [] then ''<div class=\"center-empty\" id=\"rule-list\">No rules. Add one above.</div>''
      else
       ''<table id=\"rule-list\">\<newline>''
       @ ''  <thead><tr><th>#</th><th>Condition</th><th>Tier</th><th></th></tr></thead>\<newline>''
       @ ''  <tbody>'' @ concat (map rule_row (enumerate 0 rules)) @ ''</tbody>\<newline>''
       @ ''</table>'')"

definition rules_page :: "UiEnv \<Rightarrow> App \<Rightarrow> HttpResponse" where
  "rules_page ui ap = page ''rules'' ''Rules'' (
     ''\<newline>''
     @ ''<h1>Rules</h1>\<newline>''
     @ ''<p class=\"dim\">Detection rules. Evaluated in order; the first match (or the highest tier floor) wins. Useful for forcing specific request shapes to specific tiers.</p>\<newline>''
     @ ''<div class=\"notice\">Changes persist to <code class=\"kbd\">'' @ ui_config_path ui
     @ ''</code> immediately.</div>\<newline>''
     @ ''\<newline>''
     @ ''<h2>Add a rule</h2>\<newline>''
     @ ''<form hx-post=\"/admin/rules\" hx-target=\"#rule-list\" hx-swap=\"outerHTML\" hx-on::after-request=\"this.reset()\">\<newline>''
     @ ''  <div class=\"row three\">\<newline>''
     @ ''    <div>\<newline>''
     @ ''      <label>has_tools = true/false (optional)</label>\<newline>''
     @ ''      <select name=\"has_tools\">\<newline>''
     @ ''        <option value=\"\">(any)</option>\<newline>''
     @ ''        <option value=\"true\">true</option>\<newline>''
     @ ''        <option value=\"false\">false</option>\<newline>''
     @ ''      </select>\<newline>''
     @ ''    </div>\<newline>''
     @ ''    <div>\<newline>''
     @ ''      <label>input_tokens &gt; N (optional)</label>\<newline>''
     @ ''      <input name=\"input_tokens_gt\" type=\"number\" placeholder=\"50000\" />\<newline>''
     @ ''    </div>\<newline>''
     @ ''    <div>\<newline>''
     @ ''      <label>force tier</label>\<newline>''
     @ ''      <select name=\"tier\">\<newline>''
     @ ''        <option value=\"simple\">simple</option>\<newline>''
     @ ''        <option value=\"standard\" selected>standard</option>\<newline>''
     @ ''        <option value=\"complex\">complex</option>\<newline>''
     @ ''        <option value=\"reasoning\">reasoning</option>\<newline>''
     @ ''        <option value=\"high_context\">high_context</option>\<newline>''
     @ ''        <option value=\"multimodal\">multimodal</option>\<newline>''
     @ ''      </select>\<newline>''
     @ ''    </div>\<newline>''
     @ ''  </div>\<newline>''
     @ ''  <div class=\"row\">\<newline>''
     @ ''    <div>\<newline>''
     @ ''      <label>prompt contains (comma-separated keywords, optional)</label>\<newline>''
     @ ''      <input name=\"prompt_contains\" placeholder=\"reason step by step, formally prove\" />\<newline>''
     @ ''    </div>\<newline>''
     @ ''  </div>\<newline>''
     @ ''  <div class=\"actions\">\<newline>''
     @ ''    <button type=\"submit\">Add rule</button>\<newline>''
     @ ''    <span class=\"muted\">Multiple conditions are AND-ed together. Empty conditions match everything.</span>\<newline>''
     @ ''  </div>\<newline>''
     @ ''</form>\<newline>''
     @ ''\<newline>''
     @ ''<h2>Configured rules</h2>\<newline>''
     @ render_rules_list (de_rules (detection (app_config ap))) @ ''\<newline>'')"

definition tier_order :: "string list" where
  "tier_order = [''simple'', ''standard'', ''complex'', ''reasoning'', ''high_context'', ''multimodal'']"

definition tier_position :: "string \<Rightarrow> nat" where
  "tier_position k = (let i = length (takeWhile (\<lambda>x. x \<noteq> k) tier_order) in
     if i < length tier_order then i else length tier_order + length k)"

definition tier_row :: "string \<times> TierConfig \<Rightarrow> string" where
  "tier_row kt = (case kt of (name, t) \<Rightarrow> (let k = ui_escape name in
     ''<tr id=\"tier-'' @ k @ ''\">\<newline>''
     @ ''              <td><strong>'' @ k @ ''</strong></td>\<newline>''
     @ ''              <td><form hx-post=\"/admin/tiers/'' @ k @ ''\" hx-target=\"#tier-'' @ k
     @ ''\" hx-swap=\"outerHTML\" hx-trigger=\"submit\" class=\"inline\"><input name=\"primary\" value=\"''
     @ ui_escape (ti_primary t) @ ''\" /></form></td>\<newline>''
     @ ''              <td><code>'' @ ui_escape (join '', '' (ti_fallbacks t)) @ ''</code></td>\<newline>''
     @ ''              <td>'' @ ui_escape (unwrap_or em_dash (ti_downgrade_to t)) @ ''</td>\<newline>''
     @ ''              <td>'' @ (if ti_allow_tier_downgrade t then ''yes'' else ''no'') @ ''</td>\<newline>''
     @ ''            </tr>''))"

text \<open>The association list stands in the order in which the map is iterated; the sort is stable.\<close>

definition render_tiers_list :: "(string \<times> TierConfig) list \<Rightarrow> string" where
  "render_tiers_list ts =
     (if ts = [] then
       ''<div class=\"center-empty\">No tiers configured. Add a <code>[tiers.*]</code> block to <code>token-dealer.toml</code> and POST <code>/admin/config/reload</code>.</div>''
      else
       ''<table>\<newline>''
       @ ''  <thead><tr><th>Tier</th><th>Primary model</th><th>Fallbacks</th><th>Downgrade to</th><th>Allow downgrade</th></tr></thead>\<newline>''
       @ ''  <tbody>'' @ concat (map tier_row (sort_key (tier_position \<circ> fst) ts)) @ ''</tbody>\<newline>''
       @ ''</table>'')"

definition tiers_page :: "UiEnv \<Rightarrow> App \<Rightarrow> HttpResponse" where
  "tiers_page ui ap = page ''tiers'' ''Tiers'' (
     ''\<newline>''
     @ ''<h1>Tiers</h1>\<newline>''
     @ ''<p class=\"dim\">Per-tier primary model + fallbacks. Requests with <code>model: \"tier\"</code> or <code>x-router-tier: tier</code> route to that tier's primary; the first model in <code>fallbacks</code> is tried if the primary fails.</p>\<newline>''
     @ ''<div class=\"notice\">Edit the primary inline, click Save. \"Save to disk\" in the top right flushes to <code class=\"kbd\">''
     @ ui_config_path ui @ ''</code>.</div>\<newline>''
     @ ''\<newline>''
     @ render_tiers_list (tiers (app_config ap)) @ ''\<newline>'')"

subsection \<open>Logs\<close>

definition show_int :: "int \<Rightarrow> string" where
  "show_int i = (if i < 0 then ''-'' @ show_nat (nat (- i)) else show_nat (nat i))"

definition log_row :: "UiEnv \<Rightarrow> RequestRow \<Rightarrow> string" where
  "log_row ui r = (let cost = (case rr_cost_usd r of None \<Rightarrow> em_dash | Some c \<Rightarrow> ''$'' @ ui_decimals ui 5 c) in
     ''<tr>\<newline>''
     @ ''              <td><code class=\"kbd\">'' @ ui_escape (rr_created_at r) @ ''</code></td>\<newline>''
     @ ''              <td><span class=\"badge healthy\">'' @ ui_escape (rr_tier r)
     @ ''</span></td>\<newline>''
     @ ''              <td><code>'' @ ui_escape (rr_routed_provider r) @ ''/'' @ ui_escape (rr_routed_model r)
     @ ''</code></td>\<newline>''
     @ ''              <td>'' @ show_nat (unat (unwrap_or 0 (rr_input_tokens r))) @ '' '' @ right_arrow @ '' ''
     @ show_nat (unat (unwrap_or 0 (rr_output_tokens r))) @ ''</td>\<newline>''
     @ ''              <td>'' @ cost @ ''</td>\<newline>''
     @ ''              <td>'' @ show_int (rr_total_latency_ms r) @ ''ms</td>\<newline>''
     @ ''              <td>'' @ show_nat (unat (rr_fallback_count r)) @ ''</td>\<newline>''
     @ ''              <td>'' @ ui_escape (unwrap_or em_dash (rr_finish_reason r)) @ ''</td>\<newline>''
     @ ''            </tr>'')"

definition render_logs_rows :: "UiEnv \<Rightarrow> RequestRow list \<Rightarrow> string" where
  "render_logs_rows ui rows =
     (if rows = [] then
       ''<div class=\"center-empty\">No requests logged yet. Make a chat completion to populate this view.</div>''
      else
       ''<table>\<newline>''
       @ ''  <thead><tr><th>Time</th><th>Tier</th><th>Route</th><th>Tokens (in'' @ right_arrow
       @ ''out)</th><th>Cost</th><th>Latency</th><th>Fallbacks</th><th>Finish</th></tr></thead>\<newline>''
       @ ''  <tbody>'' @ concat (map (log_row ui) rows) @ ''</tbody>\<newline>''
       @ ''</table>'')"

definition logs_page :: "UiEnv \<Rightarrow> string + LogDb \<Rightarrow> HttpResponse" where
  "logs_page ui db = (case db of
      Inl e \<Rightarrow> page ''logs'' ''Logs'' (''<div class=\"flash error\">DB error: '' @ e @ ''</div>'')
    | Inr d \<Rightarrow> (let rows = list_requests \<lparr>lf_limit = 100, lf_tier = None, lf_provider = None, lf_finished = None\<rparr> d in
        page ''logs'' ''Logs'' (
          ''\<newline>''
          @ ''<h1>Logs</h1>\<newline>''
          @ ''<p class=\"dim\">Most recent '' @ show_nat (length rows)
          @ '' requests. For older data, query the SQLite file directly: <code class=\"kbd\">sqlite3 /data/router.db</code></p>\<newline>''
          @ ''\<newline>''
          @ render_logs_rows ui rows @ ''\<newline>'')))"

subsection \<open>Users, account, prices\<close>

definition user_row_html :: "UiEnv \<Rightarrow> User \<Rightarrow> string" where
  "user_row_html ui u =
     ''<tr><td><code>'' @ ui_escape (u_id u) @ ''</code></td><td>'' @ ui_escape (u_email u) @ ''</td><td>''
     @ ui_escape (u_name u) @ ''</td><td>'' @ role_as_str (u_role u) @ ''</td><td>''
     @ (case u_last_login_at u of None \<Rightarrow> em_dash | Some d \<Rightarrow> ui_date ui ''%Y-%m-%d %H:%M'' d)
     @ ''</td></tr>''"

definition users_page :: "UiEnv \<Rightarrow> Reader \<Rightarrow> UserContext \<Rightarrow> UserDb \<Rightarrow> HttpResponse" where
  "users_page ui rd user db =
     (if \<not> is_admin user then text_response 403 (''<h1>Forbidden</h1><p>admin only</p>'')
      else (let users = list_users rd db in
        page ''users'' ''Users'' (
          ''\<newline>''
          @ ''<h1>Users</h1>\<newline>''
          @ ''<p class=\"dim\">All users + their roles. Admin-only.</p>\<newline>''
          @ ''\<newline>''
          @ ''<form hx-post=\"/admin/users\" hx-target=\"#user-result\" hx-swap=\"innerHTML\" class=\"wizard-panel\">\<newline>''
          @ ''  <div class=\"row three\">\<newline>''
          @ ''    <div>\<newline>''
          @ ''      <label>Email</label>\<newline>''
          @ ''      <input name=\"email\" type=\"email\" required />\<newline>''
          @ ''    </div>\<newline>''
          @ ''    <div>\<newline>''
          @ ''      <label>Name</label>\<newline>''
          @ ''      <input name=\"name\" />\<newline>''
          @ ''    </div>\<newline>''
          @ ''    <div>\<newline>''
          @ ''      <label>Password (optional)</label>\<newline>''
          @ ''      <input name=\"password\" type=\"password\" />\<newline>''
          @ ''    </div>\<newline>''
          @ ''  </div>\<newline>''
          @ ''  <div class=\"row\">\<newline>''
          @ ''    <div>\<newline>''
          @ ''      <label>Role</label>\<newline>''
          @ ''      <select name=\"role\">\<newline>''
          @ ''        <option value=\"user\">user</option>\<newline>''
          @ ''        <option value=\"admin\">admin</option>\<newline>''
          @ ''      </select>\<newline>''
          @ ''    </div>\<newline>''
          @ ''  </div>\<newline>''
          @ ''  <div class=\"actions\">\<newline>''
          @ ''    <button type=\"submit\">Create user</button>\<newline>''
          @ ''  </div>\<newline>''
          @ ''  <div id=\"user-result\"></div>\<newline>''
          @ ''</form>\<newline>''
          @ ''\<newline>''
          @ ''<h2>Existing users ('' @ show_nat (length users) @ '')</h2>\<newline>''
          @ ''<table class=\"kv\">\<newline>''
          @ ''  <tr><th>id</th><th>email</th><th>name</th><th>role</th><th>last login</th></tr>\<newline>''
          @ ''  '' @ concat (map (user_row_html ui) users) @ ''\<newline>''
          @ ''</table>\<newline>''
          @ ''\<newline>''
          @ ''<h2>API keys</h2>\<newline>''
          @ ''<p class=\"dim\">Generate keys for service accounts or share with users.</p>\<newline>''
          @ ''<div id=\"admin-keys\">\<newline>''
          @ ''  <form hx-post=\"/admin/users/__self__/keys\" hx-target=\"#admin-keys-result\" hx-swap=\"innerHTML\" class=\"wizard-panel\">\<newline>''
          @ ''    <div class=\"row\">\<newline>''
          @ ''      <div>\<newline>''
          @ ''        <label>User ID</label>\<newline>''
          @ ''        <input name=\"user_id\" required />\<newline>''
          @ ''      </div>\<newline>''
          @ ''      <div>\<newline>''
          @ ''        <label>Name (e.g. \"ci\", \"production\", \"test\")</label>\<newline>''
          @ ''        <input name=\"name\" value=\"default\" />\<newline>''
          @ ''      </div>\<newline>''
          @ ''      <div>\<newline>''
          @ ''        <button type=\"submit\">Create key</button>\<newline>''
          @ ''      </div>\<newline>''
          @ ''    </div>\<newline>''
          @ ''  </form>\<newline>''
          @ ''  <div id=\"admin-keys-result\"></div>\<newline>''
          @ ''</div>\<newline>'')))"

definition key_row_html :: "UiEnv \<Rightarrow> ApiKey \<Rightarrow> string" where
  "key_row_html ui k =
     ''<tr><td>'' @ ui_escape (k_name k) @ ''</td><td><code>'' @ ui_escape (k_key_prefix k)
     @ ''</code></td><td>'' @ ui_date ui ''%Y-%m-%d'' (k_created_at k) @ ''</td><td>''
     @ (case k_last_used_at k of None \<Rightarrow> em_dash | Some d \<Rightarrow> ui_date ui ''%Y-%m-%d %H:%M'' d)
     @ ''</td><td><button hx-delete=\"/auth/keys/'' @ k_id k
     @ ''\" hx-target=\"#account\" hx-swap=\"outerHTML\">revoke</button></td></tr>''"

definition account_page :: "UiEnv \<Rightarrow> Reader \<Rightarrow> string \<Rightarrow> UserContext \<Rightarrow> UserDb \<Rightarrow> HttpResponse" where
  "account_page ui rd day user db = (case get_usage_today day (uc_user_id user) db of (input, output, cost, reqs) \<Rightarrow>
     page ''account'' ''Account'' (
       ''\<newline>''
       @ ''<h1>Account</h1>\<newline>''
       @ ''<p class=\"dim\">'' @ ui_escape (uc_email user) @ '' '' @ mid_dot @ '' '' @ role_as_str (uc_role user)
       @ ''</p>\<newline>''
       @ ''\<newline>''
       @ ''<h2>Today's usage</h2>\<newline>''
       @ ''<div class=\"cards\">\<newline>''
       @ ''  <div class=\"card\"><div class=\"label\">Input tokens</div><div class=\"value\">''
       @ show_nat (unat input) @ ''</div></div>\<newline>''
       @ ''  <div class=\"card\"><div class=\"label\">Output tokens</div><div class=\"value\">''
       @ show_nat (unat output) @ ''</div></div>\<newline>''
       @ ''  <div class=\"card\"><div class=\"label\">Cost</div><div class=\"value\">$'' @ ui_decimals ui 4 cost
       @ ''</div></div>\<newline>''
       @ ''  <div class=\"card\"><div class=\"label\">Requests</div><div class=\"value\">''
       @ show_nat (unat reqs) @ ''</div></div>\<newline>''
       @ ''</div>\<newline>''
       @ ''\<newline>''
       @ ''<h2>API keys</h2>\<newline>''
       @ ''<form hx-post=\"/auth/keys\" hx-target=\"#new-key-result\" hx-swap=\"innerHTML\" class=\"wizard-panel\">\<newline>''
       @ ''  <div class=\"row\">\<newline>''
       @ ''    <div>\<newline>''
       @ ''      <label>Key name (e.g. \"laptop\", \"ci\")</label>\<newline>''
       @ ''      <input name=\"name\" value=\"default\" />\<newline>''
       @ ''    </div>\<newline>''
       @ ''    <div>\<newline>''
       @ ''      <button type=\"submit\">Create key</button>\<newline>''
       @ ''    </div>\<newline>''
       @ ''  </div>\<newline>''
       @ ''  <div id=\"new-key-result\"></div>\<newline>''
       @ ''</form>\<newline>''
       @ ''\<newline>''
       @ ''<table class=\"kv\">\<newline>''
       @ ''  <tr><th>name</th><th>prefix</th><th>created</th><th>last used</th><th></th></tr>\<newline>''
       @ ''  '' @ concat (map (key_row_html ui) (list_api_keys rd (uc_user_id user) db)) @ ''\<newline>''
       @ ''</table>\<newline>''
       @ ''\<newline>''
       @ ''<h2>Sign out</h2>\<newline>''
       @ ''<button hx-post=\"/auth/logout\" hx-redirect=\"/ui/login\">Sign out</button>\<newline>''))"

definition price_row_html :: "UiEnv \<Rightarrow> ModelPrice \<Rightarrow> string" where
  "price_row_html ui p =
     ''<tr><td><code>'' @ ui_escape (mp_model_id p) @ ''</code></td><td>$''
     @ ui_decimals ui 4 (mp_input_per_1m p) @ ''</td><td>$'' @ ui_decimals ui 4 (mp_output_per_1m p)
     @ ''</td><td>'' @ show_nat (unat (mp_context_window p)) @ ''</td><td>'' @ show_nat (unat (mp_modality p))
     @ ''</td></tr>''"

definition pricing_page :: "UiEnv \<Rightarrow> PricingStore \<Rightarrow> HttpResponse" where
  "pricing_page ui prices = page ''pricing'' ''Pricing'' (
     ''\<newline>''
     @ ''<h1>Pricing</h1>\<newline>''
     @ ''<p class=\"dim\">Per-model USD prices (per 1M tokens). Used by the cost tracker.</p>\<newline>''
     @ ''\<newline>''
     @ ''<table class=\"kv\">\<newline>''
     @ ''  <tr><th>model</th><th>input / 1M</th><th>output / 1M</th><th>context</th><th>modality bits</th></tr>\<newline>''
     @ ''  '' @ concat (map (price_row_html ui) (price_list prices)) @ ''\<newline>''
     @ ''</table>\<newline>''
     @ ''\<newline>''
     @ ''<p class=\"dim\">'' @ show_nat (length (price_list prices))
     @ '' models with explicit pricing. Others fall back to the provider's default.</p>\<newline>'')"

subsection \<open>Sign-in pages\<close>

definition no_store :: "string \<Rightarrow> HttpResponse" where
  "no_store html = \<lparr>hr_status = 200, hr_headers = [(''cache-control'', ''no-store'')], hr_body = Some (String html)\<rparr>"

definition LOGIN_BODY :: string where
  "LOGIN_BODY =
     ''\<newline>''
     @ ''<h1>Sign in</h1>\<newline>''
     @ ''<p class=\"dim\">Sign in with your API key or email + password.</p>\<newline>''
     @ ''\<newline>''
     @ ''<div id=\"login-panel\" class=\"wizard-panel\">\<newline>''
     @ ''  <div class=\"row\">\<newline>''
     @ ''    <button id=\"tab-key\" class=\"secondary\">API key</button>\<newline>''
     @ ''    <button id=\"tab-pw\" class=\"secondary\">Email + password</button>\<newline>''
     @ ''  </div>\<newline>''
     @ ''\<newline>''
     @ ''  <form id=\"form-key\" hx-post=\"/auth/login\" hx-target=\"#login-result\" hx-swap=\"innerHTML\">\<newline>''
     @ ''    <label>API key</label>\<newline>''
     @ ''    <input name=\"api_key\" type=\"password\" placeholder=\"tk-'' @ ellipsis
     @ ''\" autofocus />\<newline>''
     @ ''    <button type=\"submit\">Sign in with API key</button>\<newline>''
     @ ''  </form>\<newline>''
     @ ''\<newline>''
     @ ''  <form id=\"form-pw\" hx-post=\"/auth/login\" hx-target=\"#login-result\" hx-swap=\"innerHTML\" style=\"display:none\">\<newline>''
     @ ''    <label>Email</label>\<newline>''
     @ ''    <input name=\"email\" type=\"email\" />\<newline>''
     @ ''    <label>Password</label>\<newline>''
     @ ''    <input name=\"password\" type=\"password\" />\<newline>''
     @ ''    <button type=\"submit\">Sign in</button>\<newline>''
     @ ''  </form>\<newline>''
     @ ''\<newline>''
     @ ''  <div id=\"login-result\"></div>\<newline>''
     @ ''</div>\<newline>''
     @ ''\<newline>''
     @ ''<script>\<newline>''
     @ ''(function() {\<newline>''
     @ ''  const tabKey = document.getElementById('tab-key');\<newline>''
     @ ''  const tabPw = document.getElementById('tab-pw');\<newline>''
     @ ''  const formKey = document.getElementById('form-key');\<newline>''
     @ ''  const formPw = document.getElementById('form-pw');\<newline>''
     @ ''  function show(which) {\<newline>''
     @ ''    formKey.style.display = which === 'key' ? '' @ apostrophe @ apostrophe @ '' : 'none';\<newline>''
     @ ''    formPw.style.display = which === 'pw' ? '' @ apostrophe @ apostrophe @ '' : 'none';\<newline>''
     @ ''    tabKey.classList.toggle('active', which === 'key');\<newline>''
     @ ''    tabPw.classList.toggle('active', which === 'pw');\<newline>''
     @ ''  }\<newline>''
     @ ''  show('key');\<newline>''
     @ ''  tabKey.addEventListener('click', () => show('key'));\<newline>''
     @ ''  tabPw.addEventListener('click', () => show('pw'));\<newline>''
     @ ''})();\<newline>''
     @ ''</script>\<newline>''"

definition login_page :: "Reader \<Rightarrow> UserDb \<Rightarrow> HttpResponse" where
  "login_page rd db =
     (if list_users rd db = [] then redirect_to ''/ui/setup''
      else no_store (replace_str ''<title>'' (''<meta name=\"referrer\" content=\"no-referrer\" /><title>'')
             (layout ''login'' ''Sign in'' LOGIN_BODY None)))"

definition SETUP_BODY :: string where
  "SETUP_BODY =
     ''\<newline>''
     @ ''<h1>Welcome '' @ em_dash @ '' create your admin account</h1>\<newline>''
     @ ''<p class=\"dim\">First-run setup. The first user becomes the admin.</p>\<newline>''
     @ ''\<newline>''
     @ ''<form method=\"POST\" action=\"/ui/setup\" class=\"wizard-panel\">\<newline>''
     @ ''  <div class=\"row three\">\<newline>''
     @ ''    <div>\<newline>''
     @ ''      <label>Email</label>\<newline>''
     @ ''      <input name=\"email\" type=\"email\" required autofocus />\<newline>''
     @ ''    </div>\<newline>''
     @ ''    <div>\<newline>''
     @ ''      <label>Display name</label>\<newline>''
     @ ''      <input name=\"name\" required />\<newline>''
     @ ''    </div>\<newline>''
     @ ''    <div>\<newline>''
     @ ''      <label>Password</label>\<newline>''
     @ ''      <input name=\"password\" type=\"password\" required minlength=\"8\" />\<newline>''
     @ ''    </div>\<newline>''
     @ ''  </div>\<newline>''
     @ ''  <div class=\"actions\">\<newline>''
     @ ''    <button type=\"submit\">Create admin account</button>\<newline>''
     @ ''  </div>\<newline>''
     @ ''</form>\<newline>''"

definition setup_page :: "Reader \<Rightarrow> UserDb \<Rightarrow> HttpResponse" where
  "setup_page rd db =
     (if list_users rd db \<noteq> [] then redirect_to ''/ui/login''
      else no_store (layout ''setup'' ''Setup'' SETUP_BODY None))"

subsection \<open>The style sheet\<close>

definition CSS :: string where
  "CSS =
     ''\<newline>''
     @ '':root {\<newline>''
     @ ''  --bg: #0e1116;\<newline>''
     @ ''  --bg-elev: #161b22;\<newline>''
     @ ''  --bg-elev-2: #1c232c;\<newline>''
     @ ''  --border: #2a3441;\<newline>''
     @ ''  --text: #e6edf3;\<newline>''
     @ ''  --text-dim: #8b949e;\<newline>''
     @ ''  --accent: #58a6ff;\<newline>''
     @ ''  --accent-dim: #1f6feb;\<newline>''
     @ ''  --green: #3fb950;\<newline>''
     @ ''  --yellow: #d29922;\<newline>''
     @ ''  --red: #f85149;\<newline>''
     @ ''  --mono: ui-monospace, SFMono-Regular, \"SF Mono\", Menlo, Consolas, monospace;\<newline>''
     @ ''  --sans: -apple-system, BlinkMacSystemFont, \"Segoe UI\", Roboto, sans-serif;\<newline>''
     @ ''}\<newline>''
     @ ''* { box-sizing: border-box; }\<newline>''
     @ ''html, body { margin: 0; padding: 0; background: var(--bg); color: var(--text);\<newline>''
     @ ''  font-family: var(--sans); font-size: 14px; line-height: 1.5; }\<newline>''
     @ ''a { color: var(--accent); text-decoration: none; }\<newline>''
     @ ''a:hover { text-decoration: underline; }\<newline>''
     @ ''header.app {\<newline>''
     @ ''  display: flex; align-items: center; justify-content: space-between;\<newline>''
     @ ''  padding: 12px 24px; background: var(--bg-elev); border-bottom: 1px solid var(--border);\<newline>''
     @ ''}\<newline>''
     @ ''header.app .brand { font-family: var(--mono); font-weight: 600; font-size: 16px;\<newline>''
     @ ''  color: var(--text); }\<newline>''
     @ ''header.app nav { display: flex; gap: 18px; }\<newline>''
     @ ''header.app nav a { color: var(--text-dim); font-weight: 500; padding: 4px 0;\<newline>''
     @ ''  border-bottom: 2px solid transparent; }\<newline>''
     @ ''header.app nav a.active { color: var(--text); border-bottom-color: var(--accent); }\<newline>''
     @ ''header.app nav a:hover { color: var(--text); text-decoration: none; }\<newline>''
     @ ''header.app .actions { display: flex; gap: 8px; }\<newline>''
     @ ''main { max-width: 1100px; margin: 24px auto; padding: 0 24px 64px; }\<newline>''
     @ ''h1 { font-size: 22px; margin: 0 0 16px; font-weight: 600; }\<newline>''
     @ ''h2 { font-size: 16px; margin: 24px 0 12px; font-weight: 600; color: var(--text-dim);\<newline>''
     @ ''  text-transform: uppercase; letter-spacing: 0.05em; }\<newline>''
     @ ''p.dim { color: var(--text-dim); margin: 0 0 16px; }\<newline>''
     @ ''.cards { display: grid; grid-template-columns: repeat(auto-fit, minmax(220px, 1fr));\<newline>''
     @ ''  gap: 16px; margin-bottom: 24px; }\<newline>''
     @ ''.card { background: var(--bg-elev); border: 1px solid var(--border);\<newline>''
     @ ''  border-radius: 6px; padding: 16px; }\<newline>''
     @ ''.card .label { color: var(--text-dim); font-size: 12px;\<newline>''
     @ ''  text-transform: uppercase; letter-spacing: 0.05em; }\<newline>''
     @ ''.card .value { font-size: 24px; font-weight: 600; margin-top: 4px; font-family: var(--mono); }\<newline>''
     @ ''.card .value.green { color: var(--green); }\<newline>''
     @ ''.card .value.yellow { color: var(--yellow); }\<newline>''
     @ ''.card .value.red { color: var(--red); }\<newline>''
     @ ''table { width: 100%; border-collapse: collapse; background: var(--bg-elev);\<newline>''
     @ ''  border: 1px solid var(--border); border-radius: 6px; overflow: hidden; }\<newline>''
     @ ''th, td { text-align: left; padding: 10px 14px; border-bottom: 1px solid var(--border);\<newline>''
     @ ''  font-family: var(--mono); font-size: 13px; vertical-align: middle; }\<newline>''
     @ ''th { background: var(--bg-elev-2); color: var(--text-dim); font-weight: 500;\<newline>''
     @ ''  text-transform: uppercase; font-size: 11px; letter-spacing: 0.05em; }\<newline>''
     @ ''tr:last-child td { border-bottom: none; }\<newline>''
     @ ''tr:hover td { background: rgba(255, 255, 255, 0.02); }\<newline>''
     @ ''.badge { display: inline-block; padding: 2px 8px; border-radius: 10px;\<newline>''
     @ ''  font-size: 11px; font-family: var(--mono); font-weight: 500; }\<newline>''
     @ ''.badge.healthy { background: rgba(63, 185, 80, 0.15); color: var(--green); }\<newline>''
     @ ''.badge.degraded { background: rgba(210, 153, 34, 0.15); color: var(--yellow); }\<newline>''
     @ ''.badge.down { background: rgba(248, 81, 73, 0.15); color: var(--red); }\<newline>''
     @ ''.badge.local { background: rgba(88, 166, 255, 0.15); color: var(--accent); }\<newline>''
     @ ''button, .btn { background: var(--accent-dim); color: white; border: none;\<newline>''
     @ ''  padding: 6px 14px; border-radius: 5px; font-size: 13px; cursor: pointer;\<newline>''
     @ ''  font-family: var(--sans); font-weight: 500; }\<newline>''
     @ ''button:hover, .btn:hover { background: var(--accent); }\<newline>''
     @ ''button.secondary { background: transparent; color: var(--text);\<newline>''
     @ ''  border: 1px solid var(--border); }\<newline>''
     @ ''button.secondary:hover { background: var(--bg-elev-2); }\<newline>''
     @ ''button.danger { background: var(--red); }\<newline>''
     @ ''button.danger:hover { background: #ff6b62; }\<newline>''
     @ ''input, select, textarea { background: var(--bg); color: var(--text);\<newline>''
     @ ''  border: 1px solid var(--border); border-radius: 5px; padding: 6px 10px;\<newline>''
     @ ''  font-family: var(--mono); font-size: 13px; width: 100%; }\<newline>''
     @ ''input:focus, select:focus, textarea:focus { outline: none; border-color: var(--accent); }\<newline>''
     @ ''label { display: block; font-size: 12px; color: var(--text-dim); margin: 12px 0 4px;\<newline>''
     @ ''  text-transform: uppercase; letter-spacing: 0.04em; }\<newline>''
     @ ''form .row { display: grid; grid-template-columns: 1fr 1fr; gap: 12px; }\<newline>''
     @ ''form .row.three { grid-template-columns: 1fr 1fr 1fr; }\<newline>''
     @ ''form .actions { margin-top: 16px; display: flex; gap: 8px; align-items: center; }\<newline>''
     @ ''.wizard-steps { display: flex; gap: 6px; margin-bottom: 16px; font-size: 12px;\<newline>''
     @ ''  color: var(--text-dim); }\<newline>''
     @ ''.wizard-steps .step { padding: 4px 10px; border-radius: 4px;\<newline>''
     @ ''  background: var(--bg-elev); }\<newline>''
     @ ''.wizard-steps .step.active { background: var(--accent); color: #0d1117;\<newline>''
     @ ''  font-weight: 600; }\<newline>''
     @ ''.provider-picker { margin-top: 12px; }\<newline>''
     @ ''.provider-picker .search { width: 100%; padding: 8px 12px;\<newline>''
     @ ''  font-family: var(--mono); font-size: 13px; background: var(--bg);\<newline>''
     @ ''  color: var(--text); border: 1px solid var(--border);\<newline>''
     @ ''  border-radius: 5px; margin-bottom: 14px; }\<newline>''
     @ ''.provider-picker .search:focus { outline: none; border-color: var(--accent); }\<newline>''
     @ ''.provider-picker .group { margin-bottom: 18px; }\<newline>''
     @ ''.provider-picker .group h3 { font-size: 11px; text-transform: uppercase;\<newline>''
     @ ''  letter-spacing: 0.08em; color: var(--text-dim); margin: 0 0 6px;\<newline>''
     @ ''  padding: 0 4px; }\<newline>''
     @ ''.provider-picker .row { display: flex; align-items: center; gap: 10px;\<newline>''
     @ ''  padding: 8px 10px; border: 1px solid var(--border); border-radius: 5px;\<newline>''
     @ ''  margin-bottom: 4px; background: var(--bg-elev); cursor: pointer;\<newline>''
     @ ''  text-decoration: none; color: var(--text); transition: border-color 0.1s, background 0.1s; }\<newline>''
     @ ''.provider-picker .row:hover { border-color: var(--accent); background: var(--bg); }\<newline>''
     @ ''.provider-picker .row .name { font-weight: 600; font-size: 13px; }\<newline>''
     @ ''.provider-picker .row .meta { font-size: 11px; color: var(--text-dim);\<newline>''
     @ ''  font-family: var(--mono); margin-left: auto; }\<newline>''
     @ ''.provider-picker .row .badge { font-size: 10px; }\<newline>''
     @ ''.provider-picker .row.oauth { border-left: 3px solid var(--accent); }\<newline>''
     @ ''.provider-picker .row.subscription { border-left: 3px solid var(--green); }\<newline>''
     @ ''.provider-picker .row.local { border-left: 3px solid var(--yellow); }\<newline>''
     @ ''.provider-picker .empty { text-align: center; padding: 30px; color: var(--text-dim); }\<newline>''
     @ ''.oauth-connect { display: flex; gap: 8px; align-items: center; margin-top: 8px; }\<newline>''
     @ ''.oauth-connect button { padding: 6px 12px; }\<newline>''
     @ ''.oauth-connect .device-info { font-family: var(--mono); font-size: 12px;\<newline>''
     @ ''  background: var(--bg-elev); padding: 8px 10px; border-radius: 5px;\<newline>''
     @ ''  border: 1px solid var(--border); margin-top: 8px; }\<newline>''
     @ ''.oauth-connect .device-info code { font-size: 16px; color: var(--accent);\<newline>''
     @ ''  letter-spacing: 0.1em; }\<newline>''
     @ ''.oauth-connect .device-info a { color: var(--accent); }\<newline>''
     @ ''.wizard-panel { border: 1px solid var(--border); border-radius: 6px;\<newline>''
     @ ''  padding: 20px; background: var(--bg-elev); margin-top: 12px; }\<newline>''
     @ ''.wizard-panel h2 { margin-top: 0; }\<newline>''
     @ ''.test-result { padding: 10px 14px; border-radius: 5px; margin-top: 12px;\<newline>''
     @ ''  font-size: 13px; font-family: var(--mono); }\<newline>''
     @ ''.test-result.ok { background: rgba(63, 185, 80, 0.15); color: var(--green);\<newline>''
     @ ''  border: 1px solid rgba(63, 185, 80, 0.3); }\<newline>''
     @ ''.test-result.error { background: rgba(248, 81, 73, 0.15); color: var(--red);\<newline>''
     @ ''  border: 1px solid rgba(248, 81, 73, 0.3); }\<newline>''
     @ ''.playground-response { margin-top: 12px; min-height: 100px; }\<newline>''
     @ ''.playground-response-meta { display: flex; gap: 12px; align-items: center;\<newline>''
     @ ''  padding: 8px 12px; background: var(--bg-elev); border-radius: 5px;\<newline>''
     @ ''  margin-bottom: 8px; font-size: 13px; }\<newline>''
     @ ''.playground-response-body { background: var(--bg-elev); border: 1px solid var(--border);\<newline>''
     @ ''  border-radius: 5px; padding: 14px; font-family: var(--mono); font-size: 13px;\<newline>''
     @ ''  white-space: pre-wrap; word-wrap: break-word; max-height: 500px;\<newline>''
     @ ''  overflow-y: auto; }\<newline>''
     @ ''.playground-error { background: rgba(248, 81, 73, 0.15); color: var(--red);\<newline>''
     @ ''  border: 1px solid rgba(248, 81, 73, 0.3); padding: 10px 14px;\<newline>''
     @ ''  border-radius: 5px; font-family: var(--mono); font-size: 13px; }\<newline>''
     @ ''.htmx-indicator { opacity: 0; transition: opacity 200ms; }\<newline>''
     @ ''.htmx-indicator.htmx-request { opacity: 1; }\<newline>''
     @ ''form textarea { background: var(--bg); color: var(--text);\<newline>''
     @ ''  border: 1px solid var(--border); border-radius: 5px; padding: 8px 10px;\<newline>''
     @ ''  font-family: var(--mono); font-size: 13px; width: 100%;\<newline>''
     @ ''  resize: vertical; }\<newline>''
     @ ''.flash { padding: 10px 14px; border-radius: 5px; margin-bottom: 16px;\<newline>''
     @ ''  font-size: 13px; }\<newline>''
     @ ''.flash.success { background: rgba(63, 185, 80, 0.15); color: var(--green);\<newline>''
     @ ''  border: 1px solid rgba(63, 185, 80, 0.3); }\<newline>''
     @ ''.flash.error { background: rgba(248, 81, 73, 0.15); color: var(--red);\<newline>''
     @ ''  border: 1px solid rgba(248, 81, 73, 0.3); }\<newline>''
     @ ''.notice { background: rgba(210, 153, 34, 0.1); border: 1px solid rgba(210, 153, 34, 0.3);\<newline>''
     @ ''  border-radius: 5px; padding: 10px 14px; margin-bottom: 16px; font-size: 13px;\<newline>''
     @ ''  color: var(--yellow); }\<newline>''
     @ ''.kbd { font-family: var(--mono); font-size: 12px; padding: 1px 6px;\<newline>''
     @ ''  background: var(--bg-elev-2); border: 1px solid var(--border); border-radius: 3px; }\<newline>''
     @ ''.muted { color: var(--text-dim); }\<newline>''
     @ ''.center-empty { text-align: center; padding: 48px 16px; color: var(--text-dim); }\<newline>''
     @ ''form.inline { display: flex; gap: 6px; align-items: center; }\<newline>''
     @ ''form.inline input, form.inline select { width: auto; min-width: 120px; }\<newline>''"

definition ui_style :: HttpResponse where
  "ui_style = \<lparr>hr_status = 200, hr_headers = [(''content-type'', ''text/css; charset=utf-8'')], hr_body = Some (String CSS)\<rparr>"

subsection \<open>Data stays text\<close>

text \<open>The characters of a text that a browser could read as markup or as the end of an attribute.\<close>

definition markup :: "string \<Rightarrow> string" where
  "markup s = filter (\<lambda>c. c \<in> {CHR ''<'', CHR ''>'', CHR 0x22, CHR 0x27}) s"

lemma markup_Nil [simp]: "markup [] = []"
  by (simp add: markup_def)

lemma markup_append [simp]: "markup (s @ t) = markup s @ markup t"
  by (simp add: markup_def)

lemma markup_concat: "markup (concat (map f xs)) = concat (map (markup \<circ> f) xs)"
  by (induction xs) simp_all

lemma unescape_ui_escape_char: "unescape (ui_escape_char c @ s) = c # unescape s"
  by (simp add: ui_escape_char_def unescape_other unescape_entity entity_def)

interpretation shown: text_codec ui_escape_char unescape "\<lambda>c. c \<notin> {CHR ''<'', CHR ''>'', CHR 0x22, CHR 0x27}"
  by unfold_locales (rule unescape_Nil, rule unescape_ui_escape_char, auto simp: ui_escape_char_def split: if_split_asm)

lemma markup_ui_escape [simp]: "markup (ui_escape s) = []"
  unfolding markup_def ui_escape_def filter_empty_conv using shown.encoded_harmless by blast

text \<open>The escaper of the pages and the one of the admin API write different texts, but a browser shows the
  same one, the text itself.\<close>

theorem escapers_show_the_text: "unescape (ui_escape s) = s \<and> unescape (html_escape s) = s"
  unfolding ui_escape_def html_escape_chars by (simp only: shown.decodes html.decodes)

lemma markup_digits: "list_all (\<lambda>n. markup [digit_char n] = []) [0, 1, 2, 3, 4, 5, 6, 7, 8, 9]"
  by code_simp

lemma markup_digit: "n < 10 \<Longrightarrow> markup [digit_char n] = []"
proof -
  assume "n < 10"
  then have "n \<in> set [0, 1, 2, 3, 4, 5, 6, 7, 8, 9]" by auto
  with markup_digits show ?thesis unfolding list_all_iff by blast
qed

lemma markup_show_nat [simp]: "markup (show_nat n) = []"
proof (induction n rule: show_nat.induct)
  case (1 n)
  then show ?case by (subst show_nat.simps) (simp add: markup_digit)
qed

lemma markup_if [simp]: "markup (if b then ''yes'' else ''no'') = []"
  by (simp add: markup_def)

lemmas markup_simps = markup_append markup_ui_escape markup_show_nat markup_if append_Nil append_Nil2

lemma concat_constant: "(\<And>x. f x = c) \<Longrightarrow> concat (map f xs) = concat (replicate (length xs) c)"
  by (induction xs) simp_all

lemma markup_rule_row: "markup (rule_row ir) = markup (rule_row ir')"
  by (cases ir; cases ir') (simp only: rule_row_def prod.case markup_simps)

lemma markup_tier_row: "markup (tier_row kt) = markup (tier_row kt')"
  by (cases kt; cases kt') (simp only: tier_row_def prod.case Let_def markup_simps)

text \<open>The lists of rules and tiers show what is stored as text: their markup depends only on how many
  entries there are, not on any name, reference or keyword in them.\<close>

theorem lists_show_data_as_text:
  assumes "length rules = length rules'" and "length ts = length ts'"
  shows "markup (render_rules_list rules) = markup (render_rules_list rules')
     \<and> markup (render_tiers_list ts) = markup (render_tiers_list ts')"
proof (rule conjI)
  have rows: "markup (concat (map rule_row xs)) = concat (replicate (length xs) (markup (rule_row (0, undefined))))" for xs
    unfolding markup_concat o_def by (rule concat_constant) (rule markup_rule_row)
  show "markup (render_rules_list rules) = markup (render_rules_list rules')"
    using assms(1) by (cases rules; cases rules') (simp_all only: render_rules_list_def list.distinct if_True if_False
        markup_append rows length_enumerate list.size simp_thms)
  have rows: "markup (concat (map tier_row xs)) = concat (replicate (length xs) (markup (tier_row (undefined, undefined))))" for xs
    unfolding markup_concat o_def by (rule concat_constant) (rule markup_tier_row)
  show "markup (render_tiers_list ts) = markup (render_tiers_list ts')"
    using assms(2) by (cases ts; cases ts') (simp_all only: render_tiers_list_def list.distinct if_True if_False
        markup_append rows length_sort list.size simp_thms)
qed

lemma contains_here: "contains (n @ t) n"
  by (rule contains_append_mono(1)) (rule contains_refl)

lemma contains_right: "contains b n \<Longrightarrow> contains (a @ b) n"
  by (rule contains_append_mono(2))

lemma contains_trans: "contains a b \<Longrightarrow> contains b c \<Longrightarrow> contains a c"
  unfolding contains_iff by (metis append_assoc)

text \<open>The provider list shows the name in a key reference as markup: a key \<open>${...}\<close> puts any text into the page.\<close>

theorem key_reference_is_markup:
  assumes "p \<in> set ps" and "pc_key p = Some (''${'' @ x @ ''}'')"
  shows "contains (render_providers_list ps) (''env: '' @ x @ ''</span>'')"
proof -
  have closing: "suffix ''}'' (''${'' @ x @ ''}'')"
    unfolding suffix_def by (rule exI[where x = "''${'' @ x"]) simp
  have cell: "key_cell (pc_key p) = ''<span class=\"muted\">'' @ ''env: '' @ x @ ''</span>''"
    using assms(2) closing by (simp add: key_cell_def)
  have row: "contains (provider_row p) (key_cell (pc_key p))"
    unfolding provider_row_def Let_def by (rule contains_here | rule contains_right)+
  obtain before after where ps: "ps = before @ p # after" using assms(1) split_list by metis
  have rows: "contains (concat (map provider_row ps)) (provider_row p)"
    unfolding ps map_append concat_append list.map concat.simps by (rule contains_right, rule contains_here)
  have page: "contains (render_providers_list ps) (concat (map provider_row ps))"
    unfolding render_providers_list_def using assms(1)
    by (cases ps) (simp_all only: list.set empty_iff list.distinct if_False, (rule contains_here | rule contains_right)+)
  have part: "contains (key_cell (pc_key p)) (''env: '' @ x @ ''</span>'')"
    unfolding cell by (rule contains_right, rule contains_refl)
  show ?thesis by (rule contains_trans[OF contains_trans[OF contains_trans[OF page rows] row] part])
qed

text \<open>The remove button of the page does what the API does: the same configuration, registry and file.\<close>

theorem ui_removes_as_the_api:
  assumes "i \<noteq> []"
  shows "snd (ui_remove_provider env i ap) = snd (remove_provider env i ap)"
  using assms by (auto simp: ui_remove_provider_def remove_provider_def Let_def split: prod.split sum.split)

theorem lists_show_data_as_text_witness:
  "markup (render_rules_list [\<lparr>dr_condition = \<lparr>dc_has_tools = None, dc_input_tokens_gt = None, dc_prompt_contains = Some [''<b>'']\<rparr>, dr_tier = ''<script>''\<rparr>])
     = markup (render_rules_list [\<lparr>dr_condition = \<lparr>dc_has_tools = None, dc_input_tokens_gt = None, dc_prompt_contains = None\<rparr>, dr_tier = ''fast''\<rparr>])
   \<and> markup (render_tiers_list [(''<i>'', demo_tier)]) = markup (render_tiers_list [(''fast'', demo_tier)])"
  by (rule lists_show_data_as_text) simp_all

theorem key_reference_is_markup_witness:
  "contains (render_providers_list [plain_provider\<lparr>pc_key := Some (''${'' @ ''<script>alert(1)</script>'' @ ''}'')\<rparr>])
     (''env: '' @ ''<script>alert(1)</script>'' @ ''</span>'')"
  by (rule key_reference_is_markup [OF list.set_intros(1)]) (simp only: plain_provider_def ProviderConfig.simps)

theorem ui_removes_as_the_api_witness:
  "snd (ui_remove_provider (demo_admin []) ''p'' (demo_app config_default)) = snd (remove_provider (demo_admin []) ''p'' (demo_app config_default))"
  by (rule ui_removes_as_the_api) (rule list.distinct)

end
