(* ===== verification/Wizard.thy ===== *)
theory Wizard
  imports WebUi
begin

section \<open>The wizard that adds a provider\<close>

text \<open>
  \<open>src/server/ui.rs\<close>: \<open>provider_type_to_str\<close>, the picker of step 1 and the form of step 2. The pages
  are the texts the handlers format, with the scripts they carry; step 2 takes the query of the request.
\<close>

fun provider_type_to_str :: "ProviderType \<Rightarrow> string" where
  "provider_type_to_str Anthropic = ''anthropic''"
| "provider_type_to_str Google = ''google''"
| "provider_type_to_str Kiro = ''kiro''"
| "provider_type_to_str Responses = ''responses''"
| "provider_type_to_str Generic = ''generic''"
| "provider_type_to_str Openai = ''openai''"
| "provider_type_to_str Openrouter = ''openrouter''"
| "provider_type_to_str Tokenrouter = ''tokenrouter''"
| "provider_type_to_str Groq = ''groq''"
| "provider_type_to_str Deepseek = ''deepseek''"
| "provider_type_to_str Fireworks = ''fireworks''"
| "provider_type_to_str Mistral = ''mistral''"
| "provider_type_to_str Xai = ''xai''"
| "provider_type_to_str Qwen = ''qwen''"
| "provider_type_to_str Moonshot = ''moonshot''"
| "provider_type_to_str Zai = ''zai''"
| "provider_type_to_str Xiaomi = ''xiaomi''"
| "provider_type_to_str Minimax = ''minimax''"
| "provider_type_to_str Byteplus = ''byteplus''"
| "provider_type_to_str Nvidia = ''nvidia''"
| "provider_type_to_str OpencodeGo = ''opencode-go''"
| "provider_type_to_str OpencodeZen = ''opencode-zen''"
| "provider_type_to_str Kilo = ''kilo''"
| "provider_type_to_str Commandcode = ''commandcode''"
| "provider_type_to_str GithubCopilot = ''github-copilot''"
| "provider_type_to_str Gitlawb = ''gitlawb''"
| "provider_type_to_str Ollama = ''ollama''"
| "provider_type_to_str OllamaCloud = ''ollama-cloud''"
| "provider_type_to_str LlamaCpp = ''llamacpp''"
| "provider_type_to_str LmStudio = ''lmstudio''"

definition type_named :: "string \<Rightarrow> ProviderType option" where
  "type_named s = find (\<lambda>t. provider_type_to_str t = s) ALL_TYPES"

subsection \<open>Step 1: the picker\<close>

text \<open>Title, type and group of an entry.\<close>

definition wizard_order :: "(string \<times> string \<times> string) list" where
  "wizard_order = [
    (''Anthropic (Claude)'', ''anthropic'', ''oauth''),
    (''ChatGPT Plus/Pro/Team (openai)'', ''openai'', ''oauth''),
    (''ChatGPT (codex o3)'', ''responses'', ''oauth''),
    (''Sign in with Google (CodeAssist)'', ''google'', ''oauth''),
    (''Grok subscription (xai)'', ''xai'', ''oauth''),
    (''GitHub Copilot'', ''github-copilot'', ''oauth''),
    (''Kiro'', ''kiro'', ''oauth''),
    (''MiniMax Coding Plan'', ''minimax'', ''oauth''),
    (''OpenRouter'', ''openrouter'', ''cloud''),
    (''TokenRouter'', ''tokenrouter'', ''cloud''),
    (''Groq'', ''groq'', ''cloud''),
    (''DeepSeek'', ''deepseek'', ''cloud''),
    (''Fireworks'', ''fireworks'', ''cloud''),
    (''Mistral'', ''mistral'', ''cloud''),
    (''Qwen (Alibaba)'', ''qwen'', ''cloud''),
    (''Moonshot (Kimi)'', ''moonshot'', ''cloud''),
    (''Z.ai (GLM)'', ''zai'', ''cloud''),
    (''Xiaomi (MiMo)'', ''xiaomi'', ''cloud''),
    (''BytePlus (ModelArk)'', ''byteplus'', ''cloud''),
    (''NVIDIA NIM'', ''nvidia'', ''cloud''),
    (''OpenCode Go'', ''opencode-go'', ''cloud''),
    (''OpenCode Zen'', ''opencode-zen'', ''cloud''),
    (''Kilo'', ''kilo'', ''cloud''),
    (''CommandCode'', ''commandcode'', ''cloud''),
    (''Gitlawb / OpenGateway'', ''gitlawb'', ''cloud''),
    (''Generic OpenAI-compatible'', ''generic'', ''cloud''),
    (''Ollama (local)'', ''ollama'', ''local''),
    (''Ollama Cloud'', ''ollama-cloud'', ''local''),
    (''llama.cpp (local)'', ''llamacpp'', ''local''),
    (''LM Studio (local)'', ''lmstudio'', ''local'')]"

definition group_titles :: "(string \<times> string) list" where
  "group_titles = [(''oauth'', ''Subscriptions & OAuth (click to connect)''),
     (''cloud'', ''Cloud APIs (paste your API key)''), (''local'', ''Local & self-hosted'')]"

text \<open>Badge, class of the badge and the line below the name.\<close>

definition wizard_badge :: "ManifestProvider option \<Rightarrow> string \<times> string \<times> string" where
  "wizard_badge info = (case info of
      None \<Rightarrow> (''?'', ''healthy'', ''no manifest'')
    | Some m \<Rightarrow>
        if local_only m then (''local'', ''local'', base_url m)
        else (case oauth m of
          Some oa \<Rightarrow>
            if device_code_url oa \<noteq> [] then (''device'', ''oauth'', base_url m @ '' '' @ mid_dot @ '' device code'')
            else if authorize_url oa = [] then (''refresh'', ''oauth'', base_url m @ '' '' @ mid_dot @ '' paste refresh token'')
            else (''oauth'', ''oauth'', base_url m @ '' '' @ mid_dot @ '' popup'')
        | None \<Rightarrow> (case subscription m of
            Some sub \<Rightarrow> (''plan'', ''subscription'', sub_label sub
              @ (if token_prefix sub = [] then [] else '' '' @ mid_dot @ '' '' @ token_prefix sub))
          | None \<Rightarrow> (''api'', ''healthy'', base_url m))))"

definition wizard_row :: "string \<times> string \<times> string \<Rightarrow> string" where
  "wizard_row entry = (case entry of (display, t, _) \<Rightarrow>
     (case wizard_badge (Option.bind (type_named t) lookup) of (badge, bc, meta) \<Rightarrow>
     ''<a class=\"row '' @ bc @ ''\" data-search=\"'' @ to_lowercase display @ '' '' @ t @ '' '' @ badge
     @ ''\" href=\"/ui/providers/new/config?type='' @ t @ ''\" hx-get=\"/ui/providers/new/config?type='' @ t
     @ ''\" hx-target=\"#wizard\" hx-swap=\"outerHTML\" hx-push-url=\"true\">\<newline>''
     @ ''                          <span class=\"name\">'' @ display @ ''</span>\<newline>''
     @ ''                          <span class=\"badge '' @ bc @ ''\">'' @ badge @ ''</span>\<newline>''
     @ ''                          <span class=\"meta\">'' @ meta @ ''</span>\<newline>''
     @ ''                        </a>''))"

definition wizard_group :: "string \<times> string \<Rightarrow> string" where
  "wizard_group g = (case g of (group_key, group_title) \<Rightarrow>
     (let entries = filter (\<lambda>(_, _, k). k = group_key) wizard_order in
      if entries = [] then []
      else ''<div class=\"group\" data-group=\"'' @ group_key @ ''\"><h3>'' @ group_title @ ''</h3>'' @ concat (map wizard_row entries) @ ''</div>''))"

definition WIZARD_SEARCH :: string where
  "WIZARD_SEARCH =
     ''<script>\<newline>''
     @ ''        (function(){\<newline>''
     @ ''          const input = document.getElementById('provider-search');\<newline>''
     @ ''          if (!input) return;\<newline>''
     @ ''          const groups = document.querySelectorAll('.provider-picker .group');\<newline>''
     @ ''          const rows = document.querySelectorAll('.provider-picker .row');\<newline>''
     @ ''          function apply() {\<newline>''
     @ ''            const q = (input.value || '' @ apostrophe @ apostrophe
     @ '').toLowerCase().trim();\<newline>''
     @ ''            if (!q) {\<newline>''
     @ ''              groups.forEach(g => g.style.display = '' @ apostrophe @ apostrophe @ '');\<newline>''
     @ ''              rows.forEach(r => r.style.display = '' @ apostrophe @ apostrophe @ '');\<newline>''
     @ ''              return;\<newline>''
     @ ''            }\<newline>''
     @ ''            groups.forEach(g => g.style.display = 'none');\<newline>''
     @ ''            let anyShown = false;\<newline>''
     @ ''            rows.forEach(r => {\<newline>''
     @ ''              const blob = r.getAttribute('data-search') || '' @ apostrophe @ apostrophe
     @ '';\<newline>''
     @ ''              const show = blob.toLowerCase().includes(q);\<newline>''
     @ ''              r.style.display = show ? '' @ apostrophe @ apostrophe @ '' : 'none';\<newline>''
     @ ''              if (show) anyShown = true;\<newline>''
     @ ''            });\<newline>''
     @ ''            // Re-show the first group that has visible rows\<newline>''
     @ ''            groups.forEach(g => {\<newline>''
     @ ''              const visible = Array.from(g.querySelectorAll('.row')).some(r => r.style.display !== 'none');\<newline>''
     @ ''              if (visible) g.style.display = '' @ apostrophe @ apostrophe @ '';\<newline>''
     @ ''            });\<newline>''
     @ ''            const container = document.getElementById('provider-groups');\<newline>''
     @ ''            let empty = container.querySelector('.picker-empty');\<newline>''
     @ ''            if (!anyShown) {\<newline>''
     @ ''              if (!empty) {\<newline>''
     @ ''                empty = document.createElement('div');\<newline>''
     @ ''                empty.className = 'picker-empty';\<newline>''
     @ ''                empty.textContent = 'No providers match \"' + input.value + '\"';\<newline>''
     @ ''                container.appendChild(empty);\<newline>''
     @ ''              }\<newline>''
     @ ''            } else if (empty) {\<newline>''
     @ ''              empty.remove();\<newline>''
     @ ''            }\<newline>''
     @ ''          }\<newline>''
     @ ''          input.addEventListener('input', apply);\<newline>''
     @ ''        })();\<newline>''
     @ ''        </script>''"

definition render_wizard_step1 :: string where
  "render_wizard_step1 =
     (let body = ''<div class=\"provider-picker\" id=\"wizard\"><input class=\"search\" id=\"provider-search\" type=\"search\" placeholder=\"Type to filter providers (e.g. anthropic, groq, local)''
                 @ ellipsis @ ''\" autocomplete=\"off\" /><div id=\"provider-groups\">''
        @ concat (map wizard_group group_titles) @ ''</div>'' @ WIZARD_SEARCH in
     ''\<newline>''
     @ ''        <h1>Add a provider</h1>\<newline>''
     @ ''        <div class=\"wizard-steps\">\<newline>''
     @ ''          <span class=\"step active\">1. Pick provider</span>\<newline>''
     @ ''          <span class=\"step\">2. Configure</span>\<newline>''
     @ ''          <span class=\"step\">3. Test + save</span>\<newline>''
     @ ''        </div>\<newline>''
     @ ''        <p class=\"dim\">30 providers in 3 groups. Use the search box to filter. OAuth providers (ChatGPT, GitHub Copilot, Kiro, etc.) connect with one click.</p>\<newline>''
     @ ''\<newline>''
     @ ''        '' @ body @ ''\<newline>''
     @ ''\<newline>''
     @ ''        <p style=\"margin-top: 24px;\"><a href=\"/ui/providers\">Cancel</a></p>\<newline>''
     @ ''        '')"

definition providers_new_step1 :: HttpResponse where
  "providers_new_step1 = page ''providers'' ''Providers'' render_wizard_step1"

subsection \<open>Step 2: the form\<close>

definition key_hint :: "ManifestProvider option \<Rightarrow> string \<times> string" where
  "key_hint info =
     (let requires_key = (case info of None \<Rightarrow> True | Some m \<Rightarrow> requires_key m);
          local_only = (case info of None \<Rightarrow> False | Some m \<Rightarrow> local_only m) in
      if local_only then (''Key (any value, e.g. &quot;ollama&quot; '' @ em_dash @ '' not validated)'', ''ollama'')
      else (case Option.bind info subscription of
          Some sub \<Rightarrow> (sub_label sub @ '' token''
              @ (if token_prefix sub = [] then [] else '' (starts with <code>'' @ token_prefix sub @ ''</code>)''),
            token_prefix sub)
        | None \<Rightarrow>
            if requires_key then (''API key (or <code>$&#123;ENV_VAR&#125;</code> reference)'', ''${{ANTHROPIC_API_KEY}}'')
            else (''API key (optional)'', [])))"

definition display_name :: "string \<Rightarrow> string" where
  "display_name t =
     (if t = ''anthropic'' then ''Anthropic (Claude)'' else if t = ''openai'' then ''OpenAI''
      else if t = ''google'' then ''Google (Gemini)'' else if t = ''kiro'' then ''Kiro (AWS)''
      else if t = ''responses'' then ''OpenAI Responses (o3)''
      else if t = ''generic'' then ''Generic OpenAI-compatible'' else t)"

definition oauth_popup_html :: "string \<Rightarrow> string" where
  "oauth_popup_html provider_type =
     ''<div class=\"oauth-connect\" id=\"oauth-'' @ provider_type @ ''-block\">\<newline>''
     @ ''              <button type=\"button\" class=\"secondary\" id=\"oauth-'' @ provider_type
     @ ''-btn\">\<newline>''
     @ ''                Connect with '' @ provider_type @ ''\<newline>''
     @ ''              </button>\<newline>''
     @ ''              <span class=\"muted\">Opens the '' @ provider_type
     @ '' sign-in page in a popup window. Token stored automatically after consent.</span>\<newline>''
     @ ''            </div>\<newline>''
     @ ''            <script>\<newline>''
     @ ''            (function() {\<newline>''
     @ ''              const btn = document.getElementById('oauth-'' @ provider_type @ ''-btn');\<newline>''
     @ ''              if (!btn) return;\<newline>''
     @ ''              btn.addEventListener('click', () => {\<newline>''
     @ ''                btn.disabled = true;\<newline>''
     @ ''                btn.textContent = 'Opening '' @ provider_type @ ellipsis @ apostrophe
     @ '';\<newline>''
     @ ''                const redirect_uri = window.location.origin + '/admin/oauth/'' @ provider_type
     @ ''/callback';\<newline>''
     @ ''                fetch('/admin/oauth/'' @ provider_type @ ''/start', {\<newline>''
     @ ''                  method: 'POST',\<newline>''
     @ ''                  headers: { 'content-type': 'application/json' },\<newline>''
     @ ''                  body: JSON.stringify({ redirect_uri }),\<newline>''
     @ ''                })\<newline>''
     @ ''                .then(r => r.json().then(j => ({ ok: r.ok, body: j })))\<newline>''
     @ ''                .then(({ ok, body }) => {\<newline>''
     @ ''                  if (!ok || !body.authorize_url) {\<newline>''
     @ ''                    btn.disabled = false;\<newline>''
     @ ''                    btn.textContent = 'Connect with '' @ provider_type @ apostrophe @ '';\<newline>''
     @ ''                    alert('OAuth start failed: ' + (body.error || 'unknown'));\<newline>''
     @ ''                    return;\<newline>''
     @ ''                  }\<newline>''
     @ ''                  const popup = window.open(\<newline>''
     @ ''                    body.authorize_url,\<newline>''
     @ ''                    '_blank'\<newline>''
     @ ''                  );\<newline>''
     @ ''                  if (!popup) {\<newline>''
     @ ''                    btn.disabled = false;\<newline>''
     @ ''                    btn.textContent = 'Connect with '' @ provider_type @ apostrophe @ '';\<newline>''
     @ ''                    alert('Tab blocked '' @ em_dash
     @ '' please allow popups for this origin, then click again.');\<newline>''
     @ ''                    return;\<newline>''
     @ ''                  }\<newline>''
     @ ''                  // Listen for the success postMessage from the popup tab.\<newline>''
     @ ''                  window.addEventListener('message', (e) => {\<newline>''
     @ ''                    if (e.data && e.data.type === 'oauth_complete' && e.data.provider === ''
     @ apostrophe @ provider_type @ apostrophe @ '') {\<newline>''
     @ ''                      window.location.href = '/ui/providers?flash=' +\<newline>''
     @ ''                        (e.data.status === 'ok' ? 'oauth_ok' : 'oauth_err') +\<newline>''
     @ ''                        '&provider='' @ provider_type @ apostrophe @ '';\<newline>''
     @ ''                    }\<newline>''
     @ ''                  });\<newline>''
     @ ''                  // Detect when the tab is closed without completing.\<newline>''
     @ ''                  const tk = setInterval(() => {\<newline>''
     @ ''                    if (popup.closed) {\<newline>''
     @ ''                      clearInterval(tk);\<newline>''
     @ ''                      btn.disabled = false;\<newline>''
     @ ''                      btn.textContent = 'Connect with '' @ provider_type @ apostrophe
     @ '';\<newline>''
     @ ''                    }\<newline>''
     @ ''                  }, 800);\<newline>''
     @ ''                });\<newline>''
     @ ''              });\<newline>''
     @ ''            })();\<newline>''
     @ ''            </script>''"

definition oauth_device_html :: "string \<Rightarrow> string" where
  "oauth_device_html provider_type =
     ''<div class=\"oauth-connect\" id=\"oauth-'' @ provider_type @ ''-block\">\<newline>''
     @ ''              <button type=\"button\" class=\"secondary\"\<newline>''
     @ ''                      hx-post=\"/admin/oauth/'' @ provider_type @ ''/device/start\"\<newline>''
     @ ''                      hx-target=\"#oauth-'' @ provider_type @ ''-block\"\<newline>''
     @ ''                      hx-swap=\"outerHTML\">\<newline>''
     @ ''                Connect with '' @ provider_type @ '' (device code)\<newline>''
     @ ''              </button>\<newline>''
     @ ''              <span class=\"muted\">Returns a code you enter at the provider's activation page. Auto-connects once approved.</span>\<newline>''
     @ ''            </div>''"

definition oauth_paste_html :: "string \<Rightarrow> string \<Rightarrow> string" where
  "oauth_paste_html provider_type paste_redirect =
     ''<div class=\"oauth-connect\" id=\"oauth-'' @ provider_type @ ''-block\">\<newline>''
     @ ''              <a class=\"secondary\" href=\"'' @ paste_redirect
     @ ''\" target=\"_blank\" rel=\"noopener\" id=\"oauth-'' @ provider_type
     @ ''-open\">Open Claude sign-in</a>\<newline>''
     @ ''              <span class=\"muted\">Sign in, then copy the <code>&lt;code&gt;#&lt;state&gt;</code> string from the redirect page.</span>\<newline>''
     @ ''              <textarea id=\"oauth-'' @ provider_type
     @ ''-code\" placeholder=\"paste the code here (e.g. sk-ant-oat01-...#a1b2c3)\" rows=\"3\" style=\"width:100%;margin-top:8px;font-family:var(--mono);font-size:12px;\"></textarea>\<newline>''
     @ ''              <button type=\"button\" class=\"secondary\" id=\"oauth-'' @ provider_type
     @ ''-submit\">Submit code</button>\<newline>''
     @ ''            </div>\<newline>''
     @ ''            <script>\<newline>''
     @ ''            (function() {\<newline>''
     @ ''              const btn = document.getElementById('oauth-'' @ provider_type @ ''-submit');\<newline>''
     @ ''              if (!btn) return;\<newline>''
     @ ''              btn.addEventListener('click', async () => {\<newline>''
     @ ''                btn.disabled = true;\<newline>''
     @ ''                btn.textContent = 'Submitting'' @ ellipsis @ apostrophe @ '';\<newline>''
     @ ''                const code = (document.getElementById('oauth-'' @ provider_type
     @ ''-code').value || '' @ apostrophe @ apostrophe @ '').trim();\<newline>''
     @ ''                if (!code) {\<newline>''
     @ ''                  btn.disabled = false;\<newline>''
     @ ''                  btn.textContent = 'Submit code';\<newline>''
     @ ''                  alert('Paste the code from console.anthropic.com first.');\<newline>''
     @ ''                  return;\<newline>''
     @ ''                }\<newline>''
     @ ''                try {\<newline>''
     @ ''                  const r = await fetch('/admin/oauth/'' @ provider_type @ ''/paste', {\<newline>''
     @ ''                    method: 'POST',\<newline>''
     @ ''                    headers: { 'content-type': 'application/json' },\<newline>''
     @ ''                    body: JSON.stringify({ code }),\<newline>''
     @ ''                  });\<newline>''
     @ ''                  if (!r.ok) {\<newline>''
     @ ''                    const j = await r.json().catch(() => ({}));\<newline>''
     @ ''                    btn.disabled = false;\<newline>''
     @ ''                    btn.textContent = 'Submit code';\<newline>''
     @ ''                    alert('Submit failed: ' + (j.error || r.statusText));\<newline>''
     @ ''                    return;\<newline>''
     @ ''                  }\<newline>''
     @ ''                  window.location.href = '/ui/providers?flash=oauth_ok&provider='' @ provider_type
     @ apostrophe @ '';\<newline>''
     @ ''                } catch (e) {\<newline>''
     @ ''                  btn.disabled = false;\<newline>''
     @ ''                  btn.textContent = 'Submit code';\<newline>''
     @ ''                  alert('Network: ' + e);\<newline>''
     @ ''                }\<newline>''
     @ ''              });\<newline>''
     @ ''            })();\<newline>''
     @ ''            </script>''"

definition oauth_refresh_html :: "string \<Rightarrow> string" where
  "oauth_refresh_html provider_type =
     ''<div class=\"oauth-connect\" id=\"oauth-'' @ provider_type @ ''-block\">\<newline>''
     @ ''              <button type=\"button\" class=\"secondary\"\<newline>''
     @ ''                      hx-post=\"/admin/oauth/'' @ provider_type @ ''/refresh\"\<newline>''
     @ ''                      hx-vals='{\"key\": \"\"}'\<newline>''
     @ ''                      hx-target=\"#oauth-'' @ provider_type @ ''-block\"\<newline>''
     @ ''                      hx-swap=\"outerHTML\">\<newline>''
     @ ''                Refresh token mode\<newline>''
     @ ''              </button>\<newline>''
     @ ''              <span class=\"muted\">Paste your refresh token below '' @ em_dash
     @ '' the system exchanges it for an access token on every request.</span>\<newline>''
     @ ''            </div>''"

definition oauth_connect_html :: "string \<Rightarrow> ManifestOAuth option \<Rightarrow> string" where
  "oauth_connect_html provider_type oa = (case oa of None \<Rightarrow> []
    | Some o' \<Rightarrow>
        if authorize_url o' \<noteq> [] \<and> \<not> is_anthropic_paste_code o' then oauth_popup_html provider_type
        else if device_code_url o' \<noteq> [] then oauth_device_html provider_type
        else if is_anthropic_paste_code o' then oauth_paste_html provider_type
          (if paste_code_redirect_url o' = [] then ''https://console.anthropic.com/oauth/code/callback''
           else paste_code_redirect_url o')
        else oauth_refresh_html provider_type)"

definition WIZARD_SCRIPT :: string where
  "WIZARD_SCRIPT =
     ''\<newline>''
     @ ''<script>\<newline>''
     @ ''(function() {\<newline>''
     @ ''  const btn = document.getElementById('fetch-models-btn');\<newline>''
     @ ''  if (!btn) return;\<newline>''
     @ ''  const status = document.getElementById('model-status');\<newline>''
     @ ''  const input = document.getElementById('default-model-input');\<newline>''
     @ ''  const dropdown = document.getElementById('model-dropdown');\<newline>''
     @ ''  const form = document.getElementById('provider-form');\<newline>''
     @ ''  const keyInput = document.getElementById('key-input');\<newline>''
     @ ''  btn.addEventListener('click', async () => {\<newline>''
     @ ''    btn.disabled = true;\<newline>''
     @ ''    status.textContent = '(fetching'' @ ellipsis @ '')';\<newline>''
     @ ''    dropdown.innerHTML = '' @ apostrophe @ apostrophe @ '';\<newline>''
     @ ''    const fd = new FormData(form);\<newline>''
     @ ''    const body = {\<newline>''
     @ ''      id: fd.get('id') || 'tmp',\<newline>''
     @ ''      type: fd.get('type') || 'openai',\<newline>''
     @ ''      key: fd.get('key') || '' @ apostrophe @ apostrophe @ '',\<newline>''
     @ ''      base_url: fd.get('base_url') || undefined,\<newline>''
     @ ''      path: fd.get('path') || undefined,\<newline>''
     @ ''      default_model: fd.get('default_model') || undefined,\<newline>''
     @ ''    };\<newline>''
     @ ''    try {\<newline>''
     @ ''      const r = await fetch('/admin/providers/list-models', {\<newline>''
     @ ''        method: 'POST',\<newline>''
     @ ''        headers: { 'content-type': 'application/json' },\<newline>''
     @ ''        body: JSON.stringify(body),\<newline>''
     @ ''      });\<newline>''
     @ ''      const j = await r.json();\<newline>''
     @ ''      if (!r.ok) {\<newline>''
     @ ''        status.innerHTML = '<span style=\"color:var(--red)\">(error: ' + (j.error || 'unknown') + ')</span>';\<newline>''
     @ ''        return;\<newline>''
     @ ''      }\<newline>''
     @ ''      const models = j.models || [];\<newline>''
     @ ''      if (models.length === 0) {\<newline>''
     @ ''        status.textContent = '(provider returned 0 models)';\<newline>''
     @ ''        return;\<newline>''
     @ ''      }\<newline>''
     @ ''      status.textContent = '(found ' + models.length + ' models)';\<newline>''
     @ ''      const sel = document.createElement('select');\<newline>''
     @ ''      sel.id = 'model-picker-select';\<newline>''
     @ ''      sel.style.cssText = 'width:100%;margin-top:4px;padding:6px;font-family:var(--mono);font-size:12px;';\<newline>''
     @ ''      const current = (fd.get('default_model') || '' @ apostrophe @ apostrophe
     @ '').toString();\<newline>''
     @ ''      sel.innerHTML = '<option value=\"\">'' @ em_dash @ '' pick from ' + models.length + ' ''
     @ em_dash @ ''</option>' +\<newline>''
     @ ''        models.map(m => {\<newline>''
     @ ''          const selAttr = m === current ? ' selected' : '' @ apostrophe @ apostrophe @ '';\<newline>''
     @ ''          return '<option value=\"' + m.replace(/\"/g, '&quot;') + '\"' + selAttr + '>' + m + '</option>';\<newline>''
     @ ''        }).join('' @ apostrophe @ apostrophe @ '');\<newline>''
     @ ''      sel.addEventListener('change', () => {\<newline>''
     @ ''        if (sel.value) input.value = sel.value;\<newline>''
     @ ''      });\<newline>''
     @ ''      if (models.length === 1) {\<newline>''
     @ ''        input.value = models[0];\<newline>''
     @ ''      }\<newline>''
     @ ''      dropdown.appendChild(sel);\<newline>''
     @ ''    } catch (e) {\<newline>''
     @ ''      status.innerHTML = '<span style=\"color:var(--red)\">(network: ' + e + ')</span>';\<newline>''
     @ ''    } finally {\<newline>''
     @ ''      btn.disabled = false;\<newline>''
     @ ''    }\<newline>''
     @ ''  });\<newline>''
     @ ''  if (keyInput) {\<newline>''
     @ ''    let timer = null;\<newline>''
     @ ''    keyInput.addEventListener('input', () => {\<newline>''
     @ ''      clearTimeout(timer);\<newline>''
     @ ''      if (keyInput.value.length < 8) return;\<newline>''
     @ ''      timer = setTimeout(() => btn.click(), 1200);\<newline>''
     @ ''    });\<newline>''
     @ ''  }\<newline>''
     @ ''})();\<newline>''
     @ ''</script>\<newline>''"

definition render_wizard_step2 :: "string \<Rightarrow> string" where
  "render_wizard_step2 provider_type =
     (let pt = unwrap_or Generic (type_named provider_type);
          info = lookup pt;
          (default_url, default_model, default_path) = (case info of
              Some m \<Rightarrow> (base_url m, default_model m, api_path m)
            | None \<Rightarrow> (''https://api.example.com'', ''default'', ''/v1/chat/completions''));
          local = (case info of None \<Rightarrow> False | Some m \<Rightarrow> local_only m);
          id_suggestion = (if provider_type = ''generic'' then ''my-proxy'' else provider_type);
          (key_label, key_placeholder) = key_hint info in
     ''\<newline>''
     @ ''<h1>Add a provider</h1>\<newline>''
     @ ''<div class=\"wizard-steps\">\<newline>''
     @ ''  <span class=\"step\"><a href=\"/ui/providers/new\" style=\"color:inherit;text-decoration:none;\">1. Pick provider</a></span>\<newline>''
     @ ''  <span class=\"step active\">2. Configure</span>\<newline>''
     @ ''  <span class=\"step\">3. Test + save</span>\<newline>''
     @ ''</div>\<newline>''
     @ ''\<newline>''
     @ ''<div id=\"wizard\" class=\"wizard-panel\">\<newline>''
     @ ''  <h2>'' @ display_name provider_type @ '' <span class=\"badge ''
     @ (if local then ''local'' else ''healthy'') @ ''\">'' @ (if local then ''local'' else ''cloud'')
     @ ''</span></h2>\<newline>''
     @ ''  <p class=\"dim\">Defaults are pre-filled. Override base URL or path for self-hosted proxies / staging. The test call will hit <code>''
     @ default_path @ ''</code> with the configured key.</p>\<newline>''
     @ ''\<newline>''
     @ ''  '' @ oauth_connect_html provider_type (Option.bind info oauth) @ ''\<newline>''
     @ ''\<newline>''
     @ ''  <form id=\"provider-form\"\<newline>''
     @ ''        hx-post=\"/admin/providers\"\<newline>''
     @ ''        hx-target=\"#wizard\"\<newline>''
     @ ''        hx-swap=\"outerHTML\"\<newline>''
     @ ''        hx-on::after-request=\"document.getElementById('wizard').innerHTML = '<div class=&quot;flash success&quot;>Provider saved. Reloading''
     @ ellipsis @ ''</div>'; setTimeout(() => location.reload(), 600)\">\<newline>''
     @ ''    <input type=\"hidden\" name=\"type\" value=\"'' @ provider_type_to_str pt @ ''\" />\<newline>''
     @ ''    <div class=\"row three\">\<newline>''
     @ ''      <div>\<newline>''
     @ ''        <label>ID (used in <code>model</code> field)</label>\<newline>''
     @ ''        <input name=\"id\" value=\"'' @ id_suggestion @ ''\" required />\<newline>''
     @ ''      </div>\<newline>''
     @ ''      <div>\<newline>''
     @ ''        <label>'' @ key_label @ ''</label>\<newline>''
     @ ''        <input name=\"key\" id=\"key-input\" value=\"\" placeholder=\"'' @ key_placeholder
     @ ''\" autofocus />\<newline>''
     @ ''      </div>\<newline>''
     @ ''      <div>\<newline>''
     @ ''        <label>Default model <span class=\"muted\" id=\"model-status\"></span></label>\<newline>''
     @ ''        <input name=\"default_model\" id=\"default-model-input\" value=\"'' @ default_model
     @ ''\" />\<newline>''
     @ ''        <button type=\"button\" id=\"fetch-models-btn\" class=\"secondary\"\<newline>''
     @ ''                style=\"margin-top: 4px;\">\<newline>''
     @ ''          Fetch model list from API\<newline>''
     @ ''        </button>\<newline>''
     @ ''        <div id=\"model-dropdown\"></div>\<newline>''
     @ ''      </div>\<newline>''
     @ ''    </div>\<newline>''
     @ ''    <div class=\"row\">\<newline>''
     @ ''      <div>\<newline>''
     @ ''        <label>Base URL (optional '' @ em_dash @ '' defaults from manifest)</label>\<newline>''
     @ ''        <input name=\"base_url\" value=\"'' @ default_url @ ''\" />\<newline>''
     @ ''      </div>\<newline>''
     @ ''      <div>\<newline>''
     @ ''        <label>Path (optional)</label>\<newline>''
     @ ''        <input name=\"path\" value=\"'' @ default_path @ ''\" />\<newline>''
     @ ''      </div>\<newline>''
     @ ''    </div>\<newline>''
     @ ''\<newline>''
     @ ''    <div id=\"test-result\"></div>\<newline>''
     @ ''\<newline>''
     @ ''    <div class=\"actions\">\<newline>''
     @ ''      <button type=\"button\" class=\"secondary\"\<newline>''
     @ ''              hx-post=\"/admin/providers/test\"\<newline>''
     @ ''              hx-include=\"#provider-form\"\<newline>''
     @ ''              hx-target=\"#test-result\"\<newline>''
     @ ''              hx-swap=\"innerHTML\">\<newline>''
     @ ''        Test connection\<newline>''
     @ ''      </button>\<newline>''
     @ ''      <button type=\"submit\">Save provider</button>\<newline>''
     @ ''      <span class=\"muted\">Test runs against the upstream with the key above. No save until you click Save.</span>\<newline>''
     @ ''    </div>\<newline>''
     @ ''  </form>\<newline>''
     @ ''</div>\<newline>''
     @ ''\<newline>''
     @ ''<p style=\"margin-top: 16px;\"><a href=\"/ui/providers/new\">'' @ left_arrow
     @ '' back to provider picker</a></p>\<newline>''
     @ WIZARD_SCRIPT @ ''\<newline>'')"

definition providers_new_step2 :: "(string \<times> string) list \<Rightarrow> HttpResponse" where
  "providers_new_step2 params = page ''providers'' ''Providers''
     (render_wizard_step2 (unwrap_or ''openai'' (map_of params ''type'')))"

subsection \<open>What the wizard promises\<close>

lemma type_named_to_str [simp]: "type_named (provider_type_to_str t) = Some t"
  by (induct t) code_simp+

text \<open>The picker offers every provider type exactly once, each under a group that it shows.\<close>

theorem wizard_offers_every_type:
  "length (filter (\<lambda>(_, s, _). type_named s = Some t) wizard_order) = 1
   \<and> list_all (\<lambda>(_, _, g). g \<in> set (map fst group_titles)) wizard_order"
proof (rule conjI)
  show "length (filter (\<lambda>(_, s, _). type_named s = Some t) wizard_order) = 1" by (induct t) code_simp+
  show "list_all (\<lambda>(_, _, g). g \<in> set (map fst group_titles)) wizard_order" by code_simp
qed

lemma contains_parts: "contains (a @ b @ c @ d) (a @ b @ c)"
  using contains_here[of "a @ b @ c" d] by simp

text \<open>The form of step 2 posts the type that was picked.\<close>

theorem wizard_posts_picked_type:
  "contains (render_wizard_step2 (provider_type_to_str t))
     (''    <input type=\"hidden\" name=\"type\" value=\"'' @ provider_type_to_str t @ ''\" />\<newline>'')"
  unfolding render_wizard_step2_def Let_def type_named_to_str unwrap_or_simps
  by (simp only: split: prod.split option.split) (intro allI impI conjI, ((rule contains_parts | rule contains_right)+)?)

lemma display_name_unknown: "type_named t = None \<Longrightarrow> display_name t = t"
proof -
  assume none: "type_named t = None"
  have "t \<noteq> provider_type_to_str p" for p using none by (metis type_named_to_str option.distinct(1))
  from this[of Anthropic] this[of Openai] this[of Google] this[of Kiro] this[of Responses] this[of Generic]
  show ?thesis unfolding display_name_def provider_type_to_str.simps by (simp only: if_False)
qed

text \<open>Step 2 puts an unknown type of the query into the page as it is: \<open>?type=<script>...\<close> runs in the
  browser of whoever opens the link.\<close>

theorem wizard_reflects_type:
  assumes "type_named t = None"
  shows "contains (render_wizard_step2 t) (''  <h2>'' @ t @ '' <span class=\"badge '')"
  unfolding render_wizard_step2_def Let_def display_name_unknown[OF assms]
  by (simp only: split: prod.split option.split) (intro allI impI conjI, ((rule contains_parts | rule contains_right)+)?)

theorem wizard_reflects_type_witness:
  "contains (render_wizard_step2 ''<script>alert(1)</script>'') (''  <h2>'' @ ''<script>alert(1)</script>'' @ '' <span class=\"badge '')"
  by (rule wizard_reflects_type) code_simp

end
