(* ===== verification/Playground.thy ===== *)
theory Playground
  imports WebUi
begin

section \<open>The playground and the page after a sign-in\<close>

text \<open>
  \<open>src/server/ui.rs\<close>: \<open>playground_page\<close>, \<open>playground_send\<close> and \<open>oauth_done_page\<close>. The form is taken
  as the extractor decodes it; \<open>elapsed\<close> is the number of milliseconds the clock measures around the
  call. \<open>complete\<close> is the pipeline's own run, with the state it leaves.
\<close>

record PlaygroundForm =
  pf_model :: string
  pf_system :: "string option"
  pf_message :: string
  pf_temperature :: "f64 option"
  pf_max_tokens :: "u32 option"

subsection \<open>The page\<close>

definition model_option :: "ProviderConfig \<Rightarrow> string" where
  "model_option p = (case pc_default_model p of None \<Rightarrow> []
    | Some m \<Rightarrow> ''<option value=\"'' @ pc_id p @ ''\">'' @ pc_id p @ '' '' @ right_arrow @ '' '' @ m @ ''</option>'')"

definition render_model_options :: "ProviderConfig list \<Rightarrow> string" where
  "render_model_options ps = (let out = concat (map model_option ps) in
     if out = [] then ''<option disabled>No providers configured</option>'' else out)"

definition playground_page :: "App \<Rightarrow> HttpResponse" where
  "playground_page ap = (let model_options = render_model_options (providers (app_config ap)) in
     page ''playground'' ''Playground'' (
     ''\<newline>''
     @ ''<h1>Playground</h1>\<newline>''
     @ ''<p class=\"dim\">Test a model end-to-end. Goes through the same routing, fallback, and auth pipeline as the public API. Use the <code>X-Router-Key</code> header to swap in a different upstream key (the form below uses the key configured in <code>token-dealer.toml</code>).</p>\<newline>''
     @ ''\<newline>''
     @ ''<div id=\"playground\">\<newline>''
     @ ''  <form hx-post=\"/ui/playground\" hx-target=\"#playground-response\" hx-swap=\"innerHTML\" hx-indicator=\"#playground-spinner\">\<newline>''
     @ ''    <div class=\"row three\">\<newline>''
     @ ''      <div>\<newline>''
     @ ''        <label>Model</label>\<newline>''
     @ ''        <select name=\"model\">'' @ model_options @ ''</select>\<newline>''
     @ ''      </div>\<newline>''
     @ ''      <div>\<newline>''
     @ ''        <label>Temperature (0'' @ en_dash @ ''2)</label>\<newline>''
     @ ''        <input name=\"temperature\" type=\"number\" step=\"0.1\" min=\"0\" max=\"2\" value=\"1\" />\<newline>''
     @ ''      </div>\<newline>''
     @ ''      <div>\<newline>''
     @ ''        <label>Max tokens</label>\<newline>''
     @ ''        <input name=\"max_tokens\" type=\"number\" min=\"1\" max=\"200000\" placeholder=\"(no limit)\" />\<newline>''
     @ ''      </div>\<newline>''
     @ ''    </div>\<newline>''
     @ ''    <label>System prompt (optional)</label>\<newline>''
     @ ''    <textarea name=\"system\" rows=\"2\" placeholder=\"You are a helpful assistant.\"></textarea>\<newline>''
     @ ''    <label>Message</label>\<newline>''
     @ ''    <textarea name=\"message\" rows=\"6\" required placeholder=\"What is the capital of France?\"></textarea>\<newline>''
     @ ''    <div class=\"actions\">\<newline>''
     @ ''      <button type=\"submit\">Send</button>\<newline>''
     @ ''      <span id=\"playground-spinner\" class=\"htmx-indicator\">'' @ ellipsis @ ''</span>\<newline>''
     @ ''      <span class=\"muted\">Non-streaming. Response renders below.</span>\<newline>''
     @ ''    </div>\<newline>''
     @ ''  </form>\<newline>''
     @ ''\<newline>''
     @ ''  <h2 style=\"margin-top: 24px;\">Response</h2>\<newline>''
     @ ''  <div id=\"playground-response\" class=\"playground-response\">\<newline>''
     @ ''    <p class=\"dim\">No response yet. Pick a model and send a message.</p>\<newline>''
     @ ''  </div>\<newline>''
     @ ''</div>\<newline>''))"

subsection \<open>Sending a message\<close>

definition playground_message :: "string \<Rightarrow> string \<Rightarrow> InboundMessage" where
  "playground_message r content = \<lparr>im_role = r, im_content = String content, im_name = None,
     im_tool_call_id = None, im_tool_calls = None\<rparr>"

definition playground_messages :: "PlaygroundForm \<Rightarrow> InboundMessage list" where
  "playground_messages form =
     (case pf_system form of None \<Rightarrow> []
      | Some sys \<Rightarrow> if sys = [] then [] else [playground_message ''system'' sys])
     @ [playground_message ''user'' (pf_message form)]"

definition playground_error :: "string \<Rightarrow> HttpResponse" where
  "playground_error why = text_response 200 (''<div class=\"playground-error\">'' @ why @ ''</div>'')"

text \<open>The derived \<open>Debug\<close> text of a tier.\<close>

fun tier_debug :: "Tier \<Rightarrow> string" where
  "tier_debug Simple = ''Simple''"
| "tier_debug Standard = ''Standard''"
| "tier_debug Complex = ''Complex''"
| "tier_debug Reasoning = ''Reasoning''"
| "tier_debug HighContext = ''HighContext''"
| "tier_debug Multimodal = ''Multimodal''"

definition playground_route :: "string \<Rightarrow> Pipeline \<Rightarrow> string + (string \<times> string)" where
  "playground_route model pl = (case split_once (CHR ''/'') model of
      Some pm \<Rightarrow> Inr pm
    | None \<Rightarrow>
       (let cfg = pl_config pl;
            tier = opt_or (tier_parse model) (map_option (\<lambda>_. Standard) (map_of (tiers cfg) model)) in
        case tier of
          None \<Rightarrow> Inl (''unknown model ref: '' @ model)
        | Some t \<Rightarrow> (case route_tier (pl_registry pl) cfg t of
              None \<Rightarrow> Inl (''no primary for tier '' @ tier_debug t)
            | Some r \<Rightarrow> Inr (sel_provider_id r, sel_model_id r))))"

definition playground_routed ::
  "('x, 's) PipeEnv \<Rightarrow> PlaygroundForm \<Rightarrow> string \<times> string \<Rightarrow> RoutingOutput" where
  "playground_routed env form pm =
     (let inbound = \<lparr>ir_model = pf_model form, ir_messages = playground_messages form,
            ir_max_tokens = pf_max_tokens form, ir_temperature = pf_temperature form, ir_top_p = None,
            ir_stop = None, ir_stream = False, ir_tools = None, ir_tool_choice = None\<rparr>;
          canonical = into_canonical (pe_parse env) (pe_text env) inbound Standard (snd pm) (fst pm) (pe_uuid env) in
      \<lparr>ro_canonical = canonical\<lparr>cr_selected_model := pf_model form\<rparr>,
       ro_route = \<lparr>sel_provider_id = fst pm, sel_model_id = snd pm\<rparr>, ro_key = [],
       ro_request_id = pe_uuid env, ro_user_id = None, ro_user_agent = None\<rparr>)"

definition response_text :: "CanonicalResponse \<Rightarrow> string" where
  "response_text r = concat (map (\<lambda>b. case b of Text t \<Rightarrow> t | _ \<Rightarrow> []) (rs_content r))"

definition playground_answer :: "nat \<Rightarrow> CanonicalResponse \<Rightarrow> HttpResponse" where
  "playground_answer elapsed r =
     (let tokens = show_nat (unat (input_tokens (rs_usage r))) @ '' in / '' @ show_nat (unat (output_tokens (rs_usage r))) @ '' out'' in
      text_response 200 (
      ''<div class=\"playground-response-meta\">\<newline>''
      @ ''                    <span class=\"badge healthy\">'' @ ui_escape (rs_provider r)
      @ ''</span>\<newline>''
      @ ''                    <span><code>'' @ ui_escape (rs_model r) @ ''</code></span>\<newline>''
      @ ''                    <span class=\"muted\">'' @ tokens @ '' '' @ mid_dot @ '' '' @ show_nat elapsed
      @ ''ms</span>\<newline>''
      @ ''                  </div>\<newline>''
      @ ''                  <pre class=\"playground-response-body\">'' @ ui_escape (response_text r)
      @ ''</pre>''))"

definition playground_send ::
  "('x, 's) PipeEnv \<Rightarrow> nat \<Rightarrow> headers \<Rightarrow> PlaygroundForm \<Rightarrow> Pipeline \<Rightarrow> 'x
     \<Rightarrow> HttpResponse \<times> Pipeline \<times> 'x" where
  "playground_send env elapsed hs form pl x =
     (case playground_route (pf_model form) pl of
        Inl why \<Rightarrow> (playground_error why, pl, x)
      | Inr pm \<Rightarrow>
         (let routed = playground_routed env form pm;
              (resolved, ks) = resolve (pe_crypto env) (pe_var env) (pl_master pl) (fst pm)
                 (provider_key (pl_config pl) (fst pm)) (oa_keys (pl_oauth pl));
              pl1 = pl\<lparr>pl_oauth := (pl_oauth pl)\<lparr>oa_keys := ks\<rparr>\<rparr>;
              key = (case hs ''x-router-key'' of None \<Rightarrow> resolved
                | Some k \<Rightarrow> if k \<noteq> [] then k else resolved) in
          case complete env (routed\<lparr>ro_key := key\<rparr>) pl1 x of
            (Inr r, pl2, x') \<Rightarrow> (playground_answer elapsed r, pl2, x')
          | (Inl e, pl2, x') \<Rightarrow> (playground_error (''error: '' @ error_to_string e), pl2, x')))"

subsection \<open>After a sign-in\<close>

definition oauth_done_page :: "(string \<times> string) list \<Rightarrow> HttpResponse" where
  "oauth_done_page params =
     (let provider = ui_escape (unwrap_or [] (map_of params ''provider''));
          status = ui_escape (unwrap_or ''ok'' (map_of params ''status''));
          msg = ui_escape (unwrap_or [] (map_of params ''msg''));
          title = (if status = ''ok'' then ''Connected '' @ provider else ''Connection failed'');
          status_class = (if status = ''ok'' then ''status-ok'' else ''status-err'');
          status_icon = (if status = ''ok'' then check_mark else cross_mark);
          body_msg = (if status = ''ok'' then ''Refresh token stored. You can close this window.''
            else ''Could not complete the '' @ provider @ '' sign-in.'');
          err_detail = (if status \<noteq> ''ok'' \<and> msg \<noteq> [] then ''<div class=\"err-detail\">'' @ msg @ ''</div>'' else []) in
      text_response 200 (
      ''<!doctype html>\<newline>''
      @ ''<html lang=\"en\">\<newline>''
      @ ''<head>\<newline>''
      @ ''  <meta charset=\"utf-8\" />\<newline>''
      @ ''  <title>'' @ title @ '' '' @ mid_dot @ '' token-dealer</title>\<newline>''
      @ ''  <link rel=\"stylesheet\" href=\"/ui/style.css\" />\<newline>''
      @ ''  <style>\<newline>''
      @ ''    body { display:flex; align-items:center; justify-content:center; min-height:100vh; margin:0; }\<newline>''
      @ ''    .card { background:var(--bg-elev); border:1px solid var(--border); border-radius:8px; padding:32px 40px; max-width:420px; text-align:center; }\<newline>''
      @ ''    .status-ok { color:var(--green); font-size:48px; }\<newline>''
      @ ''    .status-err { color:var(--red); font-size:48px; }\<newline>''
      @ ''    h1 { margin:8px 0 4px; }\<newline>''
      @ ''    p { color:var(--text-dim); margin:8px 0; }\<newline>''
      @ ''    .err-detail { color:var(--red); font-family:var(--mono); font-size:12px; margin-top:16px; word-break:break-word; }\<newline>''
      @ ''    a { color:var(--accent); }\<newline>''
      @ ''  </style>\<newline>''
      @ ''</head>\<newline>''
      @ ''<body>\<newline>''
      @ ''  <div class=\"card\">\<newline>''
      @ ''    <div class=\"'' @ status_class @ ''\">'' @ status_icon @ ''</div>\<newline>''
      @ ''    <h1>'' @ title @ ''</h1>\<newline>''
      @ ''    <p>'' @ body_msg @ ''</p>\<newline>''
      @ ''    '' @ err_detail @ ''\<newline>''
      @ ''  </div>\<newline>''
      @ ''  <script>\<newline>''
      @ ''    (function() {\<newline>''
      @ ''      const params = new URLSearchParams(window.location.search);\<newline>''
      @ ''      const provider = params.get('provider') || '' @ apostrophe @ apostrophe @ '';\<newline>''
      @ ''      const status = params.get('status') || 'ok';\<newline>''
      @ ''      const msg = params.get('msg') || '' @ apostrophe @ apostrophe @ '';\<newline>''
      @ ''      try {\<newline>''
      @ ''        if (window.opener && !window.opener.closed) {\<newline>''
      @ ''          window.opener.postMessage(\<newline>''
      @ ''            { type: 'oauth_complete', provider, status, msg },\<newline>''
      @ ''            window.location.origin\<newline>''
      @ ''          );\<newline>''
      @ ''          setTimeout(() => { try { window.close(); } catch(_) {} }, 250);\<newline>''
      @ ''        } else {\<newline>''
      @ ''          // No opener (user opened the callback URL directly) '' @ em_dash @ ''\<newline>''
      @ ''          // redirect to the providers page after a short pause.\<newline>''
      @ ''          setTimeout(() => {\<newline>''
      @ ''            const qs = new URLSearchParams({\<newline>''
      @ ''              flash: status === 'ok' ? 'oauth_ok' : 'oauth_err',\<newline>''
      @ ''              provider,\<newline>''
      @ ''            });\<newline>''
      @ ''            if (msg) qs.set('msg', msg);\<newline>''
      @ ''            window.location.href = '/ui/providers?' + qs.toString();\<newline>''
      @ ''          }, 1500);\<newline>''
      @ ''        }\<newline>''
      @ ''      } catch(e) {\<newline>''
      @ ''        // postMessage blocked '' @ em_dash @ '' fall through to redirect.\<newline>''
      @ ''        setTimeout(() => {\<newline>''
      @ ''          const qs = new URLSearchParams({ flash: status === 'ok' ? 'oauth_ok' : 'oauth_err', provider });\<newline>''
      @ ''          window.location.href = '/ui/providers?' + qs.toString();\<newline>''
      @ ''        }, 1500);\<newline>''
      @ ''      }\<newline>''
      @ ''    })();\<newline>''
      @ ''  </script>\<newline>''
      @ ''</body>\<newline>''
      @ ''</html>''))"

subsection \<open>What the playground promises\<close>

lemma complete_ignores_key: "complete env (routed\<lparr>ro_key := k\<rparr>) pl x = complete env (routed\<lparr>ro_key := k'\<rparr>) pl x"
  by (simp add: complete_def plan_for_def log_completion_def charge_user_def request_log_of_def attempt_logs_def
      attempt_log_of_def cong: sum.case_cong prod.case_cong)

text \<open>The page says that the header \<open>X-Router-Key\<close> swaps in another key: it has no effect, the
  executor resolves the key of the provider again.\<close>

theorem playground_ignores_router_key:
  "playground_send env elapsed hs form pl x = playground_send env elapsed hs' form pl x"
proof -
  have drop: "complete env (routed\<lparr>ro_key := (case h of None \<Rightarrow> a | Some k \<Rightarrow> if k \<noteq> [] then k else a)\<rparr>) pl x
      = complete env (routed\<lparr>ro_key := a\<rparr>) pl x" for routed h a pl and x :: 'a
    by (rule complete_ignores_key)
  show ?thesis unfolding playground_send_def Let_def drop ..
qed

lemma complete_without_user:
  assumes "ro_user_id routed = None"
  shows "pl_db (fst (snd (complete env routed pl x))) = pl_db pl"
  using assms by (auto simp: complete_def log_completion_def charge_user_def Let_def split: prod.split sum.split)

text \<open>A message sent from the playground is charged to nobody and passes no budget: the usage of every
  account stays as it is, whatever the call costs.\<close>

theorem playground_charges_nobody:
  "pl_db (fst (snd (playground_send env elapsed hs form pl x))) = pl_db pl"
proof -
  have routed: "ro_user_id (playground_routed env form pm\<lparr>ro_key := k\<rparr>) = None" for pm k
    by (simp add: playground_routed_def Let_def)
  show ?thesis
  proof (cases "playground_route (pf_model form) pl")
    case Inl
    then show ?thesis by (simp add: playground_send_def)
  next
    case (Inr pm)
    obtain a ks where res: "resolve (pe_crypto env) (pe_var env) (pl_master pl) (fst pm)
        (provider_key (pl_config pl) (fst pm)) (oa_keys (pl_oauth pl)) = (a, ks)" by (rule prod.exhaust)
    let ?key = "case hs ''x-router-key'' of None \<Rightarrow> a | Some k \<Rightarrow> if k \<noteq> [] then k else a"
    obtain r pl2 x' where run: "complete env (playground_routed env form pm\<lparr>ro_key := ?key\<rparr>)
        (pl\<lparr>pl_oauth := (pl_oauth pl)\<lparr>oa_keys := ks\<rparr>\<rparr>) x = (r, pl2, x')" by (rule prod_cases3)
    have "pl_db pl2 = pl_db (pl\<lparr>pl_oauth := (pl_oauth pl)\<lparr>oa_keys := ks\<rparr>\<rparr>)"
      using complete_without_user [OF routed [where pm = pm and k = ?key], where pl = "pl\<lparr>pl_oauth := (pl_oauth pl)\<lparr>oa_keys := ks\<rparr>\<rparr>" and env = env and x = x]
      unfolding run fst_conv snd_conv .
    then have db: "pl_db pl2 = pl_db pl" by simp
    have "playground_send env elapsed hs form pl x = ((case r of Inr r \<Rightarrow> playground_answer elapsed r
        | Inl e \<Rightarrow> playground_error (''error: '' @ error_to_string e)), pl2, x')"
      unfolding playground_send_def Let_def Inr sum.case res prod.case run by (cases r) (simp_all only: sum.case)
    with db show ?thesis by (simp only: fst_conv snd_conv)
  qed
qed

text \<open>The page offers the id of a provider as the model. Sent back, the id is no model reference and no
  tier, so the playground answers \<open>unknown model ref\<close> and calls nobody.\<close>

theorem playground_refuses_its_options:
  assumes "p \<in> set (providers (app_config ap))" and "pc_default_model p = Some m"
    and "split_once (CHR ''/'') (pc_id p) = None" and "tier_parse (pc_id p) = None"
    and "map_of (tiers (pl_config pl)) (pc_id p) = None"
  shows "contains (render_model_options (providers (app_config ap))) (''<option value=\"'' @ pc_id p @ ''\">'')
     \<and> playground_send env elapsed hs (form\<lparr>pf_model := pc_id p\<rparr>) pl x
       = (playground_error (''unknown model ref: '' @ pc_id p), pl, x)"
proof (rule conjI)
  obtain before after where ps: "providers (app_config ap) = before @ p # after" using assms(1) split_list by metis
  have opt: "contains (model_option p) (''<option value=\"'' @ pc_id p @ ''\">'')"
    unfolding contains_iff model_option_def assms(2) option.case
    by (rule exI[where x = "[]"]) simp
  have out: "contains (concat (map model_option (providers (app_config ap)))) (model_option p)"
    unfolding ps map_append concat_append list.map concat.simps by (rule contains_right, rule contains_here)
  have some: "concat (map model_option (providers (app_config ap))) \<noteq> []"
  proof (rule notI)
    assume "concat (map model_option (providers (app_config ap))) = []"
    with contains_trans[OF out opt] show False by simp
  qed
  show "contains (render_model_options (providers (app_config ap))) (''<option value=\"'' @ pc_id p @ ''\">'')"
    unfolding render_model_options_def Let_def if_not_P[OF some] by (rule contains_trans[OF out opt])
  show "playground_send env elapsed hs (form\<lparr>pf_model := pc_id p\<rparr>) pl x
       = (playground_error (''unknown model ref: '' @ pc_id p), pl, x)"
    by (simp add: playground_send_def playground_route_def assms opt_or_def Let_def)
qed

theorem playground_refuses_its_options_witness:
  "contains (render_model_options (providers (app_config (demo_app (config_default\<lparr>providers := [demo_provider]\<rparr>)))))
       (''<option value=\"'' @ pc_id demo_provider @ ''\">'')
   \<and> (\<forall>form. playground_send pipe_env 5 (\<lambda>_. None) (form\<lparr>pf_model := pc_id demo_provider\<rparr>) demo_pipeline 0
       = (playground_error (''unknown model ref: '' @ pc_id demo_provider), demo_pipeline, 0))"
proof -
  have "demo_provider \<in> set (providers (app_config (demo_app (config_default\<lparr>providers := [demo_provider]\<rparr>))))"
    by simp
  note offer = playground_refuses_its_options [OF this, where pl = demo_pipeline and hs = "\<lambda>_. None" and env = pipe_env
      and elapsed = 5 and x = 0]
  show ?thesis using offer by (simp add: demo_provider_def demo_pipeline_def tier_parse_def)
qed

end
