(* ===== verification/Telemetry.thy ===== *)
theory Telemetry
  imports Background
begin

section \<open>Telemetry and the event stream\<close>

text \<open>
  \<open>src/telemetry.rs\<close> and the stream of \<open>src/server/events.rs\<close>. The exporter library is the argument
  \<open>build\<close>: the tracer provider for an address, if there is one. The broadcast channel is seen through
  what a receiver gets from it: a payload, a notice that it fell behind, or the end.
\<close>

definition telemetry_init :: "(string \<Rightarrow> string option) \<Rightarrow> (string \<Rightarrow> 'p option) \<Rightarrow> 'p option" where
  "telemetry_init var build =
     Option.bind (Option.bind (var ''OTEL_EXPORTER_OTLP_ENDPOINT'') (\<lambda>s. if s \<noteq> [] then Some s else None)) build"

definition telemetry_enabled :: "'p option \<Rightarrow> bool" where
  "telemetry_enabled provider \<longleftrightarrow> provider \<noteq> None"

text \<open>The provider that is told to flush.\<close>

definition telemetry_shutdown :: "'p option \<Rightarrow> 'p list" where
  "telemetry_shutdown provider = (case provider of None \<Rightarrow> [] | Some p \<Rightarrow> [p])"

lemma telemetry_enabled_iff:
  "telemetry_enabled (telemetry_init var build) \<longleftrightarrow>
     (\<exists>ep p. var ''OTEL_EXPORTER_OTLP_ENDPOINT'' = Some ep \<and> ep \<noteq> [] \<and> build ep = Some p)"
  by (auto simp: telemetry_enabled_def telemetry_init_def bind_eq_Some_conv split: if_split_asm)

subsection \<open>The event stream\<close>

datatype Recv = Received json | Lagged nat | Closed

text \<open>What the stream sends for what it receives, until the list ends or the channel is closed.\<close>

fun sse_events :: "(json \<Rightarrow> string) \<Rightarrow> Recv list \<Rightarrow> SseEvent list" where
  "sse_events show_json [] = []"
| "sse_events show_json (Received payload # rs) = sse_of_payload show_json payload # sse_events show_json rs"
| "sse_events show_json (Lagged n # rs) = sse_events show_json rs"
| "sse_events show_json (Closed # rs) = []"

text \<open>Falling behind loses payloads and neither ends nor reorders the stream.\<close>

lemma sse_events_sent:
  "Closed \<notin> set rs \<Longrightarrow> sse_events show_json rs = map (sse_of_payload show_json) (concat (map (\<lambda>r. case r of Received p \<Rightarrow> [p] | _ \<Rightarrow> []) rs))"
  by (induction show_json rs rule: sse_events.induct) simp_all

end
