(* ===== verification/Server.thy ===== *)
theory Server
  imports Routes Telemetry Wizard Playground
begin

section \<open>The whole server\<close>

text \<open>
  \<open>src/server/router.rs\<close>, \<open>build_router\<close>: what a request does to the shared state, from the
  authentication over the rate limiter and the route table to the handler. An \<open>Endpoint\<close> is a handler
  with the typed arguments its extractors deliver; \<open>dispatch\<close> runs it on the state every handler
  shares. The extractors are library code: \<open>sy_extract\<close> gives the rejection or the arguments of the
  handler a route names. Every request has an environment of its own (clock, random values, answers of
  the network); \<open>'x\<close> is the world of the provider calls.
\<close>

datatype Endpoint =
    ChatCompletions headers json
  | MessagesPassthrough json
  | ResponsesPassthrough json
  | ImageGenerations json
  | AudioSpeech json
  | VideoGenerations json
  | ListAllModels
  | HealthCheck
  | Healthz
  | PublicStats
  | SseEvents
  | Admin AdminOp
  | ReloadConfig
  | SyncPricing
  | ListPricing
  | ListProviderTypes
  | ValidateProviderType json
  | Index
  | Dashboard
  | ProvidersPage
  | WizardStep1
  | WizardStep2 "(string \<times> string) list"
  | OAuthDone "(string \<times> string) list"
  | ProvidersPartial
  | TiersPage
  | LogsPage
  | RulesPage
  | PlaygroundPage
  | PlaygroundSend headers PlaygroundForm
  | UsersPage
  | AccountPage
  | PricingPage
  | StyleSheet
  | LoginPage
  | SetupPage
  | SetupSubmit headers LoginReq
  | UiRemoveProvider string
  | Login headers LoginReq
  | Logout
  | Me
  | ListOwnKeys
  | CreateOwnKey json
  | DeleteOwnKey string
  | MyUsage
  | RotatePassword RotatePasswordReq
  | ListUsers
  | CreateUser CreateUserReq
  | DeleteUser string
  | AdminCreateKey string AdminCreateKeyReq

text \<open>The handler of an endpoint, by the name \<open>build_router\<close> gives it.\<close>

fun admin_handler :: "AdminOp \<Rightarrow> string" where
  "admin_handler (AddProvider p) = ''add_provider''"
| "admin_handler (RemoveProvider i) = ''remove_provider''"
| "admin_handler (UpdateTier t b) = ''update_tier''"
| "admin_handler SaveConfig = ''save_config''"
| "admin_handler (AddRule b) = ''add_rule''"
| "admin_handler (DeleteRule i) = ''delete_rule''"
| "admin_handler (SetKey p k) = ''set_key''"
| "admin_handler (DeleteKey p) = ''delete_key''"
| "admin_handler (SetOAuthRefresh p k) = ''set_oauth_refresh''"
| "admin_handler (StartOAuth p b) = ''start_oauth''"
| "admin_handler (OAuthCallback p ps) = ''oauth_callback''"
| "admin_handler (StartDevice p) = ''start_device_oauth''"
| "admin_handler (PasteCode p b) = ''paste_anthropic_code''"
| "admin_handler (SetupOAuth p b) = ''setup_oauth_via_cli''"
| "admin_handler (PollDevice b) = ''poll_device_oauth''"
| "admin_handler (ListModels p) = ''list_provider_models''"
| "admin_handler (TestProvider hs p) = ''test_provider''"

fun handler_of :: "Endpoint \<Rightarrow> string" where
  "handler_of (ChatCompletions hs b) = ''chat_completions''"
| "handler_of (MessagesPassthrough b) = ''messages_passthrough''"
| "handler_of (ResponsesPassthrough b) = ''responses_passthrough''"
| "handler_of (ImageGenerations b) = ''image_generations''"
| "handler_of (AudioSpeech b) = ''audio_speech''"
| "handler_of (VideoGenerations b) = ''video_generations''"
| "handler_of ListAllModels = ''list_models''"
| "handler_of HealthCheck = ''health''"
| "handler_of Healthz = ''healthz''"
| "handler_of PublicStats = ''public_stats''"
| "handler_of SseEvents = ''sse_events''"
| "handler_of (Admin op) = admin_handler op"
| "handler_of ReloadConfig = ''reload_config''"
| "handler_of SyncPricing = ''sync_pricing_now''"
| "handler_of ListPricing = ''list_pricing''"
| "handler_of ListProviderTypes = ''list_provider_types''"
| "handler_of (ValidateProviderType b) = ''validate_provider_type''"
| "handler_of Index = ''index''"
| "handler_of Dashboard = ''dashboard''"
| "handler_of ProvidersPage = ''providers_page''"
| "handler_of WizardStep1 = ''providers_new_step1''"
| "handler_of (WizardStep2 q) = ''providers_new_step2''"
| "handler_of (OAuthDone q) = ''oauth_done_page''"
| "handler_of ProvidersPartial = ''providers_partial''"
| "handler_of TiersPage = ''tiers_page''"
| "handler_of LogsPage = ''logs_page''"
| "handler_of RulesPage = ''rules_page''"
| "handler_of PlaygroundPage = ''playground_page''"
| "handler_of (PlaygroundSend hs f) = ''playground_send''"
| "handler_of UsersPage = ''users_page''"
| "handler_of AccountPage = ''account_page''"
| "handler_of PricingPage = ''pricing_page''"
| "handler_of StyleSheet = ''ui_style''"
| "handler_of LoginPage = ''login_page''"
| "handler_of SetupPage = ''setup_page''"
| "handler_of (SetupSubmit hs b) = ''setup_submit''"
| "handler_of (UiRemoveProvider i) = ''ui_remove_provider''"
| "handler_of (Login hs b) = ''login''"
| "handler_of Logout = ''logout''"
| "handler_of Me = ''me''"
| "handler_of ListOwnKeys = ''list_own_keys''"
| "handler_of (CreateOwnKey b) = ''create_own_key''"
| "handler_of (DeleteOwnKey i) = ''delete_own_key''"
| "handler_of MyUsage = ''my_usage''"
| "handler_of (RotatePassword b) = ''rotate_password''"
| "handler_of ListUsers = ''list_users''"
| "handler_of (CreateUser b) = ''create_user''"
| "handler_of (DeleteUser i) = ''delete_user''"
| "handler_of (AdminCreateKey i b) = ''admin_create_key''"

record 'x ServerEnv =
  sy_admin :: AdminEnv
  sy_account :: AccountEnv
  sy_chat :: "'x ChatEnv"
  sy_proxy :: ProxyEnv
  sy_ui :: UiEnv
  sy_rates :: "instant \<times> instant \<times> instant"
  sy_extract :: "string \<Rightarrow> string list \<Rightarrow> HttpResponse + Endpoint"
  sy_price :: "string \<Rightarrow> f64 option"
  sy_catalog :: "string \<Rightarrow> string + OpenRouterModel list"
  sy_logs :: "string + LogDb"
  sy_models :: "(string \<times> string) list option"
  sy_events :: "Recv list"
  sy_show :: "json \<Rightarrow> string"
  sy_day :: string
  sy_since :: string
  sy_session :: string
  sy_elapsed :: nat

subsection \<open>Running a handler\<close>

text \<open>Handlers that use the pipeline, and those that use the user tables.\<close>

definition on_pipe :: "('a \<times> Pipeline) \<Rightarrow> App \<Rightarrow> 'a \<times> App" where
  "on_pipe r ap = (fst r, ap\<lparr>app_pipe := snd r\<rparr>)"

definition on_users :: "(UserDb \<Rightarrow> 'a \<times> UserDb) \<Rightarrow> App \<Rightarrow> 'a \<times> App" where
  "on_users f ap = (case f (pl_db (app_pipe ap)) of (r, db) \<Rightarrow> (r, ap\<lparr>app_pipe := (app_pipe ap)\<lparr>pl_db := db\<rparr>\<rparr>))"

definition answer :: "'x \<Rightarrow> HttpResponse \<times> App \<Rightarrow> ChatOutcome \<times> App \<times> 'x" where
  "answer x r = (Answered (fst r), snd r, x)"

definition show_page :: "App \<Rightarrow> 'x \<Rightarrow> HttpResponse \<Rightarrow> ChatOutcome \<times> App \<times> 'x" where
  "show_page ap x r = (Answered r, ap, x)"

fun dispatch :: "'x ServerEnv \<Rightarrow> UserContext \<Rightarrow> Endpoint \<Rightarrow> App \<Rightarrow> 'x \<Rightarrow> ChatOutcome \<times> App \<times> 'x" where
  "dispatch env user (ChatCompletions hs b) ap x =
     (case chat_completions (sy_chat env) hs user b (app_pipe ap) x of (r, pl, x') \<Rightarrow> (r, ap\<lparr>app_pipe := pl\<rparr>, x'))"
| "dispatch env user (PlaygroundSend hs form) ap x =
     (case playground_send (ce_pipe (sy_chat env)) (sy_elapsed env) hs form (app_pipe ap) x of
        (r, pl, x') \<Rightarrow> (Answered r, ap\<lparr>app_pipe := pl\<rparr>, x'))"
| "dispatch env user (MessagesPassthrough b) ap x = answer x (on_pipe (messages_passthrough (sy_proxy env) b (app_pipe ap)) ap)"
| "dispatch env user (ResponsesPassthrough b) ap x = answer x (on_pipe (responses_passthrough (sy_proxy env) b (app_pipe ap)) ap)"
| "dispatch env user (ImageGenerations b) ap x = answer x (on_pipe (image_generations (sy_proxy env) b (app_pipe ap)) ap)"
| "dispatch env user (AudioSpeech b) ap x = answer x (on_pipe (audio_speech (sy_proxy env) b (app_pipe ap)) ap)"
| "dispatch env user (VideoGenerations b) ap x = answer x (on_pipe (video_generations (sy_proxy env) b (app_pipe ap)) ap)"
| "dispatch env user (Admin op) ap x = answer x (admin_op (sy_admin env) op ap)"
| "dispatch env user (UiRemoveProvider i) ap x = answer x (ui_remove_provider (sy_admin env) i ap)"
| "dispatch env user ReloadConfig ap x = answer x (reload_config (sy_admin env) ap)"
| "dispatch env user SyncPricing ap x = answer x (sync_pricing_now (sy_price env) (sy_catalog env) ap)"
| "dispatch env user (Login hs b) ap x = answer x (on_users (login (sy_account env) hs b) ap)"
| "dispatch env user (SetupSubmit hs b) ap x = answer x (on_users (setup_submit (sy_account env) (sy_session env) hs b) ap)"
| "dispatch env user Logout ap x = answer x (on_users (logout user) ap)"
| "dispatch env user (CreateOwnKey b) ap x = answer x (on_users (create_own_key (sy_account env) user b) ap)"
| "dispatch env user (DeleteOwnKey i) ap x = answer x (on_users (delete_own_key (sy_account env) i user) ap)"
| "dispatch env user (RotatePassword b) ap x = answer x (on_users (rotate_password (sy_account env) user b) ap)"
| "dispatch env user (CreateUser b) ap x = answer x (on_users (create_user_endpoint (sy_account env) user b) ap)"
| "dispatch env user (DeleteUser i) ap x = answer x (on_users (delete_user_endpoint i user) ap)"
| "dispatch env user (AdminCreateKey i b) ap x = answer x (on_users (admin_create_key (sy_account env) i user b) ap)"
| "dispatch env user ListAllModels ap x = show_page ap x (models_endpoint (sy_models env) (app_pipe ap))"
| "dispatch env user HealthCheck ap x = show_page ap x health_body"
| "dispatch env user Healthz ap x = show_page ap x health_body"
| "dispatch env user PublicStats ap x = show_page ap x (public_stats (sy_day env) (app_pipe ap))"
| "dispatch env user SseEvents ap x = (Streamed [] (sse_events (sy_show env) (sy_events env)) False, ap, x)"
| "dispatch env user ListPricing ap x = show_page ap x (list_pricing ap)"
| "dispatch env user ListProviderTypes ap x = show_page ap x list_provider_types"
| "dispatch env user (ValidateProviderType b) ap x = show_page ap x (validate_provider_type b)"
| "dispatch env user Index ap x = show_page ap x index"
| "dispatch env user Dashboard ap x = show_page ap x (dashboard (sy_ui env) ap)"
| "dispatch env user ProvidersPage ap x = show_page ap x (providers_page (sy_ui env) ap)"
| "dispatch env user WizardStep1 ap x = show_page ap x providers_new_step1"
| "dispatch env user (WizardStep2 q) ap x = show_page ap x (providers_new_step2 q)"
| "dispatch env user (OAuthDone q) ap x = show_page ap x (oauth_done_page q)"
| "dispatch env user ProvidersPartial ap x = show_page ap x (providers_partial ap)"
| "dispatch env user TiersPage ap x = show_page ap x (tiers_page (sy_ui env) ap)"
| "dispatch env user LogsPage ap x = show_page ap x (logs_page (sy_ui env) (sy_logs env))"
| "dispatch env user RulesPage ap x = show_page ap x (rules_page (sy_ui env) ap)"
| "dispatch env user PlaygroundPage ap x = show_page ap x (playground_page ap)"
| "dispatch env user UsersPage ap x = show_page ap x
     (users_page (sy_ui env) (ae_rd (ac_auth (sy_account env))) user (pl_db (app_pipe ap)))"
| "dispatch env user AccountPage ap x = show_page ap x
     (account_page (sy_ui env) (ae_rd (ac_auth (sy_account env))) (sy_day env) user (pl_db (app_pipe ap)))"
| "dispatch env user PricingPage ap x = show_page ap x (pricing_page (sy_ui env) (pl_pricing (app_pipe ap)))"
| "dispatch env user StyleSheet ap x = show_page ap x ui_style"
| "dispatch env user LoginPage ap x = show_page ap x (login_page (ae_rd (ac_auth (sy_account env))) (pl_db (app_pipe ap)))"
| "dispatch env user SetupPage ap x = show_page ap x (setup_page (ae_rd (ac_auth (sy_account env))) (pl_db (app_pipe ap)))"
| "dispatch env user Me ap x = show_page ap x (me user)"
| "dispatch env user ListOwnKeys ap x = show_page ap x (list_own_keys (sy_account env) user (pl_db (app_pipe ap)))"
| "dispatch env user MyUsage ap x = show_page ap x (my_usage (sy_day env) (sy_since env) user (pl_db (app_pipe ap)))"
| "dispatch env user ListUsers ap x = show_page ap x (list_users_endpoint (sy_account env) user (pl_db (app_pipe ap)))"

subsection \<open>Serving a request\<close>

definition empty_reply :: "u16 \<Rightarrow> HttpResponse" where
  "empty_reply s = \<lparr>hr_status = s, hr_headers = [], hr_body = None\<rparr>"

definition run_route :: "'x ServerEnv \<Rightarrow> UserContext \<Rightarrow> Routed \<Rightarrow> App \<Rightarrow> 'x \<Rightarrow> ChatOutcome \<times> App \<times> 'x" where
  "run_route env user routed ap x = (case routed of
      NoRoute \<Rightarrow> show_page ap x (empty_reply 404)
    | MethodNotAllowed \<Rightarrow> show_page ap x (empty_reply 405)
    | Handler h ps \<Rightarrow> (case sy_extract env h ps of
          Inl rejection \<Rightarrow> show_page ap x rejection
        | Inr e \<Rightarrow> dispatch env user e ap x))"

definition handle :: "routing \<Rightarrow> 'x ServerEnv \<Rightarrow> HttpRequest \<Rightarrow> App \<Rightarrow> 'x \<Rightarrow> ChatOutcome \<times> App \<times> 'x" where
  "handle rt env rq ap x =
     (case sy_rates env of (t1, t2, t3) \<Rightarrow>
       (case serve rt (ac_auth (sy_account env)) (app_config ap) t1 t2 t3 rq (pl_db (app_pipe ap), app_limiter ap) of
          (served, db, l) \<Rightarrow>
            (let ap' = ap\<lparr>app_pipe := (app_pipe ap)\<lparr>pl_db := db\<rparr>, app_limiter := l\<rparr> in
             case served of
               Refused r \<Rightarrow> show_page ap' x r
             | Limited r \<Rightarrow> show_page ap' x r
             | Reached user routed \<Rightarrow> run_route env user routed ap' x)))"

subsection \<open>What a caller without credential reaches\<close>

definition public_paths :: "string list" where
  "public_paths = [''/health'', ''/v1/health'', ''/ui/style.css'', ''/v1/stats'', ''/ui/login'', ''/ui/login.html'',
     ''/ui/setup'', ''/v1/provider-types'', ''/admin/oauth/callback'', ''/admin/healthz'']"

lemma is_public_path_iff: "is_public_path p \<longleftrightarrow> p \<in> set public_paths"
  by (simp add: is_public_path_def public_paths_def)

text \<open>A pattern all of whose paths are guarded, read off the pattern.\<close>

definition guarded_area :: "string list \<Rightarrow> bool" where
  "guarded_area ss = (case ss of
      e # a # _ # _ \<Rightarrow> e = [] \<and> (a = ''v1'' \<or> a = ''ui'' \<or> a = ''admin'')
    | _ \<Rightarrow> False)"

definition closed_pattern :: "string \<times> methods \<Rightarrow> bool" where
  "closed_pattern r = (guarded_area (segments (fst r)) \<and> list_all (\<lambda>p. match_path (fst r) p = None) public_paths
     \<and> map_of (snd r) ''OPTIONS'' = None)"

definition open_handlers :: "string list" where
  "open_handlers = [''health'', ''index'', ''ui_style'', ''login_page'', ''setup_page'', ''setup_submit'', ''login'', ''logout'',
     ''me'', ''list_own_keys'', ''create_own_key'', ''delete_own_key'', ''my_usage'', ''public_stats'', ''healthz'', ''sse_events'']"

lemma route_table_closed:
  "list_all (\<lambda>r. closed_pattern r \<or> list_all (\<lambda>h. h \<in> set open_handlers) (map snd (snd r))) route_table"
  by code_simp

lemma split_on_Cons2: "split_on d s = a # b # r \<Longrightarrow> \<exists>t. s = a @ d # t \<and> split_on d t = b # r"
proof (induction s arbitrary: a)
  case (Cons c s)
  show ?case
  proof (cases "c = d")
    case True
    with Cons.prems show ?thesis by auto
  next
    case False
    with Cons.prems obtain a' where a: "split_on d s = a' # b # r" "a = c # a'" by (auto split: list.split_asm)
    from Cons.IH [OF a(1)] a(2) show ?thesis by auto
  qed
qed simp

lemma match_guarded_area: "match_segments ps ss = Some xs \<Longrightarrow> guarded_area ps \<Longrightarrow> guarded_area ss"
  by (induction ps ss rule: match_segments.induct)
    (auto simp: guarded_area_def split: list.split_asm list.split if_split_asm option.split_asm)

lemma guarded_area_path:
  assumes "guarded_area (segments path)"
  shows "starts_with path ''/v1/'' \<or> starts_with path ''/ui/'' \<or> starts_with path ''/admin/''"
proof -
  obtain a b r where s: "split_on (CHR ''/'') path = [] # a # b # r" "a = ''v1'' \<or> a = ''ui'' \<or> a = ''admin''"
    using assms by (auto simp: guarded_area_def segments_def split: list.split_asm)
  from split_on_Cons2 [OF s(1)] obtain t where t: "path = CHR ''/'' # t" "split_on (CHR ''/'') t = a # b # r" by auto
  from split_on_Cons2 [OF t(2)] obtain u where "path = CHR ''/'' # a @ CHR ''/'' # u" using t(1) by auto
  with s(2) show ?thesis by auto
qed

lemma find_route_Some: "find_route table path = Some (ms, ps) \<Longrightarrow> \<exists>p. (p, ms) \<in> set table \<and> match_path p path = Some ps"
  by (induction table path rule: find_route.induct) (auto split: option.split_asm)

text \<open>The router sends a request without guard to one of the open handlers.\<close>

lemma open_routes:
  assumes "plain_routing route_table (rq_method rq) (rq_path rq) = Handler h ps" and "\<not> guarded rq"
  shows "h \<in> set open_handlers"
proof -
  let ?m = "if rq_method rq = ''HEAD'' then ''GET'' else rq_method rq"
  obtain ms where ms: "find_route route_table (rq_path rq) = Some (ms, ps)" "map_of ms ?m = Some h"
    using assms(1) by (auto simp: plain_routing_def split: option.split_asm)
  from find_route_Some [OF ms(1)] obtain p where p: "(p, ms) \<in> set route_table" "match_path p (rq_path rq) = Some ps" by blast
  have "\<not> closed_pattern (p, ms)"
  proof
    assume c: "closed_pattern (p, ms)"
    then have "guarded_area (segments (rq_path rq))"
      using match_guarded_area p(2) by (auto simp: closed_pattern_def match_path_def)
    note area = guarded_area_path [OF this]
    have "rq_path rq \<notin> set public_paths" using c p(2) by (auto simp: closed_pattern_def list_all_iff)
    moreover have "rq_method rq \<noteq> ''OPTIONS''" using c ms(2) by (auto simp: closed_pattern_def)
    ultimately show False using area assms(2) unfolding guarded_def is_public_path_iff Let_def by blast
  qed
  with route_table_closed p(1) have "list_all (\<lambda>h. h \<in> set open_handlers) (map snd ms)"
    unfolding list_all_iff by (metis snd_conv)
  moreover have "h \<in> snd ` set ms" using map_of_SomeD [OF ms(2)] by force
  ultimately show ?thesis by (fastforce simp: list_all_iff)
qed

lemma open_endpoint_cases:
  assumes "handler_of e \<in> set open_handlers"
  shows "e \<in> {HealthCheck, Healthz, Index, StyleSheet, LoginPage, SetupPage, Logout, Me, ListOwnKeys, MyUsage, PublicStats, SseEvents}
     \<or> (\<exists>hs b. e = SetupSubmit hs b) \<or> (\<exists>hs b. e = Login hs b) \<or> (\<exists>b. e = CreateOwnKey b) \<or> (\<exists>i. e = DeleteOwnKey i)"
proof (cases e)
  case (Admin op)
  with assms show ?thesis by (cases op) (simp_all add: open_handlers_def)
qed (use assms in \<open>simp_all add: open_handlers_def\<close>)

lemma on_users_same: "snd (f (pl_db (app_pipe ap))) = pl_db (app_pipe ap) \<Longrightarrow> snd (on_users f ap) = ap"
  by (auto simp: on_users_def split: prod.split)

lemma login_unproven:
  assumes "\<nexists>u. proves env body db u"
  shows "snd (login env hs body db) = db"
proof (cases "unwrap_or [] (lr_api_key body) \<noteq> []")
  case True
  then obtain key where key: "lr_api_key body = Some key" "key \<noteq> []" by (cases "lr_api_key body") auto
  with assms have "key_user (ae_sha (ac_auth env)) (ae_rd (ac_auth env)) (ae_ts (ac_auth env)) key db = None"
    by (auto simp: proves_def)
  then have none: "fst (get_user_by_api_key (ae_sha (ac_auth env)) (ae_rd (ac_auth env)) (ae_ts (ac_auth env)) key db) = None"
    by (auto simp: key_user_def)
  show ?thesis using key none get_user_by_api_key_None [OF none]
    by (auto simp: login_def split: prod.split option.split)
next
  case False
  then have "login env hs body db = password_login env hs body db" by (auto simp: login_def split: option.split)
  moreover have "snd (password_login env hs body db) = db"
    using assms False unfolding proves_def
    by (auto simp: password_login_def get_user_by_email_def row_to_user_def split: option.split)
  ultimately show ?thesis by simp
qed

text \<open>The context of a caller without credential, and a user table no such caller is in.\<close>

definition nobody :: "UserDb \<Rightarrow> bool" where
  "nobody db \<longleftrightarrow> db_wf db \<and> db_users db \<noteq> [] \<and> user_row db ''anonymous'' = None"

lemma open_dispatch:
  assumes "handler_of e \<in> set open_handlers" and "nobody (pl_db (app_pipe ap))"
    and "\<And>hs b u. e = Login hs b \<Longrightarrow> \<not> proves (sy_account env) b (pl_db (app_pipe ap)) u"
  shows "snd (dispatch env (anonymous_ctx via) e ap x) = (ap, x)"
proof -
  let ?db = "pl_db (app_pipe ap)"
  have wf: "db_wf ?db" and some: "db_users ?db \<noteq> []" and row: "user_row ?db ''anonymous'' = None"
    using assms(2) by (simp_all add: nobody_def)
  have a: "snd (answer x (on_users f ap)) = (ap, x)" if "snd (f ?db) = ?db" for f :: "UserDb \<Rightarrow> HttpResponse \<times> UserDb"
    using on_users_same [of f ap] that by (simp add: answer_def)
  from open_endpoint_cases [OF assms(1)] show ?thesis
  proof (elim disjE exE)
    fix hs b assume e: "e = SetupSubmit hs b"
    have "list_users rd ?db \<noteq> []" for rd
      unfolding list_users_def map_is_Nil_conv using some by (metis length_0_conv length_sort)
    then show ?thesis unfolding e dispatch.simps by (intro a) (simp add: setup_submit_def)
  next
    fix hs b assume e: "e = Login hs b"
    show ?thesis unfolding e dispatch.simps by (intro a login_unproven) (use assms(3) e in blast)
  next
    fix b assume e: "e = CreateOwnKey b"
    show ?thesis unfolding e dispatch.simps
      by (intro a) (auto simp: create_own_key_def issue_key_def create_api_key_def row anonymous_ctx_def Let_def)
  next
    fix i assume e: "e = DeleteOwnKey i"
    have "''anonymous'' \<notin> kr_user_id ` set (db_api_keys ?db)"
      using wf row by (auto simp: db_wf_def user_row_def find_None_iff)
    then have "filter (\<lambda>r. kr_user_id r = ''anonymous'') (db_api_keys ?db) = []"
      unfolding filter_empty_conv by (metis imageI)
    then have "list_api_keys rd ''anonymous'' ?db = []" for rd by (simp add: list_api_keys_def)
    then show ?thesis unfolding e dispatch.simps by (intro a) (simp add: delete_own_key_def anonymous_ctx_def)
  next
    assume "e \<in> {HealthCheck, Healthz, Index, StyleSheet, LoginPage, SetupPage, Logout, Me, ListOwnKeys, MyUsage, PublicStats, SseEvents}"
    moreover have "snd (logout (anonymous_ctx via) ?db) = ?db" by (simp add: logout_def anonymous_ctx_def)
    note a [of "logout (anonymous_ctx via)", OF this]
    ultimately show ?thesis by (auto simp: show_page_def)
  qed
qed

lemma outsider_auth:
  assumes "\<nexists>ctx. valid_credential e cfg rq db ctx"
  shows "auth_middleware e cfg rq db = (anonymous_outcome e cfg rq, db)"
proof -
  have a: "fst (auth_middleware e cfg rq db) = anonymous_outcome e cfg rq"
    using auth_middleware_cases [of e cfg rq db] assms by blast
  have k: "try_api_key e (extract_token e rq) db = (None, db)"
    using try_api_key_cases [of e "extract_token e rq" db] assms unfolding valid_credential_def Let_def by blast
  have c: "try_cookies e (request_cookies e rq) db = (None, db)"
    using try_cookies_cases [of e "request_cookies e rq" db] assms unfolding valid_credential_def Let_def by blast
  have "snd (auth_middleware e cfg rq db) = db"
    by (simp add: auth_middleware_def Let_def k c split: option.split)
  with a show ?thesis by (metis prod.collapse)
qed

lemma serve_outsider:
  assumes "au_enabled (auth cfg)" and "\<nexists>ctx. valid_credential e (auth cfg) rq db ctx"
  shows "\<exists>served l'. serve rt e cfg t1 t2 t3 rq (db, l) = (served, db, l')
    \<and> (case served of Reached user routed \<Rightarrow> \<not> guarded rq \<and> routed = rt route_table (rq_method rq) (rq_path rq)
         \<and> (\<exists>via. user = anonymous_ctx via) | _ \<Rightarrow> True)"
proof (cases "anonymous_outcome e (auth cfg) rq")
  case (Respond r)
  with outsider_auth [OF assms(2)] show ?thesis by (simp add: serve_def)
next
  case (Run ctx)
  then have g: "\<not> guarded rq" using anonymous_guarded [OF assms(1), of rq e] by auto
  from Run have v: "\<exists>via. ctx = anonymous_ctx via"
    by (auto simp: anonymous_outcome_def Let_def split: if_split_asm)
  show ?thesis using outsider_auth [OF assms(2)] Run g v
    by (auto simp: serve_def split: prod.split RateDecision.split)
qed

text \<open>What it can change is the limiter: an \<open>OPTIONS\<close> request for the chat completions passes the guard and
  pays from the global bucket, as a request with a credential does.\<close>

lemma preflight_spends:
  assumes "au_enabled (auth cfg)" and "rl_enabled (ratelimit cfg)" and "\<nexists>ctx. valid_credential e (auth cfg) rq db ctx"
    and "rq_method rq = ''OPTIONS''" and "rq_path rq = ''/v1/chat/completions''"
  shows "snd (snd (serve rt e cfg t1 t2 t3 rq (db, l)))
     = snd (try_acquire \<lparr>aq_key = ''anonymous'', aq_global = t1, aq_insert = t2, aq_key_time = t3\<rparr> l)"
proof -
  have run: "anonymous_outcome e (auth cfg) rq = Run (anonymous_ctx ''anonymous'')"
    using assms(1,4,5) by (simp add: anonymous_outcome_def Let_def is_public_path_def)
  have key: "rate_key (Some (uc_key_prefix (anonymous_ctx via), uc_session_id (anonymous_ctx via))) = ''anonymous''" for via
    by (simp add: rate_key_def anonymous_ctx_def)
  have path: "is_rate_limited_path (rq_path rq)" using assms(5) by (simp add: is_rate_limited_path_def)
  obtain r l' where t: "try_acquire \<lparr>aq_key = ''anonymous'', aq_global = t1, aq_insert = t2, aq_key_time = t3\<rparr> l = (r, l')"
    by (rule prod.exhaust)
  show ?thesis
    by (cases r) (simp_all add: serve_def outsider_auth [OF assms(3)] run ratelimit_middleware_def key path assms(2) t)
qed

text \<open>What the extractors hand out belongs to the handler the route names.\<close>

definition extracts :: "'x ServerEnv \<Rightarrow> bool" where
  "extracts env \<longleftrightarrow> (\<forall>h ps e. sy_extract env h ps = Inr e \<longrightarrow> handler_of e = h)"

text \<open>The request is a login with the credential of a user.\<close>

definition logs_in :: "'x ServerEnv \<Rightarrow> HttpRequest \<Rightarrow> UserDb \<Rightarrow> bool" where
  "logs_in env rq db \<longleftrightarrow> (\<exists>ps hs b u. plain_routing route_table (rq_method rq) (rq_path rq) = Handler ''login'' ps
     \<and> sy_extract env ''login'' ps = Inr (Login hs b) \<and> proves (sy_account env) b db u)"

text \<open>C4. With authentication on and an account set up, a caller without credential changes nothing: whatever
  the method, the path and the body, the configuration, the file, the registry, keys, prices, accounts,
  usage and pending log entries stay as they are and no provider is called. Only a login that proves to
  be a user gets past that, and the buckets of the rate limiter may be charged.\<close>

theorem outsider_changes_nothing:
  assumes "au_enabled (auth (app_config ap))"
    and "\<nexists>ctx. valid_credential (ac_auth (sy_account env)) (auth (app_config ap)) rq (pl_db (app_pipe ap)) ctx"
    and "nobody (pl_db (app_pipe ap))" and "extracts env" and "\<not> logs_in env rq (pl_db (app_pipe ap))"
  shows "\<exists>reply l. handle plain_routing env rq ap x = (reply, ap\<lparr>app_limiter := l\<rparr>, x)"
proof -
  obtain t1 t2 t3 where t: "sy_rates env = (t1, t2, t3)" by (rule prod_cases3)
  from serve_outsider [OF assms(1,2), of plain_routing t1 t2 t3 "app_limiter ap"] obtain served l where
    s: "serve plain_routing (ac_auth (sy_account env)) (app_config ap) t1 t2 t3 rq (pl_db (app_pipe ap), app_limiter ap)
        = (served, pl_db (app_pipe ap), l)"
    and u: "case served of Reached user routed \<Rightarrow> \<not> guarded rq \<and> routed = plain_routing route_table (rq_method rq) (rq_path rq)
         \<and> (\<exists>via. user = anonymous_ctx via) | _ \<Rightarrow> True" by blast
  let ?ap = "ap\<lparr>app_limiter := l\<rparr>"
  have same: "ap\<lparr>app_pipe := (app_pipe ap)\<lparr>pl_db := pl_db (app_pipe ap)\<rparr>, app_limiter := l\<rparr> = ?ap" by (cases ap) simp
  have h: "handle plain_routing env rq ap x = (case served of Refused r \<Rightarrow> show_page ?ap x r | Limited r \<Rightarrow> show_page ?ap x r
      | Reached user routed \<Rightarrow> run_route env user routed ?ap x)" unfolding handle_def t prod.case s Let_def same ..
  show ?thesis
  proof (cases served)
    case (Reached user routed)
    with u obtain via where r: "\<not> guarded rq" "routed = plain_routing route_table (rq_method rq) (rq_path rq)"
      "user = anonymous_ctx via" by auto
    have "snd (run_route env user routed ?ap x) = (?ap, x)"
    proof (cases routed)
      case (Handler hd ps)
      show ?thesis
      proof (cases "sy_extract env hd ps")
        case (Inr e)
        have name: "handler_of e = hd" using assms(4) Inr by (simp add: extracts_def)
        have reach: "plain_routing route_table (rq_method rq) (rq_path rq) = Handler hd ps" using r(2) Handler by simp
        have "handler_of e \<in> set open_handlers" unfolding name using open_routes [OF reach r(1)] .
        moreover have "\<not> proves (sy_account env) b (pl_db (app_pipe ?ap)) v" if "e = Login hs b" for hs b v
          using assms(5) reach Inr name that unfolding logs_in_def by auto
        moreover have "nobody (pl_db (app_pipe ?ap))" using assms(3) by simp
        ultimately have "snd (dispatch env (anonymous_ctx via) e ?ap x) = (?ap, x)" by (intro open_dispatch) 
        then show ?thesis using Handler Inr r(3) by (simp add: run_route_def)
      qed (simp add: run_route_def Handler show_page_def)
    qed (simp_all add: run_route_def show_page_def)
    then show ?thesis unfolding h Reached Served.case by (metis prod.collapse)
  qed (use h in \<open>auto simp: show_page_def\<close>)
qed

subsection \<open>Concrete requests\<close>

definition demo_form :: LoginReq where
  "demo_form = \<lparr>lr_api_key = None, lr_email = Some ''eve@x.io'', lr_password = Some ''long enough''\<rparr>"

text \<open>Extractors of three handlers; every other body is refused.\<close>

definition demo_extract :: "string \<Rightarrow> string list \<Rightarrow> HttpResponse + Endpoint" where
  "demo_extract h ps =
     (if h = ''delete_user'' then Inr (DeleteUser (concat ps))
      else if h = ''setup_submit'' then Inr (SetupSubmit (\<lambda>_. None) demo_form)
      else if h = ''logout'' then Inr Logout
      else Inl (empty_reply 415))"

definition demo_server :: "nat ServerEnv" where
  "demo_server = \<lparr>sy_admin = demo_admin [], sy_account = demo_account, sy_chat = chat_env demo_inbound, sy_proxy = a_proxy,
     sy_ui = \<lparr>ui_config_path = [], ui_decimals = (\<lambda>_ _. []), ui_date = (\<lambda>_ _. [])\<rparr>, sy_rates = (0, 0, 0),
     sy_extract = demo_extract, sy_price = (\<lambda>_. None), sy_catalog = (\<lambda>_. Inl ''offline''), sy_logs = Inl ''closed'',
     sy_models = None, sy_events = [], sy_show = (\<lambda>_. []), sy_day = ''2026-01-01'', sy_since = ''2025-12-02'',
     sy_session = ''s3'', sy_elapsed = 0\<rparr>"

definition with_users :: "UserDb \<Rightarrow> App \<Rightarrow> App" where
  "with_users db ap = ap\<lparr>app_pipe := (app_pipe ap)\<lparr>pl_db := db\<rparr>\<rparr>"

lemma with_users_parts [simp]:
  "pl_db (app_pipe (with_users db ap)) = db" "app_config (with_users db ap) = app_config ap"
  by (simp_all add: with_users_def)

lemma demo_server_parts [simp]:
  "sy_account demo_server = demo_account" "sy_extract demo_server = demo_extract" "ac_auth demo_account = demo_auth"
  by (simp_all add: demo_server_def demo_account_def)

lemma demo_extracts: "extracts demo_server"
  unfolding extracts_def demo_server_parts demo_extract_def by (auto split: if_split_asm)

definition setup_request :: HttpRequest where "setup_request = bare_request ''POST'' ''/ui/setup''"

lemma setup_route: "plain_routing route_table (rq_method setup_request) (rq_path setup_request) = Handler ''setup_submit'' []"
  unfolding setup_request_def bare_request_def by simp code_simp

lemma no_credential: "\<nexists>ctx. valid_credential demo_auth cfg (bare_request m p) db ctx"
  by (simp add: valid_credential_def extract_token_def request_cookies_def bare_request_def)

theorem outsider_changes_nothing_witness:
  "\<exists>reply l. handle plain_routing demo_server setup_request (with_users demo_accounts (demo_app config_default)) 0
     = (reply, with_users demo_accounts (demo_app config_default)\<lparr>app_limiter := l\<rparr>, 0)"
proof (rule outsider_changes_nothing)
  show "extracts demo_server" by (rule demo_extracts)
  show "au_enabled (auth (app_config (with_users demo_accounts (demo_app config_default))))"
    by (simp add: config_default_def auth_default_def)
  show "nobody (pl_db (app_pipe (with_users demo_accounts (demo_app config_default))))"
    unfolding with_users_parts nobody_def by (simp add: demo_accounts_wf) (simp add: demo_accounts_def user_row_def)
  show "\<not> logs_in demo_server setup_request (pl_db (app_pipe (with_users demo_accounts (demo_app config_default))))"
    by (simp add: logs_in_def setup_route)
  show "\<nexists>ctx. valid_credential (ac_auth (sy_account demo_server)) (auth (app_config (with_users demo_accounts (demo_app config_default))))
      setup_request (pl_db (app_pipe (with_users demo_accounts (demo_app config_default)))) ctx"
    unfolding demo_server_parts setup_request_def by (rule no_credential)
qed

end
