(* ===== verification/Database.thy ===== *)
theory Database
  imports Users
begin

section \<open>The database schema\<close>

text \<open>
  \<open>src/db/mod.rs\<close> and \<open>run_migration\<close> of \<open>src/discovery/mod.rs\<close>: the statements that create and extend
  the tables, as data, and what they do to the catalog of a database file. A statement that fails ends its
  batch; the batch is no transaction, so what came before stays. The single \<open>ALTER TABLE\<close> statements are
  run for their effect and their errors are dropped. The other statements of the program appear with
  the columns they name. SQLite itself (storage, the journal mode, the connection behind its mutex)
  is left out.
\<close>

datatype SqlType = TEXT | INTEGER | REAL | BOOLEAN | DATETIME | BLOB

record Column =
  co_name :: string
  co_type :: SqlType
  co_not_null :: bool
  co_default :: "string option"
  co_unique :: bool
  co_primary :: bool
  co_refs :: "(string \<times> string) option"

record Table =
  ta_columns :: "Column list"
  ta_key :: "string list"

definition col :: "string \<Rightarrow> SqlType \<Rightarrow> Column" where
  "col n t = \<lparr>co_name = n, co_type = t, co_not_null = False, co_default = None, co_unique = False,
     co_primary = False, co_refs = None\<rparr>"

definition not_null :: "Column \<Rightarrow> Column" where "not_null c = c\<lparr>co_not_null := True\<rparr>"
definition unique_col :: "Column \<Rightarrow> Column" where "unique_col c = c\<lparr>co_unique := True\<rparr>"
definition primary_key :: "Column \<Rightarrow> Column" where "primary_key c = c\<lparr>co_primary := True\<rparr>"
definition default_to :: "string \<Rightarrow> Column \<Rightarrow> Column" where "default_to v c = c\<lparr>co_default := Some v\<rparr>"
definition references :: "string \<Rightarrow> string \<Rightarrow> Column \<Rightarrow> Column" where
  "references t k c = c\<lparr>co_refs := Some (t, k)\<rparr>"

subsection \<open>The tables\<close>

definition request_log_table :: Table where
  "request_log_table = \<lparr>ta_columns =
     [primary_key (col ''id'' TEXT),
      default_to ''CURRENT_TIMESTAMP'' (not_null (col ''created_at'' DATETIME)),
      not_null (col ''tier'' TEXT),
      col ''requested_model'' TEXT,
      not_null (col ''routed_model'' TEXT),
      not_null (col ''routed_provider'' TEXT),
      not_null (col ''total_latency_ms'' INTEGER),
      col ''input_tokens'' INTEGER,
      col ''output_tokens'' INTEGER,
      col ''cache_read_tokens'' INTEGER,
      col ''cost_usd'' REAL,
      default_to ''0'' (not_null (col ''truncated'' BOOLEAN)),
      default_to ''0'' (not_null (col ''fallback_count'' INTEGER)),
      default_to ''0'' (not_null (col ''finished'' BOOLEAN)),
      col ''finish_reason'' TEXT,
      col ''client_ip'' TEXT],
     ta_key = []\<rparr>"

definition attempt_log_table :: Table where
  "attempt_log_table = \<lparr>ta_columns =
     [primary_key (col ''id'' INTEGER),
      references ''request_log'' ''id'' (not_null (col ''request_id'' TEXT)),
      not_null (col ''attempt_number'' INTEGER),
      not_null (col ''provider'' TEXT),
      not_null (col ''model'' TEXT),
      not_null (col ''outcome'' TEXT),
      col ''error_code'' TEXT,
      col ''error_message'' TEXT,
      not_null (col ''latency_ms'' INTEGER),
      col ''retry_wait_ms'' INTEGER],
     ta_key = []\<rparr>"

definition provider_health_table :: Table where
  "provider_health_table = \<lparr>ta_columns =
     [primary_key (col ''provider_id'' TEXT),
      default_to ''healthy'' (not_null (col ''status'' TEXT)),
      default_to ''0'' (not_null (col ''consecutive_failures'' INTEGER)),
      col ''last_failure'' DATETIME,
      col ''cooldown_until'' DATETIME,
      default_to ''CURRENT_TIMESTAMP'' (not_null (col ''updated_at'' DATETIME))],
     ta_key = []\<rparr>"

definition provider_credentials_table :: Table where
  "provider_credentials_table = \<lparr>ta_columns =
     [primary_key (col ''provider_id'' TEXT),
      not_null (col ''ciphertext'' BLOB),
      not_null (col ''nonce'' BLOB),
      default_to ''CURRENT_TIMESTAMP'' (not_null (col ''created_at'' DATETIME)),
      default_to ''CURRENT_TIMESTAMP'' (not_null (col ''updated_at'' DATETIME))],
     ta_key = []\<rparr>"

definition oauth_config_table :: Table where
  "oauth_config_table = \<lparr>ta_columns =
     [primary_key (col ''provider_id'' TEXT),
      not_null (col ''token_url'' TEXT),
      not_null (col ''client_id'' TEXT),
      col ''client_secret'' TEXT,
      default_to ''{}'' (not_null (col ''extra_json'' TEXT)),
      default_to ''300'' (not_null (col ''refresh_buffer_secs'' INTEGER))],
     ta_key = []\<rparr>"

definition users_table :: Table where
  "users_table = \<lparr>ta_columns =
     [primary_key (col ''id'' TEXT),
      unique_col (not_null (col ''email'' TEXT)),
      not_null (col ''name'' TEXT),
      col ''password_hash'' TEXT,
      default_to ''user'' (not_null (col ''role'' TEXT)),
      default_to ''{}'' (not_null (col ''metadata'' TEXT)),
      default_to ''CURRENT_TIMESTAMP'' (not_null (col ''created_at'' DATETIME)),
      col ''last_login_at'' DATETIME],
     ta_key = []\<rparr>"

definition api_keys_table :: Table where
  "api_keys_table = \<lparr>ta_columns =
     [primary_key (col ''id'' TEXT),
      references ''users'' ''id'' (not_null (col ''user_id'' TEXT)),
      unique_col (not_null (col ''key_hash'' TEXT)),
      not_null (col ''key_prefix'' TEXT),
      default_to ''default'' (not_null (col ''name'' TEXT)),
      col ''last_used_at'' DATETIME,
      col ''expires_at'' DATETIME,
      default_to ''CURRENT_TIMESTAMP'' (not_null (col ''created_at'' DATETIME)),
      default_to ''0'' (not_null (col ''revoked'' BOOLEAN))],
     ta_key = []\<rparr>"

definition token_usage_table :: Table where
  "token_usage_table = \<lparr>ta_columns =
     [references ''users'' ''id'' (not_null (col ''user_id'' TEXT)),
      not_null (col ''day'' TEXT),
      default_to ''0'' (not_null (col ''input_tokens'' INTEGER)),
      default_to ''0'' (not_null (col ''output_tokens'' INTEGER)),
      default_to ''0'' (not_null (col ''cost_usd'' REAL)),
      default_to ''0'' (not_null (col ''request_count'' INTEGER)),
      default_to ''CURRENT_TIMESTAMP'' (not_null (col ''updated_at'' DATETIME))],
     ta_key = [''user_id'', ''day'']\<rparr>"

definition sessions_table :: Table where
  "sessions_table = \<lparr>ta_columns =
     [primary_key (col ''id'' TEXT),
      references ''users'' ''id'' (not_null (col ''user_id'' TEXT)),
      unique_col (not_null (col ''session_hash'' TEXT)),
      col ''user_agent'' TEXT,
      col ''ip'' TEXT,
      default_to ''CURRENT_TIMESTAMP'' (not_null (col ''created_at'' DATETIME)),
      not_null (col ''expires_at'' DATETIME),
      default_to ''CURRENT_TIMESTAMP'' (not_null (col ''last_seen_at'' DATETIME))],
     ta_key = []\<rparr>"

definition model_prices_table :: Table where
  "model_prices_table = \<lparr>ta_columns =
     [primary_key (col ''model_id'' TEXT),
      default_to ''0'' (not_null (col ''input_per_1k'' REAL)),
      default_to ''0'' (not_null (col ''output_per_1k'' REAL)),
      default_to ''0'' (not_null (col ''cached_input_per_1k'' REAL)),
      default_to ''1'' (not_null (col ''modality'' INTEGER)),
      default_to ''8192'' (not_null (col ''context_window'' INTEGER)),
      default_to ''CURRENT_TIMESTAMP'' (not_null (col ''updated_at'' DATETIME))],
     ta_key = []\<rparr>"

definition model_params_table :: Table where
  "model_params_table = \<lparr>ta_columns =
     [primary_key (col ''model_id'' TEXT),
      col ''max_tokens'' INTEGER,
      col ''temperature'' REAL,
      col ''top_p'' REAL,
      default_to ''{}'' (not_null (col ''extra_json'' TEXT)),
      default_to ''CURRENT_TIMESTAMP'' (not_null (col ''updated_at'' DATETIME))],
     ta_key = []\<rparr>"

definition provider_models_table :: Table where
  "provider_models_table = \<lparr>ta_columns =
     [not_null (col ''provider_id'' TEXT),
      not_null (col ''model_id'' TEXT),
      default_to ''CURRENT_TIMESTAMP'' (not_null (col ''discovered_at'' DATETIME))],
     ta_key = [''provider_id'', ''model_id'']\<rparr>"

subsection \<open>Statements\<close>

datatype Statement =
    CreateTable string Table
  | CreateIndex string string string
  | AddColumn string Column

text \<open>Tables by their names; an index names a table and a column.\<close>

record Catalog =
  ca_tables :: "(string \<times> Table) list"
  ca_indexes :: "(string \<times> string \<times> string) list"

definition has_column :: "string \<Rightarrow> Table \<Rightarrow> bool" where
  "has_column n t = list_ex (\<lambda>c. co_name c = n) (ta_columns t)"

fun exec_stmt :: "Statement \<Rightarrow> Catalog \<Rightarrow> string + Catalog" where
  "exec_stmt (CreateTable n t) c =
     (if map_of (ca_tables c) n \<noteq> None then Inr c else Inr (c\<lparr>ca_tables := ca_tables c @ [(n, t)]\<rparr>))"
| "exec_stmt (CreateIndex i n k) c =
     (if map_of (ca_indexes c) i \<noteq> None then Inr c
      else (case map_of (ca_tables c) n of
          None \<Rightarrow> Inl (''no such table: '' @ n)
        | Some t \<Rightarrow> if has_column k t then Inr (c\<lparr>ca_indexes := ca_indexes c @ [(i, n, k)]\<rparr>)
            else Inl (''no such column: '' @ k)))"
| "exec_stmt (AddColumn n co) c = (case map_of (ca_tables c) n of
      None \<Rightarrow> Inl (''no such table: '' @ n)
    | Some t \<Rightarrow> if has_column (co_name co) t then Inl (''duplicate column name: '' @ co_name co)
        else Inr (c\<lparr>ca_tables := map (\<lambda>(m, u). (m, if m = n then u\<lparr>ta_columns := ta_columns u @ [co]\<rparr> else u)) (ca_tables c)\<rparr>))"

fun exec_batch :: "Statement list \<Rightarrow> Catalog \<Rightarrow> (string + unit) \<times> Catalog" where
  "exec_batch [] c = (Inr (), c)"
| "exec_batch (s # ss) c = (case exec_stmt s c of Inl e \<Rightarrow> (Inl e, c) | Inr c' \<Rightarrow> exec_batch ss c')"

text \<open>\<open>let _ = conn.execute(..)\<close>\<close>

definition attempt :: "Statement \<Rightarrow> Catalog \<Rightarrow> Catalog" where
  "attempt s c = (case exec_stmt s c of Inl _ \<Rightarrow> c | Inr c' \<Rightarrow> c')"

subsection \<open>Migrations\<close>

definition schema_batch :: "Statement list" where
  "schema_batch =
    [CreateTable ''request_log'' request_log_table,
     CreateIndex ''idx_request_log_created'' ''request_log'' ''created_at'',
     CreateIndex ''idx_request_log_tier'' ''request_log'' ''tier'',
     CreateIndex ''idx_request_log_provider'' ''request_log'' ''routed_provider'',
     CreateTable ''attempt_log'' attempt_log_table,
     CreateIndex ''idx_attempt_log_request'' ''attempt_log'' ''request_id'',
     CreateTable ''provider_health'' provider_health_table,
     CreateTable ''provider_credentials'' provider_credentials_table,
     CreateTable ''oauth_config'' oauth_config_table,
     CreateTable ''users'' users_table,
     CreateTable ''api_keys'' api_keys_table,
     CreateIndex ''idx_api_keys_user'' ''api_keys'' ''user_id'',
     CreateIndex ''idx_api_keys_hash'' ''api_keys'' ''key_hash'',
     CreateTable ''token_usage'' token_usage_table,
     CreateTable ''sessions'' sessions_table,
     CreateIndex ''idx_sessions_user'' ''sessions'' ''user_id'',
     CreateIndex ''idx_sessions_expires'' ''sessions'' ''expires_at'',
     CreateTable ''model_prices'' model_prices_table,
     CreateTable ''model_params'' model_params_table]"

definition discovery_batch :: "Statement list" where
  "discovery_batch =
    [CreateTable ''provider_models'' provider_models_table,
     CreateIndex ''idx_provider_models_provider'' ''provider_models'' ''provider_id'']"

text \<open>The statements whose errors are dropped.\<close>

definition additions :: "Statement list" where
  "additions =
    [AddColumn ''request_log'' (col ''user_id'' TEXT),
     CreateIndex ''idx_request_log_user'' ''request_log'' ''user_id'',
     AddColumn ''request_log'' (col ''user_agent'' TEXT),
     AddColumn ''request_log'' (col ''cost_usd'' REAL)]"

definition run_migrations :: "Catalog \<Rightarrow> (string + unit) \<times> Catalog" where
  "run_migrations c = (case exec_batch schema_batch c of
      (Inl e, c1) \<Rightarrow> (Inl e, c1)
    | (Inr _, c1) \<Rightarrow> exec_batch discovery_batch (fold attempt additions c1))"

text \<open>\<open>path\<close> empty or \<open>:memory:\<close> gives a database of its own; otherwise the file of that path, which is created
  with no table when there is none.\<close>

definition empty_catalog :: Catalog where
  "empty_catalog = \<lparr>ca_tables = [], ca_indexes = []\<rparr>"

definition db_open :: "(string \<Rightarrow> string + Catalog option) \<Rightarrow> string \<Rightarrow> (string + unit) \<times> Catalog" where
  "db_open file path =
     (if path = [] \<or> path = '':memory:'' then run_migrations empty_catalog
      else (case file path of
          Inl e \<Rightarrow> (Inl e, empty_catalog)
        | Inr found \<Rightarrow> run_migrations (unwrap_or empty_catalog found)))"

subsection \<open>What the program asks of the tables\<close>

text \<open>The table and the columns of each insert.\<close>

definition insert_request_columns :: "string \<times> string list" where
  "insert_request_columns = (''request_log'', [''id'', ''tier'', ''requested_model'', ''routed_model'', ''routed_provider'',
     ''total_latency_ms'', ''input_tokens'', ''output_tokens'', ''cache_read_tokens'', ''cost_usd'', ''truncated'',
     ''fallback_count'', ''finished'', ''finish_reason'', ''client_ip'', ''user_id'', ''user_agent''])"

definition insert_attempt_columns :: "string \<times> string list" where
  "insert_attempt_columns = (''attempt_log'', [''request_id'', ''attempt_number'', ''provider'', ''model'', ''outcome'',
     ''error_code'', ''error_message'', ''latency_ms'', ''retry_wait_ms''])"

definition insert_health_columns :: "string \<times> string list" where
  "insert_health_columns = (''provider_health'', [''provider_id'', ''status'', ''consecutive_failures'', ''updated_at''])"

definition insert_user_columns :: "string \<times> string list" where
  "insert_user_columns = (''users'', [''id'', ''email'', ''name'', ''password_hash'', ''role'', ''metadata''])"

definition insert_api_key_columns :: "string \<times> string list" where
  "insert_api_key_columns = (''api_keys'', [''id'', ''user_id'', ''key_hash'', ''key_prefix'', ''name''])"

definition insert_session_columns :: "string \<times> string list" where
  "insert_session_columns = (''sessions'', [''id'', ''user_id'', ''session_hash'', ''user_agent'', ''ip'', ''expires_at''])"

definition insert_usage_columns :: "string \<times> string list" where
  "insert_usage_columns = (''token_usage'',
     [''user_id'', ''day'', ''input_tokens'', ''output_tokens'', ''cost_usd'', ''request_count''])"

definition insert_price_columns :: "string \<times> string list" where
  "insert_price_columns = (''model_prices'', [''model_id'', ''input_per_1k'', ''output_per_1k'', ''context_window'', ''modality''])"

definition insert_oauth_columns :: "string \<times> string list" where
  "insert_oauth_columns = (''oauth_config'',
     [''provider_id'', ''token_url'', ''client_id'', ''client_secret'', ''extra_json'', ''refresh_buffer_secs''])"

definition insert_credential_columns :: "string \<times> string list" where
  "insert_credential_columns = (''provider_credentials'', [''provider_id'', ''ciphertext'', ''nonce''])"

definition insert_model_columns :: "string \<times> string list" where
  "insert_model_columns = (''provider_models'', [''provider_id'', ''model_id'', ''discovered_at''])"

definition inserts :: "(string \<times> string list) list" where
  "inserts = [insert_request_columns, insert_attempt_columns, insert_health_columns, insert_user_columns,
     insert_api_key_columns, insert_session_columns, insert_usage_columns, insert_price_columns, insert_oauth_columns,
     insert_credential_columns, insert_model_columns]"

text \<open>The columns the queries read.\<close>

definition select_request_columns :: "string \<times> string list" where
  "select_request_columns = (''request_log'', [''id'', ''created_at'', ''tier'', ''routed_model'', ''routed_provider'',
     ''total_latency_ms'', ''input_tokens'', ''output_tokens'', ''cost_usd'', ''fallback_count'', ''finished'',
     ''finish_reason'', ''client_ip''])"

definition select_attempt_columns :: "string \<times> string list" where
  "select_attempt_columns = (''attempt_log'', [''request_id'', ''attempt_number'', ''provider'', ''model'', ''outcome'',
     ''error_code'', ''error_message'', ''latency_ms'', ''retry_wait_ms''])"

definition select_user_columns :: "string \<times> string list" where
  "select_user_columns = (''users'', [''id'', ''email'', ''name'', ''password_hash'', ''role'', ''metadata'', ''created_at'',
     ''last_login_at''])"

definition select_api_key_columns :: "string \<times> string list" where
  "select_api_key_columns = (''api_keys'', [''id'', ''user_id'', ''key_hash'', ''key_prefix'', ''name'', ''last_used_at'',
     ''expires_at'', ''created_at'', ''revoked''])"

definition select_session_columns :: "string \<times> string list" where
  "select_session_columns = (''sessions'', [''id'', ''user_id'', ''session_hash'', ''user_agent'', ''ip'', ''created_at'',
     ''expires_at'', ''last_seen_at''])"

definition selects :: "(string \<times> string list) list" where
  "selects = [select_request_columns, select_attempt_columns, select_user_columns, select_api_key_columns,
     select_session_columns]"

subsection \<open>A catalog that serves the program\<close>

text \<open>Every column that is named exists, and an insert names every column that needs a value.\<close>

definition names_columns :: "Catalog \<Rightarrow> string \<times> string list \<Rightarrow> bool" where
  "names_columns c q = (case map_of (ca_tables c) (fst q) of
      None \<Rightarrow> False | Some t \<Rightarrow> list_all (\<lambda>n. has_column n t) (snd q))"

definition fills_columns :: "Catalog \<Rightarrow> string \<times> string list \<Rightarrow> bool" where
  "fills_columns c q = (case map_of (ca_tables c) (fst q) of
      None \<Rightarrow> False
    | Some t \<Rightarrow> list_all (\<lambda>co. co_not_null co \<and> co_default co = None \<longrightarrow> co_name co \<in> set (snd q)) (ta_columns t))"

definition serves :: "Catalog \<Rightarrow> bool" where
  "serves c = (list_all (\<lambda>q. names_columns c q \<and> fills_columns c q) inserts \<and> list_all (names_columns c) selects)"

text \<open>The catalog of a new database.\<close>

definition live_schema :: Catalog where
  "live_schema = snd (run_migrations empty_catalog)"

definition live_request_log :: Table where
  "live_request_log = request_log_table\<lparr>ta_columns :=
     ta_columns request_log_table @ [col ''user_id'' TEXT, col ''user_agent'' TEXT]\<rparr>"

definition live_tables_list :: "(string \<times> Table) list" where
  "live_tables_list = [(''request_log'', live_request_log), (''attempt_log'', attempt_log_table),
     (''provider_health'', provider_health_table), (''provider_credentials'', provider_credentials_table),
     (''oauth_config'', oauth_config_table), (''users'', users_table), (''api_keys'', api_keys_table),
     (''token_usage'', token_usage_table), (''sessions'', sessions_table), (''model_prices'', model_prices_table),
     (''model_params'', model_params_table), (''provider_models'', provider_models_table)]"

definition live_indexes :: "(string \<times> string \<times> string) list" where
  "live_indexes =
    [(''idx_request_log_created'', ''request_log'', ''created_at''),
     (''idx_request_log_tier'', ''request_log'', ''tier''),
     (''idx_request_log_provider'', ''request_log'', ''routed_provider''),
     (''idx_attempt_log_request'', ''attempt_log'', ''request_id''),
     (''idx_api_keys_user'', ''api_keys'', ''user_id''),
     (''idx_api_keys_hash'', ''api_keys'', ''key_hash''),
     (''idx_sessions_user'', ''sessions'', ''user_id''),
     (''idx_sessions_expires'', ''sessions'', ''expires_at''),
     (''idx_request_log_user'', ''request_log'', ''user_id''),
     (''idx_provider_models_provider'', ''provider_models'', ''provider_id'')]"

lemma new_database_migrates:
  "run_migrations empty_catalog = (Inr (), \<lparr>ca_tables = live_tables_list, ca_indexes = live_indexes\<rparr>)"
  by code_simp

lemma live_tables: "ca_tables live_schema = live_tables_list"
  by (simp add: live_schema_def new_database_migrates)


subsection \<open>Migrations keep what is there\<close>

definition grows_to :: "Catalog \<Rightarrow> Catalog \<Rightarrow> bool" where
  "grows_to c c' \<longleftrightarrow> (\<forall>n t. map_of (ca_tables c) n = Some t \<longrightarrow>
       (\<exists>t' new. map_of (ca_tables c') n = Some t' \<and> ta_columns t' = ta_columns t @ new \<and> ta_key t' = ta_key t))
     \<and> (\<forall>i x. map_of (ca_indexes c) i = Some x \<longrightarrow> map_of (ca_indexes c') i = Some x)"

lemma grows_to_refl [simp]: "grows_to c c"
  by (auto simp: grows_to_def)

lemma grows_to_trans: "grows_to c c' \<Longrightarrow> grows_to c' c'' \<Longrightarrow> grows_to c c''"
  unfolding grows_to_def
proof (intro conjI allI impI; elim conjE)
  fix n t
  assume 1: "\<forall>n t. map_of (ca_tables c) n = Some t \<longrightarrow>
      (\<exists>t' new. map_of (ca_tables c') n = Some t' \<and> ta_columns t' = ta_columns t @ new \<and> ta_key t' = ta_key t)"
    and 2: "\<forall>n t. map_of (ca_tables c') n = Some t \<longrightarrow>
      (\<exists>t' new. map_of (ca_tables c'') n = Some t' \<and> ta_columns t' = ta_columns t @ new \<and> ta_key t' = ta_key t)"
    and t: "map_of (ca_tables c) n = Some t"
  obtain t1 a where a: "map_of (ca_tables c') n = Some t1" "ta_columns t1 = ta_columns t @ a" "ta_key t1 = ta_key t"
    using 1 t by blast
  obtain t2 b where "map_of (ca_tables c'') n = Some t2" "ta_columns t2 = ta_columns t1 @ b" "ta_key t2 = ta_key t1"
    using 2 a(1) by blast
  with a show "\<exists>t' new. map_of (ca_tables c'') n = Some t' \<and> ta_columns t' = ta_columns t @ new \<and> ta_key t' = ta_key t"
    by (intro exI [of _ t2] exI [of _ "a @ b"]) simp
qed blast

lemma map_of_updated: "map_of (map (\<lambda>(m, u). (m, if m = n then f u else u)) ts) k = map_option (\<lambda>u. if k = n then f u else u) (map_of ts k)"
  by (induction ts) auto

lemma exec_extends: "exec_stmt s c = Inr c' \<Longrightarrow> grows_to c c'"
  by (cases s) (auto simp: grows_to_def map_of_updated map_add_Some_iff split: if_split_asm option.split_asm)

lemma attempt_extends: "grows_to c (attempt s c)"
  using exec_extends by (auto simp: attempt_def split: sum.split)

lemma batch_extends: "grows_to c (snd (exec_batch ss c))"
  by (induction ss c rule: exec_batch.induct) (auto split: sum.split intro: grows_to_trans [OF exec_extends])

lemma fold_extends: "grows_to c (fold attempt ss c)"
  by (induction ss arbitrary: c) (auto intro: grows_to_trans [OF attempt_extends])

lemma run_extends: "grows_to c (snd (run_migrations c))"
proof -
  obtain r c1 where b: "exec_batch schema_batch c = (r, c1)" by (rule prod.exhaust)
  have e: "grows_to c c1" using batch_extends [of c schema_batch] b by simp
  have "grows_to c1 (snd (exec_batch discovery_batch (fold attempt additions c1)))"
    by (rule grows_to_trans [OF fold_extends batch_extends])
  with e show ?thesis by (cases r) (auto simp: run_migrations_def b intro: grows_to_trans)
qed

text \<open>A statement that has had its effect.\<close>

fun settled :: "Statement \<Rightarrow> Catalog \<Rightarrow> bool" where
  "settled (CreateTable n t) c = (map_of (ca_tables c) n \<noteq> None)"
| "settled (CreateIndex i n k) c = (map_of (ca_indexes c) i \<noteq> None)"
| "settled (AddColumn n co) c = (case map_of (ca_tables c) n of None \<Rightarrow> False | Some t \<Rightarrow> has_column (co_name co) t)"

lemma settled_extends: "settled s c \<Longrightarrow> grows_to c c' \<Longrightarrow> settled s c'"
  by (cases s) (fastforce simp: grows_to_def has_column_def split: option.split_asm option.split)+

lemma exec_settles: "exec_stmt s c = Inr c' \<Longrightarrow> settled s c'"
proof (cases s)
  case (CreateIndex i n k)
  assume "exec_stmt s c = Inr c'"
  with CreateIndex show ?thesis
    by (cases "map_of (ca_indexes c) i") (auto simp: map_add_def split: if_split_asm option.split_asm)
qed (auto simp: map_of_updated map_add_Some_iff has_column_def split: if_split_asm option.split_asm option.split)

lemma attempt_settled: "settled s c \<Longrightarrow> attempt s c = c"
  by (cases s) (auto simp: attempt_def split: option.split_asm)

fun creates :: "Statement \<Rightarrow> bool" where
  "creates (AddColumn n co) = False"
| "creates s = True"

lemma exec_settled: "settled s c \<Longrightarrow> creates s \<Longrightarrow> exec_stmt s c = Inr c"
  by (cases s) auto

lemma batch_settles: "exec_batch ss c = (Inr (), c') \<Longrightarrow> s \<in> set ss \<Longrightarrow> settled s c'"
proof (induction ss c rule: exec_batch.induct)
  case (2 s' ss c)
  then obtain c1 where c1: "exec_stmt s' c = Inr c1" "exec_batch ss c1 = (Inr (), c')" by (auto split: sum.split_asm)
  have "grows_to c1 c'" using batch_extends [of c1 ss] c1(2) by simp
  then show ?case using 2 c1 settled_extends [OF exec_settles [OF c1(1)]] by auto
qed simp

lemma batch_settled: "list_all (\<lambda>s. settled s c \<and> creates s) ss \<Longrightarrow> exec_batch ss c = (Inr (), c)"
  by (induction ss) (simp_all add: exec_settled)

lemma additions_settle:
  assumes "map_of (ca_tables c) ''request_log'' \<noteq> None" and "s \<in> set additions"
  shows "settled s (fold attempt additions c)"
proof -
  have add: "settled (AddColumn ''request_log'' co) (attempt (AddColumn ''request_log'' co) d)"
    if "map_of (ca_tables d) ''request_log'' \<noteq> None" for co d
    using that by (auto simp: attempt_def map_of_updated has_column_def)
  have keep: "map_of (ca_tables (attempt s d)) ''request_log'' \<noteq> None"
    if "map_of (ca_tables d) ''request_log'' \<noteq> None" for s d
    using that attempt_extends [of d s] by (fastforce simp: grows_to_def)
  have index: "settled (CreateIndex i ''request_log'' k) (attempt (CreateIndex i ''request_log'' k) d)"
    if "settled (AddColumn ''request_log'' (col k ty)) d" for i k ty d
    using that by (cases "map_of (ca_indexes d) i") (auto simp: attempt_def col_def map_add_def split: option.split_asm)
  define c1 where "c1 = attempt (AddColumn ''request_log'' (col ''user_id'' TEXT)) c"
  define c2 where "c2 = attempt (CreateIndex ''idx_request_log_user'' ''request_log'' ''user_id'') c1"
  define c3 where "c3 = attempt (AddColumn ''request_log'' (col ''user_agent'' TEXT)) c2"
  define c4 where "c4 = attempt (AddColumn ''request_log'' (col ''cost_usd'' REAL)) c3"
  have c4: "fold attempt additions c = c4" by (simp add: additions_def c1_def c2_def c3_def c4_def)
  have there: "map_of (ca_tables c1) ''request_log'' \<noteq> None" "map_of (ca_tables c2) ''request_log'' \<noteq> None"
      "map_of (ca_tables c3) ''request_log'' \<noteq> None"
    unfolding c1_def c2_def c3_def by (intro keep assms(1))+
  have up: "grows_to c1 c4" "grows_to c2 c4" "grows_to c3 c4"
    unfolding c2_def c3_def c4_def by (blast intro: grows_to_trans attempt_extends)+
  have s1: "settled (AddColumn ''request_log'' (col ''user_id'' TEXT)) c1" unfolding c1_def by (rule add [OF assms(1)])
  have s2: "settled (CreateIndex ''idx_request_log_user'' ''request_log'' ''user_id'') c2" unfolding c2_def by (rule index [OF s1])
  have s3: "settled (AddColumn ''request_log'' (col ''user_agent'' TEXT)) c3" unfolding c3_def by (rule add [OF there(2)])
  have s4: "settled (AddColumn ''request_log'' (col ''cost_usd'' REAL)) c4" unfolding c4_def by (rule add [OF there(3)])
  have "s = AddColumn ''request_log'' (col ''user_id'' TEXT)
      \<or> s = CreateIndex ''idx_request_log_user'' ''request_log'' ''user_id''
      \<or> s = AddColumn ''request_log'' (col ''user_agent'' TEXT) \<or> s = AddColumn ''request_log'' (col ''cost_usd'' REAL)"
    using assms(2) unfolding additions_def by (simp only: list.set insert_iff empty_iff) blast
  with s4 settled_extends [OF s1 up(1)] settled_extends [OF s2 up(2)] settled_extends [OF s3 up(3)] show ?thesis
    unfolding c4 by blast
qed

text \<open>C23. Migrations can run on every start: on a database they have migrated they succeed and change nothing.\<close>

theorem migrations_idempotent:
  assumes "run_migrations c = (Inr (), c')"
  shows "run_migrations c' = (Inr (), c')"
proof -
  obtain r c1 where b: "exec_batch schema_batch c = (r, c1)" by (rule prod.exhaust)
  with assms have r: "r = Inr ()" by (cases r) (auto simp: run_migrations_def)
  let ?c2 = "fold attempt additions c1"
  have d: "exec_batch discovery_batch ?c2 = (Inr (), c')" using assms b r by (simp add: run_migrations_def)
  have up1: "grows_to c1 ?c2" by (rule fold_extends)
  have up2: "grows_to ?c2 c'" using batch_extends [of ?c2 discovery_batch] d by simp
  have first: "CreateTable ''request_log'' request_log_table \<in> set schema_batch" by (simp add: schema_batch_def)
  have log: "map_of (ca_tables c1) ''request_log'' \<noteq> None"
    using batch_settles [OF b [unfolded r] first] by simp
  have s1: "settled s c'" if "s \<in> set schema_batch" for s
    by (rule settled_extends [OF batch_settles [OF b [unfolded r] that] grows_to_trans [OF up1 up2]])
  have s2: "settled s c'" if "s \<in> set additions" for s
    by (rule settled_extends [OF additions_settle [OF log that] up2])
  have s3: "settled s c'" if "s \<in> set discovery_batch" for s by (rule batch_settles [OF d that])
  have new: "list_all creates schema_batch" "list_all creates discovery_batch"
    by (simp_all add: schema_batch_def discovery_batch_def)
  have e1: "exec_batch schema_batch c' = (Inr (), c')"
    by (rule batch_settled) (use s1 new in \<open>simp add: list_all_iff\<close>)
  have e3: "exec_batch discovery_batch c' = (Inr (), c')"
    by (rule batch_settled) (use s3 new in \<open>simp add: list_all_iff\<close>)
  have "fold attempt ss c' = c'" if "set ss \<subseteq> set additions" for ss
    using that by (induction ss) (simp_all add: attempt_settled s2)
  then have "fold attempt additions c' = c'" by blast
  with e1 e3 show ?thesis by (simp add: run_migrations_def)
qed

text \<open>Migrations lose nothing and add little: every table and index stays with its columns, and a table that is already
  there gains no column, except the request log.\<close>

theorem migrations_keep_old_tables:
  "grows_to c (snd (run_migrations c))
   \<and> (n \<noteq> ''request_log'' \<longrightarrow> map_of (ca_tables c) n = Some t \<longrightarrow> map_of (ca_tables (snd (run_migrations c))) n = Some t)"
proof (intro conjI impI)
  show "grows_to c (snd (run_migrations c))" by (rule run_extends)
next
  assume n: "n \<noteq> ''request_log''" and t: "map_of (ca_tables c) n = Some t"
  have one: "map_of (ca_tables d') n = Some t"
    if "exec_stmt s d = Inr d'" "map_of (ca_tables d) n = Some t" "creates s \<or> s \<in> set additions" for s d d'
  proof (cases s)
    case (AddColumn m co)
    then have "m = ''request_log''" using that(3) by (auto simp: additions_def)
    then show ?thesis using that AddColumn n by (auto simp: map_of_updated split: option.split_asm if_split_asm)
  qed (use that in \<open>auto split: if_split_asm option.split_asm\<close>)
  have batch: "map_of (ca_tables (snd (exec_batch ss d))) n = Some t"
    if "map_of (ca_tables d) n = Some t" "list_all creates ss" for ss d
    using that one by (induction ss d rule: exec_batch.induct) (auto split: sum.split)
  have more: "map_of (ca_tables (fold attempt ss d)) n = Some t"
    if "map_of (ca_tables d) n = Some t" "set ss \<subseteq> set additions" for ss d
    using that one by (induction ss arbitrary: d) (auto simp: attempt_def split: sum.split)
  have new: "list_all creates schema_batch" "list_all creates discovery_batch"
    by (simp_all add: schema_batch_def discovery_batch_def)
  obtain r c1 where b: "exec_batch schema_batch c = (r, c1)" by (rule prod.exhaust)
  have c1: "map_of (ca_tables c1) n = Some t" using batch [OF t new(1)] b by simp
  have "map_of (ca_tables (snd (exec_batch discovery_batch (fold attempt additions c1)))) n = Some t"
    by (rule batch [OF more [OF c1 subset_refl] new(2)])
  with c1 show "map_of (ca_tables (snd (run_migrations c))) n = Some t" by (cases r) (simp_all add: run_migrations_def b)
qed

subsection \<open>The constraints of the schema\<close>

text \<open>Rows as the tables hold them, by column. What the statements leave out is null.\<close>

datatype Cell = NullCell | TextCell string | IntCell int | RealCell f64 | FlagCell bool

type_synonym Cells = "(string \<times> Cell) list"

definition cell :: "Cells \<Rightarrow> string \<Rightarrow> Cell" where
  "cell r n = unwrap_or NullCell (map_of r n)"

definition text_or_null :: "string option \<Rightarrow> Cell" where
  "text_or_null v = (case v of None \<Rightarrow> NullCell | Some s \<Rightarrow> TextCell s)"

definition user_cells :: "UserRow \<Rightarrow> Cells" where
  "user_cells r = [(''id'', TextCell (ur_id r)), (''email'', TextCell (ur_email r)), (''name'', TextCell (ur_name r)),
     (''password_hash'', text_or_null (ur_password_hash r)), (''role'', TextCell (ur_role r)),
     (''metadata'', TextCell (ur_metadata r)), (''created_at'', TextCell (ur_created_at r)),
     (''last_login_at'', text_or_null (ur_last_login_at r))]"

definition api_key_cells :: "ApiKeyRow \<Rightarrow> Cells" where
  "api_key_cells r = [(''id'', TextCell (kr_id r)), (''user_id'', TextCell (kr_user_id r)),
     (''key_hash'', TextCell (kr_key_hash r)), (''key_prefix'', TextCell (kr_key_prefix r)), (''name'', TextCell (kr_name r)),
     (''last_used_at'', text_or_null (kr_last_used_at r)), (''expires_at'', text_or_null (kr_expires_at r)),
     (''created_at'', TextCell (kr_created_at r)), (''revoked'', FlagCell (kr_revoked r))]"

definition session_cells :: "SessionRow \<Rightarrow> Cells" where
  "session_cells r = [(''id'', TextCell (ss_id r)), (''user_id'', TextCell (ss_user_id r)),
     (''session_hash'', TextCell (ss_session_hash r)), (''user_agent'', text_or_null (ss_user_agent r)),
     (''ip'', text_or_null (ss_ip r)), (''created_at'', TextCell (ss_created_at r)),
     (''expires_at'', TextCell (ss_expires_at r)), (''last_seen_at'', TextCell (ss_last_seen_at r))]"

text \<open>\<open>updated_at\<close> is written by every statement and never read.\<close>

definition usage_cells :: "(string \<times> string) \<times> UsageRow \<Rightarrow> Cells" where
  "usage_cells e = (case e of ((u, day), r) \<Rightarrow> [(''user_id'', TextCell u), (''day'', TextCell day),
     (''input_tokens'', IntCell (us_input r)), (''output_tokens'', IntCell (us_output r)), (''cost_usd'', RealCell (us_cost r)),
     (''request_count'', IntCell (us_requests r)), (''updated_at'', TextCell day)])"

definition rows_of :: "UserDb \<Rightarrow> string \<Rightarrow> Cells list" where
  "rows_of db n = (if n = ''users'' then map user_cells (db_users db)
     else if n = ''api_keys'' then map api_key_cells (db_api_keys db)
     else if n = ''sessions'' then map session_cells (db_sessions db)
     else if n = ''token_usage'' then map usage_cells (db_usage db) else [])"

text \<open>NOT NULL, UNIQUE and PRIMARY KEY, REFERENCES, and a key of several columns. A null is unique and refers to nothing.\<close>

definition column_holds :: "(string \<Rightarrow> Cells list) \<Rightarrow> Cells list \<Rightarrow> Column \<Rightarrow> bool" where
  "column_holds rows rs co = (let vs = map (\<lambda>r. cell r (co_name co)) rs in
     (co_not_null co \<longrightarrow> NullCell \<notin> set vs)
     \<and> (co_unique co \<or> co_primary co \<longrightarrow> distinct (filter (\<lambda>v. v \<noteq> NullCell) vs))
     \<and> (case co_refs co of None \<Rightarrow> True
        | Some (t, k) \<Rightarrow> \<forall>v \<in> set vs. v = NullCell \<or> v \<in> (\<lambda>r. cell r k) ` set (rows t)))"

definition table_holds :: "(string \<Rightarrow> Cells list) \<Rightarrow> string \<times> Table \<Rightarrow> bool" where
  "table_holds rows nt = (case nt of (n, t) \<Rightarrow> list_all (column_holds rows (rows n)) (ta_columns t)
     \<and> (ta_key t \<noteq> [] \<longrightarrow> distinct (map (\<lambda>r. map (cell r) (ta_key t)) (rows n))))"

definition satisfies :: "(string \<Rightarrow> Cells list) \<Rightarrow> Catalog \<Rightarrow> bool" where
  "satisfies rows c = list_all (table_holds rows) (ca_tables c)"

lemma empty_holds: "table_holds rows (n, t)" if "rows n = []"
proof -
  have "column_holds rows [] co" for co
    by (auto simp: column_holds_def Let_def split: option.split)
  then show ?thesis by (simp add: table_holds_def that list_all_iff)
qed

lemmas column_mods = col_def not_null_def unique_col_def primary_key_def default_to_def references_def

lemma text_cells [simp]:
  "filter (\<lambda>v. v \<noteq> NullCell) (map (\<lambda>r. TextCell (f r)) xs) = map (\<lambda>r. TextCell (f r)) xs"
  "distinct (map (\<lambda>r. TextCell (f r)) xs) = distinct (map f xs)"
  by (auto simp: filter_id_conv distinct_map inj_on_def)

lemma rows_of_tables:
  "rows_of db ''users'' = map user_cells (db_users db)" "rows_of db ''api_keys'' = map api_key_cells (db_api_keys db)"
  "rows_of db ''sessions'' = map session_cells (db_sessions db)" "rows_of db ''token_usage'' = map usage_cells (db_usage db)"
  by (simp_all add: rows_of_def)

lemma user_ref [simp]:
  "TextCell u \<in> (\<lambda>r. cell r ''id'') ` set (rows_of db ''users'') \<longleftrightarrow> u \<in> ur_id ` set (db_users db)"
  by (force simp: rows_of_tables user_cells_def cell_def)

lemma users_hold: "table_holds (rows_of db) (''users'', users_table)
    \<longleftrightarrow> distinct (map ur_id (db_users db)) \<and> distinct (map ur_email (db_users db))"
  by (simp add: table_holds_def users_table_def column_mods column_holds_def rows_of_tables user_cells_def cell_def Let_def comp_def image_iff)

lemma api_key_cell [simp]:
  "cell (api_key_cells r) ''id'' = TextCell (kr_id r)" "cell (api_key_cells r) ''user_id'' = TextCell (kr_user_id r)"
  "cell (api_key_cells r) ''key_hash'' = TextCell (kr_key_hash r)" "cell (api_key_cells r) ''key_prefix'' = TextCell (kr_key_prefix r)"
  "cell (api_key_cells r) ''name'' = TextCell (kr_name r)" "cell (api_key_cells r) ''created_at'' = TextCell (kr_created_at r)"
  "cell (api_key_cells r) ''revoked'' = FlagCell (kr_revoked r)"
  by (simp_all add: api_key_cells_def cell_def)

lemma session_cell [simp]:
  "cell (session_cells r) ''id'' = TextCell (ss_id r)" "cell (session_cells r) ''user_id'' = TextCell (ss_user_id r)"
  "cell (session_cells r) ''session_hash'' = TextCell (ss_session_hash r)" "cell (session_cells r) ''created_at'' = TextCell (ss_created_at r)"
  "cell (session_cells r) ''expires_at'' = TextCell (ss_expires_at r)" "cell (session_cells r) ''last_seen_at'' = TextCell (ss_last_seen_at r)"
  by (simp_all add: session_cells_def cell_def)

lemma keys_hold: "table_holds (rows_of db) (''api_keys'', api_keys_table)
    \<longleftrightarrow> distinct (map kr_id (db_api_keys db)) \<and> distinct (map kr_key_hash (db_api_keys db))
      \<and> kr_user_id ` set (db_api_keys db) \<subseteq> ur_id ` set (db_users db)"
  by (auto simp: table_holds_def api_keys_table_def column_mods column_holds_def rows_of_tables(2) Let_def comp_def)

lemma sessions_hold: "table_holds (rows_of db) (''sessions'', sessions_table)
    \<longleftrightarrow> distinct (map ss_id (db_sessions db)) \<and> distinct (map ss_session_hash (db_sessions db))
      \<and> ss_user_id ` set (db_sessions db) \<subseteq> ur_id ` set (db_users db)"
  by (auto simp: table_holds_def sessions_table_def column_mods column_holds_def rows_of_tables(3) Let_def comp_def)

lemma usage_cell [simp]:
  "cell (usage_cells e) ''user_id'' = TextCell (fst (fst e))" "cell (usage_cells e) ''day'' = TextCell (snd (fst e))"
  "cell (usage_cells e) ''input_tokens'' = IntCell (us_input (snd e))"
  "cell (usage_cells e) ''output_tokens'' = IntCell (us_output (snd e))"
  "cell (usage_cells e) ''cost_usd'' = RealCell (us_cost (snd e))"
  "cell (usage_cells e) ''request_count'' = IntCell (us_requests (snd e))"
  "cell (usage_cells e) ''updated_at'' = TextCell (snd (fst e))"
  by (auto simp: usage_cells_def cell_def split: prod.split)

lemma usage_holds: "table_holds (rows_of db) (''token_usage'', token_usage_table)
    \<longleftrightarrow> distinct (map fst (db_usage db)) \<and> (fst \<circ> fst) ` set (db_usage db) \<subseteq> ur_id ` set (db_users db)"
proof -
  have key: "distinct (map (\<lambda>e. [TextCell (fst (fst e)), TextCell (snd (fst e))]) us) \<longleftrightarrow> distinct (map fst us)"
    for us :: "((string \<times> string) \<times> UsageRow) list"
    by (auto simp: distinct_map inj_on_def prod_eq_iff)
  show ?thesis
    by (auto simp: table_holds_def token_usage_table_def column_mods column_holds_def rows_of_tables(4) Let_def comp_def key)
qed

text \<open>The invariant of the user store is the schema: the tables of the model satisfy the constraints that the migrations
  declare exactly if \<open>db_wf\<close> holds and a user has one row of usage per day.\<close>

theorem store_invariant_is_schema:
  "satisfies (rows_of db) live_schema \<longleftrightarrow> db_wf db \<and> distinct (map fst (db_usage db))"
proof -
  have other: "table_holds (rows_of db) (n, t)" if "n \<notin> {''users'', ''api_keys'', ''sessions'', ''token_usage''}" for n t
    using that by (intro empty_holds) (simp add: rows_of_def)
  have out: "table_holds (rows_of db) (''request_log'', t)" "table_holds (rows_of db) (''attempt_log'', t)"
    "table_holds (rows_of db) (''provider_health'', t)" "table_holds (rows_of db) (''provider_credentials'', t)"
    "table_holds (rows_of db) (''oauth_config'', t)" "table_holds (rows_of db) (''model_prices'', t)"
    "table_holds (rows_of db) (''model_params'', t)" "table_holds (rows_of db) (''provider_models'', t)" for t
    by (rule other; simp)+
  show ?thesis
    by (simp only: satisfies_def live_tables live_tables_list_def list.pred_inject out users_hold keys_hold sessions_hold usage_holds db_wf_def simp_thms)
      (rule iffI; elim conjE; intro conjI; assumption)
qed

text \<open>One row per user and day is kept by every operation of the store.\<close>

lemma row_put_distinct: "distinct (map fst t) \<Longrightarrow> distinct (map fst (row_put k v t))"
proof (induction t)
  case (Cons e t)
  have "fst ` set (row_put k v t) \<subseteq> insert k (fst ` set t)" using set_row_put [of k v t] by auto
  with Cons show ?case by (cases e) (auto split: if_split_asm)
qed simp

lemma usage_keys_apply:
  assumes "distinct (map fst (db_usage db))"
  shows "distinct (map fst (db_usage (db_apply e op db)))"
proof (cases op)
  case (OpRecordUsage day i a b c)
  then show ?thesis using assms row_put_distinct
    by (auto simp: user_record_usage_def record_usage_def usage_add_def Let_def split: option.split)
qed (use assms in \<open>auto simp: user_op_defs Let_def distinct_map_filter_mono split: option.split\<close>)

text \<open>A catalog that predates the metadata of an account.\<close>

definition old_users :: Table where
  "old_users = \<lparr>ta_columns = [primary_key (col ''id'' TEXT), not_null (unique_col (col ''email'' TEXT)), not_null (col ''name'' TEXT),
     col ''password_hash'' TEXT, not_null (col ''role'' TEXT)], ta_key = []\<rparr>"

definition old_catalog :: Catalog where
  "old_catalog = \<lparr>ca_tables = [(''users'', old_users)], ca_indexes = []\<rparr>"

theorem migrations_idempotent_witness:
  "run_migrations live_schema = (Inr (), live_schema)"
proof -
  have "run_migrations empty_catalog = (Inr (), live_schema)"
    by (simp add: live_schema_def new_database_migrates)
  then show ?thesis by (rule migrations_idempotent)
qed

theorem migrations_keep_old_tables_witness:
  "map_of (ca_tables (snd (run_migrations old_catalog))) ''users'' = Some old_users
     \<and> fst (run_migrations old_catalog) = Inr () \<and> \<not> serves (snd (run_migrations old_catalog))"
proof -
  have n: "''users'' \<noteq> ''request_log''" by simp
  have t: "map_of (ca_tables old_catalog) ''users'' = Some old_users" by (simp add: old_catalog_def)
  have 1: "map_of (ca_tables (snd (run_migrations old_catalog))) ''users'' = Some old_users"
    using migrations_keep_old_tables [of old_catalog "''users''" old_users] n t by blast
  have 2: "fst (run_migrations old_catalog) = Inr () \<and> \<not> serves (snd (run_migrations old_catalog))" by code_simp
  from 1 2 show ?thesis by blast
qed

end
