(* ===== verification/Runs.thy ===== *)
theory Runs
  imports Server Database
begin

section \<open>Runs of the server\<close>

text \<open>
  What the requests of a running server do to the accounts. \<open>may\<close> is the permission of an endpoint: the
  operations of the user store it can perform for a caller. \<open>dispatch\<close> refines it, the authentication
  in front of it only stamps the time of use, and a run is any sequence of requests, price updates and
  log writes. The invariants are proved over all runs.
\<close>

subsection \<open>Sequences of permitted operations\<close>

inductive db_moves :: "(string \<Rightarrow> string) \<Rightarrow> db_op set \<Rightarrow> UserDb \<Rightarrow> UserDb \<Rightarrow> bool" for sha allowed where
  moves_none: "db_moves sha allowed db db"
| moves_op: "db_moves sha allowed db db' \<Longrightarrow> op \<in> allowed \<Longrightarrow> ue_sha e = sha \<Longrightarrow> db_moves sha allowed db (db_apply e op db')"

lemma moves_trans: "db_moves sha allowed db' db'' \<Longrightarrow> db_moves sha allowed db db' \<Longrightarrow> db_moves sha allowed db db''"
  by (induction rule: db_moves.induct) (auto intro: db_moves.intros)

lemma moves_mono: "db_moves sha allowed db db' \<Longrightarrow> allowed \<subseteq> wider \<Longrightarrow> db_moves sha wider db db'"
  by (induction rule: db_moves.induct) (auto intro: db_moves.intros)

lemma moves_invariant:
  assumes "db_moves sha allowed db db'" and "P db"
    and "\<And>op e d. op \<in> allowed \<Longrightarrow> ue_sha e = sha \<Longrightarrow> P d \<Longrightarrow> P (db_apply e op d)"
  shows "P db'"
  using assms by (induction rule: db_moves.induct) auto

lemma moves_wf: "db_moves sha allowed db db' \<Longrightarrow> db_wf db \<Longrightarrow> db_wf db'"
  by (erule moves_invariant) (auto intro: db_wf_apply)

text \<open>The operations of the store, one move each.\<close>

lemma store_moves:
  "OpCreateUser uuid ts now email name ph role \<in> allowed \<Longrightarrow>
     db_moves sha allowed db (snd (create_user uuid ts now email name ph role db))"
  "OpUpdatePassword i p h \<in> allowed \<Longrightarrow> db_moves sha allowed db (snd (update_password i p h db))"
  "OpDeleteUser i \<in> allowed \<Longrightarrow> db_moves sha allowed db (delete_user i db)"
  "OpTouchLastLogin ts i \<in> allowed \<Longrightarrow> db_moves sha allowed db (touch_last_login ts i db)"
  "OpCreateApiKey uuid ts now tok i name \<in> allowed \<Longrightarrow>
     db_moves sha allowed db (snd (create_api_key sha uuid ts now tok i name db))"
  "OpUserByApiKey ts p \<in> allowed \<Longrightarrow> db_moves sha allowed db (snd (get_user_by_api_key sha rd ts p db))"
  "OpDeleteApiKey k \<in> allowed \<Longrightarrow> db_moves sha allowed db (delete_api_key k db)"
  "OpCreateSession uuid ts now tok i ua ip ttl \<in> allowed \<Longrightarrow>
     db_moves sha allowed db (snd (create_session sha rfc uuid ts now tok i ua ip ttl db))"
  "OpGetSession ts p \<in> allowed \<Longrightarrow> db_moves sha allowed db (snd (get_session sha rd ts p db))"
  "OpDeleteSession i \<in> allowed \<Longrightarrow> db_moves sha allowed db (delete_session i db)"
  "OpDeleteUserSessions i \<in> allowed \<Longrightarrow> db_moves sha allowed db (delete_user_sessions i db)"
  "OpRecordUsage day i a b c \<in> allowed \<Longrightarrow> db_moves sha allowed db (snd (user_record_usage day i a b c db))"
proof -
  have one: "db_moves sha allowed db (db_apply \<lparr>ue_sha = sha, ue_rfc = rfc, ue_rd = rd\<rparr> op db)" if "op \<in> allowed" for op rfc rd
    by (rule moves_op [OF moves_none that]) simp
  show "OpCreateUser uuid ts now email name ph role \<in> allowed \<Longrightarrow>
     db_moves sha allowed db (snd (create_user uuid ts now email name ph role db))"
    using one [of "OpCreateUser uuid ts now email name ph role"] by simp
  show "OpUpdatePassword i p h \<in> allowed \<Longrightarrow> db_moves sha allowed db (snd (update_password i p h db))"
    using one [of "OpUpdatePassword i p h"] by simp
  show "OpDeleteUser i \<in> allowed \<Longrightarrow> db_moves sha allowed db (delete_user i db)"
    using one [of "OpDeleteUser i"] by simp
  show "OpTouchLastLogin ts i \<in> allowed \<Longrightarrow> db_moves sha allowed db (touch_last_login ts i db)"
    using one [of "OpTouchLastLogin ts i"] by simp
  show "OpCreateApiKey uuid ts now tok i name \<in> allowed \<Longrightarrow>
     db_moves sha allowed db (snd (create_api_key sha uuid ts now tok i name db))"
    using one [of "OpCreateApiKey uuid ts now tok i name"] by simp
  show "OpUserByApiKey ts p \<in> allowed \<Longrightarrow> db_moves sha allowed db (snd (get_user_by_api_key sha rd ts p db))"
    using one [of "OpUserByApiKey ts p" _ rd] by simp
  show "OpDeleteApiKey k \<in> allowed \<Longrightarrow> db_moves sha allowed db (delete_api_key k db)"
    using one [of "OpDeleteApiKey k"] by simp
  show "OpCreateSession uuid ts now tok i ua ip ttl \<in> allowed \<Longrightarrow>
     db_moves sha allowed db (snd (create_session sha rfc uuid ts now tok i ua ip ttl db))"
    using one [of "OpCreateSession uuid ts now tok i ua ip ttl" rfc] by simp
  show "OpGetSession ts p \<in> allowed \<Longrightarrow> db_moves sha allowed db (snd (get_session sha rd ts p db))"
    using one [of "OpGetSession ts p" _ rd] by simp
  show "OpDeleteSession i \<in> allowed \<Longrightarrow> db_moves sha allowed db (delete_session i db)"
    using one [of "OpDeleteSession i"] by simp
  show "OpDeleteUserSessions i \<in> allowed \<Longrightarrow> db_moves sha allowed db (delete_user_sessions i db)"
    using one [of "OpDeleteUserSessions i"] by simp
  show "OpRecordUsage day i a b c \<in> allowed \<Longrightarrow> db_moves sha allowed db (snd (user_record_usage day i a b c db))"
    using one [of "OpRecordUsage day i a b c"] by simp
qed

subsection \<open>The permission of an endpoint\<close>

text \<open>\<open>db\<close> are the tables the endpoint finds. An operation that is not listed is not permitted.\<close>

fun may :: "AccountEnv \<Rightarrow> UserDb \<Rightarrow> UserContext \<Rightarrow> Endpoint \<Rightarrow> db_op \<Rightarrow> bool" where
  "may env db user e (OpRecordUsage day u i out c) = (case e of ChatCompletions hs b \<Rightarrow> u = uc_user_id user | _ \<Rightarrow> False)"
| "may env db user e (OpUserByApiKey ts p) = (case e of Login hs b \<Rightarrow> True | _ \<Rightarrow> False)"
| "may env db user e (OpTouchLastLogin ts u) = (case e of Login hs b \<Rightarrow> True | _ \<Rightarrow> False)"
| "may env db user e (OpCreateSession uuid ts now tok u ua ip ttl) =
     (tok = ac_token env \<and> (case e of Login hs b \<Rightarrow> True | SetupSubmit hs b \<Rightarrow> db_users db = [] | _ \<Rightarrow> False))"
| "may env db user e (OpDeleteSession s) = (case e of Logout \<Rightarrow> uc_session_id user = Some s | _ \<Rightarrow> False)"
| "may env db user e (OpDeleteUserSessions u) = (case e of RotatePassword b \<Rightarrow> u = uc_user_id user | _ \<Rightarrow> False)"
| "may env db user e (OpUpdatePassword u p h) = (case e of RotatePassword b \<Rightarrow> u = uc_user_id user | _ \<Rightarrow> False)"
| "may env db user e (OpCreateUser uuid ts now email name ph role) =
     (case e of SetupSubmit hs b \<Rightarrow> db_users db = [] \<and> role = AdminRole | CreateUser b \<Rightarrow> is_admin user | _ \<Rightarrow> False)"
| "may env db user e (OpDeleteUser u) = (case e of DeleteUser i \<Rightarrow> u = i \<and> is_admin user | _ \<Rightarrow> False)"
| "may env db user e (OpCreateApiKey uuid ts now tok u name) =
     (tok = ac_token env
      \<and> (case e of CreateOwnKey b \<Rightarrow> u = uc_user_id user | AdminCreateKey i b \<Rightarrow> is_admin user | _ \<Rightarrow> False))"
| "may env db user e (OpDeleteApiKey k) = (case e of
       DeleteOwnKey i \<Rightarrow> k = i \<and> list_ex (\<lambda>r. kr_id r = k \<and> kr_user_id r = uc_user_id user) (db_api_keys db)
     | _ \<Rightarrow> False)"
| "may env db user e (OpRevokeApiKey k) = False"
| "may env db user e (OpGetSession ts p) = False"
| "may env db user e (OpPruneExpired ts) = False"

subsection \<open>The handlers stay within their permission\<close>

abbreviation acc_sha :: "AccountEnv \<Rightarrow> string \<Rightarrow> string" where
  "acc_sha env \<equiv> ae_sha (ac_auth env)"

lemma new_session_moves:
  assumes "\<And>uuid ts now ua ip ttl. OpCreateSession uuid ts now (ac_token env) u ua ip ttl \<in> allowed"
  shows "db_moves (acc_sha env) allowed db (snd (new_session env u ua ip db))"
  using store_moves(8) [OF assms]
  by (auto simp: new_session_def create_session_cookie_def split_def split: sum.split)

lemma finish_login_moves:
  assumes "\<And>ts u. OpTouchLastLogin ts u \<in> allowed"
    and "\<And>uuid ts now u ua ip ttl. OpCreateSession uuid ts now (ac_token env) u ua ip ttl \<in> allowed"
  shows "db_moves (acc_sha env) allowed db (snd (finish_login env hs user db))"
proof -
  note m = moves_trans [OF new_session_moves [OF assms(2)] store_moves(4) [OF assms(1)]]
  show ?thesis using m by (auto simp: finish_login_def split_def split: sum.split)
qed

lemma login_moves: "db_moves (acc_sha env) (Collect (may env db0 user (Login hs b))) db (snd (login env hs b db))"
proof -
  let ?may = "Collect (may env db0 user (Login hs b))"
  have f: "db_moves (acc_sha env) ?may d (snd (finish_login env hs u d))" for d u
    by (rule finish_login_moves) simp_all
  have p: "db_moves (acc_sha env) ?may db (snd (password_login env hs b db))"
    using f by (auto simp: password_login_def split: option.split intro: moves_none)
  have k: "db_moves (acc_sha env) ?may db (snd (get_user_by_api_key (acc_sha env) rd ts key db))" for rd ts key
    by (rule store_moves(6)) simp
  show ?thesis using p k moves_trans [OF f k]
    by (auto simp: login_def split_def split: option.split)
qed

lemma setup_moves: "db_moves (acc_sha env) (Collect (may env db user (SetupSubmit hs b))) db (snd (setup_submit env fresh hs b db))"
proof (cases "list_users (ae_rd (ac_auth env)) db = []")
  case True
  then have none: "db_users db = []" unfolding list_users_def map_is_Nil_conv by (metis length_0_conv length_sort)
  let ?may = "Collect (may env db user (SetupSubmit hs b))"
  have c: "db_moves (acc_sha env) ?may db (snd (create_user uuid ts now email name ph AdminRole db))" for uuid ts now email name ph
    by (rule store_moves(1)) (simp add: none)
  have s: "db_moves (acc_sha env) ?may d (snd (new_session (env\<lparr>ac_uuid := fresh\<rparr>) u ua ip d))" for d u ua ip
    using new_session_moves [where allowed = ?may and u = u and env = "env\<lparr>ac_uuid := fresh\<rparr>"] by (simp add: none)
  show ?thesis using c moves_trans [OF s c]
    by (auto simp: setup_submit_def Let_def split_def intro: moves_none split: option.split sum.split)
qed (simp add: setup_submit_def moves_none)

lemma rotate_moves: "db_moves (acc_sha env) (Collect (may env db0 user (RotatePassword b))) db (snd (rotate_password env user b db))"
proof -
  let ?may = "Collect (may env db0 user (RotatePassword b))"
  have u: "db_moves (acc_sha env) ?may db (snd (update_password (uc_user_id user) p h db))" for p h
    by (rule store_moves(2)) simp
  have d: "db_moves (acc_sha env) ?may d (delete_user_sessions (uc_user_id user) d)" for d
    by (rule store_moves(11)) simp
  show ?thesis using u moves_trans [OF d u]
    by (auto simp: rotate_password_def split_def intro: moves_none split: option.split sum.split)
qed

lemma managed_moves:
  "db_moves (acc_sha env) (Collect (may env db0 user Logout)) db (snd (logout user db))"
  "db_moves (acc_sha env) (Collect (may env db0 user (CreateOwnKey b))) db (snd (create_own_key env user b db))"
  "db_moves (acc_sha env) (Collect (may env db user (DeleteOwnKey i))) db (snd (delete_own_key env i user db))"
  "db_moves (acc_sha env) (Collect (may env db0 user (CreateUser cu))) db (snd (create_user_endpoint env user cu db))"
  "db_moves (acc_sha env) (Collect (may env db0 user (DeleteUser i))) db (snd (delete_user_endpoint i user db))"
  "db_moves (acc_sha env) (Collect (may env db0 user (AdminCreateKey i ck))) db (snd (admin_create_key env i user ck db))"
proof -
  show "db_moves (acc_sha env) (Collect (may env db0 user Logout)) db (snd (logout user db))"
    by (auto simp: logout_def split: option.split intro: moves_none store_moves(10))
  have key: "db_moves (acc_sha env) (Collect (may env db0 user e)) db (snd (issue_key env u name db))"
    if "\<And>uuid ts now name. OpCreateApiKey uuid ts now (ac_token env) u name \<in> Collect (may env db0 user e)" for e u name
    unfolding issue_key_def by (rule store_moves(5) [OF that])
  show "db_moves (acc_sha env) (Collect (may env db0 user (CreateOwnKey b))) db (snd (create_own_key env user b db))"
    using key [where e = "CreateOwnKey b" and u = "uc_user_id user"] by (auto simp: create_own_key_def split_def split: sum.split)
  show "db_moves (acc_sha env) (Collect (may env db0 user (AdminCreateKey i ck))) db (snd (admin_create_key env i user ck db))"
    using key [where e = "AdminCreateKey i ck"] by (auto simp: admin_create_key_def Let_def split_def intro: moves_none split: sum.split)
  show "db_moves (acc_sha env) (Collect (may env db user (DeleteOwnKey i))) db (snd (delete_own_key env i user db))"
  proof (cases "list_ex (\<lambda>k. k_id k = i) (list_api_keys (ae_rd (ac_auth env)) (uc_user_id user) db)")
    case True
    then have "list_ex (\<lambda>r. kr_id r = i \<and> kr_user_id r = uc_user_id user) (db_api_keys db)"
      by (auto simp: list_ex_iff list_api_keys_def row_to_api_key_def)
    then have "db_moves (acc_sha env) (Collect (may env db user (DeleteOwnKey i))) db (delete_api_key i db)"
      by (intro store_moves(7)) simp
    with True show ?thesis by (simp add: delete_own_key_def)
  qed (simp add: delete_own_key_def moves_none)
  show "db_moves (acc_sha env) (Collect (may env db0 user (CreateUser cu))) db (snd (create_user_endpoint env user cu db))"
  proof (cases "is_admin user")
    case True
    have "db_moves (acc_sha env) (Collect (may env db0 user (CreateUser cu))) db (snd (create_user uuid ts now email name ph role db))"
      for uuid ts now email name ph role by (rule store_moves(1)) (simp add: True)
    with True show ?thesis by (auto simp: create_user_endpoint_def split_def split: sum.split)
  qed (simp add: create_user_endpoint_def moves_none)
  show "db_moves (acc_sha env) (Collect (may env db0 user (DeleteUser i))) db (snd (delete_user_endpoint i user db))"
    by (auto simp: delete_user_endpoint_def intro: moves_none store_moves(3))
qed

subsection \<open>Every endpoint stays within its permission\<close>

definition tables :: "App \<Rightarrow> UserDb" where
  "tables ap = pl_db (app_pipe ap)"

text \<open>The state without what a handler of the admin API, of the proxies and of the pages can touch.\<close>

lemma config_update_tables [simp]: "pl_db (app_pipe (snd (config_update env f ap))) = pl_db (app_pipe ap)"
  by (auto simp: config_update_def split: prod.split)

lemma state_parts [simp]:
  "pl_db (app_pipe (set_oauth m ap)) = pl_db (app_pipe ap)" "pl_db (app_pipe (set_keys ks ap)) = pl_db (app_pipe ap)"
  "pl_db (app_pipe (set_registry r ap)) = pl_db (app_pipe ap)" "app_limiter (set_oauth m ap) = app_limiter ap"
  "app_limiter (set_keys ks ap) = app_limiter ap" "app_limiter (set_registry r ap) = app_limiter ap"
  by (simp_all add: set_oauth_def set_keys_def set_registry_def)

lemma config_update_kept:
  "config_update env f ap = (r, ap') \<Longrightarrow> pl_db (app_pipe ap') = pl_db (app_pipe ap) \<and> app_limiter ap' = app_limiter ap"
  using config_update_tables [of env f ap] config_update_parts(4) [of env f ap] by simp

lemma admin_op_kept:
  "pl_db (app_pipe (snd (admin_op env op ap))) = pl_db (app_pipe ap) \<and> app_limiter (snd (admin_op env op ap)) = app_limiter ap"
  by (cases op) (auto simp: add_provider_def remove_provider_def update_tier_def add_rule_def delete_rule_def save_config_def
      set_key_def delete_key_def set_oauth_refresh_def start_oauth_def oauth_callback_def start_device_oauth_def paste_code_def
      setup_oauth_via_cli_def poll_device_oauth_def list_provider_models_def test_provider_def Let_def
      split: prod.split sum.split dest!: config_update_kept)

lemma proxies_kept:
  "pl_db (snd (passthrough_wire env endpoint expected compatible body pl)) = pl_db pl"
  "pl_db (snd (passthrough env path body pl)) = pl_db pl"
  by (auto simp: passthrough_wire_def passthrough_def Let_def dest: proxy_key_parts split: option.split prod.split sum.split)

text \<open>A chat completion charges the caller, or nobody.\<close>

definition charges :: "string \<Rightarrow> db_op set" where
  "charges u = {OpRecordUsage day u i out c | day i out c. True}"

lemma complete_moves:
  assumes "ro_user_id routed = None \<or> ro_user_id routed = Some u"
  shows "db_moves sha (charges u) (pl_db pl) (pl_db (fst (snd (complete env routed pl x))))"
proof -
  have c: "db_moves sha (charges u) (pl_db pl) (charge_user env s routed r (pl_db pl))" for s r
    using assms by (auto simp: charge_user_def charges_def intro: moves_none store_moves(12) split: option.split)
  show ?thesis
    using c by (auto simp: complete_def log_completion_def Let_def intro: moves_none split: prod.split sum.split)
qed

lemma dispatch_key_kept: "dispatch_key env t p pl = (key, pl') \<Longrightarrow> pl_db pl' = pl_db pl"
  by (auto simp: dispatch_key_def Let_def split: prod.split_asm if_split_asm sum.split_asm option.split_asm)

lemma route_kept: "route env req ov t pl = (r, pl') \<Longrightarrow> pl_db pl' = pl_db pl"
  by (auto simp: route_def Let_def dest: dispatch_key_kept split: prod.split_asm if_split_asm sum.split_asm)

lemma stamped_user: "ro_user_id (stamp_user user hs d routed) = None \<or> ro_user_id (stamp_user user hs d routed) = Some (uc_user_id user)"
  by (simp add: stamp_user_def budget_user_def Let_def)

lemma answer_moves:
  "db_moves sha (charges (uc_user_id user)) (pl_db pl) (pl_db (fst (snd (answer_routed env t (stamp_user user hs d routed) pl x))))"
proof -
  have c: "db_moves sha (charges (uc_user_id user)) (pl_db pl) (pl_db pl')"
    if "complete (ce_pipe env) (stamp_user user hs d routed) pl x = (r, pl', x')" for r pl' x'
    using complete_moves [OF stamped_user, where sha = sha and pl = pl and env = "ce_pipe env" and x = x] that
    by (metis fst_conv snd_conv)
  show ?thesis by (auto simp: answer_routed_def Let_def intro: moves_none c split: prod.split sum.split)
qed

lemma chat_moves:
  "db_moves sha (charges (uc_user_id user)) (pl_db pl) (pl_db (fst (snd (chat_completions env hs user b pl x))))"
proof -
  have r: "db_moves sha (charges (uc_user_id user)) (pl_db pl)
      (pl_db (fst (snd (answer_routed env t (stamp_user user hs d routed) pl' x))))"
    if "route e req ov t' pl = (r, pl')" for e req ov t' r pl' t d routed
    using answer_moves [of sha user pl' env t hs d routed x] route_kept [OF that] by simp
  have k: "db_moves sha (charges (uc_user_id user)) (pl_db pl) (pl_db pl')" if "route e req ov t pl = (Inl err, pl')"
    for e req ov t err pl' unfolding route_kept [OF that] by (rule moves_none)
  show ?thesis
    by (auto simp: chat_completions_def Let_def intro: moves_none r k split: sum.split option.split prod.split)
qed

lemma on_users_moves:
  "db_moves sha A (tables ap) (snd (f (tables ap))) \<Longrightarrow>
     db_moves sha A (tables ap) (tables (fst (snd (answer x (on_users f ap)))))
     \<and> app_limiter (fst (snd (answer x (on_users f ap)))) = app_limiter ap"
  by (auto simp: tables_def answer_def on_users_def split: prod.split)

lemma kept_moves:
  assumes "pl_db (app_pipe ap') = pl_db (app_pipe ap) \<and> app_limiter ap' = app_limiter ap"
  shows "db_moves sha A (tables ap) (tables ap') \<and> app_limiter ap' = app_limiter ap"
  using assms by (simp add: tables_def moves_none)

lemma dispatch_moves:
  "db_moves (acc_sha (sy_account env)) (Collect (may (sy_account env) (tables ap) user e)) (tables ap)
     (tables (fst (snd (dispatch env user e ap x))))
   \<and> app_limiter (fst (snd (dispatch env user e ap x))) = app_limiter ap"
proof (cases e)
  case (ChatCompletions hs b)
  have "db_moves (acc_sha (sy_account env)) (Collect (may (sy_account env) (tables ap) user e)) (pl_db (app_pipe ap))
      (pl_db (fst (snd (chat_completions (sy_chat env) hs user b (app_pipe ap) x))))"
    by (rule moves_mono [OF chat_moves]) (auto simp: charges_def ChatCompletions)
  then show ?thesis by (auto simp: ChatCompletions tables_def split: prod.split)
next
  case (PlaygroundSend hs form)
  show ?thesis using playground_charges_nobody [of "ce_pipe (sy_chat env)" "sy_elapsed env" hs form "app_pipe ap" x]
    by (intro kept_moves) (auto simp: PlaygroundSend split: prod.split)
next
  case (Login hs b)
  show ?thesis unfolding Login dispatch.simps by (rule on_users_moves) (rule login_moves)
next
  case (SetupSubmit hs b)
  show ?thesis unfolding SetupSubmit dispatch.simps by (rule on_users_moves) (rule setup_moves)
next
  case (RotatePassword b)
  show ?thesis unfolding RotatePassword dispatch.simps by (rule on_users_moves) (rule rotate_moves)
next
  case Logout
  show ?thesis unfolding Logout dispatch.simps by (rule on_users_moves) (rule managed_moves)
next
  case (CreateOwnKey b)
  show ?thesis unfolding CreateOwnKey dispatch.simps by (rule on_users_moves) (rule managed_moves)
next
  case (DeleteOwnKey i)
  show ?thesis unfolding DeleteOwnKey dispatch.simps by (rule on_users_moves) (rule managed_moves)
next
  case (CreateUser cu)
  show ?thesis unfolding CreateUser dispatch.simps by (rule on_users_moves) (rule managed_moves)
next
  case (DeleteUser i)
  show ?thesis unfolding DeleteUser dispatch.simps by (rule on_users_moves) (rule managed_moves)
next
  case (AdminCreateKey i ck)
  show ?thesis unfolding AdminCreateKey dispatch.simps by (rule on_users_moves) (rule managed_moves)
next
  case (Admin op)
  show ?thesis using admin_op_kept by (intro kept_moves) (simp add: Admin answer_def)
next
  case (UiRemoveProvider i)
  show ?thesis by (intro kept_moves)
    (auto simp: UiRemoveProvider answer_def ui_remove_provider_def Let_def split: prod.split sum.split dest!: config_update_kept)
next
  case ReloadConfig
  show ?thesis by (intro kept_moves) (simp add: ReloadConfig answer_def reload_config_def split_def)
next
  case SyncPricing
  show ?thesis by (intro kept_moves) (simp add: SyncPricing answer_def sync_pricing_now_def Let_def split_def)
qed (simp_all add: tables_def moves_none show_page_def answer_def on_pipe_def proxies_kept messages_passthrough_def
    responses_passthrough_def image_generations_def audio_speech_def video_generations_def)

subsection \<open>A request\<close>

text \<open>The authentication and the limiter stamp the credential that was used.\<close>

definition stamps :: "db_op set" where
  "stamps = {OpUserByApiKey ts p | ts p. True} \<union> {OpGetSession ts p | ts p. True}"

lemma try_api_key_moves: "db_moves (ae_sha e) stamps db (snd (try_api_key e p db))"
proof -
  have "db_moves (ae_sha e) stamps db (snd (get_user_by_api_key (ae_sha e) (ae_rd e) (ae_ts e) p db))"
    by (rule store_moves(6)) (simp add: stamps_def)
  then show ?thesis by (auto simp: try_api_key_def intro: moves_none split: prod.split option.split)
qed

lemma try_cookies_moves: "db_moves (ae_sha e) stamps db (snd (try_cookies e cs db))"
proof (induction e cs db rule: try_cookies.induct)
  case (2 e k v cs db)
  have g: "db_moves (ae_sha e) stamps db (snd (get_session (ae_sha e) (ae_rd e) (ae_ts e) v db))"
    by (rule store_moves(9)) (simp add: stamps_def)
  obtain r db' where get: "get_session (ae_sha e) (ae_rd e) (ae_ts e) v db = (r, db')" by (rule prod.exhaust)
  show ?case
  proof (cases "k = SESSION_COOKIE")
    case True
    show ?thesis
    proof (cases r)
      case None
      then show ?thesis using 2(1) [OF True get [symmetric] None] g get True by (auto intro: moves_trans)
    next
      case (Some su)
      then show ?thesis using g get True by (cases su) simp
    qed
  qed (use 2(2) in simp)
qed (simp add: moves_none)

lemma serve_moves:
  assumes "serve rt e cfg t1 t2 t3 rq (db, l) = (served, db', l')"
  shows "db_moves (ae_sha e) stamps db db'"
proof -
  obtain r1 db1 where k: "try_api_key e (extract_token e rq) db = (r1, db1)" by (rule prod.exhaust)
  obtain r2 db2 where c: "try_cookies e (request_cookies e rq) db1 = (r2, db2)" by (rule prod.exhaust)
  have a: "db_moves (ae_sha e) stamps db db1" using try_api_key_moves [of e db "extract_token e rq"] k by simp
  have b: "db_moves (ae_sha e) stamps db1 db2" using try_cookies_moves [of e db1 "request_cookies e rq"] c by simp
  have "snd (auth_middleware e (auth cfg) rq db) \<in> {db1, db2}"
    by (simp add: auth_middleware_def Let_def k c split: option.split)
  then have "db_moves (ae_sha e) stamps db (snd (auth_middleware e (auth cfg) rq db))" using a b by (auto intro: moves_trans)
  moreover have "db' = snd (auth_middleware e (auth cfg) rq db)"
    using assms by (auto simp: serve_def split: prod.split_asm MwOutcome.split_asm RateDecision.split_asm)
  ultimately show ?thesis by simp
qed

lemma ratelimit_wf: "limiter_wf l \<Longrightarrow> limiter_wf (snd (ratelimit_middleware en path ctx t1 t2 t3 l))"
proof -
  assume l: "limiter_wf l"
  let ?e = "\<lparr>aq_key = rate_key ctx, aq_global = t1, aq_insert = t2, aq_key_time = t3\<rparr>"
  obtain r l' where t: "try_acquire ?e l = (r, l')" by (rule prod.exhaust)
  have "limiter_wf l'" using limiter_wf_try_acquire [OF l, of ?e] t by simp
  then show ?thesis using l by (cases r) (simp_all add: ratelimit_middleware_def t)
qed

lemma serve_limiter_wf:
  assumes "serve rt e cfg t1 t2 t3 rq (db, l) = (served, db', l')" and "limiter_wf l"
  shows "limiter_wf l'"
  using assms ratelimit_wf [OF assms(2)]
  by (auto simp: serve_def split: prod.split_asm MwOutcome.split_asm RateDecision.split_asm dest!: arg_cong [of _ _ snd])

text \<open>The endpoint a request asks for, and the caller the authentication makes of it.\<close>

definition requested :: "routing \<Rightarrow> 'x ServerEnv \<Rightarrow> HttpRequest \<Rightarrow> Endpoint \<Rightarrow> bool" where
  "requested rt env rq e \<longleftrightarrow> (\<exists>h ps. rt route_table (rq_method rq) (rq_path rq) = Handler h ps \<and> sy_extract env h ps = Inr e)"

definition caller :: "'x ServerEnv \<Rightarrow> HttpRequest \<Rightarrow> App \<Rightarrow> MwOutcome" where
  "caller env rq ap = fst (auth_middleware (ac_auth (sy_account env)) (auth (app_config ap)) rq (pl_db (app_pipe ap)))"

text \<open>A request either ends before the route table, or its endpoint runs for the caller on the stamped tables.\<close>

lemma handle_cases:
  assumes "handle rt env rq ap x = (reply, ap', x')"
  obtains (ended) ap1 where "db_moves (acc_sha (sy_account env)) stamps (tables ap) (tables ap1)"
      and "limiter_wf (app_limiter ap) \<longrightarrow> limiter_wf (app_limiter ap1)" and "ap' = ap1"
  | (ran) ap1 user e where "db_moves (acc_sha (sy_account env)) stamps (tables ap) (tables ap1)"
      and "limiter_wf (app_limiter ap) \<longrightarrow> limiter_wf (app_limiter ap1)" and "requested rt env rq e"
      and "caller env rq ap = Run user" and "dispatch env user e ap1 x = (reply, ap', x')"
proof -
  obtain t1 t2 t3 where t: "sy_rates env = (t1, t2, t3)" by (rule prod_cases3)
  let ?e = "ac_auth (sy_account env)"
  obtain served db l where s: "serve rt ?e (app_config ap) t1 t2 t3 rq (pl_db (app_pipe ap), app_limiter ap) = (served, db, l)"
    by (rule prod_cases3)
  define ap1 where "ap1 = ap\<lparr>app_pipe := (app_pipe ap)\<lparr>pl_db := db\<rparr>, app_limiter := l\<rparr>"
  have m: "db_moves (ae_sha ?e) stamps (tables ap) (tables ap1)"
    using serve_moves [OF s] by (simp add: tables_def ap1_def)
  have w: "limiter_wf (app_limiter ap) \<longrightarrow> limiter_wf (app_limiter ap1)"
    using serve_limiter_wf [OF s] by (simp add: ap1_def)
  have h: "(reply, ap', x') = (case served of Refused r \<Rightarrow> show_page ap1 x r | Limited r \<Rightarrow> show_page ap1 x r
      | Reached user routed \<Rightarrow> run_route env user routed ap1 x)"
    using assms unfolding handle_def t prod.case s Let_def ap1_def by (rule sym)
  show thesis
  proof (cases served)
    case (Reached user routed)
    then have c: "caller env rq ap = Run user" "routed = rt route_table (rq_method rq) (rq_path rq)"
      using s by (auto simp: caller_def serve_def split: prod.split_asm MwOutcome.split_asm RateDecision.split_asm)
    show thesis
    proof (cases "\<exists>hd ps e. routed = Handler hd ps \<and> sy_extract env hd ps = Inr e")
      case True
      then obtain hd ps e where r: "routed = Handler hd ps" "sy_extract env hd ps = Inr e" by blast
      have "requested rt env rq e" using r c(2) by (auto simp: requested_def)
      moreover have "dispatch env user e ap1 x = (reply, ap', x')" using h Reached r by (simp add: run_route_def)
      ultimately show thesis using ran m w c(1) by blast
    next
      case False
      then have "ap' = ap1" using h Reached by (auto simp: run_route_def show_page_def split: Routed.split_asm sum.split_asm)
      then show thesis using ended m w by blast
    qed
  qed (use h ended m w in \<open>auto simp: show_page_def\<close>)
qed

lemma handle_moves:
  assumes "handle rt env rq ap x = (reply, ap', x')"
  shows "\<exists>db. db_moves (acc_sha (sy_account env)) stamps (tables ap) db
     \<and> db_moves (acc_sha (sy_account env)) {op. \<exists>user e. requested rt env rq e \<and> caller env rq ap = Run user \<and> may (sy_account env) db user e op}
          db (tables ap')"
  using assms
proof (cases rule: handle_cases)
  case (ended ap1)
  then show ?thesis by (auto intro: moves_none)
next
  case (ran ap1 user e)
  have "db_moves (acc_sha (sy_account env)) (Collect (may (sy_account env) (tables ap1) user e)) (tables ap1) (tables ap')"
    using dispatch_moves [of env ap1 user e x] ran(5) by simp
  then have "db_moves (acc_sha (sy_account env)) {op. \<exists>user e. requested rt env rq e \<and> caller env rq ap = Run user \<and> may (sy_account env) (tables ap1) user e op}
      (tables ap1) (tables ap')" by (rule moves_mono) (use ran in blast)
  with ran(1) show ?thesis by blast
qed

subsection \<open>Runs\<close>

text \<open>A run interleaves requests with the tasks in the background: the price update of \<open>sync_once\<close> and the
  writer of the log. The list holds the requests in their order, the latest last.\<close>

inductive server_run :: "routing \<Rightarrow> App \<times> 'x \<Rightarrow> ('x ServerEnv \<times> HttpRequest) list \<Rightarrow> App \<times> 'x \<Rightarrow> bool" for rt where
  run_starts: "server_run rt s [] s"
| run_serves: "server_run rt s rqs (ap, x) \<Longrightarrow> handle rt env rq ap x = (reply, ap', x') \<Longrightarrow>
     server_run rt s (rqs @ [(env, rq)]) (ap', x')"
| run_prices: "server_run rt s rqs (ap, x) \<Longrightarrow> sync_once parse listing (pl_pricing (app_pipe ap)) = (r, prices) \<Longrightarrow>
     server_run rt s rqs (ap\<lparr>app_pipe := (app_pipe ap)\<lparr>pl_pricing := prices\<rparr>\<rparr>, x)"
| run_writes: "server_run rt s rqs (ap, x) \<Longrightarrow> pl_writes (app_pipe ap) = w # ws \<Longrightarrow>
     server_run rt s rqs (ap\<lparr>app_pipe := (app_pipe ap)\<lparr>pl_writes := ws\<rparr>\<rparr>, x)"

text \<open>C5. The permission matrix of the server: whatever the request, after the stamp of the credential the tables change only by
  operations that the requested endpoint is permitted for the caller. A login opens a session, a caller
  changes only its own password, keys and session and is charged only for its own chat completions; only
  an admin creates and deletes accounts and makes keys for others; the first account is made on empty
  tables only; every other endpoint leaves the tables as they are.\<close>

theorem request_within_permission:
  "\<exists>db. db_moves (acc_sha (sy_account env)) stamps (tables ap) db
     \<and> db_moves (acc_sha (sy_account env))
         {op. \<exists>user e. requested rt env rq e \<and> caller env rq ap = Run user \<and> may (sy_account env) db user e op}
         db (tables (fst (snd (handle rt env rq ap x))))"
proof -
  obtain reply ap' x' where h: "handle rt env rq ap x = (reply, ap', x')" by (rule prod_cases3)
  show ?thesis using handle_moves [OF h] h by simp
qed

text \<open>What every operation keeps that the requests can lead to, a run keeps.\<close>

definition server_ops :: "routing \<Rightarrow> 'x ServerEnv \<Rightarrow> HttpRequest \<Rightarrow> db_op set" where
  "server_ops rt env rq = stamps \<union> {op. \<exists>db user e. requested rt env rq e \<and> may (sy_account env) db user e op}"

lemma handle_ops:
  assumes "handle rt env rq ap x = (reply, ap', x')"
  shows "db_moves (acc_sha (sy_account env)) (server_ops rt env rq) (tables ap) (tables ap')"
proof -
  from handle_moves [OF assms] obtain db where m: "db_moves (acc_sha (sy_account env)) stamps (tables ap) db"
    "db_moves (acc_sha (sy_account env)) {op. \<exists>user e. requested rt env rq e \<and> caller env rq ap = Run user \<and> may (sy_account env) db user e op}
       db (tables ap')" by blast
  show ?thesis by (rule moves_trans [OF moves_mono [OF m(2)] moves_mono [OF m(1)]]) (auto simp: server_ops_def)
qed

lemma run_invariant:
  assumes "server_run rt s rqs s'" and "P (tables (fst s))"
    and "\<And>env rq op ev d. (env, rq) \<in> set rqs \<Longrightarrow> op \<in> server_ops rt env rq \<Longrightarrow> ue_sha ev = acc_sha (sy_account env) \<Longrightarrow>
       P d \<Longrightarrow> P (db_apply ev op d)"
  shows "P (tables (fst s'))"
  using assms
proof (induction rule: server_run.induct)
  case (run_serves s rqs ap x env rq reply ap' x')
  have "\<And>env' rq' op ev d. (env', rq') \<in> set rqs \<Longrightarrow> op \<in> server_ops rt env' rq' \<Longrightarrow> ue_sha ev = acc_sha (sy_account env') \<Longrightarrow>
       P d \<Longrightarrow> P (db_apply ev op d)" by (rule run_serves.prems(2)) auto
  note prev = run_serves.IH [OF run_serves.prems(1) this]
  show ?case unfolding fst_conv
    by (rule moves_invariant [OF handle_ops [OF run_serves.hyps(2)]])
      (use prev in simp, rule run_serves.prems(2) [of env rq], simp_all)
qed (simp_all add: tables_def)

lemma run_limiter_wf: "server_run rt s rqs s' \<Longrightarrow> limiter_wf (app_limiter (fst s)) \<Longrightarrow> limiter_wf (app_limiter (fst s'))"
proof (induction rule: server_run.induct)
  case (run_serves s rqs ap x env rq reply ap' x')
  from run_serves.hyps(2) show ?case
  proof (cases rule: handle_cases)
    case (ran ap1 user e)
    then show ?thesis using dispatch_moves [of env ap1 user e x] run_serves.IH run_serves.prems by simp
  qed (use run_serves.IH run_serves.prems in simp)
qed simp_all

text \<open>The constraints the migrations declare, as every operation keeps them.\<close>

definition schema_holds :: "UserDb \<Rightarrow> bool" where
  "schema_holds db = satisfies (rows_of db) live_schema"

lemma schema_apply: "schema_holds db \<Longrightarrow> schema_holds (db_apply e op db)"
  by (simp add: schema_holds_def store_invariant_is_schema db_wf_apply usage_keys_apply)

lemma schema_moves: "db_moves sha A db db' \<Longrightarrow> schema_holds db \<Longrightarrow> schema_holds db'"
  by (erule moves_invariant) (auto intro: schema_apply)

text \<open>The tables and the buckets of a started server.\<close>

lemma started_sound:
  assumes "main env dk st = (Inr ap, dk', db)" and "schema_holds (st_users st)"
  shows "schema_holds (tables ap) \<and> limiter_wf (app_limiter ap)"
proof -
  have c: "schema_holds (snd (create_user uuid ts now email name ph role (st_users st)))" for uuid ts now email name ph role
    by (rule schema_moves [OF store_moves(1) assms(2)]) (rule UNIV_I)
  have b: "schema_holds (snd (bootstrap_admin_if_needed ac r (st_users st)))" for ac r
    using c by (auto simp: bootstrap_admin_if_needed_def assms(2) split_def split: sum.split)
  have l: "limiter_wf (start_limiter r t)" for r t
    by (simp add: start_limiter_def limiter_disabled_def limiter_wf_new)
  show ?thesis using assms(1) b [of "sx_account env" "sx_random18 env"] l assms(2)
    by (auto simp: main_def new_app_def tables_def split: prod.split_asm outcome.split_asm option.split_asm sum.split_asm if_split_asm)
qed

subsection \<open>What a run keeps\<close>

definition accounts :: "UserDb \<Rightarrow> (string \<times> string \<times> string) list" where
  "accounts db = map (\<lambda>r. (ur_id r, ur_email r, ur_role r)) (db_users db)"

fun edits_accounts :: "db_op \<Rightarrow> bool" where
  "edits_accounts (OpCreateUser uuid ts now email name ph role) = True"
| "edits_accounts (OpDeleteUser u) = True"
| "edits_accounts op = False"

lemma accounts_apply: "\<not> edits_accounts op \<Longrightarrow> accounts (db_apply e op db) = accounts db"
  by (cases op) (auto simp: accounts_def user_op_defs Let_def split: option.split)

lemma stamps_edit_nothing: "op \<in> stamps \<Longrightarrow> \<not> edits_accounts op"
  by (auto simp: stamps_def)

lemma stamps_accounts: "db_moves sha stamps db db' \<Longrightarrow> accounts db' = accounts db"
  by (rule moves_invariant [where P = "\<lambda>d. accounts d = accounts db"]) (auto simp: accounts_apply stamps_edit_nothing)

lemma accounts_Nil [simp]: "accounts db = [] \<longleftrightarrow> db_users db = []"
  by (simp add: accounts_def)

lemma may_edit_accounts:
  "may env db user e op \<Longrightarrow> edits_accounts op \<Longrightarrow> is_admin user \<or> db_users db = []"
  by (cases op) (auto split: Endpoint.split_asm)

lemma user_row_accounts: "user_row db u \<noteq> None \<longleftrightarrow> u \<in> fst ` set (accounts db)"
  by (auto simp: user_row_def find_None_iff accounts_def image_iff)

lemma account_survives:
  assumes "op \<noteq> OpDeleteUser u" and "user_row d u \<noteq> None"
  shows "user_row (db_apply e op d) u \<noteq> None"
proof (cases "edits_accounts op")
  case True
  then show ?thesis using assms unfolding user_row_accounts
    by (cases op) (auto simp: accounts_def create_user_def delete_user_def Let_def image_iff)
next
  case False
  show ?thesis using assms(2) unfolding user_row_accounts accounts_apply [OF False] .
qed

lemma may_delete_user: "may env db user e (OpDeleteUser u) \<Longrightarrow> e = DeleteUser u"
  by (cases e) simp_all

lemma server_ops_delete: "OpDeleteUser u \<in> server_ops rt env rq \<Longrightarrow> requested rt env rq (DeleteUser u)"
  unfolding server_ops_def stamps_def Un_iff mem_Collect_eq using may_delete_user by blast

lemma server_ops_token: "OpCreateApiKey uuid ts now tok u name \<in> server_ops rt env rq \<Longrightarrow> tok = ac_token (sy_account env)"
  by (auto simp: server_ops_def stamps_def)


text \<open>C10. An account outlives everything but its deletion: as long as no request asks to delete it, it is in the tables
  whatever else happens, and the set-up page of the first account stays closed.\<close>

theorem accounts_survive:
  assumes "server_run rt (ap, x) rqs (ap', x')" and "user_row (tables ap) u \<noteq> None"
    and "\<forall>(env, rq) \<in> set rqs. \<not> requested rt env rq (DeleteUser u)"
  shows "user_row (tables ap') u \<noteq> None \<and> setup_submit ac fresh hs b (tables ap') = (redirect_to ''/ui/login'', tables ap')"
proof -
  have "user_row (tables (fst (ap', x'))) u \<noteq> None"
  proof (rule run_invariant [OF assms(1)])
    fix env rq op ev d
    assume "(env, rq) \<in> set rqs" "op \<in> server_ops rt env rq" "user_row d u \<noteq> None"
    then show "user_row (db_apply ev op d) u \<noteq> None"
      using assms(3) server_ops_delete [of u rt env rq] by (intro account_survives) auto
  qed (use assms(2) in simp)
  then have row: "user_row (tables ap') u \<noteq> None" by simp
  then have "db_users (tables ap') \<noteq> []" by (auto simp: user_row_def)
  then have "list_users rd (tables ap') \<noteq> []" for rd
    unfolding list_users_def map_is_Nil_conv by (metis length_0_conv length_sort)
  with row show ?thesis by (simp add: setup_submit_def)
qed

text \<open>C17. A dead key stays dead: once no live row has the hash of a key, no run brings it back, unless a creation draws
  a token with the same hash.\<close>

theorem dead_keys_stay_dead:
  assumes "server_run rt (ap, x) rqs (ap', x')" and "key_dead (sha p) (tables ap)"
    and "\<forall>(env, rq) \<in> set rqs. acc_sha (sy_account env) = sha \<and> sha (api_key_text (ac_token (sy_account env))) \<noteq> sha p"
  shows "key_user sha rd ts p (tables ap') = None"
proof -
  have "key_dead (sha p) (tables (fst (ap', x')))"
  proof (rule run_invariant [OF assms(1)])
    fix env :: "'a ServerEnv" and rq op d and ev :: UserEnv
    assume op: "(env, rq) \<in> set rqs" "op \<in> server_ops rt env rq" "ue_sha ev = acc_sha (sy_account env)" "key_dead (sha p) d"
    then have no: "\<not> issues_hash (ue_sha ev) (sha p) op"
      using assms(3) by (cases op) (auto dest: server_ops_token)
    show "key_dead (sha p) (db_apply ev op d)" using no op(4) by (rule key_dead_apply)
  qed (use assms(2) in simp)
  then show ?thesis by (simp add: key_dead_no_user)
qed

text \<open>C15. Roles are not gained: a request of a caller who is no admin, whatever it asks, neither creates nor deletes an
  account and changes no email address and no role, once there is an account at all.\<close>

theorem ordinary_requests_keep_accounts:
  assumes "handle rt env rq ap x = (reply, ap', x')" and "db_users (tables ap) \<noteq> []"
    and "\<And>user. caller env rq ap = Run user \<Longrightarrow> \<not> is_admin user"
  shows "accounts (tables ap') = accounts (tables ap)"
proof -
  from handle_moves [OF assms(1)] obtain db where m: "db_moves (acc_sha (sy_account env)) stamps (tables ap) db"
    "db_moves (acc_sha (sy_account env))
       {op. \<exists>user e. requested rt env rq e \<and> caller env rq ap = Run user \<and> may (sy_account env) db user e op} db (tables ap')"
    by blast
  have a: "accounts db = accounts (tables ap)" using stamps_accounts [OF m(1)] .
  then have "db_users db \<noteq> []" using assms(2) accounts_Nil by metis
  then have "\<not> edits_accounts op"
    if "op \<in> {op. \<exists>user e. requested rt env rq e \<and> caller env rq ap = Run user \<and> may (sy_account env) db user e op}" for op
    using that assms(3) may_edit_accounts by blast
  then have "accounts (tables ap') = accounts db"
    by (intro moves_invariant [where P = "\<lambda>d. accounts d = accounts db", OF m(2)]) (auto simp: accounts_apply)
  with a show ?thesis by simp
qed

subsection \<open>The set-up page opens again\<close>

lemma handle_reached:
  assumes "caller env rq ap = Run user" and "\<not> is_rate_limited_path (rq_path rq)" and "requested rt env rq e"
  obtains ap1 where "handle rt env rq ap x = dispatch env user e ap1 x" and "accounts (tables ap1) = accounts (tables ap)"
proof -
  let ?e = "ac_auth (sy_account env)"
  obtain t1 t2 t3 where t: "sy_rates env = (t1, t2, t3)" by (rule prod_cases3)
  obtain db where m: "auth_middleware ?e (auth (app_config ap)) rq (pl_db (app_pipe ap)) = (Run user, db)"
    using assms(1) unfolding caller_def by (metis prod.collapse)
  let ?routed = "rt route_table (rq_method rq) (rq_path rq)"
  have s: "serve rt ?e (app_config ap) t1 t2 t3 rq (pl_db (app_pipe ap), app_limiter ap) = (Reached user ?routed, db, app_limiter ap)"
    using assms(2) by (simp add: serve_def m ratelimit_middleware_def)
  define ap1 where "ap1 = ap\<lparr>app_pipe := (app_pipe ap)\<lparr>pl_db := db\<rparr>, app_limiter := app_limiter ap\<rparr>"
  obtain h ps where r: "?routed = Handler h ps" "sy_extract env h ps = Inr e" using assms(3) by (auto simp: requested_def)
  have "handle rt env rq ap x = dispatch env user e ap1 x"
    unfolding handle_def t prod.case s Let_def ap1_def by (simp add: run_route_def r)
  moreover have "accounts (tables ap1) = accounts (tables ap)"
    using stamps_accounts [OF serve_moves [OF s]] by (simp add: tables_def ap1_def)
  ultimately show thesis using that by blast
qed

text \<open>C16. Deleting the last account opens the set-up page again: an admin may delete the only account, its own included;
  whoever then sends the form of the first set-up, without any credential, is made an admin.\<close>

theorem setup_reopens:
  assumes "caller env rq ap = Run user" and "is_admin user" and "\<not> is_rate_limited_path (rq_path rq)"
    and "accounts (tables ap) = [(u, email, role)]" and "requested rt env rq (DeleteUser u)"
    and "handle rt env rq ap x = (reply, ap1, x1)"
    and "caller env' rq' ap1 = Run (anonymous_ctx via)" and "\<not> is_rate_limited_path (rq_path rq')"
    and "requested rt env' rq' (SetupSubmit hs \<lparr>lr_api_key = k, lr_email = Some mail, lr_password = Some pw\<rparr>)"
    and "CHR ''@'' \<in> set (to_lowercase (trim mail))" and "8 \<le> length pw"
  shows "\<exists>reply' ap2. handle rt env' rq' ap1 x1 = (reply', ap2, x1)
     \<and> accounts (tables ap2) = [(ac_uuid (sy_account env'), to_lowercase (trim mail), ''admin'')]"
proof -
  obtain a where a: "handle rt env rq ap x = dispatch env user (DeleteUser u) a x" "accounts (tables a) = accounts (tables ap)"
    using handle_reached [OF assms(1,3,5)] .
  have one: "accounts (tables a) = [(u, email, role)]" using a(2) assms(4) by simp
  have "accounts (tables ap1) = []"
    using one a(1) assms(2,6)
    by (auto simp: answer_def on_users_def delete_user_endpoint_def tables_def accounts_def delete_user_def)
  moreover obtain b where b: "handle rt env' rq' ap1 x1
      = dispatch env' (anonymous_ctx via) (SetupSubmit hs \<lparr>lr_api_key = k, lr_email = Some mail, lr_password = Some pw\<rparr>) b x1"
    "accounts (tables b) = accounts (tables ap1)" using handle_reached [OF assms(7,8,9)] .
  ultimately have none: "db_users (pl_db (app_pipe b)) = []" by (simp add: tables_def flip: accounts_Nil)
  have mail: "mail \<noteq> []" using assms(10) by (auto simp: trim_def to_lowercase_def)
  let ?db = "pl_db (app_pipe b)"
  let ?ac = "sy_account env'"
  have made: "accounts (snd (setup_submit ?ac fresh hs \<lparr>lr_api_key = k, lr_email = Some mail, lr_password = Some pw\<rparr> ?db))
      = [(ac_uuid ?ac, to_lowercase (trim mail), ''admin'')]" for fresh
    using assms(10,11) mail none
    by (auto simp: setup_submit_def list_users_def create_user_def new_session_def create_session_cookie_def create_session_def
        accounts_def Let_def split: prod.split sum.split)
  show ?thesis unfolding b(1) dispatch.simps using made [of "sy_session env'"]
    by (auto simp: answer_def on_users_def tables_def split: prod.split)
qed

subsection \<open>Concrete runs\<close>

definition root_config :: RouterConfig where
  "root_config = config_default\<lparr>auth := auth_default\<lparr>au_admin_key := Some ''root''\<rparr>\<rparr>"

definition one_user :: UserDb where
  "one_user = db_empty\<lparr>db_users := take 1 (db_users demo_accounts)\<rparr>"

definition delete_request :: HttpRequest where
  "delete_request = (bare_request ''DELETE'' ''/admin/users/u1'')\<lparr>rq_authorization := Some ''Bearer root''\<rparr>"

lemma delete_route: "plain_routing route_table (rq_method delete_request) (rq_path delete_request) = Handler ''delete_user'' [''u1'']"
  unfolding delete_request_def bare_request_def by simp code_simp

lemma requests:
  "requested plain_routing demo_server delete_request (DeleteUser ''u1'')"
  "requested plain_routing demo_server setup_request (SetupSubmit (\<lambda>_. None) demo_form)"
  "requested plain_routing demo_server setup_request e \<Longrightarrow> e = SetupSubmit (\<lambda>_. None) demo_form"
  by (simp_all add: requested_def delete_route setup_route demo_extract_def)

lemma root_token: "extract_token demo_auth delete_request = ''root''"
  by (simp add: extract_token_def delete_request_def bare_request_def demo_auth_def strip_prefix_def trim_def is_whitespace_def)

lemma root_calls: "caller demo_server delete_request (with_users db (demo_app root_config)) = Run legacy_ctx"
proof -
  have "try_api_key demo_auth ''root'' db = (None, db)" by (simp add: try_api_key_def)
  moreover have "try_legacy demo_auth (auth root_config) ''root'' = Some legacy_ctx"
    by (simp add: try_legacy_Some_iff root_config_def auth_default_def keys_from_config_def)
  ultimately show ?thesis by (simp add: caller_def auth_middleware_def root_token)
qed

lemma guest_calls: "\<exists>via. caller demo_server setup_request ap = Run (anonymous_ctx via)"
proof -
  let ?cfg = "auth (app_config ap)"
  have "fst (auth_middleware demo_auth ?cfg setup_request (pl_db (app_pipe ap))) = anonymous_outcome demo_auth ?cfg setup_request"
    using auth_middleware_cases [of demo_auth ?cfg setup_request "pl_db (app_pipe ap)"] no_credential
    unfolding setup_request_def by blast
  moreover have "is_public_path (rq_path setup_request)"
    by (simp add: setup_request_def bare_request_def is_public_path_def)
  ultimately show ?thesis by (auto simp: caller_def anonymous_outcome_def Let_def)
qed

text \<open>A first start, then a request.\<close>

definition demo_start :: StartEnv where
  "demo_start = \<lparr>sx_service = toy_service [] True None,
     sx_account = demo_account\<lparr>ac_auth := demo_auth\<lparr>ae_var := (\<lambda>v. if v = ''ROUTER_MASTER_KEY_FILE'' then Some ''key'' else None)\<rparr>\<rparr>,
     sx_file = (\<lambda>p. Some (replicate KEY_LEN 7)), sx_fresh_key = [], sx_random18 = [1, 2, 3], sx_now = 0, sx_open_error = None,
     sx_bind_error = (\<lambda>_. None)\<rparr>"

lemma demo_starts: "\<exists>ap dk db. main demo_start empty_disk demo_stored = (Inr ap, dk, db)"
proof -
  have c: "\<exists>db. bootstrap_admin_if_needed ac r db_empty = (Inr (), db)" for ac r
    by (simp add: bootstrap_admin_if_needed_def list_users_def db_empty_def create_user_def Let_def
        to_lowercase_def lower_char_def trim_def is_whitespace_def)
  then obtain db where b: "bootstrap_admin_if_needed (sx_account demo_start) (sx_random18 demo_start) db_empty = (Inr (), db)" by blast
  have m: "start_master demo_start config_default = Inr (replicate KEY_LEN 7)"
    by (simp add: start_master_def demo_start_def config_default_def auth_default_def from_env_strict_def mk_from_slice_def ok_or_def)
  have l: "\<exists>dk. load (sx_service demo_start) empty_disk = (Done config_default, dk)"
    by (simp add: load_def demo_start_def empty_disk_def write_minimal_config_def write_config_ok)
  have o: "sx_open_error demo_start = None" "sx_bind_error demo_start t = None" for t by (simp_all add: demo_start_def)
  from l obtain dk where d: "load (sx_service demo_start) empty_disk = (Done config_default, dk)" by blast
  show ?thesis by (simp add: main_def d m b o demo_stored_def)
qed

lemma one_request: "server_run rt (ap, x) [(env, rq)] (snd (handle rt env rq ap x))"
proof -
  obtain reply ap' x' where h: "handle rt env rq ap x = (reply, ap', x')" by (rule prod_cases3)
  show ?thesis using run_serves [OF run_starts h] h by simp
qed


theorem accounts_survive_witness:
  "user_row (tables (fst (snd (handle plain_routing demo_server delete_request (with_users demo_accounts (demo_app root_config)) 0)))) ''u2'' \<noteq> None"
proof -
  let ?ap = "with_users demo_accounts (demo_app root_config)"
  obtain ap' x' where s: "snd (handle plain_routing demo_server delete_request ?ap 0) = (ap', x')" by (rule prod.exhaust)
  have row: "user_row (tables ?ap) ''u2'' \<noteq> None" by (simp add: tables_def demo_accounts_def user_row_def)
  have "\<not> requested plain_routing demo_server delete_request (DeleteUser ''u2'')"
    by (simp add: requested_def delete_route demo_extract_def)
  then have "\<forall>(env, rq) \<in> set [(demo_server, delete_request)]. \<not> requested plain_routing env rq (DeleteUser ''u2'')" by simp
  from accounts_survive [OF one_request [of plain_routing ?ap 0 demo_server delete_request, unfolded s] row this]
  show ?thesis unfolding s by simp
qed

theorem dead_keys_stay_dead_witness:
  "key_user rev (ae_rd demo_auth) ''2026-01-01'' ''tk-lost''
     (tables (fst (snd (handle plain_routing demo_server setup_request (with_users demo_accounts (demo_app root_config)) 0)))) = None"
proof -
  let ?ap = "with_users demo_accounts (demo_app root_config)"
  obtain ap' x' where s: "snd (handle plain_routing demo_server setup_request ?ap 0) = (ap', x')" by (rule prod.exhaust)
  have dead: "key_dead (rev ''tk-lost'') (tables ?ap)" by (simp add: key_dead_def tables_def demo_accounts_def)
  have "\<forall>(env, rq) \<in> set [(demo_server, setup_request)]. acc_sha (sy_account env) = rev
      \<and> rev (api_key_text (ac_token (sy_account env))) \<noteq> rev ''tk-lost''"
    by (simp add: demo_account_def demo_auth_def api_key_text_def)
  from dead_keys_stay_dead [OF one_request [of plain_routing ?ap 0 demo_server setup_request, unfolded s] dead this]
  show ?thesis unfolding s by simp
qed

theorem ordinary_requests_keep_accounts_witness:
  "accounts (tables (fst (snd (handle plain_routing demo_server setup_request (with_users demo_accounts (demo_app root_config)) 0))))
     = [(''u1'', ''ann@x.io'', ''user''), (''u2'', ''bob@x.io'', ''user'')]"
proof -
  let ?ap = "with_users demo_accounts (demo_app root_config)"
  obtain reply ap' x' where h: "handle plain_routing demo_server setup_request ?ap 0 = (reply, ap', x')" by (rule prod_cases3)
  have some: "db_users (tables ?ap) \<noteq> []" by (simp add: tables_def demo_accounts_def)
  have guest: "\<not> is_admin user" if "caller demo_server setup_request ?ap = Run user" for user
    using guest_calls [of ?ap] that by (auto simp: anonymous_ctx_def is_admin_def)
  have "accounts (tables ?ap) = [(''u1'', ''ann@x.io'', ''user''), (''u2'', ''bob@x.io'', ''user'')]"
    by (simp add: tables_def demo_accounts_def accounts_def)
  with ordinary_requests_keep_accounts [OF h some guest] show ?thesis unfolding h by simp
qed

theorem setup_reopens_witness:
  "\<exists>ap1 reply' ap2. handle plain_routing demo_server setup_request ap1 (0 :: nat) = (reply', ap2, 0)
     \<and> fst (snd (handle plain_routing demo_server delete_request (with_users one_user (demo_app root_config)) 0)) = ap1
     \<and> accounts (tables ap2) = [(''s2'', ''eve@x.io'', ''admin'')]"
proof -
  let ?ap = "with_users one_user (demo_app root_config)"
  obtain reply ap1 x1 where h: "handle plain_routing demo_server delete_request ?ap 0 = (reply, ap1, x1)" by (rule prod_cases3)
  have paths: "\<not> is_rate_limited_path (rq_path delete_request)" "\<not> is_rate_limited_path (rq_path setup_request)"
    by (simp_all add: is_rate_limited_path_def delete_request_def setup_request_def bare_request_def)
  have a: "is_admin legacy_ctx" by (simp add: is_admin_def legacy_ctx_def)
  have one: "accounts (tables ?ap) = [(''u1'', ''ann@x.io'', ''user'')]"
    by (simp add: tables_def one_user_def demo_accounts_def accounts_def db_empty_def)
  have mail: "to_lowercase (trim ''eve@x.io'') = ''eve@x.io''"
    by (simp add: to_lowercase_def lower_char_def trim_def is_whitespace_def)
  have at_sign: "CHR ''@'' \<in> set (to_lowercase (trim ''eve@x.io''))" unfolding mail by simp
  obtain via where guest: "caller demo_server setup_request ap1 = Run (anonymous_ctx via)" using guest_calls by blast
  obtain b where b: "handle plain_routing demo_server delete_request ?ap 0 = dispatch demo_server legacy_ctx (DeleteUser ''u1'') b 0"
    by (rule handle_reached [OF root_calls [of one_user] paths(1) requests(1)])
  have x1: "x1 = 0" using h unfolding b dispatch.simps by (simp add: answer_def)
  have len: "8 \<le> length ''long enough''" by simp
  from setup_reopens [OF root_calls a paths(1) one requests(1) h guest paths(2) requests(2) [unfolded demo_form_def] at_sign len]
  show ?thesis unfolding h mail x1 by (auto simp: demo_account_def)
qed

end
