(* ===== verification/Actions.thy ===== *)
theory Actions
  imports Server WebForms
begin

section \<open>The buttons of the pages and the route table\<close>

text \<open>
  Where the rows of the pages (\<open>src/server/ui.rs\<close>) send their requests, against the route table of
  \<open>src/server/router.rs\<close>: each address is routed to the handler that acts on the row.
\<close>

text \<open>The patterns of the table, split once.\<close>

definition split_table :: "(string list \<times> methods) list" where
  "split_table = map (\<lambda>(p, ms). (segments p, ms)) route_table"

fun find_split :: "(string list \<times> methods) list \<Rightarrow> string list \<Rightarrow> (methods \<times> string list) option" where
  "find_split [] ss = None"
| "find_split ((p, ms) # rs) ss = (case match_segments p ss of Some ps \<Rightarrow> Some (ms, ps) | None \<Rightarrow> find_split rs ss)"

lemma find_route_split: "find_route t path = find_split (map (\<lambda>(p, ms). (segments p, ms)) t) (segments path)"
  by (induction t) (auto simp: match_path_def split: option.split)

text \<open>The rows that can match an address of four segments.\<close>

definition row_fits :: "string list \<Rightarrow> string list \<times> methods \<Rightarrow> bool" where
  "row_fits front r = (length (fst r) = Suc (length front)
     \<and> list_all (\<lambda>(p, s). starts_with p '':'' \<or> p = s) (zip (fst r) front))"

lemma match_segments_length: "match_segments ps ss = Some xs \<Longrightarrow> length ps = length ss"
  by (induction ps ss arbitrary: xs rule: match_segments.induct) (auto split: if_split_asm)

lemma match_segments_zip: "match_segments ps ss = Some xs \<Longrightarrow> list_all (\<lambda>(p, s). starts_with p '':'' \<or> p = s) (zip ps ss)"
  by (induction ps ss arbitrary: xs rule: match_segments.induct) (auto split: if_split_asm)

lemma find_split_filter: "find_split rs (front @ [k]) = find_split (filter (row_fits front) rs) (front @ [k])"
proof (induction rs)
  case (Cons r rs)
  obtain p ms where r: "r = (p, ms)" by (rule prod.exhaust)
  show ?case
  proof (cases "match_segments p (front @ [k])")
    case None
    then show ?thesis using Cons by (simp add: r)
  next
    case (Some xs)
    from match_segments_length [OF Some] obtain q l where p: "p = q @ [l]" "length q = length front"
      by (cases p rule: rev_cases) auto
    have "row_fits front r" using match_segments_zip [OF Some] p zip_append [of q front "[l]" "[]"] by (simp add: row_fits_def r)
    then show ?thesis using Some by (simp add: r)
  qed
qed simp

lemma fitting_rows:
  "filter (row_fits [[], ''admin'', ''tiers'']) split_table =
     [([[], ''admin'', ''tiers''] @ ['':tier''], [(''POST'', ''update_tier''), (''PATCH'', ''update_tier''), (''PUT'', ''update_tier'')])]"
  "filter (row_fits [[], ''admin'', ''rules'']) split_table =
     [([[], ''admin'', ''rules''] @ ['':index''], [(''POST'', ''delete_rule''), (''DELETE'', ''delete_rule'')])]"
  "filter (row_fits [[], ''admin'', ''ui'', ''remove'']) split_table =
     [([[], ''admin'', ''ui'', ''remove''] @ ['':id''], [(''POST'', ''ui_remove_provider'')])]"
  "filter (row_fits [[], ''auth'', ''keys'']) split_table = [([[], ''auth'', ''keys''] @ ['':id''], [(''DELETE'', ''delete_own_key'')])]"
  by code_simp+

definition plain_segment :: "string \<Rightarrow> bool" where
  "plain_segment k \<longleftrightarrow> k \<noteq> [] \<and> CHR ''/'' \<notin> set k"

lemma row_addresses:
  assumes "plain_segment k"
  shows "segments (''/admin/tiers/'' @ k) = [[], ''admin'', ''tiers''] @ [k]" "segments (''/admin/rules/'' @ k) = [[], ''admin'', ''rules''] @ [k]"
    "segments (''/admin/ui/remove/'' @ k) = [[], ''admin'', ''ui'', ''remove''] @ [k]" "segments (''/auth/keys/'' @ k) = [[], ''auth'', ''keys''] @ [k]"
  using assms by (simp_all add: segments_def split_on_single plain_segment_def)

lemma match_front:
  "list_all (\<lambda>p. \<not> starts_with p '':'') front \<Longrightarrow> starts_with v '':'' \<Longrightarrow> k \<noteq> [] \<Longrightarrow>
     match_segments (front @ [v]) (front @ [k]) = Some [k]"
  by (induction front) simp_all

lemma routed_row:
  assumes "segments path = front @ [k]" and "filter (row_fits front) split_table = [(front @ [v], ms)]"
    and "list_all (\<lambda>p. \<not> starts_with p '':'') front" and "starts_with v '':''" and "k \<noteq> []" and "m \<noteq> ''HEAD''"
    and "map_of ms m = Some h"
  shows "plain_routing route_table m path = Handler h [k]"
proof -
  have "find_route route_table path = Some (ms, [k])"
    unfolding find_route_split split_table_def [symmetric] assms(1) find_split_filter [of split_table] assms(2)
    by (simp add: match_front assms(3-5))
  with assms(6,7) show ?thesis by (simp add: plain_routing_def)
qed

lemma routed_rows:
  assumes "plain_segment k"
  shows "plain_routing route_table ''POST'' (''/admin/tiers/'' @ k) = Handler ''update_tier'' [k]"
    "plain_routing route_table ''POST'' (''/admin/rules/'' @ k) = Handler ''delete_rule'' [k]"
    "plain_routing route_table ''POST'' (''/admin/ui/remove/'' @ k) = Handler ''ui_remove_provider'' [k]"
    "plain_routing route_table ''DELETE'' (''/auth/keys/'' @ k) = Handler ''delete_own_key'' [k]"
proof -
  have k: "k \<noteq> []" using assms by (simp add: plain_segment_def)
  have tier: "map_of [(''POST'', ''update_tier''), (''PATCH'', ''update_tier''), (''PUT'', ''update_tier'')] ''POST'' = Some ''update_tier''"
    by code_simp
  show "plain_routing route_table ''POST'' (''/admin/tiers/'' @ k) = Handler ''update_tier'' [k]"
    by (rule routed_row [OF row_addresses(1) [OF assms] fitting_rows(1)]) (simp_all add: k tier)
  show "plain_routing route_table ''POST'' (''/admin/rules/'' @ k) = Handler ''delete_rule'' [k]"
    by (rule routed_row [OF row_addresses(2) [OF assms] fitting_rows(2)]) (simp_all add: k)
  show "plain_routing route_table ''POST'' (''/admin/ui/remove/'' @ k) = Handler ''ui_remove_provider'' [k]"
    by (rule routed_row [OF row_addresses(3) [OF assms] fitting_rows(3)]) (simp_all add: k)
  show "plain_routing route_table ''DELETE'' (''/auth/keys/'' @ k) = Handler ''delete_own_key'' [k]"
    by (rule routed_row [OF row_addresses(4) [OF assms] fitting_rows(4)]) (simp_all add: k)
qed

text \<open>The address in a row.\<close>

lemma contains_mid: "s = a @ n @ b \<Longrightarrow> contains s n"
  unfolding contains_iff by blast

lemma row_texts:
  "contains (tier_row (name, t)) (''hx-post=\"/admin/tiers/'' @ ui_escape name @ ''\"'')"
  "contains (rule_row (i, r)) (''hx-post=\"/admin/rules/'' @ show_nat i @ ''\"'')"
  "contains (provider_row p) (''hx-post=\"/admin/ui/remove/'' @ ui_escape (pc_id p) @ ''\"'')"
  "contains (key_row_html ui k) (''hx-delete=\"/auth/keys/'' @ k_id k @ ''\"'')"
proof -
  show "contains (tier_row (name, t)) (''hx-post=\"/admin/tiers/'' @ ui_escape name @ ''\"'')"
    unfolding tier_row_def prod.case Let_def contains_iff
    by (rule exI [where x = "''<tr id=\"tier-'' @ ui_escape name @ ''\">\<newline>''
      @ ''              <td><strong>'' @ ui_escape name @ ''</strong></td>\<newline>'' @ ''              <td><form ''"]) simp
  show "contains (rule_row (i, r)) (''hx-post=\"/admin/rules/'' @ show_nat i @ ''\"'')"
    unfolding rule_row_def prod.case contains_iff
    by (rule exI [where x = "''<tr id=\"rule-'' @ show_nat i @ ''\">\<newline>'' @ ''              <td><code>'' @ show_nat i @ ''</code></td>\<newline>''
      @ ''              <td><code>'' @ ui_escape (render_condition (dr_condition r)) @ ''</code></td>\<newline>''
      @ ''              <td><span class=\"badge healthy\">'' @ ui_escape (dr_tier r) @ ''</span></td>\<newline>''
      @ ''              <td><form ''"]) simp
  show "contains (key_row_html ui k) (''hx-delete=\"/auth/keys/'' @ k_id k @ ''\"'')"
    unfolding key_row_html_def contains_iff
    by (rule exI [where x = "''<tr><td>'' @ ui_escape (k_name k) @ ''</td><td><code>'' @ ui_escape (k_key_prefix k)
      @ ''</code></td><td>'' @ ui_date ui ''%Y-%m-%d'' (k_created_at k) @ ''</td><td>''
      @ (case k_last_used_at k of None \<Rightarrow> em_dash | Some d \<Rightarrow> ui_date ui ''%Y-%m-%d %H:%M'' d) @ ''</td><td><button ''"]) simp
  have skip: "contains (x @ y) n" if "contains y n" for x y n :: string using that by (rule contains_right)
  have last: "contains (''              <td><form hx-post=\"/admin/ui/remove/'' @ q @ ''\" hx-target=\"#provider-list\" hx-swap=\"outerHTML\" hx-confirm=\"Remove provider '' @ z)
      (''hx-post=\"/admin/ui/remove/'' @ q @ ''\"'')" for q z
    unfolding contains_iff by (rule exI [where x = "''              <td><form ''"]) simp
  show "contains (provider_row p) (''hx-post=\"/admin/ui/remove/'' @ ui_escape (pc_id p) @ ''\"'')"
    unfolding provider_row_def Let_def by (rule last skip)+
qed

lemma digits_no_slash: "list_all (\<lambda>n. digit_char n \<noteq> CHR ''/'') [0, 1, 2, 3, 4, 5, 6, 7, 8, 9]"
  by code_simp

lemma digit_no_slash: "n < 10 \<Longrightarrow> digit_char n \<noteq> CHR ''/''"
proof -
  assume "n < 10"
  then have "n \<in> set [0, 1, 2, 3, 4, 5, 6, 7, 8, 9]" by auto
  with digits_no_slash show ?thesis unfolding list_all_iff by blast
qed

lemma number_segment: "plain_segment (show_nat n)"
proof (induction n rule: show_nat.induct)
  case (1 n)
  show ?case
  proof (cases "n < 10")
    case True
    then have "show_nat n = [digit_char n]" by (subst show_nat.simps) simp
    then show ?thesis using digit_no_slash [OF True] by (simp add: plain_segment_def)
  next
    case False
    then have "show_nat n = show_nat (n div 10) @ [digit_char (n mod 10)]" by (subst show_nat.simps) simp
    then show ?thesis using 1 [OF False] digit_no_slash [of "n mod 10"] by (simp add: plain_segment_def)
  qed
qed

text \<open>The buttons of the pages reach their handlers: the row of a tier, a rule, a provider or a key sends its request to an
  address that the route table gives to the handler of that kind, with the name of the row as its parameter.\<close>

theorem row_buttons_reach_handlers:
  assumes "plain_segment (ui_escape name)" and "plain_segment (ui_escape (pc_id p))" and "plain_segment (k_id k)"
  shows "(contains (tier_row (name, t)) (''hx-post=\"/admin/tiers/'' @ ui_escape name @ ''\"'')
      \<and> plain_routing route_table ''POST'' (''/admin/tiers/'' @ ui_escape name) = Handler ''update_tier'' [ui_escape name])
    \<and> (contains (rule_row (i, r)) (''hx-post=\"/admin/rules/'' @ show_nat i @ ''\"'')
      \<and> plain_routing route_table ''POST'' (''/admin/rules/'' @ show_nat i) = Handler ''delete_rule'' [show_nat i])
    \<and> (contains (provider_row p) (''hx-post=\"/admin/ui/remove/'' @ ui_escape (pc_id p) @ ''\"'')
      \<and> plain_routing route_table ''POST'' (''/admin/ui/remove/'' @ ui_escape (pc_id p))
          = Handler ''ui_remove_provider'' [ui_escape (pc_id p)])
    \<and> (contains (key_row_html ui k) (''hx-delete=\"/auth/keys/'' @ k_id k @ ''\"'')
      \<and> plain_routing route_table ''DELETE'' (''/auth/keys/'' @ k_id k) = Handler ''delete_own_key'' [k_id k])"
proof -
  have "plain_segment (show_nat i)" by (rule number_segment)
  then show ?thesis using row_texts routed_rows assms by blast
qed

theorem row_buttons_reach_handlers_witness:
  "plain_routing route_table ''POST'' (''/admin/tiers/'' @ ui_escape ''fast'') = Handler ''update_tier'' [ui_escape ''fast'']
     \<and> plain_routing route_table ''POST'' (''/admin/ui/remove/'' @ ui_escape (pc_id (plain_provider\<lparr>pc_id := ''groq''\<rparr>)))
         = Handler ''ui_remove_provider'' [ui_escape (pc_id (plain_provider\<lparr>pc_id := ''groq''\<rparr>))]"
proof -
  let ?key = "\<lparr>k_id = ''k1'', k_user_id = ''u1'', k_key_hash = [], k_key_prefix = [], k_name = [], k_last_used_at = None,
     k_expires_at = None, k_created_at = 0, k_revoked = False\<rparr>"
  have s: "plain_segment (ui_escape ''fast'')" "plain_segment (ui_escape (pc_id (plain_provider\<lparr>pc_id := ''groq''\<rparr>)))"
    by code_simp+
  have k: "plain_segment (k_id ?key)" by (simp add: plain_segment_def)
  show ?thesis using row_buttons_reach_handlers [OF s k] by blast
qed

end
